(* ===== verification/Prelude.thy ===== *)
theory Prelude
  imports Complex_Main "HOL-Library.Word" "HOL-Library.Char_ord" "HOL-Library.List_Lexorder"
    "HOL-Library.Sublist" "HOL-Library.AList"
begin

text \<open>
  What the components share: Go's 64-bit signed arithmetic on \<open>int\<close> with the wrap-around
  written out, Go strings as byte strings (\<open>string\<close> is a list of 8-bit \<open>char\<close>s), the
  functions of the packages \<open>strings\<close>, \<open>strconv\<close> and \<open>sort\<close> that the
  program calls, and the generic lemmas about them.  White space and letter case are the ASCII
  ones: the program's identifiers, keys, addresses and configuration keywords are ASCII.
\<close>

named_theorems go_simps \<open>facts about the Go library functions, for \<open>simp add:\<close>\<close>

type_synonym byte = "8 word"

section \<open>Machine integers\<close>

text \<open>Go's \<open>int\<close>, \<open>int64\<close> (both 64 bits on the target): the value after wrap-around.\<close>

definition i64 :: "int \<Rightarrow> int" where
  "i64 x = (x + 2 ^ 63) mod 2 ^ 64 - 2 ^ 63"

definition in64 :: "int \<Rightarrow> bool" where
  "in64 x \<longleftrightarrow> - (2 ^ 63) \<le> x \<and> x < 2 ^ 63"

lemma i64_id [go_simps]: "in64 x \<Longrightarrow> i64 x = x"
  by (simp add: i64_def in64_def)

lemma in64_i64 [go_simps, simp]: "in64 (i64 x)"
proof -
  have "0 \<le> (x + 2 ^ 63) mod 2 ^ 64" "(x + 2 ^ 63) mod 2 ^ 64 < 2 ^ 64"
    by simp_all
  then show ?thesis by (simp add: i64_def in64_def)
qed

lemma in64_nonneg: "0 \<le> x \<Longrightarrow> x < 2 ^ 63 \<Longrightarrow> in64 x"
  by (simp add: in64_def)

text \<open>Saturating difference, as \<open>time.Time.Sub\<close> computes a \<open>time.Duration\<close>.\<close>

definition sat64 :: "int \<Rightarrow> int" where
  "sat64 x = (if x < - (2 ^ 63) then - (2 ^ 63) else if 2 ^ 63 \<le> x then 2 ^ 63 - 1 else x)"

lemma sat64_id [go_simps]: "in64 x \<Longrightarrow> sat64 x = x"
  by (simp add: sat64_def in64_def)

section \<open>Strings\<close>

definition is_space :: "char \<Rightarrow> bool" where
  "is_space c \<longleftrightarrow> c = CHR '' '' \<or> c = CHR 0x0A \<or> c = CHR 0x09 \<or> c = CHR 0x0D
     \<or> c = CHR 0x0B \<or> c = CHR 0x0C"

text \<open>\<open>strings.TrimSpace\<close>\<close>

definition TrimSpace :: "string \<Rightarrow> string" where
  "TrimSpace s = rev (dropWhile is_space (rev (dropWhile is_space s)))"

definition trimmed :: "string \<Rightarrow> bool" where
  "trimmed s \<longleftrightarrow> s = [] \<or> \<not> is_space (hd s) \<and> \<not> is_space (last s)"

lemma TrimSpace_Nil [simp]: "TrimSpace [] = []"
  by (simp add: TrimSpace_def)

lemma dropWhile_is_space_hd: "s = [] \<or> \<not> is_space (hd s) \<Longrightarrow> dropWhile is_space s = s"
  by (cases s) auto

lemma TrimSpace_trimmed [go_simps]: "trimmed s \<Longrightarrow> TrimSpace s = s"
  unfolding TrimSpace_def trimmed_def
  by (auto simp: dropWhile_is_space_hd hd_rev)

lemma last_dropWhile_aux: "dropWhile P s \<noteq> [] \<Longrightarrow> last (dropWhile P s) = last s"
  by (metis last_append takeWhile_dropWhile_id)

lemma trimmed_TrimSpace: "trimmed (TrimSpace s)"
proof -
  let ?a = "dropWhile is_space s"
  let ?b = "dropWhile is_space (rev ?a)"
  have h: "?b \<noteq> [] \<Longrightarrow> \<not> is_space (hd ?b)"
    by (rule hd_dropWhile)
  have l: "?b \<noteq> [] \<Longrightarrow> last ?b = hd ?a"
    using last_dropWhile_aux [of is_space "rev ?a"] by (cases "?a = []") (auto simp: last_rev)
  have "?b \<noteq> [] \<Longrightarrow> ?a \<noteq> []" by (cases ?a) simp_all
  then have "?b \<noteq> [] \<Longrightarrow> \<not> is_space (hd ?a)"
    using hd_dropWhile [of is_space s] by auto
  with h l have "?b = [] \<or> \<not> is_space (hd ?b) \<and> \<not> is_space (last ?b)" by metis
  then show ?thesis
    unfolding TrimSpace_def trimmed_def by (simp add: hd_rev last_rev del: dropWhile_eq_Nil_conv) blast
qed

lemma TrimSpace_idem [go_simps, simp]: "TrimSpace (TrimSpace s) = TrimSpace s"
  by (simp add: TrimSpace_trimmed trimmed_TrimSpace)

lemma TrimSpace_space_Cons [go_simps]: "is_space c \<Longrightarrow> TrimSpace (c # s) = TrimSpace s"
  by (simp add: TrimSpace_def)

lemma TrimSpace_space_snoc [go_simps]: "is_space c \<Longrightarrow> TrimSpace (s @ [c]) = TrimSpace s"
  by (cases "\<forall>x\<in>set s. is_space x") (auto simp: TrimSpace_def dropWhile_append dest: set_dropWhileD)

lemma set_TrimSpace: "set (TrimSpace s) \<subseteq> set s"
  by (auto simp: TrimSpace_def dest!: set_dropWhileD)

text \<open>\<open>strings.ToLower\<close> and \<open>strings.EqualFold\<close>, on ASCII.\<close>

definition lower_char :: "char \<Rightarrow> char" where
  "lower_char c = (if CHR ''A'' \<le> c \<and> c \<le> CHR ''Z'' then char_of (of_char c + 32 :: nat) else c)"

definition ToLower :: "string \<Rightarrow> string" where
  "ToLower s = map lower_char s"

definition EqualFold :: "string \<Rightarrow> string \<Rightarrow> bool" where
  "EqualFold a b \<longleftrightarrow> ToLower a = ToLower b"

text \<open>\<open>strings.Split\<close> with a one-byte separator, \<open>strings.Cut\<close>, \<open>strings.Join\<close>.\<close>

fun split_on :: "char \<Rightarrow> string \<Rightarrow> string list" where
  "split_on d [] = [[]]"
| "split_on d (c # cs) =
     (if c = d then [] # split_on d cs
      else (case split_on d cs of [] \<Rightarrow> [[c]] | x # xs \<Rightarrow> (c # x) # xs))"

definition Cut :: "char \<Rightarrow> string \<Rightarrow> (string \<times> string) option" where
  "Cut d s = (if d \<in> set s
     then Some (takeWhile (\<lambda>c. c \<noteq> d) s, tl (dropWhile (\<lambda>c. c \<noteq> d) s)) else None)"

fun Join :: "string list \<Rightarrow> string \<Rightarrow> string" where
  "Join [] sep = []"
| "Join [x] sep = x"
| "Join (x # y # ys) sep = x @ sep @ Join (y # ys) sep"

text \<open>\<open>strings.IndexByte\<close> and \<open>strings.LastIndex\<close> of one byte\<close>

definition IndexByte :: "char \<Rightarrow> string \<Rightarrow> nat option" where
  "IndexByte c s = (if c \<in> set s then Some (length (takeWhile (\<lambda>x. x \<noteq> c) s)) else None)"

definition LastIndex :: "char \<Rightarrow> string \<Rightarrow> nat option" where
  "LastIndex c s = (if c \<in> set s then Some (length s - 1 - length (takeWhile (\<lambda>x. x \<noteq> c) (rev s))) else None)"

definition TrimPrefix :: "string \<Rightarrow> string \<Rightarrow> string" where
  "TrimPrefix s p = (if prefix p s then drop (length p) s else s)"

definition TrimSuffix :: "string \<Rightarrow> string \<Rightarrow> string" where
  "TrimSuffix s p = (if suffix p s then take (length s - length p) s else s)"

lemma split_on_nonempty [simp]: "split_on d s \<noteq> []"
  by (cases s) (auto split: list.splits)

lemma split_on_no_sep [go_simps]: "d \<notin> set s \<Longrightarrow> split_on d s = [s]"
  by (induction s) auto

lemma split_on_append [go_simps]: "d \<notin> set s \<Longrightarrow> split_on d (s @ d # t) = s # split_on d t"
  by (induction s) auto

lemma split_on_members: "x \<in> set (split_on d s) \<Longrightarrow> d \<notin> set x \<and> set x \<subseteq> set s"
proof (induction s arbitrary: x)
  case Nil
  then show ?case by simp
next
  case (Cons c cs)
  show ?case
  proof (cases "c = d")
    case True
    with Cons show ?thesis by auto
  next
    case False
    obtain y ys where "split_on d cs = y # ys" by (meson list.exhaust split_on_nonempty)
    with Cons False show ?thesis by fastforce
  qed
qed

lemma Join_split_on: "Join (split_on d s) [d] = s"
proof (induction s)
  case Nil
  then show ?case by simp
next
  case (Cons c cs)
  obtain y ys where "split_on d cs = y # ys" by (meson list.exhaust split_on_nonempty)
  with Cons show ?case by (cases ys) auto
qed

lemma split_on_Join:
  "xs \<noteq> [] \<Longrightarrow> \<forall>x\<in>set xs. d \<notin> set x \<Longrightarrow> split_on d (Join xs [d]) = xs"
  by (induction xs "[d]" rule: Join.induct) (auto simp: go_simps)

lemma Cut_at [go_simps]: "d \<notin> set s \<Longrightarrow> Cut d (s @ d # t) = Some (s, t)"
proof -
  assume d: "d \<notin> set s"
  then have "takeWhile (\<lambda>c. c \<noteq> d) (s @ d # t) = s" "dropWhile (\<lambda>c. c \<noteq> d) (s @ d # t) = d # t"
    by (induction s) auto
  then show ?thesis by (simp add: Cut_def)
qed

lemma Cut_none [go_simps]: "d \<notin> set s \<Longrightarrow> Cut d s = None"
  by (simp add: Cut_def)

lemma Cut_SomeD: "Cut d s = Some (a, b) \<Longrightarrow> s = a @ d # b \<and> d \<notin> set a"
proof -
  assume c: "Cut d s = Some (a, b)"
  then have "d \<in> set s" by (auto simp: Cut_def split: if_splits)
  then obtain x y where xy: "s = x @ d # y" "d \<notin> set x" by (meson split_list_first)
  with c Cut_at [of d x y] show ?thesis by simp
qed

section \<open>Decimal numbers\<close>

definition digit_char :: "nat \<Rightarrow> char" where
  "digit_char d = char_of (48 + d)"

definition is_digit :: "char \<Rightarrow> bool" where
  "is_digit c \<longleftrightarrow> CHR ''0'' \<le> c \<and> c \<le> CHR ''9''"

definition digit_val :: "char \<Rightarrow> nat" where
  "digit_val c = of_char c - 48"

text \<open>\<open>strconv.FormatUint(n, 10)\<close>, \<open>strconv.Itoa\<close>.\<close>

fun nat_str :: "nat \<Rightarrow> string" where
  "nat_str n = (if n < 10 then [digit_char n] else nat_str (n div 10) @ [digit_char (n mod 10)])"

declare nat_str.simps [simp del]

definition int_str :: "int \<Rightarrow> string" where
  "int_str n = (if n < 0 then CHR ''-'' # nat_str (nat (- n)) else nat_str (nat n))"

text \<open>The digits of a string read in base 10 on top of an accumulator; \<open>None\<close> at a non-digit.\<close>

fun dec_val :: "nat \<Rightarrow> string \<Rightarrow> nat option" where
  "dec_val a [] = Some a"
| "dec_val a (c # cs) = (if is_digit c then dec_val (10 * a + digit_val c) cs else None)"

text \<open>\<open>strconv.ParseUint(s, 10, bits)\<close>: \<open>None\<close> for a syntax or a range error.\<close>

definition ParseUint :: "nat \<Rightarrow> string \<Rightarrow> nat option" where
  "ParseUint bits s = (if s = [] then None else
     (case dec_val 0 s of None \<Rightarrow> None | Some n \<Rightarrow> if n < 2 ^ bits then Some n else None))"

text \<open>\<open>strconv.Atoi\<close> and \<open>strconv.ParseInt(s, 10, 64)\<close>: an optional sign, then digits.\<close>

definition Atoi :: "string \<Rightarrow> int option" where
  "Atoi s = (case s of [] \<Rightarrow> None
     | c # cs \<Rightarrow>
       (if c = CHR ''-'' then
          (case ParseUint 64 cs of Some n \<Rightarrow> if n \<le> 2 ^ 63 then Some (- int n) else None | None \<Rightarrow> None)
        else
          (case ParseUint 64 (if c = CHR ''+'' then cs else s) of
             Some n \<Rightarrow> if n < 2 ^ 63 then Some (int n) else None | None \<Rightarrow> None)))"

lemma of_char_digit_char [simp]: "d < 10 \<Longrightarrow> of_char (digit_char d) = 48 + d"
  by (simp add: digit_char_def)

lemma is_digit_digit_char [simp]: "d < 10 \<Longrightarrow> is_digit (digit_char d)"
  by (simp add: is_digit_def less_eq_char_def)

lemma digit_val_digit_char [simp]: "d < 10 \<Longrightarrow> digit_val (digit_char d) = d"
  by (simp add: digit_val_def)

lemma is_digit_range: "is_digit c \<longleftrightarrow> 48 \<le> (of_char c :: nat) \<and> (of_char c :: nat) \<le> 57"
  by (simp add: is_digit_def less_eq_char_def)

lemma nat_str_nonempty [simp]: "nat_str n \<noteq> []"
  by (subst nat_str.simps) simp

lemma int_str_nonempty [simp]: "int_str n \<noteq> []"
  by (simp add: int_str_def)

lemma nat_str_digits: "c \<in> set (nat_str n) \<Longrightarrow> is_digit c"
proof (induction n rule: nat_str.induct)
  case (1 n)
  then show ?case by (subst (asm) nat_str.simps) (auto split: if_splits)
qed

lemma dec_val_append:
  "dec_val a (s @ t) = (case dec_val a s of None \<Rightarrow> None | Some b \<Rightarrow> dec_val b t)"
  by (induction s arbitrary: a) auto

lemma dec_val_nat_str [go_simps]: "dec_val 0 (nat_str n) = Some n"
proof (induction n rule: nat_str.induct)
  case (1 n)
  show ?case
  proof (cases "n < 10")
    case True
    then show ?thesis by (subst nat_str.simps) simp
  next
    case False
    with 1 have "dec_val 0 (nat_str (n div 10)) = Some (n div 10)" by simp
    with False show ?thesis
      by (subst nat_str.simps) (simp add: dec_val_append)
  qed
qed

lemma ParseUint_nat_str [go_simps]: "n < 2 ^ bits \<Longrightarrow> ParseUint bits (nat_str n) = Some n"
  by (simp add: ParseUint_def dec_val_nat_str)

lemma nat_str_inj [go_simps]: "nat_str m = nat_str n \<longleftrightarrow> m = n"
  using dec_val_nat_str by (metis option.inject)

lemma nat_str_notin: "\<not> is_digit c \<Longrightarrow> c \<notin> set (nat_str n)"
  using nat_str_digits by blast

lemma not_digit_chars [simp]:
  "\<not> is_digit CHR ''.''" "\<not> is_digit CHR ''/''" "\<not> is_digit CHR '':''" "\<not> is_digit CHR '',''"
  "\<not> is_digit CHR ''-''" "\<not> is_digit CHR ''+''" "\<not> is_digit CHR '' ''" "\<not> is_digit CHR 0x0A"
  "\<not> is_digit CHR ''=''"
  by (simp_all add: is_digit_range)

lemma digit_not_space: "is_digit c \<Longrightarrow> \<not> is_space c"
  by (auto simp: is_digit_range is_space_def)

lemma trimmed_nat_str [simp]: "trimmed (nat_str n)"
  unfolding trimmed_def
  by (meson digit_not_space hd_in_set last_in_set nat_str_digits nat_str_nonempty)

lemma length_nat_str: "n < 10 ^ k \<Longrightarrow> 0 < k \<Longrightarrow> length (nat_str n) \<le> k"
proof (induction n arbitrary: k rule: nat_str.induct)
  case (1 n)
  show ?case
  proof (cases "n < 10")
    case True
    then show ?thesis using 1 by (subst nat_str.simps) simp
  next
    case False
    have "k \<noteq> 1" using 1(2) False by auto
    define j where "j = k - 1"
    have j: "k = Suc j" "0 < j" using 1(3) \<open>k \<noteq> 1\<close> by (auto simp: j_def)
    have "n div 10 < 10 ^ j" using 1(2) j by (simp add: div_less_iff_less_mult)
    with 1(1) [OF False this j(2)] False j show ?thesis by (subst nat_str.simps) simp
  qed
qed

text \<open>Evaluation of printed numbers by the simplifier.\<close>

lemma nat_str_eval:
  "n < 10 \<Longrightarrow> nat_str n = [digit_char n]"
  "10 \<le> n \<Longrightarrow> nat_str n = nat_str (n div 10) @ [digit_char (n mod 10)]"
  by (subst nat_str.simps; simp)+

lemma digit_char_eval:
  "digit_char 0 = CHR ''0''" "digit_char 1 = CHR ''1''" "digit_char (Suc 0) = CHR ''1''"
  "digit_char 2 = CHR ''2''" "digit_char 3 = CHR ''3''" "digit_char 4 = CHR ''4''" "digit_char 5 = CHR ''5''"
  "digit_char 6 = CHR ''6''" "digit_char 7 = CHR ''7''" "digit_char 8 = CHR ''8''" "digit_char 9 = CHR ''9''"
  by code_simp+

lemma hd_nat_str: "is_digit (hd (nat_str n))"
  by (meson hd_in_set nat_str_digits nat_str_nonempty)

lemma Atoi_nat_str [go_simps]: "n < 2 ^ 63 \<Longrightarrow> Atoi (nat_str n) = Some (int n)"
proof -
  assume n: "n < 2 ^ 63"
  obtain c cs where c: "nat_str n = c # cs" by (meson list.exhaust nat_str_nonempty)
  with hd_nat_str [of n] have "is_digit c" by simp
  then have "c \<noteq> CHR ''-''" "c \<noteq> CHR ''+''" by (auto simp: is_digit_range)
  with c n ParseUint_nat_str [of n 64] show ?thesis
    by (simp add: Atoi_def)
qed

lemma Atoi_int_str [go_simps]: "0 \<le> i \<Longrightarrow> i < 2 ^ 63 \<Longrightarrow> Atoi (int_str i) = Some i"
  by (simp add: int_str_def Atoi_nat_str nat_less_iff)

lemma Atoi_int_str_in64 [go_simps]: "in64 i \<Longrightarrow> Atoi (int_str i) = Some i"
proof (cases "i < 0")
  case True
  assume "in64 i"
  with True have b: "nat (- i) \<le> 2 ^ 63" by (simp add: in64_def nat_le_iff)
  then have "nat (- i) < 2 ^ 64" by simp
  then show ?thesis using True b ParseUint_nat_str [of "nat (- i)" 64]
    by (simp add: int_str_def Atoi_def)
next
  case False
  assume "in64 i"
  with False show ?thesis by (simp add: in64_def Atoi_int_str)
qed

section \<open>Binary search\<close>

text \<open>
  \<open>sort.Search(n, f)\<close>: \<open>i, j := 0, n; for i < j \{ h := (i+j)/2; if !f(h) \{ i = h+1 \}
  else \{ j = h \} \}; return i\<close>.
\<close>

function search_loop :: "(nat \<Rightarrow> bool) \<Rightarrow> nat \<Rightarrow> nat \<Rightarrow> nat" where
  "search_loop f i j =
     (if i < j then
        (let h = (i + j) div 2 in if \<not> f h then search_loop f (h + 1) j else search_loop f i h)
      else i)"
  by pat_completeness auto
termination
  by (relation "measure (\<lambda>(f, i, j). j - i)") auto

declare search_loop.simps [simp del]

definition Search :: "nat \<Rightarrow> (nat \<Rightarrow> bool) \<Rightarrow> nat" where
  "Search n f = search_loop f 0 n"

lemma search_loop_correct:
  assumes mono: "\<And>x y. x \<le> y \<Longrightarrow> y < n \<Longrightarrow> f x \<Longrightarrow> f y"
  shows "i \<le> j \<Longrightarrow> j \<le> n \<Longrightarrow> \<forall>x<i. \<not> f x \<Longrightarrow> (j < n \<longrightarrow> f j) \<Longrightarrow>
    search_loop f i j \<le> n \<and> (\<forall>x < search_loop f i j. \<not> f x)
    \<and> (search_loop f i j < n \<longrightarrow> f (search_loop f i j))"
proof (induction "j - i" arbitrary: i j rule: less_induct)
  case less
  let ?h = "(i + j) div 2"
  note unf = search_loop.simps [of f i j]
  consider "\<not> i < j" | "i < j" "f ?h" | "i < j" "\<not> f ?h" by blast
  then show ?case
  proof cases
    case 1
    then have "search_loop f i j = i" by (simp add: unf)
    with 1 less.prems show ?thesis by auto
  next
    case 2
    then have "?h - i < j - i" "i \<le> ?h" "?h \<le> n" using less.prems by auto
    moreover have "search_loop f i j = search_loop f i ?h" using 2 by (subst unf) (simp add: Let_def)
    ultimately show ?thesis using 2 less.prems(3) less.hyps [of ?h i] by metis
  next
    case 3
    then have h: "j - (?h + 1) < j - i" "?h + 1 \<le> j" "?h < n" using less.prems by auto
    have "\<forall>x < ?h + 1. \<not> f x" using mono [of _ ?h] 3 h(3) by (metis Suc_eq_plus1 less_Suc_eq_le)
    moreover have "search_loop f i j = search_loop f (?h + 1) j" using 3 by (subst unf) (simp add: Let_def)
    ultimately show ?thesis using h less.prems(2,4) less.hyps [of j "?h + 1"] by metis
  qed
qed

text \<open>On a predicate that is monotone below \<open>n\<close>, \<open>Search\<close> is the least index where it holds.\<close>

lemma Search_least:
  assumes "\<And>x y. x \<le> y \<Longrightarrow> y < n \<Longrightarrow> f x \<Longrightarrow> f y"
  shows "Search n f \<le> n" "x < Search n f \<Longrightarrow> \<not> f x" "Search n f < n \<Longrightarrow> f (Search n f)"
  using search_loop_correct [of n f 0 n, OF assms] by (simp_all add: Search_def)

end
