(* ===== verification/GoTime.thy ===== *)
theory GoTime
  imports Prelude
begin

text \<open>
  The part of Go's package \<open>time\<close> the program uses.  A \<open>time.Time\<close> is the number of
  nanoseconds since the zero time, midnight UTC of 1 January of year 1, so that
  \<open>IsZero\<close> is \<open>t = 0\<close>; a \<open>time.Duration\<close> is a number of nanoseconds.  The layouts
  \<open>time.RFC3339\<close> and \<open>time.RFC3339Nano\<close> accept the same strings when parsing (a fraction
  is accepted after the seconds whether or not the layout names one); formatting is the one of
  \<open>RFC3339Nano\<close> in UTC, which drops the trailing zeros of the fraction.
\<close>

type_synonym gotime = int
type_synonym duration = int

definition Second :: duration where "Second = 1000000000"
definition Minute :: duration where "Minute = 60 * 1000000000"
definition Hour :: duration where "Hour = 3600 * 1000000000"

definition IsZero :: "gotime \<Rightarrow> bool" where
  "IsZero t \<longleftrightarrow> t = 0"

text \<open>\<open>t.Sub(u)\<close>, and \<open>d.Seconds()\<close> as an exact rational number.\<close>

definition time_Sub :: "gotime \<Rightarrow> gotime \<Rightarrow> duration" where
  "time_Sub t u = sat64 (t - u)"

section \<open>The civil calendar\<close>

definition is_leap :: "int \<Rightarrow> bool" where
  "is_leap y \<longleftrightarrow> y mod 4 = 0 \<and> (y mod 100 \<noteq> 0 \<or> y mod 400 = 0)"

definition days_in :: "int \<Rightarrow> int \<Rightarrow> int" where
  "days_in y m = (if m = 2 then (if is_leap y then 29 else 28)
     else if m = 4 \<or> m = 6 \<or> m = 9 \<or> m = 11 then 30 else 31)"

text \<open>Days from 1 January of year 1 to the given date, in eras of 400 years from 1 March.\<close>

definition days_from_civil :: "int \<Rightarrow> int \<Rightarrow> int \<Rightarrow> int" where
  "days_from_civil y m d =
     (let y' = (if m \<le> 2 then y - 1 else y);
          era = y' div 400;
          yoe = y' mod 400;
          doy = (153 * ((m + 9) mod 12) + 2) div 5 + d - 1;
          doe = yoe * 365 + yoe div 4 - yoe div 100 + doy
      in era * 146097 + doe - 306)"

definition civil_from_days :: "int \<Rightarrow> int \<times> int \<times> int" where
  "civil_from_days n =
     (let z = n + 306;
          era = z div 146097;
          doe = z mod 146097;
          yoe = (doe - doe div 1460 + doe div 36524 - doe div 146096) div 365;
          doy = doe - (365 * yoe + yoe div 4 - yoe div 100);
          mp = (5 * doy + 2) div 153;
          d = doy - (153 * mp + 2) div 5 + 1;
          m = (if mp < 10 then mp + 3 else mp - 9);
          y = yoe + era * 400 + (if m \<le> 2 then 1 else 0)
      in (y, m, d))"

section \<open>RFC 3339\<close>

definition pad :: "nat \<Rightarrow> nat \<Rightarrow> string" where
  "pad w n = (let s = nat_str n in replicate (w - length s) CHR ''0'' @ s)"

definition fmt_frac :: "nat \<Rightarrow> string" where
  "fmt_frac ns = (if ns = 0 then []
     else CHR ''.'' # rev (dropWhile (\<lambda>c. c = CHR ''0'') (rev (pad 9 ns))))"

text \<open>The layout without fraction and zone, and the whole of \<open>RFC3339Nano\<close>.\<close>

definition FormatSecs :: "gotime \<Rightarrow> string" where
  "FormatSecs t =
     (let secs = t div 1000000000;
          sod = secs mod 86400;
          (y, m, d) = civil_from_days (secs div 86400)
      in pad 4 (nat y) @ ''-'' @ pad 2 (nat m) @ ''-'' @ pad 2 (nat d) @ ''T'' @
         pad 2 (nat (sod div 3600)) @ '':'' @ pad 2 (nat (sod div 60 mod 60)) @ '':'' @
         pad 2 (nat (sod mod 60)))"

definition FormatNano :: "gotime \<Rightarrow> string" where
  "FormatNano t = FormatSecs t @ fmt_frac (nat (t mod 1000000000)) @ ''Z''"

text \<open>A field of exactly \<open>w\<close> digits, followed by the given character.\<close>

definition num_field :: "nat \<Rightarrow> char \<Rightarrow> string \<Rightarrow> (int \<times> string) option" where
  "num_field w c s =
     (case dec_val 0 (take w s) of
        Some n \<Rightarrow> (case drop w s of x # r \<Rightarrow>
            if length (take w s) = w \<and> x = c then Some (int n, r) else None
          | [] \<Rightarrow> None)
      | None \<Rightarrow> None)"

text \<open>The hour may have one digit or two.\<close>

definition hour_field :: "string \<Rightarrow> (int \<times> string) option" where
  "hour_field s = (case num_field 2 CHR '':'' s of Some r \<Rightarrow> Some r | None \<Rightarrow> num_field 1 CHR '':'' s)"

text \<open>Seconds, then an optional fraction: a point or a comma and digits, of which nine count.\<close>

definition sec_field :: "string \<Rightarrow> (int \<times> int \<times> string) option" where
  "sec_field s =
     (case dec_val 0 (take 2 s) of
        None \<Rightarrow> None
      | Some n \<Rightarrow>
        (if length s < 2 then None else
         (case drop 2 s of
            x # d # r \<Rightarrow>
              (if (x = CHR ''.'' \<or> x = CHR '','') \<and> is_digit d then
                 (let ds = takeWhile is_digit (d # r); k = min 9 (length ds)
                  in case dec_val 0 (take 9 ds) of
                       Some f \<Rightarrow> Some (int n, int (f * 10 ^ (9 - k)), dropWhile is_digit (d # r))
                     | None \<Rightarrow> None)
               else Some (int n, 0, drop 2 s))
          | r \<Rightarrow> Some (int n, 0, r))))"

text \<open>The zone: \<open>Z\<close>, or a sign, two digits of hours and two of minutes; the offset in seconds.\<close>

definition zone_field :: "string \<Rightarrow> int option" where
  "zone_field s =
     (case s of
        [] \<Rightarrow> None
      | z # r \<Rightarrow>
        (if z = CHR ''Z'' then (if r = [] then Some 0 else None)
         else if z = CHR ''+'' \<or> z = CHR ''-'' then
           (case num_field 2 CHR '':'' r of
              None \<Rightarrow> None
            | Some (h, r') \<Rightarrow>
              (case dec_val 0 r' of
                 Some m \<Rightarrow> if length r' = 2 \<and> h \<le> 24 \<and> m \<le> 60
                   then Some ((if z = CHR ''-'' then -1 else 1) * (h * 3600 + int m * 60)) else None
               | None \<Rightarrow> None))
         else None))"

text \<open>\<open>time.Parse\<close> with either RFC 3339 layout; \<open>None\<close> is a parse error.\<close>

definition ParseRFC3339 :: "string \<Rightarrow> gotime option" where
  "ParseRFC3339 s =
     Option.bind (num_field 4 CHR ''-'' s) (\<lambda>(y, s1).
     Option.bind (num_field 2 CHR ''-'' s1) (\<lambda>(mo, s2).
     Option.bind (num_field 2 CHR ''T'' s2) (\<lambda>(d, s3).
     Option.bind (hour_field s3) (\<lambda>(h, s4).
     Option.bind (num_field 2 CHR '':'' s4) (\<lambda>(mi, s5).
     Option.bind (sec_field s5) (\<lambda>(sec, ns, s6).
     Option.bind (zone_field s6) (\<lambda>off.
       if 1 \<le> mo \<and> mo \<le> 12 \<and> 1 \<le> d \<and> d \<le> days_in y mo \<and> h < 24 \<and> mi < 60 \<and> sec < 60
       then Some (((days_from_civil y mo d * 86400 + h * 3600 + mi * 60 + sec - off)
              * 1000000000) + ns)
       else None)))))))"

text \<open>
  Two checks of the calendar against known dates: the Unix epoch is day 719162, and the day
  before 1 March of a leap year is 29 February.
\<close>

lemma days_from_civil_epoch: "days_from_civil 1970 1 1 = 719162"
  by code_simp

lemma civil_from_days_leap: "civil_from_days (days_from_civil 2024 3 1 - 1) = (2024, 2, 29)"
  by code_simp

end
