(* ===== verification/Models.thy ===== *)
theory Models
  imports GoTime
begin

text \<open>
  The rows of the state database (\<open>internal/db/models.go\<close>).  A nil and an empty slice are
  the same empty list; the JSON columns hold the lists themselves.
\<close>

record db_interface =
  i_ID :: int
  i_Name :: string
  i_PrivateKey :: string
  i_PublicKey :: string
  i_ListenPort :: int
  i_FwMark :: int
  i_MTU :: int
  i_TableMode :: string
  i_TableID :: "int option"
  i_DNS :: "string list"
  i_Addresses :: "string list"
  i_PreUp :: string
  i_PostUp :: string
  i_PreDown :: string
  i_PostDown :: string
  i_DefaultKeepalive :: int
  i_PublicEndpoint :: string
  i_Enabled :: bool
  i_Backend :: string
  i_Protocol :: string
  i_AmneziaJSON :: string
  i_PairName :: string
  i_MuxPort :: int
  i_CreatedAt :: gotime
  i_UpdatedAt :: gotime

record db_peer =
  p_ID :: int
  p_InterfaceID :: int
  p_InterfaceName :: string
  p_PublicKey :: string
  p_PresharedKey :: string
  p_ClientPrivateKey :: string
  p_Name :: string
  p_Notes :: string
  p_AllowedIPs :: "string list"
  p_AssignedIPs :: "string list"
  p_Endpoint :: string
  p_PersistentKeepalive :: int
  p_Suspended :: bool
  p_TrafficLimitBytes :: int
  p_ExpiresAt :: string
  p_BandwidthRxBps :: int
  p_BandwidthTxBps :: int
  p_BandwidthTotalBps :: int
  p_RxBytesOffset :: int
  p_TxBytesOffset :: int
  p_FirstHandshakeAt :: string
  p_LastHandshakeAt :: string
  p_ConnectedSince :: string
  p_LastEndpoint :: string
  p_LastRxBytes :: int
  p_LastTxBytes :: int
  p_LastRxBps :: real
  p_LastTxBps :: real
  p_Tags :: "string list"
  p_CreatedAt :: gotime
  p_UpdatedAt :: gotime

record db_event =
  e_ID :: int
  e_TS :: gotime
  e_Level :: string
  e_Kind :: string
  e_Interface :: string
  e_PeerPublicKey :: string
  e_Message :: string
  e_Meta :: string

record traffic_sample =
  ts_ID :: int
  ts_PeerID :: int
  ts_SampledAt :: gotime
  ts_RxBytes :: int
  ts_TxBytes :: int
  ts_RxBps :: real
  ts_TxBps :: real

text \<open>The zero values Go gives to a fresh struct.\<close>

definition zero_interface :: db_interface where
  "zero_interface = \<lparr>i_ID = 0, i_Name = [], i_PrivateKey = [], i_PublicKey = [], i_ListenPort = 0,
     i_FwMark = 0, i_MTU = 0, i_TableMode = [], i_TableID = None, i_DNS = [], i_Addresses = [],
     i_PreUp = [], i_PostUp = [], i_PreDown = [], i_PostDown = [], i_DefaultKeepalive = 0,
     i_PublicEndpoint = [], i_Enabled = False, i_Backend = [], i_Protocol = [],
     i_AmneziaJSON = [], i_PairName = [], i_MuxPort = 0, i_CreatedAt = 0, i_UpdatedAt = 0\<rparr>"

definition zero_peer :: db_peer where
  "zero_peer = \<lparr>p_ID = 0, p_InterfaceID = 0, p_InterfaceName = [], p_PublicKey = [],
     p_PresharedKey = [], p_ClientPrivateKey = [], p_Name = [], p_Notes = [], p_AllowedIPs = [],
     p_AssignedIPs = [], p_Endpoint = [], p_PersistentKeepalive = 0, p_Suspended = False,
     p_TrafficLimitBytes = 0, p_ExpiresAt = [], p_BandwidthRxBps = 0, p_BandwidthTxBps = 0,
     p_BandwidthTotalBps = 0, p_RxBytesOffset = 0, p_TxBytesOffset = 0, p_FirstHandshakeAt = [],
     p_LastHandshakeAt = [], p_ConnectedSince = [], p_LastEndpoint = [], p_LastRxBytes = 0,
     p_LastTxBytes = 0, p_LastRxBps = 0, p_LastTxBps = 0, p_Tags = [], p_CreatedAt = 0,
     p_UpdatedAt = 0\<rparr>"

text \<open>\<open>Peer.EffectiveRx\<close>, \<open>Peer.EffectiveTx\<close>: traffic since the last soft reset.\<close>

definition EffectiveRx :: "db_peer \<Rightarrow> int" where
  "EffectiveRx p = (let v = i64 (p_LastRxBytes p - p_RxBytesOffset p) in if v < 0 then 0 else v)"

definition EffectiveTx :: "db_peer \<Rightarrow> int" where
  "EffectiveTx p = (let v = i64 (p_LastTxBytes p - p_TxBytesOffset p) in if v < 0 then 0 else v)"

lemma EffectiveRx_nonneg [simp]: "0 \<le> EffectiveRx p"
  by (simp add: EffectiveRx_def Let_def)

lemma EffectiveTx_nonneg [simp]: "0 \<le> EffectiveTx p"
  by (simp add: EffectiveTx_def Let_def)

lemma EffectiveRx_in64 [simp]: "in64 (EffectiveRx p)"
  by (simp add: EffectiveRx_def Let_def in64_def [of 0])

lemma EffectiveTx_in64 [simp]: "in64 (EffectiveTx p)"
  by (simp add: EffectiveTx_def Let_def in64_def [of 0])

text \<open>A record update of a field the counters do not read leaves them alone.\<close>

lemma Effective_frame [simp]:
  "EffectiveRx (p\<lparr>p_Suspended := b\<rparr>) = EffectiveRx p"
  "EffectiveTx (p\<lparr>p_Suspended := b\<rparr>) = EffectiveTx p"
  "EffectiveRx (p\<lparr>p_UpdatedAt := t\<rparr>) = EffectiveRx p"
  "EffectiveTx (p\<lparr>p_UpdatedAt := t\<rparr>) = EffectiveTx p"
  by (simp_all add: EffectiveRx_def EffectiveTx_def)

end
