(* ===== verification/Policy.thy ===== *)
theory Policy
  imports Models
begin

text \<open>
  The peer policy of \<open>internal/policy/policy.go\<close>: traffic quota, expiry and the expansion of a
  combined bandwidth cap.  The clock is an argument.
\<close>

definition EffectiveBytes :: "db_peer \<Rightarrow> int" where
  "EffectiveBytes p = i64 (EffectiveRx p + EffectiveTx p)"

definition TrafficLimitExceeded :: "db_peer \<Rightarrow> bool" where
  "TrafficLimitExceeded p =
     (if p_TrafficLimitBytes p \<le> 0 then False
      else p_TrafficLimitBytes p \<le> EffectiveBytes p)"

text \<open>\<open>Inl ()\<close> is the error of \<open>time.Parse\<close>; the empty string is the zero time.\<close>

definition ParseExpiresAt :: "string \<Rightarrow> unit + gotime" where
  "ParseExpiresAt s0 =
     (let s = TrimSpace s0 in
      if s = [] then Inr 0
      else case ParseRFC3339 s of Some t \<Rightarrow> Inr t
        | None \<Rightarrow> (case ParseRFC3339 s of Some t \<Rightarrow> Inr t | None \<Rightarrow> Inl ()))"

definition IsExpired :: "db_peer \<Rightarrow> gotime \<Rightarrow> bool" where
  "IsExpired p now =
     (if p_ExpiresAt p = [] then False
      else case ParseExpiresAt (p_ExpiresAt p) of
             Inl _ \<Rightarrow> False
           | Inr t \<Rightarrow> if IsZero t then False else \<not> now < t)"

definition ShouldAutoSuspendAt :: "db_peer \<Rightarrow> gotime \<Rightarrow> bool" where
  "ShouldAutoSuspendAt p now =
     (if p_Suspended p then False
      else if IsExpired p now then True
      else TrafficLimitExceeded p)"

definition AutoSuspendReason :: "db_peer \<Rightarrow> gotime \<Rightarrow> string" where
  "AutoSuspendReason p now =
     (if p_Suspended p then []
      else if IsExpired p now then ''expired''
      else if TrafficLimitExceeded p then ''traffic_limit''
      else [])"

definition EffectiveBandwidth :: "int \<Rightarrow> int \<Rightarrow> int \<Rightarrow> int \<times> int" where
  "EffectiveBandwidth rx tx tot =
     (if tot \<le> 0 then (rx, tx)
      else ((if rx \<le> 0 then tot else rx), (if tx \<le> 0 then tot else tx)))"

section \<open>Lemmas\<close>

lemma AutoSuspendReason_suspended [simp]: "p_Suspended p \<Longrightarrow> AutoSuspendReason p now = []"
  by (simp add: AutoSuspendReason_def)

lemma AutoSuspendReason_iff: "AutoSuspendReason p now \<noteq> [] \<longleftrightarrow> ShouldAutoSuspendAt p now"
  by (simp add: AutoSuspendReason_def ShouldAutoSuspendAt_def)

lemma IsExpired_mono: "IsExpired p now \<Longrightarrow> now \<le> later \<Longrightarrow> IsExpired p later"
  by (auto simp: IsExpired_def split: if_splits sum.splits)

lemma EffectiveBytes_eq:
  "EffectiveRx p + EffectiveTx p < 2 ^ 63 \<Longrightarrow> EffectiveBytes p = EffectiveRx p + EffectiveTx p"
  unfolding EffectiveBytes_def by (rule i64_id) (simp add: in64_nonneg)

text \<open>
  The automatic suspension decision: a peer is to be suspended exactly when it is not already
  suspended and its expiry has passed or its quota is used up; the reason returned agrees with
  the decision, names the expiry first when both apply, and once the decision is positive it
  stays so at every later time while the peer's row is unchanged.
\<close>

theorem auto_suspend_decision:
  "(AutoSuspendReason p now \<noteq> []) = ShouldAutoSuspendAt p now
   \<and> ShouldAutoSuspendAt p now =
       (\<not> p_Suspended p \<and> (IsExpired p now \<or>
          0 < p_TrafficLimitBytes p \<and> p_TrafficLimitBytes p \<le> EffectiveBytes p))
   \<and> (AutoSuspendReason p now = ''expired'') = (\<not> p_Suspended p \<and> IsExpired p now)
   \<and> {t. t \<ge> now \<and> ShouldAutoSuspendAt p now} \<subseteq> {t. ShouldAutoSuspendAt p t}"
  by (auto simp: AutoSuspendReason_iff ShouldAutoSuspendAt_def TrafficLimitExceeded_def
      AutoSuspendReason_def dest: IsExpired_mono)

text \<open>
  The expansion of a combined cap: with a positive total no direction is left unlimited, an
  explicit direction keeps its value, and a second expansion changes nothing; without a total the
  per-direction limits are returned as they are.
\<close>

theorem effective_bandwidth_spec:
  assumes "EffectiveBandwidth rx tx tot = (rx', tx')"
  shows "(0 < tot \<longrightarrow> 0 < rx' \<and> 0 < tx')
    \<and> (0 < rx \<longrightarrow> rx' = rx) \<and> (0 < tx \<longrightarrow> tx' = tx)
    \<and> (tot \<le> 0 \<longrightarrow> rx' = rx \<and> tx' = tx)
    \<and> EffectiveBandwidth rx' tx' tot = (rx', tx')"
  using assms by (auto simp: EffectiveBandwidth_def split: if_splits)

theorem effective_bandwidth_spec_witness:
  "EffectiveBandwidth 0 7 50 = (50, 7) \<and> (0::int) < 50 \<and> EffectiveBandwidth 50 7 50 = (50, 7)"
proof -
  have h: "EffectiveBandwidth 0 7 50 = (50, 7)" by (simp add: EffectiveBandwidth_def)
  show ?thesis using h effective_bandwidth_spec [OF h] by simp
qed

end
