(* ===== verification/Stats.thy ===== *)
theory Stats
  imports Policy
begin

text \<open>
  The traffic arithmetic of \<open>internal/stats\<close>: the durable lifetime counters, the rates between
  two samples, the lookback windows and the shared cache that metrics, SNMP and the API read.
  Counters are \<open>int64\<close> values with the wrap-around written out; a \<open>float64\<close> is an exact
  real number, so rounding is not modelled (no division by zero occurs, hence no infinity or NaN).
\<close>

section \<open>Lifetime counters\<close>

definition AccumulateLifetime :: "int \<Rightarrow> int \<Rightarrow> int \<Rightarrow> bool \<Rightarrow> int" where
  "AccumulateLifetime lifetime raw prevRaw hasPrev =
     (if hasPrev then
        (if raw \<ge> prevRaw then i64 (lifetime + i64 (raw - prevRaw))
         else i64 (lifetime + raw))
      else if raw \<ge> lifetime then raw
      else lifetime)"

section \<open>Samples and rates\<close>

record sample =
  s_Time :: gotime
  s_Rx :: int
  s_Tx :: int

record rate_result =
  r_RxBps :: real
  r_TxBps :: real

definition Seconds :: "duration \<Rightarrow> real" where
  "Seconds d = real_of_int d / 1000000000"

definition ComputeRate :: "sample \<Rightarrow> sample \<Rightarrow> rate_result" where
  "ComputeRate prv cur =
     (if s_Time cur < s_Time prv \<or> s_Time cur = s_Time prv then \<lparr>r_RxBps = 0, r_TxBps = 0\<rparr>
      else let dt = Seconds (time_Sub (s_Time cur) (s_Time prv)) in
        if dt \<le> 0 then \<lparr>r_RxBps = 0, r_TxBps = 0\<rparr>
        else \<lparr>r_RxBps = (if s_Rx cur \<ge> s_Rx prv then real_of_int (i64 (s_Rx cur - s_Rx prv)) / dt else 0),
              r_TxBps = (if s_Tx cur \<ge> s_Tx prv then real_of_int (i64 (s_Tx cur - s_Tx prv)) / dt else 0)\<rparr>)"

definition EWMA :: "real \<Rightarrow> real \<Rightarrow> real \<Rightarrow> real" where
  "EWMA prv smp alpha0 =
     (let a = (if alpha0 \<le> 0 then 3 / 10 else alpha0);
          alpha = (if a > 1 then 1 else a)
      in alpha * smp + (1 - alpha) * prv)"

section \<open>Windows\<close>

record window_counters =
  w_RxBytes :: int
  w_TxBytes :: int
  w_RxBpsAvg :: real
  w_TxBpsAvg :: real
  w_SpanSec :: real

record rates =
  rt_RxBps :: real
  rt_TxBps :: real
  rt_RxBpsRaw :: real
  rt_TxBpsRaw :: real
  rt_IntervalSec :: real

record byte_counters =
  bc_RxBytes :: int
  bc_TxBytes :: int

record traffic =
  tr_Total :: byte_counters
  tr_Rate :: rates
  tr_Windows :: "(string \<times> window_counters) list"

definition DefaultWindows :: "(string \<times> duration) list" where
  "DefaultWindows = [(''1m'', Minute), (''5m'', 5 * Minute), (''15m'', 15 * Minute),
     (''1h'', Hour), (''24h'', 24 * Hour)]"

definition WindowDelta :: "int \<Rightarrow> int \<Rightarrow> int \<Rightarrow> int \<Rightarrow> duration \<Rightarrow> window_counters" where
  "WindowDelta curRx curTx baseRx baseTx spn =
     (let rx0 = i64 (curRx - baseRx);
          tx0 = i64 (curTx - baseTx);
          rx = (if rx0 < 0 then curRx else rx0);
          tx = (if tx0 < 0 then curTx else tx0);
          sec = Seconds spn
      in if sec > 0
         then \<lparr>w_RxBytes = rx, w_TxBytes = tx, w_RxBpsAvg = real_of_int rx / sec,
               w_TxBpsAvg = real_of_int tx / sec, w_SpanSec = sec\<rparr>
         else \<lparr>w_RxBytes = rx, w_TxBytes = tx, w_RxBpsAvg = 0, w_TxBpsAvg = 0, w_SpanSec = 0\<rparr>)"

definition BuildTraffic ::
    "int \<Rightarrow> int \<Rightarrow> rates \<Rightarrow> (string \<times> window_counters) list \<Rightarrow> traffic" where
  "BuildTraffic totalRx totalTx rate windows =
     \<lparr>tr_Total = \<lparr>bc_RxBytes = totalRx, bc_TxBytes = totalTx\<rparr>, tr_Rate = rate,
      tr_Windows = (if length windows > 0 then windows else [])\<rparr>"

section \<open>The cache\<close>

record iface_stats =
  is_Name :: string
  is_PublicKey :: string
  is_Up :: bool
  is_ListenPort :: int
  is_PeerCount :: int
  is_RxBytes :: int
  is_TxBytes :: int
  is_RxBps :: real
  is_TxBps :: real
  is_UpdatedAt :: gotime

record peer_stats =
  ps_Interface :: string
  ps_PublicKey :: string
  ps_Name :: string
  ps_Endpoint :: string
  ps_AllowedIPs :: "string list"
  ps_LastHandshake :: gotime
  ps_Connected :: bool
  ps_ConnectedSince :: gotime
  ps_RxBytes :: int
  ps_TxBytes :: int
  ps_RxBps :: real
  ps_TxBps :: real
  ps_RxBpsRaw :: real
  ps_TxBpsRaw :: real
  ps_IntervalSec :: real
  ps_Windows :: "(string \<times> window_counters) list"
  ps_Suspended :: bool
  ps_TrafficLimitBytes :: int
  ps_BandwidthRxBps :: int
  ps_BandwidthTxBps :: int
  ps_UpdatedAt :: gotime

definition peer_Traffic :: "peer_stats \<Rightarrow> traffic" where
  "peer_Traffic p = BuildTraffic (ps_RxBytes p) (ps_TxBytes p)
     \<lparr>rt_RxBps = ps_RxBps p, rt_TxBps = ps_TxBps p, rt_RxBpsRaw = ps_RxBpsRaw p,
      rt_TxBpsRaw = ps_TxBpsRaw p, rt_IntervalSec = ps_IntervalSec p\<rparr> (ps_Windows p)"

text \<open>
  The two Go maps are association lists with distinct keys (a Go map has a finite, enumerable
  key set, which \<open>Snapshot\<close> and \<open>Retain\<close> range over).  Stored values are immutable here, so
  the defensive copies of the code are the values themselves.
\<close>

record cache =
  c_ifaces :: "(string \<times> iface_stats) list"
  c_peers :: "(string \<times> peer_stats) list"

definition NewCache :: cache where
  "NewCache = \<lparr>c_ifaces = [], c_peers = []\<rparr>"

definition peerKey :: "string \<Rightarrow> string \<Rightarrow> string" where
  "peerKey iface pub = iface @ ''/'' @ pub"

definition SetInterface :: "iface_stats \<Rightarrow> cache \<Rightarrow> cache" where
  "SetInterface s c = c\<lparr>c_ifaces := AList.update (is_Name s) s (c_ifaces c)\<rparr>"

definition SetPeer :: "peer_stats \<Rightarrow> cache \<Rightarrow> cache" where
  "SetPeer s c = c\<lparr>c_peers := AList.update (peerKey (ps_Interface s) (ps_PublicKey s)) s (c_peers c)\<rparr>"

definition GetPeer :: "cache \<Rightarrow> string \<Rightarrow> string \<Rightarrow> peer_stats option" where
  "GetPeer c iface pubkey = map_of (c_peers c) (peerKey iface pubkey)"

definition Snapshot :: "cache \<Rightarrow> (string \<times> iface_stats) list \<times> (string \<times> peer_stats) list" where
  "Snapshot c = (c_ifaces c, c_peers c)"

definition Clear :: "cache \<Rightarrow> cache" where
  "Clear c = c\<lparr>c_ifaces := [], c_peers := []\<rparr>"

definition Retain :: "string list \<Rightarrow> string list \<Rightarrow> cache \<Rightarrow> cache" where
  "Retain ifaces peerKeys c =
     c\<lparr>c_ifaces := filter (\<lambda>(k, v). k \<in> set ifaces) (c_ifaces c),
       c_peers := filter (\<lambda>(k, v). k \<in> set peerKeys) (c_peers c)\<rparr>"

definition cache_ok :: "cache \<Rightarrow> bool" where
  "cache_ok c \<longleftrightarrow> distinct (map fst (c_ifaces c)) \<and> distinct (map fst (c_peers c))
     \<and> (\<forall>(k, v) \<in> set (c_ifaces c). k = is_Name v)
     \<and> (\<forall>(k, v) \<in> set (c_peers c). k = peerKey (ps_Interface v) (ps_PublicKey v))"

section \<open>Lifetime counters never over-count and never drop\<close>

text \<open>
  The environment of one counter: the kernel counter grows with the traffic and returns to zero
  when the interface is recreated or the host reboots; the daemon observes it at each sampling and
  loses its previous observation when it restarts, while the lifetime value is durable.  The ghost
  field \<open>g_total\<close> is the traffic there really was since the counter was created.
\<close>

record counter_world =
  g_total :: int
  g_raw :: int
  g_lifetime :: int
  g_prev :: "int option"

definition world0 :: counter_world where
  "world0 = \<lparr>g_total = 0, g_raw = 0, g_lifetime = 0, g_prev = None\<rparr>"

definition observe :: "counter_world \<Rightarrow> counter_world" where
  "observe w = w\<lparr>g_lifetime := AccumulateLifetime (g_lifetime w) (g_raw w)
       (case g_prev w of None \<Rightarrow> 0 | Some p \<Rightarrow> p) (g_prev w \<noteq> None),
     g_prev := Some (g_raw w)\<rparr>"

inductive counter_step :: "counter_world \<Rightarrow> counter_world \<Rightarrow> bool" where
  grow: "0 \<le> d \<Longrightarrow> g_total w + d < 2 ^ 63 \<Longrightarrow>
    counter_step w (w\<lparr>g_total := g_total w + d, g_raw := g_raw w + d\<rparr>)"
| reset: "counter_step w (w\<lparr>g_raw := 0\<rparr>)"
| restart: "counter_step w (w\<lparr>g_prev := None\<rparr>)"
| observation: "counter_step w (observe w)"

inductive counter_reach :: "counter_world \<Rightarrow> bool" where
  init: "counter_reach world0"
| step: "counter_reach w \<Longrightarrow> counter_step w w' \<Longrightarrow> counter_reach w'"

inductive_cases counter_stepE: "counter_step w w'"

text \<open>
  The invariant: there is a past total \<open>t0\<close> (the one at the last observation) that the lifetime
  does not exceed, and since then the counter either only grew or was reset at least once.
\<close>

definition counter_inv :: "counter_world \<Rightarrow> bool" where
  "counter_inv w \<longleftrightarrow> 0 \<le> g_raw w \<and> g_raw w \<le> g_total w \<and> g_total w < 2 ^ 63 \<and> 0 \<le> g_lifetime w
     \<and> g_lifetime w \<le> g_total w
     \<and> (\<forall>p. g_prev w = Some p \<longrightarrow> 0 \<le> p \<and> (\<exists>t0. g_lifetime w \<le> t0 \<and> t0 \<le> g_total w
          \<and> (g_raw w = p + (g_total w - t0) \<or> g_raw w \<le> g_total w - t0)))"

lemma AccumulateLifetime_exact:
  assumes "0 \<le> l" "0 \<le> raw" "0 \<le> p" "l + raw < 2 ^ 63"
  shows "AccumulateLifetime l raw p True = (if raw \<ge> p then l + (raw - p) else l + raw)"
proof -
  have "i64 (raw - p) = raw - p" if "raw \<ge> p"
    using assms that by (intro i64_id) (simp add: in64_def)
  moreover have "i64 (l + (raw - p)) = l + (raw - p)" if "raw \<ge> p"
    using assms that by (intro i64_id) (simp add: in64_def)
  moreover have "i64 (l + raw) = l + raw"
    using assms by (intro i64_id) (simp add: in64_def)
  ultimately show ?thesis by (simp add: AccumulateLifetime_def)
qed

lemma AccumulateLifetime_first:
  "AccumulateLifetime l raw p False = max l raw"
  by (simp add: AccumulateLifetime_def max_def)

text \<open>One observation under the invariant: the value stays between the old one and the total.\<close>

lemma observe_bounds:
  assumes "counter_inv w"
  shows "g_lifetime w \<le> g_lifetime (observe w) \<and> g_lifetime (observe w) \<le> g_total w"
proof (cases "g_prev w")
  case None
  with assms show ?thesis
    by (simp add: observe_def AccumulateLifetime_first counter_inv_def)
next
  case (Some p)
  with assms obtain t0 where t0: "g_lifetime w \<le> t0" "t0 \<le> g_total w" "0 \<le> p"
    and d: "g_raw w = p + (g_total w - t0) \<or> g_raw w \<le> g_total w - t0"
    by (auto simp: counter_inv_def)
  note b = assms [unfolded counter_inv_def]
  show ?thesis
  proof (cases "g_raw w \<ge> p")
    case True
    have r: "g_raw w - p \<le> g_total w - t0" using d t0 by linarith
    have e1: "i64 (g_raw w - p) = g_raw w - p"
      using True b t0 by (intro i64_id) (simp add: in64_def)
    have e2: "i64 (g_lifetime w + (g_raw w - p)) = g_lifetime w + (g_raw w - p)"
      using True b t0 r by (intro i64_id) (simp add: in64_def)
    show ?thesis using Some True r t0 e1 e2
      by (simp add: observe_def AccumulateLifetime_def)
  next
    case False
    then have r: "g_raw w \<le> g_total w - t0" using d t0 by linarith
    have e: "i64 (g_lifetime w + g_raw w) = g_lifetime w + g_raw w"
      using b t0 r by (intro i64_id) (simp add: in64_def)
    show ?thesis using Some False r t0 b e
      by (simp add: observe_def AccumulateLifetime_def)
  qed
qed

lemma observe_inv:
  assumes "counter_inv w"
  shows "counter_inv (observe w)"
proof -
  have "g_raw (observe w) = g_raw w" "g_total (observe w) = g_total w"
    "g_prev (observe w) = Some (g_raw w)"
    by (simp_all add: observe_def)
  with observe_bounds [OF assms] assms show ?thesis
    unfolding counter_inv_def by (auto intro!: exI [of _ "g_total w"])
qed

lemma counter_step_inv: "counter_step w w' \<Longrightarrow> counter_inv w \<Longrightarrow> counter_inv w'"
proof (induction rule: counter_step.induct)
  case (grow d w)
  have "\<exists>t0. g_lifetime w \<le> t0 \<and> t0 \<le> g_total w + d \<and>
      (g_raw w + d = p + (g_total w + d - t0) \<or> g_raw w + d \<le> g_total w + d - t0)"
    if "g_prev w = Some p" for p
  proof -
    from grow(3) that obtain t0 where "g_lifetime w \<le> t0" "t0 \<le> g_total w"
      "g_raw w = p + (g_total w - t0) \<or> g_raw w \<le> g_total w - t0"
      by (auto simp: counter_inv_def)
    with grow(1) show ?thesis by (intro exI [of _ t0]) auto
  qed
  with grow show ?case by (auto simp: counter_inv_def)
next
  case (reset w)
  then show ?case unfolding counter_inv_def by auto
next
  case (restart w)
  then show ?case by (simp add: counter_inv_def)
next
  case (observation w)
  then show ?case by (rule observe_inv)
qed

lemma counter_reach_inv: "counter_reach w \<Longrightarrow> counter_inv w"
proof (induction rule: counter_reach.induct)
  case init
  show ?case by (simp add: counter_inv_def world0_def)
next
  case (step w w')
  then show ?case by (blast intro: counter_step_inv)
qed

text \<open>
  C5. Durable traffic accounting: in every state the environment and the daemon can reach, through
  any interleaving of traffic, counter resets, daemon restarts and observations, the lifetime
  counter never exceeds the traffic there really was, and one more observation neither lowers it
  nor makes it exceed that traffic.
\<close>

theorem lifetime_sound:
  assumes "counter_reach w"
  shows "0 \<le> g_lifetime w \<and> g_lifetime w \<le> g_lifetime (observe w)
    \<and> g_lifetime (observe w) \<le> g_total w"
  using observe_bounds [OF counter_reach_inv [OF assms]] counter_reach_inv [OF assms]
  by (simp add: counter_inv_def)

theorem lifetime_sound_witness:
  "counter_reach (world0\<lparr>g_total := 100, g_raw := 0\<rparr>) \<and>
   g_lifetime (observe (world0\<lparr>g_total := 100, g_raw := 0\<rparr>)) \<le> 100"
proof -
  have "counter_reach (world0\<lparr>g_total := g_total world0 + 100, g_raw := g_raw world0 + 100\<rparr>)"
    by (rule counter_reach.step [OF counter_reach.init counter_step.grow]) (simp_all add: world0_def)
  from counter_reach.step [OF this counter_step.reset]
  have r: "counter_reach (world0\<lparr>g_total := 100, g_raw := 0\<rparr>)" by (simp add: world0_def)
  show ?thesis using r lifetime_sound [OF r] by simp
qed

text \<open>
  A session without a reset and without a restart: the samples taken at the raw values
  \<open>rs\<close>, starting from a previous observation.
\<close>

fun accumulate_session :: "int \<Rightarrow> int \<Rightarrow> int list \<Rightarrow> int" where
  "accumulate_session l prv [] = l"
| "accumulate_session l prv (r # rs) = accumulate_session (AccumulateLifetime l r prv True) r rs"

text \<open>The traffic a sequence of raw values stands for: a drop means a reset, then all is new.\<close>

fun session_traffic :: "int \<Rightarrow> int list \<Rightarrow> int" where
  "session_traffic prv [] = 0"
| "session_traffic prv (r # rs) = (if r \<ge> prv then r - prv else r) + session_traffic r rs"

lemma session_traffic_nonneg: "\<forall>r \<in> set rs. 0 \<le> r \<Longrightarrow> 0 \<le> session_traffic prv rs"
  by (induction rs arbitrary: prv) (auto simp: add_nonneg_nonneg)

text \<open>
  Within one daemon session the accounting is exact: whatever resets occur between samples,
  the lifetime value after the samples is the starting value plus the traffic the samples show,
  provided the sum fits into an \<open>int64\<close>.
\<close>

theorem accumulate_session_exact:
  assumes "0 \<le> l" "0 \<le> prv" "\<forall>r \<in> set rs. 0 \<le> r" "l + session_traffic prv rs < 2 ^ 63"
  shows "accumulate_session l prv rs = l + session_traffic prv rs"
  using assms
proof (induction rs arbitrary: l prv)
  case Nil
  then show ?case by simp
next
  case (Cons r rs)
  have n: "0 \<le> session_traffic r rs" using Cons.prems(3) by (simp add: session_traffic_nonneg)
  have a: "AccumulateLifetime l r prv True = l + (if r \<ge> prv then r - prv else r)"
  proof (cases "r \<ge> prv")
    case True
    with Cons.prems n have "i64 (r - prv) = r - prv" "i64 (l + (r - prv)) = l + (r - prv)"
      by (auto intro!: i64_id simp: in64_def)
    with True show ?thesis by (simp add: AccumulateLifetime_def)
  next
    case False
    with Cons.prems n have "i64 (l + r) = l + r" by (auto intro!: i64_id simp: in64_def)
    with False show ?thesis by (simp add: AccumulateLifetime_def)
  qed
  with Cons.prems n show ?case
    using Cons.IH [of "l + (if r \<ge> prv then r - prv else r)" r] by auto
qed

theorem accumulate_session_exact_witness:
  "accumulate_session 5000 1000 [1100, 200, 250] = 5350"
  using accumulate_session_exact [of 5000 1000 "[1100, 200, 250]"] by simp

section \<open>Rates and windows\<close>

lemma ComputeRate_nonneg:
  assumes "in64 (s_Rx cur - s_Rx prv)" "in64 (s_Tx cur - s_Tx prv)"
  shows "0 \<le> r_RxBps (ComputeRate prv cur) \<and> 0 \<le> r_TxBps (ComputeRate prv cur)"
  using assms by (simp add: ComputeRate_def Let_def i64_id)

lemma EWMA_between:
  assumes "prv \<le> smp"
  shows "prv \<le> EWMA prv smp a \<and> EWMA prv smp a \<le> smp"
proof -
  define b where "b = (let x = (if a \<le> 0 then 3 / 10 else a) in if x > 1 then 1 else x)"
  have b: "0 \<le> b" "b \<le> 1" by (auto simp: b_def Let_def)
  have "EWMA prv smp a = b * smp + (1 - b) * prv" by (simp add: EWMA_def b_def Let_def)
  then have "EWMA prv smp a = prv + b * (smp - prv)" by (simp add: algebra_simps)
  moreover have "b * (smp - prv) \<le> smp - prv"
    using mult_right_mono [of b 1 "smp - prv"] assms b by simp
  moreover have "0 \<le> b * (smp - prv)" using assms b by simp
  ultimately show ?thesis by (intro conjI) linarith+
qed

lemma EWMA_sym: "EWMA prv smp a = - EWMA (- prv) (- smp) a"
  by (simp add: EWMA_def Let_def algebra_simps)

text \<open>
  The smoothed rate always lies between the previous rate and the new sample, whatever
  smoothing factor is configured (an unusable factor is replaced or capped), so it can neither
  overshoot nor become negative when both are non-negative.
\<close>

theorem EWMA_bounds: "min prv smp \<le> EWMA prv smp a \<and> EWMA prv smp a \<le> max prv smp"
proof (cases "prv \<le> smp")
  case True
  with EWMA_between [of prv smp a] show ?thesis by simp
next
  case False
  then have "- prv \<le> - smp" by simp
  from EWMA_between [OF this, of a] False EWMA_sym [of prv smp a] show ?thesis by simp
qed

text \<open>
  A lookback window over non-negative counters reports between nothing and the whole current
  total, a counter below its baseline (a soft reset) reports the current total, and its average
  rate times its span is the bytes reported.
\<close>

theorem WindowDelta_spec:
  assumes "0 \<le> cr" "0 \<le> ct" "0 \<le> br" "0 \<le> bt" "cr < 2 ^ 63" "ct < 2 ^ 63" "br < 2 ^ 63" "bt < 2 ^ 63"
  shows "w_RxBytes (WindowDelta cr ct br bt d) = (if br \<le> cr then cr - br else cr)
    \<and> w_TxBytes (WindowDelta cr ct br bt d) = (if bt \<le> ct then ct - bt else ct)
    \<and> w_RxBytes (WindowDelta cr ct br bt d) \<in> {0..cr}
    \<and> w_TxBytes (WindowDelta cr ct br bt d) \<in> {0..ct}
    \<and> (0 < d \<longrightarrow> w_RxBpsAvg (WindowDelta cr ct br bt d) * w_SpanSec (WindowDelta cr ct br bt d)
         = real_of_int (w_RxBytes (WindowDelta cr ct br bt d)))"
proof -
  have "i64 (cr - br) = cr - br" "i64 (ct - bt) = ct - bt"
    using assms by (auto intro!: i64_id simp: in64_def)
  with assms show ?thesis by (auto simp: WindowDelta_def Let_def Seconds_def)
qed

theorem WindowDelta_spec_witness: "w_RxBytes (WindowDelta 50 10 1000 5 Minute) = 50"
  using WindowDelta_spec [of 50 10 1000 5 Minute] by simp

section \<open>The contract of a keyed table of the cache\<close>

text \<open>
  What the readers of the cache rely on, for the table of interfaces and the table of peers alike:
  a stored value is found under its own key, other keys are untouched, and retaining a set of keys
  drops exactly the others.
\<close>

lemma find_snoc: "find P (xs @ [x]) = (case find P xs of Some y \<Rightarrow> Some y | None \<Rightarrow> if P x then Some x else None)"
  by (induction xs) auto

locale keyed_table =
  fixes key :: "'v \<Rightarrow> 'k" and put :: "'v \<Rightarrow> 't \<Rightarrow> 't" and get :: "'t \<Rightarrow> 'k \<Rightarrow> 'v option"
    and retain :: "'k set \<Rightarrow> 't \<Rightarrow> 't"
  assumes get_put: "get (put v t) k = (if k = key v then Some v else get t k)"
    and get_retain: "get (retain K t) k = (if k \<in> K then get t k else None)"
begin

lemma get_put_same: "get (put v t) (key v) = Some v"
  by (simp add: get_put)

lemma get_fold_put:
  "get (fold put vs t) k =
     (case find (\<lambda>v. key v = k) (rev vs) of Some v \<Rightarrow> Some v | None \<Rightarrow> get t k)"
  by (induction vs arbitrary: t) (auto simp: get_put find_snoc split: option.splits)

text \<open>After storing a batch and retaining a set of keys: the last value of each kept key.\<close>

lemma get_cycle:
  "get (retain K (fold put vs t)) k =
     (if k \<in> K then (case find (\<lambda>v. key v = k) (rev vs) of Some v \<Rightarrow> Some v | None \<Rightarrow> get t k)
      else None)"
  by (simp add: get_retain get_fold_put)

end

lemma map_of_filter_keys: "map_of (filter (\<lambda>(k, v). k \<in> S) xs) k = (if k \<in> S then map_of xs k else None)"
  by (induction xs) auto

interpretation iface_table: keyed_table is_Name SetInterface "\<lambda>c. map_of (c_ifaces c)"
    "\<lambda>K c. c\<lparr>c_ifaces := filter (\<lambda>(k, v). k \<in> K) (c_ifaces c)\<rparr>"
  by unfold_locales (auto simp: SetInterface_def update_conv' map_of_filter_keys)

interpretation peer_table: keyed_table "\<lambda>p. peerKey (ps_Interface p) (ps_PublicKey p)" SetPeer
    "\<lambda>c. map_of (c_peers c)" "\<lambda>K c. c\<lparr>c_peers := filter (\<lambda>(k, v). k \<in> K) (c_peers c)\<rparr>"
  by unfold_locales (auto simp: SetPeer_def update_conv' map_of_filter_keys)

text \<open>
  The key of a peer is its interface's name, a slash and its public key.  Base64 keys contain
  slashes but interface names do not, which is why the first slash separates the two.
\<close>

lemma peerKey_inj:
  assumes "CHR ''/'' \<notin> set i" "CHR ''/'' \<notin> set j"
  shows "peerKey i a = peerKey j b \<longleftrightarrow> i = j \<and> a = b"
proof
  assume "peerKey i a = peerKey j b"
  then have "Cut CHR ''/'' (i @ CHR ''/'' # a) = Cut CHR ''/'' (j @ CHR ''/'' # b)"
    by (simp add: peerKey_def)
  with assms show "i = j \<and> a = b" by (simp add: Cut_at)
qed simp

lemma cache_ok_New: "cache_ok NewCache"
  by (simp add: cache_ok_def NewCache_def)

lemma set_AList_update_subset: "set (AList.update k v xs) \<subseteq> insert (k, v) (set xs)"
  by (induction xs) auto

lemma cache_ok_SetPeer: "cache_ok c \<Longrightarrow> cache_ok (SetPeer s c)"
  using set_AList_update_subset [of "peerKey (ps_Interface s) (ps_PublicKey s)" s "c_peers c"]
  by (fastforce simp: cache_ok_def SetPeer_def distinct_update)

lemma cache_ok_SetInterface: "cache_ok c \<Longrightarrow> cache_ok (SetInterface s c)"
  using set_AList_update_subset [of "is_Name s" s "c_ifaces c"]
  by (fastforce simp: cache_ok_def SetInterface_def distinct_update)

lemma cache_ok_Retain: "cache_ok c \<Longrightarrow> cache_ok (Retain I P c)"
  by (auto simp: cache_ok_def Retain_def distinct_map_filter)

text \<open>
  One sampling cycle on the cache: after storing the statistics of a batch of peers and
  retaining the keys of the peers that still exist, a lookup of an existing peer (interface names
  contain no slash) returns the last statistics stored for exactly that interface and key, or else
  what the cache held before, and a lookup of any other peer finds nothing.
\<close>

theorem cache_cycle:
  assumes "CHR ''/'' \<notin> set i" "\<forall>s \<in> set ss. CHR ''/'' \<notin> set (ps_Interface s)"
  shows "GetPeer (Retain I P (fold SetPeer ss c)) i k =
    (if peerKey i k \<in> set P
     then (case find (\<lambda>s. ps_Interface s = i \<and> ps_PublicKey s = k) (rev ss) of
             Some s \<Rightarrow> Some s | None \<Rightarrow> GetPeer c i k)
     else None)"
proof -
  have "find (\<lambda>s. peerKey (ps_Interface s) (ps_PublicKey s) = peerKey i k) (rev ss)
      = find (\<lambda>s. ps_Interface s = i \<and> ps_PublicKey s = k) (rev ss)"
    using assms by (intro find_cong refl) (auto simp: peerKey_inj)
  moreover have "GetPeer (Retain I P (fold SetPeer ss c)) i k
      = map_of (c_peers ((fold SetPeer ss c)\<lparr>c_peers :=
          filter (\<lambda>(x, v). x \<in> set P) (c_peers (fold SetPeer ss c))\<rparr>)) (peerKey i k)"
    by (simp add: GetPeer_def Retain_def)
  ultimately show ?thesis
    using peer_table.get_cycle [of "set P" ss c "peerKey i k"] by (simp only: GetPeer_def)
qed

text \<open>A peer of which only the interface, the key and a counter matter, for the witnesses.\<close>

definition stats_of :: "string \<Rightarrow> string \<Rightarrow> int \<Rightarrow> peer_stats" where
  "stats_of i k n = \<lparr>ps_Interface = i, ps_PublicKey = k, ps_Name = [], ps_Endpoint = [],
     ps_AllowedIPs = [], ps_LastHandshake = 0, ps_Connected = False, ps_ConnectedSince = 0,
     ps_RxBytes = n, ps_TxBytes = 0, ps_RxBps = 0, ps_TxBps = 0, ps_RxBpsRaw = 0, ps_TxBpsRaw = 0,
     ps_IntervalSec = 0, ps_Windows = [], ps_Suspended = False, ps_TrafficLimitBytes = 0,
     ps_BandwidthRxBps = 0, ps_BandwidthTxBps = 0, ps_UpdatedAt = 0\<rparr>"

theorem cache_cycle_witness:
  "GetPeer (Retain [''wg0''] [''wg0/a/b''] (fold SetPeer [stats_of ''wg0'' ''a/b'' 1,
      stats_of ''wg0'' ''a/b'' 2, stats_of ''wg0'' ''c'' 3] NewCache)) ''wg0'' ''a/b''
    = Some (stats_of ''wg0'' ''a/b'' 2)"
  using cache_cycle [of "''wg0''" "[stats_of ''wg0'' ''a/b'' 1, stats_of ''wg0'' ''a/b'' 2,
      stats_of ''wg0'' ''c'' 3]" "[''wg0'']" "[''wg0/a/b'']" NewCache "''a/b''"]
  by (simp add: stats_of_def peerKey_def)

end
