(* ===== verification/SnmpBer.thy ===== *)
theory SnmpBer
  imports Prelude
begin

unbundle bit_operations_syntax

text \<open>
  The BER codec of the SNMP agent (\<open>internal/snmp/ber.go\<close>) and its object identifiers
  (\<open>internal/snmp/oid.go\<close>).  Bytes are 8-bit words, \<open>uint\<close> and \<open>uint64\<close> are 64-bit words,
  \<open>int64\<close> is an \<open>int\<close> in range, a Go string is a \<open>string\<close> whose characters are its bytes.
\<close>

named_theorems ber_simps \<open>how the reader steps over encoded material\<close>

section \<open>Object identifiers\<close>

type_synonym oid = "64 word list"

definition parseOID :: "string \<Rightarrow> oid" where
  "parseOID s0 =
     (let s = TrimPrefix (TrimSpace s0) ''.'' in
      if s = [] then []
      else concat (map (\<lambda>p. if p = [] then [] else
             (case ParseUint 32 p of None \<Rightarrow> [] | Some n \<Rightarrow> [of_nat n])) (split_on CHR ''.'' s)))"

definition OID_String :: "oid \<Rightarrow> string" where
  "OID_String o1 = (if length o1 = 0 then [] else Join (map (\<lambda>n. nat_str (unat n)) o1) ''.'')"

definition OID_Equal :: "oid \<Rightarrow> oid \<Rightarrow> bool" where
  "OID_Equal o1 o2 = (if length o1 \<noteq> length o2 then False else list_all2 (=) o1 o2)"

definition OID_Child :: "oid \<Rightarrow> oid \<Rightarrow> oid" where
  "OID_Child o1 extra = o1 @ extra"

text \<open>The loop over the common length, then the comparison of the lengths.\<close>

fun OID_Compare :: "oid \<Rightarrow> oid \<Rightarrow> int" where
  "OID_Compare (a # as) (b # bs) = (if a < b then -1 else if a > b then 1 else OID_Compare as bs)"
| "OID_Compare as bs = (if length as < length bs then -1 else if length as > length bs then 1 else 0)"

definition OID_IsPrefix :: "oid \<Rightarrow> oid \<Rightarrow> bool" where
  "OID_IsPrefix o1 o2 =
     (if length o1 > length o2 then False else list_all2 (=) o1 (take (length o1) o2))"

lemma OID_Equal_iff [simp]: "OID_Equal o1 o2 \<longleftrightarrow> o1 = o2"
  by (auto simp: OID_Equal_def list.rel_eq)

lemma OID_IsPrefix_iff: "OID_IsPrefix o1 o2 \<longleftrightarrow> prefix o1 o2"
  unfolding OID_IsPrefix_def list.rel_eq
  by (metis append_eq_conv_conj not_less prefix_def prefix_length_le take_is_prefix)

lemma Nil_less_iff: "[] < (bs :: 'a::order list) \<longleftrightarrow> bs \<noteq> []"
  by (cases bs) auto

text \<open>The comparison decides the lexicographic order of the library.\<close>

lemma OID_Compare_lt: "OID_Compare o1 o2 < 0 \<longleftrightarrow> o1 < o2"
  by (induction o1 o2 rule: OID_Compare.induct) (auto simp: not_less_iff_gr_or_eq Nil_less_iff)

lemma OID_Compare_gt: "OID_Compare o1 o2 > 0 \<longleftrightarrow> o2 < o1"
  by (induction o1 o2 rule: OID_Compare.induct) (auto simp: not_less_iff_gr_or_eq Nil_less_iff)

lemma OID_Compare_ge: "OID_Compare o1 o2 \<ge> 0 \<longleftrightarrow> o2 \<le> o1"
  using OID_Compare_lt [of o1 o2] by (meson not_less)

lemma OID_Compare_le: "OID_Compare o1 o2 \<le> 0 \<longleftrightarrow> o1 \<le> o2"
  using OID_Compare_gt [of o1 o2] by (meson not_less)

lemma OID_Compare_0: "OID_Compare o1 o2 = 0 \<longleftrightarrow> o1 = o2"
  using OID_Compare_ge [of o1 o2] OID_Compare_le [of o1 o2] OID_Compare_lt [of o1 o2]
    OID_Compare_gt [of o1 o2] by fastforce

lemma le_append: "xs \<le> xs @ (ys :: 'a::linorder list)"
  by (induction xs) auto

section \<open>Tags and values\<close>

abbreviation tagInteger :: byte where "tagInteger \<equiv> 0x02"
abbreviation tagOctetString :: byte where "tagOctetString \<equiv> 0x04"
abbreviation tagNull :: byte where "tagNull \<equiv> 0x05"
abbreviation tagOID :: byte where "tagOID \<equiv> 0x06"
abbreviation tagSequence :: byte where "tagSequence \<equiv> 0x30"
abbreviation tagIPAddress :: byte where "tagIPAddress \<equiv> 0x40"
abbreviation tagCounter32 :: byte where "tagCounter32 \<equiv> 0x41"
abbreviation tagGauge32 :: byte where "tagGauge32 \<equiv> 0x42"
abbreviation tagTimeTicks :: byte where "tagTimeTicks \<equiv> 0x43"
abbreviation tagCounter64 :: byte where "tagCounter64 \<equiv> 0x46"
abbreviation tagNoSuchObject :: byte where "tagNoSuchObject \<equiv> 0x80"
abbreviation tagNoSuchInstance :: byte where "tagNoSuchInstance \<equiv> 0x81"
abbreviation tagEndOfMibView :: byte where "tagEndOfMibView \<equiv> 0x82"

record snmp_value =
  v_Type :: byte
  v_Int :: int
  v_U64 :: "64 word"
  v_Str :: string
  v_Raw :: "byte list"

definition value_of :: "byte \<Rightarrow> snmp_value" where
  "value_of t = \<lparr>v_Type = t, v_Int = 0, v_U64 = 0, v_Str = [], v_Raw = []\<rparr>"

definition byte_of_char :: "char \<Rightarrow> byte" where
  "byte_of_char c = of_nat (of_char c)"

definition char_of_byte :: "byte \<Rightarrow> char" where
  "char_of_byte b = char_of (unat b)"

lemma char_of_byte_of_char [simp]: "char_of_byte (byte_of_char c) = c"
  by (simp add: char_of_byte_def byte_of_char_def unat_of_nat)

lemma byte_of_char_of_byte [simp]: "byte_of_char (char_of_byte b) = b"
proof -
  have "unat b < 2 ^ LENGTH(8)" by (rule unsigned_less)
  then show ?thesis by (simp add: char_of_byte_def byte_of_char_def of_char_of)
qed

lemma map_char_byte [simp]: "map (char_of_byte \<circ> byte_of_char) s = s" "map (byte_of_char \<circ> char_of_byte) bs = bs"
  by (simp_all add: map_idI)

section \<open>Encoding\<close>

definition encodeLength :: "nat \<Rightarrow> byte list" where
  "encodeLength n =
     (if n < 0x80 then [of_nat n]
      else if n \<le> 0xff then [0x81, of_nat n]
      else if n \<le> 0xffff then [0x82, of_nat (n div 2 ^ 8), of_nat n]
      else [0x83, of_nat (n div 2 ^ 16), of_nat (n div 2 ^ 8), of_nat n])"

definition wrapTLV :: "byte \<Rightarrow> byte list \<Rightarrow> byte list" where
  "wrapTLV tag content = tag # encodeLength (length content) @ content"

text \<open>The \<open>k\<close> low bytes of a word, most significant first (\<open>binary.BigEndian.PutUint64/32\<close>).\<close>

definition be_bytes :: "nat \<Rightarrow> 'a::len word \<Rightarrow> byte list" where
  "be_bytes k w = map (\<lambda>j. ucast (drop_bit (8 * j) w)) (rev [0..<k])"

text \<open>\<open>for start < last && buf[start] == 0 \{ start++ \}\<close>, on the rest of the buffer.\<close>

fun skip_zeros :: "byte list \<Rightarrow> byte list" where
  "skip_zeros (a # b # r) = (if a = 0 then skip_zeros (b # r) else a # b # r)"
| "skip_zeros r = r"

fun skip_ones :: "byte list \<Rightarrow> byte list" where
  "skip_ones (a # b # r) = (if a = 0xff \<and> b AND 0x80 \<noteq> 0 then skip_ones (b # r) else a # b # r)"
| "skip_ones r = r"

definition high_bit :: "byte list \<Rightarrow> bool" where
  "high_bit r \<longleftrightarrow> (case r of [] \<Rightarrow> False | b # _ \<Rightarrow> b AND 0x80 \<noteq> 0)"

definition encodeInteger :: "int \<Rightarrow> byte list" where
  "encodeInteger v =
     (let buf = be_bytes 8 (word_of_int v :: 64 word) in
      if v \<ge> 0 then
        (let r = skip_zeros buf in
         if high_bit r then wrapTLV tagInteger (0 # r) else wrapTLV tagInteger r)
      else wrapTLV tagInteger (skip_ones buf))"

definition encodeUnsigned32 :: "byte \<Rightarrow> 32 word \<Rightarrow> byte list" where
  "encodeUnsigned32 tag v =
     (let r = skip_zeros (be_bytes 4 v) in
      if high_bit r then wrapTLV tag (0 # r) else wrapTLV tag r)"

definition encodeCounter64 :: "64 word \<Rightarrow> byte list" where
  "encodeCounter64 v =
     (let r = skip_zeros (be_bytes 8 v) in
      if high_bit r then wrapTLV tagCounter64 (0 # r) else wrapTLV tagCounter64 r)"

definition encodeOctetString :: "string \<Rightarrow> byte list" where
  "encodeOctetString s = wrapTLV tagOctetString (map byte_of_char s)"

definition encodeNull :: "byte list" where
  "encodeNull = [tagNull, 0x00]"

text \<open>The stack of 7-bit groups, least significant first, then reversed with continuation bits.\<close>

function base128_stack :: "64 word \<Rightarrow> byte list" where
  "base128_stack n = (if n > 0 then ucast (n AND 0x7f) # base128_stack (drop_bit 7 n) else [])"
  by pat_completeness auto
termination
proof (relation "measure unat")
  fix n :: "64 word" assume "n > 0"
  then have "unat n > 0" by (simp add: word_less_nat_alt)
  then show "(drop_bit 7 n, n) \<in> measure unat" by (simp add: drop_bit_eq_div unat_div_distrib)
qed simp

declare base128_stack.simps [simp del]

definition encodeBase128 :: "64 word \<Rightarrow> byte list" where
  "encodeBase128 n =
     (if n < 0x80 then [ucast n]
      else (let stack = rev (base128_stack n)
            in map (\<lambda>b. b OR 0x80) (butlast stack) @ [last stack]))"

definition encodeOID :: "oid \<Rightarrow> byte list" where
  "encodeOID o1 =
     (if length o1 < 2 then wrapTLV tagOID [0]
      else wrapTLV tagOID (ucast (o1 ! 0 * 40 + o1 ! 1) # concat (map encodeBase128 (drop 2 o1))))"

definition encodeValue :: "snmp_value \<Rightarrow> byte list" where
  "encodeValue v =
     (if v_Type v = tagInteger then encodeInteger (v_Int v)
      else if v_Type v = tagOctetString then encodeOctetString (v_Str v)
      else if v_Type v = tagNull then encodeNull
      else if v_Type v = tagOID then encodeOID (parseOID (v_Str v))
      else if v_Type v = tagCounter32 then encodeUnsigned32 tagCounter32 (word_of_int (v_Int v))
      else if v_Type v = tagGauge32 then encodeUnsigned32 tagGauge32 (word_of_int (v_Int v))
      else if v_Type v = tagTimeTicks then encodeUnsigned32 tagTimeTicks (word_of_int (v_Int v))
      else if v_Type v = tagCounter64 then
        (if v_U64 v \<noteq> 0 \<or> v_Int v = 0 then encodeCounter64 (v_U64 v)
         else if v_Int v < 0 then encodeCounter64 0
         else encodeCounter64 (word_of_int (v_Int v)))
      else if v_Type v = tagIPAddress then
        (if length (v_Raw v) = 4 then wrapTLV tagIPAddress (v_Raw v)
         else wrapTLV tagIPAddress [0, 0, 0, 0])
      else if v_Type v = tagNoSuchObject then [tagNoSuchObject, 0x00]
      else if v_Type v = tagNoSuchInstance then [tagNoSuchInstance, 0x00]
      else if v_Type v = tagEndOfMibView then [tagEndOfMibView, 0x00]
      else encodeInteger (v_Int v))"

section \<open>Decoding\<close>

datatype snmp_error = ErrEOF | ErrLengthForm | ErrTruncated | ErrEmptyOID | ErrEmptyInteger
  | ErrIntegerTooLarge | ErrEmptyUnsigned | ErrNotSequence | ErrVersionNotInteger
  | ErrCommunityNotOctets | ErrRequestIDNotInteger | ErrVarbindListNotSequence
  | ErrVarbindNotSequence | ErrVarbindNameNotOID

record reader =
  rd_b :: "byte list"
  rd_i :: nat

definition remaining :: "reader \<Rightarrow> nat" where
  "remaining r = length (rd_b r) - rd_i r"

definition readByte :: "reader \<Rightarrow> snmp_error + byte \<times> reader" where
  "readByte r = (if rd_i r \<ge> length (rd_b r) then Inl ErrEOF
     else Inr (rd_b r ! rd_i r, r\<lparr>rd_i := rd_i r + 1\<rparr>))"

fun readLengthBytes :: "nat \<Rightarrow> nat \<Rightarrow> reader \<Rightarrow> snmp_error + nat \<times> reader" where
  "readLengthBytes 0 l r = Inr (l, r)"
| "readLengthBytes (Suc n) l r =
     (case readByte r of Inl e \<Rightarrow> Inl e
      | Inr (bb, r') \<Rightarrow> readLengthBytes n (l * 2 ^ 8 + unat bb) r')"

definition readLength :: "reader \<Rightarrow> snmp_error + nat \<times> reader" where
  "readLength r =
     (case readByte r of Inl e \<Rightarrow> Inl e
      | Inr (b, r') \<Rightarrow>
        if b < 0x80 then Inr (unat b, r')
        else (let n = unat (b AND 0x7f) in
              if n = 0 \<or> n > 4 then Inl ErrLengthForm else readLengthBytes n 0 r'))"

definition readTLV :: "reader \<Rightarrow> snmp_error + byte \<times> byte list \<times> reader" where
  "readTLV r =
     (case readByte r of Inl e \<Rightarrow> Inl e
      | Inr (tag, r1) \<Rightarrow>
        (case readLength r1 of Inl e \<Rightarrow> Inl e
         | Inr (l, r2) \<Rightarrow>
           if remaining r2 < l then Inl ErrTruncated
           else Inr (tag, take l (drop (rd_i r2) (rd_b r2)), r2\<lparr>rd_i := rd_i r2 + l\<rparr>)))"

definition oid_step :: "oid \<times> 64 word \<Rightarrow> byte \<Rightarrow> oid \<times> 64 word" where
  "oid_step = (\<lambda>(out, v) b.
     let v' = push_bit 7 v OR ucast (b AND 0x7f)
     in if b AND 0x80 = 0 then (out @ [v'], 0) else (out, v'))"

definition decodeOIDContent :: "byte list \<Rightarrow> snmp_error + oid" where
  "decodeOIDContent raw =
     (case raw of [] \<Rightarrow> Inl ErrEmptyOID
      | b # r \<Rightarrow> Inr (fst (foldl oid_step ([ucast (b div 40), ucast (b mod 40)], 0) r)))"

definition shift_in :: "64 word \<Rightarrow> byte \<Rightarrow> 64 word" where
  "shift_in v b = push_bit 8 v OR ucast b"

definition decodeIntegerContent :: "byte list \<Rightarrow> snmp_error + int" where
  "decodeIntegerContent raw =
     (if length raw = 0 then Inl ErrEmptyInteger
      else if length raw > 8 then Inl ErrIntegerTooLarge
      else Inr (sint (foldl shift_in (if hd raw AND 0x80 \<noteq> 0 then - 1 else 0) raw)))"

definition decodeUnsignedContent :: "byte list \<Rightarrow> snmp_error + 64 word" where
  "decodeUnsignedContent raw =
     (if length raw = 0 then Inl ErrEmptyUnsigned
      else Inr (foldl shift_in 0 (if length raw > 1 \<and> hd raw = 0 then tl raw else raw)))"

definition decodeValue :: "byte \<Rightarrow> byte list \<Rightarrow> snmp_error + snmp_value" where
  "decodeValue tag content =
     (if tag = tagInteger then
        map_sum id (\<lambda>n. (value_of tagInteger)\<lparr>v_Int := n\<rparr>) (decodeIntegerContent content)
      else if tag = tagOctetString then
        Inr ((value_of tagOctetString)\<lparr>v_Str := map char_of_byte content\<rparr>)
      else if tag = tagNull then Inr (value_of tagNull)
      else if tag = tagOID then
        map_sum id (\<lambda>o1. (value_of tagOID)\<lparr>v_Str := OID_String o1\<rparr>) (decodeOIDContent content)
      else if tag = tagCounter32 \<or> tag = tagGauge32 \<or> tag = tagTimeTicks then
        map_sum id (\<lambda>u. (value_of tag)\<lparr>v_Int := uint (u AND 0xFFFFFFFF)\<rparr>)
          (decodeUnsignedContent content)
      else if tag = tagCounter64 then
        map_sum id (\<lambda>u. (value_of tagCounter64)\<lparr>v_U64 := u, v_Int := sint u\<rparr>)
          (decodeUnsignedContent content)
      else if tag = tagIPAddress then Inr ((value_of tagIPAddress)\<lparr>v_Raw := content\<rparr>)
      else if tag = tagNoSuchObject then Inr (value_of tagNoSuchObject)
      else if tag = tagNoSuchInstance then Inr (value_of tagNoSuchInstance)
      else if tag = tagEndOfMibView then Inr (value_of tagEndOfMibView)
      else Inr ((value_of tag)\<lparr>v_Raw := content\<rparr>))"

section \<open>Bits\<close>

lemma and_80_iff: "(b :: byte) AND 0x80 = 0 \<longleftrightarrow> \<not> bit b 7"
proof -
  have "(0x80 :: byte) = 2 ^ 7" by simp
  then show ?thesis by (metis and_exp_eq_0_iff_not_bit)
qed

lemma bit_7F: "bit (0x7F :: 'a::len word) n \<longleftrightarrow> n < 7 \<and> n < LENGTH('a)"
proof -
  have m: "(0x7F :: 'a word) = mask 7" by (simp add: mask_eq_exp_minus_1)
  show ?thesis unfolding m by (auto simp: bit_mask_iff)
qed

lemma bit_7F_int: "bit (0x7F :: int) n \<longleftrightarrow> n < 7"
proof -
  have m: "(0x7F :: int) = mask 7" by (simp add: mask_eq_exp_minus_1)
  show ?thesis unfolding m by (simp add: bit_mask_iff)
qed

lemma be_bytes_Suc: "be_bytes (Suc k) w = ucast (drop_bit (8 * k) w) # be_bytes k w"
  by (simp add: be_bytes_def)

lemma length_be_bytes [simp]: "length (be_bytes k w) = k"
  by (simp add: be_bytes_def)

lemma foldl_shift_in_be_bytes:
  "foldl shift_in i (be_bytes k (w :: 64 word)) = push_bit (8 * k) i OR take_bit (8 * k) w"
proof (induction k arbitrary: i)
  case 0
  then show ?case by (simp add: be_bytes_def)
next
  case (Suc k)
  show ?case
    unfolding be_bytes_Suc foldl_Cons Suc
    by (rule bit_word_eqI) (auto simp: shift_in_def bit_simps add.commute)
qed

lemma foldl_shift_in_8: "foldl shift_in i (be_bytes 8 (w :: 64 word)) = w"
  unfolding foldl_shift_in_be_bytes by (rule bit_word_eqI) (auto simp: bit_simps)

lemma be_bytes_4_ucast: "be_bytes 4 (v :: 32 word) = be_bytes 4 (ucast v :: 64 word)"
  unfolding be_bytes_def
  by (rule map_cong [OF refl], rule bit_word_eqI) (auto simp: bit_simps dest: bit_imp_le_length)

lemma foldl_shift_in_4: "foldl shift_in 0 (be_bytes 4 (v :: 32 word)) = ucast v"
  unfolding be_bytes_4_ucast foldl_shift_in_be_bytes
  by (rule bit_word_eqI) (auto simp: bit_simps dest: bit_imp_le_length)

lemma shift_in_0_0: "shift_in 0 0 = 0"
  by (simp add: shift_in_def)

lemma shift_in_ones: "shift_in (- 1) 0xff = - 1"
  by code_simp

lemma foldl_skip_zeros: "foldl shift_in 0 (skip_zeros r) = foldl shift_in 0 r"
  by (induction r rule: skip_zeros.induct) (auto simp: shift_in_0_0)

lemma foldl_skip_ones: "foldl shift_in (- 1) (skip_ones r) = foldl shift_in (- 1) r"
  by (induction r rule: skip_ones.induct) (auto simp: shift_in_ones)

lemma skip_zeros_nonempty: "r \<noteq> [] \<Longrightarrow> skip_zeros r \<noteq> []"
  by (induction r rule: skip_zeros.induct) auto

lemma skip_ones_nonempty: "r \<noteq> [] \<Longrightarrow> skip_ones r \<noteq> []"
  by (induction r rule: skip_ones.induct) auto

lemma length_skip_zeros: "length (skip_zeros r) \<le> length r"
  by (induction r rule: skip_zeros.induct) auto

lemma length_skip_ones: "length (skip_ones r) \<le> length r"
  by (induction r rule: skip_ones.induct) auto

lemma skip_zeros_full: "length (skip_zeros r) = length r \<Longrightarrow> skip_zeros r = r"
proof (cases r rule: skip_zeros.cases)
  case (1 a b xs)
  assume "length (skip_zeros r) = length r"
  with 1 length_skip_zeros [of "b # xs"] show ?thesis by (auto split: if_splits)
qed auto

lemma high_bit_skip_ones: "high_bit r \<Longrightarrow> high_bit (skip_ones r)"
  by (induction r rule: skip_ones.induct) (auto simp: high_bit_def)

lemma high_bit_be_bytes: "high_bit (be_bytes 8 (w :: 64 word)) \<longleftrightarrow> bit w 63"
proof -
  have "be_bytes 8 w = ucast (drop_bit 56 w) # be_bytes 7 w"
    using be_bytes_Suc [of 7 w] by simp
  then show ?thesis by (simp add: high_bit_def and_80_iff bit_simps)
qed

lemma bit_63_word_of_int: "in64 v \<Longrightarrow> bit (word_of_int v :: 64 word) 63 \<longleftrightarrow> v < 0"
proof -
  assume v: "in64 v"
  have "bit v 63 \<longleftrightarrow> odd (v div 2 ^ 63)" by (simp add: bit_iff_odd)
  also have "v div 2 ^ 63 = (if v < 0 then -1 else 0)"
  proof (cases "v < 0")
    case True
    have "(v + 2 ^ 63) div 2 ^ 63 = 0" using v True by (intro div_pos_pos_trivial) (auto simp: in64_def)
    then have "v div 2 ^ 63 = -1" by simp
    with True show ?thesis by simp
  next
    case False
    with v show ?thesis by (simp add: in64_def)
  qed
  finally show ?thesis by (auto simp: bit_word_of_int_iff)
qed

lemma high_bit_Cons: "high_bit (b # r) \<longleftrightarrow> b AND 0x80 \<noteq> 0"
  by (simp add: high_bit_def)

lemma high_bit_hd: "r \<noteq> [] \<Longrightarrow> high_bit r \<longleftrightarrow> hd r AND 0x80 \<noteq> 0"
  by (cases r) (auto simp: high_bit_def)

section \<open>Integers survive the codec\<close>

lemma sint_word_of_int_i64: "sint (word_of_int v :: 64 word) = i64 v"
  by (simp add: int_word_sint i64_def)

definition int_content :: "int \<Rightarrow> byte list" where
  "int_content v = (let buf = be_bytes 8 (word_of_int v :: 64 word) in
     if v \<ge> 0 then (let r = skip_zeros buf in if high_bit r then 0 # r else r) else skip_ones buf)"

definition unsigned_content :: "byte list \<Rightarrow> byte list" where
  "unsigned_content buf = (let r = skip_zeros buf in if high_bit r then 0 # r else r)"

lemma encodeInteger_content: "encodeInteger v = wrapTLV tagInteger (int_content v)"
  by (simp add: encodeInteger_def int_content_def Let_def)

lemma encodeUnsigned32_content: "encodeUnsigned32 t v = wrapTLV t (unsigned_content (be_bytes 4 v))"
  by (simp add: encodeUnsigned32_def unsigned_content_def Let_def)

lemma encodeCounter64_content:
  "encodeCounter64 v = wrapTLV tagCounter64 (unsigned_content (be_bytes 8 v))"
  by (simp add: encodeCounter64_def unsigned_content_def Let_def)

lemma decode_int_content: "in64 v \<Longrightarrow> decodeIntegerContent (int_content v) = Inr v"
proof -
  assume v: "in64 v"
  define w where "w = (word_of_int v :: 64 word)"
  have sw: "sint w = v" using v unfolding w_def by (simp add: sint_word_of_int_i64 i64_id)
  have ne: "be_bytes 8 w \<noteq> []" using length_be_bytes [of 8 w] by fastforce
  show ?thesis
  proof (cases "v \<ge> 0")
    case True
    let ?r = "skip_zeros (be_bytes 8 w)"
    have nh: "\<not> high_bit (be_bytes 8 w)"
      using True v bit_63_word_of_int [of v] by (simp add: high_bit_be_bytes w_def)
    have f: "foldl shift_in 0 ?r = w" by (simp add: foldl_skip_zeros foldl_shift_in_8)
    have r: "?r \<noteq> []" "length ?r \<le> 8"
      using ne skip_zeros_nonempty length_skip_zeros [of "be_bytes 8 w"] by auto
    have l: "high_bit ?r \<Longrightarrow> length ?r \<le> 7"
      using nh r(2) skip_zeros_full [of "be_bytes 8 w"] by (cases "length ?r = 8") auto
    show ?thesis
    proof (cases "high_bit ?r")
      case True
      with \<open>v \<ge> 0\<close> l f sw show ?thesis
        by (simp add: int_content_def decodeIntegerContent_def Let_def w_def [symmetric] shift_in_0_0)
    next
      case False
      with \<open>v \<ge> 0\<close> r f sw show ?thesis
        by (simp add: int_content_def decodeIntegerContent_def Let_def w_def [symmetric] high_bit_hd)
    qed
  next
    case False
    let ?r = "skip_ones (be_bytes 8 w)"
    have "high_bit (be_bytes 8 w)"
      using False v bit_63_word_of_int [of v] by (simp add: high_bit_be_bytes w_def)
    then have h: "high_bit ?r" by (rule high_bit_skip_ones)
    have r: "?r \<noteq> []" "length ?r \<le> 8"
      using ne skip_ones_nonempty length_skip_ones [of "be_bytes 8 w"] by auto
    have "foldl shift_in (- 1) ?r = w" by (simp add: foldl_skip_ones foldl_shift_in_8)
    with False h r sw show ?thesis
      by (simp add: int_content_def decodeIntegerContent_def Let_def w_def [symmetric] high_bit_hd)
  qed
qed

lemma decode_unsigned_content:
  assumes "buf \<noteq> []"
  shows "decodeUnsignedContent (unsigned_content buf) = Inr (foldl shift_in 0 buf)"
proof -
  have "decodeUnsignedContent r = Inr (foldl shift_in 0 r)" if "r \<noteq> []" for r
    using that by (cases r) (auto simp: decodeUnsignedContent_def shift_in_0_0)
  moreover have "skip_zeros buf \<noteq> []" using assms by (rule skip_zeros_nonempty)
  ultimately show ?thesis
    by (simp add: unsigned_content_def Let_def foldl_skip_zeros shift_in_0_0)
qed

section \<open>Object identifiers survive the codec\<close>

lemma base128_stack_pos:
  "n > 0 \<Longrightarrow> base128_stack n = ucast (n AND 0x7f) # base128_stack (drop_bit 7 n)"
  by (subst base128_stack.simps) simp

lemma base128_stack_zero [simp]: "base128_stack 0 = []"
  by (subst base128_stack.simps) simp

definition group_in :: "64 word \<Rightarrow> byte \<Rightarrow> 64 word" where
  "group_in v b = push_bit 7 v OR ucast (b AND 0x7f)"

lemma group_in_marked: "group_in v (b OR 0x80) = group_in v b"
proof -
  have "(b OR 0x80) AND 0x7f = b AND 0x7f"
  proof -
    have "(0x80 :: byte) AND 0x7f = 0" by simp
    then show ?thesis by (simp add: bit.conj_disj_distrib2)
  qed
  then show ?thesis by (simp add: group_in_def)
qed

lemma group_in_last: "group_in (drop_bit 7 n) (ucast (n AND 0x7f)) = n"
proof (rule bit_word_eqI)
  fix k assume "k < LENGTH(64)"
  then show "bit (group_in (drop_bit 7 n) (ucast (n AND 0x7f))) k \<longleftrightarrow> bit n k"
    by (cases "k < 7") (auto simp: group_in_def bit_simps bit_7F bit_7F_int)
qed

lemma foldl_group_stack: "foldl group_in 0 (rev (base128_stack n)) = n"
proof (induction n rule: base128_stack.induct)
  case (1 n)
  show ?case
  proof (cases "n > 0")
    case True
    with 1 show ?thesis by (simp add: base128_stack_pos group_in_last)
  next
    case False
    then have "n = 0" by (simp add: word_gt_0)
    then show ?thesis by simp
  qed
qed

lemma base128_stack_small: "b \<in> set (base128_stack n) \<Longrightarrow> b AND 0x80 = 0"
proof (induction n rule: base128_stack.induct)
  case (1 n)
  show ?case
  proof (cases "n > 0")
    case True
    with 1 show ?thesis by (auto simp: base128_stack_pos and_80_iff bit_simps bit_7F bit_7F_int)
  next
    case False
    with 1 show ?thesis by (simp add: word_gt_0)
  qed
qed

lemma oid_step_group: "oid_step (out, v) b =
    (if b AND 0x80 = 0 then (out @ [group_in v b], 0) else (out, group_in v b))"
  by (simp add: oid_step_def group_in_def Let_def)

lemma foldl_oid_marked:
  "foldl oid_step (out, v) (map (\<lambda>b. b OR 0x80) gs) = (out, foldl group_in v gs)"
proof (induction gs arbitrary: v)
  case (Cons g gs)
  have "(g OR 0x80) AND 0x80 \<noteq> 0" by (auto simp: and_80_iff bit_simps bit_numeral_rec(1))
  with Cons show ?case by (simp add: oid_step_group group_in_marked)
qed simp

lemma foldl_oid_base128: "foldl oid_step (out, 0) (encodeBase128 n) = (out @ [n], 0)"
proof (cases "n < 0x80")
  case True
  have b: "\<not> bit n k" if "k \<ge> 7" for k
  proof -
    have "unat n < 2 ^ 7" using True by (simp add: word_less_nat_alt)
    then have "take_bit 7 n = n"
      by (metis take_bit_nat_eq_self unsigned_take_bit_eq word_unat_eq_iff)
    with that show ?thesis by (metis bit_take_bit_iff not_less)
  qed
  then have "ucast n AND (0x80 :: byte) = 0" by (simp add: and_80_iff bit_simps)
  moreover have "group_in 0 (ucast n) = n"
    unfolding group_in_def
    by (rule bit_word_eqI) (use b in \<open>auto simp: bit_simps bit_7F bit_7F_int not_le [symmetric]\<close>)
  ultimately show ?thesis using True by (simp add: encodeBase128_def oid_step_group)
next
  case False
  let ?s = "rev (base128_stack n)"
  have "n > 0" using False by (cases "n = 0") (auto simp: word_gt_0)
  then have ne: "?s \<noteq> []" by (simp add: base128_stack_pos)
  then have "last ?s AND 0x80 = 0" using base128_stack_small [of "last ?s" n] last_in_set [OF ne] by simp
  moreover have "group_in (foldl group_in 0 (butlast ?s)) (last ?s) = n"
    using foldl_group_stack [of n] append_butlast_last_id [OF ne]
    by (metis foldl_Cons foldl_Nil foldl_append)
  ultimately show ?thesis using False
    by (simp add: encodeBase128_def Let_def foldl_oid_marked oid_step_group)
qed

lemma foldl_oid_base128_list:
  "foldl oid_step (out, 0) (concat (map encodeBase128 ns)) = (out @ ns, 0)"
  by (induction ns arbitrary: out) (auto simp: foldl_oid_base128)

text \<open>An identifier the encoding represents exactly: X.690's first byte is the first two arcs.\<close>

definition oid_ok :: "oid \<Rightarrow> bool" where
  "oid_ok o1 \<longleftrightarrow> 2 \<le> length o1 \<and> unat (o1 ! 1) < 40 \<and> unat (o1 ! 0) * 40 + unat (o1 ! 1) < 256"

definition oid_content :: "oid \<Rightarrow> byte list" where
  "oid_content o1 = (if length o1 < 2 then [0]
     else ucast (o1 ! 0 * 40 + o1 ! 1) # concat (map encodeBase128 (drop 2 o1)))"

lemma encodeOID_content: "encodeOID o1 = wrapTLV tagOID (oid_content o1)"
  by (simp add: encodeOID_def oid_content_def)

lemma decode_oid_total: "\<exists>o2. decodeOIDContent (oid_content o1) = Inr o2"
  by (auto simp: decodeOIDContent_def oid_content_def)

lemma first_arc_byte:
  assumes "unat a * 40 + unat b < 256" "unat b < 40"
  shows "ucast ((ucast (a * 40 + b :: 64 word) :: byte) div 40) = a"
    "ucast ((ucast (a * 40 + b :: 64 word) :: byte) mod 40) = b"
proof -
  have u: "unat (a * 40 + b) = unat a * 40 + unat b"
    using assms by (simp add: unat_word_ariths)
  then have v: "unat (ucast (a * 40 + b) :: byte) = unat a * 40 + unat b"
    using assms by (simp add: unsigned_ucast_eq take_bit_nat_eq_self_iff)
  have "unat ((ucast (a * 40 + b) :: byte) div 40) = unat a"
    "unat ((ucast (a * 40 + b) :: byte) mod 40) = unat b"
    using v assms by (simp_all add: unat_div_distrib unat_mod_distrib)
  then have "unat (ucast ((ucast (a * 40 + b) :: byte) div 40) :: 64 word) = unat a"
    "unat (ucast ((ucast (a * 40 + b) :: byte) mod 40) :: 64 word) = unat b"
    using assms by (simp_all add: unsigned_ucast_eq take_bit_nat_eq_self_iff)
  then show "ucast ((ucast (a * 40 + b) :: byte) div 40) = a"
    "ucast ((ucast (a * 40 + b) :: byte) mod 40) = b"
    by (metis word_unat_eq_iff)+
qed

lemma decode_oid_content: "oid_ok o1 \<Longrightarrow> decodeOIDContent (oid_content o1) = Inr o1"
proof -
  assume ok: "oid_ok o1"
  then obtain a b r where o: "o1 = a # b # r"
    by (auto simp: oid_ok_def) (metis One_nat_def Suc_1 Suc_le_length_iff)
  with ok show ?thesis
    by (simp add: oid_content_def decodeOIDContent_def foldl_oid_base128_list oid_ok_def first_arc_byte)
qed

section \<open>Printed identifiers parse back\<close>

lemma set_Join_digits:
  "c \<in> set (Join (map (\<lambda>n. nat_str (f n)) xs) ''.'') \<Longrightarrow> is_digit c \<or> c = CHR ''.''"
  by (induction xs rule: induct_list012) (auto dest: nat_str_digits)

lemma hd_Join_nat: "xs \<noteq> [] \<Longrightarrow> is_digit (hd (Join (map (\<lambda>n. nat_str (f n)) xs) ''.''))"
  by (induction xs rule: induct_list012) (auto simp: hd_nat_str)

lemma Join_nat_nonempty: "xs \<noteq> [] \<Longrightarrow> Join (map (\<lambda>n. nat_str (f n)) xs) ''.'' \<noteq> []"
  by (induction xs rule: induct_list012) auto

lemma trimmed_OID_String: "trimmed (OID_String o1)"
proof -
  have sp: "\<not> is_space c" if "is_digit c \<or> c = CHR ''.''" for c
  proof -
    have "\<not> is_space CHR ''.''" by (simp add: is_space_def)
    with that show ?thesis using digit_not_space by blast
  qed
  show ?thesis
  proof (cases "o1 = []")
    case False
    let ?s = "Join (map (\<lambda>n. nat_str (unat n)) o1) ''.''"
    have "?s \<noteq> []" using Join_nat_nonempty [OF False] .
    then have "\<not> is_space (hd ?s)" "\<not> is_space (last ?s)"
      by (auto intro!: sp set_Join_digits [of _ unat o1])
    then show ?thesis using False by (simp add: trimmed_def OID_String_def)
  qed (simp add: trimmed_def OID_String_def)
qed

lemma parse_arcs:
  assumes "\<forall>n\<in>set o1. unat n < 2 ^ 32"
  shows "concat (map (\<lambda>p. if p = [] then [] else
           (case ParseUint 32 p of None \<Rightarrow> [] | Some n \<Rightarrow> [of_nat n])) (map (\<lambda>n. nat_str (unat n)) o1))
         = (o1 :: oid)"
  using assms by (induction o1) (auto simp: ParseUint_nat_str)

lemma parseOID_OID_String:
  assumes "\<forall>n\<in>set o1. unat n < 2 ^ 32"
  shows "parseOID (OID_String o1) = o1"
proof (cases "o1 = []")
  case True
  then show ?thesis by (simp add: parseOID_def OID_String_def TrimPrefix_def)
next
  case False
  let ?s = "Join (map (\<lambda>n. nat_str (unat n)) o1) ''.''"
  have h: "is_digit (hd ?s)" using hd_Join_nat [OF False, of unat] .
  have ne: "?s \<noteq> []"
    using Join_nat_nonempty [OF False] .
  have "TrimPrefix ?s ''.'' = ?s"
    using h ne by (cases ?s) (auto simp: TrimPrefix_def is_digit_range)
  moreover have "split_on CHR ''.'' ?s = map (\<lambda>n. nat_str (unat n)) o1"
    using False by (intro split_on_Join) (auto simp: nat_str_notin is_digit_range)
  ultimately show ?thesis
    using False ne parse_arcs [OF assms] TrimSpace_trimmed [OF trimmed_OID_String, of o1]
    by (simp add: parseOID_def OID_String_def Let_def)
qed

section \<open>Tag, length, value\<close>

text \<open>A reader between what it has read and what is left.\<close>

definition at_reader :: "byte list \<Rightarrow> byte list \<Rightarrow> reader" where
  "at_reader pre post = \<lparr>rd_b = pre @ post, rd_i = length pre\<rparr>"

lemma reader_start: "\<lparr>rd_b = bs, rd_i = 0\<rparr> = at_reader [] bs"
  by (simp add: at_reader_def)

lemma remaining_at [ber_simps]: "remaining (at_reader pre post) = length post"
  by (simp add: at_reader_def remaining_def)

lemma readByte_at [ber_simps]: "readByte (at_reader pre (b # post)) = Inr (b, at_reader (pre @ [b]) post)"
  by (simp add: at_reader_def readByte_def nth_append)

lemma unat_byte: "unat (of_nat n :: byte) = n mod 256"
  by (simp add: unat_of_nat)

definition be_nat :: "nat \<Rightarrow> byte list \<Rightarrow> nat" where
  "be_nat l bs = foldl (\<lambda>l b. l * 256 + unat b) l bs"

lemma be_nat_2: "be_nat 0 [a, b] = unat a * 256 + unat b"
  and be_nat_3: "be_nat 0 [a, b, c] = (unat a * 256 + unat b) * 256 + unat c"
  by (simp_all add: be_nat_def)

lemma readLengthBytes_at:
  "readLengthBytes (length bs) l (at_reader pre (bs @ post)) =
    Inr (be_nat l bs, at_reader (pre @ bs) post)"
  by (induction bs arbitrary: l pre) (simp_all add: be_nat_def ber_simps)

lemma readLength_long:
  assumes "unat b = 128 + length bs" "0 < length bs" "length bs \<le> 4"
  shows "readLength (at_reader pre (b # bs @ post)) = Inr (be_nat 0 bs, at_reader (pre @ b # bs) post)"
proof -
  have "\<not> b < 0x80" using assms(1) by (simp add: word_less_nat_alt)
  moreover have "b AND 0x7f = take_bit 7 b" by (simp add: take_bit_eq_mask mask_eq_exp_minus_1)
  then have "unat (b AND 0x7f) = length bs"
    using assms(1,3) unsigned_take_bit_eq [of 7 b, where ?'a = nat] by (simp only: take_bit_eq_mod) simp
  ultimately show ?thesis
    using assms readLengthBytes_at [of bs 0 "pre @ [b]" post]
    by (simp add: readLength_def readByte_at Let_def)
qed

lemma readLength_at:
  assumes "n < 2 ^ 24"
  shows "readLength (at_reader pre (encodeLength n @ post)) =
    Inr (n, at_reader (pre @ encodeLength n) post)"
proof -
  consider "n < 0x80" | "0x80 \<le> n" "n \<le> 0xff" | "0xff < n" "n \<le> 0xffff" | "0xffff < n" by linarith
  then show ?thesis
  proof cases
    case 1
    then have "(of_nat n :: byte) < 0x80" by (simp add: word_less_nat_alt unat_byte)
    then show ?thesis using 1 by (simp add: readLength_def encodeLength_def ber_simps unat_byte)
  next
    case 2
    then have "be_nat 0 [of_nat n] = n" by (simp add: be_nat_def unat_byte)
    then show ?thesis using 2 readLength_long [of "0x81" "[of_nat n]" pre post]
      by (simp add: encodeLength_def)
  next
    case 3
    then have "n div 256 < 256" by simp
    then have "n div 256 mod 256 * 256 + n mod 256 = n" by (metis mod_less div_mult_mod_eq)
    then have "be_nat 0 [of_nat (n div 256), of_nat n] = n"
      by (simp only: be_nat_2 unat_byte)
    then show ?thesis using 3 readLength_long [of "0x82" "[of_nat (n div 256), of_nat n]" pre post]
      by (simp add: encodeLength_def)
  next
    case 4
    have "n div 65536 = n div 256 div 256" by (simp add: div_mult2_eq [symmetric])
    moreover have "n div 256 div 256 < 256" using assms by (simp add: div_mult2_eq [symmetric] less_mult_imp_div_less)
    ultimately have "(n div 65536 mod 256 * 256 + n div 256 mod 256) * 256 + n mod 256 = n"
      by (metis mod_less div_mult_mod_eq)
    then have "be_nat 0 [of_nat (n div 65536), of_nat (n div 256), of_nat n] = n"
      by (simp only: be_nat_3 unat_byte)
    then show ?thesis
      using 4 readLength_long [of "0x83" "[of_nat (n div 65536), of_nat (n div 256), of_nat n]" pre post]
      by (simp add: encodeLength_def)
  qed
qed

lemma readTLV_at [ber_simps]:
  assumes "length c < 2 ^ 24"
  shows "readTLV (at_reader pre (wrapTLV t c @ post)) = Inr (t, c, at_reader (pre @ wrapTLV t c) post)"
proof -
  let ?r = "at_reader ((pre @ [t]) @ encodeLength (length c)) (c @ post)"
  have "wrapTLV t c @ post = t # encodeLength (length c) @ c @ post" by (simp add: wrapTLV_def)
  moreover have "take (length c) (drop (rd_i ?r) (rd_b ?r)) = c"
    by (simp add: at_reader_def)
  moreover have "?r\<lparr>rd_i := rd_i ?r + length c\<rparr> = at_reader (pre @ wrapTLV t c) post"
    by (simp add: at_reader_def wrapTLV_def)
  ultimately show ?thesis
    using readLength_at [OF assms, of "pre @ [t]" "c @ post"]
    by (simp only: readTLV_def) (simp add: readTLV_def ber_simps del: append_assoc)
qed

section \<open>Values survive the codec\<close>

definition value_tag :: "snmp_value \<Rightarrow> byte" where
  "value_tag v = (if v_Type v \<in> {tagInteger, tagOctetString, tagNull, tagOID, tagCounter32, tagGauge32,
       tagTimeTicks, tagCounter64, tagIPAddress, tagNoSuchObject, tagNoSuchInstance, tagEndOfMibView}
     then v_Type v else tagInteger)"

definition value_content :: "snmp_value \<Rightarrow> byte list" where
  "value_content v =
     (if v_Type v = tagOctetString then map byte_of_char (v_Str v)
      else if v_Type v \<in> {tagNull, tagNoSuchObject, tagNoSuchInstance, tagEndOfMibView} then []
      else if v_Type v = tagOID then oid_content (parseOID (v_Str v))
      else if v_Type v \<in> {tagCounter32, tagGauge32, tagTimeTicks} then
        unsigned_content (be_bytes 4 (word_of_int (v_Int v) :: 32 word))
      else if v_Type v = tagCounter64 then
        unsigned_content (be_bytes 8 (if v_U64 v \<noteq> 0 \<or> v_Int v = 0 then v_U64 v
          else if v_Int v < 0 then 0 else word_of_int (v_Int v)))
      else if v_Type v = tagIPAddress then (if length (v_Raw v) = 4 then v_Raw v else [0, 0, 0, 0])
      else int_content (v_Int v))"

lemma encodeValue_content: "encodeValue v = wrapTLV (value_tag v) (value_content v)"
  by (simp add: encodeValue_def value_tag_def value_content_def encodeInteger_content
      encodeUnsigned32_content encodeCounter64_content encodeOctetString_def encodeOID_content
      encodeNull_def)
    (simp add: wrapTLV_def encodeLength_def)

text \<open>A value that uses only the fields of its type, in their range: what \<open>decodeValue\<close> produces.\<close>

definition wf_value :: "snmp_value \<Rightarrow> bool" where
  "wf_value v \<longleftrightarrow>
     (let z = value_of (v_Type v) in
      if v_Type v = tagInteger then z\<lparr>v_Int := v_Int v\<rparr> = v \<and> in64 (v_Int v)
      else if v_Type v = tagOctetString then z\<lparr>v_Str := v_Str v\<rparr> = v
      else if v_Type v \<in> {tagNull, tagNoSuchObject, tagNoSuchInstance, tagEndOfMibView} then z = v
      else if v_Type v = tagOID then
        oid_ok (parseOID (v_Str v)) \<and> z\<lparr>v_Str := OID_String (parseOID (v_Str v))\<rparr> = v
      else if v_Type v \<in> {tagCounter32, tagGauge32, tagTimeTicks} then
        z\<lparr>v_Int := v_Int v\<rparr> = v \<and> 0 \<le> v_Int v \<and> v_Int v < 2 ^ 32
      else if v_Type v = tagCounter64 then z\<lparr>v_U64 := v_U64 v, v_Int := sint (v_U64 v)\<rparr> = v
      else if v_Type v = tagIPAddress then z\<lparr>v_Raw := v_Raw v\<rparr> = v \<and> length (v_Raw v) = 4
      else False)"

lemma be_bytes_nonempty: "0 < k \<Longrightarrow> be_bytes k w \<noteq> []"
  using length_be_bytes [of k w] by (metis length_0_conv less_irrefl)

lemma decode_unsigned_8:
  "decodeUnsignedContent (unsigned_content (be_bytes 8 (w :: 64 word))) = Inr w"
  by (simp add: decode_unsigned_content be_bytes_nonempty foldl_shift_in_8)

lemma decode_unsigned_4:
  "decodeUnsignedContent (unsigned_content (be_bytes 4 (w :: 32 word))) = Inr (ucast w)"
  by (simp add: decode_unsigned_content be_bytes_nonempty foldl_shift_in_4)

lemma uint_ucast_mask32: "uint ((ucast (w :: 32 word) :: 64 word) AND 0xFFFFFFFF) = uint w"
proof -
  have "(ucast w :: 64 word) AND 0xFFFFFFFF = take_bit 32 (ucast w)"
    by (simp add: take_bit_eq_mask mask_eq_exp_minus_1)
  also have "\<dots> = ucast w"
    by (rule bit_word_eqI) (auto simp: bit_simps dest: bit_imp_le_length)
  finally show ?thesis by (simp add: unsigned_ucast_eq take_bit_int_eq_self_iff order_less_le_trans [OF uint_lt2p])
qed

lemmas value_simps = decodeValue_def value_tag_def value_content_def decode_int_content
  decode_unsigned_4 decode_unsigned_8 uint_ucast_mask32 uint_word_of_int take_bit_int_eq_self_iff
  decode_oid_content

lemma wf_counter64: "wf_value v \<Longrightarrow> v_Type v = tagCounter64 \<Longrightarrow> v_Int v = sint (v_U64 v)"
  by (simp add: wf_value_def Let_def) (metis snmp_value.select_convs(2) snmp_value.surjective
      snmp_value.update_convs(2))

lemma decode_value_content:
  assumes v: "wf_value v" shows "decodeValue (value_tag v) (value_content v) = Inr v"
proof -
  consider "v_Type v = tagCounter64" | "v_Type v = tagIPAddress"
    | "v_Type v = tagOctetString" | "v_Type v \<in> {tagNull, tagNoSuchObject, tagNoSuchInstance, tagEndOfMibView}"
    | "v_Type v = tagOID" | "v_Type v \<in> {tagCounter32, tagGauge32, tagTimeTicks}" | "v_Type v = tagInteger"
    using v unfolding wf_value_def Let_def by metis
  then show ?thesis
  proof cases
    case 1
    then show ?thesis using v wf_counter64 [OF v 1]
      by (cases "v_U64 v = 0") (simp_all add: value_simps wf_value_def Let_def)
  qed (use v in \<open>auto simp: value_simps wf_value_def Let_def\<close>)
qed

text \<open>Whatever the agent encodes for a value, the decoder accepts.\<close>

lemma decode_value_total:
  assumes "in64 (v_Int v)"
  shows "\<exists>v'. decodeValue (value_tag v) (value_content v) = Inr v'"
  using assms decode_oid_total [of "parseOID (v_Str v)"]
  by (auto simp: decodeValue_def value_tag_def value_content_def decode_int_content
      decode_unsigned_4 decode_unsigned_8 decode_unsigned_content be_bytes_nonempty split: if_splits)

section \<open>Properties\<close>

text \<open>
  Every well-formed SNMP value survives the wire: reading the bytes \<open>encodeValue\<close> produced,
  whatever follows them in the packet, consumes exactly them, and \<open>decodeValue\<close> on the tag and
  content read gives the value back.
\<close>

theorem value_roundtrip:
  assumes "wf_value v" and "length (value_content v) < 2 ^ 24"
  shows "\<exists>t c r. readTLV \<lparr>rd_b = encodeValue v @ rest, rd_i = 0\<rparr> = Inr (t, c, r)
    \<and> decodeValue t c = Inr v
    \<and> rd_i r = length (encodeValue v) \<and> drop (rd_i r) (rd_b r) = rest"
proof -
  have "readTLV (at_reader [] (encodeValue v @ rest))
      = Inr (value_tag v, value_content v, at_reader (encodeValue v) rest)"
    using readTLV_at [OF assms(2), of "[]" "value_tag v" rest] by (simp add: encodeValue_content)
  then show ?thesis
    using decode_value_content [OF assms(1)] by (simp add: reader_start) (simp add: at_reader_def)
qed

theorem value_roundtrip_witness:
  "\<exists>t c r. readTLV \<lparr>rd_b = encodeValue ((value_of tagOctetString)\<lparr>v_Str := ''wg0''\<rparr>) @ [7], rd_i = 0\<rparr>
      = Inr (t, c, r)
    \<and> decodeValue t c = Inr ((value_of tagOctetString)\<lparr>v_Str := ''wg0''\<rparr>)
    \<and> rd_i r = length (encodeValue ((value_of tagOctetString)\<lparr>v_Str := ''wg0''\<rparr>))
    \<and> drop (rd_i r) (rd_b r) = [7]"
  by (rule value_roundtrip) (simp_all add: wf_value_def value_of_def value_content_def)

text \<open>
  An object identifier whose first two arcs fit the first byte comes back from
  \<open>decodeOIDContent\<close> unchanged; printed and parsed again it is unchanged when its arcs are 32-bit
  numbers; \<open>Compare\<close> orders identifiers lexicographically, agrees with \<open>Equal\<close>, and puts a proper
  prefix before its extensions.
\<close>

theorem oid_codec:
  "oid_ok o1 \<Longrightarrow> (\<forall>n\<in>set o1. unat n < 2 ^ 32) \<Longrightarrow>
    encodeOID o1 = wrapTLV tagOID (oid_content o1) \<and> decodeOIDContent (oid_content o1) = Inr o1
    \<and> parseOID (OID_String o1) = o1
    \<and> (OID_Compare o1 o2 < 0 \<longleftrightarrow> o1 < o2) \<and> (OID_Compare o1 o2 = 0 \<longleftrightarrow> OID_Equal o1 o2)
    \<and> (OID_IsPrefix o1 o2 \<longrightarrow> OID_Compare o1 o2 \<le> 0)"
  by (auto simp: OID_Compare_0 encodeOID_content decode_oid_content parseOID_OID_String OID_Compare_lt
      OID_IsPrefix_iff OID_Compare_le prefix_def le_append)

theorem oid_codec_witness:
  "encodeOID [1, 3, 6, 300] = wrapTLV tagOID (oid_content [1, 3, 6, 300])
    \<and> decodeOIDContent (oid_content [1, 3, 6, 300]) = Inr [1, 3, 6, 300]
    \<and> parseOID (OID_String [1, 3, 6, 300]) = [1, 3, 6, 300]
    \<and> OID_Compare [1, 3, 6, 300] [1, 3, 6, 300, 7] \<le> 0"
  using oid_codec [of "[1, 3, 6, 300]" "[1, 3, 6, 300, 7]"] by (simp add: oid_ok_def OID_IsPrefix_iff)

text \<open>
  The first byte of an identifier holds its first two arcs only while the second is below 40:
  the legal identifier 2.100.3 is decoded as 4.20.3, and 2.999 loses bits of its second arc.
\<close>

theorem oid_first_byte_ambiguous:
  "decodeOIDContent (oid_content [2, 100, 3]) = Inr [4, 20, 3]
   \<and> decodeOIDContent (oid_content [2, 999, 3]) = Inr [1, 15, 3]"
  by code_simp

end
