(* ===== verification/SnmpPdu.thy ===== *)
theory SnmpPdu
  imports SnmpBer
begin

text \<open>
  SNMP messages (\<open>internal/snmp/pdu.go\<close>): the records, the decoder with every error return, the
  encoder, and the two theorems that connect them: what the encoder writes, the decoder accepts with
  the same header, and a well-formed message comes back unchanged.
\<close>

section \<open>PDU types and error statuses\<close>

abbreviation PDUGet :: byte where "PDUGet \<equiv> 0xa0"
abbreviation PDUGetNext :: byte where "PDUGetNext \<equiv> 0xa1"
abbreviation PDUResponse :: byte where "PDUResponse \<equiv> 0xa2"
abbreviation PDUSet :: byte where "PDUSet \<equiv> 0xa3"
abbreviation PDUGetBulk :: byte where "PDUGetBulk \<equiv> 0xa5"

abbreviation ErrNoError :: int where "ErrNoError \<equiv> 0"
abbreviation ErrTooBig :: int where "ErrTooBig \<equiv> 1"
abbreviation ErrGenErr :: int where "ErrGenErr \<equiv> 5"
abbreviation ErrNotWritable :: int where "ErrNotWritable \<equiv> 17"

record VarBind =
  vb_Name :: oid
  vb_Value :: snmp_value

record PDU =
  pdu_Type :: byte
  pdu_RequestID :: int
  pdu_ErrorStatus :: int
  pdu_ErrorIndex :: int
  pdu_NonRepeaters :: int
  pdu_MaxRepetitions :: int
  pdu_IsBulk :: bool
  pdu_Bindings :: "VarBind list"

record Message =
  msg_Version :: int
  msg_Community :: string
  msg_PDU :: PDU

text \<open>\<open>int32(id)\<close>\<close>

definition i32 :: "int \<Rightarrow> int" where
  "i32 x = (x + 2 ^ 31) mod 2 ^ 32 - 2 ^ 31"

definition in32 :: "int \<Rightarrow> bool" where
  "in32 x \<longleftrightarrow> - (2 ^ 31) \<le> x \<and> x < 2 ^ 31"

lemma i32_id: "in32 x \<Longrightarrow> i32 x = x"
  by (simp add: i32_def in32_def mod_pos_pos_trivial)

lemma in32_i32 [simp]: "in32 (i32 x)"
proof -
  define m where "m = (x + 2 ^ 31) mod 2 ^ 32"
  have "0 \<le> m" "m < 2 ^ 32" unfolding m_def by simp_all
  then show ?thesis unfolding i32_def in32_def m_def [symmetric] by simp
qed

lemma in32_in64: "in32 x \<Longrightarrow> in64 x"
  by (simp add: in32_def in64_def)

section \<open>Decoding\<close>

definition decodeVarBind :: "byte list \<Rightarrow> snmp_error + VarBind" where
  "decodeVarBind content =
     (case readTLV \<lparr>rd_b = content, rd_i = 0\<rparr> of Inl e \<Rightarrow> Inl e
      | Inr (t, c, r) \<Rightarrow>
        if t \<noteq> tagOID then Inl ErrVarbindNameNotOID
        else (case decodeOIDContent c of Inl e \<Rightarrow> Inl e
        | Inr o1 \<Rightarrow>
          (case readTLV r of Inl e \<Rightarrow> Inl e
           | Inr (t2, c2, _) \<Rightarrow>
             (case decodeValue t2 c2 of Inl e \<Rightarrow> Inl e
              | Inr val \<Rightarrow> Inr \<lparr>vb_Name = o1, vb_Value = val\<rparr>))))"

lemma readByte_remaining: "readByte r = Inr (b, r') \<Longrightarrow> remaining r' < remaining r"
  by (auto simp: readByte_def remaining_def split: if_splits)

lemma readLengthBytes_remaining: "readLengthBytes n l r = Inr (m, r') \<Longrightarrow> remaining r' \<le> remaining r"
proof (induction n l r rule: readLengthBytes.induct)
  case (2 n l r)
  then obtain bb r1 where "readByte r = Inr (bb, r1)" "readLengthBytes n (l * 2 ^ 8 + unat bb) r1 = Inr (m, r')"
    by (auto split: sum.splits)
  then show ?case using 2(1) [of "(bb, r1)" bb r1] readByte_remaining [of r bb r1] by simp
qed simp

lemma readLength_remaining: "readLength r = Inr (l, r') \<Longrightarrow> remaining r' \<le> remaining r"
  by (auto simp: readLength_def Let_def split: sum.splits if_splits
      dest!: readByte_remaining readLengthBytes_remaining)

text \<open>Every element read makes the rest shorter: the loop over the varbinds ends.\<close>

lemma readTLV_remaining:
  assumes "readTLV r = Inr (t, c, r')" shows "remaining r' < remaining r"
proof -
  obtain r1 l r2 where "readByte r = Inr (t, r1)" "readLength r1 = Inr (l, r2)"
    "r' = r2\<lparr>rd_i := rd_i r2 + l\<rparr>"
    using assms by (auto simp: readTLV_def split: sum.splits if_splits)
  moreover have "remaining (r2\<lparr>rd_i := rd_i r2 + l\<rparr>) \<le> remaining r2" by (simp add: remaining_def)
  ultimately show ?thesis using readByte_remaining readLength_remaining
    by (meson le_less_trans)
qed

text \<open>\<open>for vr.remaining() > 0\<close>\<close>

function decodeVarBinds :: "reader \<Rightarrow> VarBind list \<Rightarrow> snmp_error + VarBind list" where
  "decodeVarBinds vr acc =
     (if remaining vr > 0 then
        (case readTLV vr of Inl e \<Rightarrow> Inl e
         | Inr (tt, cc, vr') \<Rightarrow>
           if tt \<noteq> tagSequence then Inl ErrVarbindNotSequence
           else (case decodeVarBind cc of Inl e \<Rightarrow> Inl e
                 | Inr vb \<Rightarrow> decodeVarBinds vr' (acc @ [vb])))
      else Inr acc)"
  by pat_completeness auto
termination
  by (relation "measure (\<lambda>(vr, acc). remaining vr)") (auto simp: readTLV_remaining)

declare decodeVarBinds.simps [simp del]

definition decodePDU :: "byte \<Rightarrow> byte list \<Rightarrow> snmp_error + PDU" where
  "decodePDU tag content =
     (case readTLV \<lparr>rd_b = content, rd_i = 0\<rparr> of Inl e \<Rightarrow> Inl e
      | Inr (t, c, r1) \<Rightarrow>
     (case decodeIntegerContent c of Inl e \<Rightarrow> Inl e
      | Inr i \<Rightarrow>
      if t \<noteq> tagInteger then Inl ErrRequestIDNotInteger else
     (case readTLV r1 of Inl e \<Rightarrow> Inl e
      | Inr (_, c1, r2) \<Rightarrow>
     (case decodeIntegerContent c1 of Inl e \<Rightarrow> Inl e
      | Inr n1 \<Rightarrow>
     (case readTLV r2 of Inl e \<Rightarrow> Inl e
      | Inr (_, c2, r3) \<Rightarrow>
     (case decodeIntegerContent c2 of Inl e \<Rightarrow> Inl e
      | Inr n2 \<Rightarrow>
     (case readTLV r3 of Inl e \<Rightarrow> Inl e
      | Inr (t4, c4, _) \<Rightarrow>
        if t4 \<noteq> tagSequence then Inl ErrVarbindListNotSequence
        else (let bulk = (tag = PDUGetBulk) in
         (case decodeVarBinds \<lparr>rd_b = c4, rd_i = 0\<rparr> [] of Inl e \<Rightarrow> Inl e
          | Inr vbs \<Rightarrow> Inr \<lparr>pdu_Type = tag, pdu_RequestID = i32 i,
              pdu_ErrorStatus = (if bulk then 0 else n1), pdu_ErrorIndex = (if bulk then 0 else n2),
              pdu_NonRepeaters = (if bulk then n1 else 0), pdu_MaxRepetitions = (if bulk then n2 else 0),
              pdu_IsBulk = bulk, pdu_Bindings = vbs\<rparr>)))))))))"

definition decodeMessage :: "byte list \<Rightarrow> snmp_error + Message" where
  "decodeMessage raw =
     (case readTLV \<lparr>rd_b = raw, rd_i = 0\<rparr> of Inl e \<Rightarrow> Inl e
      | Inr (tag, content, _) \<Rightarrow>
      if tag \<noteq> tagSequence then Inl ErrNotSequence else
     (case readTLV \<lparr>rd_b = content, rd_i = 0\<rparr> of Inl e \<Rightarrow> Inl e
      | Inr (t1, c1, r1) \<Rightarrow>
      if t1 \<noteq> tagInteger then Inl ErrVersionNotInteger else
     (case decodeIntegerContent c1 of Inl e \<Rightarrow> Inl e
      | Inr ver \<Rightarrow>
     (case readTLV r1 of Inl e \<Rightarrow> Inl e
      | Inr (t2, c2, r2) \<Rightarrow>
      if t2 \<noteq> tagOctetString then Inl ErrCommunityNotOctets else
     (case readTLV r2 of Inl e \<Rightarrow> Inl e
      | Inr (t3, c3, _) \<Rightarrow>
     (case decodePDU t3 c3 of Inl e \<Rightarrow> Inl e
      | Inr pdu \<Rightarrow> Inr \<lparr>msg_Version = ver, msg_Community = map char_of_byte c2, msg_PDU = pdu\<rparr>))))))"

section \<open>Encoding\<close>

definition encodeVarBind :: "VarBind \<Rightarrow> byte list" where
  "encodeVarBind b = wrapTLV tagSequence (encodeOID (vb_Name b) @ encodeValue (vb_Value b))"

definition encodePDU :: "PDU \<Rightarrow> byte list" where
  "encodePDU p =
     (let reqID = encodeInteger (pdu_RequestID p);
          (e1, e2) =
            (if pdu_IsBulk p \<and> pdu_Type p = PDUGetBulk then
               (encodeInteger (pdu_NonRepeaters p), encodeInteger (pdu_MaxRepetitions p))
             else (encodeInteger (pdu_ErrorStatus p), encodeInteger (pdu_ErrorIndex p)));
          vbs = concat (map encodeVarBind (pdu_Bindings p));
          vbList = wrapTLV tagSequence vbs;
          tag = (if pdu_Type p = 0 then PDUResponse else pdu_Type p)
      in wrapTLV tag (reqID @ e1 @ e2 @ vbList))"

definition encodeMessage :: "Message \<Rightarrow> byte list" where
  "encodeMessage m = wrapTLV tagSequence
     (encodeInteger (msg_Version m) @ encodeOctetString (msg_Community m) @ encodePDU (msg_PDU m))"

section \<open>What is encoded is decoded\<close>

lemma length_wrapTLV: "length c < length (wrapTLV t c)"
  by (simp add: wrapTLV_def)

lemma wrapTLV_nonempty [simp]: "wrapTLV t c \<noteq> []"
  by (simp add: wrapTLV_def)

lemma readTLV_end [ber_simps]:
  "length c < 2 ^ 24 \<Longrightarrow> readTLV (at_reader pre (wrapTLV t c)) = Inr (t, c, at_reader (pre @ wrapTLV t c) [])"
  using readTLV_at [of c pre t "[]"] by simp

lemmas content_simps = encodeInteger_content encodeOID_content encodeValue_content encodeOctetString_def

text \<open>\<open>b'\<close> is what the decoder makes of the encoding of \<open>b\<close>.\<close>

definition vb_wire :: "VarBind \<Rightarrow> VarBind \<Rightarrow> bool" where
  "vb_wire b b' \<longleftrightarrow> decodeOIDContent (oid_content (vb_Name b)) = Inr (vb_Name b')
     \<and> decodeValue (value_tag (vb_Value b)) (value_content (vb_Value b)) = Inr (vb_Value b')"

lemma decode_varbind:
  assumes "length (encodeVarBind b) < 2 ^ 24" "vb_wire b b'"
  shows "decodeVarBind (encodeOID (vb_Name b) @ encodeValue (vb_Value b)) = Inr b'"
proof -
  let ?c1 = "oid_content (vb_Name b)" and ?c2 = "value_content (vb_Value b)" and ?t = "value_tag (vb_Value b)"
  have "length (encodeVarBind b) > length (wrapTLV tagOID ?c1 @ wrapTLV ?t ?c2)"
    unfolding encodeVarBind_def content_simps by (rule length_wrapTLV)
  with assms(1) length_wrapTLV [of ?c1 tagOID] length_wrapTLV [of ?c2 ?t]
  have l: "length ?c1 < 2 ^ 24" "length ?c2 < 2 ^ 24" by simp_all
  show ?thesis
    using assms(2) unfolding content_simps decodeVarBind_def vb_wire_def
    by (simp add: reader_start readTLV_at [OF l(1)] readTLV_end [OF l(2)])
qed

lemma decode_varbinds:
  assumes "length (concat (map encodeVarBind bs)) < 2 ^ 24" "list_all2 vb_wire bs bs'"
  shows "decodeVarBinds (at_reader pre (concat (map encodeVarBind bs))) acc = Inr (acc @ bs')"
  using assms(2,1)
proof (induction bs bs' arbitrary: pre acc rule: list_all2_induct)
  case Nil
  then show ?case by (subst decodeVarBinds.simps) (simp add: ber_simps)
next
  case (Cons b bs b' bs')
  let ?c = "encodeOID (vb_Name b) @ encodeValue (vb_Value b)"
  let ?rest = "concat (map encodeVarBind bs)"
  have e: "encodeVarBind b = wrapTLV tagSequence ?c" by (simp add: encodeVarBind_def)
  have l: "length (encodeVarBind b) < 2 ^ 24" "length ?rest < 2 ^ 24" using Cons.prems by simp_all
  then have lc: "length ?c < 2 ^ 24" using length_wrapTLV [of ?c tagSequence] e by simp
  have "decodeVarBinds (at_reader pre (encodeVarBind b @ ?rest)) acc =
      decodeVarBinds (at_reader (pre @ encodeVarBind b) ?rest) (acc @ [b'])"
    using decode_varbind [OF l(1) Cons.hyps(1)] length_wrapTLV [of ?c tagSequence] unfolding e
    by (subst decodeVarBinds.simps) (simp add: ber_simps lc readTLV_at [OF lc])
  with Cons.IH [OF l(2)] show ?case by simp
qed

definition pdu_n1 :: "PDU \<Rightarrow> int" where
  "pdu_n1 p = (if pdu_IsBulk p \<and> pdu_Type p = PDUGetBulk then pdu_NonRepeaters p else pdu_ErrorStatus p)"

definition pdu_n2 :: "PDU \<Rightarrow> int" where
  "pdu_n2 p = (if pdu_IsBulk p \<and> pdu_Type p = PDUGetBulk then pdu_MaxRepetitions p else pdu_ErrorIndex p)"

definition pdu_tag :: "PDU \<Rightarrow> byte" where
  "pdu_tag p = (if pdu_Type p = 0 then PDUResponse else pdu_Type p)"

definition pdu_content :: "PDU \<Rightarrow> byte list" where
  "pdu_content p = wrapTLV tagInteger (int_content (pdu_RequestID p))
     @ wrapTLV tagInteger (int_content (pdu_n1 p)) @ wrapTLV tagInteger (int_content (pdu_n2 p))
     @ wrapTLV tagSequence (concat (map encodeVarBind (pdu_Bindings p)))"

lemma encodePDU_content: "encodePDU p = wrapTLV (pdu_tag p) (pdu_content p)"
  by (simp add: encodePDU_def pdu_tag_def pdu_content_def pdu_n1_def pdu_n2_def content_simps Let_def)

definition pdu_ok :: "PDU \<Rightarrow> bool" where
  "pdu_ok p \<longleftrightarrow> in32 (pdu_RequestID p) \<and> in64 (pdu_n1 p) \<and> in64 (pdu_n2 p)"

definition pdu_of :: "PDU \<Rightarrow> VarBind list \<Rightarrow> PDU" where
  "pdu_of p bs =
     (let bulk = (pdu_tag p = PDUGetBulk) in
      \<lparr>pdu_Type = pdu_tag p, pdu_RequestID = pdu_RequestID p,
       pdu_ErrorStatus = (if bulk then 0 else pdu_n1 p), pdu_ErrorIndex = (if bulk then 0 else pdu_n2 p),
       pdu_NonRepeaters = (if bulk then pdu_n1 p else 0), pdu_MaxRepetitions = (if bulk then pdu_n2 p else 0),
       pdu_IsBulk = bulk, pdu_Bindings = bs\<rparr>)"

lemma decode_pdu:
  assumes "length (pdu_content p) < 2 ^ 24" "pdu_ok p" "list_all2 vb_wire (pdu_Bindings p) bs"
  shows "decodePDU (pdu_tag p) (pdu_content p) = Inr (pdu_of p bs)"
proof -
  let ?c1 = "int_content (pdu_RequestID p)" and ?c2 = "int_content (pdu_n1 p)"
  let ?c3 = "int_content (pdu_n2 p)" and ?c4 = "concat (map encodeVarBind (pdu_Bindings p))"
  have l: "length ?c1 < 2 ^ 24" "length ?c2 < 2 ^ 24" "length ?c3 < 2 ^ 24" "length ?c4 < 2 ^ 24"
    using assms(1) length_wrapTLV [of ?c1 tagInteger] length_wrapTLV [of ?c2 tagInteger]
      length_wrapTLV [of ?c3 tagInteger] length_wrapTLV [of ?c4 tagSequence]
    unfolding pdu_content_def by simp_all
  have d: "decodeIntegerContent ?c1 = Inr (pdu_RequestID p)" "decodeIntegerContent ?c2 = Inr (pdu_n1 p)"
    "decodeIntegerContent ?c3 = Inr (pdu_n2 p)" "i32 (pdu_RequestID p) = pdu_RequestID p"
    using assms(2) by (simp_all add: pdu_ok_def decode_int_content in32_in64 i32_id)
  have v: "decodeVarBinds (at_reader [] ?c4) [] = Inr bs"
    using decode_varbinds [OF l(4) assms(3)] by simp
  show ?thesis
    unfolding decodePDU_def pdu_content_def reader_start
    by (simp add: readTLV_at [OF l(1)] readTLV_at [OF l(2)] readTLV_at [OF l(3)] readTLV_end [OF l(4)]
        d v pdu_of_def Let_def)
qed

lemma decode_message:
  assumes "length (encodeMessage m) < 2 ^ 24" "in64 (msg_Version m)" "pdu_ok (msg_PDU m)"
    "list_all2 vb_wire (pdu_Bindings (msg_PDU m)) bs"
  shows "decodeMessage (encodeMessage m) = Inr (m\<lparr>msg_PDU := pdu_of (msg_PDU m) bs\<rparr>)"
proof -
  let ?p = "msg_PDU m"
  let ?c1 = "int_content (msg_Version m)" and ?c2 = "map byte_of_char (msg_Community m)"
  let ?body = "wrapTLV tagInteger ?c1 @ wrapTLV tagOctetString ?c2 @ wrapTLV (pdu_tag ?p) (pdu_content ?p)"
  have e: "encodeMessage m = wrapTLV tagSequence ?body"
    by (simp add: encodeMessage_def content_simps encodePDU_content)
  have lb: "length ?body < 2 ^ 24" using assms(1) length_wrapTLV [of ?body tagSequence] unfolding e by linarith
  then have l: "length ?c1 < 2 ^ 24" "length ?c2 < 2 ^ 24" "length (pdu_content ?p) < 2 ^ 24"
    using length_wrapTLV [of ?c1 tagInteger] length_wrapTLV [of ?c2 tagOctetString]
      length_wrapTLV [of "pdu_content ?p" "pdu_tag ?p"] by simp_all
  note p = decode_pdu [OF l(3) assms(3,4)]
  have "decodeIntegerContent ?c1 = Inr (msg_Version m)" using assms(2) by (rule decode_int_content)
  moreover have "map char_of_byte ?c2 = msg_Community m" by simp
  ultimately show ?thesis
    unfolding decodeMessage_def e reader_start
    by (simp add: readTLV_end [OF lb] readTLV_at [OF l(1)] readTLV_at [OF l(2)] readTLV_end [OF l(3)] p
        del: map_map length_append)
qed

section \<open>What the decoder lets through\<close>

lemma sint_in64: "in64 (sint (w :: 64 word))"
  using sint_ge [of w] sint_lt [of w] by (simp add: in64_def)

lemma uint_mask32_in64: "in64 (uint ((u :: 64 word) AND 0xFFFFFFFF))"
proof -
  have "u AND 0xFFFFFFFF = take_bit 32 u" by (simp add: take_bit_eq_mask mask_eq_exp_minus_1)
  then have "uint (u AND 0xFFFFFFFF) = take_bit 32 (uint u)" by (simp only: unsigned_take_bit_eq)
  then have "uint (u AND 0xFFFFFFFF) < 2 ^ 32" by (simp only: take_bit_int_less_exp)
  then show ?thesis by (intro in64_nonneg) simp_all
qed

lemma decodeIntegerContent_in64: "decodeIntegerContent raw = Inr n \<Longrightarrow> in64 n"
  by (auto simp: decodeIntegerContent_def sint_in64 split: if_splits)

lemma in64_0: "in64 0"
  by (simp add: in64_def)

lemma map_sum_InrD: "map_sum f g x = Inr y \<Longrightarrow> \<exists>z. x = Inr z \<and> y = g z"
  by (cases x) auto

lemma decodeValue_in64: "decodeValue t c = Inr v \<Longrightarrow> in64 (v_Int v)"
  by (auto simp: decodeValue_def value_of_def in64_0 sint_in64 uint_mask32_in64 decodeIntegerContent_in64
      split: if_splits dest!: map_sum_InrD)

lemma decodeVarBind_in64: "decodeVarBind c = Inr b \<Longrightarrow> in64 (v_Int (vb_Value b))"
  by (auto simp: decodeVarBind_def decodeValue_in64 split: sum.splits if_splits)

lemma decodeVarBinds_in64:
  "decodeVarBinds r acc = Inr bs \<Longrightarrow> \<forall>b\<in>set acc. in64 (v_Int (vb_Value b))
    \<Longrightarrow> \<forall>b\<in>set bs. in64 (v_Int (vb_Value b))"
proof (induction r acc arbitrary: bs rule: decodeVarBinds.induct)
  case (1 vr acc)
  from 1(2) show ?case
    by (subst (asm) decodeVarBinds.simps)
      (use 1(1,3) in \<open>auto simp: decodeVarBind_in64 split: sum.splits if_splits prod.splits\<close>)
qed

definition bindings_ok :: "VarBind list \<Rightarrow> bool" where
  "bindings_ok bs \<longleftrightarrow> (\<forall>b\<in>set bs. in64 (v_Int (vb_Value b)))"

lemma decodePDU_ok: "decodePDU t c = Inr p \<Longrightarrow>
    pdu_Type p = t \<and> in32 (pdu_RequestID p) \<and> bindings_ok (pdu_Bindings p)"
  by (auto simp: decodePDU_def bindings_ok_def Let_def split: sum.splits if_splits dest!: decodeVarBinds_in64)

lemma decodeMessage_ok: "decodeMessage raw = Inr m \<Longrightarrow>
    in64 (msg_Version m) \<and> in32 (pdu_RequestID (msg_PDU m)) \<and> bindings_ok (pdu_Bindings (msg_PDU m))"
  by (auto simp: decodeMessage_def split: sum.splits if_splits
      dest!: decodePDU_ok decodeIntegerContent_in64)

lemma bindings_wire:
  assumes "bindings_ok bs" shows "\<exists>bs'. list_all2 vb_wire bs bs'"
  using assms
proof (induction bs)
  case (Cons b bs)
  then obtain bs' where "list_all2 vb_wire bs bs'" by (auto simp: bindings_ok_def)
  moreover obtain o2 where "decodeOIDContent (oid_content (vb_Name b)) = Inr o2"
    using decode_oid_total by blast
  moreover obtain v2 where "decodeValue (value_tag (vb_Value b)) (value_content (vb_Value b)) = Inr v2"
    using Cons.prems decode_value_total [of "vb_Value b"] by (auto simp: bindings_ok_def)
  ultimately have "list_all2 vb_wire (b # bs) (\<lparr>vb_Name = o2, vb_Value = v2\<rparr> # bs')"
    by (simp add: vb_wire_def)
  then show ?case by blast
qed (auto intro: exI [of _ "[]"])

section \<open>Properties\<close>

definition wf_binding :: "VarBind \<Rightarrow> bool" where
  "wf_binding b \<longleftrightarrow> oid_ok (vb_Name b) \<and> wf_value (vb_Value b)"

definition wf_pdu :: "PDU \<Rightarrow> bool" where
  "wf_pdu p \<longleftrightarrow> pdu_Type p \<noteq> 0 \<and> in32 (pdu_RequestID p)
     \<and> in64 (pdu_ErrorStatus p) \<and> in64 (pdu_ErrorIndex p)
     \<and> in64 (pdu_NonRepeaters p) \<and> in64 (pdu_MaxRepetitions p)
     \<and> (pdu_IsBulk p \<longleftrightarrow> pdu_Type p = PDUGetBulk)
     \<and> (if pdu_IsBulk p then pdu_ErrorStatus p = 0 \<and> pdu_ErrorIndex p = 0
        else pdu_NonRepeaters p = 0 \<and> pdu_MaxRepetitions p = 0)
     \<and> (\<forall>b\<in>set (pdu_Bindings p). wf_binding b)"

lemma wf_bindings_wire: "\<forall>b\<in>set bs. wf_binding b \<Longrightarrow> list_all2 vb_wire bs bs"
  by (induction bs) (auto simp: vb_wire_def wf_binding_def decode_oid_content decode_value_content)

lemma wf_pdu_of: "wf_pdu p \<Longrightarrow> pdu_of p (pdu_Bindings p) = p"
  by (auto simp: wf_pdu_def pdu_of_def pdu_tag_def pdu_n1_def pdu_n2_def Let_def)

lemma encoded_message_wire:
  assumes "in64 (msg_Version m)" and "pdu_ok (msg_PDU m)" and "bindings_ok (pdu_Bindings (msg_PDU m))"
    and "length (encodeMessage m) < 2 ^ 24"
  shows "\<exists>m'. decodeMessage (encodeMessage m) = Inr m' \<and> msg_Version m' = msg_Version m
    \<and> msg_Community m' = msg_Community m \<and> pdu_Type (msg_PDU m') = pdu_tag (msg_PDU m)
    \<and> pdu_RequestID (msg_PDU m') = pdu_RequestID (msg_PDU m)
    \<and> pdu_n1 (msg_PDU m') = pdu_n1 (msg_PDU m) \<and> pdu_n2 (msg_PDU m') = pdu_n2 (msg_PDU m)
    \<and> length (pdu_Bindings (msg_PDU m')) = length (pdu_Bindings (msg_PDU m))"
proof -
  obtain bs where bs: "list_all2 vb_wire (pdu_Bindings (msg_PDU m)) bs"
    using bindings_wire [OF assms(3)] by blast
  show ?thesis
    using decode_message [OF assms(4,1,2) bs] list_all2_lengthD [OF bs]
    by (simp add: pdu_of_def Let_def pdu_n1_def pdu_n2_def)
qed

lemma message_wire:
  assumes "in64 (msg_Version m)" and "wf_pdu (msg_PDU m)" and "length (encodeMessage m) < 2 ^ 24"
  shows "decodeMessage (encodeMessage m) = Inr m"
proof -
  have "pdu_ok (msg_PDU m)" using assms(2) by (simp add: wf_pdu_def pdu_ok_def pdu_n1_def pdu_n2_def)
  moreover have "list_all2 vb_wire (pdu_Bindings (msg_PDU m)) (pdu_Bindings (msg_PDU m))"
    using assms(2) by (intro wf_bindings_wire) (simp add: wf_pdu_def)
  ultimately show ?thesis using decode_message [OF assms(3,1)] wf_pdu_of [OF assms(2)] by simp
qed

text \<open>A request for \<open>sysUpTime.0\<close>, the concrete message of the witnesses.\<close>

definition get_uptime :: Message where
  "get_uptime = \<lparr>msg_Version = 1, msg_Community = ''public'',
     msg_PDU = \<lparr>pdu_Type = PDUGet, pdu_RequestID = 258, pdu_ErrorStatus = 0, pdu_ErrorIndex = 0,
       pdu_NonRepeaters = 0, pdu_MaxRepetitions = 0, pdu_IsBulk = False,
       pdu_Bindings = [\<lparr>vb_Name = [1, 3, 6, 1, 2, 1, 1, 3, 0], vb_Value = value_of tagNull\<rparr>]\<rparr>\<rparr>"

lemma get_uptime_length: "length (encodeMessage get_uptime) < 64"
  by code_simp

lemma get_uptime_wf: "wf_pdu (msg_PDU get_uptime)"
  by (simp add: get_uptime_def wf_pdu_def in32_def in64_def wf_binding_def oid_ok_def wf_value_def
      value_of_def)

lemma get_uptime_decodes: "decodeMessage (encodeMessage get_uptime) = Inr get_uptime"
proof (rule message_wire)
  show "length (encodeMessage get_uptime) < 2 ^ 24" using get_uptime_length by simp
qed (simp add: get_uptime_def in64_def, rule get_uptime_wf)

text \<open>
  C38. A well-formed SNMP message of less than 16 MiB comes back unchanged from
  \<open>decodeMessage (encodeMessage m)\<close>: version, community, PDU type, request id, the two status
  fields (or non-repeaters and max-repetitions for GETBULK) and every binding, in order.
\<close>

theorem message_roundtrip:
  assumes "in64 (msg_Version m)" and "wf_pdu (msg_PDU m)" and "length (encodeMessage m) < 2 ^ 24"
  shows "decodeMessage (encodeMessage m) = Inr m"
  using assms by (rule message_wire)

theorem message_roundtrip_witness: "decodeMessage (encodeMessage get_uptime) = Inr get_uptime"
proof (rule message_roundtrip)
  show "length (encodeMessage get_uptime) < 2 ^ 24" using get_uptime_length by simp
qed (simp add: get_uptime_def in64_def, rule get_uptime_wf)

text \<open>
  Whatever the agent encodes, a manager can decode: for any message whose integers are in range
  the encoding decodes, with the same version, community, PDU type, request id and status fields,
  and with one binding for each binding sent.
\<close>

theorem encoded_message_decodes:
  assumes "in64 (msg_Version m)" and "pdu_ok (msg_PDU m)" and "bindings_ok (pdu_Bindings (msg_PDU m))"
    and "length (encodeMessage m) < 2 ^ 24"
  shows "\<exists>m'. decodeMessage (encodeMessage m) = Inr m' \<and> msg_Version m' = msg_Version m
    \<and> msg_Community m' = msg_Community m \<and> pdu_Type (msg_PDU m') = pdu_tag (msg_PDU m)
    \<and> pdu_RequestID (msg_PDU m') = pdu_RequestID (msg_PDU m)
    \<and> pdu_n1 (msg_PDU m') = pdu_n1 (msg_PDU m) \<and> pdu_n2 (msg_PDU m') = pdu_n2 (msg_PDU m)
    \<and> length (pdu_Bindings (msg_PDU m')) = length (pdu_Bindings (msg_PDU m))"
  using assms by (rule encoded_message_wire)

theorem encoded_message_decodes_witness:
  "\<exists>m'. decodeMessage (encodeMessage get_uptime) = Inr m' \<and> msg_Version m' = msg_Version get_uptime
    \<and> msg_Community m' = msg_Community get_uptime \<and> pdu_Type (msg_PDU m') = pdu_tag (msg_PDU get_uptime)
    \<and> pdu_RequestID (msg_PDU m') = pdu_RequestID (msg_PDU get_uptime)
    \<and> pdu_n1 (msg_PDU m') = pdu_n1 (msg_PDU get_uptime) \<and> pdu_n2 (msg_PDU m') = pdu_n2 (msg_PDU get_uptime)
    \<and> length (pdu_Bindings (msg_PDU m')) = length (pdu_Bindings (msg_PDU get_uptime))"
proof (rule encoded_message_decodes)
  show "length (encodeMessage get_uptime) < 2 ^ 24" using get_uptime_length by simp
qed (simp_all add: get_uptime_def in64_def pdu_ok_def in32_def pdu_n1_def pdu_n2_def bindings_ok_def
    value_of_def)

end
