(* ===== verification/SnmpMib.thy ===== *)
theory SnmpMib
  imports SnmpPdu Stats
begin

text \<open>
  The object tree the SNMP agent serves (\<open>internal/snmp/mib.go\<close>): a sorted list of leaves built
  from the statistics cache, exact lookup and the successor lookup a walk is made of.  The host
  name, the time the agent started and the current time are parameters.
\<close>

section \<open>Leaves\<close>

record Variable =
  var_OID :: oid
  var_Value :: snmp_value

definition leaf :: "oid \<Rightarrow> snmp_value \<Rightarrow> Variable" where
  "leaf o1 v = \<lparr>var_OID = o1, var_Value = v\<rparr>"

definition integer :: "int \<Rightarrow> snmp_value" where
  "integer n = (value_of tagInteger)\<lparr>v_Int := n\<rparr>"

definition octet :: "string \<Rightarrow> snmp_value" where
  "octet s = (value_of tagOctetString)\<lparr>v_Str := s\<rparr>"

definition oidVal :: "string \<Rightarrow> snmp_value" where
  "oidVal s = (value_of tagOID)\<lparr>v_Str := s\<rparr>"

definition counter64 :: "64 word \<Rightarrow> snmp_value" where
  "counter64 n = (value_of tagCounter64)\<lparr>v_U64 := n, v_Int := sint n\<rparr>"

definition gauge32 :: "32 word \<Rightarrow> snmp_value" where
  "gauge32 n = (value_of tagGauge32)\<lparr>v_Int := uint n\<rparr>"

definition timeTicks :: "int \<Rightarrow> snmp_value" where
  "timeTicks n = (value_of tagTimeTicks)\<lparr>v_Int := n\<rparr>"

definition max0 :: "int \<Rightarrow> int" where
  "max0 n = (if n < 0 then 0 else n)"

definition clampU32 :: "real \<Rightarrow> real" where
  "clampU32 f = (if f < 0 then 0 else if f > 4294967295 then 4294967295 else f)"

text \<open>The conversions of a \<open>float64\<close> to an integer truncate towards zero.\<close>

definition trunc :: "real \<Rightarrow> int" where
  "trunc x = (if x \<ge> 0 then floor x else - floor (- x))"

definition uint32_of :: "real \<Rightarrow> 32 word" where
  "uint32_of x = word_of_int (trunc x)"

text \<open>\<open>t.Unix()\<close>: seconds since 1970.\<close>

definition Unix :: "gotime \<Rightarrow> int" where
  "Unix t = t div 1000000000 - 62135596800"

definition num :: "bool \<Rightarrow> int" where
  "num b = (if b then 1 else 0)"

section \<open>Building the tree\<close>

definition default_oid :: string where
  "default_oid = ''1.3.6.1.4.1.66666.1''"

definition uptime_ticks :: "gotime \<Rightarrow> gotime \<Rightarrow> int" where
  "uptime_ticks started now =
     (let u = trunc (Seconds (time_Sub now started) * 100) in if u < 0 then 0 else u)"

definition system_vars :: "oid \<Rightarrow> string \<Rightarrow> int \<Rightarrow> Variable list" where
  "system_vars base hostname uptime =
     (let sys = parseOID ''1.3.6.1.2.1.1'';
          host = (if hostname = [] then ''wireguardd'' else hostname)
      in [leaf (OID_Child sys [1, 0]) (octet ''wireguardd - WireGuard management daemon''),
          leaf (OID_Child sys [2, 0]) (oidVal (OID_String base)),
          leaf (OID_Child sys [3, 0]) (timeTicks uptime),
          leaf (OID_Child sys [4, 0]) (octet []),
          leaf (OID_Child sys [5, 0]) (octet host),
          leaf (OID_Child sys [6, 0]) (octet []),
          leaf (OID_Child sys [7, 0]) (integer 72)])"

definition iface_row :: "oid \<Rightarrow> nat \<Rightarrow> string \<Rightarrow> iface_stats \<Rightarrow> Variable list" where
  "iface_row base row name st =
     (let idx = of_nat (row + 1) :: 64 word; entry = OID_Child base [2, 1]
      in [leaf (OID_Child entry [1, idx]) (integer (sint idx)),
          leaf (OID_Child entry [2, idx]) (octet name),
          leaf (OID_Child entry [3, idx]) (octet (is_PublicKey st)),
          leaf (OID_Child entry [4, idx]) (integer (num (is_Up st))),
          leaf (OID_Child entry [5, idx]) (integer (is_ListenPort st)),
          leaf (OID_Child entry [6, idx]) (integer (is_PeerCount st)),
          leaf (OID_Child entry [7, idx]) (counter64 (word_of_int (max0 (is_RxBytes st)))),
          leaf (OID_Child entry [8, idx]) (counter64 (word_of_int (max0 (is_TxBytes st)))),
          leaf (OID_Child entry [9, idx]) (gauge32 (uint32_of (clampU32 (is_RxBps st)))),
          leaf (OID_Child entry [10, idx]) (gauge32 (uint32_of (clampU32 (is_TxBps st))))])"

definition peer_row :: "oid \<Rightarrow> nat \<Rightarrow> peer_stats \<Rightarrow> Variable list" where
  "peer_row base row p =
     (let idx = of_nat (row + 1) :: 64 word; entry = OID_Child base [3, 1];
          hs = (if IsZero (ps_LastHandshake p) then 0 else Unix (ps_LastHandshake p));
          cs = (if IsZero (ps_ConnectedSince p) then 0 else Unix (ps_ConnectedSince p))
      in [leaf (OID_Child entry [1, idx]) (integer (sint idx)),
          leaf (OID_Child entry [2, idx]) (octet (ps_Interface p)),
          leaf (OID_Child entry [3, idx]) (octet (ps_PublicKey p)),
          leaf (OID_Child entry [4, idx]) (octet (ps_Name p)),
          leaf (OID_Child entry [5, idx]) (octet (ps_Endpoint p)),
          leaf (OID_Child entry [6, idx]) (integer (num (ps_Connected p))),
          leaf (OID_Child entry [7, idx]) (integer (num (ps_Suspended p))),
          leaf (OID_Child entry [8, idx]) (integer hs),
          leaf (OID_Child entry [9, idx]) (integer cs),
          leaf (OID_Child entry [10, idx]) (counter64 (word_of_int (max0 (ps_RxBytes p)))),
          leaf (OID_Child entry [11, idx]) (counter64 (word_of_int (max0 (ps_TxBytes p)))),
          leaf (OID_Child entry [12, idx]) (gauge32 (uint32_of (clampU32 (ps_RxBps p)))),
          leaf (OID_Child entry [13, idx]) (gauge32 (uint32_of (clampU32 (ps_TxBps p)))),
          leaf (OID_Child entry [14, idx]) (gauge32 (uint32_of (clampU32 (ps_TrafficLimitBytes p)))),
          leaf (OID_Child entry [15, idx]) (gauge32 (uint32_of (clampU32 (ps_BandwidthRxBps p)))),
          leaf (OID_Child entry [16, idx]) (gauge32 (uint32_of (clampU32 (ps_BandwidthTxBps p))))])"

text \<open>
  The rows are numbered along the sorted keys, and every key was read from the map itself, so the
  lookup of a key finds its entry.  \<open>sort.Slice\<close> is a stable sort here: the identifiers are
  distinct (\<open>BuildMIB_distinct\<close> below), so no order among equals is left open.
\<close>

definition rows :: "(nat \<Rightarrow> 'a \<Rightarrow> Variable list) \<Rightarrow> 'a list \<Rightarrow> Variable list" where
  "rows f xs = concat (map (\<lambda>(row, x). f row x) (enumerate 0 xs))"

definition lookups :: "(string \<times> 'v) list \<Rightarrow> (string \<times> 'v) list" where
  "lookups m = concat (map (\<lambda>k. case map_of m k of None \<Rightarrow> [] | Some v \<Rightarrow> [(k, v)]) (sort (map fst m)))"

definition mib_vars :: "oid \<Rightarrow> cache \<Rightarrow> string \<Rightarrow> int \<Rightarrow> Variable list" where
  "mib_vars base c hostname uptime =
     (let (ifaces, peers) = Snapshot c
      in system_vars base hostname uptime
         @ [leaf (OID_Child base [1, 1, 0]) (integer (int (length ifaces))),
            leaf (OID_Child base [1, 2, 0]) (integer (int (length peers))),
            leaf (OID_Child base [1, 3, 0]) (timeTicks uptime)]
         @ rows (\<lambda>row (name, st). iface_row base row name st) (lookups ifaces)
         @ rows (\<lambda>row (_, p). peer_row base row p) (lookups peers))"

definition BuildMIB :: "oid \<Rightarrow> cache option \<Rightarrow> string \<Rightarrow> gotime \<Rightarrow> gotime \<Rightarrow> Variable list" where
  "BuildMIB base c hostname started now =
     (let c1 = (case c of None \<Rightarrow> NewCache | Some x \<Rightarrow> x);
          base1 = (if length base = 0 then parseOID default_oid else base)
      in sort_key var_OID (mib_vars base1 c1 hostname (uptime_ticks started now)))"

section \<open>Lookups\<close>

definition mib_search :: "Variable list \<Rightarrow> oid \<Rightarrow> nat" where
  "mib_search vars o1 = Search (length vars) (\<lambda>i. OID_Compare (var_OID (vars ! i)) o1 \<ge> 0)"

definition mib_Get :: "Variable list \<Rightarrow> oid \<Rightarrow> Variable option" where
  "mib_Get vars o1 =
     (let i = mib_search vars o1
      in if i < length vars \<and> OID_Equal (var_OID (vars ! i)) o1 then Some (vars ! i) else None)"

text \<open>\<open>for i < len(m.vars) && m.vars[i].OID.Compare(oid) <= 0 \{ i++ \}\<close>\<close>

function skip_le :: "Variable list \<Rightarrow> oid \<Rightarrow> nat \<Rightarrow> nat" where
  "skip_le vars o1 i =
     (if i < length vars \<and> OID_Compare (var_OID (vars ! i)) o1 \<le> 0 then skip_le vars o1 (i + 1) else i)"
  by pat_completeness auto
termination
  by (relation "measure (\<lambda>(vars, o1, i). length vars - i)") auto

declare skip_le.simps [simp del]

definition mib_GetNext :: "Variable list \<Rightarrow> oid \<Rightarrow> Variable option" where
  "mib_GetNext vars o1 =
     (let i = mib_search vars o1;
          i1 = (if i < length vars \<and> OID_Equal (var_OID (vars ! i)) o1 then i + 1 else i);
          i2 = skip_le vars o1 i1
      in if i2 \<ge> length vars then None else Some (vars ! i2))"

definition mib_Len :: "Variable list \<Rightarrow> nat" where
  "mib_Len vars = length vars"

section \<open>Lookups find the least identifiers\<close>

definition mib_sorted :: "Variable list \<Rightarrow> bool" where
  "mib_sorted vars \<longleftrightarrow> sorted (map var_OID vars)"

definition mib_ok :: "Variable list \<Rightarrow> bool" where
  "mib_ok vars \<longleftrightarrow> sorted_wrt (\<lambda>a b. var_OID a < var_OID b) vars"

lemma mib_ok_sorted: "mib_ok vars \<Longrightarrow> mib_sorted vars"
  by (auto simp: mib_ok_def mib_sorted_def sorted_wrt_map elim: sorted_wrt_mono_rel [rotated])

lemma mib_search_least:
  assumes "mib_sorted vars"
  shows "mib_search vars o1 \<le> length vars"
    "x < mib_search vars o1 \<Longrightarrow> var_OID (vars ! x) < o1"
    "mib_search vars o1 < length vars \<Longrightarrow> o1 \<le> var_OID (vars ! mib_search vars o1)"
proof -
  let ?f = "\<lambda>i. OID_Compare (var_OID (vars ! i)) o1 \<ge> 0"
  have mono: "?f y" if "x \<le> y" "y < length vars" "?f x" for x y
    using assms that sorted_nth_mono [of "map var_OID vars" x y]
    by (auto simp: mib_sorted_def OID_Compare_ge)
  show "mib_search vars o1 \<le> length vars"
    unfolding mib_search_def by (rule Search_least(1)) (rule mono)
  show "var_OID (vars ! x) < o1" if "x < mib_search vars o1"
  proof -
    have "\<not> ?f x" using that unfolding mib_search_def by (rule Search_least(2) [rotated]) (rule mono)
    then show ?thesis by (simp add: OID_Compare_ge)
  qed
  show "o1 \<le> var_OID (vars ! mib_search vars o1)" if "mib_search vars o1 < length vars"
  proof -
    have "?f (mib_search vars o1)"
      using that unfolding mib_search_def by (rule Search_least(3) [rotated]) (rule mono)
    then show ?thesis by (simp add: OID_Compare_ge)
  qed
qed

lemma mib_Get_find:
  assumes "mib_sorted vars"
  shows "mib_Get vars o1 = find (\<lambda>v. var_OID v = o1) vars"
proof (cases "mib_search vars o1 < length vars \<and> var_OID (vars ! mib_search vars o1) = o1")
  case True
  then have "find (\<lambda>v. var_OID v = o1) vars = Some (vars ! mib_search vars o1)"
    using mib_search_least(2) [OF assms, of _ o1] unfolding find_Some_iff
    by (intro exI [of _ "mib_search vars o1"]) auto
  then show ?thesis using True by (simp add: mib_Get_def Let_def)
next
  case False
  let ?s = "mib_search vars o1"
  have "var_OID v \<noteq> o1" if v: "v \<in> set vars" for v
  proof -
    from v obtain x where x: "x < length vars" "v = vars ! x" by (auto simp: in_set_conv_nth)
    show ?thesis
    proof (cases "x < ?s")
      case True
      then show ?thesis using mib_search_least(2) [OF assms] x by fastforce
    next
      case xs: False
      then have "var_OID (vars ! ?s) \<le> var_OID v"
        using assms x sorted_nth_mono [of "map var_OID vars" ?s x] by (simp add: mib_sorted_def)
      moreover have "o1 < var_OID (vars ! ?s)"
        using False xs x mib_search_least(3) [OF assms, of o1] by fastforce
      ultimately show ?thesis by fastforce
    qed
  qed
  then have "find (\<lambda>v. var_OID v = o1) vars = None" by (auto simp: find_None_iff)
  then show ?thesis using False by (auto simp: mib_Get_def Let_def)
qed

lemma skip_le_spec:
  "i \<le> length vars \<Longrightarrow> \<forall>x<i. var_OID (vars ! x) \<le> o1 \<Longrightarrow>
    skip_le vars o1 i \<le> length vars \<and> (\<forall>x < skip_le vars o1 i. var_OID (vars ! x) \<le> o1)
    \<and> (skip_le vars o1 i < length vars \<longrightarrow> o1 < var_OID (vars ! skip_le vars o1 i))"
proof (induction vars o1 i rule: skip_le.induct)
  case (1 vars o1 i)
  show ?case
  proof (cases "i < length vars \<and> var_OID (vars ! i) \<le> o1")
    case True
    then have "skip_le vars o1 i = skip_le vars o1 (i + 1)"
      by (subst skip_le.simps) (simp add: OID_Compare_le)
    with 1 True show ?thesis by (simp add: OID_Compare_le less_Suc_eq)
  next
    case False
    then have "skip_le vars o1 i = i" by (subst skip_le.simps) (auto simp: OID_Compare_le)
    with 1 False show ?thesis by auto
  qed
qed

lemma mib_GetNext_find:
  assumes "mib_sorted vars"
  shows "mib_GetNext vars o1 = find (\<lambda>v. o1 < var_OID v) vars"
proof -
  let ?s = "mib_search vars o1"
  define i1 where "i1 = (if ?s < length vars \<and> OID_Equal (var_OID (vars ! ?s)) o1 then ?s + 1 else ?s)"
  let ?j = "skip_le vars o1 i1"
  have "i1 \<le> length vars" "\<forall>x<i1. var_OID (vars ! x) \<le> o1"
    using mib_search_least(1) [OF assms, of o1] mib_search_least(2) [OF assms, of _ o1]
    by (auto simp: i1_def less_Suc_eq less_imp_le)
  from skip_le_spec [OF this]
  have j: "?j \<le> length vars" "\<forall>x < ?j. \<not> o1 < var_OID (vars ! x)"
    "?j < length vars \<longrightarrow> o1 < var_OID (vars ! ?j)" by (auto simp: not_less)
  have g: "mib_GetNext vars o1 = (if ?j \<ge> length vars then None else Some (vars ! ?j))"
    by (simp add: mib_GetNext_def i1_def Let_def)
  show ?thesis
  proof (cases "?j < length vars")
    case True
    with j have "find (\<lambda>v. o1 < var_OID v) vars = Some (vars ! ?j)"
      unfolding find_Some_iff by (intro exI [of _ ?j]) auto
    with True g show ?thesis by simp
  next
    case False
    with j have "find (\<lambda>v. o1 < var_OID v) vars = None"
      by (auto simp: find_None_iff in_set_conv_nth)
    with False g show ?thesis by simp
  qed
qed

text \<open>The leaves an SNMP walk from an identifier visits: GETNEXT from each answer's identifier.\<close>

fun walk :: "Variable list \<Rightarrow> oid \<Rightarrow> nat \<Rightarrow> Variable list" where
  "walk vars o1 0 = []"
| "walk vars o1 (Suc n) =
     (case mib_GetNext vars o1 of None \<Rightarrow> [] | Some v \<Rightarrow> v # walk vars (var_OID v) n)"

lemma find_after:
  assumes "mib_ok (xs @ v # ys)"
  shows "find (\<lambda>w. var_OID v < var_OID w) (xs @ v # ys) = (case ys of [] \<Rightarrow> None | y # _ \<Rightarrow> Some y)"
proof -
  have "find (\<lambda>w. var_OID v < var_OID w) xs = None"
    using assms by (auto simp: mib_ok_def sorted_wrt_append find_None_iff dest: less_not_sym)
  then have "find (\<lambda>w. var_OID v < var_OID w) (xs @ v # ys) = find (\<lambda>w. var_OID v < var_OID w) ys"
    by (induction xs) (auto split: if_splits)
  with assms show ?thesis by (cases ys) (auto simp: mib_ok_def sorted_wrt_append)
qed

lemma walk_after:
  "vars = xs @ v # ys \<Longrightarrow> mib_ok vars \<Longrightarrow> walk vars (var_OID v) n = take n ys"
proof (induction ys arbitrary: xs v n)
  case Nil
  then show ?case
    by (cases n) (simp_all add: mib_GetNext_find mib_ok_sorted find_after)
next
  case (Cons y ys)
  show ?case
  proof (cases n)
    case (Suc m)
    have "mib_GetNext vars (var_OID v) = Some y"
      using Cons.prems by (simp add: mib_GetNext_find mib_ok_sorted find_after)
    moreover have "walk vars (var_OID y) m = take m ys"
      using Cons.prems by (intro Cons.IH [of "xs @ [v]"]) simp_all
    ultimately show ?thesis using Suc by simp
  qed simp
qed

lemma walk_all:
  assumes "mib_ok vars" "\<forall>v\<in>set vars. var_OID v \<noteq> []"
  shows "walk vars [] n = take n vars"
proof (cases vars)
  case Nil
  then show ?thesis by (cases n) (simp_all add: mib_GetNext_find mib_sorted_def)
next
  case (Cons v ys)
  have "mib_GetNext vars [] = Some v"
    using assms Cons by (simp add: mib_GetNext_find mib_ok_sorted Nil_less_iff)
  moreover have "walk vars (var_OID v) m = take m ys" for m
    using assms Cons by (intro walk_after [of _ "[]"]) simp_all
  ultimately show ?thesis using Cons by (cases n) simp_all
qed

section \<open>The tree built is a valid MIB\<close>

lemma sys_oid: "parseOID ''1.3.6.1.2.1.1'' = [1, 3, 6, 1, 2, 1, 1]"
proof -
  have "OID_String [1, 3, 6, 1, 2, 1, 1] = ''1.3.6.1.2.1.1''" by code_simp
  then show ?thesis using parseOID_OID_String [of "[1, 3, 6, 1, 2, 1, 1]"] by simp
qed

lemma BuildMIB_sorted: "mib_sorted (BuildMIB base c h started now)"
  by (simp add: mib_sorted_def BuildMIB_def Let_def)

lemma length_lookups: "length (lookups m) = length m"
proof -
  have "length (concat (map (\<lambda>k. case map_of m k of None \<Rightarrow> [] | Some v \<Rightarrow> [(k, v)]) ks)) = length ks"
    if "set ks \<subseteq> set (map fst m)" for ks
    using that
  proof (induction ks)
    case (Cons k ks)
    then obtain v where "map_of m k = Some v" by (auto dest: weak_map_of_SomeI)
    with Cons show ?case by simp
  qed simp
  from this [of "sort (map fst m)"] show ?thesis by (simp add: lookups_def)
qed

lemma length_rows:
  "\<forall>row x. length (f row x) = k \<Longrightarrow> length (rows f xs) = k * length xs"
proof -
  assume k: "\<forall>row x. length (f row x) = k"
  have "length (concat (map (\<lambda>(row, x). f row x) (enumerate n xs))) = k * length xs" for n
    using k by (induction xs arbitrary: n) auto
  then show ?thesis by (simp add: rows_def)
qed

lemma length_iface_row: "length (iface_row base row name st) = 10"
  by (simp add: iface_row_def Let_def)

lemma length_peer_row: "length (peer_row base row p) = 16"
  by (simp add: peer_row_def Let_def)

lemma distinct_map_append:
  "distinct (map g xs) \<Longrightarrow> distinct (map g ys) \<Longrightarrow> (\<And>x y. x \<in> set xs \<Longrightarrow> y \<in> set ys \<Longrightarrow> g x \<noteq> g y)
    \<Longrightarrow> distinct (map g (xs @ ys))"
  by auto

lemma length_mib_vars:
  "length (mib_vars base c h u) = 10 + 10 * length (c_ifaces c) + 16 * length (c_peers c)"
  by (simp add: mib_vars_def Snapshot_def system_vars_def Let_def length_lookups
      length_rows [where k = 10] length_rows [where k = 16] length_iface_row length_peer_row case_prod_beta)

text \<open>The cells of one table: column \<open>col\<close> of row \<open>i\<close> is \<open>base.tbl.1.col.i\<close>.\<close>

definition cell :: "oid \<Rightarrow> 64 word \<Rightarrow> 64 word \<Rightarrow> nat \<Rightarrow> oid" where
  "cell base tbl col row = base @ [tbl, 1, col, of_nat (row + 1)]"

lemma iface_row_cells: "map var_OID (iface_row base row name st) =
    map (\<lambda>col. cell base 2 col row) [1, 2, 3, 4, 5, 6, 7, 8, 9, 10]"
  by (simp add: iface_row_def leaf_def OID_Child_def cell_def Let_def)

lemma peer_row_cells: "map var_OID (peer_row base row p) =
    map (\<lambda>col. cell base 3 col row) [1, 2, 3, 4, 5, 6, 7, 8, 9, 10, 11, 12, 13, 14, 15, 16]"
  by (simp add: peer_row_def leaf_def OID_Child_def cell_def Let_def)

lemma cell_inj:
  assumes "row < 2 ^ 64 - 1" "row' < 2 ^ 64 - 1"
  shows "cell base t c row = cell base t' c' row' \<longleftrightarrow> t = t' \<and> c = c' \<and> row = row'"
proof -
  have u: "unat (of_nat (r + 1) :: 64 word) = r + 1" if "r < 2 ^ 64 - 1" for r
  proof -
    have "(r + 1) mod 2 ^ 64 = r + 1" using that by (intro mod_less) linarith
    then show ?thesis by (simp add: unat_of_nat del: of_nat_add of_nat_Suc)
  qed
  have "(of_nat (row + 1) :: 64 word) = of_nat (row' + 1) \<longleftrightarrow> row = row'"
    using u [OF assms(1)] u [OF assms(2)] by (metis add_right_cancel)
  then show ?thesis by (auto simp: cell_def simp del: of_nat_Suc of_nat_add)
qed

lemma rows_cells:
  assumes "\<And>row x. map var_OID (f row x) = map (\<lambda>col. cell base t col row) cols"
    and "distinct cols" and "length xs < 2 ^ 64 - 1"
  shows "distinct (map var_OID (rows f xs))"
    and "v \<in> set (rows f xs) \<Longrightarrow> \<exists>c row. var_OID v = cell base t c row"
proof -
  have *: "distinct (map var_OID (concat (map (\<lambda>(row, x). f row x) (enumerate n ys))))
      \<and> (\<forall>v\<in>set (concat (map (\<lambda>(row, x). f row x) (enumerate n ys))).
          \<exists>c row. c \<in> set cols \<and> n \<le> row \<and> row < n + length ys \<and> var_OID v = cell base t c row)"
    (is "distinct (map _ (?L n ys)) \<and> _") if "n + length ys < 2 ^ 64 - 1" for n ys
    using that
  proof (induction ys arbitrary: n)
    case (Cons y ys)
    from Cons.IH [of "Suc n"] Cons.prems
    have d: "distinct (map var_OID (?L (Suc n) ys))"
      and r: "\<And>v. v \<in> set (?L (Suc n) ys) \<Longrightarrow> \<exists>c row. c \<in> set cols \<and> Suc n \<le> row
          \<and> row < n + length (y # ys) \<and> var_OID v = cell base t c row" by fastforce+
    have y: "var_OID v \<in> (\<lambda>col. cell base t col n) ` set cols" if "v \<in> set (f n y)" for v
      using that assms(1) [of n y] by (metis image_set imageI list.set_map)
    have "distinct (map var_OID (f n y))"
      using assms(1,2) Cons.prems by (auto simp: distinct_map inj_on_def cell_inj)
    moreover have "var_OID v \<noteq> var_OID w" if v: "v \<in> set (f n y)" and w: "w \<in> set (?L (Suc n) ys)" for v w
    proof -
      obtain c where "var_OID v = cell base t c n" using y [OF v] by blast
      moreover obtain c' row where "Suc n \<le> row" "row < n + length (y # ys)" "var_OID w = cell base t c' row"
        using r [OF w] by blast
      ultimately show ?thesis using Cons.prems cell_inj [of n row base t c t c'] by auto
    qed
    ultimately have "distinct (map var_OID (f n y @ ?L (Suc n) ys))"
      using d by (intro distinct_map_append)
    then have "distinct (map var_OID (?L n (y # ys)))" by simp
    moreover have "\<exists>c row. c \<in> set cols \<and> n \<le> row \<and> row < n + length (y # ys) \<and> var_OID v = cell base t c row"
      if "v \<in> set (?L n (y # ys))" for v
    proof (cases "v \<in> set (f n y)")
      case True
      then show ?thesis using y by force
    next
      case False
      then have "v \<in> set (?L (Suc n) ys)" using that by simp
      from r [OF this] show ?thesis by (meson Suc_leD)
    qed
    ultimately show ?case by blast
  qed simp
  from * [of 0 xs] assms(3) show "distinct (map var_OID (rows f xs))" by (simp add: rows_def)
  show "v \<in> set (rows f xs) \<Longrightarrow> \<exists>c row. var_OID v = cell base t c row"
    using * [of 0 xs] assms(3) unfolding rows_def by (metis add_0)
qed

text \<open>The agent's own subtree and the system group are apart.\<close>

definition base_ok :: "oid \<Rightarrow> bool" where
  "base_ok base \<longleftrightarrow> \<not> prefix base [1, 3, 6, 1, 2, 1, 1] \<and> \<not> prefix [1, 3, 6, 1, 2, 1, 1] base"

lemma mib_vars_distinct:
  assumes "base_ok base" "length (c_ifaces c) < 2 ^ 64 - 1" "length (c_peers c) < 2 ^ 64 - 1"
  shows "distinct (map var_OID (mib_vars base c h u))"
proof -
  define fi where "fi = (\<lambda>row (name, st). iface_row base row name st)"
  define fp where "fp = (\<lambda>row (_ :: string, p). peer_row base row p)"
  define I where "I = rows fi (lookups (c_ifaces c))"
  define P where "P = rows fp (lookups (c_peers c))"
  define S where "S = system_vars base h u"
  define G where "G = [leaf (OID_Child base [1, 1, 0]) (integer (int (length (c_ifaces c)))),
            leaf (OID_Child base [1, 2, 0]) (integer (int (length (c_peers c)))),
            leaf (OID_Child base [1, 3, 0]) (timeTicks u)]"
  have e: "mib_vars base c h u = S @ G @ I @ P"
    by (simp add: mib_vars_def Snapshot_def I_def P_def S_def G_def fi_def fp_def)
  have ir: "map var_OID (fi row x) =
      map (\<lambda>col. cell base 2 col row) [1, 2, 3, 4, 5, 6, 7, 8, 9, 10]" for row x
    by (cases x) (simp add: fi_def iface_row_cells)
  have pr: "map var_OID (fp row x) =
      map (\<lambda>col. cell base 3 col row) [1, 2, 3, 4, 5, 6, 7, 8, 9, 10, 11, 12, 13, 14, 15, 16]" for row x
    by (cases x) (simp add: fp_def peer_row_cells)
  have "length (lookups (c_ifaces c)) < 2 ^ 64 - 1" "length (lookups (c_peers c)) < 2 ^ 64 - 1"
    using assms(2,3) by (simp_all add: length_lookups)
  note i = rows_cells [where f = fi, OF ir _ this(1), folded I_def]
    and p = rows_cells [where f = fp, OF pr _ this(2), folded P_def]
  have dS: "distinct (map var_OID S)"
    by (simp add: S_def system_vars_def leaf_def OID_Child_def Let_def)
  have dG: "distinct (map var_OID G)"
    by (simp add: G_def leaf_def OID_Child_def)
  have oS: "prefix [1, 3, 6, 1, 2, 1, 1] (var_OID v)" if "v \<in> set S" for v
    using that by (auto simp: S_def system_vars_def leaf_def OID_Child_def sys_oid Let_def)
  have oG: "\<exists>r. var_OID v = base @ 1 # r" if "v \<in> set G" for v
    using that by (auto simp: G_def leaf_def OID_Child_def)
  have oI: "\<exists>r. var_OID v = base @ 2 # r" if "v \<in> set I" for v
    using i(2) [OF _ that] by (auto simp: cell_def)
  have oP: "\<exists>r. var_OID v = base @ 3 # r" if "v \<in> set P" for v
    using p(2) [OF _ that] by (auto simp: cell_def)
  have pB: "prefix base (var_OID v)" if "v \<in> set (G @ I @ P)" for v
  proof -
    have "\<exists>k r. var_OID v = base @ k # r" using oG [of v] oI [of v] oP [of v] that by auto
    then show ?thesis by auto
  qed
  have "var_OID v \<noteq> var_OID w" if "v \<in> set S" "w \<in> set (G @ I @ P)" for v w
  proof
    assume "var_OID v = var_OID w"
    then have "prefix [1, 3, 6, 1, 2, 1, 1] (var_OID w)" using oS [OF that(1)] by simp
    from prefix_same_cases [OF this pB [OF that(2)]] assms(1) show False by (simp only: base_ok_def) blast
  qed
  moreover have "var_OID v \<noteq> var_OID w" if "v \<in> set G" "w \<in> set (I @ P)" for v w
    using oG [OF that(1)] oI [of w] oP [of w] that by auto
  moreover have "var_OID v \<noteq> var_OID w" if "v \<in> set I" "w \<in> set P" for v w
    using oI [OF that(1)] oP [OF that(2)] by auto
  moreover have "distinct (map var_OID I)" "distinct (map var_OID P)" using i(1) p(1) by simp_all
  ultimately show ?thesis unfolding e using dS dG
    by (intro distinct_map_append) auto
qed

lemma strict_sorted: "sorted (map f xs) \<Longrightarrow> distinct (map f xs) \<Longrightarrow> sorted_wrt (\<lambda>a b. f a < f b) xs"
  by (induction xs) (auto simp: less_le image_iff)

lemma BuildMIB_ok:
  assumes "base_ok base" "base \<noteq> []" "length (c_ifaces c) < 2 ^ 64 - 1" "length (c_peers c) < 2 ^ 64 - 1"
  shows "mib_ok (BuildMIB base (Some c) h started now)"
  using mib_vars_distinct [OF assms(1,3,4)] assms(2)
  unfolding mib_ok_def BuildMIB_def Let_def
  by (intro strict_sorted) (simp_all add: distinct_map)

text \<open>What the stored statistics must satisfy for the integers of the tree to be \<open>int64\<close> values.\<close>

definition cache_ints :: "cache \<Rightarrow> bool" where
  "cache_ints c \<longleftrightarrow>
     length (c_ifaces c) < 2 ^ 63 \<and> length (c_peers c) < 2 ^ 63
     \<and> (\<forall>(k, s)\<in>set (c_ifaces c). in64 (is_ListenPort s) \<and> in64 (is_PeerCount s))
     \<and> (\<forall>(k, p)\<in>set (c_peers c). in64 (Unix (ps_LastHandshake p)) \<and> in64 (Unix (ps_ConnectedSince p)))"

lemmas leaf_simps = leaf_def integer_def octet_def oidVal_def counter64_def gauge32_def timeTicks_def
  value_of_def OID_Child_def

lemma in64_small: "in64 0" "in64 1" "in64 72"
  by (simp_all add: in64_def)

lemma in64_uint32: "in64 (uint (w :: 32 word))"
proof -
  have "uint w < 2 ^ 32" using uint_lt2p [of w] by simp
  then show ?thesis by (intro in64_nonneg) simp_all
qed

lemma in64_num: "in64 (num b)"
  by (simp add: num_def in64_def)

lemma set_rows: "v \<in> set (rows f xs) \<Longrightarrow> \<exists>row x. x \<in> set xs \<and> v \<in> set (f row x)"
  by (auto simp: rows_def in_set_enumerate_eq) (metis nth_mem)

lemma set_lookups: "x \<in> set (lookups m) \<Longrightarrow> x \<in> set m"
  by (auto simp: lookups_def split: option.splits intro: map_of_SomeD [OF sym])

lemma iface_row_in64:
  "in64 (is_ListenPort st) \<Longrightarrow> in64 (is_PeerCount st) \<Longrightarrow> v \<in> set (iface_row base row name st) \<Longrightarrow>
    in64 (v_Int (var_Value v))"
  by (auto simp: iface_row_def leaf_simps sint_in64 in64_uint32 in64_num in64_small Let_def)

lemma peer_row_in64:
  "in64 (Unix (ps_LastHandshake p)) \<Longrightarrow> in64 (Unix (ps_ConnectedSince p)) \<Longrightarrow>
    v \<in> set (peer_row base row p) \<Longrightarrow> in64 (v_Int (var_Value v))"
  by (auto simp: peer_row_def leaf_simps sint_in64 in64_uint32 in64_num in64_small Let_def)

lemma mib_vars_in64:
  assumes "cache_ints c" "in64 u" "v \<in> set (mib_vars base c h u)"
  shows "in64 (v_Int (var_Value v))"
proof -
  have i: "in64 (v_Int (var_Value v))"
    if "v \<in> set (rows (\<lambda>row (name, st). iface_row base row name st) (lookups (c_ifaces c)))"
    using set_rows [OF that] assms(1)
    by (fastforce simp: cache_ints_def dest!: set_lookups intro: iface_row_in64)
  have p: "in64 (v_Int (var_Value v))"
    if "v \<in> set (rows (\<lambda>row (_, p). peer_row base row p) (lookups (c_peers c)))"
    using set_rows [OF that] assms(1)
    by (fastforce simp: cache_ints_def dest!: set_lookups intro: peer_row_in64)
  have "in64 (int (length (c_ifaces c)))" "in64 (int (length (c_peers c)))"
    using assms(1) by (simp_all add: cache_ints_def in64_def)
  then show ?thesis
    using assms(2,3) i p
    by (auto simp: mib_vars_def Snapshot_def system_vars_def leaf_simps in64_small Let_def)
qed

lemma trunc_le: "0 \<le> x \<Longrightarrow> x \<le> real_of_int n \<Longrightarrow> 0 \<le> trunc x \<and> trunc x \<le> n"
  by (simp add: trunc_def) (metis floor_mono floor_of_int)

lemma uptime_in64: "in64 (uptime_ticks started now)"
proof -
  let ?d = "time_Sub now started"
  let ?x = "Seconds ?d * 100"
  have d: "in64 ?d" by (simp add: time_Sub_def sat64_def in64_def)
  show ?thesis
  proof (cases "0 \<le> ?x")
    case True
    have "?x = real_of_int ?d / 10000000" by (simp add: Seconds_def)
    moreover have "0 \<le> ?d" using True by (simp add: Seconds_def zero_le_divide_iff)
    ultimately have "?x \<le> real_of_int ?d" by (simp add: divide_le_eq)
    from trunc_le [OF True this] d show ?thesis by (auto simp: uptime_ticks_def Let_def in64_def)
  next
    case False
    then have "trunc ?x \<le> 0" by (simp add: trunc_def)
    then show ?thesis by (simp add: uptime_ticks_def Let_def in64_small)
  qed
qed

lemma BuildMIB_in64:
  "cache_ints (case c of None \<Rightarrow> NewCache | Some x \<Rightarrow> x) \<Longrightarrow> v \<in> set (BuildMIB base c h started now) \<Longrightarrow>
    in64 (v_Int (var_Value v))"
  by (auto simp: BuildMIB_def Let_def intro: mib_vars_in64 uptime_in64)

lemma mib_vars_nonempty: "base \<noteq> [] \<Longrightarrow> v \<in> set (mib_vars base c h u) \<Longrightarrow> var_OID v \<noteq> []"
  by (auto simp: mib_vars_def Snapshot_def system_vars_def leaf_simps Let_def iface_row_def peer_row_def
      sys_oid dest!: set_rows)

section \<open>Properties\<close>

text \<open>
  On the tree built from any cache, \<open>Get\<close> returns the leaf with exactly the identifier asked
  for, if there is one, and \<open>GetNext\<close> the first leaf, in lexicographic order, whose identifier is
  greater: the binary searches implement the linear specification of RFC 3416.
\<close>

theorem mib_lookup_spec:
  "mib_Get (BuildMIB base c h started now) o1
     = find (\<lambda>v. var_OID v = o1) (BuildMIB base c h started now)
   \<and> mib_GetNext (BuildMIB base c h started now) o1
     = find (\<lambda>v. o1 < var_OID v) (BuildMIB base c h started now)
   \<and> sorted (map var_OID (BuildMIB base c h started now))"
  using BuildMIB_sorted mib_Get_find mib_GetNext_find unfolding mib_sorted_def by blast

text \<open>
  C40. A walk terminates and visits everything: when the enterprise subtree and the system group are
  apart, the tree has ten scalar leaves, ten per interface and sixteen per peer, no identifier
  occurs twice, and asking GETNEXT from the empty identifier and then from each answer visits all
  leaves, in order and each once, and then stops.
\<close>

theorem mib_walk:
  assumes "base_ok base" "base \<noteq> []" "length (c_ifaces c) < 2 ^ 64 - 1" "length (c_peers c) < 2 ^ 64 - 1"
  shows "walk (BuildMIB base (Some c) h started now) [] n = take n (BuildMIB base (Some c) h started now)
    \<and> mib_Len (BuildMIB base (Some c) h started now)
        = 10 + 10 * length (c_ifaces c) + 16 * length (c_peers c)
    \<and> distinct (map var_OID (BuildMIB base (Some c) h started now))"
proof -
  have ok: "mib_ok (BuildMIB base (Some c) h started now)" using BuildMIB_ok assms by blast
  have "set (BuildMIB base (Some c) h started now) = set (mib_vars base c h (uptime_ticks started now))"
    using assms(2) by (simp add: BuildMIB_def Let_def)
  then have "\<forall>v\<in>set (BuildMIB base (Some c) h started now). var_OID v \<noteq> []"
    using mib_vars_nonempty [OF assms(2)] by blast
  moreover have "mib_Len (BuildMIB base (Some c) h started now)
      = 10 + 10 * length (c_ifaces c) + 16 * length (c_peers c)"
    using assms(2) by (simp add: mib_Len_def BuildMIB_def Let_def length_mib_vars)
  moreover have "distinct (map var_OID (BuildMIB base (Some c) h started now))"
    using mib_vars_distinct [OF assms(1,3,4)] assms(2) by (simp add: BuildMIB_def Let_def distinct_map)
  ultimately show ?thesis using walk_all [OF ok] by blast
qed

theorem mib_walk_witness:
  "length (walk (BuildMIB [1, 3, 6, 1, 4, 1, 66666, 1] (Some NewCache) ''host'' 0 0) [] 99) = 10"
  using mib_walk [of "[1, 3, 6, 1, 4, 1, 66666, 1]" NewCache "''host''" 0 0 99]
  by (simp add: base_ok_def NewCache_def mib_Len_def)

end
