(* ===== verification/SnmpAgent.thy ===== *)
theory SnmpAgent
  imports SnmpMib
begin

text \<open>
  The SNMP agent (\<open>internal/snmp/agent.go\<close>): its options with their defaults and the handler that
  turns one request datagram into one response datagram, or none.  The socket and its read loop are
  not modelled; an empty datagram stands for \<open>nil\<close>, which the loop does not send.  The agent keeps
  no state between packets besides its configuration and the cache it reads.
\<close>

record options =
  opt_Listen :: string
  opt_Community :: string
  opt_EnterpriseOID :: string
  opt_ReadOnly :: bool

record agent =
  ag_listen :: string
  ag_community :: string
  ag_baseOID :: oid
  ag_cache :: "cache option"
  ag_started :: gotime
  ag_readOnly :: bool

definition NewAgentOpts :: "options \<Rightarrow> cache option \<Rightarrow> gotime \<Rightarrow> agent" where
  "NewAgentOpts opts c now =
     (let comm = (if opt_Community opts = [] then ''public'' else opt_Community opts);
          ent = (if opt_EnterpriseOID opts = [] then ''1.3.6.1.4.1.66666.1'' else opt_EnterpriseOID opts);
          listen = (if opt_Listen opts = [] then ''127.0.0.1:1161'' else opt_Listen opts)
      in \<lparr>ag_listen = listen, ag_community = comm, ag_baseOID = parseOID ent, ag_cache = c,
          ag_started = now, ag_readOnly = opt_ReadOnly opts\<rparr>)"

definition NewAgent :: "string \<Rightarrow> string \<Rightarrow> string \<Rightarrow> cache option \<Rightarrow> gotime \<Rightarrow> agent" where
  "NewAgent listen community enterpriseOID c now =
     NewAgentOpts \<lparr>opt_Listen = listen, opt_Community = community,
       opt_EnterpriseOID = enterpriseOID, opt_ReadOnly = True\<rparr> c now"

section \<open>The request handlers\<close>

definition bind_var :: "Variable \<Rightarrow> VarBind" where
  "bind_var v = \<lparr>vb_Name = var_OID v, vb_Value = var_Value v\<rparr>"

definition bind_exc :: "oid \<Rightarrow> byte \<Rightarrow> VarBind" where
  "bind_exc o1 t = \<lparr>vb_Name = o1, vb_Value = value_of t\<rparr>"

definition hasPrefix :: "Variable list \<Rightarrow> oid \<Rightarrow> bool" where
  "hasPrefix mib o1 = list_ex (\<lambda>v. OID_IsPrefix o1 (var_OID v)) mib"

definition get_one :: "Variable list \<Rightarrow> VarBind \<Rightarrow> VarBind" where
  "get_one mib b =
     (case mib_Get mib (vb_Name b) of
        Some v \<Rightarrow> bind_var v
      | None \<Rightarrow> if hasPrefix mib (vb_Name b) then bind_exc (vb_Name b) tagNoSuchInstance
                else bind_exc (vb_Name b) tagNoSuchObject)"

definition doGet :: "Variable list \<Rightarrow> VarBind list \<Rightarrow> VarBind list" where
  "doGet mib req = map (get_one mib) req"

definition next_one :: "Variable list \<Rightarrow> oid \<Rightarrow> VarBind" where
  "next_one mib o1 =
     (case mib_GetNext mib o1 of Some v \<Rightarrow> bind_var v | None \<Rightarrow> bind_exc o1 tagEndOfMibView)"

definition doGetNext :: "Variable list \<Rightarrow> VarBind list \<Rightarrow> VarBind list" where
  "doGetNext mib req = map (\<lambda>b. next_one mib (vb_Name b)) req"

text \<open>One repetition over the cursors: the bindings, the new cursors, and \<open>allEnd\<close>.\<close>

fun bulk_round :: "Variable list \<Rightarrow> oid list \<Rightarrow> VarBind list \<times> oid list \<times> bool" where
  "bulk_round mib [] = ([], [], True)"
| "bulk_round mib (c # cs) =
     (let (out, cs', allEnd) = bulk_round mib cs
      in case mib_GetNext mib c of
           Some v \<Rightarrow> (bind_var v # out, var_OID v # cs', False)
         | None \<Rightarrow> (bind_exc c tagEndOfMibView # out, c # cs', allEnd))"

text \<open>\<open>for r := 0; r < maxRep; r++\<close> with the early exit when every cursor is at the end.\<close>

fun bulk_loop :: "Variable list \<Rightarrow> nat \<Rightarrow> oid list \<Rightarrow> VarBind list" where
  "bulk_loop mib 0 cursors = []"
| "bulk_loop mib (Suc r) cursors =
     (let (out, cursors', allEnd) = bulk_round mib cursors
      in if allEnd then out else out @ bulk_loop mib r cursors')"

definition clamp_bulk :: "PDU \<Rightarrow> nat \<times> nat" where
  "clamp_bulk pdu =
     (let n0 = (if pdu_NonRepeaters pdu < 0 then 0 else pdu_NonRepeaters pdu);
          m0 = (if pdu_MaxRepetitions pdu < 0 then 0 else pdu_MaxRepetitions pdu);
          m1 = (if m0 > 100 then 100 else m0);
          n1 = (if n0 > int (length (pdu_Bindings pdu)) then int (length (pdu_Bindings pdu)) else n0)
      in (nat n1, nat m1))"

definition doGetBulk :: "Variable list \<Rightarrow> PDU \<Rightarrow> VarBind list" where
  "doGetBulk mib pdu =
     (let (nonRep, maxRep) = clamp_bulk pdu;
          out = map (\<lambda>b. next_one mib (vb_Name b)) (take nonRep (pdu_Bindings pdu));
          reps = drop nonRep (pdu_Bindings pdu)
      in if length reps = 0 \<or> maxRep = 0 then out
         else out @ bulk_loop mib maxRep (map vb_Name reps))"

definition zero_pdu :: PDU where
  "zero_pdu = \<lparr>pdu_Type = 0, pdu_RequestID = 0, pdu_ErrorStatus = 0, pdu_ErrorIndex = 0,
     pdu_NonRepeaters = 0, pdu_MaxRepetitions = 0, pdu_IsBulk = False, pdu_Bindings = []\<rparr>"

definition respond :: "Variable list \<Rightarrow> PDU \<Rightarrow> PDU" where
  "respond mib p =
     (let out = zero_pdu\<lparr>pdu_RequestID := pdu_RequestID p, pdu_Type := PDUResponse\<rparr>
      in if pdu_Type p = PDUGet then out\<lparr>pdu_Bindings := doGet mib (pdu_Bindings p)\<rparr>
         else if pdu_Type p = PDUGetNext then out\<lparr>pdu_Bindings := doGetNext mib (pdu_Bindings p)\<rparr>
         else if pdu_Type p = PDUGetBulk then out\<lparr>pdu_Bindings := doGetBulk mib p\<rparr>
         else if pdu_Type p = PDUSet then
           out\<lparr>pdu_ErrorStatus := ErrNotWritable,
               pdu_ErrorIndex := (if length (pdu_Bindings p) = 0 then 0 else 1),
               pdu_Bindings := map (\<lambda>b. \<lparr>vb_Name = vb_Name b, vb_Value = vb_Value b\<rparr>) (pdu_Bindings p)\<rparr>
         else out\<lparr>pdu_ErrorStatus := ErrGenErr, pdu_Bindings := pdu_Bindings p\<rparr>)"

definition HandlePacket :: "string \<Rightarrow> gotime \<Rightarrow> agent \<Rightarrow> byte list \<Rightarrow> byte list" where
  "HandlePacket hostname now a req =
     (case decodeMessage req of
        Inl _ \<Rightarrow> []
      | Inr msg \<Rightarrow>
        if msg_Version msg \<noteq> 0 \<and> msg_Version msg \<noteq> 1 then []
        else if msg_Community msg \<noteq> ag_community a then []
        else
          (let mib = BuildMIB (ag_baseOID a) (ag_cache a) hostname (ag_started a) now;
               out = respond mib (msg_PDU msg);
               resp = encodeMessage \<lparr>msg_Version = msg_Version msg, msg_Community = ag_community a,
                        msg_PDU = out\<rparr>
           in if length resp > 64000 then
                encodeMessage \<lparr>msg_Version = msg_Version msg, msg_Community = ag_community a,
                  msg_PDU = out\<lparr>pdu_ErrorStatus := ErrTooBig, pdu_ErrorIndex := 0, pdu_Bindings := []\<rparr>\<rparr>
              else resp))"

section \<open>The shape of the answers\<close>

lemma length_bulk_round:
  "bulk_round mib cs = (out, cs', e) \<Longrightarrow> length out = length cs \<and> length cs' = length cs"
  by (induction cs arbitrary: out cs' e) (auto simp: Let_def split: option.splits prod.splits)

lemma length_bulk_loop: "length (bulk_loop mib r cs) \<le> r * length cs"
proof (induction r arbitrary: cs)
  case (Suc r)
  obtain out cs' e where "bulk_round mib cs = (out, cs', e)" by (cases "bulk_round mib cs")
  with Suc.IH [of cs'] length_bulk_round [OF this] show ?case by simp
qed simp

lemma clamp_bulk_bounds:
  "clamp_bulk p = (n, m) \<Longrightarrow> n \<le> length (pdu_Bindings p) \<and> m \<le> 100"
  by (auto simp: clamp_bulk_def Let_def)

lemma length_doGetBulk:
  "clamp_bulk p = (n, m) \<Longrightarrow> length (doGetBulk mib p) \<le> n + m * (length (pdu_Bindings p) - n)"
  using length_bulk_loop [of mib m "map vb_Name (drop n (pdu_Bindings p))"]
  by (auto simp: doGetBulk_def Let_def dest: clamp_bulk_bounds)

definition mib_in64 :: "Variable list \<Rightarrow> bool" where
  "mib_in64 mib \<longleftrightarrow> (\<forall>v\<in>set mib. in64 (v_Int (var_Value v)))"

lemma mib_GetNext_in: "mib_GetNext mib o1 = Some v \<Longrightarrow> v \<in> set mib"
  by (auto simp: mib_GetNext_def Let_def not_le split: if_splits)

lemma mib_Get_mem: "mib_Get mib o1 = Some v \<Longrightarrow> v \<in> set mib"
  by (auto simp: mib_Get_def Let_def split: if_splits) (metis nth_mem)

lemma mib_Get_in: "mib_sorted mib \<Longrightarrow> mib_Get mib o1 = Some v \<Longrightarrow> v \<in> set mib \<and> var_OID v = o1"
  using mib_Get_mem [of mib o1 v] by (auto simp: mib_Get_find find_Some_iff)

lemmas bind_simps = bind_var_def bind_exc_def value_of_def in64_0

lemma get_one_in64: "mib_in64 mib \<Longrightarrow> in64 (v_Int (vb_Value (get_one mib b)))"
  by (auto simp: get_one_def mib_in64_def bind_simps dest: mib_Get_mem split: option.splits)

lemma next_one_in64: "mib_in64 mib \<Longrightarrow> in64 (v_Int (vb_Value (next_one mib o1)))"
  by (auto simp: next_one_def mib_in64_def bind_simps dest: mib_GetNext_in split: option.splits)

lemma bulk_round_in64: "mib_in64 mib \<Longrightarrow> bindings_ok (fst (bulk_round mib cs))"
  by (induction cs) (auto simp: bindings_ok_def mib_in64_def bind_simps Let_def dest: mib_GetNext_in
      split: option.splits prod.splits)

lemma bulk_loop_in64: "mib_in64 mib \<Longrightarrow> bindings_ok (bulk_loop mib r cs)"
proof (induction r arbitrary: cs)
  case (Suc r)
  obtain out cs' e where "bulk_round mib cs = (out, cs', e)" by (cases "bulk_round mib cs")
  with Suc bulk_round_in64 [of mib cs] show ?case by (auto simp: bindings_ok_def)
qed (simp add: bindings_ok_def)

lemma bindings_ok_append [simp]: "bindings_ok (xs @ ys) \<longleftrightarrow> bindings_ok xs \<and> bindings_ok ys"
  by (auto simp: bindings_ok_def)

lemma doGetBulk_in64: "mib_in64 mib \<Longrightarrow> bindings_ok (doGetBulk mib p)"
  by (auto simp: doGetBulk_def Let_def bulk_loop_in64 split: prod.splits)
    (auto simp: bindings_ok_def next_one_in64)

lemma respond_ok:
  assumes "mib_in64 mib" "in32 (pdu_RequestID p)" "bindings_ok (pdu_Bindings p)"
  shows "pdu_ok (respond mib p) \<and> bindings_ok (pdu_Bindings (respond mib p))
    \<and> pdu_tag (respond mib p) = PDUResponse \<and> pdu_RequestID (respond mib p) = pdu_RequestID p
    \<and> pdu_n1 (respond mib p) = pdu_ErrorStatus (respond mib p)
    \<and> pdu_n2 (respond mib p) = pdu_ErrorIndex (respond mib p)"
  using assms
  by (auto simp: respond_def zero_pdu_def pdu_ok_def pdu_n1_def pdu_n2_def pdu_tag_def Let_def in64_def
      doGetBulk_in64 doGet_def doGetNext_def get_one_in64 next_one_in64)
    (auto simp: bindings_ok_def get_one_in64 next_one_in64)

section \<open>Properties\<close>

lemma length_encodeLength: "length (encodeLength n) \<le> 4"
  by (simp add: encodeLength_def)

lemma length_wrapTLV_le: "length (wrapTLV t c) \<le> length c + 5"
  using length_encodeLength [of "length c"] by (simp add: wrapTLV_def)

lemma length_int_content: "length (int_content v) \<le> 9"
  using length_skip_zeros [of "be_bytes 8 (word_of_int v :: 64 word)"]
    length_skip_ones [of "be_bytes 8 (word_of_int v :: 64 word)"]
  by (simp add: int_content_def Let_def)

lemma length_encodeInteger: "length (encodeInteger v) \<le> 14"
  using length_wrapTLV_le [of tagInteger "int_content v"] length_int_content [of v]
  by (simp add: encodeInteger_content)

lemma length_empty_message:
  assumes "pdu_Bindings (msg_PDU m) = []"
  shows "length (encodeMessage m) \<le> 80 + length (msg_Community m)"
proof -
  let ?p = "msg_PDU m"
  have "length (pdu_content ?p) \<le> 47"
    using length_encodeInteger [of "pdu_RequestID ?p"] length_encodeInteger [of "pdu_n1 ?p"]
      length_encodeInteger [of "pdu_n2 ?p"] length_wrapTLV_le [of tagSequence "[]"] assms
    by (simp add: pdu_content_def encodeInteger_content)
  then have "length (encodePDU ?p) \<le> 52"
    using length_wrapTLV_le [of "pdu_tag ?p" "pdu_content ?p"] by (simp add: encodePDU_content)
  then show ?thesis
    using length_encodeInteger [of "msg_Version m"]
      length_wrapTLV_le [of tagOctetString "map byte_of_char (msg_Community m)"]
      length_wrapTLV_le [of tagSequence "encodeInteger (msg_Version m) @ encodeOctetString (msg_Community m)
        @ encodePDU ?p"]
    by (simp add: encodeMessage_def encodeOctetString_def)
qed

lemma encodeMessage_nonempty: "encodeMessage m \<noteq> []"
  by (simp add: encodeMessage_def)

definition cache_of :: "agent \<Rightarrow> cache" where
  "cache_of a = (case ag_cache a of None \<Rightarrow> NewCache | Some c \<Rightarrow> c)"

text \<open>
  The agent answers exactly the well-formed requests it should: it stays silent if and only if
  the datagram does not decode, its version is neither SNMPv1 nor SNMPv2c, or its community string
  is not the configured one.
\<close>

theorem handle_packet_silent:
  "HandlePacket h now a req = [] \<longleftrightarrow>
    (case decodeMessage req of
       Inl _ \<Rightarrow> True
     | Inr msg \<Rightarrow> \<not> (msg_Version msg \<in> {0, 1} \<and> msg_Community msg = ag_community a))"
  by (auto simp: HandlePacket_def Let_def encodeMessage_nonempty split: sum.splits)

text \<open>
  C24. Every answer is one a manager can use: it has at most 64000 bytes, it decodes, it is a
  Response with the version, community and request id of the request, and it carries the status and
  one binding for each binding of the handler's result, or tooBig and no binding.
\<close>

theorem handle_packet_response:
  assumes "decodeMessage req = Inr msg" and "msg_Version msg \<in> {0, 1}"
    and "msg_Community msg = ag_community a" and "length (ag_community a) \<le> 255"
    and "cache_ints (cache_of a)"
  shows "\<exists>m out. decodeMessage (HandlePacket h now a req) = Inr m
    \<and> length (HandlePacket h now a req) \<le> 64000
    \<and> msg_Version m = msg_Version msg \<and> msg_Community m = ag_community a
    \<and> pdu_Type (msg_PDU m) = PDUResponse \<and> pdu_RequestID (msg_PDU m) = pdu_RequestID (msg_PDU msg)
    \<and> out = respond (BuildMIB (ag_baseOID a) (ag_cache a) h (ag_started a) now) (msg_PDU msg)
    \<and> (pdu_ErrorStatus (msg_PDU m) = ErrTooBig \<and> pdu_Bindings (msg_PDU m) = []
       \<or> pdu_ErrorStatus (msg_PDU m) = pdu_ErrorStatus out \<and> pdu_ErrorIndex (msg_PDU m) = pdu_ErrorIndex out
         \<and> length (pdu_Bindings (msg_PDU m)) = length (pdu_Bindings out))"
proof -
  define mib where "mib = BuildMIB (ag_baseOID a) (ag_cache a) h (ag_started a) now"
  define out where "out = respond mib (msg_PDU msg)"
  define m1 where "m1 = \<lparr>msg_Version = msg_Version msg, msg_Community = ag_community a, msg_PDU = out\<rparr>"
  define m2 where "m2 = m1\<lparr>msg_PDU := out\<lparr>pdu_ErrorStatus := ErrTooBig, pdu_ErrorIndex := 0, pdu_Bindings := []\<rparr>\<rparr>"
  have mib: "mib_in64 mib"
    using assms(5) BuildMIB_in64 by (auto simp: mib_in64_def mib_def cache_of_def)
  note d = decodeMessage_ok [OF assms(1)]
  note r = respond_ok [OF mib conjunct1 [OF conjunct2 [OF d]] conjunct2 [OF conjunct2 [OF d]], folded out_def]
  have h: "HandlePacket h now a req = (if length (encodeMessage m1) > 64000 then encodeMessage m2 else encodeMessage m1)"
    using assms by (auto simp: HandlePacket_def Let_def m1_def m2_def out_def mib_def)
  show ?thesis
  proof (cases "length (encodeMessage m1) > 64000")
    case False
    obtain m where m: "decodeMessage (encodeMessage m1) = Inr m" "msg_Version m = msg_Version m1"
      "msg_Community m = msg_Community m1" "pdu_Type (msg_PDU m) = pdu_tag (msg_PDU m1)"
      "pdu_RequestID (msg_PDU m) = pdu_RequestID (msg_PDU m1)"
      "pdu_n1 (msg_PDU m) = pdu_n1 (msg_PDU m1)" "pdu_n2 (msg_PDU m) = pdu_n2 (msg_PDU m1)"
      "length (pdu_Bindings (msg_PDU m)) = length (pdu_Bindings (msg_PDU m1))"
      using encoded_message_wire [of m1] False r d by (auto simp: m1_def)
    have "pdu_Type (msg_PDU m) = PDUResponse" using m(4) r by (simp add: m1_def)
    then have n: "pdu_n1 (msg_PDU m) = pdu_ErrorStatus (msg_PDU m)" "pdu_n2 (msg_PDU m) = pdu_ErrorIndex (msg_PDU m)"
      by (simp_all add: pdu_n1_def pdu_n2_def)
    show ?thesis
      using h False m n r unfolding mib_def [symmetric] out_def [symmetric]
      by (intro exI [of _ m] exI [of _ out]) (simp add: m1_def)
  next
    case True
    have l: "length (encodeMessage m2) \<le> 64000"
      using length_empty_message [of m2] assms(4) by (simp add: m2_def m1_def)
    have "pdu_ok (msg_PDU m2)" "in64 (msg_Version m2)" "bindings_ok (pdu_Bindings (msg_PDU m2))"
      "pdu_tag (msg_PDU m2) = PDUResponse"
      using r d by (auto simp: m2_def m1_def pdu_ok_def pdu_n1_def pdu_n2_def in64_def bindings_ok_def
          pdu_tag_def split: if_splits)
    with encoded_message_wire [of m2] l
    obtain m where m: "decodeMessage (encodeMessage m2) = Inr m" "msg_Version m = msg_Version m2"
      "msg_Community m = msg_Community m2" "pdu_Type (msg_PDU m) = PDUResponse"
      "pdu_RequestID (msg_PDU m) = pdu_RequestID (msg_PDU m2)"
      "pdu_n1 (msg_PDU m) = pdu_n1 (msg_PDU m2)"
      "length (pdu_Bindings (msg_PDU m)) = length (pdu_Bindings (msg_PDU m2))"
      by auto
    have "pdu_n1 (msg_PDU m2) = ErrTooBig" using r
      by (simp add: m2_def m1_def pdu_n1_def pdu_tag_def split: if_splits)
    with m have "pdu_ErrorStatus (msg_PDU m) = ErrTooBig" by (simp add: pdu_n1_def)
    then show ?thesis
      using h True m l r unfolding mib_def [symmetric] out_def [symmetric]
      by (intro exI [of _ m] exI [of _ out]) (simp add: m1_def m2_def)
  qed
qed

text \<open>The agent with its defaults, an empty cache, started at time 0.\<close>

definition demo_agent :: agent where
  "demo_agent = NewAgent [] [] [] None 0"

lemma demo_agent_fields: "ag_community demo_agent = ''public''" "ag_cache demo_agent = None"
  by (simp_all add: demo_agent_def NewAgent_def NewAgentOpts_def Let_def)

theorem handle_packet_response_witness:
  "length (HandlePacket ''h'' 0 demo_agent (encodeMessage get_uptime)) \<le> 64000"
proof -
  have "decodeMessage (encodeMessage get_uptime) = Inr get_uptime" by (rule get_uptime_decodes)
  moreover have "msg_Version get_uptime \<in> {0, 1}" "msg_Community get_uptime = ag_community demo_agent"
    "length (ag_community demo_agent) \<le> 255" "cache_ints (cache_of demo_agent)"
    by (simp_all add: get_uptime_def demo_agent_fields cache_of_def cache_ints_def NewCache_def)
  ultimately show ?thesis using handle_packet_response by blast
qed

text \<open>
  GET answers in order, each under the name asked: with the value of the leaf of that name where
  the tree has one, else with noSuchInstance if the name is a proper prefix of some leaf and
  noSuchObject if it is not.
\<close>

theorem get_answers:
  "list_all2 (\<lambda>b r. vb_Name r = vb_Name b
      \<and> (vb_Value r = (case find (\<lambda>v. var_OID v = vb_Name b) (BuildMIB base c h t0 now) of
           Some v \<Rightarrow> var_Value v
         | None \<Rightarrow> value_of (if \<exists>v\<in>set (BuildMIB base c h t0 now). prefix (vb_Name b) (var_OID v)
             then tagNoSuchInstance else tagNoSuchObject))))
    req (doGet (BuildMIB base c h t0 now) req)"
proof -
  let ?mib = "BuildMIB base c h t0 now"
  have "vb_Name (get_one ?mib b) = vb_Name b \<and> vb_Value (get_one ?mib b) =
      (case find (\<lambda>v. var_OID v = vb_Name b) ?mib of Some v \<Rightarrow> var_Value v
       | None \<Rightarrow> value_of (if \<exists>v\<in>set ?mib. prefix (vb_Name b) (var_OID v)
             then tagNoSuchInstance else tagNoSuchObject))" for b
    using mib_Get_in [OF BuildMIB_sorted, of base c h t0 now "vb_Name b"]
    unfolding mib_Get_find [OF BuildMIB_sorted, symmetric]
    by (auto simp: get_one_def bind_var_def bind_exc_def hasPrefix_def list_ex_iff OID_IsPrefix_iff
        split: option.splits)
  then show ?thesis by (simp add: doGet_def list.rel_map list.rel_refl)
qed

text \<open>
  GETNEXT answers in order, each with the leaf that follows the name asked in the tree, so a
  name that is strictly greater, or with endOfMibView under the name asked when there is none.
\<close>

theorem getnext_answers:
  "list_all2 (\<lambda>b r. r = (case find (\<lambda>v. vb_Name b < var_OID v) (BuildMIB base c h t0 now) of
         Some v \<Rightarrow> bind_var v | None \<Rightarrow> bind_exc (vb_Name b) tagEndOfMibView)
       \<and> (r = bind_exc (vb_Name b) tagEndOfMibView \<or> vb_Name b < vb_Name r))
    req (doGetNext (BuildMIB base c h t0 now) req)"
proof -
  have "x < var_OID v" if "find (\<lambda>v. x < var_OID v) vars = Some v" for x v vars
    using that by (auto simp: find_Some_iff)
  then show ?thesis
    by (auto simp: doGetNext_def list.rel_map next_one_def mib_GetNext_find [OF BuildMIB_sorted] bind_var_def
        intro!: list.rel_refl_strong split: option.splits)
qed

lemma bulk_loop_walk:
  "bulk_loop mib r [c] = map bind_var (walk mib c r)
     @ (if length (walk mib c r) < r
        then [bind_exc (last (c # map var_OID (walk mib c r))) tagEndOfMibView] else [])"
  by (induction r arbitrary: c) (auto simp: Let_def split: option.splits)

text \<open>
  GETBULK is bounded and faithful: it returns at most one binding per non-repeater and a hundred
  per repeater, whatever the request asks for; and for one repeater it returns what as many
  GETNEXT requests in a row would, with one endOfMibView at the end of the tree.
\<close>

theorem getbulk_answers:
  "length (doGetBulk mib p) \<le> fst (clamp_bulk p) + 100 * (length (pdu_Bindings p) - fst (clamp_bulk p))
   \<and> bulk_loop mib r [c] = map bind_var (walk mib c r)
     @ (if length (walk mib c r) < r
        then [bind_exc (last (c # map var_OID (walk mib c r))) tagEndOfMibView] else [])"
proof -
  obtain n m where nm: "clamp_bulk p = (n, m)" by (cases "clamp_bulk p")
  have "m * (length (pdu_Bindings p) - n) \<le> 100 * (length (pdu_Bindings p) - n)"
    using clamp_bulk_bounds [OF nm] by (intro mult_le_mono1) simp
  with length_doGetBulk [OF nm, of mib]
  have "length (doGetBulk mib p) \<le> n + 100 * (length (pdu_Bindings p) - n)" by linarith
  then show ?thesis unfolding nm fst_conv by (intro conjI) (assumption, rule bulk_loop_walk)
qed

text \<open>
  The agent is read-only: a SET request changes nothing (the handler has no state to change) and
  is answered with notWritable at the first binding, echoing the bindings of the request; and every
  request other than GET, GETNEXT and GETBULK is answered with an error status.
\<close>

theorem set_refused:
  "(let out = respond mib p in
    pdu_ErrorStatus out = (if pdu_Type p \<in> {PDUGet, PDUGetNext, PDUGetBulk} then ErrNoError
      else if pdu_Type p = PDUSet then ErrNotWritable else ErrGenErr)
    \<and> pdu_ErrorIndex out = (if pdu_Type p = PDUSet \<and> pdu_Bindings p \<noteq> [] then 1 else 0)
    \<and> (pdu_Type p \<in> {PDUGet, PDUGetNext, PDUGetBulk} \<or> pdu_Bindings out = pdu_Bindings p))"
  by (auto simp: respond_def zero_pdu_def Let_def map_idI)

end
