(* ===== verification/Confparse.thy ===== *)
theory Confparse
  imports Prelude
begin

text \<open>
  The wg-quick configuration files with their comment metadata (\<open>internal/confparse\<close>): the parser
  with every error return and the renderer.  \<open>bufio.Scanner\<close> gives up on a line of 65536 bytes or
  more; its other lines are those between newlines.  The Go map of pending comments is an
  association list.
\<close>

section \<open>Configurations\<close>

record InterfaceSection =
  ci_PrivateKey :: string
  ci_Address :: "string list"
  ci_ListenPort :: int
  ci_DNS :: "string list"
  ci_MTU :: int
  ci_Table :: string
  ci_FwMark :: int
  ci_PreUp :: string
  ci_PostUp :: string
  ci_PreDown :: string
  ci_PostDown :: string
  ci_SaveConfig :: bool
  ci_Jc :: int
  ci_Jmin :: int
  ci_Jmax :: int
  ci_S1 :: int
  ci_S2 :: int
  ci_S3 :: int
  ci_S4 :: int
  ci_H1 :: string
  ci_H2 :: string
  ci_H3 :: string
  ci_H4 :: string
  ci_I1 :: string
  ci_I2 :: string
  ci_I3 :: string
  ci_I4 :: string
  ci_I5 :: string
  ci_PublicKeyComment :: string
  ci_PeerDNS :: string
  ci_PeerEndpoint :: string
  ci_Backend :: string
  ci_Protocol :: string
  ci_PairName :: string

record PeerSection =
  cp_PublicKey :: string
  cp_PresharedKey :: string
  cp_AllowedIPs :: "string list"
  cp_Endpoint :: string
  cp_PersistentKeepalive :: int
  cp_Name :: string
  cp_Address :: string
  cp_DNS :: string
  cp_ClientAllowedIPs :: string
  cp_TrafficLimit :: int
  cp_ExpiresAt :: string
  cp_Notes :: string

record Config =
  cf_Interface :: InterfaceSection
  cf_Peers :: "PeerSection list"

definition zero_iface_section :: InterfaceSection where
  "zero_iface_section = \<lparr>ci_PrivateKey = [], ci_Address = [], ci_ListenPort = 0, ci_DNS = [], ci_MTU = 0,
     ci_Table = [], ci_FwMark = 0, ci_PreUp = [], ci_PostUp = [], ci_PreDown = [], ci_PostDown = [],
     ci_SaveConfig = False, ci_Jc = 0, ci_Jmin = 0, ci_Jmax = 0, ci_S1 = 0, ci_S2 = 0, ci_S3 = 0,
     ci_S4 = 0, ci_H1 = [], ci_H2 = [], ci_H3 = [], ci_H4 = [], ci_I1 = [], ci_I2 = [], ci_I3 = [],
     ci_I4 = [], ci_I5 = [], ci_PublicKeyComment = [], ci_PeerDNS = [], ci_PeerEndpoint = [],
     ci_Backend = [], ci_Protocol = [], ci_PairName = []\<rparr>"

definition zero_peer_section :: PeerSection where
  "zero_peer_section = \<lparr>cp_PublicKey = [], cp_PresharedKey = [], cp_AllowedIPs = [], cp_Endpoint = [],
     cp_PersistentKeepalive = 0, cp_Name = [], cp_Address = [], cp_DNS = [], cp_ClientAllowedIPs = [],
     cp_TrafficLimit = 0, cp_ExpiresAt = [], cp_Notes = []\<rparr>"

section \<open>Parsing\<close>

type_synonym pending = "(string \<times> string) list"

definition meta :: "pending \<Rightarrow> string \<Rightarrow> string \<Rightarrow> string" where
  "meta m k old = (case map_of m k of Some v \<Rightarrow> v | None \<Rightarrow> old)"

definition applyCommentMetaIface :: "pending \<Rightarrow> InterfaceSection \<Rightarrow> InterfaceSection" where
  "applyCommentMetaIface m i = i\<lparr>
     ci_PublicKeyComment := meta m ''publickey'' (ci_PublicKeyComment i),
     ci_PeerDNS := meta m ''peerdns'' (ci_PeerDNS i),
     ci_PeerEndpoint := meta m ''peerendpoint'' (ci_PeerEndpoint i),
     ci_Backend := meta m ''backend'' (ci_Backend i),
     ci_Protocol := meta m ''protocol'' (ci_Protocol i),
     ci_PairName := meta m ''pairname'' (ci_PairName i)\<rparr>"

definition applyCommentMetaPeer :: "pending \<Rightarrow> PeerSection \<Rightarrow> PeerSection" where
  "applyCommentMetaPeer m p = p\<lparr>
     cp_Name := meta m ''name'' (cp_Name p),
     cp_Address := meta m ''address'' (cp_Address p),
     cp_DNS := meta m ''dns'' (cp_DNS p),
     cp_ClientAllowedIPs := meta m ''clientallowedips'' (cp_ClientAllowedIPs p),
     cp_Notes := meta m ''notes'' (cp_Notes p),
     cp_TrafficLimit := (case map_of m ''trafficlimit'' of
        Some v \<Rightarrow> (case Atoi v of Some n \<Rightarrow> n | None \<Rightarrow> cp_TrafficLimit p)
      | None \<Rightarrow> cp_TrafficLimit p),
     cp_ExpiresAt := meta m ''expiresat'' (cp_ExpiresAt p)\<rparr>"

definition joinHook :: "string \<Rightarrow> string \<Rightarrow> string" where
  "joinHook prv nxt = (if prv = [] then nxt else prv @ [CHR 0x0A] @ nxt)"

definition splitCSV :: "string \<Rightarrow> string list" where
  "splitCSV s = filter (\<lambda>p. p \<noteq> []) (map TrimSpace (split_on CHR '','' s))"

definition parseInt :: "string \<Rightarrow> int option" where
  "parseInt s = Atoi (TrimSpace s)"

text \<open>\<open>None\<close> is the error of \<open>parseInt\<close>, the only one.\<close>

definition applyInterface :: "InterfaceSection \<Rightarrow> string \<Rightarrow> string \<Rightarrow> InterfaceSection option" where
  "applyInterface i key val =
     (let k = ToLower key;
          num = (\<lambda>upd. case parseInt val of None \<Rightarrow> None | Some n \<Rightarrow> Some (upd n))
      in if k = ''privatekey'' then Some (i\<lparr>ci_PrivateKey := val\<rparr>)
         else if k = ''address'' then Some (i\<lparr>ci_Address := ci_Address i @ splitCSV val\<rparr>)
         else if k = ''listenport'' then num (\<lambda>n. i\<lparr>ci_ListenPort := n\<rparr>)
         else if k = ''dns'' then Some (i\<lparr>ci_DNS := ci_DNS i @ splitCSV val\<rparr>)
         else if k = ''mtu'' then num (\<lambda>n. i\<lparr>ci_MTU := n\<rparr>)
         else if k = ''table'' then Some (i\<lparr>ci_Table := val\<rparr>)
         else if k = ''fwmark'' then num (\<lambda>n. i\<lparr>ci_FwMark := n\<rparr>)
         else if k = ''preup'' then Some (i\<lparr>ci_PreUp := joinHook (ci_PreUp i) val\<rparr>)
         else if k = ''postup'' then Some (i\<lparr>ci_PostUp := joinHook (ci_PostUp i) val\<rparr>)
         else if k = ''predown'' then Some (i\<lparr>ci_PreDown := joinHook (ci_PreDown i) val\<rparr>)
         else if k = ''postdown'' then Some (i\<lparr>ci_PostDown := joinHook (ci_PostDown i) val\<rparr>)
         else if k = ''saveconfig'' then Some (i\<lparr>ci_SaveConfig := EqualFold val ''true''\<rparr>)
         else if k = ''jc'' then num (\<lambda>n. i\<lparr>ci_Jc := n\<rparr>)
         else if k = ''jmin'' then num (\<lambda>n. i\<lparr>ci_Jmin := n\<rparr>)
         else if k = ''jmax'' then num (\<lambda>n. i\<lparr>ci_Jmax := n\<rparr>)
         else if k = ''s1'' then num (\<lambda>n. i\<lparr>ci_S1 := n\<rparr>)
         else if k = ''s2'' then num (\<lambda>n. i\<lparr>ci_S2 := n\<rparr>)
         else if k = ''s3'' then num (\<lambda>n. i\<lparr>ci_S3 := n\<rparr>)
         else if k = ''s4'' then num (\<lambda>n. i\<lparr>ci_S4 := n\<rparr>)
         else if k = ''h1'' then Some (i\<lparr>ci_H1 := val\<rparr>)
         else if k = ''h2'' then Some (i\<lparr>ci_H2 := val\<rparr>)
         else if k = ''h3'' then Some (i\<lparr>ci_H3 := val\<rparr>)
         else if k = ''h4'' then Some (i\<lparr>ci_H4 := val\<rparr>)
         else if k = ''i1'' then Some (i\<lparr>ci_I1 := val\<rparr>)
         else if k = ''i2'' then Some (i\<lparr>ci_I2 := val\<rparr>)
         else if k = ''i3'' then Some (i\<lparr>ci_I3 := val\<rparr>)
         else if k = ''i4'' then Some (i\<lparr>ci_I4 := val\<rparr>)
         else if k = ''i5'' then Some (i\<lparr>ci_I5 := val\<rparr>)
         else Some i)"

definition applyPeer :: "PeerSection \<Rightarrow> string \<Rightarrow> string \<Rightarrow> PeerSection option" where
  "applyPeer p key val =
     (let k = ToLower key
      in if k = ''publickey'' then Some (p\<lparr>cp_PublicKey := val\<rparr>)
         else if k = ''presharedkey'' then Some (p\<lparr>cp_PresharedKey := val\<rparr>)
         else if k = ''allowedips'' then Some (p\<lparr>cp_AllowedIPs := cp_AllowedIPs p @ splitCSV val\<rparr>)
         else if k = ''endpoint'' then Some (p\<lparr>cp_Endpoint := val\<rparr>)
         else if k = ''persistentkeepalive'' then
           (case parseInt val of None \<Rightarrow> None | Some n \<Rightarrow> Some (p\<lparr>cp_PersistentKeepalive := n\<rparr>))
         else Some p)"

definition HasAmnezia :: "InterfaceSection \<Rightarrow> bool" where
  "HasAmnezia i \<longleftrightarrow> ci_Jc i \<noteq> 0 \<or> ci_Jmin i \<noteq> 0 \<or> ci_Jmax i \<noteq> 0
     \<or> ci_S1 i \<noteq> 0 \<or> ci_S2 i \<noteq> 0 \<or> ci_S3 i \<noteq> 0 \<or> ci_S4 i \<noteq> 0
     \<or> ci_H1 i \<noteq> [] \<or> ci_H2 i \<noteq> [] \<or> ci_H3 i \<noteq> [] \<or> ci_H4 i \<noteq> []
     \<or> ci_I1 i \<noteq> [] \<or> ci_I2 i \<noteq> [] \<or> ci_I3 i \<noteq> [] \<or> ci_I4 i \<noteq> [] \<or> ci_I5 i \<noteq> []"

datatype section_name = NoSection | InInterface | InPeer

datatype confparse_error = ErrExpectedKeyValue nat | ErrInvalidInteger nat | ErrPeerFieldOutside nat
  | ErrKeyOutsideSection nat | ErrLineTooLong

record pstate =
  st_iface :: InterfaceSection
  st_peers :: "PeerSection list"
  st_section :: section_name
  st_peer :: "PeerSection option"
  st_pending :: pending

definition flushPeer :: "pstate \<Rightarrow> pstate" where
  "flushPeer st = (case st_peer st of None \<Rightarrow> st
     | Some p \<Rightarrow> st\<lparr>st_peers := st_peers st @ [p], st_peer := None\<rparr>)"

definition parse_comment :: "string \<Rightarrow> pstate \<Rightarrow> pstate" where
  "parse_comment line st =
     (let body = TrimSpace (TrimPrefix (TrimPrefix line ''#'') '';'')
      in if body = [] then st
         else (case Cut CHR ''='' body of None \<Rightarrow> st
           | Some (k, v) \<Rightarrow>
               st\<lparr>st_pending := AList.update (ToLower (TrimSpace k)) (TrimSpace v) (st_pending st)\<rparr>))"

definition parse_field :: "nat \<Rightarrow> string \<Rightarrow> string \<Rightarrow> pstate \<Rightarrow> confparse_error + pstate" where
  "parse_field n key val st =
     (case st_section st of
        InInterface \<Rightarrow>
          (let i = (if length (st_pending st) > 0 then applyCommentMetaIface (st_pending st) (st_iface st)
                    else st_iface st)
           in case applyInterface i key val of None \<Rightarrow> Inl (ErrInvalidInteger n)
              | Some i' \<Rightarrow> Inr (st\<lparr>st_iface := i', st_pending := []\<rparr>))
      | InPeer \<Rightarrow>
          (case st_peer st of None \<Rightarrow> Inl (ErrPeerFieldOutside n)
           | Some p0 \<Rightarrow>
             (let p = (if length (st_pending st) > 0 then applyCommentMetaPeer (st_pending st) p0 else p0)
              in case applyPeer p key val of None \<Rightarrow> Inl (ErrInvalidInteger n)
                 | Some p' \<Rightarrow> Inr (st\<lparr>st_peer := Some p', st_pending := []\<rparr>)))
      | NoSection \<Rightarrow> Inl (ErrKeyOutsideSection n))"

definition parse_line :: "nat \<Rightarrow> string \<Rightarrow> pstate \<Rightarrow> confparse_error + pstate" where
  "parse_line n raw st =
     (let line = TrimSpace raw
      in if line = [] then Inr st
         else if hd line = CHR ''#'' \<or> hd line = CHR '';'' then Inr (parse_comment line st)
         else if ToLower line = ''[interface]'' then Inr ((flushPeer st)\<lparr>st_section := InInterface\<rparr>)
         else if ToLower line = ''[peer]'' then
           Inr ((flushPeer st)\<lparr>st_peer := Some (applyCommentMetaPeer (st_pending st) zero_peer_section),
                  st_pending := [], st_section := InPeer\<rparr>)
         else (case Cut CHR ''='' line of None \<Rightarrow> Inl (ErrExpectedKeyValue n)
           | Some (k, v) \<Rightarrow> parse_field n (TrimSpace k) (TrimSpace v) st))"

fun parse_lines :: "nat \<Rightarrow> string list \<Rightarrow> pstate \<Rightarrow> confparse_error + pstate" where
  "parse_lines n [] st = Inr st"
| "parse_lines n (raw # ls) st =
     (if length raw \<ge> 65536 then Inl ErrLineTooLong
      else (case parse_line (n + 1) raw st of Inl e \<Rightarrow> Inl e | Inr st' \<Rightarrow> parse_lines (n + 1) ls st'))"

definition start_state :: pstate where
  "start_state = \<lparr>st_iface = zero_iface_section, st_peers = [], st_section = NoSection, st_peer = None,
     st_pending = []\<rparr>"

definition finish :: "pstate \<Rightarrow> Config" where
  "finish st =
     (let st1 = (if st_section st = InInterface \<and> length (st_pending st) > 0
                 then st\<lparr>st_iface := applyCommentMetaIface (st_pending st) (st_iface st)\<rparr> else st);
          st2 = flushPeer st1
      in \<lparr>cf_Interface = st_iface st2, cf_Peers = st_peers st2\<rparr>)"

definition Parse :: "string \<Rightarrow> confparse_error + Config" where
  "Parse content = map_sum id finish (parse_lines 0 (split_on CHR 0x0A content) start_state)"

section \<open>Rendering\<close>

definition kv :: "string \<Rightarrow> string \<Rightarrow> string" where
  "kv key v = key @ '' = '' @ v"

definition cm :: "string \<Rightarrow> string \<Rightarrow> string" where
  "cm key v = ''# '' @ key @ '' = '' @ v"

definition opt_line :: "bool \<Rightarrow> string \<Rightarrow> string list" where
  "opt_line b l = (if b then [l] else [])"

definition writeHooks :: "string \<Rightarrow> string \<Rightarrow> string list" where
  "writeHooks key val =
     (if val = [] then []
      else map (kv key) (filter (\<lambda>l. l \<noteq> []) (map TrimSpace (split_on CHR 0x0A val))))"

definition writeAmneziaInt :: "string \<Rightarrow> int \<Rightarrow> string list" where
  "writeAmneziaInt key v = opt_line (v \<noteq> 0) (kv key (int_str v))"

definition writeAmneziaStr :: "string \<Rightarrow> string \<Rightarrow> string list" where
  "writeAmneziaStr key v = opt_line (v \<noteq> []) (kv key v)"

definition header_comment :: string where
  "header_comment = ''# Managed by wireguardd '' @ [CHR 0xE2, CHR 0x80, CHR 0x94]
     @ '' comment fields are the durable backup of peer/interface metadata.''"

definition iface_lines :: "InterfaceSection \<Rightarrow> string list" where
  "iface_lines i =
     [header_comment, ''[Interface]'']
     @ opt_line (ci_PrivateKey i \<noteq> []) (kv ''PrivateKey'' (ci_PrivateKey i))
     @ opt_line (ci_PublicKeyComment i \<noteq> []) (cm ''PublicKey'' (ci_PublicKeyComment i))
     @ map (kv ''Address'') (ci_Address i)
     @ opt_line (ci_ListenPort i > 0) (kv ''ListenPort'' (int_str (ci_ListenPort i)))
     @ opt_line (length (ci_DNS i) > 0) (kv ''DNS'' (Join (ci_DNS i) '', ''))
     @ opt_line (ci_MTU i > 0) (kv ''MTU'' (int_str (ci_MTU i)))
     @ opt_line (ci_Table i \<noteq> []) (kv ''Table'' (ci_Table i))
     @ opt_line (ci_FwMark i > 0) (kv ''FwMark'' (int_str (ci_FwMark i)))
     @ writeHooks ''PreUp'' (ci_PreUp i)
     @ writeHooks ''PostUp'' (ci_PostUp i)
     @ writeHooks ''PreDown'' (ci_PreDown i)
     @ writeHooks ''PostDown'' (ci_PostDown i)
     @ opt_line (ci_SaveConfig i) ''SaveConfig = true''
     @ writeAmneziaInt ''Jc'' (ci_Jc i)
     @ writeAmneziaInt ''Jmin'' (ci_Jmin i)
     @ writeAmneziaInt ''Jmax'' (ci_Jmax i)
     @ writeAmneziaInt ''S1'' (ci_S1 i)
     @ writeAmneziaInt ''S2'' (ci_S2 i)
     @ writeAmneziaInt ''S3'' (ci_S3 i)
     @ writeAmneziaInt ''S4'' (ci_S4 i)
     @ writeAmneziaStr ''H1'' (ci_H1 i)
     @ writeAmneziaStr ''H2'' (ci_H2 i)
     @ writeAmneziaStr ''H3'' (ci_H3 i)
     @ writeAmneziaStr ''H4'' (ci_H4 i)
     @ writeAmneziaStr ''I1'' (ci_I1 i)
     @ writeAmneziaStr ''I2'' (ci_I2 i)
     @ writeAmneziaStr ''I3'' (ci_I3 i)
     @ writeAmneziaStr ''I4'' (ci_I4 i)
     @ writeAmneziaStr ''I5'' (ci_I5 i)
     @ opt_line (ci_PeerDNS i \<noteq> []) (cm ''PeerDNS'' (ci_PeerDNS i))
     @ opt_line (ci_PeerEndpoint i \<noteq> []) (cm ''PeerEndpoint'' (ci_PeerEndpoint i))
     @ opt_line (ci_Backend i \<noteq> []) (cm ''Backend'' (ci_Backend i))
     @ opt_line (ci_Protocol i \<noteq> []) (cm ''Protocol'' (ci_Protocol i))
     @ opt_line (ci_PairName i \<noteq> []) (cm ''PairName'' (ci_PairName i))"

definition peer_lines :: "PeerSection \<Rightarrow> string list" where
  "peer_lines p =
     [[]]
     @ opt_line (cp_Name p \<noteq> []) (cm ''Name'' (cp_Name p))
     @ opt_line (cp_Address p \<noteq> []) (cm ''Address'' (cp_Address p))
     @ opt_line (cp_DNS p \<noteq> []) (cm ''DNS'' (cp_DNS p))
     @ opt_line (cp_ClientAllowedIPs p \<noteq> []) (cm ''ClientAllowedIPs'' (cp_ClientAllowedIPs p))
     @ opt_line (cp_TrafficLimit p > 0) (cm ''TrafficLimit'' (int_str (cp_TrafficLimit p)))
     @ opt_line (cp_ExpiresAt p \<noteq> []) (cm ''ExpiresAt'' (cp_ExpiresAt p))
     @ opt_line (cp_Notes p \<noteq> [])
         (cm ''Notes'' (map (\<lambda>c. if c = CHR 0x0A then CHR '' '' else c) (cp_Notes p)))
     @ [''[Peer]'', kv ''PublicKey'' (cp_PublicKey p)]
     @ opt_line (cp_PresharedKey p \<noteq> []) (kv ''PresharedKey'' (cp_PresharedKey p))
     @ opt_line (length (cp_AllowedIPs p) > 0) (kv ''AllowedIPs'' (Join (cp_AllowedIPs p) '', ''))
     @ opt_line (cp_Endpoint p \<noteq> []) (kv ''Endpoint'' (cp_Endpoint p))
     @ opt_line (cp_PersistentKeepalive p > 0) (kv ''PersistentKeepalive'' (int_str (cp_PersistentKeepalive p)))"

text \<open>Every line is written with its newline; a value that contains one starts another line.\<close>

definition Render :: "Config \<Rightarrow> string" where
  "Render cfg = concat (map (\<lambda>l. l @ [CHR 0x0A])
     (iface_lines (cf_Interface cfg) @ concat (map peer_lines (cf_Peers cfg))))"

section \<open>One line at a time\<close>

text \<open>
  A value a line can carry: no newline, no blank at either end, not too long.  The blanks \<open>strings.TrimSpace\<close> removes
  include the spaces of Unicode: U+0085, U+00A0, U+1680, U+2000 to U+200A, U+2028, U+2029, U+202F, U+205F and U+3000,
  given here by their encodings.
\<close>

definition blank_runes :: "string list" where
  "blank_runes = [[CHR 0xC2, CHR 0x85], [CHR 0xC2, CHR 0xA0], [CHR 0xE1, CHR 0x9A, CHR 0x80], [CHR 0xE2, CHR 0x80, CHR 0x80],
     [CHR 0xE2, CHR 0x80, CHR 0x81], [CHR 0xE2, CHR 0x80, CHR 0x82], [CHR 0xE2, CHR 0x80, CHR 0x83], [CHR 0xE2, CHR 0x80, CHR 0x84],
     [CHR 0xE2, CHR 0x80, CHR 0x85], [CHR 0xE2, CHR 0x80, CHR 0x86], [CHR 0xE2, CHR 0x80, CHR 0x87], [CHR 0xE2, CHR 0x80, CHR 0x88],
     [CHR 0xE2, CHR 0x80, CHR 0x89], [CHR 0xE2, CHR 0x80, CHR 0x8A], [CHR 0xE2, CHR 0x80, CHR 0xA8], [CHR 0xE2, CHR 0x80, CHR 0xA9],
     [CHR 0xE2, CHR 0x80, CHR 0xAF], [CHR 0xE2, CHR 0x81, CHR 0x9F], [CHR 0xE3, CHR 0x80, CHR 0x80]]"

definition blank_free :: "string \<Rightarrow> bool" where
  "blank_free v \<longleftrightarrow> list_all (\<lambda>r. \<not> prefix r v \<and> \<not> prefix (rev r) (rev v)) blank_runes"

lemma blank_runes_high: "r \<in> set blank_runes \<Longrightarrow> r \<noteq> [] \<and> (\<forall>c\<in>set r. 128 \<le> (of_char c :: nat))"
  by (auto simp: blank_runes_def)

lemma blank_free_ascii: "\<forall>c\<in>set v. of_char c < (128 :: nat) \<Longrightarrow> blank_free v"
  unfolding blank_free_def list_all_iff
proof (intro ballI conjI notI)
  fix r assume v: "\<forall>c\<in>set v. of_char c < (128 :: nat)" and r: "r \<in> set blank_runes"
  from blank_runes_high [OF r] obtain c where c: "c \<in> set r" "128 \<le> (of_char c :: nat)" by (cases r) auto
  show False if "prefix r v" using that set_mono_prefix c v by fastforce
  show False if "prefix (rev r) (rev v)" using set_mono_prefix [OF that] c v by fastforce
qed

lemma blank_free_literals [simp]: "blank_free []" "blank_free ''true''"
  by (rule blank_free_ascii; simp)+

lemma blank_free_join:
  assumes "blank_free x" "blank_free y" "x \<noteq> []" "y \<noteq> []" "m \<noteq> []" "\<forall>c\<in>set m. of_char c < (128 :: nat)"
  shows "blank_free (x @ m @ y)"
  unfolding blank_free_def list_all_iff
proof (intro ballI conjI notI)
  fix r assume r: "r \<in> set blank_runes"
  have low: False if "c \<in> set r" "c \<in> set m" for c using blank_runes_high [OF r] that assms(6) by fastforce
  show False if "prefix r (x @ m @ y)"
  proof -
    from that consider "prefix r x" | us where "r = x @ us" "prefix us (m @ y)" by (auto simp: prefix_append)
    then show False
    proof cases
      case (2 us)
      with 2 assms(5) low have "us = []" by (cases us; cases m) auto
      with 2 have "prefix r x" by simp
      with assms(1) r show False by (auto simp: blank_free_def list_all_iff)
    qed (use assms(1) r in \<open>auto simp: blank_free_def list_all_iff\<close>)
  qed
  show False if "prefix (rev r) (rev (x @ m @ y))"
  proof -
    have "prefix (rev r) (rev y @ rev m @ rev x)" using that by simp
    then consider "prefix (rev r) (rev y)" | us where "rev r = rev y @ us" "prefix us (rev m @ rev x)"
      by (auto simp: prefix_append)
    then show False
    proof cases
      case (2 us)
      have "set us \<subseteq> set r" using arg_cong [OF 2(1), of set] by auto
      with 2 assms(5) low have "us = []" by (cases us; cases "rev m") auto
      with 2 have "prefix (rev r) (rev y)" by simp
      with assms(2) r show False by (auto simp: blank_free_def list_all_iff)
    qed (use assms(2) r in \<open>auto simp: blank_free_def list_all_iff\<close>)
  qed
qed

definition val_ok :: "string \<Rightarrow> bool" where
  "val_ok v \<longleftrightarrow> trimmed v \<and> blank_free v \<and> list_all (\<lambda>c. c \<noteq> CHR 0x0A) v \<and> length v < 65000"

definition key_ok :: "string \<Rightarrow> bool" where
  "key_ok k \<longleftrightarrow> k \<noteq> [] \<and> trimmed k \<and> length k < 100
     \<and> list_all (\<lambda>c. c \<noteq> CHR ''='' \<and> c \<noteq> CHR ''#'' \<and> c \<noteq> CHR '';'') k"

lemma lower_keys [simp]:
  "ToLower ''PrivateKey'' = ''privatekey''"
  "ToLower ''PublicKey'' = ''publickey''"
  "ToLower ''Address'' = ''address''"
  "ToLower ''ListenPort'' = ''listenport''"
  "ToLower ''DNS'' = ''dns''"
  "ToLower ''MTU'' = ''mtu''"
  "ToLower ''Table'' = ''table''"
  "ToLower ''FwMark'' = ''fwmark''"
  "ToLower ''PreUp'' = ''preup''"
  "ToLower ''PostUp'' = ''postup''"
  "ToLower ''PreDown'' = ''predown''"
  "ToLower ''PostDown'' = ''postdown''"
  "ToLower ''SaveConfig'' = ''saveconfig''"
  "ToLower ''Jc'' = ''jc''"
  "ToLower ''Jmin'' = ''jmin''"
  "ToLower ''Jmax'' = ''jmax''"
  "ToLower ''S1'' = ''s1''"
  "ToLower ''S2'' = ''s2''"
  "ToLower ''S3'' = ''s3''"
  "ToLower ''S4'' = ''s4''"
  "ToLower ''H1'' = ''h1''"
  "ToLower ''H2'' = ''h2''"
  "ToLower ''H3'' = ''h3''"
  "ToLower ''H4'' = ''h4''"
  "ToLower ''I1'' = ''i1''"
  "ToLower ''I2'' = ''i2''"
  "ToLower ''I3'' = ''i3''"
  "ToLower ''I4'' = ''i4''"
  "ToLower ''I5'' = ''i5''"
  "ToLower ''PeerDNS'' = ''peerdns''"
  "ToLower ''PeerEndpoint'' = ''peerendpoint''"
  "ToLower ''Backend'' = ''backend''"
  "ToLower ''Protocol'' = ''protocol''"
  "ToLower ''PairName'' = ''pairname''"
  "ToLower ''Name'' = ''name''"
  "ToLower ''ClientAllowedIPs'' = ''clientallowedips''"
  "ToLower ''TrafficLimit'' = ''trafficlimit''"
  "ToLower ''ExpiresAt'' = ''expiresat''"
  "ToLower ''Notes'' = ''notes''"
  "ToLower ''PresharedKey'' = ''presharedkey''"
  "ToLower ''AllowedIPs'' = ''allowedips''"
  "ToLower ''Endpoint'' = ''endpoint''"
  "ToLower ''PersistentKeepalive'' = ''persistentkeepalive''"
  by code_simp+

lemma equals_lower: "CHR ''='' \<in> set s \<Longrightarrow> CHR ''='' \<in> set (ToLower s)"
proof -
  have "lower_char CHR ''='' = CHR ''=''" by code_simp
  moreover assume "CHR ''='' \<in> set s"
  ultimately show ?thesis unfolding ToLower_def by (metis image_eqI list.set_map)
qed

lemma trimmed_kv: "k \<noteq> [] \<Longrightarrow> trimmed k \<Longrightarrow> v \<noteq> [] \<Longrightarrow> trimmed v \<Longrightarrow> trimmed (kv k v)"
  by (auto simp: trimmed_def kv_def hd_append)

lemma is_space_blank [simp]: "is_space CHR '' ''"
  by (simp add: is_space_def)

lemma Cut_kv:
  assumes "key_ok k" "val_ok v"
  shows "Cut CHR ''='' (kv k v) = Some (k @ '' '', CHR '' '' # v)"
    "TrimSpace (k @ '' '') = k" "TrimSpace (CHR '' '' # v) = v"
  using assms Cut_at [of "CHR ''=''" "k @ '' ''" "CHR '' '' # v"]
  by (auto simp: kv_def key_ok_def val_ok_def list_all_iff TrimSpace_space_snoc TrimSpace_space_Cons
      TrimSpace_trimmed)

lemma parse_line_kv:
  assumes "key_ok k" "val_ok v" "v \<noteq> []"
  shows "parse_line n (kv k v) st = parse_field n k v st"
proof -
  have t: "TrimSpace (kv k v) = kv k v"
    using assms by (intro TrimSpace_trimmed trimmed_kv) (auto simp: key_ok_def val_ok_def)
  have ne: "kv k v \<noteq> []" by (simp add: kv_def)
  have h: "hd (kv k v) \<in> set k" using assms by (auto simp: key_ok_def kv_def)
  then have "hd (kv k v) \<noteq> CHR ''#''" "hd (kv k v) \<noteq> CHR '';''"
    using assms(1) by (auto simp: key_ok_def list_all_iff)
  moreover have e: "CHR ''='' \<in> set (ToLower (kv k v))" by (rule equals_lower) (simp add: kv_def)
  then have "ToLower (kv k v) \<noteq> w" if "CHR ''='' \<notin> set w" for w using that by metis
  then have "ToLower (kv k v) \<noteq> ''[interface]''" "ToLower (kv k v) \<noteq> ''[peer]''" by simp_all
  ultimately show ?thesis using t ne Cut_kv [OF assms(1,2)] by (simp add: parse_line_def Let_def)
qed

lemma parse_line_cm:
  assumes "key_ok k" "val_ok v" "v \<noteq> []"
  shows "parse_line n (cm k v) st = Inr (st\<lparr>st_pending := AList.update (ToLower k) v (st_pending st)\<rparr>)"
proof -
  have c: "cm k v = CHR ''#'' # CHR '' '' # kv k v" by (simp add: cm_def kv_def)
  have tk: "trimmed (kv k v)" using assms by (simp add: key_ok_def val_ok_def trimmed_kv)
  then have "trimmed (cm k v)" using assms
    by (auto simp: trimmed_def c kv_def is_space_def)
  then have "TrimSpace (cm k v) = cm k v" by (rule TrimSpace_trimmed)
  moreover have "TrimSpace (CHR '' '' # kv k v) = kv k v"
    using TrimSpace_space_Cons [of "CHR '' ''" "kv k v"] TrimSpace_trimmed [OF tk] by simp
  then have "TrimSpace (TrimPrefix (TrimPrefix (cm k v) ''#'') '';'') = kv k v"
    by (simp add: c TrimPrefix_def)
  moreover have "kv k v \<noteq> []" by (simp add: kv_def)
  ultimately show ?thesis using Cut_kv [OF assms(1,2)]
    by (simp add: parse_line_def parse_comment_def c Let_def)
qed

text \<open>The lines \<open>ls\<close> take the parser from one state to another, wherever they stand.\<close>

definition reads :: "pstate \<Rightarrow> string list \<Rightarrow> pstate \<Rightarrow> bool" where
  "reads st ls st' \<longleftrightarrow> (\<forall>n rest. parse_lines n (ls @ rest) st = parse_lines (n + length ls) rest st')"

lemma reads_Nil: "reads st [] st"
  by (simp add: reads_def)

lemma reads_append: "reads s a t \<Longrightarrow> reads t b u \<Longrightarrow> reads s (a @ b) u"
  by (simp add: reads_def add.assoc)

lemma reads_one: "length l < 65536 \<Longrightarrow> (\<And>n. parse_line n l s = Inr t) \<Longrightarrow> reads s [l] t"
  by (simp add: reads_def)

lemma reads_Cons: "reads s [l] t \<Longrightarrow> reads t ls u \<Longrightarrow> reads s (l # ls) u"
  using reads_append [of s "[l]" t ls u] by simp

lemma reads_kv:
  assumes "key_ok k" "val_ok v" "v \<noteq> []" "\<And>n. parse_field n k v s = Inr t"
  shows "reads s [kv k v] t"
proof (rule reads_one)
  show "length (kv k v) < 65536" using assms by (simp add: kv_def key_ok_def val_ok_def)
qed (simp add: parse_line_kv assms)

lemma reads_cm:
  assumes "key_ok k" "val_ok v"
  shows "reads s (opt_line (v \<noteq> []) (cm k v))
    (s\<lparr>st_pending := if v = [] then st_pending s else AList.update (ToLower k) v (st_pending s)\<rparr>)"
proof (cases "v = []")
  case False
  have "length (cm k v) < 65536" using assms by (simp add: cm_def key_ok_def val_ok_def)
  from reads_one [OF this] False show ?thesis by (simp add: opt_line_def parse_line_cm assms)
qed (simp add: opt_line_def reads_Nil)

section \<open>The fields of the interface section\<close>

lemma key_oks:
  "key_ok ''PrivateKey''"
  "key_ok ''PublicKey''"
  "key_ok ''Address''"
  "key_ok ''ListenPort''"
  "key_ok ''DNS''"
  "key_ok ''MTU''"
  "key_ok ''Table''"
  "key_ok ''FwMark''"
  "key_ok ''PreUp''"
  "key_ok ''PostUp''"
  "key_ok ''PreDown''"
  "key_ok ''PostDown''"
  "key_ok ''SaveConfig''"
  "key_ok ''Jc''"
  "key_ok ''Jmin''"
  "key_ok ''Jmax''"
  "key_ok ''S1''"
  "key_ok ''S2''"
  "key_ok ''S3''"
  "key_ok ''S4''"
  "key_ok ''H1''"
  "key_ok ''H2''"
  "key_ok ''H3''"
  "key_ok ''H4''"
  "key_ok ''I1''"
  "key_ok ''I2''"
  "key_ok ''I3''"
  "key_ok ''I4''"
  "key_ok ''I5''"
  "key_ok ''PeerDNS''"
  "key_ok ''PeerEndpoint''"
  "key_ok ''Backend''"
  "key_ok ''Protocol''"
  "key_ok ''PairName''"
  "key_ok ''Name''"
  "key_ok ''ClientAllowedIPs''"
  "key_ok ''TrafficLimit''"
  "key_ok ''ExpiresAt''"
  "key_ok ''Notes''"
  "key_ok ''PresharedKey''"
  "key_ok ''AllowedIPs''"
  "key_ok ''Endpoint''"
  "key_ok ''PersistentKeepalive''"
  by (simp_all add: key_ok_def trimmed_def is_space_def)

lemma apply_simps:
  "applyInterface i ''PrivateKey'' v = Some (i\<lparr>ci_PrivateKey := v\<rparr>)"
  "applyInterface i ''Table'' v = Some (i\<lparr>ci_Table := v\<rparr>)"
  "applyInterface i ''H1'' v = Some (i\<lparr>ci_H1 := v\<rparr>)"
  "applyInterface i ''H2'' v = Some (i\<lparr>ci_H2 := v\<rparr>)"
  "applyInterface i ''H3'' v = Some (i\<lparr>ci_H3 := v\<rparr>)"
  "applyInterface i ''H4'' v = Some (i\<lparr>ci_H4 := v\<rparr>)"
  "applyInterface i ''I1'' v = Some (i\<lparr>ci_I1 := v\<rparr>)"
  "applyInterface i ''I2'' v = Some (i\<lparr>ci_I2 := v\<rparr>)"
  "applyInterface i ''I3'' v = Some (i\<lparr>ci_I3 := v\<rparr>)"
  "applyInterface i ''I4'' v = Some (i\<lparr>ci_I4 := v\<rparr>)"
  "applyInterface i ''I5'' v = Some (i\<lparr>ci_I5 := v\<rparr>)"
  "parseInt v = Some n \<Longrightarrow> applyInterface i ''ListenPort'' v = Some (i\<lparr>ci_ListenPort := n\<rparr>)"
  "parseInt v = Some n \<Longrightarrow> applyInterface i ''MTU'' v = Some (i\<lparr>ci_MTU := n\<rparr>)"
  "parseInt v = Some n \<Longrightarrow> applyInterface i ''FwMark'' v = Some (i\<lparr>ci_FwMark := n\<rparr>)"
  "parseInt v = Some n \<Longrightarrow> applyInterface i ''Jc'' v = Some (i\<lparr>ci_Jc := n\<rparr>)"
  "parseInt v = Some n \<Longrightarrow> applyInterface i ''Jmin'' v = Some (i\<lparr>ci_Jmin := n\<rparr>)"
  "parseInt v = Some n \<Longrightarrow> applyInterface i ''Jmax'' v = Some (i\<lparr>ci_Jmax := n\<rparr>)"
  "parseInt v = Some n \<Longrightarrow> applyInterface i ''S1'' v = Some (i\<lparr>ci_S1 := n\<rparr>)"
  "parseInt v = Some n \<Longrightarrow> applyInterface i ''S2'' v = Some (i\<lparr>ci_S2 := n\<rparr>)"
  "parseInt v = Some n \<Longrightarrow> applyInterface i ''S3'' v = Some (i\<lparr>ci_S3 := n\<rparr>)"
  "parseInt v = Some n \<Longrightarrow> applyInterface i ''S4'' v = Some (i\<lparr>ci_S4 := n\<rparr>)"
  "applyInterface i ''PreUp'' v = Some (i\<lparr>ci_PreUp := joinHook (ci_PreUp i) v\<rparr>)"
  "applyInterface i ''PostUp'' v = Some (i\<lparr>ci_PostUp := joinHook (ci_PostUp i) v\<rparr>)"
  "applyInterface i ''PreDown'' v = Some (i\<lparr>ci_PreDown := joinHook (ci_PreDown i) v\<rparr>)"
  "applyInterface i ''PostDown'' v = Some (i\<lparr>ci_PostDown := joinHook (ci_PostDown i) v\<rparr>)"
  "applyInterface i ''Address'' v = Some (i\<lparr>ci_Address := ci_Address i @ splitCSV v\<rparr>)"
  "applyInterface i ''DNS'' v = Some (i\<lparr>ci_DNS := ci_DNS i @ splitCSV v\<rparr>)"
  "applyInterface i ''SaveConfig'' ''true'' = Some (i\<lparr>ci_SaveConfig := True\<rparr>)"
  by (simp_all add: applyInterface_def EqualFold_def Let_def)

lemma apply_peer_simps:
  "applyPeer p ''PublicKey'' v = Some (p\<lparr>cp_PublicKey := v\<rparr>)"
  "applyPeer p ''PresharedKey'' v = Some (p\<lparr>cp_PresharedKey := v\<rparr>)"
  "applyPeer p ''Endpoint'' v = Some (p\<lparr>cp_Endpoint := v\<rparr>)"
  "applyPeer p ''AllowedIPs'' v = Some (p\<lparr>cp_AllowedIPs := cp_AllowedIPs p @ splitCSV v\<rparr>)"
  "parseInt v = Some n \<Longrightarrow> applyPeer p ''PersistentKeepalive'' v = Some (p\<lparr>cp_PersistentKeepalive := n\<rparr>)"
  by (simp_all add: applyPeer_def Let_def)

lemma val_ok_int_str: "in64 n \<Longrightarrow> val_ok (int_str n) \<and> int_str n \<noteq> [] \<and> parseInt (int_str n) = Some n"
proof -
  assume n: "in64 n"
  have "nat m < 10 ^ 20" if "m \<le> 2 ^ 63" for m
    using that by (cases "0 \<le> m") (simp_all add: nat_less_iff)
  then have b: "nat (- n) < 10 ^ 20" "nat n < 10 ^ 20" using n by (simp_all add: in64_def)
  have t: "trimmed (CHR ''-'' # nat_str m)" for m
    using trimmed_nat_str [of m] by (simp add: trimmed_def is_space_def)
  have d: "of_char c < (128 :: nat) \<and> c \<noteq> CHR 0x0A" if "c \<in> set (nat_str m)" for c m
    using nat_str_digits [OF that] by (auto simp: is_digit_range)
  have v: "val_ok (int_str n)"
    using length_nat_str [OF b(1)] length_nat_str [OF b(2)] t
    by (auto simp: val_ok_def int_str_def list_all_iff dest: d intro!: blank_free_ascii)
  then have "TrimSpace (int_str n) = int_str n" by (simp add: val_ok_def TrimSpace_trimmed)
  then show ?thesis using v Atoi_int_str_in64 [OF n] by (simp add: parseInt_def int_str_def)
qed

definition in_iface :: "InterfaceSection \<Rightarrow> pending \<Rightarrow> pstate" where
  "in_iface i pend = \<lparr>st_iface = i, st_peers = [], st_section = InInterface, st_peer = None,
     st_pending = pend\<rparr>"

lemma meta_Nil [simp]: "applyCommentMetaIface [] i = i" "applyCommentMetaPeer [] p = p"
  by (simp_all add: applyCommentMetaIface_def applyCommentMetaPeer_def meta_def)

lemma reads_iface_kv:
  assumes "key_ok k" "val_ok v" "v \<noteq> []" "applyInterface (applyCommentMetaIface pend i) k v = Some i'"
  shows "reads (in_iface i pend) [kv k v] (in_iface i' [])"
  using assms by (intro reads_kv) (auto simp: parse_field_def in_iface_def Let_def split: if_splits)

lemma reads_opt:
  assumes "key_ok k" "b \<Longrightarrow> val_ok v \<and> v \<noteq> [] \<and> applyInterface i k v = Some i'" "\<not> b \<Longrightarrow> i' = i"
  shows "reads (in_iface i []) (opt_line b (kv k v)) (in_iface i' [])"
  using assms by (cases b) (auto simp: opt_line_def intro: reads_Nil reads_iface_kv)

text \<open>A state reached by setting a field to what it already holds is the state itself.\<close>

lemma iface_same:
  "ci_PrivateKey i = x \<Longrightarrow> i\<lparr>ci_PrivateKey := x\<rparr> = i"
  "ci_Table i = x \<Longrightarrow> i\<lparr>ci_Table := x\<rparr> = i"
  "ci_H1 i = x \<Longrightarrow> i\<lparr>ci_H1 := x\<rparr> = i"
  "ci_H2 i = x \<Longrightarrow> i\<lparr>ci_H2 := x\<rparr> = i"
  "ci_H3 i = x \<Longrightarrow> i\<lparr>ci_H3 := x\<rparr> = i"
  "ci_H4 i = x \<Longrightarrow> i\<lparr>ci_H4 := x\<rparr> = i"
  "ci_I1 i = x \<Longrightarrow> i\<lparr>ci_I1 := x\<rparr> = i"
  "ci_I2 i = x \<Longrightarrow> i\<lparr>ci_I2 := x\<rparr> = i"
  "ci_I3 i = x \<Longrightarrow> i\<lparr>ci_I3 := x\<rparr> = i"
  "ci_I4 i = x \<Longrightarrow> i\<lparr>ci_I4 := x\<rparr> = i"
  "ci_I5 i = x \<Longrightarrow> i\<lparr>ci_I5 := x\<rparr> = i"
  "ci_ListenPort i = n \<Longrightarrow> i\<lparr>ci_ListenPort := n\<rparr> = i"
  "ci_MTU i = n \<Longrightarrow> i\<lparr>ci_MTU := n\<rparr> = i"
  "ci_FwMark i = n \<Longrightarrow> i\<lparr>ci_FwMark := n\<rparr> = i"
  "ci_Jc i = n \<Longrightarrow> i\<lparr>ci_Jc := n\<rparr> = i"
  "ci_Jmin i = n \<Longrightarrow> i\<lparr>ci_Jmin := n\<rparr> = i"
  "ci_Jmax i = n \<Longrightarrow> i\<lparr>ci_Jmax := n\<rparr> = i"
  "ci_S1 i = n \<Longrightarrow> i\<lparr>ci_S1 := n\<rparr> = i"
  "ci_S2 i = n \<Longrightarrow> i\<lparr>ci_S2 := n\<rparr> = i"
  "ci_S3 i = n \<Longrightarrow> i\<lparr>ci_S3 := n\<rparr> = i"
  "ci_S4 i = n \<Longrightarrow> i\<lparr>ci_S4 := n\<rparr> = i"
  "ci_PreUp i = x \<Longrightarrow> i\<lparr>ci_PreUp := x\<rparr> = i"
  "ci_PostUp i = x \<Longrightarrow> i\<lparr>ci_PostUp := x\<rparr> = i"
  "ci_PreDown i = x \<Longrightarrow> i\<lparr>ci_PreDown := x\<rparr> = i"
  "ci_PostDown i = x \<Longrightarrow> i\<lparr>ci_PostDown := x\<rparr> = i"
  "ci_Address i = xs \<Longrightarrow> i\<lparr>ci_Address := xs\<rparr> = i"
  "ci_DNS i = xs \<Longrightarrow> i\<lparr>ci_DNS := xs\<rparr> = i"
  "ci_SaveConfig i = b \<Longrightarrow> i\<lparr>ci_SaveConfig := b\<rparr> = i"
  by (cases i; simp)+

lemma peer_same:
  "cp_PublicKey p = x \<Longrightarrow> p\<lparr>cp_PublicKey := x\<rparr> = p"
  "cp_PresharedKey p = x \<Longrightarrow> p\<lparr>cp_PresharedKey := x\<rparr> = p"
  "cp_AllowedIPs p = xs \<Longrightarrow> p\<lparr>cp_AllowedIPs := xs\<rparr> = p"
  "cp_Endpoint p = x \<Longrightarrow> p\<lparr>cp_Endpoint := x\<rparr> = p"
  "cp_PersistentKeepalive p = n \<Longrightarrow> p\<lparr>cp_PersistentKeepalive := n\<rparr> = p"
  by (cases p; simp)+

lemma reads_str_fields:
  "val_ok v \<Longrightarrow> ci_PrivateKey i = [] \<Longrightarrow> reads (in_iface i []) (opt_line (v \<noteq> []) (kv ''PrivateKey'' v)) (in_iface (i\<lparr>ci_PrivateKey := v\<rparr>) [])"
  "val_ok v \<Longrightarrow> ci_Table i = [] \<Longrightarrow> reads (in_iface i []) (opt_line (v \<noteq> []) (kv ''Table'' v)) (in_iface (i\<lparr>ci_Table := v\<rparr>) [])"
  "val_ok v \<Longrightarrow> ci_H1 i = [] \<Longrightarrow> reads (in_iface i []) (opt_line (v \<noteq> []) (kv ''H1'' v)) (in_iface (i\<lparr>ci_H1 := v\<rparr>) [])"
  "val_ok v \<Longrightarrow> ci_H2 i = [] \<Longrightarrow> reads (in_iface i []) (opt_line (v \<noteq> []) (kv ''H2'' v)) (in_iface (i\<lparr>ci_H2 := v\<rparr>) [])"
  "val_ok v \<Longrightarrow> ci_H3 i = [] \<Longrightarrow> reads (in_iface i []) (opt_line (v \<noteq> []) (kv ''H3'' v)) (in_iface (i\<lparr>ci_H3 := v\<rparr>) [])"
  "val_ok v \<Longrightarrow> ci_H4 i = [] \<Longrightarrow> reads (in_iface i []) (opt_line (v \<noteq> []) (kv ''H4'' v)) (in_iface (i\<lparr>ci_H4 := v\<rparr>) [])"
  "val_ok v \<Longrightarrow> ci_I1 i = [] \<Longrightarrow> reads (in_iface i []) (opt_line (v \<noteq> []) (kv ''I1'' v)) (in_iface (i\<lparr>ci_I1 := v\<rparr>) [])"
  "val_ok v \<Longrightarrow> ci_I2 i = [] \<Longrightarrow> reads (in_iface i []) (opt_line (v \<noteq> []) (kv ''I2'' v)) (in_iface (i\<lparr>ci_I2 := v\<rparr>) [])"
  "val_ok v \<Longrightarrow> ci_I3 i = [] \<Longrightarrow> reads (in_iface i []) (opt_line (v \<noteq> []) (kv ''I3'' v)) (in_iface (i\<lparr>ci_I3 := v\<rparr>) [])"
  "val_ok v \<Longrightarrow> ci_I4 i = [] \<Longrightarrow> reads (in_iface i []) (opt_line (v \<noteq> []) (kv ''I4'' v)) (in_iface (i\<lparr>ci_I4 := v\<rparr>) [])"
  "val_ok v \<Longrightarrow> ci_I5 i = [] \<Longrightarrow> reads (in_iface i []) (opt_line (v \<noteq> []) (kv ''I5'' v)) (in_iface (i\<lparr>ci_I5 := v\<rparr>) [])"
  by (rule reads_opt; simp add: key_oks apply_simps iface_same)+

lemma reads_int_fields:
  "in64 n \<Longrightarrow> 0 \<le> n \<Longrightarrow> ci_MTU i = 0 \<Longrightarrow> reads (in_iface i []) (opt_line (n > 0) (kv ''MTU'' (int_str n))) (in_iface (i\<lparr>ci_MTU := n\<rparr>) [])"
  "in64 n \<Longrightarrow> 0 \<le> n \<Longrightarrow> ci_FwMark i = 0 \<Longrightarrow> reads (in_iface i []) (opt_line (n > 0) (kv ''FwMark'' (int_str n))) (in_iface (i\<lparr>ci_FwMark := n\<rparr>) [])"
  "in64 n \<Longrightarrow> ci_Jc i = 0 \<Longrightarrow> reads (in_iface i []) (writeAmneziaInt ''Jc'' n) (in_iface (i\<lparr>ci_Jc := n\<rparr>) [])"
  "in64 n \<Longrightarrow> ci_Jmin i = 0 \<Longrightarrow> reads (in_iface i []) (writeAmneziaInt ''Jmin'' n) (in_iface (i\<lparr>ci_Jmin := n\<rparr>) [])"
  "in64 n \<Longrightarrow> ci_Jmax i = 0 \<Longrightarrow> reads (in_iface i []) (writeAmneziaInt ''Jmax'' n) (in_iface (i\<lparr>ci_Jmax := n\<rparr>) [])"
  "in64 n \<Longrightarrow> ci_S1 i = 0 \<Longrightarrow> reads (in_iface i []) (writeAmneziaInt ''S1'' n) (in_iface (i\<lparr>ci_S1 := n\<rparr>) [])"
  "in64 n \<Longrightarrow> ci_S2 i = 0 \<Longrightarrow> reads (in_iface i []) (writeAmneziaInt ''S2'' n) (in_iface (i\<lparr>ci_S2 := n\<rparr>) [])"
  "in64 n \<Longrightarrow> ci_S3 i = 0 \<Longrightarrow> reads (in_iface i []) (writeAmneziaInt ''S3'' n) (in_iface (i\<lparr>ci_S3 := n\<rparr>) [])"
  "in64 n \<Longrightarrow> ci_S4 i = 0 \<Longrightarrow> reads (in_iface i []) (writeAmneziaInt ''S4'' n) (in_iface (i\<lparr>ci_S4 := n\<rparr>) [])"
  unfolding writeAmneziaInt_def
  by (rule reads_opt; simp add: key_oks apply_simps iface_same val_ok_int_str)+

lemma list_all_val: "val_ok v \<Longrightarrow> c \<in> set v \<Longrightarrow> c \<noteq> CHR 0x0A"
  by (simp add: val_ok_def list_all_iff)

text \<open>Comma separated values.\<close>

definition item_ok :: "string \<Rightarrow> bool" where
  "item_ok x \<longleftrightarrow> val_ok x \<and> x \<noteq> [] \<and> list_all (\<lambda>c. c \<noteq> CHR '','') x"

definition list_ok :: "string list \<Rightarrow> bool" where
  "list_ok xs \<longleftrightarrow> list_all item_ok xs \<and> length (Join xs '', '') < 65000"

lemma val_ok_TrimSpace: "val_ok v \<Longrightarrow> TrimSpace v = v"
  by (simp add: val_ok_def TrimSpace_trimmed)

lemma item_okD: "item_ok x \<Longrightarrow> x \<noteq> [] \<and> val_ok x \<and> TrimSpace x = x \<and> CHR '','' \<notin> set x"
  by (auto simp: item_ok_def val_ok_TrimSpace list_all_iff)

lemma map_TrimSpace_split:
  "map TrimSpace (split_on CHR '','' (CHR '' '' # s)) = map TrimSpace (split_on CHR '','' s)"
proof -
  obtain y ys where "split_on CHR '','' s = y # ys" by (meson list.exhaust split_on_nonempty)
  then show ?thesis using TrimSpace_space_Cons [of "CHR '' ''" y] by simp
qed

lemma splitCSV_Join: "list_all item_ok xs \<Longrightarrow> splitCSV (Join xs '', '') = xs"
proof -
  assume ok: "list_all item_ok xs"
  have "map TrimSpace (split_on CHR '','' (Join xs '', '')) = xs" if "xs \<noteq> []"
    using that ok
  proof (induction xs rule: induct_list012)
    case (2 x)
    then show ?case using item_okD [of x] by (simp add: split_on_no_sep)
  next
    case (3 x y zs)
    then have "CHR '','' \<notin> set x" "TrimSpace x = x"
      using item_okD [of x] by simp_all
    moreover have "map TrimSpace (split_on CHR '','' (Join (y # zs) '', '')) = y # zs"
      using 3 by simp
    ultimately show ?case
      using split_on_append [of "CHR '',''" x "CHR '' '' # Join (y # zs) '', ''"]
      by (simp add: map_TrimSpace_split del: split_on.simps)
  qed simp
  then show ?thesis using ok unfolding splitCSV_def
    by (cases "xs = []") (auto simp: list_all_iff filter_id_conv dest: item_okD)
qed

lemma set_Join: "c \<in> set (Join xs sep) \<Longrightarrow> c \<in> set sep \<or> (\<exists>x\<in>set xs. c \<in> set x)"
  by (induction xs rule: induct_list012) auto

lemma hd_Join: "xs \<noteq> [] \<Longrightarrow> hd xs \<noteq> [] \<Longrightarrow> hd (Join xs sep) = hd (hd xs)"
  by (induction xs rule: induct_list012) auto

lemma Join_nonempty: "xs \<noteq> [] \<Longrightarrow> hd xs \<noteq> [] \<Longrightarrow> Join xs sep \<noteq> []"
  by (induction xs rule: induct_list012) auto

lemma last_Join: "xs \<noteq> [] \<Longrightarrow> \<forall>x\<in>set xs. x \<noteq> [] \<Longrightarrow> last (Join xs sep) = last (last xs)"
proof (induction xs rule: induct_list012)
  case (3 x y zs)
  then have "Join (y # zs) sep \<noteq> []" by (intro Join_nonempty) auto
  with 3 show ?case by simp
qed auto

lemma val_ok_Join: "list_ok xs \<Longrightarrow> xs \<noteq> [] \<Longrightarrow> val_ok (Join xs '', '') \<and> Join xs '', '' \<noteq> []"
proof -
  assume l: "list_ok xs" and ne: "xs \<noteq> []"
  have x: "x \<noteq> [] \<and> val_ok x" if "x \<in> set xs" for x
    using l that by (auto simp: list_ok_def item_ok_def list_all_iff)
  have "trimmed (Join xs '', '')"
    using x [of "hd xs"] x [of "last xs"] hd_Join [OF ne, of "'', ''"] last_Join [OF ne, of "'', ''"] x ne
    by (auto simp: trimmed_def val_ok_def)
  moreover have "list_all (\<lambda>c. c \<noteq> CHR 0x0A) (Join xs '', '')"
    unfolding list_all_iff
  proof
    fix c assume "c \<in> set (Join xs '', '')"
    from set_Join [OF this] show "c \<noteq> CHR 0x0A"
      using x list_all_val by fastforce
  qed
  moreover have "blank_free (Join xs '', '')" if "\<forall>x\<in>set xs. x \<noteq> [] \<and> val_ok x" using ne that
  proof (induction xs rule: induct_list012)
    case (3 y z zs)
    have "Join (z # zs) '', '' \<noteq> []" using 3 by (intro Join_nonempty) auto
    then show ?case using blank_free_join [of y "Join (z # zs) '', ''" "'', ''"] 3 by (simp add: val_ok_def)
  qed (simp_all add: val_ok_def)
  ultimately show ?thesis
    using l Join_nonempty [OF ne] x ne by (simp add: val_ok_def list_ok_def)
qed

text \<open>Hooks: one line for each command.\<close>

definition hook_ok :: "string \<Rightarrow> bool" where
  "hook_ok h \<longleftrightarrow> h = [] \<or> list_all (\<lambda>l. l \<noteq> [] \<and> val_ok l) (split_on CHR 0x0A h)"

lemma writeHooks_ok: "hook_ok h \<Longrightarrow> writeHooks key h = (if h = [] then [] else map (kv key) (split_on CHR 0x0A h))"
proof -
  assume h: "hook_ok h"
  have "map TrimSpace (split_on CHR 0x0A h) = split_on CHR 0x0A h" if "h \<noteq> []"
    using h that by (intro map_idI val_ok_TrimSpace) (simp add: hook_ok_def list_all_iff)
  moreover have "filter (\<lambda>l. l \<noteq> []) (split_on CHR 0x0A h) = split_on CHR 0x0A h" if "h \<noteq> []"
    using h that by (simp add: hook_ok_def list_all_iff filter_id_conv)
  ultimately show ?thesis by (simp add: writeHooks_def)
qed

lemma foldl_joinHook: "p \<noteq> [] \<Longrightarrow> foldl joinHook p ls = Join (p # ls) [CHR 0x0A]"
proof (induction ls arbitrary: p)
  case (Cons l ls)
  then have "foldl joinHook (joinHook p l) ls = Join (joinHook p l # ls) [CHR 0x0A]"
    by (intro Cons.IH) (simp add: joinHook_def)
  moreover have "joinHook p l = p @ [CHR 0x0A] @ l" using Cons.prems by (simp add: joinHook_def)
  ultimately show ?case by (cases ls) simp_all
qed simp

lemma foldl_joinHook_split:
  "hook_ok h \<Longrightarrow> h \<noteq> [] \<Longrightarrow> foldl joinHook [] (split_on CHR 0x0A h) = h"
proof -
  assume h: "hook_ok h" "h \<noteq> []"
  obtain l ls where l: "split_on CHR 0x0A h = l # ls" by (meson list.exhaust split_on_nonempty)
  with h have "l \<noteq> []" by (simp add: hook_ok_def)
  then show ?thesis using foldl_joinHook [of l ls] l Join_split_on [of "CHR 0x0A" h]
    by (simp add: joinHook_def)
qed

lemma reads_hook:
  assumes "key_ok k" "\<And>i v. applyInterface i k v = Some (upd (joinHook (get i) v) i)"
    "\<And>i v. get (upd v i) = v" "\<And>i u v. upd v (upd u i) = upd v i" "upd (get i) i = i"
    "list_all (\<lambda>l. l \<noteq> [] \<and> val_ok l) ls"
  shows "reads (in_iface i []) (map (kv k) ls) (in_iface (upd (foldl joinHook (get i) ls) i) [])"
  using assms(6,5)
proof (induction ls arbitrary: i)
  case Nil
  then show ?case by (simp add: reads_Nil)
next
  case (Cons l ls)
  have "reads (in_iface i []) [kv k l] (in_iface (upd (joinHook (get i) l) i) [])"
    using Cons.prems assms(1,2) by (intro reads_iface_kv) simp_all
  moreover have "reads (in_iface (upd (joinHook (get i) l) i) []) (map (kv k) ls)
      (in_iface (upd (foldl joinHook (joinHook (get i) l) ls) i) [])"
    using Cons.IH [of "upd (joinHook (get i) l) i"] Cons.prems assms(3,4) by simp
  ultimately show ?case by (simp add: reads_Cons)
qed

lemma reads_hook_fields:
  "hook_ok h \<Longrightarrow> ci_PreUp i = [] \<Longrightarrow> reads (in_iface i []) (writeHooks ''PreUp'' h) (in_iface (i\<lparr>ci_PreUp := h\<rparr>) [])"
  "hook_ok h \<Longrightarrow> ci_PostUp i = [] \<Longrightarrow> reads (in_iface i []) (writeHooks ''PostUp'' h) (in_iface (i\<lparr>ci_PostUp := h\<rparr>) [])"
  "hook_ok h \<Longrightarrow> ci_PreDown i = [] \<Longrightarrow> reads (in_iface i []) (writeHooks ''PreDown'' h) (in_iface (i\<lparr>ci_PreDown := h\<rparr>) [])"
  "hook_ok h \<Longrightarrow> ci_PostDown i = [] \<Longrightarrow> reads (in_iface i []) (writeHooks ''PostDown'' h) (in_iface (i\<lparr>ci_PostDown := h\<rparr>) [])"
proof -
  assume h: "hook_ok h"
  have ls: "h \<noteq> [] \<Longrightarrow> list_all (\<lambda>l. l \<noteq> [] \<and> val_ok l) (split_on CHR 0x0A h)"
    using h by (simp add: hook_ok_def)
  have "writeHooks k [] = []" for k by (simp add: writeHooks_def)
  note e = this writeHooks_ok [OF h] foldl_joinHook_split [OF h] reads_Nil
  show "ci_PreUp i = [] \<Longrightarrow> reads (in_iface i []) (writeHooks ''PreUp'' h) (in_iface (i\<lparr>ci_PreUp := h\<rparr>) [])"
    using reads_hook [where k = "''PreUp''" and get = ci_PreUp and upd = "\<lambda>v i. i\<lparr>ci_PreUp := v\<rparr>" and i = i, OF _ _ _ _ _ ls]
    by (cases "h = []") (simp_all add: e key_oks apply_simps iface_same)
  show "ci_PostUp i = [] \<Longrightarrow> reads (in_iface i []) (writeHooks ''PostUp'' h) (in_iface (i\<lparr>ci_PostUp := h\<rparr>) [])"
    using reads_hook [where k = "''PostUp''" and get = ci_PostUp and upd = "\<lambda>v i. i\<lparr>ci_PostUp := v\<rparr>" and i = i, OF _ _ _ _ _ ls]
    by (cases "h = []") (simp_all add: e key_oks apply_simps iface_same)
  show "ci_PreDown i = [] \<Longrightarrow> reads (in_iface i []) (writeHooks ''PreDown'' h) (in_iface (i\<lparr>ci_PreDown := h\<rparr>) [])"
    using reads_hook [where k = "''PreDown''" and get = ci_PreDown and upd = "\<lambda>v i. i\<lparr>ci_PreDown := v\<rparr>" and i = i, OF _ _ _ _ _ ls]
    by (cases "h = []") (simp_all add: e key_oks apply_simps iface_same)
  show "ci_PostDown i = [] \<Longrightarrow> reads (in_iface i []) (writeHooks ''PostDown'' h) (in_iface (i\<lparr>ci_PostDown := h\<rparr>) [])"
    using reads_hook [where k = "''PostDown''" and get = ci_PostDown and upd = "\<lambda>v i. i\<lparr>ci_PostDown := v\<rparr>" and i = i, OF _ _ _ _ _ ls]
    by (cases "h = []") (simp_all add: e key_oks apply_simps iface_same)
qed

lemma reads_csv_field:
  "list_ok xs \<Longrightarrow> ci_DNS i = [] \<Longrightarrow>
    reads (in_iface i []) (opt_line (length xs > 0) (kv ''DNS'' (Join xs '', ''))) (in_iface (i\<lparr>ci_DNS := xs\<rparr>) [])"
  by (rule reads_opt) (auto simp: key_oks apply_simps iface_same val_ok_Join splitCSV_Join list_ok_def)

lemma reads_save_config:
  "\<not> ci_SaveConfig i \<Longrightarrow>
    reads (in_iface i []) (opt_line b ''SaveConfig = true'') (in_iface (i\<lparr>ci_SaveConfig := b\<rparr>) [])"
  using reads_opt [of "''SaveConfig''" b "''true''" i "i\<lparr>ci_SaveConfig := b\<rparr>"]
  by (simp add: key_oks apply_simps iface_same kv_def val_ok_def trimmed_def is_space_def)

lemma reads_addresses0:
  "list_all item_ok as \<Longrightarrow>
    reads (in_iface i []) (map (kv ''Address'') as) (in_iface (i\<lparr>ci_Address := ci_Address i @ as\<rparr>) [])"
proof (induction as arbitrary: i)
  case Nil
  then show ?case by (simp add: reads_Nil)
next
  case (Cons a as)
  then have "splitCSV a = [a]" using splitCSV_Join [of "[a]"] by simp
  then have "reads (in_iface i []) [kv ''Address'' a] (in_iface (i\<lparr>ci_Address := ci_Address i @ [a]\<rparr>) [])"
    using Cons.prems item_okD [of a] by (intro reads_iface_kv) (simp_all add: key_oks apply_simps)
  with Cons show ?case using Cons.IH [of "i\<lparr>ci_Address := ci_Address i @ [a]\<rparr>"] by (simp add: reads_Cons)
qed

text \<open>The pending key comment reaches the interface with the first field that follows it.\<close>

lemma reads_addresses_port:
  assumes "list_all item_ok as" "in64 n" "0 < n \<or> n = 0 \<and> as \<noteq> []" "ci_Address i = []" "ci_ListenPort i = 0"
  shows "reads (in_iface i pend) (map (kv ''Address'') as @ opt_line (n > 0) (kv ''ListenPort'' (int_str n)))
    (in_iface ((applyCommentMetaIface pend i)\<lparr>ci_Address := as, ci_ListenPort := n\<rparr>) [])"
proof -
  let ?m = "applyCommentMetaIface pend i"
  have m: "ci_Address ?m = []" "ci_ListenPort ?m = 0"
    using assms(4,5) by (simp_all add: applyCommentMetaIface_def)
  let ?l = "opt_line (n > 0) (kv ''ListenPort'' (int_str n))"
  have port: "reads (in_iface j q) ?l (in_iface ((applyCommentMetaIface q j)\<lparr>ci_ListenPort := n\<rparr>) [])"
    if "0 < n \<or> n = 0 \<and> q = [] \<and> ci_ListenPort j = 0" for j q
  proof (cases "0 < n")
    case True
    then show ?thesis
      using val_ok_int_str [OF assms(2)] by (simp add: opt_line_def) (intro reads_iface_kv, simp_all add: key_oks apply_simps)
  qed (use that in \<open>simp add: opt_line_def reads_Nil iface_same\<close>)
  show ?thesis
  proof (cases as)
    case Nil
    then show ?thesis using port [of pend i] assms(3) m by (simp add: iface_same)
  next
    case (Cons a as')
    then have "splitCSV a = [a]" using splitCSV_Join [of "[a]"] assms(1) by simp
    then have "reads (in_iface i pend) [kv ''Address'' a] (in_iface (?m\<lparr>ci_Address := [a]\<rparr>) [])"
      using Cons assms(1) item_okD [of a] m by (intro reads_iface_kv) (simp_all add: key_oks apply_simps)
    moreover have "reads (in_iface (?m\<lparr>ci_Address := [a]\<rparr>) []) (map (kv ''Address'') as')
        (in_iface (?m\<lparr>ci_Address := as\<rparr>) [])"
      using reads_addresses0 [of as' "?m\<lparr>ci_Address := [a]\<rparr>"] Cons assms(1) by simp
    moreover have "reads (in_iface (?m\<lparr>ci_Address := as\<rparr>) []) ?l
        (in_iface (?m\<lparr>ci_Address := as, ci_ListenPort := n\<rparr>) [])"
      using port [of "[]" "?m\<lparr>ci_Address := as\<rparr>"] assms(3) m by auto
    ultimately have "reads (in_iface i pend)
        ([kv ''Address'' a] @ map (kv ''Address'') as' @ ?l)
        (in_iface (?m\<lparr>ci_Address := as, ci_ListenPort := n\<rparr>) [])"
      by (blast intro: reads_append)
    then show ?thesis using Cons by simp
  qed
qed

definition opt_upd :: "string \<Rightarrow> string \<Rightarrow> pending \<Rightarrow> pending" where
  "opt_upd k v m = (if v = [] then m else AList.update k v m)"

lemma map_of_opt_upd [simp]:
  "map_of (opt_upd k v m) k' = (if k' = k \<and> v \<noteq> [] then Some v else map_of m k')"
  by (simp add: opt_upd_def update_conv')

lemma reads_meta:
  "key_ok k \<Longrightarrow> val_ok v \<Longrightarrow>
    reads s (opt_line (v \<noteq> []) (cm k v)) (s\<lparr>st_pending := opt_upd (ToLower k) v (st_pending s)\<rparr>)"
  using reads_cm [of k v s] by (simp add: opt_upd_def cong: if_cong)

lemma reads_iface_meta:
  "key_ok k \<Longrightarrow> val_ok v \<Longrightarrow>
    reads (in_iface i m) (opt_line (v \<noteq> []) (cm k v)) (in_iface i (opt_upd (ToLower k) v m))"
  using reads_meta [of k v "in_iface i m"] by (simp add: in_iface_def)

section \<open>Configurations that survive\<close>

text \<open>What the daemon writes: values without newlines and blanks at their ends, and a listen port.\<close>

definition iface_ok :: "InterfaceSection \<Rightarrow> bool" where
  "iface_ok i \<longleftrightarrow>
     list_all val_ok [ci_PrivateKey i, ci_PublicKeyComment i, ci_Table i, ci_H1 i, ci_H2 i, ci_H3 i, ci_H4 i,
       ci_I1 i, ci_I2 i, ci_I3 i, ci_I4 i, ci_I5 i, ci_PeerDNS i, ci_PeerEndpoint i, ci_Backend i,
       ci_Protocol i, ci_PairName i]
     \<and> list_all in64 [ci_ListenPort i, ci_MTU i, ci_FwMark i, ci_Jc i, ci_Jmin i, ci_Jmax i,
       ci_S1 i, ci_S2 i, ci_S3 i, ci_S4 i]
     \<and> (0 < ci_ListenPort i \<or> ci_ListenPort i = 0 \<and> ci_Address i \<noteq> []) \<and> 0 \<le> ci_MTU i \<and> 0 \<le> ci_FwMark i
     \<and> list_all item_ok (ci_Address i) \<and> list_ok (ci_DNS i)
     \<and> list_all hook_ok [ci_PreUp i, ci_PostUp i, ci_PreDown i, ci_PostDown i]"

text \<open>The comments at the end of the interface section, and the interface without them.\<close>

definition trailing :: "InterfaceSection \<Rightarrow> pending" where
  "trailing i = opt_upd ''pairname'' (ci_PairName i) (opt_upd ''protocol'' (ci_Protocol i)
     (opt_upd ''backend'' (ci_Backend i) (opt_upd ''peerendpoint'' (ci_PeerEndpoint i)
     (opt_upd ''peerdns'' (ci_PeerDNS i) []))))"

definition without_trailing :: "InterfaceSection \<Rightarrow> InterfaceSection" where
  "without_trailing i = i\<lparr>ci_PeerDNS := [], ci_PeerEndpoint := [], ci_Backend := [], ci_Protocol := [],
     ci_PairName := []\<rparr>"

lemma trailing_apply: "applyCommentMetaIface (trailing i) (without_trailing i) = i"
  by (cases i) (simp add: applyCommentMetaIface_def without_trailing_def trailing_def meta_def)

lemma TrimSpace_header: "TrimSpace header_comment = header_comment"
  by (rule TrimSpace_trimmed) (simp add: trimmed_def header_comment_def is_space_def)

lemma header_no_equals: "CHR ''='' \<notin> set (TrimSpace (TrimPrefix (TrimPrefix header_comment ''#'') '';''))"
  using set_TrimSpace [of "TrimPrefix (TrimPrefix header_comment ''#'') '';''"]
  by (auto simp: header_comment_def TrimPrefix_def)

lemma reads_header: "reads start_state [header_comment, ''[Interface]''] (in_iface zero_iface_section [])"
proof -
  have "parse_line n header_comment start_state = Inr start_state" for n
    using header_no_equals TrimSpace_header
    by (simp add: parse_line_def parse_comment_def Let_def Cut_none) (simp add: header_comment_def)
  then have "reads start_state [header_comment] start_state"
    by (intro reads_one) (simp_all add: header_comment_def)
  moreover have "TrimSpace ''[Interface]'' = ''[Interface]''" "ToLower ''[Interface]'' = ''[interface]''"
    by code_simp+
  then have "parse_line n ''[Interface]'' start_state = Inr (in_iface zero_iface_section [])" for n
    by (simp add: parse_line_def start_state_def flushPeer_def in_iface_def)
  then have "reads start_state [''[Interface]''] (in_iface zero_iface_section [])"
    by (intro reads_one) simp_all
  ultimately show ?thesis by (rule reads_Cons)
qed

lemma reads_eq: "reads s ls t \<Longrightarrow> t = t' \<Longrightarrow> reads s ls t'"
  by simp

lemma reads_append2: "reads s (a @ b) t \<Longrightarrow> reads t c u \<Longrightarrow> reads s (a @ b @ c) u"
  using reads_append [of s "a @ b" t c u] by simp

lemma reads_iface:
  assumes "iface_ok i"
  shows "reads start_state (iface_lines i) (in_iface (without_trailing i) (trailing i))"
proof -
  note ok = assms [unfolded iface_ok_def, simplified]
  note fields = key_oks zero_iface_section_def applyCommentMetaIface_def
  show ?thesis
    unfolding iface_lines_def
    apply (rule reads_eq,
      rule reads_append [OF reads_header],
      rule reads_append, rule reads_str_fields(1),
      (simp_all add: ok fields)[2],
      rule reads_append, rule reads_iface_meta [where k = "''PublicKey''"],
      (simp_all add: ok fields)[2],
      rule reads_append2, rule reads_addresses_port,
      (simp_all add: ok fields)[5],
      rule reads_append, rule reads_csv_field,
      (simp_all add: ok fields)[2],
      rule reads_append, rule reads_int_fields(1),
      (simp_all add: ok fields)[3],
      rule reads_append, rule reads_str_fields(2),
      (simp_all add: ok fields)[2],
      rule reads_append, rule reads_int_fields(2),
      (simp_all add: ok fields)[3],
      rule reads_append, rule reads_hook_fields(1),
      (simp_all add: ok fields)[2],
      rule reads_append, rule reads_hook_fields(2),
      (simp_all add: ok fields)[2],
      rule reads_append, rule reads_hook_fields(3),
      (simp_all add: ok fields)[2],
      rule reads_append, rule reads_hook_fields(4),
      (simp_all add: ok fields)[2],
      rule reads_append, rule reads_save_config,
      (simp_all add: ok fields)[1],
      rule reads_append, rule reads_int_fields(3),
      (simp_all add: ok fields)[2],
      rule reads_append, rule reads_int_fields(4),
      (simp_all add: ok fields)[2],
      rule reads_append, rule reads_int_fields(5),
      (simp_all add: ok fields)[2],
      rule reads_append, rule reads_int_fields(6),
      (simp_all add: ok fields)[2],
      rule reads_append, rule reads_int_fields(7),
      (simp_all add: ok fields)[2],
      rule reads_append, rule reads_int_fields(8),
      (simp_all add: ok fields)[2],
      rule reads_append, rule reads_int_fields(9),
      (simp_all add: ok fields)[2],
      rule reads_append, rule reads_str_fields(3) [folded writeAmneziaStr_def],
      (simp_all add: ok fields)[2],
      rule reads_append, rule reads_str_fields(4) [folded writeAmneziaStr_def],
      (simp_all add: ok fields)[2],
      rule reads_append, rule reads_str_fields(5) [folded writeAmneziaStr_def],
      (simp_all add: ok fields)[2],
      rule reads_append, rule reads_str_fields(6) [folded writeAmneziaStr_def],
      (simp_all add: ok fields)[2],
      rule reads_append, rule reads_str_fields(7) [folded writeAmneziaStr_def],
      (simp_all add: ok fields)[2],
      rule reads_append, rule reads_str_fields(8) [folded writeAmneziaStr_def],
      (simp_all add: ok fields)[2],
      rule reads_append, rule reads_str_fields(9) [folded writeAmneziaStr_def],
      (simp_all add: ok fields)[2],
      rule reads_append, rule reads_str_fields(10) [folded writeAmneziaStr_def],
      (simp_all add: ok fields)[2],
      rule reads_append, rule reads_str_fields(11) [folded writeAmneziaStr_def],
      (simp_all add: ok fields)[2],
      rule reads_append, rule reads_iface_meta [where k = "''PeerDNS''"],
      (simp_all add: ok fields)[2],
      rule reads_append, rule reads_iface_meta [where k = "''PeerEndpoint''"],
      (simp_all add: ok fields)[2],
      rule reads_append, rule reads_iface_meta [where k = "''Backend''"],
      (simp_all add: ok fields)[2],
      rule reads_append, rule reads_iface_meta [where k = "''Protocol''"],
      (simp_all add: ok fields)[2],
      rule reads_iface_meta [where k = "''PairName''"],
      (simp_all add: ok fields)[2])
    by (cases i) (simp add: without_trailing_def trailing_def fields meta_def)
qed

definition peer_ok :: "PeerSection \<Rightarrow> bool" where
  "peer_ok p \<longleftrightarrow>
     list_all val_ok [cp_PublicKey p, cp_PresharedKey p, cp_Endpoint p, cp_Name p, cp_Address p, cp_DNS p,
       cp_ClientAllowedIPs p, cp_ExpiresAt p, cp_Notes p]
     \<and> cp_PublicKey p \<noteq> [] \<and> list_ok (cp_AllowedIPs p)
     \<and> in64 (cp_PersistentKeepalive p) \<and> 0 \<le> cp_PersistentKeepalive p
     \<and> in64 (cp_TrafficLimit p) \<and> 0 \<le> cp_TrafficLimit p"

definition in_peer :: "InterfaceSection \<Rightarrow> PeerSection list \<Rightarrow> PeerSection \<Rightarrow> pstate" where
  "in_peer i acc p = \<lparr>st_iface = i, st_peers = acc, st_section = InPeer, st_peer = Some p,
     st_pending = []\<rparr>"

lemma reads_peer_opt:
  assumes "key_ok k" "b \<Longrightarrow> val_ok v \<and> v \<noteq> [] \<and> applyPeer p k v = Some p'" "\<not> b \<Longrightarrow> p' = p"
  shows "reads (in_peer i acc p) (opt_line b (kv k v)) (in_peer i acc p')"
proof (cases b)
  case True
  with assms have "parse_field n k v (in_peer i acc p) = Inr (in_peer i acc p')" for n
    by (simp add: parse_field_def in_peer_def)
  with True assms show ?thesis by (simp add: opt_line_def reads_kv)
qed (use assms in \<open>simp add: opt_line_def reads_Nil\<close>)

definition no_peer_keys :: "pending \<Rightarrow> bool" where
  "no_peer_keys m \<longleftrightarrow> list_all (\<lambda>k. map_of m k = None) [''name'', ''address'', ''dns'', ''clientallowedips'',
     ''notes'', ''trafficlimit'', ''expiresat'']"

text \<open>The comments above \<open>[Peer]\<close> join those pending already.\<close>

definition peer_meta :: "PeerSection \<Rightarrow> pending \<Rightarrow> pending" where
  "peer_meta p m = opt_upd ''notes'' (cp_Notes p) (opt_upd ''expiresat'' (cp_ExpiresAt p)
     (opt_upd ''trafficlimit'' (if cp_TrafficLimit p > 0 then int_str (cp_TrafficLimit p) else [])
     (opt_upd ''clientallowedips'' (cp_ClientAllowedIPs p) (opt_upd ''dns'' (cp_DNS p)
     (opt_upd ''address'' (cp_Address p) (opt_upd ''name'' (cp_Name p) m))))))"

definition peer_comments :: "PeerSection \<Rightarrow> PeerSection" where
  "peer_comments p = p\<lparr>cp_PublicKey := [], cp_PresharedKey := [], cp_AllowedIPs := [], cp_Endpoint := [],
     cp_PersistentKeepalive := 0\<rparr>"

lemma peer_meta_apply:
  assumes "peer_ok p" "no_peer_keys m"
  shows "applyCommentMetaPeer (peer_meta p m) zero_peer_section = peer_comments p"
  using assms Atoi_int_str_in64 [of "cp_TrafficLimit p"] val_ok_int_str [of "cp_TrafficLimit p"]
  by (cases p) (simp add: applyCommentMetaPeer_def peer_meta_def meta_def no_peer_keys_def
      zero_peer_section_def peer_comments_def peer_ok_def)

lemma parse_peer_header:
  "parse_line n ''[Peer]'' s = Inr ((flushPeer s)\<lparr>
     st_peer := Some (applyCommentMetaPeer (st_pending s) zero_peer_section), st_pending := [],
     st_section := InPeer\<rparr>)"
proof -
  have "TrimSpace ''[Peer]'' = ''[Peer]''" "ToLower ''[Peer]'' = ''[peer]''" by code_simp+
  then show ?thesis by (simp add: parse_line_def flushPeer_def split: option.splits)
qed

lemma reads_peer_comments:
  assumes "peer_ok p"
  shows "reads s ([[]]
     @ opt_line (cp_Name p \<noteq> []) (cm ''Name'' (cp_Name p))
     @ opt_line (cp_Address p \<noteq> []) (cm ''Address'' (cp_Address p))
     @ opt_line (cp_DNS p \<noteq> []) (cm ''DNS'' (cp_DNS p))
     @ opt_line (cp_ClientAllowedIPs p \<noteq> []) (cm ''ClientAllowedIPs'' (cp_ClientAllowedIPs p))
     @ opt_line (cp_TrafficLimit p > 0) (cm ''TrafficLimit'' (int_str (cp_TrafficLimit p)))
     @ opt_line (cp_ExpiresAt p \<noteq> []) (cm ''ExpiresAt'' (cp_ExpiresAt p))
     @ opt_line (cp_Notes p \<noteq> [])
         (cm ''Notes'' (map (\<lambda>c. if c = CHR 0x0A then CHR '' '' else c) (cp_Notes p))))
    (s\<lparr>st_pending := peer_meta p (st_pending s)\<rparr>)"
proof -
  note ok = assms [unfolded peer_ok_def, simplified]
  let ?t = "if cp_TrafficLimit p > 0 then int_str (cp_TrafficLimit p) else []"
  have "val_ok []" by (simp add: val_ok_def trimmed_def)
  then have t: "val_ok ?t" using ok val_ok_int_str [of "cp_TrafficLimit p"] by simp
  have tl: "opt_line (cp_TrafficLimit p > 0) (cm ''TrafficLimit'' (int_str (cp_TrafficLimit p)))
      = opt_line (?t \<noteq> []) (cm ''TrafficLimit'' ?t)"
    using val_ok_int_str [of "cp_TrafficLimit p"] ok by (simp add: opt_line_def)
  have n: "map (\<lambda>c. if c = CHR 0x0A then CHR '' '' else c) (cp_Notes p) = cp_Notes p"
    using ok list_all_val [of "cp_Notes p"] by (intro map_idI) auto
  have blank: "reads s [[]] s" by (rule reads_one) (simp_all add: parse_line_def)
  show ?thesis
    unfolding tl n
    by (rule reads_eq, rule reads_append [OF blank],
      rule reads_append, rule reads_meta, (simp_all add: ok key_oks)[2],
      rule reads_append, rule reads_meta, (simp_all add: ok key_oks)[2],
      rule reads_append, rule reads_meta, (simp_all add: ok key_oks)[2],
      rule reads_append, rule reads_meta, (simp_all add: ok key_oks)[2],
      rule reads_append, rule reads_meta, (simp_all only: key_oks t)[2],
      rule reads_append, rule reads_meta, (simp_all add: ok key_oks)[2],
      rule reads_meta, (simp_all add: ok key_oks)[2])
      (simp add: peer_meta_def)
qed

lemma reads_peer:
  assumes "peer_ok p" "no_peer_keys (st_pending s)"
  shows "reads s (peer_lines p) (in_peer (st_iface s) (st_peers (flushPeer s)) p)"
proof -
  note ok = assms(1) [unfolded peer_ok_def, simplified]
  have hd: "reads (s\<lparr>st_pending := peer_meta p (st_pending s)\<rparr>) [''[Peer]'']
      (in_peer (st_iface s) (st_peers (flushPeer s)) (peer_comments p))"
    by (rule reads_one)
      (simp_all add: parse_peer_header peer_meta_apply assms flushPeer_def in_peer_def split: option.split)
  note fields = key_oks apply_peer_simps peer_same val_ok_Join splitCSV_Join list_ok_def val_ok_int_str
  let ?I = "st_iface s" and ?A = "st_peers (flushPeer s)" and ?p = "peer_comments p"
  have k: "reads (in_peer ?I ?A q) [kv ''PublicKey'' (cp_PublicKey p)] (in_peer ?I ?A (q\<lparr>cp_PublicKey := cp_PublicKey p\<rparr>))" for q
    using reads_peer_opt [of "''PublicKey''" True "cp_PublicKey p" q "q\<lparr>cp_PublicKey := cp_PublicKey p\<rparr>"] ok
    by (simp add: fields opt_line_def)
  have ps: "cp_PresharedKey q = [] \<Longrightarrow> reads (in_peer ?I ?A q) (opt_line (cp_PresharedKey p \<noteq> []) (kv ''PresharedKey'' (cp_PresharedKey p)))
      (in_peer ?I ?A (q\<lparr>cp_PresharedKey := cp_PresharedKey p\<rparr>))" for q
    by (rule reads_peer_opt) (simp_all add: fields ok)
  have al: "cp_AllowedIPs q = [] \<Longrightarrow> reads (in_peer ?I ?A q) (opt_line (length (cp_AllowedIPs p) > 0) (kv ''AllowedIPs'' (Join (cp_AllowedIPs p) '', '')))
      (in_peer ?I ?A (q\<lparr>cp_AllowedIPs := cp_AllowedIPs p\<rparr>))" for q
    using ok by (intro reads_peer_opt) (auto simp: fields)
  have ep: "cp_Endpoint q = [] \<Longrightarrow> reads (in_peer ?I ?A q) (opt_line (cp_Endpoint p \<noteq> []) (kv ''Endpoint'' (cp_Endpoint p)))
      (in_peer ?I ?A (q\<lparr>cp_Endpoint := cp_Endpoint p\<rparr>))" for q
    by (rule reads_peer_opt) (simp_all add: fields ok)
  have ka: "cp_PersistentKeepalive q = 0 \<Longrightarrow> reads (in_peer ?I ?A q)
      (opt_line (cp_PersistentKeepalive p > 0) (kv ''PersistentKeepalive'' (int_str (cp_PersistentKeepalive p))))
      (in_peer ?I ?A (q\<lparr>cp_PersistentKeepalive := cp_PersistentKeepalive p\<rparr>))" for q
    using ok by (intro reads_peer_opt) (auto simp: fields)
  have body: "reads (in_peer ?I ?A ?p) ([kv ''PublicKey'' (cp_PublicKey p)]
     @ opt_line (cp_PresharedKey p \<noteq> []) (kv ''PresharedKey'' (cp_PresharedKey p))
     @ opt_line (length (cp_AllowedIPs p) > 0) (kv ''AllowedIPs'' (Join (cp_AllowedIPs p) '', ''))
     @ opt_line (cp_Endpoint p \<noteq> []) (kv ''Endpoint'' (cp_Endpoint p))
     @ opt_line (cp_PersistentKeepalive p > 0) (kv ''PersistentKeepalive'' (int_str (cp_PersistentKeepalive p))))
    (in_peer ?I ?A p)"
    by (rule reads_eq, rule reads_append [OF k], rule reads_append [OF ps], simp add: peer_comments_def,
        rule reads_append [OF al], simp add: peer_comments_def,
        rule reads_append [OF ep], simp add: peer_comments_def, rule ka, simp add: peer_comments_def)
      (cases p, simp add: peer_comments_def)
  show ?thesis
    using reads_append [OF reads_peer_comments [OF assms(1), of s] reads_append [OF hd body]]
    by (simp add: peer_lines_def)
qed

lemma reads_peers:
  "list_all peer_ok ps \<Longrightarrow>
    reads (in_peer i acc p) (concat (map peer_lines ps)) (in_peer i (acc @ butlast (p # ps)) (last (p # ps)))"
proof (induction ps arbitrary: acc p)
  case Nil
  then show ?case by (simp add: reads_Nil)
next
  case (Cons q qs)
  have "reads (in_peer i acc p) (peer_lines q) (in_peer i (acc @ [p]) q)"
    using reads_peer [of q "in_peer i acc p"] Cons.prems
    by (simp add: in_peer_def no_peer_keys_def flushPeer_def)
  moreover have "reads (in_peer i (acc @ [p]) q) (concat (map peer_lines qs))
      (in_peer i ((acc @ [p]) @ butlast (q # qs)) (last (q # qs)))"
    using Cons.prems by (intro Cons.IH) simp
  ultimately have "reads (in_peer i acc p) (peer_lines q @ concat (map peer_lines qs))
      (in_peer i ((acc @ [p]) @ butlast (q # qs)) (last (q # qs)))"
    by (rule reads_append)
  then show ?case by simp
qed

section \<open>The round trip\<close>

text \<open>
  What the renderer loses of a configuration anyway: it trims the commands of the hooks and leaves out empty ones, and it
  writes notes of several lines on one.  A configuration survives when everything else of it fits on its line.
\<close>

definition tidy_hook :: "string \<Rightarrow> string" where
  "tidy_hook h = Join (filter (\<lambda>l. l \<noteq> []) (map TrimSpace (split_on CHR 0x0A h))) [CHR 0x0A]"

definition tidy_hooks :: "InterfaceSection \<Rightarrow> InterfaceSection" where
  "tidy_hooks i = i\<lparr>ci_PreUp := tidy_hook (ci_PreUp i), ci_PostUp := tidy_hook (ci_PostUp i),
     ci_PreDown := tidy_hook (ci_PreDown i), ci_PostDown := tidy_hook (ci_PostDown i)\<rparr>"

definition flat_notes :: "PeerSection \<Rightarrow> PeerSection" where
  "flat_notes p = p\<lparr>cp_Notes := map (\<lambda>c. if c = CHR 0x0A then CHR '' '' else c) (cp_Notes p)\<rparr>"

definition tidy :: "Config \<Rightarrow> Config" where
  "tidy cfg = \<lparr>cf_Interface = tidy_hooks (cf_Interface cfg), cf_Peers = map flat_notes (cf_Peers cfg)\<rparr>"

definition conf_ok :: "Config \<Rightarrow> bool" where
  "conf_ok cfg \<longleftrightarrow> iface_ok (tidy_hooks (cf_Interface cfg)) \<and> list_all peer_ok (map flat_notes (cf_Peers cfg))"

lemma writeHooks_tidy: "writeHooks key (tidy_hook h) = writeHooks key h"
proof -
  let ?ls = "filter (\<lambda>l. l \<noteq> []) (map TrimSpace (split_on CHR 0x0A h))"
  show ?thesis
  proof (cases "?ls = []")
    case True
    then show ?thesis unfolding writeHooks_def tidy_hook_def True by simp
  next
    case False
    have nl: "\<forall>l\<in>set ?ls. CHR 0x0A \<notin> set l"
      using split_on_members [of _ "CHR 0x0A" h] set_TrimSpace by fastforce
    have ne: "tidy_hook h \<noteq> []" unfolding tidy_hook_def
      using False by (intro Join_nonempty) (use list.set_sel(1) [OF False] in auto)
    have h: "h \<noteq> []" using False by (cases h) auto
    have s: "split_on CHR 0x0A (tidy_hook h) = ?ls" unfolding tidy_hook_def by (rule split_on_Join [OF False nl])
    have t: "map TrimSpace ?ls = ?ls" by (rule map_idI) auto
    show ?thesis unfolding writeHooks_def if_not_P [OF ne] if_not_P [OF h] s t by simp
  qed
qed

lemma Render_tidy: "Render (tidy cfg) = Render cfg"
proof -
  have "iface_lines (tidy_hooks i) = iface_lines i" for i
    by (simp add: iface_lines_def tidy_hooks_def writeHooks_tidy)
  moreover have "peer_lines (flat_notes p) = peer_lines p" for p
    by (simp add: peer_lines_def flat_notes_def comp_def if_distrib [of "\<lambda>c. if c = _ then _ else c"] cong: map_cong if_cong)
  ultimately show ?thesis by (simp add: Render_def tidy_def comp_def)
qed

lemma no_newline: "val_ok v \<Longrightarrow> CHR 0x0A \<notin> set v"
  using list_all_val by blast

lemma split_lines:
  "\<forall>l\<in>set ls. CHR 0x0A \<notin> set l \<Longrightarrow> split_on CHR 0x0A (concat (map (\<lambda>l. l @ [CHR 0x0A]) ls)) = ls @ [[]]"
  by (induction ls) (simp_all add: split_on_append)

text \<open>No line that is written contains a newline.\<close>

definition no_nl :: "string \<Rightarrow> bool" where
  "no_nl l \<longleftrightarrow> CHR 0x0A \<notin> set l"

lemma no_nl_lines:
  "list_all no_nl (opt_line b x) \<longleftrightarrow> (b \<longrightarrow> no_nl x)"
  "no_nl (kv k v) \<longleftrightarrow> no_nl k \<and> no_nl v"
  "no_nl (cm k v) \<longleftrightarrow> no_nl k \<and> no_nl v"
  "val_ok v \<Longrightarrow> no_nl v"
  "list_all no_nl (writeAmneziaInt k n) \<longleftrightarrow> (n \<noteq> 0 \<longrightarrow> no_nl k)"
  "val_ok v \<Longrightarrow> no_nl k \<Longrightarrow> list_all no_nl (writeAmneziaStr k v)"
  "no_nl (int_str m)"
  using no_newline nat_str_notin [of "CHR 0x0A"]
  by (auto simp: opt_line_def no_nl_def kv_def cm_def writeAmneziaInt_def writeAmneziaStr_def int_str_def)

lemma no_nl_list: "list_ok xs \<Longrightarrow> xs \<noteq> [] \<Longrightarrow> no_nl (Join xs '', '')"
  using val_ok_Join no_nl_lines(4) by blast

lemma no_nl_hooks: "hook_ok h \<Longrightarrow> no_nl k \<Longrightarrow> list_all no_nl (writeHooks k h)"
  using split_on_members [of _ "CHR 0x0A" h]
  by (auto simp: writeHooks_ok list_all_iff no_nl_lines(2)) (auto simp: no_nl_def)

lemma no_nl_addresses: "list_all item_ok as \<Longrightarrow> no_nl k \<Longrightarrow> list_all no_nl (map (kv k) as)"
  using item_okD by (auto simp: list_all_iff no_nl_lines(2,4))

lemma no_nl_literals:
  "no_nl header_comment" "no_nl ''[Interface]''" "no_nl ''SaveConfig = true''" "no_nl []" "no_nl ''[Peer]''"
  by (simp_all add: no_nl_def header_comment_def)

lemma no_nl_keys:
  "no_nl ''PrivateKey''"
  "no_nl ''PublicKey''"
  "no_nl ''Address''"
  "no_nl ''ListenPort''"
  "no_nl ''DNS''"
  "no_nl ''MTU''"
  "no_nl ''Table''"
  "no_nl ''FwMark''"
  "no_nl ''PreUp''"
  "no_nl ''PostUp''"
  "no_nl ''PreDown''"
  "no_nl ''PostDown''"
  "no_nl ''SaveConfig''"
  "no_nl ''Jc''"
  "no_nl ''Jmin''"
  "no_nl ''Jmax''"
  "no_nl ''S1''"
  "no_nl ''S2''"
  "no_nl ''S3''"
  "no_nl ''S4''"
  "no_nl ''H1''"
  "no_nl ''H2''"
  "no_nl ''H3''"
  "no_nl ''H4''"
  "no_nl ''I1''"
  "no_nl ''I2''"
  "no_nl ''I3''"
  "no_nl ''I4''"
  "no_nl ''I5''"
  "no_nl ''PeerDNS''"
  "no_nl ''PeerEndpoint''"
  "no_nl ''Backend''"
  "no_nl ''Protocol''"
  "no_nl ''PairName''"
  "no_nl ''Name''"
  "no_nl ''ClientAllowedIPs''"
  "no_nl ''TrafficLimit''"
  "no_nl ''ExpiresAt''"
  "no_nl ''Notes''"
  "no_nl ''PresharedKey''"
  "no_nl ''AllowedIPs''"
  "no_nl ''Endpoint''"
  "no_nl ''PersistentKeepalive''"
  by (simp_all add: no_nl_def)

lemma iface_lines_no_newline: "iface_ok i \<Longrightarrow> list_all no_nl (iface_lines i)"
  unfolding iface_lines_def
  by (simp add: iface_ok_def no_nl_lines no_nl_list no_nl_hooks no_nl_addresses no_nl_literals no_nl_keys)

lemma peer_lines_no_newline: "peer_ok p \<Longrightarrow> list_all no_nl (peer_lines p)"
  unfolding peer_lines_def
  by (simp add: peer_ok_def no_nl_lines no_nl_list no_nl_literals no_nl_keys) (auto simp: no_nl_def no_newline)

lemma parse_render_plain:
  assumes "iface_ok (cf_Interface cfg)" "list_all peer_ok (cf_Peers cfg)"
  shows "Parse (Render cfg) = Inr (if cf_Peers cfg = [] then cfg
    else cfg\<lparr>cf_Interface := without_trailing (cf_Interface cfg)\<rparr>)"
proof -
  let ?i = "cf_Interface cfg" and ?ps = "cf_Peers cfg"
  let ?ls = "iface_lines ?i @ concat (map peer_lines ?ps)"
  note i = assms(1) and ps = assms(2)
  have "\<forall>l\<in>set ?ls. CHR 0x0A \<notin> set l"
    using iface_lines_no_newline [OF i] peer_lines_no_newline ps by (auto simp: list_all_iff no_nl_def)
  then have lines: "split_on CHR 0x0A (Render cfg) = ?ls @ [[]]" unfolding Render_def by (rule split_lines)
  have last: "parse_lines n [[]] s = Inr s" for n s by (simp add: parse_line_def)
  note ri = reads_iface [OF i]
  show ?thesis
  proof (cases ?ps)
    case Nil
    have "parse_lines 0 (?ls @ [[]]) start_state = Inr (in_iface (without_trailing ?i) (trailing ?i))"
      using ri last Nil by (simp add: reads_def)
    moreover have "finish (in_iface (without_trailing ?i) (trailing ?i)) = cfg"
      using Nil trailing_apply [of ?i]
      by (cases "trailing ?i = []") (simp_all add: finish_def in_iface_def flushPeer_def Let_def)
    ultimately show ?thesis using Nil by (simp add: Parse_def lines)
  next
    case (Cons p ps')
    have "no_peer_keys (trailing ?i)" by (simp add: no_peer_keys_def trailing_def)
    with reads_peer [of p "in_iface (without_trailing ?i) (trailing ?i)"] ps Cons
    have "reads (in_iface (without_trailing ?i) (trailing ?i)) (peer_lines p)
        (in_peer (without_trailing ?i) [] p)"
      by (simp add: in_iface_def flushPeer_def)
    from reads_append [OF ri reads_append [OF this reads_peers [of ps' _ "[]" p]]] ps Cons
    have "reads start_state ?ls (in_peer (without_trailing ?i) (butlast ?ps) (last ?ps))" by simp
    then have "parse_lines 0 (?ls @ [[]]) start_state =
        Inr (in_peer (without_trailing ?i) (butlast ?ps) (last ?ps))"
      using last by (simp add: reads_def)
    moreover have "finish (in_peer (without_trailing ?i) (butlast ?ps) (last ?ps)) =
        cfg\<lparr>cf_Interface := without_trailing ?i\<rparr>"
      using Cons append_butlast_last_id [of ?ps]
      by (cases cfg) (simp add: finish_def in_peer_def flushPeer_def Let_def)
    ultimately show ?thesis using Cons by (simp add: Parse_def lines)
  qed
qed

lemma parse_render:
  assumes "conf_ok cfg"
  shows "Parse (Render cfg) = Inr (if cf_Peers cfg = [] then tidy cfg
    else (tidy cfg)\<lparr>cf_Interface := without_trailing (cf_Interface (tidy cfg))\<rparr>)"
  using parse_render_plain [of "tidy cfg"] assms by (simp add: Render_tidy) (simp add: tidy_def conf_ok_def)

text \<open>
  C6. Rendering a configuration and parsing the text back gives the configuration again, with every
  field, list, hook and peer comment, provided the following holds of it (\<open>conf_ok\<close>): every value is free of newlines,
  has no blank at its ends, ASCII or Unicode, and is shorter than 65000 bytes, and so are the joined lists; addresses and
  the items of lists are not empty and contain no comma; numbers are not negative and fit 64 bits; every peer has a public
  key; and the interface has a listen port or an address.  Names, comments and keys are otherwise any bytes.  What comes
  back differs from the configuration in three things: the commands of hooks are trimmed and empty ones left out, notes of
  several lines come back on one, and when there are peers the
  interface comments PeerDNS, PeerEndpoint, Backend, Protocol and PairName are lost, because the
  first \<open>[Peer]\<close> header consumes the comments that are pending.
\<close>

theorem parse_render_roundtrip:
  assumes "conf_ok cfg"
  shows "Parse (Render cfg) = Inr (if cf_Peers cfg = [] then tidy cfg
    else (tidy cfg)\<lparr>cf_Interface := (cf_Interface (tidy cfg))\<lparr>ci_PeerDNS := [], ci_PeerEndpoint := [],
      ci_Backend := [], ci_Protocol := [], ci_PairName := []\<rparr>\<rparr>)"
  using parse_render [OF assms] by (simp add: without_trailing_def)

definition demo_peer :: PeerSection where
  "demo_peer = zero_peer_section\<lparr>cp_PublicKey := ''cGVlcg=='', cp_AllowedIPs := [''10.0.0.2/32''],
     cp_Name := [CHR 0xD0, CHR 0x9F], cp_Notes := ''first'' @ [CHR 0x0A] @ ''second'', cp_TrafficLimit := 1000\<rparr>"

definition demo_conf :: Config where
  "demo_conf = \<lparr>cf_Interface = zero_iface_section\<lparr>ci_PrivateKey := ''c2VjcmV0'', ci_Address := [''10.0.0.1/24''],
       ci_ListenPort := 0, ci_PostUp := '' ip route add x '' @ [CHR 0x0A], ci_Backend := ''userspace'', ci_PairName := ''wg1''\<rparr>,
     cf_Peers = [demo_peer]\<rparr>"

lemmas demo_simps = demo_conf_def tidy_hooks_def tidy_hook_def flat_notes_def TrimSpace_def demo_peer_def conf_ok_def iface_ok_def peer_ok_def list_ok_def
  item_ok_def val_ok_def trimmed_def blank_free_def blank_runes_def is_space_def hook_ok_def in64_def zero_iface_section_def
  zero_peer_section_def

theorem parse_render_roundtrip_witness:
  "Parse (Render demo_conf) =
    Inr \<lparr>cf_Interface = (cf_Interface demo_conf)\<lparr>ci_PostUp := ''ip route add x'', ci_Backend := [], ci_PairName := []\<rparr>,
      cf_Peers = [demo_peer\<lparr>cp_Notes := ''first second''\<rparr>]\<rparr>"
proof -
  have "conf_ok demo_conf" by (simp add: demo_simps)
  from parse_render_roundtrip [OF this] show ?thesis
    by (simp add: demo_simps tidy_def)
qed

text \<open>
  The comment metadata is not a durable backup: for every configuration with a peer and with a
  backend or a twin recorded in its interface section, parsing the rendered file does not give the
  configuration back (the header of the file says it does).
\<close>

theorem interface_metadata_lost:
  assumes "conf_ok cfg" and "cf_Peers cfg \<noteq> []"
    and "ci_Backend (cf_Interface cfg) \<noteq> [] \<or> ci_PairName (cf_Interface cfg) \<noteq> []"
  shows "\<exists>cfg'. Parse (Render cfg) = Inr cfg' \<and> cfg' \<noteq> cfg
    \<and> ci_Backend (cf_Interface cfg') = [] \<and> ci_PairName (cf_Interface cfg') = []
    \<and> cf_Peers cfg' = map flat_notes (cf_Peers cfg)"
  using parse_render [OF assms(1)] assms(2,3)
  by (cases cfg) (auto simp: without_trailing_def tidy_def dest: arg_cong [of _ _ ci_Backend] arg_cong [of _ _ ci_PairName])

theorem interface_metadata_lost_witness:
  "\<exists>cfg'. Parse (Render demo_conf) = Inr cfg' \<and> ci_Backend (cf_Interface cfg') = []"
proof -
  have "conf_ok demo_conf" "cf_Peers demo_conf \<noteq> []" "ci_Backend (cf_Interface demo_conf) \<noteq> []"
    by (simp_all add: demo_simps)
  then show ?thesis using interface_metadata_lost [of demo_conf] by blast
qed

text \<open>
  Nothing keeps a name with a newline out of the file: what follows the newline is a line of its own, and the first peer's
  comments stand in the section of the interface, so such a name can add a hook to it.
\<close>

lemma lower_bytes: "char_of (112 :: nat) = CHR ''p''" "char_of (117 :: nat) = CHR ''u''" "char_of (105 :: nat) = CHR ''i''"
  by code_simp+

lemma name_adds_hook:
  "map_sum id (\<lambda>cfg. ci_PostUp (cf_Interface cfg)) (Parse (Render \<lparr>cf_Interface = zero_iface_section\<lparr>ci_PrivateKey := ''k''\<rparr>,
     cf_Peers = [zero_peer_section\<lparr>cp_PublicKey := ''p'', cp_Name := ''x'' @ [CHR 0x0A] @ ''PostUp = reboot''\<rparr>]\<rparr>)) = Inr ''reboot''"
  by (simp add: Parse_def Render_def iface_lines_def peer_lines_def header_comment_def opt_line_def kv_def cm_def writeHooks_def
      writeAmneziaInt_def writeAmneziaStr_def zero_iface_section_def zero_peer_section_def parse_line_def parse_comment_def
      parse_field_def start_state_def finish_def flushPeer_def Let_def TrimSpace_def is_space_def ToLower_def lower_char_def
      less_eq_char_def Cut_def TrimPrefix_def applyInterface_def applyPeer_def applyCommentMetaIface_def applyCommentMetaPeer_def
      meta_def joinHook_def lower_bytes)

end
