(* ===== verification/Netutil.thy ===== *)
theory Netutil
  imports Prelude
begin

unbundle bit_operations_syntax

text \<open>
  Addresses (\<open>internal/netutil\<close>): the names the daemon must never own, the validation of
  addresses, the normalisation of host addresses and the allocation of the next free host.  The
  parts of Go's package \<open>net\<close> these use are modelled first: \<open>net.IP\<close> is a list of 4 or 16
  bytes, the textual forms are those of \<open>net/netip\<close>.
\<close>

section \<open>Addresses as in package net\<close>

type_synonym ip = "byte list"

record IPNet =
  net_IP :: ip
  net_Mask :: "byte list"

definition v4InV6Prefix :: "byte list" where
  "v4InV6Prefix = [0, 0, 0, 0, 0, 0, 0, 0, 0, 0, 0xff, 0xff]"

definition To4 :: "ip \<Rightarrow> ip option" where
  "To4 x = (if length x = 4 then Some x
     else if length x = 16 \<and> take 12 x = v4InV6Prefix then Some (drop 12 x) else None)"

definition To16 :: "ip \<Rightarrow> ip" where
  "To16 x = (if length x = 4 then v4InV6Prefix @ x else x)"

text \<open>\<open>netip.parseIPv4\<close>: four decimal fields, no leading zeros, at most 255.\<close>

definition v4_field :: "string \<Rightarrow> byte option" where
  "v4_field f = (if f = [] \<or> length f > 1 \<and> hd f = CHR ''0'' then None
     else (case dec_val 0 f of None \<Rightarrow> None | Some n \<Rightarrow> if n \<le> 255 then Some (of_nat n) else None))"

definition parseIPv4 :: "string \<Rightarrow> byte list option" where
  "parseIPv4 s = (case map v4_field (split_on CHR ''.'' s) of
     [Some a, Some b, Some c, Some d] \<Rightarrow> Some [a, b, c, d] | _ \<Rightarrow> None)"

definition hex_val :: "char \<Rightarrow> int option" where
  "hex_val c = (let n = int (of_char c) in
     if 48 \<le> n \<and> n \<le> 57 then Some (n - 48)
     else if 97 \<le> n \<and> n \<le> 102 then Some (n - 87)
     else if 65 \<le> n \<and> n \<le> 70 then Some (n - 55) else None)"

definition is_hex :: "char \<Rightarrow> bool" where
  "is_hex c \<longleftrightarrow> hex_val c \<noteq> None"

definition hex_acc :: "string \<Rightarrow> int" where
  "hex_acc f = foldl (\<lambda>a c. a * 16 + (case hex_val c of Some d \<Rightarrow> d | None \<Rightarrow> 0)) 0 f"

text \<open>
  \<open>netip.parseIPv6\<close>, the loop over the fields: the bytes so far, the position of the ellipsis and
  the rest of the text.  Each round adds two bytes or the four of an embedded IPv4 address, so
  eight rounds are enough.
\<close>

fun v6_loop :: "nat \<Rightarrow> byte list \<Rightarrow> nat option \<Rightarrow> string \<Rightarrow> (byte list \<times> nat option \<times> string) option" where
  "v6_loop 0 out ell s = Some (out, ell, s)"
| "v6_loop (Suc k) out ell s =
     (if length out \<ge> 16 then Some (out, ell, s)
      else
       (let f = takeWhile is_hex s; rest = dropWhile is_hex s in
        if f = [] \<or> length f > 4 then None
        else if rest \<noteq> [] \<and> hd rest = CHR ''.'' then
          (if ell = None \<and> length out \<noteq> 12 \<or> length out + 4 > 16 then None
           else (case parseIPv4 s of None \<Rightarrow> None | Some q \<Rightarrow> Some (out @ q, ell, [])))
        else
         (let out1 = out @ [word_of_int (hex_acc f div 256), word_of_int (hex_acc f)] in
          if rest = [] then Some (out1, ell, [])
          else if hd rest \<noteq> CHR '':'' \<or> length rest = 1 then None
          else
           (let s1 = tl rest in
            if hd s1 = CHR '':'' then
              (if ell \<noteq> None then None
               else if tl s1 = [] then Some (out1, Some (length out1), [])
               else v6_loop k out1 (Some (length out1)) (tl s1))
            else v6_loop k out1 ell s1))))"

definition parseIPv6 :: "string \<Rightarrow> byte list option" where
  "parseIPv6 s =
     (if take 2 s = ''::'' \<and> drop 2 s = [] then Some (replicate 16 0)
      else
       (let (ell0, s0) = (if take 2 s = ''::'' then (Some 0, drop 2 s) else (None, s)) in
        case v6_loop 8 [] ell0 s0 of
          None \<Rightarrow> None
        | Some (out, ell, rest) \<Rightarrow>
            if rest \<noteq> [] then None
            else if length out < 16 then
              (case ell of None \<Rightarrow> None
               | Some e \<Rightarrow> Some (take e out @ replicate (16 - length out) 0 @ drop e out))
            else if ell \<noteq> None then None else Some out))"

text \<open>\<open>netip.ParseAddr\<close> without zones: the first of the characters dot, colon, percent decides.\<close>

definition ParseAddr :: "string \<Rightarrow> byte list option" where
  "ParseAddr s = (case dropWhile (\<lambda>c. c \<noteq> CHR ''.'' \<and> c \<noteq> CHR '':'' \<and> c \<noteq> CHR ''%'') s of
     [] \<Rightarrow> None
   | c # _ \<Rightarrow> if c = CHR ''.'' then parseIPv4 s
       else if c = CHR '':'' then (if CHR ''%'' \<in> set s then None else parseIPv6 s) else None)"

definition ParseIP :: "string \<Rightarrow> ip option" where
  "ParseIP s = map_option To16 (ParseAddr s)"

definition CIDRMask :: "nat \<Rightarrow> nat \<Rightarrow> byte list" where
  "CIDRMask ones bits = map (\<lambda>k. if ones \<ge> 8 * (k + 1) then 0xff
     else if ones \<le> 8 * k then 0 else of_nat (256 - 2 ^ (8 - (ones - 8 * k)))) [0..<bits div 8]"

definition IP_Mask :: "ip \<Rightarrow> byte list \<Rightarrow> ip" where
  "IP_Mask x m = (let y = (if length m = 4 \<and> length x = 16 \<and> take 12 x = v4InV6Prefix then drop 12 x else x)
     in map2 (AND) y m)"

definition prefix_len :: "nat \<Rightarrow> string \<Rightarrow> nat option" where
  "prefix_len bits msk = (if msk = [] then None
     else (case dec_val 0 msk of None \<Rightarrow> None | Some n \<Rightarrow> if n > bits then None else Some n))"

definition net_of :: "byte list \<Rightarrow> nat \<Rightarrow> ip \<times> IPNet" where
  "net_of a n = (let m = CIDRMask n (8 * length a); x = To16 a
     in (x, \<lparr>net_IP = IP_Mask x m, net_Mask = m\<rparr>))"

definition ParseCIDR :: "string \<Rightarrow> (ip \<times> IPNet) option" where
  "ParseCIDR s =
     (case Cut CHR ''/'' s of None \<Rightarrow> None
      | Some (addr, msk) \<Rightarrow>
        (case ParseAddr addr of None \<Rightarrow> None
         | Some a \<Rightarrow> map_option (net_of a) (prefix_len (8 * length a) msk)))"

definition v4_str :: "ip \<Rightarrow> string" where
  "v4_str x = Join (map (\<lambda>b. nat_str (unat b)) x) ''.''"

definition hex_char :: "nat \<Rightarrow> char" where
  "hex_char d = char_of (if d < 10 then 48 + d else 87 + d)"

fun hex_str :: "nat \<Rightarrow> string" where
  "hex_str n = (if n < 16 then [hex_char n] else hex_str (n div 16) @ [hex_char (n mod 16)])"

declare hex_str.simps [simp del]

definition u16s :: "ip \<Rightarrow> nat list" where
  "u16s x = map (\<lambda>k. unat (x ! (2 * k)) * 256 + unat (x ! (2 * k + 1))) [0..<8]"

text \<open>The first longest run of at least two zero fields.\<close>

definition zero_run :: "nat list \<Rightarrow> nat \<Rightarrow> nat" where
  "zero_run us i = length (takeWhile (\<lambda>u. u = 0) (drop i us))"

definition best_run :: "nat list \<Rightarrow> (nat \<times> nat) option" where
  "best_run us = foldl (\<lambda>best i. let l = zero_run us i in
     if l \<ge> 2 \<and> l > (case best of None \<Rightarrow> 0 | Some (a, b) \<Rightarrow> b - a) then Some (i, i + l) else best)
     None [0..<8]"

definition v6_str :: "ip \<Rightarrow> string" where
  "v6_str x =
     (let us = u16s x; hex = (\<lambda>vs. Join (map hex_str vs) '':'')
      in case best_run us of None \<Rightarrow> hex us
         | Some (a, b) \<Rightarrow> hex (take a us) @ ''::'' @ hex (drop b us))"

definition IP_String :: "ip \<Rightarrow> string" where
  "IP_String x = (case To4 x of Some y \<Rightarrow> v4_str y | None \<Rightarrow> v6_str x)"

text \<open>\<open>IPMask.Size\<close> for the masks \<open>CIDRMask\<close> makes, and \<open>IPNet.Contains\<close>.\<close>

definition popcount :: "byte \<Rightarrow> nat" where
  "popcount b = length (filter (\<lambda>k. bit b k) [0..<8])"

definition Mask_Size :: "byte list \<Rightarrow> nat \<times> nat" where
  "Mask_Size m = (sum_list (map popcount m), 8 * length m)"

definition Contains :: "IPNet \<Rightarrow> ip \<Rightarrow> bool" where
  "Contains n x =
     (let nn = (case To4 (net_IP n) of Some y \<Rightarrow> y | None \<Rightarrow> net_IP n);
          m = (if length (net_Mask n) = 16 \<and> length nn = 4 then drop 12 (net_Mask n) else net_Mask n);
          y = (case To4 x of Some z \<Rightarrow> z | None \<Rightarrow> x)
      in length nn = length m \<and> length y = length nn \<and> map2 (AND) nn m = map2 (AND) y m)"

definition IP_Equal :: "ip \<Rightarrow> ip \<Rightarrow> bool" where
  "IP_Equal x y \<longleftrightarrow> To16 x = To16 y"

section \<open>Reserved names\<close>

definition ReservedHostInterface :: "string \<Rightarrow> bool" where
  "ReservedHostInterface name =
     (let n = TrimSpace name
      in if n = [] then False else if n = ''mesh0'' then True else prefix ''mesh'' n)"

definition ReservedHostInterfaceMessage :: "string \<Rightarrow> string" where
  "ReservedHostInterfaceMessage name = ''interface '' @ name @ '' is host-managed control-plane mesh ''
     @ ''( /etc/wg-mesh ); wireguardd must not create, adopt, or delete it''"

section \<open>Validation\<close>

datatype net_error = ErrEmpty | ErrEndpoint string | ErrEndpointPort string | ErrInvalidCIDR string | ErrInvalidIP string | ErrNoInterfaceAddress
  | ErrNoFreeHost

definition ValidateCIDR :: "string \<Rightarrow> net_error option" where
  "ValidateCIDR s0 =
     (let s = TrimSpace s0
      in if s = [] then Some ErrEmpty
         else (case ParseCIDR s of None \<Rightarrow> Some (ErrInvalidCIDR s) | Some _ \<Rightarrow> None))"

definition ValidateIP :: "string \<Rightarrow> net_error option" where
  "ValidateIP s0 =
     (let s = TrimSpace s0
      in if s = [] then Some ErrEmpty
         else if ParseIP s = None then Some (ErrInvalidIP s) else None)"

definition ValidateIPOrCIDR :: "string \<Rightarrow> net_error option" where
  "ValidateIPOrCIDR s0 =
     (let s = TrimSpace s0
      in if s = [] then Some ErrEmpty
         else if CHR ''/'' \<in> set s then ValidateCIDR s else ValidateIP s)"

fun ValidateCIDRList :: "string list \<Rightarrow> net_error option" where
  "ValidateCIDRList [] = None"
| "ValidateCIDRList (a # as) =
     (if TrimSpace a = [] then ValidateCIDRList as
      else (case ValidateCIDR (TrimSpace a) of Some e \<Rightarrow> Some e | None \<Rightarrow> ValidateCIDRList as))"

fun ValidateIPOrCIDRList :: "string list \<Rightarrow> net_error option" where
  "ValidateIPOrCIDRList [] = None"
| "ValidateIPOrCIDRList (a # as) =
     (if TrimSpace a = [] then ValidateIPOrCIDRList as
      else (case ValidateIPOrCIDR (TrimSpace a) of Some e \<Rightarrow> Some e | None \<Rightarrow> ValidateIPOrCIDRList as))"

section \<open>Host addresses\<close>

text \<open>\<open>net.SplitHostPort\<close>: host and port of \<open>host:port\<close> or \<open>[host]:port\<close>.\<close>

definition SplitHostPort :: "string \<Rightarrow> (string \<times> string) option" where
  "SplitHostPort s =
     (case LastIndex CHR '':'' s of None \<Rightarrow> None
      | Some i \<Rightarrow>
        (if hd s = CHR ''['' then
           (case IndexByte CHR '']'' s of None \<Rightarrow> None
            | Some e \<Rightarrow>
              (if e + 1 \<noteq> i \<or> CHR ''['' \<in> set (drop 1 s) \<or> CHR '']'' \<in> set (drop (e + 1) s) then None
               else Some (take (e - 1) (drop 1 s), drop (i + 1) s)))
         else if CHR '':'' \<in> set (take i s) \<or> CHR ''['' \<in> set s \<or> CHR '']'' \<in> set s then None
         else Some (take i s, drop (i + 1) s)))"

text \<open>The ports \<open>net.LookupPort\<close> knows, by number or by service name, are a parameter.\<close>

definition ValidateEndpoint :: "(string \<Rightarrow> bool) \<Rightarrow> string \<Rightarrow> net_error option" where
  "ValidateEndpoint lookupPort s0 =
     (let s = TrimSpace s0 in
      if s = [] then None
      else case SplitHostPort s of None \<Rightarrow> Some (ErrEndpoint s)
        | Some (host, port) \<Rightarrow>
          if host = [] \<or> port = [] then Some (ErrEndpoint s)
          else if \<not> lookupPort port then Some (ErrEndpointPort port) else None)"

definition NormalizeHostIP :: "string \<Rightarrow> net_error + string" where
  "NormalizeHostIP s0 =
     (let s = TrimSpace s0
      in if s = [] then Inl ErrEmpty
         else if CHR ''/'' \<in> set s then
           (case ParseCIDR s of None \<Rightarrow> Inl (ErrInvalidCIDR s) | Some (x, _) \<Rightarrow> Inr (IP_String x))
         else (case ParseIP s of None \<Rightarrow> Inl (ErrInvalidIP s) | Some x \<Rightarrow> Inr (IP_String x)))"

definition HostCIDR :: "string \<Rightarrow> net_error + string" where
  "HostCIDR ipStr =
     (case ParseIP (TrimSpace ipStr) of None \<Rightarrow> Inl (ErrInvalidIP ipStr)
      | Some x \<Rightarrow> if To4 x \<noteq> None then Inr (IP_String x @ ''/32'') else Inr (IP_String x @ ''/128''))"

text \<open>The set of used hosts is a list; only membership is used.\<close>

definition add_host :: "string \<Rightarrow> string list \<Rightarrow> string list" where
  "add_host s used = (case NormalizeHostIP s of Inr h \<Rightarrow> h # used | Inl _ \<Rightarrow> used)"

definition CollectUsedHosts :: "string list \<Rightarrow> string list list \<Rightarrow> string list list \<Rightarrow> string list" where
  "CollectUsedHosts ifaceAddrs peerAssigned peerAllowed =
     fold (\<lambda>a. if suffix ''/32'' a \<or> suffix ''/128'' a \<or> CHR ''/'' \<notin> set a then add_host a else id)
       (concat peerAllowed)
       (fold add_host (concat peerAssigned) (fold add_host ifaceAddrs []))"

section \<open>Allocation\<close>

text \<open>\<open>for i := len(ip) - 1; i >= 0; i-- \{ ip[i]++; if ip[i] != 0 break \}\<close>, on the reversed bytes.\<close>

fun inc_rev :: "byte list \<Rightarrow> byte list" where
  "inc_rev [] = []"
| "inc_rev (b # bs) = (if b + 1 \<noteq> 0 then (b + 1) # bs else (b + 1) # inc_rev bs)"

definition incIP :: "ip \<Rightarrow> ip" where
  "incIP x = rev (inc_rev (rev x))"

definition lastIPv4 :: "IPNet \<Rightarrow> ip" where
  "lastIPv4 n = map2 (OR) (case To4 (net_IP n) of Some y \<Rightarrow> y | None \<Rightarrow> [0, 0, 0, 0]) (map (NOT) (net_Mask n))"

type_synonym cand = "ip \<times> IPNet"

text \<open>The candidate an interface address gives, if any; a bare address is taken to be in a /24 or /64.\<close>

definition addr_cand :: "string \<Rightarrow> cand option" where
  "addr_cand a0 =
     (let a = TrimSpace a0 in
      if a = [] \<or> prefix ''fe80:'' a then None
      else if CHR ''/'' \<in> set a then ParseCIDR a
      else (case ParseIP a of None \<Rightarrow> None
        | Some x \<Rightarrow> (if To4 x \<noteq> None then ParseCIDR (IP_String x @ ''/24'')
            else ParseCIDR (IP_String x @ ''/64''))))"

text \<open>The loop over the interface addresses: the subnets, and the used hosts with the interface's own.\<close>

fun gather :: "string list \<Rightarrow> string list \<Rightarrow> cand list \<times> string list" where
  "gather [] used = ([], used)"
| "gather (a # as) used =
     (case addr_cand a of
        None \<Rightarrow> gather as used
      | Some (x, n) \<Rightarrow> (let (cs, u) = gather as (IP_String x # used) in ((x, n) # cs, u)))"

text \<open>\<open>sort.SliceStable\<close> with the order \<open>IPv4 first\<close>.\<close>

definition v4_first :: "cand list \<Rightarrow> cand list" where
  "v4_first cs = sort_key (\<lambda>(x, n). if To4 x \<noteq> None then 0 else 1 :: nat) cs"

fun ip_val :: "byte list \<Rightarrow> nat" where
  "ip_val [] = 0"
| "ip_val (b # bs) = unat b * 256 ^ length bs + ip_val bs"

lemma length_inc_rev [simp]: "length (inc_rev bs) = length bs"
  by (induction bs) auto

lemma length_incIP [simp]: "length (incIP x) = length x"
  by (simp add: incIP_def)

text \<open>The value of reversed bytes, least significant first.\<close>

fun rev_val :: "byte list \<Rightarrow> nat" where
  "rev_val [] = 0"
| "rev_val (b # bs) = unat b + 256 * rev_val bs"

lemma rev_val_append: "rev_val (xs @ ys) = rev_val xs + 256 ^ length xs * rev_val ys"
  by (induction xs) (simp_all add: algebra_simps)

lemma ip_val_rev: "ip_val x = rev_val (rev x)"
  by (induction x) (simp_all add: rev_val_append)

lemma byte_less: "unat (b :: byte) < 256"
  using unsigned_less [of b, where ?'a = nat] by simp

lemma rev_val_less: "rev_val bs < 256 ^ length bs"
proof (induction bs)
  case (Cons b bs)
  have "unat b + 256 * rev_val bs < 256 * (rev_val bs + 1)" using byte_less [of b] by simp
  also have "\<dots> \<le> 256 * 256 ^ length bs" using Cons by (intro mult_le_mono2) simp
  finally show ?case by simp
qed simp

lemma ip_val_less: "ip_val x < 256 ^ length x"
  using rev_val_less [of "rev x"] by (simp add: ip_val_rev)

lemma byte_plus1: "unat (b + 1 :: byte) = (unat b + 1) mod 256"
  by (simp add: unat_word_ariths)

lemma byte_wraps: "(b :: byte) + 1 = 0 \<longleftrightarrow> unat b = 255"
proof -
  have "b + 1 = 0 \<longleftrightarrow> (unat b + 1) mod 256 = 0"
    using byte_plus1 [of b] unsigned_eq_0_iff [of "b + 1", where ?'a = nat] by metis
  also have "\<dots> \<longleftrightarrow> unat b = 255" using byte_less [of b] by (cases "unat b = 255") auto
  finally show ?thesis .
qed

lemma unat_inc: "unat (b + 1 :: byte) = (if b + 1 = 0 then 0 else unat b + 1)"
  using byte_less [of b] by (auto simp: byte_plus1 byte_wraps)

lemma rev_val_inc: "rev_val (inc_rev bs) = (rev_val bs + 1) mod 256 ^ length bs"
proof (induction bs)
  case (Cons b bs)
  show ?case
  proof (cases "b + 1 = 0")
    case True
    then have "unat b = 255" by (simp add: byte_wraps)
    have "rev_val (inc_rev (b # bs)) = 256 * ((rev_val bs + 1) mod 256 ^ length bs)"
      using True Cons by simp
    also have "\<dots> = (256 * (rev_val bs + 1)) mod (256 * 256 ^ length bs)" by (simp only: mult_mod_right)
    also have "256 * (rev_val bs + 1) = rev_val (b # bs) + 1" using \<open>unat b = 255\<close> by simp
    finally show ?thesis by simp
  next
    case False
    then have "rev_val (inc_rev (b # bs)) = rev_val (b # bs) + 1" by (simp add: unat_inc)
    moreover have "rev_val (inc_rev (b # bs)) < 256 ^ length (b # bs)"
      using rev_val_less [of "inc_rev (b # bs)"] by (simp only: length_inc_rev)
    ultimately show ?thesis by (metis mod_less)
  qed
qed simp

lemma ip_val_incIP: "ip_val (incIP x) = (ip_val x + 1) mod 256 ^ length x"
  by (simp add: ip_val_rev incIP_def rev_val_inc)

lemma rev_val_inj: "length xs = length ys \<Longrightarrow> rev_val xs = rev_val ys \<Longrightarrow> xs = ys"
proof (induction xs ys rule: list_induct2)
  case (Cons x xs y ys)
  have m: "unat (b :: byte) = (unat b + 256 * r) mod 256" for b r using byte_less [of b] by simp
  have "unat x = unat y"
    using Cons.prems m [of x "rev_val xs"] m [of y "rev_val ys"] by simp
  with Cons show ?case by (simp add: word_unat_eq_iff)
qed simp

lemma ip_val_inj: "length x = length y \<Longrightarrow> ip_val x = ip_val y \<Longrightarrow> x = y"
  using rev_val_inj [of "rev x" "rev y"] by (simp add: ip_val_rev)

text \<open>
  \<open>for !ip.Equal(broadcast)\<close>.  Both addresses have four bytes in the code; the guard says so and
  makes the loop a total function: each round brings the address one closer to the broadcast one.
\<close>

function scan4 :: "IPNet \<Rightarrow> ip \<Rightarrow> string list \<Rightarrow> ip \<Rightarrow> string option" where
  "scan4 n bc used x =
     (if length x \<noteq> 4 \<or> length bc \<noteq> 4 \<or> IP_Equal x bc then None
      else if Contains n x \<and> IP_String x \<notin> set used then Some (IP_String x)
      else scan4 n bc used (incIP x))"
  by pat_completeness auto
termination
proof (relation "measure (\<lambda>(n, bc, used, x). (ip_val bc + 256 ^ 4 - ip_val x) mod 256 ^ 4)")
  fix n bc used x
  assume g: "\<not> (length x \<noteq> 4 \<or> length bc \<noteq> 4 \<or> IP_Equal x bc)"
  let ?N = "256 ^ 4 :: nat"
  have b: "ip_val x < ?N" "ip_val bc < ?N" using ip_val_less [of x] ip_val_less [of bc] g by simp_all
  have ne: "ip_val x \<noteq> ip_val bc" using ip_val_inj [of x bc] g by (auto simp: IP_Equal_def)
  have i: "ip_val (incIP x) = (ip_val x + 1) mod ?N" using ip_val_incIP [of x] g by simp
  have "(ip_val bc + ?N - (ip_val x + 1) mod ?N) mod ?N < (ip_val bc + ?N - ip_val x) mod ?N"
  proof (cases "ip_val x + 1 = ?N")
    case True
    then have "(ip_val bc + ?N - ip_val x) = ip_val bc + 1" "ip_val bc + 1 < ?N" using b ne by linarith+
    with True show ?thesis by simp
  next
    case False
    then have "(ip_val x + 1) mod ?N = ip_val x + 1" using b by (intro mod_less) linarith
    moreover have "(ip_val bc + ?N - (ip_val x + 1)) mod ?N < (ip_val bc + ?N - ip_val x) mod ?N"
    proof (cases "ip_val x < ip_val bc")
      case True
      then have "(ip_val bc + ?N - ip_val x) mod ?N = ip_val bc - ip_val x"
        "(ip_val bc + ?N - (ip_val x + 1)) mod ?N = ip_val bc - (ip_val x + 1)"
        using b by (simp_all add: mod_if)
      then show ?thesis using True by linarith
    next
      case nl: False
      then have "(ip_val bc + ?N - ip_val x) mod ?N = ip_val bc + ?N - ip_val x"
        "(ip_val bc + ?N - (ip_val x + 1)) mod ?N = ip_val bc + ?N - (ip_val x + 1)"
        using b ne by (intro mod_less; linarith)+
      then show ?thesis using b nl False by linarith
    qed
    ultimately show ?thesis by simp
  qed
  then show "((n, bc, used, incIP x), n, bc, used, x) \<in> measure (\<lambda>(n, bc, used, x). (ip_val bc + ?N - ip_val x) mod ?N)"
    by (simp add: i)
qed simp

declare scan4.simps [simp del]

text \<open>\<open>for i := 0; i < 4096; i++\<close>\<close>

function scan6 :: "IPNet \<Rightarrow> string list \<Rightarrow> int \<Rightarrow> ip \<Rightarrow> string option" where
  "scan6 n used i x =
     (if i < 4096 then
        (if Contains n x \<and> IP_String x \<notin> set used then Some (IP_String x)
         else scan6 n used (i + 1) (incIP x))
      else None)"
  by pat_completeness auto
termination
  by (relation "measure (\<lambda>(n, used, i, x). nat (4096 - i))") auto

declare scan6.simps [simp del]

text \<open>
  A subnet with a 32-bit mask has an IPv4 address (\<open>gather_cand\<close> below), so the case without one is
  never taken.
\<close>

definition alloc_in :: "IPNet \<Rightarrow> string list \<Rightarrow> (string \<times> string) option" where
  "alloc_in n used =
     (let (ones, bits) = Mask_Size (net_Mask n) in
      if bits = 32 then
        (if ones > 30 then None
         else (case To4 (net_IP n) of
             None \<Rightarrow> None
           | Some start \<Rightarrow> map_option (\<lambda>s. (s, s @ ''/32'')) (scan4 n (lastIPv4 n) used (incIP start))))
      else if bits = 128 then
        (if ones > 126 then None
         else map_option (\<lambda>s. (s, s @ ''/128'')) (scan6 n used 0 (incIP (To16 (net_IP n)))))
      else None)"

fun alloc_loop :: "cand list \<Rightarrow> string list \<Rightarrow> net_error + string \<times> string" where
  "alloc_loop [] used = Inl ErrNoFreeHost"
| "alloc_loop ((x, n) # cs) used =
     (case alloc_in n used of Some r \<Rightarrow> Inr r | None \<Rightarrow> alloc_loop cs used)"

text \<open>The result, and the map of used hosts as the call leaves it.\<close>

definition AllocateNextHost :: "string list \<Rightarrow> string list \<Rightarrow> (net_error + string \<times> string) \<times> string list" where
  "AllocateNextHost ifaceAddrs used =
     (let (subnets, used1) = gather ifaceAddrs used
      in if length subnets = 0 then (Inl ErrNoInterfaceAddress, used1)
         else (alloc_loop (v4_first subnets) used1, used1))"

definition IsAutoToken :: "string \<Rightarrow> bool" where
  "IsAutoToken s0 = (let s = ToLower (TrimSpace s0)
     in s = [] \<or> s = ''auto'' \<or> s = ''next'' \<or> s = ''*'')"

definition ParseCSVAddresses :: "string \<Rightarrow> string list" where
  "ParseCSVAddresses s =
     (if TrimSpace s = [] then [] else filter (\<lambda>p. p \<noteq> []) (map TrimSpace (split_on CHR '','' s)))"

section \<open>The scan visits the hosts between network and broadcast address\<close>

lemma IP_Equal_4: "length x = 4 \<Longrightarrow> length y = 4 \<Longrightarrow> IP_Equal x y \<longleftrightarrow> x = y"
  by (simp add: IP_Equal_def To16_def)

lemma ip_val_inc_less:
  "length x = 4 \<Longrightarrow> length bc = 4 \<Longrightarrow> ip_val x < ip_val bc \<Longrightarrow> ip_val (incIP x) = ip_val x + 1"
  using ip_val_incIP [of x] ip_val_less [of bc] by (simp add: mod_less)

lemma scan4_Some:
  "scan4 n bc used x = Some s \<Longrightarrow> ip_val x \<le> ip_val bc \<Longrightarrow>
    \<exists>y. length y = 4 \<and> s = IP_String y \<and> Contains n y \<and> s \<notin> set used
      \<and> ip_val x \<le> ip_val y \<and> ip_val y < ip_val bc"
proof (induction n bc used x rule: scan4.induct)
  case (1 n bc used x)
  have g: "length x = 4" "length bc = 4" "x \<noteq> bc"
    using 1(2) by (auto simp: scan4.simps [of n bc used x] IP_Equal_def split: if_splits)
  then have lt: "ip_val x < ip_val bc" using 1(3) ip_val_inj [of x bc] by fastforce
  show ?case
  proof (cases "Contains n x \<and> IP_String x \<notin> set used")
    case True
    then have "s = IP_String x" using 1(2) g by (auto simp: scan4.simps [of n bc used x] IP_Equal_4)
    with True g lt show ?thesis by auto
  next
    case False
    then have "scan4 n bc used (incIP x) = Some s"
      using 1(2) g by (auto simp: scan4.simps [of n bc used x] IP_Equal_4)
    with 1(1) False g lt ip_val_inc_less [OF g(1,2) lt] show ?thesis by (auto simp: IP_Equal_4)
  qed
qed

lemma scan4_complete:
  "length x = 4 \<Longrightarrow> length bc = 4 \<Longrightarrow> length y = 4 \<Longrightarrow> ip_val x \<le> ip_val y \<Longrightarrow> ip_val y < ip_val bc \<Longrightarrow>
    Contains n y \<Longrightarrow> IP_String y \<notin> set used \<Longrightarrow> scan4 n bc used x \<noteq> None"
proof (induction n bc used x rule: scan4.induct)
  case (1 n bc used x)
  then have ne: "\<not> IP_Equal x bc" and lt: "ip_val x < ip_val bc" by (auto simp: IP_Equal_4)
  show ?case
  proof (cases "Contains n x \<and> IP_String x \<notin> set used")
    case True
    then show ?thesis using 1 ne by (simp add: scan4.simps [of n bc used x])
  next
    case False
    then have "x \<noteq> y" using 1 by auto
    then have "ip_val x \<noteq> ip_val y" using ip_val_inj [of x y] 1 by auto
    then have "ip_val (incIP x) \<le> ip_val y" using 1 lt ip_val_inc_less [of x bc] by simp
    with 1 ne False have "scan4 n bc used (incIP x) \<noteq> None" by simp
    with False ne 1 show ?thesis by (simp add: scan4.simps [of n bc used x])
  qed
qed

lemma scan6_Some: "scan6 n used i x = Some s \<Longrightarrow> \<exists>y. s = IP_String y \<and> Contains n y \<and> s \<notin> set used"
proof (induction n used i x rule: scan6.induct)
  case (1 n used i x)
  then show ?case by (subst (asm) scan6.simps) (auto split: if_splits)
qed

section \<open>The candidate subnets\<close>

lemma length_CIDRMask: "length (CIDRMask n bits) = bits div 8"
  by (simp add: CIDRMask_def)

definition cand_ok :: "cand \<Rightarrow> bool" where
  "cand_ok c \<longleftrightarrow> (case c of (x, n) \<Rightarrow>
     (length (net_Mask n) = 4 \<longrightarrow> (\<exists>a. length a = 4 \<and> net_IP n = map2 (AND) a (net_Mask n))))"

lemma length_v4InV6Prefix: "length v4InV6Prefix = 12"
  by (simp add: v4InV6Prefix_def)

lemma To16_4: "length a = 4 \<Longrightarrow> To16 a = v4InV6Prefix @ a"
  by (simp add: To16_def)

lemma IP_Mask_4in6: "length a = 4 \<Longrightarrow> length m = 4 \<Longrightarrow> IP_Mask (v4InV6Prefix @ a) m = map2 (AND) a m"
  by (simp add: IP_Mask_def length_v4InV6Prefix)

lemma ParseCIDR_net: "ParseCIDR s = Some r \<Longrightarrow> \<exists>a k. net_of a k = r"
  unfolding ParseCIDR_def by (simp split: option.split_asm prod.split_asm) blast

lemma ParseCIDR_cand: "ParseCIDR s = Some (x, n) \<Longrightarrow> cand_ok (x, n)"
proof -
  assume "ParseCIDR s = Some (x, n)"
  then obtain a k where nk: "net_of a k = (x, n)" using ParseCIDR_net by blast
  then have "n = snd (net_of a k)" by simp
  then have a: "net_Mask n = CIDRMask k (8 * length a)" "net_IP n = IP_Mask (To16 a) (net_Mask n)"
    by (simp_all only: net_of_def Let_def snd_conv IPNet.simps)
  have "\<exists>b. length b = 4 \<and> net_IP n = map2 (AND) b (net_Mask n)" if m: "length (net_Mask n) = 4"
  proof -
    have "length (net_Mask n) = length a" unfolding a(1) length_CIDRMask by simp
    then have l: "length a = 4" using m by (rule trans [OF sym])
    have "IP_Mask (To16 a) (net_Mask n) = map2 (AND) a (net_Mask n)"
      unfolding To16_4 [OF l] using l m by (rule IP_Mask_4in6)
    with a(2) have "net_IP n = map2 (AND) a (net_Mask n)" by (rule trans)
    with l show ?thesis by (intro exI [of _ a] conjI)
  qed
  then show ?thesis by (simp add: cand_ok_def)
qed

lemma addr_cand_ok: "addr_cand a = Some c \<Longrightarrow> cand_ok c"
  by (cases c) (auto simp: addr_cand_def Let_def dest: ParseCIDR_cand split: if_splits option.splits)

lemma gather_cand: "c \<in> set (fst (gather as used)) \<Longrightarrow> cand_ok c"
proof (induction as arbitrary: used)
  case (Cons a as)
  then show ?case
    by (cases "addr_cand a") (auto simp: Let_def split_beta dest: addr_cand_ok)
qed simp

lemma gather_cands_fixed: "fst (gather as used) = fst (gather as used')"
proof (induction as arbitrary: used used')
  case (Cons a as)
  show ?case
  proof (cases "addr_cand a")
    case None
    with Cons [of used used'] show ?thesis by simp
  next
    case (Some c)
    obtain x n where "c = (x, n)" by (cases c)
    with Some Cons [of "IP_String x # used" "IP_String x # used'"] show ?thesis
      by (simp add: Let_def split_beta)
  qed
qed simp

lemma gather_used: "set (snd (gather as used)) = set used \<union> (\<lambda>(x, n). IP_String x) ` set (fst (gather as used))"
proof (induction as arbitrary: used)
  case (Cons a as)
  show ?case
  proof (cases "addr_cand a")
    case (Some c)
    obtain x n where "c = (x, n)" by (cases c)
    with Some Cons [of "IP_String x # used"] show ?thesis
      by (simp add: Let_def split_beta)
  qed (simp add: Cons)
qed simp

lemma ip_val_mono: "list_all2 (\<le>) x y \<Longrightarrow> ip_val x \<le> ip_val y"
proof (induction x y rule: list_all2_induct)
  case (Cons a x b y)
  have "unat a \<le> unat b" using Cons(1) by (simp add: word_le_nat_alt)
  with Cons list_all2_lengthD [OF Cons(2)] show ?case by (simp add: add_mono)
qed simp

lemma popcount_ff: "popcount 0xff = 8"
  by code_simp

lemma minus_one_byte: "(- 1 :: byte) = 0xff"
  by simp

lemma mask_ones_lt:
  assumes "length m = 4" "fst (Mask_Size m) \<le> 30" shows "\<exists>k<4. m ! k \<noteq> 0xff"
proof (rule ccontr)
  assume "\<not> ?thesis"
  then have "\<forall>k<4. m ! k = 0xff" by blast
  with assms(1) have "m = replicate 4 0xff" by (intro nth_equalityI) simp_all
  then have "fst (Mask_Size m) = 32" by (simp add: Mask_Size_def popcount_ff numeral_eq_Suc)
  with assms(2) show False by simp
qed

lemma network_below_broadcast:
  assumes "cand_ok (x, n)" "length (net_Mask n) = 4" "fst (Mask_Size (net_Mask n)) \<le> 30"
  shows "length (net_IP n) = 4 \<and> To4 (net_IP n) = Some (net_IP n) \<and> length (lastIPv4 n) = 4
    \<and> ip_val (net_IP n) < ip_val (lastIPv4 n)"
proof -
  obtain a where a: "length a = 4" "net_IP n = map2 (AND) a (net_Mask n)"
    using assms(1,2) by (auto simp: cand_ok_def)
  let ?m = "net_Mask n"
  have l: "length (net_IP n) = 4" using a assms(2) by simp
  have t: "To4 (net_IP n) = Some (net_IP n)" using l by (simp add: To4_def)
  have b: "lastIPv4 n = map2 (OR) (net_IP n) (map (NOT) ?m)" by (simp add: lastIPv4_def t)
  have lb: "length (lastIPv4 n) = 4" using l assms(2) b by simp
  have "list_all2 (\<le>) (net_IP n) (lastIPv4 n)"
    unfolding list_all2_conv_all_nth using l lb assms(2) by (simp add: b le_word_or2)
  then have "ip_val (net_IP n) \<le> ip_val (lastIPv4 n)" by (rule ip_val_mono)
  moreover have "net_IP n \<noteq> lastIPv4 n"
  proof
    assume e: "net_IP n = lastIPv4 n"
    obtain k where k: "k < 4" "?m ! k \<noteq> 0xff" using mask_ones_lt [OF assms(2,3)] by blast
    have "lastIPv4 n ! k = net_IP n ! k OR NOT (?m ! k)" using k l assms(2) by (simp add: b)
    then have "net_IP n ! k OR NOT (?m ! k) = net_IP n ! k" using e by simp
    moreover have "net_IP n ! k = a ! k AND ?m ! k" using k a assms(2) by simp
    ultimately have "(a ! k AND ?m ! k) OR NOT (?m ! k) = a ! k AND ?m ! k" by simp
    then have "((a ! k AND ?m ! k) OR NOT (?m ! k)) AND NOT (?m ! k) = (a ! k AND ?m ! k) AND NOT (?m ! k)"
      by simp
    then have "NOT (?m ! k) = 0" by (simp add: and.assoc)
    then have "NOT (NOT (?m ! k)) = NOT 0" by simp
    then have "?m ! k = - 1" by simp
    with k show False by (simp add: minus_one_byte)
  qed
  ultimately show ?thesis using l t lb ip_val_inj [of "net_IP n" "lastIPv4 n"] by fastforce
qed

section \<open>Properties\<close>

text \<open>An IPv4 subnet of the pool, its host addresses, and what it means that an address is one.\<close>

definition pool :: "string list \<Rightarrow> cand list" where
  "pool ifaceAddrs = fst (gather ifaceAddrs [])"

definition host_of :: "IPNet \<Rightarrow> ip \<Rightarrow> bool" where
  "host_of n y \<longleftrightarrow> length y = 4 \<and> Contains n y
     \<and> ip_val (net_IP n) < ip_val y \<and> ip_val y < ip_val (lastIPv4 n)"

lemma pool_gather: "fst (gather as used) = pool as"
  unfolding pool_def by (rule gather_cands_fixed)

lemma first_host:
  assumes "cand_ok (x, n)" "length (net_Mask n) = 4" "fst (Mask_Size (net_Mask n)) \<le> 30"
  shows "ip_val (incIP (net_IP n)) = ip_val (net_IP n) + 1"
  using network_below_broadcast [OF assms] ip_val_inc_less [of "net_IP n" "lastIPv4 n"] by simp

lemma Mask_Size_bits: "Mask_Size m = (fst (Mask_Size m), 8 * length m)"
  by (simp add: Mask_Size_def)

lemma alloc_in_Some:
  assumes "alloc_in n used = Some (s, c)" "cand_ok (x, n)"
  shows "s \<notin> set used \<and>
    ((length (net_Mask n) = 4 \<and> c = s @ ''/32'' \<and> (\<exists>y. host_of n y \<and> s = IP_String y))
     \<or> (length (net_Mask n) = 16 \<and> c = s @ ''/128'' \<and> (\<exists>y. Contains n y \<and> s = IP_String y)))"
proof (cases "length (net_Mask n) = 4")
  case True
  then have o: "fst (Mask_Size (net_Mask n)) \<le> 30"
    using assms(1) by (subst (asm) alloc_in_def, subst (asm) Mask_Size_bits) (simp split: if_splits)
  note nb = network_below_broadcast [OF assms(2) True o] and fh = first_host [OF assms(2) True o]
  have "scan4 n (lastIPv4 n) used (incIP (net_IP n)) = Some s \<and> c = s @ ''/32''"
    using assms(1) True o nb by (subst (asm) alloc_in_def, subst (asm) Mask_Size_bits) auto
  then show ?thesis
    using scan4_Some [of n "lastIPv4 n" used "incIP (net_IP n)" s] nb fh True
    by (fastforce simp: host_of_def)
next
  case False
  then have "length (net_Mask n) = 16 \<and> scan6 n used 0 (incIP (To16 (net_IP n))) = Some s \<and> c = s @ ''/128''"
    using assms(1) by (subst (asm) alloc_in_def, subst (asm) Mask_Size_bits) (auto split: if_splits)
  then show ?thesis using scan6_Some by blast
qed

lemma alloc_loop_Inr:
  "alloc_loop cs used = Inr r \<Longrightarrow> \<exists>(x, n)\<in>set cs. alloc_in n used = Some r"
  by (induction cs) (auto split: option.splits)

lemma alloc_loop_Inl:
  "alloc_loop cs used = Inl e \<Longrightarrow> (x, n) \<in> set cs \<Longrightarrow> alloc_in n used = None"
  by (induction cs) (auto split: option.splits)

lemma alloc_in_complete:
  assumes "cand_ok (x, n)" "length (net_Mask n) = 4" "fst (Mask_Size (net_Mask n)) \<le> 30"
    "host_of n y" "IP_String y \<notin> set used"
  shows "alloc_in n used \<noteq> None"
proof -
  note nb = network_below_broadcast [OF assms(1,2,3)] and fh = first_host [OF assms(1,2,3)]
  have "scan4 n (lastIPv4 n) used (incIP (net_IP n)) \<noteq> None"
    using assms(4,5) nb fh by (intro scan4_complete [of _ _ y]) (auto simp: host_of_def)
  then show ?thesis
    using assms(2,3) nb by (subst alloc_in_def, subst Mask_Size_bits) auto
qed

lemma set_add_hosts: "set (fold add_host xs used) = set used \<union> {h. \<exists>s\<in>set xs. NormalizeHostIP s = Inr h}"
  by (induction xs arbitrary: used) (auto simp: add_host_def split: sum.splits)

lemma fold_if_filter: "fold (\<lambda>a. if P a then f a else id) xs = fold f (filter P xs)"
  by (induction xs) auto

text \<open>The used hosts are the normal forms of all addresses, assigned addresses and host networks.\<close>

lemma set_CollectUsedHosts:
  "set (CollectUsedHosts addrs assigned allowed) = {h. \<exists>s\<in>set addrs \<union> set (concat assigned)
     \<union> {a \<in> set (concat allowed). suffix ''/32'' a \<or> suffix ''/128'' a \<or> CHR ''/'' \<notin> set a}. NormalizeHostIP s = Inr h}"
  unfolding CollectUsedHosts_def fold_if_filter set_add_hosts by auto

lemma alloc_spec:
  assumes "AllocateNextHost ifaceAddrs used = (Inr (s, c), used')"
  shows "s \<notin> set used \<and> (\<forall>(x, n)\<in>set (pool ifaceAddrs). s \<noteq> IP_String x)
    \<and> (\<exists>(x, n)\<in>set (pool ifaceAddrs).
        (length (net_Mask n) = 4 \<and> c = s @ ''/32'' \<and> (\<exists>y. host_of n y \<and> s = IP_String y))
        \<or> (length (net_Mask n) = 16 \<and> c = s @ ''/128'' \<and> (\<exists>y. Contains n y \<and> s = IP_String y)))"
proof -
  obtain cs u where g: "gather ifaceAddrs used = (cs, u)" by (cases "gather ifaceAddrs used")
  have p: "cs = pool ifaceAddrs" using pool_gather [of ifaceAddrs used] g by simp
  have u: "set u = set used \<union> (\<lambda>(x, n). IP_String x) ` set (pool ifaceAddrs)"
    using gather_used [of ifaceAddrs used] g p by simp
  have "alloc_loop (v4_first cs) u = Inr (s, c)"
    using assms g by (auto simp: AllocateNextHost_def split: if_splits)
  then obtain x n where n: "(x, n) \<in> set (pool ifaceAddrs)" "alloc_in n u = Some (s, c)"
    using alloc_loop_Inr [of "v4_first cs" u "(s, c)"] p by (auto simp: v4_first_def)
  have ok: "cand_ok (x, n)" using gather_cand [of "(x, n)" ifaceAddrs "[]"] n(1) by (simp add: pool_def)
  have a: "s \<notin> set u" using alloc_in_Some [OF n(2) ok] by blast
  have "s \<notin> set used" "\<forall>(x, n)\<in>set (pool ifaceAddrs). s \<noteq> IP_String x" using a u by auto
  then show ?thesis using alloc_in_Some [OF n(2) ok] n(1) by blast
qed

text \<open>
  An address the allocator hands out is free and usable: it is not among the used hosts and not
  an address of the interface itself; it is a host strictly between network and broadcast address
  of one of the interface's IPv4 subnets, with a /32 as its CIDR, or it lies in one of the
  interface's IPv6 subnets, with a /128.
\<close>

theorem alloc_sound:
  assumes "AllocateNextHost ifaceAddrs used = (Inr (s, c), used')"
  shows "s \<notin> set used \<and> (\<forall>(x, n)\<in>set (pool ifaceAddrs). s \<noteq> IP_String x)
    \<and> (\<exists>(x, n)\<in>set (pool ifaceAddrs).
        (length (net_Mask n) = 4 \<and> c = s @ ''/32'' \<and> (\<exists>y. host_of n y \<and> s = IP_String y))
        \<or> (length (net_Mask n) = 16 \<and> c = s @ ''/128'' \<and> (\<exists>y. Contains n y \<and> s = IP_String y)))"
  by (rule alloc_spec [OF assms])

theorem alloc_sound_witness:
  "''10.0.0.3'' \<notin> set [''10.0.0.2''] \<union> (\<lambda>(x, n). IP_String x) ` set (pool [''10.0.0.1/24''])"
proof -
  have "AllocateNextHost [''10.0.0.1/24''] [''10.0.0.2''] =
      (Inr (''10.0.0.3'', ''10.0.0.3/32''), [''10.0.0.1'', ''10.0.0.2''])" by code_simp
  from alloc_sound [OF this] show ?thesis by auto
qed

text \<open>
  The allocator does not give up early: if some IPv4 subnet of the interface (of at most 30 bits)
  has a host between its network and broadcast address that is neither used nor the interface's
  own, an address is returned.
\<close>

theorem alloc_complete:
  assumes "(x, n) \<in> set (pool ifaceAddrs)" and "length (net_Mask n) = 4"
    and "fst (Mask_Size (net_Mask n)) \<le> 30" and "host_of n y" and "IP_String y \<notin> set used"
    and "\<forall>(x, n)\<in>set (pool ifaceAddrs). IP_String y \<noteq> IP_String x"
  shows "\<exists>s c. fst (AllocateNextHost ifaceAddrs used) = Inr (s, c)"
proof (rule ccontr)
  assume no: "\<nexists>s c. fst (AllocateNextHost ifaceAddrs used) = Inr (s, c)"
  obtain cs u where g: "gather ifaceAddrs used = (cs, u)" by (cases "gather ifaceAddrs used")
  have p: "cs = pool ifaceAddrs" using pool_gather [of ifaceAddrs used] g by simp
  have u: "set u = set used \<union> (\<lambda>(x, n). IP_String x) ` set (pool ifaceAddrs)"
    using gather_used [of ifaceAddrs used] g p by simp
  then have y: "IP_String y \<notin> set u" using assms(5,6) by auto
  have ne: "cs \<noteq> []" using assms(1) p by auto
  then have "fst (AllocateNextHost ifaceAddrs used) = alloc_loop (v4_first cs) u"
    using g by (simp add: AllocateNextHost_def)
  with no obtain e where "alloc_loop (v4_first cs) u = Inl e"
    by (cases "alloc_loop (v4_first cs) u") auto
  from alloc_loop_Inl [OF this, of x n] assms(1) p have "alloc_in n u = None" by (simp add: v4_first_def)
  moreover have "cand_ok (x, n)" using gather_cand [of "(x, n)" ifaceAddrs "[]"] assms(1) by (simp add: pool_def)
  ultimately show False using alloc_in_complete [OF _ assms(2,3,4) y] by blast
qed

theorem alloc_complete_witness:
  "\<exists>s c. fst (AllocateNextHost [''10.0.0.1/29''] [''10.0.0.2'']) = Inr (s, c)"
proof -
  let ?n = "\<lparr>net_IP = [10, 0, 0, 0], net_Mask = [255, 255, 255, 248]\<rparr> :: IPNet"
  let ?x = "v4InV6Prefix @ [10, 0, 0, 1]"
  have p: "pool [''10.0.0.1/29''] = [(?x, ?n)]" by code_simp
  have l: "lastIPv4 ?n = [10, 0, 0, 7]" by code_simp
  have o: "fst (Mask_Size (net_Mask ?n)) \<le> 30" by code_simp
  have c: "Contains ?n [10, 0, 0, 3]" by code_simp
  have h: "host_of ?n [10, 0, 0, 3]" using c by (simp add: host_of_def l)
  have s: "IP_String [10, 0, 0, 3] = ''10.0.0.3''" "IP_String ?x = ''10.0.0.1''" by code_simp+
  show ?thesis
    using alloc_complete [of ?x ?n "[''10.0.0.1/29'']" "[10, 0, 0, 3]" "[''10.0.0.2'']"] p o h s by simp
qed

text \<open>
  An interface address written as an IPv4-mapped IPv6 address is taken for an IPv6 pool, but
  the address handed out prints as a dotted quad: the CIDR returned with it is one that
  \<open>ValidateCIDR\<close> rejects.
\<close>

theorem alloc_mapped_invalid:
  "fst (AllocateNextHost [''::ffff:10.0.0.1/120''] []) = Inr (''10.0.0.2'', ''10.0.0.2/128'')
   \<and> ValidateCIDR ''10.0.0.2/128'' \<noteq> None"
  by code_simp

text \<open>The reserved names are those that start with \<open>mesh\<close> once blanks are trimmed.\<close>

lemma reserved_iff: "ReservedHostInterface t \<longleftrightarrow> prefix ''mesh'' (TrimSpace t)"
  by (auto simp: ReservedHostInterface_def Let_def)

end
