(* ===== verification/Store.thy ===== *)
theory Store
  imports Models "HOL-Library.Product_Lexorder"
begin

text \<open>
  The two SQLite databases (\<open>internal/db\<close>) as lists of rows with the constraints of the schema
  (\<open>migrations/\<close>): AUTOINCREMENT keys, the unique interface names, the unique public keys within an
  interface, the foreign key of peers with its cascade.  A failing statement leaves the store
  unchanged; failures of the disk and cancelled contexts are not modelled.  The JSON columns hold
  the lists themselves and creation times are kept as times, but the sample and event times are the
  strings the code stores, because the queries compare them as strings.
\<close>

section \<open>Tables\<close>

datatype db_error = NotFound | UniqueFailed | ForeignKeyFailed

record event_row =
  er_ID :: int
  er_TS :: string
  er_Level :: string
  er_Kind :: string
  er_Interface :: string
  er_Peer :: string
  er_Message :: string
  er_Meta :: string

record sample_row =
  sr_ID :: int
  sr_PeerID :: int
  sr_At :: string
  sr_Rx :: int
  sr_Tx :: int
  sr_RxBps :: real
  sr_TxBps :: real

type_synonym hook_call = "string \<times> string \<times> string \<times> string \<times> string \<times> string"

record store =
  s_ifaces :: "db_interface list"
  s_peers :: "db_peer list"
  s_events :: "event_row list"
  s_samples :: "sample_row list"
  s_iface_seq :: int
  s_peer_seq :: int
  s_event_seq :: int
  s_sample_seq :: int
  s_hook :: bool
  s_hook_log :: "hook_call list"

definition empty_store :: store where
  "empty_store = \<lparr>s_ifaces = [], s_peers = [], s_events = [], s_samples = [], s_iface_seq = 0,
     s_peer_seq = 0, s_event_seq = 0, s_sample_seq = 0, s_hook = False, s_hook_log = []\<rparr>"

text \<open>\<open>UPDATE ... WHERE id = ?\<close>, on rows with a key.\<close>

definition upd_where :: "('r \<Rightarrow> int) \<Rightarrow> int \<Rightarrow> ('r \<Rightarrow> 'r) \<Rightarrow> 'r list \<Rightarrow> 'r list" where
  "upd_where key k f rs = map (\<lambda>r. if key r = k then f r else r) rs"

definition parseTime :: "string \<Rightarrow> gotime" where
  "parseTime s = (if s = [] then 0 else (case ParseRFC3339 s of Some t \<Rightarrow> t | None \<Rightarrow> 0))"

section \<open>Interfaces\<close>

definition iface_defaults :: "db_interface \<Rightarrow> db_interface" where
  "iface_defaults i = i\<lparr>
     i_Backend := (if i_Backend i = [] then ''auto'' else i_Backend i),
     i_Protocol := (if i_Protocol i = [] then ''wg'' else i_Protocol i)\<rparr>"

definition table_default :: "db_interface \<Rightarrow> db_interface" where
  "table_default i = i\<lparr>i_TableMode := (if i_TableMode i = [] then ''auto'' else i_TableMode i)\<rparr>"

definition scanInterface :: "db_interface \<Rightarrow> db_interface" where
  "scanInterface i = iface_defaults i"

definition insert_iface :: "gotime \<Rightarrow> db_interface \<Rightarrow> store \<Rightarrow> db_interface \<times> store" where
  "insert_iface now i st =
     (let k = s_iface_seq st + 1;
          r = i\<lparr>i_ID := k, i_CreatedAt := now, i_UpdatedAt := now\<rparr>
      in (r, st\<lparr>s_ifaces := s_ifaces st @ [r], s_iface_seq := k\<rparr>))"

definition CreateInterface :: "gotime \<Rightarrow> db_interface \<Rightarrow> store \<Rightarrow> (db_error + db_interface) \<times> store" where
  "CreateInterface now i0 st =
     (let i = iface_defaults (table_default i0) in
      if list_ex (\<lambda>r. i_Name r = i_Name i) (s_ifaces st) then (Inl UniqueFailed, st)
      else (let (r, st') = insert_iface now i st in (Inr r, st')))"

definition GetInterfaceByName :: "string \<Rightarrow> store \<Rightarrow> db_error + db_interface" where
  "GetInterfaceByName name st =
     (case find (\<lambda>r. i_Name r = name) (s_ifaces st) of None \<Rightarrow> Inl NotFound
      | Some r \<Rightarrow> Inr (scanInterface r))"

definition GetInterfaceByID :: "int \<Rightarrow> store \<Rightarrow> db_error + db_interface" where
  "GetInterfaceByID k st =
     (case find (\<lambda>r. i_ID r = k) (s_ifaces st) of None \<Rightarrow> Inl NotFound
      | Some r \<Rightarrow> Inr (scanInterface r))"

definition ListInterfaces :: "store \<Rightarrow> db_interface list" where
  "ListInterfaces st = map scanInterface (sort_key i_Name (s_ifaces st))"

text \<open>The columns the update statement does not name keep the values of the row.\<close>

definition update_iface_row :: "gotime \<Rightarrow> db_interface \<Rightarrow> db_interface \<Rightarrow> db_interface" where
  "update_iface_row now i r = i\<lparr>i_ID := i_ID r, i_Name := i_Name r, i_CreatedAt := i_CreatedAt r,
     i_UpdatedAt := now\<rparr>"

definition UpdateInterface :: "gotime \<Rightarrow> db_interface \<Rightarrow> store \<Rightarrow> (db_error + db_interface) \<times> store" where
  "UpdateInterface now i0 st =
     (let i = iface_defaults i0 in
      if list_ex (\<lambda>r. i_ID r = i_ID i) (s_ifaces st) then
        (Inr (i\<lparr>i_UpdatedAt := now\<rparr>),
         st\<lparr>s_ifaces := upd_where i_ID (i_ID i) (update_iface_row now i) (s_ifaces st)\<rparr>)
      else (Inl NotFound, st))"

section \<open>Peers: reading\<close>

definition iface_name_of :: "store \<Rightarrow> int \<Rightarrow> string option" where
  "iface_name_of st k = map_option i_Name (find (\<lambda>i. i_ID i = k) (s_ifaces st))"

text \<open>\<open>FROM peers p JOIN interfaces i ON i.id = p.interface_id\<close>\<close>

definition join_peers :: "store \<Rightarrow> db_peer list" where
  "join_peers st = concat (map (\<lambda>p. case iface_name_of st (p_InterfaceID p) of None \<Rightarrow> []
     | Some n \<Rightarrow> [p\<lparr>p_InterfaceName := n\<rparr>]) (s_peers st))"

definition GetPeerRow :: "string \<Rightarrow> string \<Rightarrow> store \<Rightarrow> db_error + db_peer" where
  "GetPeerRow ifaceName pub st =
     (case find (\<lambda>p. p_InterfaceName p = ifaceName \<and> p_PublicKey p = pub) (join_peers st) of
        None \<Rightarrow> Inl NotFound | Some p \<Rightarrow> Inr p)"

definition ListPeersByInterface :: "string \<Rightarrow> store \<Rightarrow> db_peer list" where
  "ListPeersByInterface ifaceName st =
     sort_key (\<lambda>p. (p_Name p, p_PublicKey p)) (filter (\<lambda>p. p_InterfaceName p = ifaceName) (join_peers st))"

definition ListAllPeers :: "store \<Rightarrow> db_peer list" where
  "ListAllPeers st = sort_key (\<lambda>p. (p_InterfaceName p, p_Name p, p_PublicKey p)) (join_peers st)"

section \<open>Samples\<close>

definition sample_row_of :: "int \<Rightarrow> traffic_sample \<Rightarrow> sample_row" where
  "sample_row_of k s = \<lparr>sr_ID = k, sr_PeerID = ts_PeerID s, sr_At = FormatNano (ts_SampledAt s),
     sr_Rx = ts_RxBytes s, sr_Tx = ts_TxBytes s, sr_RxBps = ts_RxBps s, sr_TxBps = ts_TxBps s\<rparr>"

definition scanSample :: "sample_row \<Rightarrow> traffic_sample" where
  "scanSample r = \<lparr>ts_ID = sr_ID r, ts_PeerID = sr_PeerID r, ts_SampledAt = parseTime (sr_At r),
     ts_RxBytes = sr_Rx r, ts_TxBytes = sr_Tx r, ts_RxBps = sr_RxBps r, ts_TxBps = sr_TxBps r\<rparr>"

fun InsertSamples :: "traffic_sample list \<Rightarrow> store \<Rightarrow> store" where
  "InsertSamples [] st = st"
| "InsertSamples (s # ss) st =
     (let k = s_sample_seq st + 1
      in InsertSamples ss (st\<lparr>s_samples := s_samples st @ [sample_row_of k s], s_sample_seq := k\<rparr>))"

definition InsertSample :: "traffic_sample \<Rightarrow> store \<Rightarrow> store" where
  "InsertSample s st = InsertSamples [s] st"

text \<open>\<open>DELETE ... WHERE id IN (SELECT id ... WHERE p LIMIT batch)\<close>: the rows left and their number.\<close>

fun delete_batch :: "('r \<Rightarrow> bool) \<Rightarrow> nat \<Rightarrow> 'r list \<Rightarrow> 'r list \<times> nat" where
  "delete_batch p 0 rs = (rs, 0)"
| "delete_batch p k [] = ([], 0)"
| "delete_batch p (Suc k) (r # rs) =
     (if p r then (let (rs', n) = delete_batch p k rs in (rs', n + 1))
      else (let (rs', n) = delete_batch p (Suc k) rs in (r # rs', n)))"

lemma delete_batch_length: "delete_batch p k rs = (rs', n) \<Longrightarrow> length rs = length rs' + n \<and> n \<le> k"
  by (induction p k rs arbitrary: rs' n rule: delete_batch.induct)
    (auto simp: Let_def split: if_splits prod.splits)

text \<open>The loop \<open>for \{ delete a batch; if n < batch \{ break \} \}\<close>.\<close>

function purge_loop :: "('r \<Rightarrow> bool) \<Rightarrow> nat \<Rightarrow> nat \<Rightarrow> 'r list \<Rightarrow> 'r list \<times> nat" where
  "purge_loop p batch acc rs =
     (let (rs', n) = delete_batch p (Suc batch) rs
      in if n < Suc batch then (rs', acc + n) else purge_loop p batch (acc + n) rs')"
  by pat_completeness auto
termination
  by (relation "measure (\<lambda>(p, batch, acc, rs). length rs)") (auto dest: delete_batch_length [OF sym])

declare purge_loop.simps [simp del]

definition batch_pred :: nat where
  "batch_pred = 4999"

definition PurgeSamples :: "gotime \<Rightarrow> duration \<Rightarrow> store \<Rightarrow> nat \<times> store" where
  "PurgeSamples now olderThan st =
     (let cutoff = FormatNano (now - olderThan);
          (rs, n) = purge_loop (\<lambda>r. sr_At r < cutoff) batch_pred 0 (s_samples st)
      in (n, st\<lparr>s_samples := rs\<rparr>))"

text \<open>One slice of \<open>ThinSamples\<close>: the rows in it that are not the newest of their peer and bucket.\<close>

definition bucket :: "sample_row \<Rightarrow> int \<times> string" where
  "bucket r = (sr_PeerID r, take 15 (sr_At r))"

definition in_slice :: "string \<Rightarrow> string \<Rightarrow> sample_row \<Rightarrow> bool" where
  "in_slice a b r \<longleftrightarrow> a \<le> sr_At r \<and> sr_At r < b"

definition thin_slice :: "string \<Rightarrow> string \<Rightarrow> sample_row list \<Rightarrow> sample_row list" where
  "thin_slice a b rs = filter (\<lambda>r. \<not> (in_slice a b r \<and>
     list_ex (\<lambda>r'. in_slice a b r' \<and> bucket r' = bucket r \<and> sr_ID r < sr_ID r') rs)) rs"

function thin_loop :: "gotime \<Rightarrow> gotime \<Rightarrow> sample_row list \<Rightarrow> sample_row list" where
  "thin_loop lo hi rs =
     (if lo < hi then
        (let up = (if lo + Hour > hi then hi else lo + Hour)
         in thin_loop (lo + Hour) hi (thin_slice (FormatSecs lo) (FormatSecs up) rs))
      else rs)"
  by pat_completeness auto
termination
  by (relation "measure (\<lambda>(lo, hi, rs). nat (hi - lo))") (auto simp: Hour_def)

declare thin_loop.simps [simp del]

definition ThinSamples :: "gotime \<Rightarrow> gotime \<Rightarrow> store \<Rightarrow> nat \<times> store" where
  "ThinSamples from to st =
     (let rs = thin_loop from to (s_samples st)
      in (length (s_samples st) - length rs, st\<lparr>s_samples := rs\<rparr>))"

definition DeletePeerSamples :: "int \<Rightarrow> store \<Rightarrow> store" where
  "DeletePeerSamples k st = st\<lparr>s_samples := filter (\<lambda>r. sr_PeerID r \<noteq> k) (s_samples st)\<rparr>"

definition DeletePeersSamples :: "int list \<Rightarrow> store \<Rightarrow> store" where
  "DeletePeersSamples ks st = fold DeletePeerSamples ks st"

text \<open>\<open>ORDER BY sampled_at DESC LIMIT 1\<close>; of equal times the first stored.\<close>

definition SampleAtOrBefore :: "int \<Rightarrow> gotime \<Rightarrow> store \<Rightarrow> db_error + traffic_sample" where
  "SampleAtOrBefore k t st =
     (case foldl (\<lambda>best r. if sr_PeerID r = k \<and> sr_At r \<le> FormatNano t
          \<and> (case best of None \<Rightarrow> True | Some b \<Rightarrow> sr_At b < sr_At r) then Some r else best)
        None (s_samples st) of
        None \<Rightarrow> Inl NotFound | Some r \<Rightarrow> Inr (scanSample r))"

definition ListPeerSamples :: "int \<Rightarrow> gotime \<Rightarrow> gotime \<Rightarrow> int \<Rightarrow> store \<Rightarrow> traffic_sample list" where
  "ListPeerSamples k from to limit0 st =
     (let limit1 = (if limit0 \<le> 0 then 1000 else limit0);
          limit = (if limit1 > 10000 then 10000 else limit1)
      in map scanSample (take (nat limit) (sort_key sr_At
           (filter (\<lambda>r. sr_PeerID r = k \<and> FormatNano from \<le> sr_At r \<and> sr_At r \<le> FormatNano to)
             (s_samples st)))))"

definition PeerWindowBaselines ::
    "int \<Rightarrow> (string \<times> gotime) list \<Rightarrow> store \<Rightarrow> (string \<times> traffic_sample) list" where
  "PeerWindowBaselines k cutoffs st =
     concat (map (\<lambda>(name, t). case SampleAtOrBefore k t st of Inl _ \<Rightarrow> [] | Inr s \<Rightarrow> [(name, s)]) cutoffs)"

section \<open>Interfaces and peers: writing\<close>

definition DeleteInterface :: "string \<Rightarrow> store \<Rightarrow> (db_error + unit) \<times> store" where
  "DeleteInterface name st =
     (let ids = map p_ID (ListPeersByInterface name st);
          dead = map i_ID (filter (\<lambda>i. i_Name i = name) (s_ifaces st))
      in if dead = [] then (Inl NotFound, st)
         else (Inr (), DeletePeersSamples ids (st\<lparr>
             s_ifaces := filter (\<lambda>i. i_Name i \<noteq> name) (s_ifaces st),
             s_peers := filter (\<lambda>p. p_InterfaceID p \<notin> set dead) (s_peers st)\<rparr>)))"

definition insert_peer :: "gotime \<Rightarrow> db_peer \<Rightarrow> store \<Rightarrow> db_peer \<times> store" where
  "insert_peer now p st =
     (let k = s_peer_seq st + 1;
          r = p\<lparr>p_ID := k, p_CreatedAt := now, p_UpdatedAt := now\<rparr>
      in (r, st\<lparr>s_peers := s_peers st @ [r], s_peer_seq := k\<rparr>))"

definition CreatePeer :: "gotime \<Rightarrow> db_peer \<Rightarrow> store \<Rightarrow> (db_error + db_peer) \<times> store" where
  "CreatePeer now p st =
     (if list_ex (\<lambda>r. p_InterfaceID r = p_InterfaceID p \<and> p_PublicKey r = p_PublicKey p) (s_peers st)
      then (Inl UniqueFailed, st)
      else if \<not> list_ex (\<lambda>i. i_ID i = p_InterfaceID p) (s_ifaces st) then (Inl ForeignKeyFailed, st)
      else (let (r, st') = insert_peer now p st in (Inr r, st')))"

text \<open>The columns of \<open>UpdatePeer\<close>: configuration and policy, not what \<open>UpdatePeerStats\<close> owns.\<close>

definition update_peer_row :: "gotime \<Rightarrow> db_peer \<Rightarrow> db_peer \<Rightarrow> db_peer" where
  "update_peer_row now p r = r\<lparr>p_PublicKey := p_PublicKey p, p_PresharedKey := p_PresharedKey p,
     p_ClientPrivateKey := p_ClientPrivateKey p, p_Name := p_Name p, p_Notes := p_Notes p,
     p_AllowedIPs := p_AllowedIPs p, p_AssignedIPs := p_AssignedIPs p, p_Endpoint := p_Endpoint p,
     p_PersistentKeepalive := p_PersistentKeepalive p, p_Suspended := p_Suspended p,
     p_TrafficLimitBytes := p_TrafficLimitBytes p, p_ExpiresAt := p_ExpiresAt p,
     p_BandwidthRxBps := p_BandwidthRxBps p, p_BandwidthTxBps := p_BandwidthTxBps p,
     p_BandwidthTotalBps := p_BandwidthTotalBps p, p_RxBytesOffset := p_RxBytesOffset p,
     p_TxBytesOffset := p_TxBytesOffset p, p_Tags := p_Tags p, p_UpdatedAt := now\<rparr>"

definition UpdatePeer :: "gotime \<Rightarrow> db_peer \<Rightarrow> store \<Rightarrow> (db_error + db_peer) \<times> store" where
  "UpdatePeer now p st =
     (case find (\<lambda>r. p_ID r = p_ID p) (s_peers st) of
        None \<Rightarrow> (Inl NotFound, st)
      | Some old \<Rightarrow>
        (if list_ex (\<lambda>r. p_ID r \<noteq> p_ID p \<and> p_InterfaceID r = p_InterfaceID old
              \<and> p_PublicKey r = p_PublicKey p) (s_peers st)
         then (Inl UniqueFailed, st)
         else (Inr (p\<lparr>p_UpdatedAt := now\<rparr>),
               st\<lparr>s_peers := upd_where p_ID (p_ID p) (update_peer_row now p) (s_peers st)\<rparr>)))"

definition DeletePeer :: "string \<Rightarrow> string \<Rightarrow> store \<Rightarrow> (db_error + unit) \<times> store" where
  "DeletePeer ifaceName pub st =
     (case GetPeerRow ifaceName pub st of
        Inl e \<Rightarrow> (Inl e, st)
      | Inr p \<Rightarrow> (Inr (), DeletePeerSamples (p_ID p)
          (st\<lparr>s_peers := filter (\<lambda>r. p_ID r \<noteq> p_ID p) (s_peers st)\<rparr>)))"

definition update_stats_row :: "gotime \<Rightarrow> db_peer \<Rightarrow> db_peer \<Rightarrow> db_peer" where
  "update_stats_row now p r = r\<lparr>p_FirstHandshakeAt := p_FirstHandshakeAt p,
     p_LastHandshakeAt := p_LastHandshakeAt p, p_ConnectedSince := p_ConnectedSince p,
     p_LastEndpoint := p_LastEndpoint p, p_LastRxBytes := p_LastRxBytes p,
     p_LastTxBytes := p_LastTxBytes p, p_LastRxBps := p_LastRxBps p, p_LastTxBps := p_LastTxBps p,
     p_UpdatedAt := now\<rparr>"

definition UpdatePeerStats :: "gotime \<Rightarrow> db_peer \<Rightarrow> store \<Rightarrow> store" where
  "UpdatePeerStats now p st =
     st\<lparr>s_peers := upd_where p_ID (p_ID p) (update_stats_row now p) (s_peers st)\<rparr>"

definition SetPeerSuspended :: "gotime \<Rightarrow> int \<Rightarrow> bool \<Rightarrow> store \<Rightarrow> (db_error + unit) \<times> store" where
  "SetPeerSuspended now k b st =
     (if list_ex (\<lambda>r. p_ID r = k) (s_peers st) then
        (Inr (), st\<lparr>s_peers := upd_where p_ID k (\<lambda>r. r\<lparr>p_Suspended := b, p_UpdatedAt := now\<rparr>) (s_peers st)\<rparr>)
      else (Inl NotFound, st))"

definition SoftResetPeerTraffic :: "gotime \<Rightarrow> int \<Rightarrow> int \<Rightarrow> int \<Rightarrow> store \<Rightarrow> (db_error + unit) \<times> store" where
  "SoftResetPeerTraffic now k rx tx st =
     (if list_ex (\<lambda>r. p_ID r = k) (s_peers st) then
        (Inr (), st\<lparr>s_peers := upd_where p_ID k
           (\<lambda>r. r\<lparr>p_RxBytesOffset := rx, p_TxBytesOffset := tx, p_UpdatedAt := now\<rparr>) (s_peers st)\<rparr>)
      else (Inl NotFound, st))"

text \<open>The peers of an import, inserted one after the other into the transaction's state.\<close>

fun import_peers :: "gotime \<Rightarrow> int \<Rightarrow> db_peer list \<Rightarrow> store \<Rightarrow> db_error + store" where
  "import_peers now k [] st = Inr st"
| "import_peers now k (p # ps) st =
     (case CreatePeer now (p\<lparr>p_InterfaceID := k\<rparr>) st of
        (Inl e, _) \<Rightarrow> Inl e
      | (Inr _, st') \<Rightarrow> import_peers now k ps st')"

definition import_iface :: "gotime \<Rightarrow> db_interface \<Rightarrow> store \<Rightarrow> int \<times> store" where
  "import_iface now i0 st =
     (let i = iface_defaults (table_default i0) in
      case find (\<lambda>r. i_Name r = i_Name i) (s_ifaces st) of
        None \<Rightarrow> (let (r, st') = insert_iface now i st in (i_ID r, st'))
      | Some r \<Rightarrow> (i_ID r, st\<lparr>s_ifaces := upd_where i_ID (i_ID r) (update_iface_row now i) (s_ifaces st)\<rparr>))"

definition ImportInterface :: "gotime \<Rightarrow> db_interface \<Rightarrow> db_peer list \<Rightarrow> store \<Rightarrow> (db_error + unit) \<times> store" where
  "ImportInterface now i peers st =
     (let stale = map p_ID (ListPeersByInterface (i_Name i) st);
          (k, st1) = import_iface now i st;
          st2 = st1\<lparr>s_peers := filter (\<lambda>p. p_InterfaceID p \<noteq> k) (s_peers st1)\<rparr>
      in case import_peers now k peers st2 of
           Inl e \<Rightarrow> (Inl e, st)
         | Inr st3 \<Rightarrow> (Inr (), DeletePeersSamples stale st3))"

section \<open>Events\<close>

definition SetEventHook :: "store \<Rightarrow> store" where
  "SetEventHook st = st\<lparr>s_hook := True\<rparr>"

definition AddEvent :: "gotime \<Rightarrow> string \<Rightarrow> string \<Rightarrow> string \<Rightarrow> string \<Rightarrow> string \<Rightarrow> string \<Rightarrow> store \<Rightarrow> store" where
  "AddEvent now level kind iface peerKey message meta0 st =
     (let meta = (if meta0 = [] then ''{}'' else meta0);
          k = s_event_seq st + 1;
          row = \<lparr>er_ID = k, er_TS = FormatNano now, er_Level = level, er_Kind = kind,
            er_Interface = iface, er_Peer = peerKey, er_Message = message, er_Meta = meta\<rparr>
      in st\<lparr>s_events := s_events st @ [row], s_event_seq := k,
            s_hook_log := (if s_hook st then s_hook_log st @ [(level, kind, iface, peerKey, message, meta)]
              else s_hook_log st)\<rparr>)"

definition PurgeEvents :: "gotime \<Rightarrow> duration \<Rightarrow> store \<Rightarrow> nat \<times> store" where
  "PurgeEvents now olderThan st =
     (let cutoff = FormatNano (now - olderThan);
          (rs, n) = purge_loop (\<lambda>r. er_TS r < cutoff) batch_pred 0 (s_events st)
      in (n, st\<lparr>s_events := rs\<rparr>))"

definition ListEvents :: "gotime \<Rightarrow> int \<Rightarrow> store \<Rightarrow> db_event list" where
  "ListEvents now limit0 st =
     (let limit = (if limit0 \<le> 0 then 100 else limit0)
      in map (\<lambda>r. let t = parseTime (er_TS r) in
           \<lparr>e_ID = er_ID r, e_TS = (if IsZero t then now else t), e_Level = er_Level r, e_Kind = er_Kind r,
            e_Interface = er_Interface r, e_PeerPublicKey = er_Peer r, e_Message = er_Message r,
            e_Meta = er_Meta r\<rparr>) (take (nat limit) (rev (sort_key er_ID (s_events st)))))"

end
