(* ===== verification/StoreLaws.thy ===== *)
theory StoreLaws
  imports Store
begin

text \<open>
  What the database guarantees: the integrity invariant of the four tables over every sequence of
  operations, the atomic replacement of an import, the division of a peer's columns between the API
  and the sampler, the cascade of a deletion, and the retention of samples.
\<close>

section \<open>Tables with a growing key\<close>

definition table_ok :: "('r \<Rightarrow> int) \<Rightarrow> int \<Rightarrow> 'r list \<Rightarrow> bool" where
  "table_ok key sq rs \<longleftrightarrow> sorted_wrt (<) (map key rs) \<and> (\<forall>r\<in>set rs. 1 \<le> key r \<and> key r \<le> sq) \<and> 0 \<le> sq"

named_theorems table_intros \<open>operations that keep a table well formed\<close>

lemma table_ok_append [table_intros]:
  "table_ok key sq rs \<Longrightarrow> key r = sq + 1 \<Longrightarrow> table_ok key (sq + 1) (rs @ [r])"
  by (auto simp: table_ok_def sorted_wrt_append)

lemma table_ok_filter [table_intros]: "table_ok key sq rs \<Longrightarrow> table_ok key sq (filter P rs)"
  by (auto simp: table_ok_def sorted_wrt_map intro: sorted_wrt_filter)

lemma map_upd_where [simp]: "(\<And>r. g (f r) = g r) \<Longrightarrow> map g (upd_where key k f rs) = map g rs"
  by (simp add: upd_where_def)

lemma image_upd_where: "(\<And>r. g (f r) = g r) \<Longrightarrow> g ` set (upd_where key k f rs) = g ` set rs"
  by (metis list.set_map map_upd_where)

lemma set_upd_where: "set (upd_where key k f rs) = (\<lambda>r. if key r = k then f r else r) ` set rs"
  by (simp add: upd_where_def)

lemma table_ok_upd [table_intros]:
  "table_ok key sq rs \<Longrightarrow> (\<And>r. key (f r) = key r) \<Longrightarrow> table_ok key sq (upd_where key k f rs)"
  by (auto simp: table_ok_def set_upd_where)

lemma table_ok_distinct: "table_ok key sq rs \<Longrightarrow> distinct (map key rs)"
  using strict_sorted_iff by (auto simp: table_ok_def)

lemma table_ok_fresh: "table_ok key sq rs \<Longrightarrow> r \<in> set rs \<Longrightarrow> key r \<noteq> sq + 1"
  by (fastforce simp: table_ok_def)

lemma key_unique: "distinct (map key rs) \<Longrightarrow> r \<in> set rs \<Longrightarrow> r' \<in> set rs \<Longrightarrow> key r = key r' \<Longrightarrow> r = r'"
  by (simp add: distinct_map inj_on_def)

lemma distinct_upd_where:
  assumes "distinct (map g rs)" and "distinct (map key rs)"
    and "\<And>r r'. r \<in> set rs \<Longrightarrow> r' \<in> set rs \<Longrightarrow> key r = k \<Longrightarrow> key r' \<noteq> k \<Longrightarrow> g (f r) \<noteq> g r'"
  shows "distinct (map g (upd_where key k f rs))"
proof -
  have "inj_on (\<lambda>r. g (if key r = k then f r else r)) (set rs)"
  proof (rule inj_onI)
    fix x y
    assume x: "x \<in> set rs" and y: "y \<in> set rs"
      and e: "g (if key x = k then f x else x) = g (if key y = k then f y else y)"
    show "x = y"
    proof (cases "key x = key y")
      case True
      then show ?thesis using key_unique [OF assms(2) x y] by simp
    next
      case False
      with e assms(3) [OF x y] assms(3) [OF y x] have "g x = g y" by (auto split: if_splits)
      then show ?thesis using key_unique [OF assms(1) x y] by simp
    qed
  qed
  moreover have "distinct rs" using assms(1) by (simp add: distinct_map)
  ultimately show ?thesis by (simp add: upd_where_def distinct_map comp_def)
qed

lemma find_SomeD: "find P xs = Some x \<Longrightarrow> P x \<and> x \<in> set xs"
  by (induction xs) (auto split: if_splits)

lemma find_append: "find P (xs @ ys) = (case find P xs of None \<Rightarrow> find P ys | Some x \<Rightarrow> Some x)"
  by (induction xs) auto

lemma find_key:
  "distinct (map key rs) \<Longrightarrow> find (\<lambda>r. key r = k) rs = Some r \<longleftrightarrow> r \<in> set rs \<and> key r = k"
  by (induction rs) (auto simp: image_iff)

section \<open>Batched deletion\<close>

lemma delete_batch_spec:
  "delete_batch p k rs = (rs', n) \<Longrightarrow>
    filter (\<lambda>r. \<not> p r) rs' = filter (\<lambda>r. \<not> p r) rs
    \<and> length (filter p rs) = n + length (filter p rs')
    \<and> (n < k \<longrightarrow> filter p rs' = [])"
  by (induction p k rs arbitrary: rs' n rule: delete_batch.induct)
    (auto simp: Let_def split: if_splits prod.splits)

lemma purge_loop_eq:
  "purge_loop p b acc rs = (filter (\<lambda>r. \<not> p r) rs, acc + length (filter p rs))"
proof (induction p b acc rs rule: purge_loop.induct)
  case (1 p b acc rs)
  obtain rs' n where d: "delete_batch p (Suc b) rs = (rs', n)" by force
  note s = delete_batch_spec [OF d]
  show ?case
  proof (cases "n < Suc b")
    case True
    with s have "filter p rs' = []" by blast
    then have "filter (\<lambda>r. \<not> p r) rs' = rs'" by (simp add: filter_empty_conv filter_id_conv)
    with s True d \<open>filter p rs' = []\<close> show ?thesis by (subst purge_loop.simps) simp
  next
    case False
    with 1 [OF d [symmetric]] s d show ?thesis by (subst purge_loop.simps) simp
  qed
qed

section \<open>The integrity invariant\<close>

definition db_ok :: "store \<Rightarrow> bool" where
  "db_ok st \<longleftrightarrow> table_ok i_ID (s_iface_seq st) (s_ifaces st) \<and> table_ok p_ID (s_peer_seq st) (s_peers st)
     \<and> table_ok sr_ID (s_sample_seq st) (s_samples st) \<and> table_ok er_ID (s_event_seq st) (s_events st)
     \<and> distinct (map i_Name (s_ifaces st))
     \<and> distinct (map (\<lambda>p. (p_InterfaceID p, p_PublicKey p)) (s_peers st))
     \<and> p_InterfaceID ` set (s_peers st) \<subseteq> i_ID ` set (s_ifaces st)
     \<and> (\<forall>r\<in>set (s_samples st). sr_PeerID r \<le> s_peer_seq st)"

lemmas store_defs = Let_def insert_iface_def insert_peer_def CreateInterface_def UpdateInterface_def
  CreatePeer_def UpdatePeer_def DeletePeer_def UpdatePeerStats_def SetPeerSuspended_def
  SoftResetPeerTraffic_def DeletePeerSamples_def PurgeSamples_def ThinSamples_def AddEvent_def
  PurgeEvents_def SetEventHook_def

lemma empty_store_ok: "db_ok empty_store"
  by (simp add: db_ok_def empty_store_def table_ok_def)

lemma iface_defaults_simps [simp]:
  "i_ID (iface_defaults i) = i_ID i" "i_Name (iface_defaults i) = i_Name i"
  "i_ID (table_default i) = i_ID i" "i_Name (table_default i) = i_Name i"
  "i_ID (update_iface_row now i r) = i_ID r" "i_Name (update_iface_row now i r) = i_Name r"
  by (simp_all add: iface_defaults_def table_default_def update_iface_row_def)

lemma peer_row_simps [simp]:
  "p_ID (update_peer_row now p r) = p_ID r" "p_InterfaceID (update_peer_row now p r) = p_InterfaceID r"
  "p_PublicKey (update_peer_row now p r) = p_PublicKey p"
  "p_ID (update_stats_row now p r) = p_ID r" "p_InterfaceID (update_stats_row now p r) = p_InterfaceID r"
  "p_PublicKey (update_stats_row now p r) = p_PublicKey r"
  by (simp_all add: update_peer_row_def update_stats_row_def)

lemma insert_iface_ok:
  assumes "db_ok st" and "\<forall>r\<in>set (s_ifaces st). i_Name r \<noteq> i_Name i" and "insert_iface now i st = (r, st')"
  shows "db_ok st'"
proof -
  let ?r = "i\<lparr>i_ID := s_iface_seq st + 1, i_CreatedAt := now, i_UpdatedAt := now\<rparr>"
  have st': "st' = st\<lparr>s_ifaces := s_ifaces st @ [?r], s_iface_seq := s_iface_seq st + 1\<rparr>"
    using assms(3) by (auto simp: insert_iface_def Let_def)
  have "table_ok i_ID (s_iface_seq st + 1) (s_ifaces st @ [?r])"
    using assms(1) by (intro table_intros) (auto simp: db_ok_def)
  with assms show ?thesis by (auto simp: db_ok_def subset_insertI2 st')
qed

lemma CreateInterface_ok: "db_ok st \<Longrightarrow> db_ok (snd (CreateInterface now i st))"
proof -
  assume ok: "db_ok st"
  obtain r st' where ins: "insert_iface now (iface_defaults (table_default i)) st = (r, st')" by force
  show ?thesis using insert_iface_ok [OF ok _ ins] ok ins
    by (auto simp: CreateInterface_def Let_def list_ex_iff)
qed

lemma update_iface_ok:
  "db_ok st \<Longrightarrow> db_ok (st\<lparr>s_ifaces := upd_where i_ID k (update_iface_row now i) (s_ifaces st)\<rparr>)"
proof -
  assume a: "db_ok st"
  have "i_ID ` set (upd_where i_ID k (update_iface_row now i) (s_ifaces st)) = i_ID ` set (s_ifaces st)"
    by (simp add: image_upd_where)
  moreover have "table_ok i_ID (s_iface_seq st) (upd_where i_ID k (update_iface_row now i) (s_ifaces st))"
    using a by (intro table_intros) (auto simp: db_ok_def)
  ultimately show ?thesis using a by (simp add: db_ok_def)
qed

lemma UpdateInterface_ok: "db_ok st \<Longrightarrow> db_ok (snd (UpdateInterface now i st))"
  by (simp add: UpdateInterface_def Let_def update_iface_ok)

lemma DeletePeerSamples_ok: "db_ok st \<Longrightarrow> db_ok (DeletePeerSamples k st)"
  by (auto simp: db_ok_def DeletePeerSamples_def intro: table_intros)

lemma DeletePeersSamples_ok: "db_ok st \<Longrightarrow> db_ok (DeletePeersSamples ks st)"
  unfolding DeletePeersSamples_def by (induction ks arbitrary: st) (auto simp: DeletePeerSamples_ok)

lemma insert_peer_ok:
  assumes "db_ok st" and "insert_peer now p st = (r, st')" and "\<exists>i\<in>set (s_ifaces st). i_ID i = p_InterfaceID p"
    and "\<forall>r\<in>set (s_peers st). p_InterfaceID r = p_InterfaceID p \<longrightarrow> p_PublicKey r \<noteq> p_PublicKey p"
  shows "db_ok st'"
proof -
  let ?r = "p\<lparr>p_ID := s_peer_seq st + 1, p_CreatedAt := now, p_UpdatedAt := now\<rparr>"
  have st': "st' = st\<lparr>s_peers := s_peers st @ [?r], s_peer_seq := s_peer_seq st + 1\<rparr>"
    using assms(2) by (auto simp: insert_peer_def Let_def)
  have "\<forall>r\<in>set (s_samples st). sr_PeerID r \<le> s_peer_seq st + 1"
    using assms(1) by (fastforce simp: db_ok_def)
  moreover have "table_ok p_ID (s_peer_seq st + 1) (s_peers st @ [?r])"
    using assms(1) by (intro table_intros) (auto simp: db_ok_def)
  moreover have "p_InterfaceID p \<in> i_ID ` set (s_ifaces st)" using assms(3) by force
  ultimately show ?thesis using assms(1,4) by (auto simp: db_ok_def st')
qed

lemma CreatePeer_ok: "db_ok st \<Longrightarrow> db_ok (snd (CreatePeer now p st))"
proof -
  assume ok: "db_ok st"
  obtain r st' where ins: "insert_peer now p st = (r, st')" by force
  show ?thesis using insert_peer_ok [OF ok ins] ok ins
    by (auto simp: CreatePeer_def list_ex_iff)
qed

lemma delete_peers_ok: "db_ok st \<Longrightarrow> db_ok (st\<lparr>s_peers := filter P (s_peers st)\<rparr>)"
  by (auto simp: db_ok_def intro: table_intros distinct_map_filter)

lemma DeletePeer_ok: "db_ok st \<Longrightarrow> db_ok (snd (DeletePeer n k st))"
  by (auto simp: DeletePeer_def delete_peers_ok DeletePeerSamples_ok split: sum.splits)

lemma update_peers_ok:
  assumes "db_ok st" and "\<And>r. p_ID (f r) = p_ID r" and "\<And>r. p_InterfaceID (f r) = p_InterfaceID r"
    and "\<And>r. p_PublicKey (f r) = p_PublicKey r"
  shows "db_ok (st\<lparr>s_peers := upd_where p_ID k f (s_peers st)\<rparr>)"
proof -
  have "p_InterfaceID ` set (upd_where p_ID k f (s_peers st)) = p_InterfaceID ` set (s_peers st)"
    by (simp add: image_upd_where assms(3))
  moreover have "table_ok p_ID (s_peer_seq st) (upd_where p_ID k f (s_peers st))"
    using assms by (intro table_intros) (auto simp: db_ok_def)
  ultimately show ?thesis using assms by (simp add: db_ok_def)
qed

lemma UpdatePeerStats_ok: "db_ok st \<Longrightarrow> db_ok (UpdatePeerStats now p st)"
  by (simp add: UpdatePeerStats_def update_peers_ok)

lemma SetPeerSuspended_ok: "db_ok st \<Longrightarrow> db_ok (snd (SetPeerSuspended now k b st))"
  by (simp add: SetPeerSuspended_def update_peers_ok)

lemma SoftReset_ok: "db_ok st \<Longrightarrow> db_ok (snd (SoftResetPeerTraffic now k rx tx st))"
  by (simp add: SoftResetPeerTraffic_def update_peers_ok)

lemma UpdatePeer_ok:
  assumes "db_ok st"
  shows "db_ok (snd (UpdatePeer now p st))"
proof (cases "find (\<lambda>r. p_ID r = p_ID p) (s_peers st)")
  case None
  then show ?thesis using assms by (simp add: UpdatePeer_def)
next
  case (Some old)
  have d: "distinct (map p_ID (s_peers st))" using assms by (auto simp: db_ok_def intro: table_ok_distinct)
  have old: "old \<in> set (s_peers st)" "p_ID old = p_ID p" using Some find_key [OF d] by auto
  let ?ps = "upd_where p_ID (p_ID p) (update_peer_row now p) (s_peers st)"
  show ?thesis
  proof (cases "list_ex (\<lambda>r. p_ID r \<noteq> p_ID p \<and> p_InterfaceID r = p_InterfaceID old
      \<and> p_PublicKey r = p_PublicKey p) (s_peers st)")
    case True
    then show ?thesis using assms Some by (simp add: UpdatePeer_def)
  next
    case False
    have "distinct (map (\<lambda>p. (p_InterfaceID p, p_PublicKey p)) ?ps)"
    proof (rule distinct_upd_where [OF _ d])
      fix r r'
      assume r: "r \<in> set (s_peers st)" "r' \<in> set (s_peers st)" "p_ID r = p_ID p" "p_ID r' \<noteq> p_ID p"
      then have "r = old" using key_unique [OF d r(1) old(1)] old(2) by simp
      with r False show "(p_InterfaceID (update_peer_row now p r), p_PublicKey (update_peer_row now p r))
          \<noteq> (p_InterfaceID r', p_PublicKey r')" by (auto simp: list_ex_iff)
    qed (use assms in \<open>simp add: db_ok_def\<close>)
    moreover have "p_InterfaceID ` set ?ps = p_InterfaceID ` set (s_peers st)"
      by (simp add: image_upd_where)
    moreover have "table_ok p_ID (s_peer_seq st) ?ps"
      using assms by (intro table_intros) (auto simp: db_ok_def)
    ultimately have "db_ok (st\<lparr>s_peers := ?ps\<rparr>)" using assms by (simp add: db_ok_def)
    then show ?thesis using Some False by (simp add: UpdatePeer_def)
  qed
qed

lemma InsertSamples_frame:
  "s_peers (InsertSamples ss st) = s_peers st" "s_ifaces (InsertSamples ss st) = s_ifaces st"
  "s_events (InsertSamples ss st) = s_events st" "s_peer_seq (InsertSamples ss st) = s_peer_seq st"
  by (induction ss st rule: InsertSamples.induct) (simp_all add: Let_def)

lemma InsertSamples_ok:
  "db_ok st \<Longrightarrow> \<forall>s\<in>set ss. ts_PeerID s \<le> s_peer_seq st \<Longrightarrow> db_ok (InsertSamples ss st)"
proof (induction ss st rule: InsertSamples.induct)
  case (2 s ss st)
  have "table_ok sr_ID (s_sample_seq st + 1) (s_samples st @ [sample_row_of (s_sample_seq st + 1) s])"
    using "2.prems" by (intro table_intros) (auto simp: db_ok_def sample_row_of_def)
  moreover have "sr_PeerID (sample_row_of k s) = ts_PeerID s" for k by (simp add: sample_row_of_def)
  ultimately have "db_ok (st\<lparr>s_samples := s_samples st @ [sample_row_of (s_sample_seq st + 1) s],
      s_sample_seq := s_sample_seq st + 1\<rparr>)"
    using "2.prems" by (auto simp: db_ok_def)
  with 2 show ?case by (simp add: Let_def)
qed simp

lemma PurgeSamples_eq:
  "PurgeSamples now d st =
     (length (filter (\<lambda>r. sr_At r < FormatNano (now - d)) (s_samples st)),
      st\<lparr>s_samples := filter (\<lambda>r. \<not> sr_At r < FormatNano (now - d)) (s_samples st)\<rparr>)"
  by (simp add: PurgeSamples_def purge_loop_eq Let_def)

lemma PurgeEvents_eq:
  "PurgeEvents now d st =
     (length (filter (\<lambda>r. er_TS r < FormatNano (now - d)) (s_events st)),
      st\<lparr>s_events := filter (\<lambda>r. \<not> er_TS r < FormatNano (now - d)) (s_events st)\<rparr>)"
  by (simp add: PurgeEvents_def purge_loop_eq Let_def)

lemma PurgeSamples_ok: "db_ok st \<Longrightarrow> db_ok (snd (PurgeSamples now d st))"
  by (auto simp: PurgeSamples_eq db_ok_def intro: table_intros)

lemma PurgeEvents_ok: "db_ok st \<Longrightarrow> db_ok (snd (PurgeEvents now d st))"
  by (auto simp: PurgeEvents_eq db_ok_def intro: table_intros)

lemma thin_loop_filter: "\<exists>P. thin_loop lo hi rs = filter P rs"
proof (induction lo hi rs rule: thin_loop.induct)
  case (1 lo hi rs)
  show ?case
  proof (cases "lo < hi")
    case True
    let ?up = "if lo + Hour > hi then hi else lo + Hour"
    obtain P where "thin_loop (lo + Hour) hi (thin_slice (FormatSecs lo) (FormatSecs ?up) rs)
        = filter P (thin_slice (FormatSecs lo) (FormatSecs ?up) rs)" using 1 [OF True refl] by blast
    with True show ?thesis by (subst thin_loop.simps) (auto simp: thin_slice_def Let_def)
  next
    case False
    then show ?thesis by (subst thin_loop.simps) (auto intro: exI [of _ "\<lambda>_. True"])
  qed
qed

lemma ThinSamples_ok: "db_ok st \<Longrightarrow> db_ok (snd (ThinSamples a b st))"
  using thin_loop_filter [of a b "s_samples st"]
  by (auto simp: ThinSamples_def Let_def db_ok_def intro: table_intros)

lemma AddEvent_ok: "db_ok st \<Longrightarrow> db_ok (AddEvent now l kd i k m me st)"
  by (auto simp: AddEvent_def Let_def db_ok_def intro!: table_ok_append)

lemma DeleteInterface_ok: "db_ok st \<Longrightarrow> db_ok (snd (DeleteInterface name st))"
proof -
  assume ok: "db_ok st"
  let ?ifs = "filter (\<lambda>i. i_Name i \<noteq> name) (s_ifaces st)"
  let ?ps = "filter (\<lambda>p. p_InterfaceID p \<notin> set (map i_ID (filter (\<lambda>i. i_Name i = name) (s_ifaces st)))) (s_peers st)"
  have "table_ok i_ID (s_iface_seq st) ?ifs" "table_ok p_ID (s_peer_seq st) ?ps"
    using ok by (auto simp: db_ok_def intro!: table_intros)
  moreover have "distinct (map i_Name ?ifs)" "distinct (map (\<lambda>p. (p_InterfaceID p, p_PublicKey p)) ?ps)"
    using ok by (auto simp: db_ok_def intro!: distinct_map_filter)
  moreover have "p_InterfaceID ` set ?ps \<subseteq> i_ID ` set ?ifs"
  proof
    fix k
    assume "k \<in> p_InterfaceID ` set ?ps"
    then obtain p where p: "p \<in> set (s_peers st)" "k = p_InterfaceID p"
      "k \<notin> i_ID ` {i \<in> set (s_ifaces st). i_Name i = name}" by auto
    then obtain i where "i \<in> set (s_ifaces st)" "i_ID i = k" using ok by (auto simp: db_ok_def)
    with p(3) show "k \<in> i_ID ` set ?ifs" by auto
  qed
  ultimately have "db_ok (st\<lparr>s_ifaces := ?ifs, s_peers := ?ps\<rparr>)"
    using ok by (simp add: db_ok_def)
  then show ?thesis using ok by (auto simp: DeleteInterface_def Let_def intro: DeletePeersSamples_ok)
qed

lemma CreatePeer_cases:
  obtains (dup) "CreatePeer now p st = (Inl UniqueFailed, st)"
      "\<exists>r\<in>set (s_peers st). p_InterfaceID r = p_InterfaceID p \<and> p_PublicKey r = p_PublicKey p"
  | (orphan) "CreatePeer now p st = (Inl ForeignKeyFailed, st)"
      "\<forall>i\<in>set (s_ifaces st). i_ID i \<noteq> p_InterfaceID p"
  | (new) "CreatePeer now p st = (Inr (p\<lparr>p_ID := s_peer_seq st + 1, p_CreatedAt := now, p_UpdatedAt := now\<rparr>),
        st\<lparr>s_peers := s_peers st @ [p\<lparr>p_ID := s_peer_seq st + 1, p_CreatedAt := now, p_UpdatedAt := now\<rparr>],
           s_peer_seq := s_peer_seq st + 1\<rparr>)"
      "\<forall>r\<in>set (s_peers st). \<not> (p_InterfaceID r = p_InterfaceID p \<and> p_PublicKey r = p_PublicKey p)"
      "\<exists>i\<in>set (s_ifaces st). i_ID i = p_InterfaceID p"
  unfolding CreatePeer_def insert_peer_def Let_def by (force simp: list_ex_iff split: if_splits)

lemma import_peers_ok: "db_ok st \<Longrightarrow> import_peers now k ps st = Inr st' \<Longrightarrow> db_ok st'"
proof (induction ps arbitrary: st)
  case (Cons p ps)
  then show ?case using CreatePeer_ok [OF Cons.prems(1), of now "p\<lparr>p_InterfaceID := k\<rparr>"]
    by (auto split: prod.splits sum.splits)
qed simp

lemma import_iface_ok: "db_ok st \<Longrightarrow> import_iface now i st = (k, st') \<Longrightarrow> db_ok st'"
proof -
  assume ok: "db_ok st" and imp: "import_iface now i st = (k, st')"
  let ?i = "iface_defaults (table_default i)"
  show ?thesis
  proof (cases "find (\<lambda>r. i_Name r = i_Name ?i) (s_ifaces st)")
    case None
    obtain r st2 where ins: "insert_iface now ?i st = (r, st2)" by force
    have "db_ok st2" using insert_iface_ok [OF ok _ ins] None by (auto simp: find_None_iff)
    then show ?thesis using imp None ins by (simp add: import_iface_def Let_def)
  next
    case (Some r)
    then show ?thesis using imp update_iface_ok [OF ok] by (auto simp: import_iface_def Let_def)
  qed
qed

lemma ImportInterface_ok: "db_ok st \<Longrightarrow> db_ok (snd (ImportInterface now i ps st))"
proof -
  assume ok: "db_ok st"
  obtain k st1 where imp: "import_iface now i st = (k, st1)" by force
  let ?st2 = "st1\<lparr>s_peers := filter (\<lambda>p. p_InterfaceID p \<noteq> k) (s_peers st1)\<rparr>"
  have "db_ok ?st2" using import_iface_ok [OF ok imp] by (rule delete_peers_ok)
  then show ?thesis using ok imp import_peers_ok [of ?st2 now k ps]
    by (auto simp: ImportInterface_def Let_def intro: DeletePeersSamples_ok split: sum.splits)
qed

text \<open>Every sequence of operations on the store, whoever calls them.\<close>

inductive db_step :: "store \<Rightarrow> store \<Rightarrow> bool" where
  create_interface: "db_step st (snd (CreateInterface now i st))"
| update_interface: "db_step st (snd (UpdateInterface now i st))"
| delete_interface: "db_step st (snd (DeleteInterface name st))"
| import_interface: "db_step st (snd (ImportInterface now i ps st))"
| create_peer: "db_step st (snd (CreatePeer now p st))"
| update_peer: "db_step st (snd (UpdatePeer now p st))"
| delete_peer: "db_step st (snd (DeletePeer name pub st))"
| update_stats: "db_step st (UpdatePeerStats now p st)"
| set_suspended: "db_step st (snd (SetPeerSuspended now k b st))"
| soft_reset: "db_step st (snd (SoftResetPeerTraffic now k rx tx st))"
| insert_samples: "\<forall>s\<in>set ss. ts_PeerID s \<le> s_peer_seq st \<Longrightarrow> db_step st (InsertSamples ss st)"
| purge_samples: "db_step st (snd (PurgeSamples now d st))"
| thin_samples: "db_step st (snd (ThinSamples a b st))"
| delete_samples: "db_step st (DeletePeersSamples ks st)"
| set_hook: "db_step st (SetEventHook st)"
| add_event: "db_step st (AddEvent now l kd n pub m me st)"
| purge_events: "db_step st (snd (PurgeEvents now d st))"

inductive db_reach :: "store \<Rightarrow> bool" where
  init: "db_reach empty_store"
| step: "db_reach st \<Longrightarrow> db_step st st' \<Longrightarrow> db_reach st'"

lemmas db_step_ok = CreateInterface_ok UpdateInterface_ok DeleteInterface_ok ImportInterface_ok
  CreatePeer_ok UpdatePeer_ok DeletePeer_ok UpdatePeerStats_ok SetPeerSuspended_ok SoftReset_ok
  InsertSamples_ok PurgeSamples_ok ThinSamples_ok DeletePeersSamples_ok AddEvent_ok PurgeEvents_ok

lemma db_step_inv: "db_step st st' \<Longrightarrow> db_ok st \<Longrightarrow> db_ok st'"
  by (cases rule: db_step.cases) (assumption | simp add: db_step_ok | simp add: SetEventHook_def db_ok_def)+

lemma db_reach_ok: "db_reach st \<Longrightarrow> db_ok st"
  by (induction rule: db_reach.induct) (auto simp: empty_store_ok intro: db_step_inv)

section \<open>The join of peers and interfaces\<close>

lemma iface_name_of_iff:
  "db_ok st \<Longrightarrow> iface_name_of st k = Some n \<longleftrightarrow> (\<exists>i\<in>set (s_ifaces st). i_ID i = k \<and> i_Name i = n)"
proof -
  assume "db_ok st"
  then have "distinct (map i_ID (s_ifaces st))" by (auto simp: db_ok_def intro: table_ok_distinct)
  then show ?thesis by (auto simp: iface_name_of_def find_key)
qed

lemma join_peers_map:
  "db_ok st \<Longrightarrow> join_peers st
     = map (\<lambda>p. p\<lparr>p_InterfaceName := the (iface_name_of st (p_InterfaceID p))\<rparr>) (s_peers st)"
proof -
  assume ok: "db_ok st"
  have "\<exists>n. iface_name_of st (p_InterfaceID p) = Some n" if "p \<in> set (s_peers st)" for p
  proof -
    from ok that have "p_InterfaceID p \<in> i_ID ` set (s_ifaces st)" by (auto simp: db_ok_def)
    then obtain i where "i \<in> set (s_ifaces st)" "i_ID i = p_InterfaceID p" by force
    then show ?thesis by (intro exI [of _ "i_Name i"]) (auto simp: iface_name_of_iff [OF ok])
  qed
  then have "map (\<lambda>p. case iface_name_of st (p_InterfaceID p) of None \<Rightarrow> []
        | Some n \<Rightarrow> [p\<lparr>p_InterfaceName := n\<rparr>]) (s_peers st)
      = map (\<lambda>p. [p\<lparr>p_InterfaceName := the (iface_name_of st (p_InterfaceID p))\<rparr>]) (s_peers st)"
    by force
  then show ?thesis by (simp only: join_peers_def concat_map_singleton)
qed

lemma GetInterfaceByName_none:
  "GetInterfaceByName n st = Inl e \<longleftrightarrow> e = NotFound \<and> n \<notin> i_Name ` set (s_ifaces st)"
  by (auto simp: GetInterfaceByName_def find_None_iff dest!: find_SomeD split: option.splits)

lemma GetInterfaceByName_iff:
  assumes "db_ok st"
  shows "GetInterfaceByName n st = Inr r \<longleftrightarrow> (\<exists>i\<in>set (s_ifaces st). i_Name i = n \<and> r = scanInterface i)"
proof (cases "find (\<lambda>i. i_Name i = n) (s_ifaces st)")
  case None
  then have "GetInterfaceByName n st = Inl NotFound" by (simp only: GetInterfaceByName_def option.case)
  with None show ?thesis by (auto simp: find_None_iff)
next
  case (Some j)
  have d: "distinct (map i_Name (s_ifaces st))" using assms by (simp add: db_ok_def)
  from find_SomeD [OF Some] key_unique [OF d, of _ j] Some show ?thesis
    by (auto simp: GetInterfaceByName_def)
qed

lemma set_ListPeers:
  "set (ListPeersByInterface n st) = {p \<in> set (join_peers st). p_InterfaceName p = n}"
  by (auto simp: ListPeersByInterface_def)

lemma DeletePeersSamples_eq:
  "DeletePeersSamples ks st = st\<lparr>s_samples := filter (\<lambda>r. sr_PeerID r \<notin> set ks) (s_samples st)\<rparr>"
  unfolding DeletePeersSamples_def
proof (induction ks arbitrary: st)
  case (Cons k ks)
  then show ?case by (auto simp: DeletePeerSamples_def intro: filter_cong)
qed simp

text \<open>The peers an interface row owns are the ones the join shows under its name.\<close>

lemma owned_by_name:
  assumes "db_ok st" and "i \<in> set (s_ifaces st)" and "p \<in> set (s_peers st)"
  shows "p_InterfaceID p = i_ID i \<longleftrightarrow> the (iface_name_of st (p_InterfaceID p)) = i_Name i"
proof -
  have d: "distinct (map i_ID (s_ifaces st))" "distinct (map i_Name (s_ifaces st))"
    using assms(1) by (auto simp: db_ok_def intro: table_ok_distinct)
  from assms(1,3) obtain j where j: "j \<in> set (s_ifaces st)" "i_ID j = p_InterfaceID p"
    by (force simp: db_ok_def)
  then have "iface_name_of st (p_InterfaceID p) = Some (i_Name j)" by (auto simp: iface_name_of_iff [OF assms(1)])
  with j key_unique [OF d(1) j(1) assms(2)] key_unique [OF d(2) j(1) assms(2)] show ?thesis by auto
qed

section \<open>Properties of the tables\<close>

text \<open>
  Database integrity: after any sequence of operations on the store, in any order, names of
  interfaces and identifiers are unique, no interface has two peers with one public key, every peer
  belongs to an existing interface (so the listing of all peers shows every row), keys grow, and no
  sample belongs to an identifier that was never given to a peer.
\<close>

theorem db_integrity:
  assumes "db_reach st"
  shows "db_ok st \<and> distinct (map i_ID (s_ifaces st)) \<and> distinct (map i_Name (s_ifaces st))
    \<and> distinct (map p_ID (s_peers st)) \<and> map p_ID (join_peers st) = map p_ID (s_peers st)
    \<and> distinct (map (\<lambda>p. (p_InterfaceName p, p_PublicKey p)) (join_peers st))
    \<and> length (ListAllPeers st) = length (s_peers st)"
proof -
  note ok = db_reach_ok [OF assms]
  have m: "map p_ID (join_peers st) = map p_ID (s_peers st)"
    by (simp add: join_peers_map [OF ok] comp_def)
  have "inj_on (\<lambda>p. (the (iface_name_of st (p_InterfaceID p)), p_PublicKey p)) (set (s_peers st))"
  proof (rule inj_onI)
    fix p q
    assume p: "p \<in> set (s_peers st)" and q: "q \<in> set (s_peers st)"
      and e: "(the (iface_name_of st (p_InterfaceID p)), p_PublicKey p)
        = (the (iface_name_of st (p_InterfaceID q)), p_PublicKey q)"
    from ok q obtain j where j: "j \<in> set (s_ifaces st)" "i_ID j = p_InterfaceID q" by (force simp: db_ok_def)
    have "p_InterfaceID p = p_InterfaceID q"
      using owned_by_name [OF ok j(1) p] owned_by_name [OF ok j(1) q] j(2) e by simp
    moreover have "distinct (map (\<lambda>p. (p_InterfaceID p, p_PublicKey p)) (s_peers st))"
      using ok by (simp add: db_ok_def)
    ultimately show "p = q" using p q e by (auto simp: distinct_map dest: inj_onD)
  qed
  moreover have "distinct (s_peers st)" using ok by (auto simp: db_ok_def distinct_map)
  ultimately have "distinct (map (\<lambda>p. (p_InterfaceName p, p_PublicKey p)) (join_peers st))"
    by (simp add: join_peers_map [OF ok] distinct_map comp_def)
  moreover have "length (ListAllPeers st) = length (s_peers st)"
    using arg_cong [OF m, of length] by (simp add: ListAllPeers_def)
  ultimately show ?thesis using ok m by (auto simp: db_ok_def intro: table_ok_distinct)
qed

text \<open>A small reachable store for the witnesses: two interfaces, a peer of the first, one sample.\<close>

definition demo_store :: store where
  "demo_store = InsertSamples [\<lparr>ts_ID = 0, ts_PeerID = 1, ts_SampledAt = 0, ts_RxBytes = 5, ts_TxBytes = 7,
       ts_RxBps = 0, ts_TxBps = 0\<rparr>]
     (snd (CreatePeer 0 (zero_peer\<lparr>p_InterfaceID := 1, p_PublicKey := ''A''\<rparr>)
     (snd (CreateInterface 0 (zero_interface\<lparr>i_Name := ''wg1''\<rparr>)
     (snd (CreateInterface 0 (zero_interface\<lparr>i_Name := ''wg0''\<rparr>) empty_store))))))"

lemmas demo_simps = demo_store_def empty_store_def CreateInterface_def CreatePeer_def insert_iface_def
  insert_peer_def iface_defaults_def table_default_def zero_interface_def zero_peer_def Let_def
  sample_row_of_def

lemma demo_reach: "db_reach demo_store"
  unfolding demo_store_def
  by (rule db_reach.step [OF _ insert_samples] db_reach.step [OF _ create_peer]
      db_reach.step [OF _ create_interface] db_reach.init)+
    (simp add: demo_simps)

lemma demo_peers: "map p_ID (s_peers demo_store) = [1]" "map p_InterfaceID (s_peers demo_store) = [1]"
    "map p_PublicKey (s_peers demo_store) = [''A'']"
  by (simp_all add: demo_simps)

lemma demo_ifaces: "map i_Name (s_ifaces demo_store) = [''wg0'', ''wg1'']"
  by (simp add: demo_simps)

theorem db_integrity_witness: "map p_ID (join_peers demo_store) = [1]"
  using db_integrity [OF demo_reach] demo_peers by simp

text \<open>
  A new peer starts clean: when a peer is created its key is one no peer ever had, so no sample
  recorded before is attributed to it, and a lookup by the name of its interface and its public key
  finds the row with everything that was given.
\<close>

theorem new_peer_clean:
  assumes "db_reach st" and "CreatePeer now p st = (Inr r, st')"
  shows "p_ID r \<notin> p_ID ` set (s_peers st) \<and> p_ID r \<notin> sr_PeerID ` set (s_samples st')
    \<and> r = p\<lparr>p_ID := p_ID r, p_CreatedAt := now, p_UpdatedAt := now\<rparr>
    \<and> (\<exists>i\<in>set (s_ifaces st). i_ID i = p_InterfaceID p
        \<and> GetPeerRow (i_Name i) (p_PublicKey p) st' = Inr (r\<lparr>p_InterfaceName := i_Name i\<rparr>))"
proof -
  note ok = db_reach_ok [OF assms(1)]
  let ?r = "p\<lparr>p_ID := s_peer_seq st + 1, p_CreatedAt := now, p_UpdatedAt := now\<rparr>"
  from assms(2) have r: "r = ?r" and st': "st' = st\<lparr>s_peers := s_peers st @ [?r], s_peer_seq := s_peer_seq st + 1\<rparr>"
    and new: "\<forall>r\<in>set (s_peers st). \<not> (p_InterfaceID r = p_InterfaceID p \<and> p_PublicKey r = p_PublicKey p)"
    and ex: "\<exists>i\<in>set (s_ifaces st). i_ID i = p_InterfaceID p"
    by (cases rule: CreatePeer_cases [of now p st]; simp)+
  from ex obtain i where i: "i \<in> set (s_ifaces st)" "i_ID i = p_InterfaceID p" by blast
  have fresh: "p_ID r \<notin> p_ID ` set (s_peers st)" "p_ID r \<notin> sr_PeerID ` set (s_samples st')"
    using ok by (auto simp: db_ok_def table_ok_def r st')
  have ok': "db_ok st'" using CreatePeer_ok [OF ok, of now p] assms(2) by simp
  have name: "iface_name_of st' k = iface_name_of st k" for k by (simp add: iface_name_of_def st')
  have ni: "iface_name_of st (p_InterfaceID p) = Some (i_Name i)"
    using i by (auto simp: iface_name_of_iff [OF ok])
  have "find (\<lambda>q. p_InterfaceName q = i_Name i \<and> p_PublicKey q = p_PublicKey p) (join_peers st') =
      Some (r\<lparr>p_InterfaceName := i_Name i\<rparr>)"
  proof -
    have "\<not> (the (iface_name_of st (p_InterfaceID q)) = i_Name i \<and> p_PublicKey q = p_PublicKey p)"
      if "q \<in> set (s_peers st)" for q
      using owned_by_name [OF ok i(1) that] i(2) new that by auto
    then have "find (\<lambda>q. p_InterfaceName q = i_Name i \<and> p_PublicKey q = p_PublicKey p) (join_peers st) = None"
      by (auto simp: find_None_iff join_peers_map [OF ok])
    moreover have "join_peers st' = join_peers st @ [r\<lparr>p_InterfaceName := i_Name i\<rparr>]"
      unfolding join_peers_map [OF ok'] join_peers_map [OF ok] name by (simp add: st' r ni)
    ultimately show ?thesis by (simp add: find_append r)
  qed
  then have "GetPeerRow (i_Name i) (p_PublicKey p) st' = Inr (r\<lparr>p_InterfaceName := i_Name i\<rparr>)"
    by (simp add: GetPeerRow_def)
  with fresh i show ?thesis by (auto simp: r)
qed

theorem new_peer_clean_witness:
  "\<exists>r st'. CreatePeer 3 (zero_peer\<lparr>p_InterfaceID := 1, p_PublicKey := ''B''\<rparr>) demo_store = (Inr r, st')
     \<and> p_ID r \<notin> sr_PeerID ` set (s_samples st')"
proof -
  let ?p = "zero_peer\<lparr>p_InterfaceID := 1, p_PublicKey := ''B''\<rparr>"
  obtain r st' where c: "CreatePeer 3 ?p demo_store = (Inr r, st')"
    by (simp add: demo_simps)
  from new_peer_clean [OF demo_reach c] c show ?thesis by blast
qed

text \<open>
  The join after the interface table changed only at one name: the peers under other names are the
  same rows under the same names.
\<close>

definition others :: "string \<Rightarrow> store \<Rightarrow> db_peer list" where
  "others n st = filter (\<lambda>p. p_InterfaceName p \<noteq> n) (join_peers st)"

definition peers_of :: "string \<Rightarrow> store \<Rightarrow> db_peer list" where
  "peers_of n st = filter (\<lambda>p. p_InterfaceName p = n) (join_peers st)"

lemma others_eq:
  assumes "db_ok st" and "db_ok st'" and "s_peers st' = filter P (s_peers st) @ xs"
    and "\<And>p. p \<in> set (s_peers st) \<Longrightarrow> P p \<longleftrightarrow> the (iface_name_of st (p_InterfaceID p)) \<noteq> n"
    and "\<And>p. p \<in> set (s_peers st) \<Longrightarrow> P p \<Longrightarrow> iface_name_of st' (p_InterfaceID p) = iface_name_of st (p_InterfaceID p)"
    and "\<And>p. p \<in> set xs \<Longrightarrow> iface_name_of st' (p_InterfaceID p) = Some n"
  shows "others n st' = others n st" and "peers_of n st' = map (\<lambda>p. p\<lparr>p_InterfaceName := n\<rparr>) xs"
proof -
  let ?j = "\<lambda>st p. p\<lparr>p_InterfaceName := the (iface_name_of st (p_InterfaceID p))\<rparr>"
  have j: "join_peers st' = map (?j st) (filter P (s_peers st)) @ map (\<lambda>p. p\<lparr>p_InterfaceName := n\<rparr>) xs"
    unfolding join_peers_map [OF assms(2)] using assms(3,5,6) by simp
  have keep: "filter (\<lambda>p. the (iface_name_of st (p_InterfaceID p)) \<noteq> n) (filter P (s_peers st)) = filter P (s_peers st)"
    "filter (\<lambda>p. the (iface_name_of st (p_InterfaceID p)) \<noteq> n) (s_peers st) = filter P (s_peers st)"
    "filter (\<lambda>p. the (iface_name_of st (p_InterfaceID p)) = n) (filter P (s_peers st)) = []"
    using assms(4) by (auto simp: filter_id_conv filter_empty_conv intro: filter_cong)
  show "others n st' = others n st"
    unfolding others_def j join_peers_map [OF assms(1)] using keep(1,2) by (simp add: filter_map comp_def)
  show "peers_of n st' = map (\<lambda>p. p\<lparr>p_InterfaceName := n\<rparr>) xs"
    unfolding peers_of_def j using keep(3) by (simp add: filter_map comp_def)
qed

lemma DeleteInterface_spec:
  assumes "db_ok st" and "i \<in> set (s_ifaces st)" and "i_Name i = n"
  shows "DeleteInterface n st = (Inr (), st\<lparr>s_ifaces := filter (\<lambda>i. i_Name i \<noteq> n) (s_ifaces st),
      s_peers := filter (\<lambda>p. p_InterfaceID p \<noteq> i_ID i) (s_peers st),
      s_samples := filter (\<lambda>r. sr_PeerID r \<notin> p_ID ` set (peers_of n st)) (s_samples st)\<rparr>)"
proof -
  have d: "distinct (map i_Name (s_ifaces st))" using assms(1) by (simp add: db_ok_def)
  have f: "set (map i_ID (filter (\<lambda>j. i_Name j = n) (s_ifaces st))) = {i_ID i}"
    using assms(2,3) key_unique [OF d] by auto
  then have ne: "map i_ID (filter (\<lambda>j. i_Name j = n) (s_ifaces st)) \<noteq> []" by force
  have "set (map p_ID (ListPeersByInterface n st)) = p_ID ` set (peers_of n st)"
    by (simp add: set_ListPeers peers_of_def)
  then show ?thesis using ne f by (simp add: DeleteInterface_def Let_def DeletePeersSamples_eq)
qed

text \<open>
  Deleting an interface: an unknown name is an error and changes nothing; a known one removes the
  interface, all its peers and exactly their samples, and leaves the rows, peers and samples of every
  other interface as they were.
\<close>

theorem delete_interface_cascade:
  assumes "db_reach st"
  shows "if n \<in> i_Name ` set (s_ifaces st)
    then fst (DeleteInterface n st) = Inr () \<and> (let st' = snd (DeleteInterface n st) in
        s_ifaces st' = filter (\<lambda>i. i_Name i \<noteq> n) (s_ifaces st)
        \<and> peers_of n st' = [] \<and> others n st' = others n st
        \<and> s_samples st' = filter (\<lambda>r. sr_PeerID r \<notin> p_ID ` set (peers_of n st)) (s_samples st))
    else DeleteInterface n st = (Inl NotFound, st)"
proof (cases "n \<in> i_Name ` set (s_ifaces st)")
  case False
  then show ?thesis by (auto simp: DeleteInterface_def Let_def filter_empty_conv)
next
  case True
  note ok = db_reach_ok [OF assms]
  from True obtain i where i: "i \<in> set (s_ifaces st)" "i_Name i = n" by blast
  note sp = DeleteInterface_spec [OF ok i]
  let ?st' = "snd (DeleteInterface n st)"
  have ok': "db_ok ?st'" using DeleteInterface_ok [OF ok] .
  have own: "p \<in> set (s_peers st) \<Longrightarrow> p_InterfaceID p \<noteq> i_ID i \<longleftrightarrow> the (iface_name_of st (p_InterfaceID p)) \<noteq> n" for p
    using owned_by_name [OF ok i(1)] i(2) by simp
  have nm: "iface_name_of ?st' (p_InterfaceID p) = iface_name_of st (p_InterfaceID p)"
    if p: "p \<in> set (s_peers st)" and ne: "p_InterfaceID p \<noteq> i_ID i" for p
  proof -
    from ok p obtain j where j: "j \<in> set (s_ifaces st)" "i_ID j = p_InterfaceID p" by (force simp: db_ok_def)
    have nj: "iface_name_of st (p_InterfaceID p) = Some (i_Name j)" using j by (auto simp: iface_name_of_iff [OF ok])
    with own [OF p] ne have "i_Name j \<noteq> n" by simp
    with j have "iface_name_of ?st' (p_InterfaceID p) = Some (i_Name j)"
      unfolding iface_name_of_iff [OF ok'] by (auto simp: sp)
    with nj show ?thesis by simp
  qed
  have q: "s_peers ?st' = filter (\<lambda>p. p_InterfaceID p \<noteq> i_ID i) (s_peers st) @ []" by (simp add: sp)
  note eq = others_eq [OF ok ok' q own nm]
  show ?thesis using True eq by (simp add: sp Let_def)
qed

theorem delete_interface_cascade_witness:
  "fst (DeleteInterface ''wg0'' demo_store) = Inr () \<and> peers_of ''wg0'' (snd (DeleteInterface ''wg0'' demo_store)) = []"
proof -
  have "''wg0'' \<in> set (map i_Name (s_ifaces demo_store))" unfolding demo_ifaces by simp
  then have "''wg0'' \<in> i_Name ` set (s_ifaces demo_store)" by simp
  with delete_interface_cascade [OF demo_reach, of "''wg0''"] show ?thesis by (simp add: Let_def)
qed

text \<open>The rows an import inserts.\<close>

fun new_rows :: "gotime \<Rightarrow> int \<Rightarrow> int \<Rightarrow> db_peer list \<Rightarrow> db_peer list" where
  "new_rows now k sq [] = []"
| "new_rows now k sq (p # ps) =
     p\<lparr>p_InterfaceID := k, p_ID := sq + 1, p_CreatedAt := now, p_UpdatedAt := now\<rparr> # new_rows now k (sq + 1) ps"

lemma new_rows_simps [simp]:
  "map p_PublicKey (new_rows now k sq ps) = map p_PublicKey ps"
  "p \<in> set (new_rows now k sq ps) \<Longrightarrow> p_InterfaceID p = k"
  by (induction ps arbitrary: sq) auto

lemma import_peers_spec:
  "\<exists>i\<in>set (s_ifaces st). i_ID i = k \<Longrightarrow> import_peers now k ps st =
     (if distinct (map p_PublicKey ps)
        \<and> (\<forall>r\<in>set (s_peers st). p_InterfaceID r = k \<longrightarrow> p_PublicKey r \<notin> p_PublicKey ` set ps)
      then Inr (st\<lparr>s_peers := s_peers st @ new_rows now k (s_peer_seq st) ps,
        s_peer_seq := s_peer_seq st + int (length ps)\<rparr>)
      else Inl UniqueFailed)"
proof (induction ps arbitrary: st)
  case (Cons p ps)
  let ?p = "p\<lparr>p_InterfaceID := k\<rparr>"
  show ?case
  proof (cases rule: CreatePeer_cases [of now ?p st])
    case dup
    then show ?thesis by force
  next
    case orphan
    with Cons.prems show ?thesis by auto
  next
    case new
    let ?st' = "st\<lparr>s_peers := s_peers st @ [?p\<lparr>p_ID := s_peer_seq st + 1, p_CreatedAt := now, p_UpdatedAt := now\<rparr>],
           s_peer_seq := s_peer_seq st + 1\<rparr>"
    have imp: "import_peers now k (p # ps) st = import_peers now k ps ?st'" using new(1) by simp
    have free: "(\<forall>r\<in>set (s_peers ?st'). p_InterfaceID r = k \<longrightarrow> p_PublicKey r \<notin> p_PublicKey ` set ps)
        \<and> distinct (map p_PublicKey ps) \<longleftrightarrow>
        distinct (map p_PublicKey (p # ps))
        \<and> (\<forall>r\<in>set (s_peers st). p_InterfaceID r = k \<longrightarrow> p_PublicKey r \<notin> p_PublicKey ` set (p # ps))"
      using new(2) by auto
    have "\<exists>i\<in>set (s_ifaces ?st'). i_ID i = k" using Cons.prems by simp
    from Cons.IH [OF this] free show ?thesis unfolding imp by (auto simp: algebra_simps)
  qed
qed simp

text \<open>What the upsert of the interface row leaves: its row under its name, all else as it was.\<close>

definition upserted :: "gotime \<Rightarrow> db_interface \<Rightarrow> int \<Rightarrow> store \<Rightarrow> store \<Rightarrow> bool" where
  "upserted now i k st st1 \<longleftrightarrow> s_peers st1 = s_peers st \<and> s_samples st1 = s_samples st
    \<and> s_peer_seq st1 = s_peer_seq st
    \<and> (\<forall>j. iface_name_of st1 j = (if j = k then Some (i_Name i) else iface_name_of st j))
    \<and> (\<forall>p\<in>set (s_peers st). p_InterfaceID p = k \<longleftrightarrow> the (iface_name_of st (p_InterfaceID p)) = i_Name i)
    \<and> filter (\<lambda>r. i_Name r \<noteq> i_Name i) (s_ifaces st1) = filter (\<lambda>r. i_Name r \<noteq> i_Name i) (s_ifaces st)
    \<and> (\<exists>r\<in>set (s_ifaces st1). i_ID r = k \<and> r = (iface_defaults (table_default i))
         \<lparr>i_ID := k, i_CreatedAt := i_CreatedAt r, i_UpdatedAt := now\<rparr>)"

lemma import_iface_new:
  assumes ok: "db_ok st" and imp: "import_iface now i st = (k, st1)" and new: "i_Name i \<notin> i_Name ` set (s_ifaces st)"
  shows "upserted now i k st st1"
proof -
  let ?i = "iface_defaults (table_default i)"
  let ?r = "?i\<lparr>i_ID := s_iface_seq st + 1, i_CreatedAt := now, i_UpdatedAt := now\<rparr>"
  have nw: "\<forall>x\<in>set (s_ifaces st). i_Name x \<noteq> i_Name i" using new by (metis image_eqI)
  then have "find (\<lambda>r. i_Name r = i_Name ?i) (s_ifaces st) = None" using nw by (simp add: find_None_iff)
  then have e: "k = s_iface_seq st + 1" "st1 = st\<lparr>s_ifaces := s_ifaces st @ [?r], s_iface_seq := k\<rparr>"
    using imp by (auto simp: import_iface_def insert_iface_def Let_def simp del: find_None_iff)
  have nn: "x \<in> set (s_ifaces st) \<Longrightarrow> i_ID x \<noteq> k \<and> i_Name x \<noteq> i_Name i" for x
    using ok nw by (auto simp: db_ok_def table_ok_def e)
  then have "iface_name_of st k = None" by (auto simp: iface_name_of_def find_None_iff)
  then have "iface_name_of st1 j = (if j = k then Some (i_Name i) else iface_name_of st j)" for j
    by (auto simp: iface_name_of_def e find_append split: option.splits)
  moreover have "p_InterfaceID p \<noteq> k \<and> the (iface_name_of st (p_InterfaceID p)) \<noteq> i_Name i"
    if p: "p \<in> set (s_peers st)" for p
  proof -
    from ok p obtain x where x: "x \<in> set (s_ifaces st)" "i_ID x = p_InterfaceID p" by (force simp: db_ok_def)
    then have "iface_name_of st (p_InterfaceID p) = Some (i_Name x)" by (auto simp: iface_name_of_iff [OF ok])
    with x nn show ?thesis by force
  qed
  ultimately show ?thesis by (simp add: upserted_def e)
qed

lemma import_iface_old:
  assumes ok: "db_ok st" and imp: "import_iface now i st = (k, st1)" and r: "r \<in> set (s_ifaces st)" "i_Name r = i_Name i"
  shows "upserted now i k st st1"
proof -
  let ?i = "iface_defaults (table_default i)"
  have d: "distinct (map i_ID (s_ifaces st))" "distinct (map i_Name (s_ifaces st))"
    using ok by (auto simp: db_ok_def intro: table_ok_distinct)
  then have "find (\<lambda>r. i_Name r = i_Name ?i) (s_ifaces st) = Some r" using r by (simp add: find_key)
  then have e: "k = i_ID r" "st1 = st\<lparr>s_ifaces := upd_where i_ID (i_ID r) (update_iface_row now ?i) (s_ifaces st)\<rparr>"
    using imp by (auto simp: import_iface_def Let_def)
  note ok1 = import_iface_ok [OF ok imp]
  have im: "(\<lambda>x. (i_ID x, i_Name x)) ` set (s_ifaces st1) = (\<lambda>x. (i_ID x, i_Name x)) ` set (s_ifaces st)"
    by (simp add: e image_upd_where)
  have pair: "(\<exists>x\<in>X. i_ID x = a \<and> i_Name x = b) \<longleftrightarrow> (a, b) \<in> (\<lambda>x. (i_ID x, i_Name x)) ` X" for a b X
    by auto
  have "iface_name_of st1 j = Some m \<longleftrightarrow> iface_name_of st j = Some m" for j m
    unfolding iface_name_of_iff [OF ok] iface_name_of_iff [OF ok1] pair im ..
  then have nm: "iface_name_of st1 j = iface_name_of st j" for j by (metis not_Some_eq)
  have nk: "iface_name_of st k = Some (i_Name i)" using r by (auto simp: iface_name_of_iff [OF ok] e)
  have "i_Name x = i_Name i" if "x \<in> set (s_ifaces st)" "i_ID x = i_ID r" for x
    using key_unique [OF d(1) that(1) r(1)] that(2) r(2) by simp
  then have "filter (\<lambda>r. i_Name r \<noteq> i_Name i) (upd_where i_ID (i_ID r) (update_iface_row now ?i) xs)
      = filter (\<lambda>r. i_Name r \<noteq> i_Name i) xs" if "set xs \<subseteq> set (s_ifaces st)" for xs
    using that by (induction xs) (auto simp: upd_where_def)
  then have "filter (\<lambda>r. i_Name r \<noteq> i_Name i) (s_ifaces st1) = filter (\<lambda>r. i_Name r \<noteq> i_Name i) (s_ifaces st)"
    by (simp add: e)
  moreover have "update_iface_row now ?i r \<in> set (s_ifaces st1)" using r by (auto simp: e set_upd_where)
  then have "\<exists>x\<in>set (s_ifaces st1). i_ID x = k \<and> x = ?i\<lparr>i_ID := k, i_CreatedAt := i_CreatedAt x, i_UpdatedAt := now\<rparr>"
    by (rule rev_bexI) (auto simp: e update_iface_row_def iface_defaults_def table_default_def r)
  ultimately show ?thesis using nm nk owned_by_name [OF ok r(1)] r by (simp add: upserted_def e)
qed

lemma import_iface_upserted:
  "db_ok st \<Longrightarrow> import_iface now i st = (k, st1) \<Longrightarrow> upserted now i k st st1"
  using import_iface_new import_iface_old by (cases "i_Name i \<in> i_Name ` set (s_ifaces st)") force+

lemma ImportInterface_eq:
  assumes ok: "db_ok st" and imp: "import_iface now i st = (k, st1)"
  shows "ImportInterface now i ps st = (if distinct (map p_PublicKey ps)
    then (Inr (), st1\<lparr>s_peers := filter (\<lambda>p. p_InterfaceID p \<noteq> k) (s_peers st) @ new_rows now k (s_peer_seq st) ps,
        s_peer_seq := s_peer_seq st + int (length ps),
        s_samples := filter (\<lambda>r. sr_PeerID r \<notin> p_ID ` set (peers_of (i_Name i) st)) (s_samples st)\<rparr>)
    else (Inl UniqueFailed, st))"
proof -
  note u = import_iface_upserted [OF ok imp, unfolded upserted_def]
  let ?st2 = "st1\<lparr>s_peers := filter (\<lambda>p. p_InterfaceID p \<noteq> k) (s_peers st1)\<rparr>"
  have free: "\<forall>r\<in>set (s_peers ?st2). p_InterfaceID r = k \<longrightarrow> p_PublicKey r \<notin> p_PublicKey ` set ps" by simp
  have "\<exists>i\<in>set (s_ifaces ?st2). i_ID i = k" using u by auto
  from import_peers_spec [OF this, of now ps] free u show ?thesis
    by (simp add: ImportInterface_def Let_def imp DeletePeersSamples_eq set_ListPeers peers_of_def)
qed

lemma new_rows_fresh: "p \<in> set (new_rows now k sq ps) \<Longrightarrow> sq < p_ID p"
  by (induction ps arbitrary: sq) fastforce+

text \<open>What a successful import leaves.\<close>

lemma import_spec:
  assumes ok: "db_ok st" and d: "distinct (map p_PublicKey ps)"
  obtains k st' where "ImportInterface now i ps st = (Inr (), st')" "db_ok st'"
    "others (i_Name i) st' = others (i_Name i) st"
    "peers_of (i_Name i) st' = map (\<lambda>p. p\<lparr>p_InterfaceName := i_Name i\<rparr>) (new_rows now k (s_peer_seq st) ps)"
    "filter (\<lambda>r. i_Name r \<noteq> i_Name i) (s_ifaces st') = filter (\<lambda>r. i_Name r \<noteq> i_Name i) (s_ifaces st)"
    "\<exists>r\<in>set (s_ifaces st'). r = (iface_defaults (table_default i))\<lparr>i_ID := k, i_CreatedAt := i_CreatedAt r, i_UpdatedAt := now\<rparr>"
    "s_samples st' = filter (\<lambda>r. sr_PeerID r \<notin> p_ID ` set (peers_of (i_Name i) st)) (s_samples st)"
proof -
  obtain k st1 where imp: "import_iface now i st = (k, st1)" by force
  note u = import_iface_upserted [OF ok imp, unfolded upserted_def]
  define st' where "st' = st1\<lparr>s_peers := filter (\<lambda>p. p_InterfaceID p \<noteq> k) (s_peers st) @ new_rows now k (s_peer_seq st) ps,
        s_peer_seq := s_peer_seq st + int (length ps),
        s_samples := filter (\<lambda>r. sr_PeerID r \<notin> p_ID ` set (peers_of (i_Name i) st)) (s_samples st)\<rparr>"
  have I: "ImportInterface now i ps st = (Inr (), st')"
    using ImportInterface_eq [OF ok imp, of ps] d by (simp add: st'_def)
  have ok': "db_ok st'" using ImportInterface_ok [OF ok, of now i ps] I by simp
  have ifs: "s_ifaces st' = s_ifaces st1" by (simp add: st'_def)
  then have nm: "iface_name_of st' j = (if j = k then Some (i_Name i) else iface_name_of st j)" for j
    using u by (simp add: iface_name_of_def)
  have q: "s_peers st' = filter (\<lambda>p. p_InterfaceID p \<noteq> k) (s_peers st) @ new_rows now k (s_peer_seq st) ps"
    by (simp add: st'_def)
  have po: "others (i_Name i) st' = others (i_Name i) st"
    "peers_of (i_Name i) st' = map (\<lambda>p. p\<lparr>p_InterfaceName := i_Name i\<rparr>) (new_rows now k (s_peer_seq st) ps)"
    using others_eq [OF ok ok' q, of "i_Name i"] u nm by auto
  have "\<exists>r\<in>set (s_ifaces st'). r = (iface_defaults (table_default i))\<lparr>i_ID := k, i_CreatedAt := i_CreatedAt r, i_UpdatedAt := now\<rparr>"
    unfolding ifs using u by blast
  moreover have "filter (\<lambda>r. i_Name r \<noteq> i_Name i) (s_ifaces st') = filter (\<lambda>r. i_Name r \<noteq> i_Name i) (s_ifaces st)"
    unfolding ifs using u by blast
  moreover have "s_samples st' = filter (\<lambda>r. sr_PeerID r \<notin> p_ID ` set (peers_of (i_Name i) st)) (s_samples st)"
    by (simp add: st'_def)
  ultimately show thesis using that [OF I ok' po] by blast
qed

text \<open>
  An import is atomic: if a public key occurs twice among the imported peers nothing at all
  changes; otherwise it succeeds, the interface has the imported configuration and exactly the
  imported peers, each a fresh key, the samples of the peers it had before and no others are gone,
  and all other interfaces with their peers are untouched.
\<close>

theorem import_atomic:
  assumes "db_reach st"
  shows "if distinct (map p_PublicKey ps)
    then fst (ImportInterface now i ps st) = Inr () \<and> (let st' = snd (ImportInterface now i ps st) in
        map p_PublicKey (peers_of (i_Name i) st') = map p_PublicKey ps
        \<and> p_ID ` set (peers_of (i_Name i) st') \<inter> p_ID ` set (s_peers st) = {}
        \<and> others (i_Name i) st' = others (i_Name i) st
        \<and> filter (\<lambda>r. i_Name r \<noteq> i_Name i) (s_ifaces st') = filter (\<lambda>r. i_Name r \<noteq> i_Name i) (s_ifaces st)
        \<and> (\<exists>k c. GetInterfaceByName (i_Name i) st' = Inr (scanInterface ((iface_defaults (table_default i))
             \<lparr>i_ID := k, i_CreatedAt := c, i_UpdatedAt := now\<rparr>)))
        \<and> s_samples st' = filter (\<lambda>r. sr_PeerID r \<notin> p_ID ` set (peers_of (i_Name i) st)) (s_samples st))
    else ImportInterface now i ps st = (Inl UniqueFailed, st)"
proof (cases "distinct (map p_PublicKey ps)")
  case False
  obtain k st1 where "import_iface now i st = (k, st1)" by force
  from ImportInterface_eq [OF db_reach_ok [OF assms] this, of ps] False show ?thesis by simp
next
  case True
  note ok = db_reach_ok [OF assms]
  obtain k st' where I: "ImportInterface now i ps st = (Inr (), st')" "db_ok st'"
    "others (i_Name i) st' = others (i_Name i) st"
    "peers_of (i_Name i) st' = map (\<lambda>p. p\<lparr>p_InterfaceName := i_Name i\<rparr>) (new_rows now k (s_peer_seq st) ps)"
    "filter (\<lambda>r. i_Name r \<noteq> i_Name i) (s_ifaces st') = filter (\<lambda>r. i_Name r \<noteq> i_Name i) (s_ifaces st)"
    "\<exists>r\<in>set (s_ifaces st'). r = (iface_defaults (table_default i))\<lparr>i_ID := k, i_CreatedAt := i_CreatedAt r, i_UpdatedAt := now\<rparr>"
    "s_samples st' = filter (\<lambda>r. sr_PeerID r \<notin> p_ID ` set (peers_of (i_Name i) st)) (s_samples st)"
    by (rule import_spec [OF ok True])
  have fresh: "p_ID ` set (new_rows now k (s_peer_seq st) ps) \<inter> p_ID ` set (s_peers st) = {}"
    using ok by (fastforce simp: db_ok_def table_ok_def dest: new_rows_fresh)
  obtain r where r: "r \<in> set (s_ifaces st')" "r = (iface_defaults (table_default i))
      \<lparr>i_ID := k, i_CreatedAt := i_CreatedAt r, i_UpdatedAt := now\<rparr>" using I(6) by blast
  have "i_Name r = i_Name i" using arg_cong [OF r(2), of i_Name] by simp
  then have "\<exists>c. GetInterfaceByName (i_Name i) st' = Inr (scanInterface ((iface_defaults (table_default i))
      \<lparr>i_ID := k, i_CreatedAt := c, i_UpdatedAt := now\<rparr>))"
    unfolding GetInterfaceByName_iff [OF I(2)] using r(1) arg_cong [OF r(2), of scanInterface]
    by (intro exI [of _ "i_CreatedAt r"] bexI [of _ r]) simp_all
  then show ?thesis unfolding I(1) Let_def using True I(1-5,7) fresh
    by (auto simp: comp_def image_image)
qed

theorem import_atomic_witness:
  "fst (ImportInterface 9 (zero_interface\<lparr>i_Name := ''wg0''\<rparr>) [zero_peer\<lparr>p_PublicKey := ''C''\<rparr>] demo_store) = Inr ()
   \<and> ImportInterface 9 zero_interface [zero_peer, zero_peer] demo_store = (Inl UniqueFailed, demo_store)"
  using import_atomic [OF demo_reach, of "[zero_peer\<lparr>p_PublicKey := ''C''\<rparr>]" 9 "zero_interface\<lparr>i_Name := ''wg0''\<rparr>"]
    import_atomic [OF demo_reach, of "[zero_peer, zero_peer]" 9 zero_interface] by simp

section \<open>Two writers of one row\<close>

definition untimed :: "store \<Rightarrow> db_peer list" where
  "untimed st = map (\<lambda>p. p\<lparr>p_UpdatedAt := 0\<rparr>) (s_peers st)"

lemma find_upd_where:
  "(\<And>r. P (f r) = P r) \<Longrightarrow> find P (upd_where key k f rs) = map_option (\<lambda>r. if key r = k then f r else r) (find P rs)"
  by (induction rs) (auto simp: upd_where_def)

lemma list_ex_upd_where: "(\<And>r. P (f r) = P r) \<Longrightarrow> list_ex P (upd_where key k f rs) = list_ex P rs"
  by (induction rs) (auto simp: upd_where_def)

text \<open>
  The API and the sampler may write the same peer in either order: an edit, a suspension or a
  soft reset has the same outcome whether the sampler's statistics are written before or after it,
  and both orders leave the same rows (up to the time of the last write), so neither write is lost.
\<close>

theorem peer_writers_commute:
  "fst (UpdatePeer t p (UpdatePeerStats u q st)) = fst (UpdatePeer t p st)
   \<and> untimed (snd (UpdatePeer t p (UpdatePeerStats u q st))) = untimed (UpdatePeerStats u q (snd (UpdatePeer t p st)))
   \<and> fst (SetPeerSuspended t k b (UpdatePeerStats u q st)) = fst (SetPeerSuspended t k b st)
   \<and> untimed (snd (SetPeerSuspended t k b (UpdatePeerStats u q st)))
       = untimed (UpdatePeerStats u q (snd (SetPeerSuspended t k b st)))
   \<and> fst (SoftResetPeerTraffic t k rx tx (UpdatePeerStats u q st)) = fst (SoftResetPeerTraffic t k rx tx st)
   \<and> untimed (snd (SoftResetPeerTraffic t k rx tx (UpdatePeerStats u q st)))
       = untimed (UpdatePeerStats u q (snd (SoftResetPeerTraffic t k rx tx st)))"
proof -
  let ?st' = "UpdatePeerStats u q st"
  have ps: "s_peers ?st' = upd_where p_ID (p_ID q) (update_stats_row u q) (s_peers st)"
    by (simp add: UpdatePeerStats_def)
  have ex: "list_ex (\<lambda>r. p_ID r = k) (s_peers ?st') = list_ex (\<lambda>r. p_ID r = k) (s_peers st)"
    unfolding ps by (rule list_ex_upd_where) simp
  have dup: "list_ex (\<lambda>r. p_ID r \<noteq> p_ID p \<and> p_InterfaceID r = x \<and> p_PublicKey r = p_PublicKey p) (s_peers ?st')
      = list_ex (\<lambda>r. p_ID r \<noteq> p_ID p \<and> p_InterfaceID r = x \<and> p_PublicKey r = p_PublicKey p) (s_peers st)" for x
    unfolding ps by (rule list_ex_upd_where) simp
  have old: "find (\<lambda>r. p_ID r = p_ID p) (s_peers ?st') = map_option
      (\<lambda>r. if p_ID r = p_ID q then update_stats_row u q r else r) (find (\<lambda>r. p_ID r = p_ID p) (s_peers st))"
    unfolding ps by (rule find_upd_where) simp
  have "fst (UpdatePeer t p ?st') = fst (UpdatePeer t p st)
      \<and> untimed (snd (UpdatePeer t p ?st')) = untimed (UpdatePeerStats u q (snd (UpdatePeer t p st)))"
    unfolding UpdatePeer_def old dup
    by (cases "find (\<lambda>r. p_ID r = p_ID p) (s_peers st)")
      (auto simp: dup untimed_def UpdatePeerStats_def upd_where_def update_peer_row_def update_stats_row_def)
  moreover have "fst (SetPeerSuspended t k b ?st') = fst (SetPeerSuspended t k b st)
      \<and> untimed (snd (SetPeerSuspended t k b ?st')) = untimed (UpdatePeerStats u q (snd (SetPeerSuspended t k b st)))"
    unfolding SetPeerSuspended_def ex
    by (auto simp: untimed_def UpdatePeerStats_def upd_where_def update_stats_row_def)
  moreover have "fst (SoftResetPeerTraffic t k rx tx ?st') = fst (SoftResetPeerTraffic t k rx tx st)
      \<and> untimed (snd (SoftResetPeerTraffic t k rx tx ?st'))
        = untimed (UpdatePeerStats u q (snd (SoftResetPeerTraffic t k rx tx st)))"
    unfolding SoftResetPeerTraffic_def ex
    by (auto simp: untimed_def UpdatePeerStats_def upd_where_def update_stats_row_def)
  ultimately show ?thesis by blast
qed

section \<open>Retention\<close>

text \<open>
  Purging in batches equals purging at once: whatever the number of rows, the loop ends, removes
  exactly the samples (or events) whose time is before the cutoff, in the order of their text, keeps
  the order of the others, and reports how many it removed.
\<close>

theorem purge_exact:
  "PurgeSamples now d st =
     (length (filter (\<lambda>r. sr_At r < FormatNano (now - d)) (s_samples st)),
      st\<lparr>s_samples := filter (\<lambda>r. \<not> sr_At r < FormatNano (now - d)) (s_samples st)\<rparr>)
   \<and> PurgeEvents now d st =
     (length (filter (\<lambda>r. er_TS r < FormatNano (now - d)) (s_events st)),
      st\<lparr>s_events := filter (\<lambda>r. \<not> er_TS r < FormatNano (now - d)) (s_events st)\<rparr>)"
  by (simp add: PurgeSamples_eq PurgeEvents_eq)

text \<open>Thinning: a slice that has been thinned once stays thinned under further deletions.\<close>

definition thinned :: "string \<Rightarrow> string \<Rightarrow> sample_row list \<Rightarrow> bool" where
  "thinned a b rs \<longleftrightarrow> (\<forall>r\<in>set rs. \<forall>r'\<in>set rs. in_slice a b r \<and> in_slice a b r' \<and> bucket r' = bucket r
     \<longrightarrow> \<not> sr_ID r < sr_ID r')"

lemma thinned_subset: "thinned a b rs \<Longrightarrow> set rs' \<subseteq> set rs \<Longrightarrow> thinned a b rs'"
  unfolding thinned_def by blast

lemma thin_slice_id: "thinned a b rs \<Longrightarrow> thin_slice a b rs = rs"
  by (auto simp: thin_slice_def thinned_def list_ex_iff filter_id_conv)

lemma thin_slice_keeps:
  "r \<in> set rs \<Longrightarrow> \<exists>r'\<in>set (thin_slice a b rs). bucket r' = bucket r \<and> sr_ID r \<le> sr_ID r'"
proof -
  assume r: "r \<in> set rs"
  let ?S = "{r' \<in> set rs. in_slice a b r' \<and> bucket r' = bucket r}"
  show ?thesis
  proof (cases "in_slice a b r")
    case True
    with r have ne: "sr_ID ` ?S \<noteq> {}" "finite (sr_ID ` ?S)" by auto
    from Max_in [OF ne(2,1)] obtain m where m: "m \<in> ?S" "sr_ID m = Max (sr_ID ` ?S)" by auto
    have mx: "sr_ID x \<le> sr_ID m" if "x \<in> set rs" "in_slice a b x" "bucket x = bucket r" for x
      using that ne(2) m(2) by (auto intro!: Max_ge)
    have "m \<in> set (thin_slice a b rs)"
      using m(1) mx by (auto simp: thin_slice_def list_ex_iff not_less)
    with m(1) mx [OF r True refl] show ?thesis by blast
  next
    case False
    with r show ?thesis by (intro bexI [of _ r]) (auto simp: thin_slice_def)
  qed
qed

lemma thin_slice_thinned: "thinned a b (thin_slice a b rs)"
  by (auto simp: thin_slice_def thinned_def list_ex_iff)

lemma thin_loop_keeps:
  "r \<in> set rs \<Longrightarrow> \<exists>r'\<in>set (thin_loop lo hi rs). bucket r' = bucket r \<and> sr_ID r \<le> sr_ID r'"
proof (induction lo hi rs arbitrary: r rule: thin_loop.induct)
  case (1 lo hi rs)
  show ?case
  proof (cases "lo < hi")
    case True
    let ?up = "if lo + Hour > hi then hi else lo + Hour"
    obtain m where m: "m \<in> set (thin_slice (FormatSecs lo) (FormatSecs ?up) rs)" "bucket m = bucket r" "sr_ID r \<le> sr_ID m"
      using thin_slice_keeps [OF "1.prems"] by blast
    from "1.IH" [OF True refl m(1)] m(2,3) True show ?thesis
      by (subst thin_loop.simps) (fastforce simp: Let_def)
  next
    case False
    with "1.prems" show ?thesis by (subst thin_loop.simps) auto
  qed
qed

lemma thin_loop_set: "set (thin_loop lo hi rs) \<subseteq> set rs"
  using thin_loop_filter [of lo hi rs] by auto

lemma thin_loop_idem: "set rs' \<subseteq> set (thin_loop lo hi rs) \<Longrightarrow> thin_loop lo hi rs' = rs'"
proof (induction lo hi rs arbitrary: rs' rule: thin_loop.induct)
  case (1 lo hi rs)
  show ?case
  proof (cases "lo < hi")
    case True
    let ?up = "if lo + Hour > hi then hi else lo + Hour"
    let ?th = "thin_slice (FormatSecs lo) (FormatSecs ?up) rs"
    have sub: "set rs' \<subseteq> set (thin_loop (lo + Hour) hi ?th)"
      using "1.prems" True by (subst (asm) thin_loop.simps) (simp add: Let_def)
    then have "thinned (FormatSecs lo) (FormatSecs ?up) rs'"
      using thin_loop_set thinned_subset [OF thin_slice_thinned] by (meson order_trans)
    with "1.IH" [OF True refl sub] True show ?thesis
      by (subst thin_loop.simps) (simp add: Let_def thin_slice_id)
  next
    case False
    then show ?thesis by (subst thin_loop.simps) simp
  qed
qed

text \<open>
  Thinning is safe and complete: it only deletes; every peer that had a sample in a ten-minute
  bucket keeps one of that bucket which is at least as new; the number reported is the number of
  rows gone; and a second pass over the same range finds nothing left to delete.
\<close>

theorem thinning_safe:
  "(\<forall>r \<in> set (s_samples st). \<exists>r'\<in>set (s_samples (snd (ThinSamples a b st))).
      sr_PeerID r' = sr_PeerID r \<and> take 15 (sr_At r') = take 15 (sr_At r) \<and> sr_ID r \<le> sr_ID r')
   \<and> subseq (s_samples (snd (ThinSamples a b st))) (s_samples st)
   \<and> int (fst (ThinSamples a b st)) = int (length (s_samples st)) - int (length (s_samples (snd (ThinSamples a b st))))
   \<and> ThinSamples a b (snd (ThinSamples a b st)) = (0, snd (ThinSamples a b st))"
proof -
  obtain P where P: "thin_loop a b (s_samples st) = filter P (s_samples st)" using thin_loop_filter by blast
  have "subseq (filter P (s_samples st)) (s_samples st)" by simp
  moreover have "length (filter P (s_samples st)) \<le> length (s_samples st)" by simp
  moreover have "thin_loop a b (thin_loop a b (s_samples st)) = thin_loop a b (s_samples st)"
    by (rule thin_loop_idem [of _ a b "s_samples st"]) simp
  ultimately show ?thesis
    using thin_loop_keeps [of _ "s_samples st" a b] by (auto simp: ThinSamples_def Let_def bucket_def P)
qed

theorem thinning_safe_witness:
  "\<exists>r'\<in>set (s_samples (snd (ThinSamples 0 Hour demo_store))). sr_PeerID r' = 1 \<and> 1 \<le> sr_ID r'"
proof -
  obtain r where "r \<in> set (s_samples demo_store)" "sr_PeerID r = 1" "sr_ID r = 1"
    by (simp add: demo_simps)
  with thinning_safe [of demo_store 0 Hour] show ?thesis by force
qed

section \<open>Baselines\<close>

lemma foldl_filter: "foldl (\<lambda>b r. if P r \<and> Q b r then Some r else b) b rs
    = foldl (\<lambda>b r. if Q b r then Some r else b) b (filter P rs)"
  by (induction rs arbitrary: b) auto

lemma newest_fold:
  fixes key :: "'r \<Rightarrow> 'k::linorder"
  defines "step \<equiv> \<lambda>b r. if (case b of None \<Rightarrow> True | Some x \<Rightarrow> key x < key r) then Some r else b"
  shows "foldl step (Some x) rs = Some m \<Longrightarrow> m \<in> insert x (set rs) \<and> (\<forall>r\<in>insert x (set rs). key r \<le> key m)"
    and "foldl step None rs = None \<longleftrightarrow> rs = []" and "\<exists>m. foldl step (Some x) rs = Some m"
proof -
  have some: "\<exists>m. foldl step (Some x) rs = Some m \<and> m \<in> insert x (set rs) \<and> (\<forall>r\<in>insert x (set rs). key r \<le> key m)"
    for x
  proof (induction rs arbitrary: x)
    case (Cons y ys)
    show ?case
    proof (cases "key x < key y")
      case True
      with Cons.IH [of y] show ?thesis by (auto simp: step_def)
    next
      case False
      with Cons.IH [of x] show ?thesis by (auto simp: step_def)
    qed
  qed simp
  from some [of x] show "foldl step (Some x) rs = Some m \<Longrightarrow> m \<in> insert x (set rs) \<and> (\<forall>r\<in>insert x (set rs). key r \<le> key m)"
    and "\<exists>m. foldl step (Some x) rs = Some m" by auto
  have "foldl step None (y # ys) \<noteq> None" for y ys
  proof -
    have "\<exists>m. foldl step (Some y) ys = Some m"
      by (induction ys arbitrary: y) (auto simp: step_def)
    then show ?thesis by (auto simp: step_def)
  qed
  then show "foldl step None rs = None \<longleftrightarrow> rs = []" by (cases rs) auto
qed

text \<open>
  The baseline of a window is the right row: a lookup for a time returns a stored sample of
  that peer not after the time, and none of the peer's samples up to the time is newer (times
  compared as the strings stored); it fails only if the peer has no sample up to the time.
\<close>

theorem baseline_newest:
  "case SampleAtOrBefore k t st of
     Inl e \<Rightarrow> e = NotFound \<and> filter (\<lambda>r. sr_PeerID r = k \<and> sr_At r \<le> FormatNano t) (s_samples st) = []
   | Inr s \<Rightarrow> \<exists>m\<in>set (s_samples st). s = scanSample m \<and> sr_PeerID m = k \<and> sr_At m \<le> FormatNano t
       \<and> filter (\<lambda>r. sr_PeerID r = k \<and> sr_At r \<le> FormatNano t \<and> sr_At m < sr_At r) (s_samples st) = []"
proof -
  let ?P = "\<lambda>r. sr_PeerID r = k \<and> sr_At r \<le> FormatNano t"
  let ?step = "\<lambda>b r. if (case b of None \<Rightarrow> True | Some x \<Rightarrow> sr_At x < sr_At r) then Some r else b"
  let ?rs = "filter ?P (s_samples st)"
  have S: "SampleAtOrBefore k t st = (case foldl ?step None ?rs of None \<Rightarrow> Inl NotFound | Some r \<Rightarrow> Inr (scanSample r))"
    using foldl_filter [of ?P "\<lambda>b r. case b of None \<Rightarrow> True | Some x \<Rightarrow> sr_At x < sr_At r" None "s_samples st"]
    by (simp add: SampleAtOrBefore_def conj_assoc)
  show ?thesis
  proof (cases ?rs)
    case Nil
    then show ?thesis by (simp add: S)
  next
    case (Cons x xs)
    obtain m where m: "foldl ?step (Some x) xs = Some m" using newest_fold(3) [of sr_At x xs] by blast
    have "foldl ?step None ?rs = Some m" using m by (simp add: Cons)
    moreover have "m \<in> set ?rs" "\<forall>r\<in>set ?rs. sr_At r \<le> sr_At m"
      using newest_fold(1) [OF m] by (simp_all add: Cons)
    ultimately show ?thesis by (auto simp: S filter_empty_conv not_less)
  qed
qed

text \<open>
  The stored times do not sort chronologically within a second, because the text drops trailing
  zeros: a sample taken at exactly 10:00:00 is not found by a lookup for 10:00:00.5, and a purge with
  the cutoff 10:00:00.5 keeps it.
\<close>

theorem same_second_misordered:
  "let t = (days_from_civil 2026 1 1 * 86400 + 36000) * 1000000000;
       st = InsertSamples [\<lparr>ts_ID = 0, ts_PeerID = 1, ts_SampledAt = t, ts_RxBytes = 5, ts_TxBytes = 7,
         ts_RxBps = 0, ts_TxBps = 0\<rparr>] empty_store
   in FormatNano t = ''2026-01-01T10:00:00Z'' \<and> FormatNano (t + 500000000) = ''2026-01-01T10:00:00.5Z''
      \<and> SampleAtOrBefore 1 (t + 500000000) st = Inl NotFound
      \<and> fst (PurgeSamples (t + 500000000) 0 st) = 0"
proof -
  define t where "t = (days_from_civil 2026 1 1 * 86400 + 36000) * 1000000000"
  have d: "days_from_civil 2026 1 1 = 739616" and c: "civil_from_days 739616 = (2026, 1, 1)" by code_simp+
  have t: "t = 63902858400000000000" by (simp add: t_def d)
  have f: "FormatNano t = ''2026-01-01T10:00:00Z''" "FormatNano (t + 500000000) = ''2026-01-01T10:00:00.5Z''"
    by (simp_all add: t FormatNano_def FormatSecs_def c pad_def fmt_frac_def nat_str_eval digit_char_eval Let_def)
  have l: "(''2026-01-01T10:00:00Z'' \<le> ''2026-01-01T10:00:00.5Z'') = False"
    "(''2026-01-01T10:00:00Z'' < ''2026-01-01T10:00:00.5Z'') = False" by code_simp+
  have "SampleAtOrBefore 1 (t + 500000000) (InsertSamples [\<lparr>ts_ID = 0, ts_PeerID = 1, ts_SampledAt = t,
      ts_RxBytes = 5, ts_TxBytes = 7, ts_RxBps = 0, ts_TxBps = 0\<rparr>] empty_store) = Inl NotFound"
    by (simp only: SampleAtOrBefore_def InsertSamples.simps Let_def) (simp add: f sample_row_of_def empty_store_def l)
  moreover have "fst (PurgeSamples (t + 500000000) 0 (InsertSamples [\<lparr>ts_ID = 0, ts_PeerID = 1, ts_SampledAt = t,
      ts_RxBytes = 5, ts_TxBytes = 7, ts_RxBps = 0, ts_TxBps = 0\<rparr>] empty_store)) = 0"
    by (simp only: PurgeSamples_eq InsertSamples.simps Let_def) (simp add: f sample_row_of_def empty_store_def l)
  ultimately show ?thesis using f unfolding t_def [symmetric] Let_def by blast
qed

end
