(* ===== verification/Amnezia.thy ===== *)
theory Amnezia
  imports Prelude
begin

text \<open>
  The data planes and the AmneziaWG parameters (\<open>internal/wgbackend/amnezia.go\<close>), and the choice of
  a data plane (\<open>internal/wgbackend/resolve.go\<close>).  The generator of random presets is not modelled
  (it draws from \<open>crypto/rand\<close>); the probe of the host is a parameter: the capabilities it found.
\<close>

section \<open>Names\<close>

definition BackendAuto :: string where "BackendAuto = ''auto''"
definition BackendKernel :: string where "BackendKernel = ''kernel''"
definition BackendUserspace :: string where "BackendUserspace = ''userspace''"
definition BackendAmneziaKernel :: string where "BackendAmneziaKernel = ''amnezia_kernel''"
definition BackendAmneziaGo :: string where "BackendAmneziaGo = ''amnezia_go''"
definition BackendSwift :: string where "BackendSwift = ''swift''"
definition ProtocolWG :: string where "ProtocolWG = ''wg''"
definition ProtocolAWG :: string where "ProtocolAWG = ''awg''"

lemmas backend_names = BackendAuto_def BackendKernel_def BackendUserspace_def BackendAmneziaKernel_def
  BackendAmneziaGo_def BackendSwift_def ProtocolWG_def ProtocolAWG_def

datatype name_error = InvalidBackend string | InvalidProtocol string

definition NormalizeBackend :: "string \<Rightarrow> name_error + string" where
  "NormalizeBackend s0 =
     (let s = ToLower (TrimSpace s0) in
      if s = [] then Inr BackendAuto
      else if s \<in> {BackendAuto, BackendKernel, BackendUserspace, BackendAmneziaKernel, BackendAmneziaGo, BackendSwift}
        then Inr s
      else if s \<in> {''wg'', ''wireguard'', ''wireguard-kernel''} then Inr BackendKernel
      else if s \<in> {''wireguard-go'', ''wg-go'', ''go''} then Inr BackendUserspace
      else if s \<in> {''amnezia'', ''amneziawg'', ''awg'', ''amnezia-kernel'', ''amneziawg-kernel''} then Inr BackendAmneziaKernel
      else if s \<in> {''amnezia-go'', ''amneziawg-go'', ''awg-go''} then Inr BackendAmneziaGo
      else if s \<in> {''swiftwg'', ''swift-go''} then Inr BackendSwift
      else Inl (InvalidBackend s))"

definition NormalizeProtocol :: "string \<Rightarrow> name_error + string" where
  "NormalizeProtocol s0 =
     (let s = ToLower (TrimSpace s0) in
      if s = [] then Inr ProtocolWG
      else if s \<in> {ProtocolWG, ''wireguard'', ''plain''} then Inr ProtocolWG
      else if s \<in> {ProtocolAWG, ''amnezia'', ''amneziawg''} then Inr ProtocolAWG
      else Inl (InvalidProtocol s))"

text \<open>\<open>b, _ := NormalizeBackend(backend)\<close>: the empty string on an error.\<close>

definition backend_or_empty :: "string \<Rightarrow> string" where
  "backend_or_empty s = (case NormalizeBackend s of Inl _ \<Rightarrow> [] | Inr b \<Rightarrow> b)"

definition IsAmneziaBackend :: "string \<Rightarrow> bool" where
  "IsAmneziaBackend s = (backend_or_empty s \<in> {BackendAmneziaKernel, BackendAmneziaGo, BackendSwift})"

definition IsUserspaceBackend :: "string \<Rightarrow> bool" where
  "IsUserspaceBackend s = (backend_or_empty s \<in> {BackendUserspace, BackendAmneziaGo, BackendSwift})"

section \<open>Parameters\<close>

record AmneziaParams =
  am_Jc :: int
  am_Jmin :: int
  am_Jmax :: int
  am_S1 :: int
  am_S2 :: int
  am_S3 :: int
  am_S4 :: int
  am_H1 :: string
  am_H2 :: string
  am_H3 :: string
  am_H4 :: string
  am_I1 :: string
  am_I2 :: string
  am_I3 :: string
  am_I4 :: string
  am_I5 :: string

definition zero_amnezia :: AmneziaParams where
  "zero_amnezia = \<lparr>am_Jc = 0, am_Jmin = 0, am_Jmax = 0, am_S1 = 0, am_S2 = 0, am_S3 = 0, am_S4 = 0,
     am_H1 = [], am_H2 = [], am_H3 = [], am_H4 = [], am_I1 = [], am_I2 = [], am_I3 = [], am_I4 = [], am_I5 = []\<rparr>"

definition IsZeroParams :: "AmneziaParams \<Rightarrow> bool" where
  "IsZeroParams p = (am_Jc p = 0 \<and> am_Jmin p = 0 \<and> am_Jmax p = 0
     \<and> am_S1 p = 0 \<and> am_S2 p = 0 \<and> am_S3 p = 0 \<and> am_S4 p = 0
     \<and> am_H1 p = [] \<and> am_H2 p = [] \<and> am_H3 p = [] \<and> am_H4 p = []
     \<and> am_I1 p = [] \<and> am_I2 p = [] \<and> am_I3 p = [] \<and> am_I4 p = [] \<and> am_I5 p = [])"

definition NeutralAmneziaParams :: AmneziaParams where
  "NeutralAmneziaParams = zero_amnezia\<lparr>am_H1 := ''1'', am_H2 := ''2'', am_H3 := ''3'', am_H4 := ''4''\<rparr>"

definition or_else :: "string \<Rightarrow> string \<Rightarrow> string" where
  "or_else s d = (if s = [] then d else s)"

definition IsNeutral :: "AmneziaParams \<Rightarrow> bool" where
  "IsNeutral p = (or_else (am_H1 p) ''1'' = ''1'' \<and> or_else (am_H2 p) ''2'' = ''2''
     \<and> or_else (am_H3 p) ''3'' = ''3'' \<and> or_else (am_H4 p) ''4'' = ''4''
     \<and> am_S1 p = 0 \<and> am_S2 p = 0 \<and> am_S3 p = 0 \<and> am_S4 p = 0)"

text \<open>The lines of the configuration protocol: only the parameters that are set.\<close>

definition addInt :: "string \<Rightarrow> int \<Rightarrow> string list" where
  "addInt k v = (if v \<noteq> 0 then [k @ ''='' @ int_str v] else [])"

definition addStr :: "string \<Rightarrow> string \<Rightarrow> string list" where
  "addStr k v = (if v \<noteq> [] then [k @ ''='' @ v] else [])"

definition UAPILines :: "AmneziaParams \<Rightarrow> string list" where
  "UAPILines p = addInt ''jc'' (am_Jc p) @ addInt ''jmin'' (am_Jmin p) @ addInt ''jmax'' (am_Jmax p)
     @ addInt ''s1'' (am_S1 p) @ addInt ''s2'' (am_S2 p) @ addInt ''s3'' (am_S3 p) @ addInt ''s4'' (am_S4 p)
     @ addStr ''h1'' (am_H1 p) @ addStr ''h2'' (am_H2 p) @ addStr ''h3'' (am_H3 p) @ addStr ''h4'' (am_H4 p)
     @ addStr ''i1'' (am_I1 p) @ addStr ''i2'' (am_I2 p) @ addStr ''i3'' (am_I3 p) @ addStr ''i4'' (am_I4 p)
     @ addStr ''i5'' (am_I5 p)"

datatype amnezia_error = BadJc | BadJminJmax | JminAboveJmax | BadS | S1S2Clash | DuplicateH

fun dup_set :: "string list \<Rightarrow> string list \<Rightarrow> bool" where
  "dup_set seen [] = False"
| "dup_set seen (h # hs) = (if h = [] then dup_set seen hs
     else if h \<in> set seen then True else dup_set (h # seen) hs)"

definition Validate :: "AmneziaParams \<Rightarrow> amnezia_error option" where
  "Validate p =
     (if am_Jc p < 0 \<or> am_Jc p > 128 then Some BadJc
      else if am_Jmin p < 0 \<or> am_Jmax p < 0 then Some BadJminJmax
      else if am_Jmax p > 0 \<and> am_Jmin p > am_Jmax p then Some JminAboveJmax
      else if am_S1 p < 0 \<or> am_S2 p < 0 \<or> am_S3 p < 0 \<or> am_S4 p < 0 then Some BadS
      else if am_S1 p > 0 \<and> am_S2 p > 0 \<and> i64 (am_S1 p + 56) = am_S2 p then Some S1S2Clash
      else if dup_set [] [am_H1 p, am_H2 p, am_H3 p, am_H4 p] then Some DuplicateH
      else None)"

text \<open>The port and the name of the AWG twin.\<close>

definition PairPort :: "int \<Rightarrow> int" where
  "PairPort port =
     (if port \<le> 0 then 0
      else let p = i64 (port + 10)
        in if p > 65535 then (let q = port - 10 in if q < 1 then 1 else q) else p)"

definition DefaultPairName :: "string \<Rightarrow> string" where
  "DefaultPairName wgName =
     (let n = TrimSpace wgName in
      if n = [] then ''awg0''
      else if suffix ''-awg'' n then n
      else if suffix ''-in'' n then TrimSuffix n ''-in'' @ ''-awg''
      else if prefix ''wg'' n \<and> \<not> prefix ''awg'' n then ''awg'' @ TrimPrefix n ''wg''
      else n @ ''-awg'')"

section \<open>Choosing the data plane\<close>

record BackendCaps =
  cap_KernelWG :: bool
  cap_UserspaceWG :: bool
  cap_KernelAmnezia :: bool
  cap_UserspaceAmnezia :: bool
  cap_Swift :: bool
  cap_AWGTool :: bool

datatype resolve_error = BadName name_error | NeedsAmnezia string | BinaryNotFound string

definition ResolveBackend :: "BackendCaps \<Rightarrow> string \<Rightarrow> string \<Rightarrow> resolve_error + string" where
  "ResolveBackend caps protocol requested =
     (case NormalizeProtocol protocol of Inl e \<Rightarrow> Inl (BadName e) | Inr proto \<Rightarrow>
     (case NormalizeBackend requested of Inl e \<Rightarrow> Inl (BadName e) | Inr req \<Rightarrow>
      if req \<noteq> BackendAuto then
        (if proto = ProtocolAWG \<and> \<not> IsAmneziaBackend req then Inl (NeedsAmnezia req)
         else if proto = ProtocolWG \<and> IsAmneziaBackend req then Inr req
         else if req = BackendUserspace \<and> \<not> cap_UserspaceWG caps then Inl (BinaryNotFound ''wireguard-go'')
         else if req = BackendAmneziaGo \<and> \<not> cap_UserspaceAmnezia caps then Inl (BinaryNotFound ''amneziawg-go'')
         else if req = BackendSwift \<and> \<not> cap_Swift caps then Inl (BinaryNotFound ''swiftwg'')
         else Inr req)
      else if proto = ProtocolAWG then
        (if cap_KernelAmnezia caps then Inr BackendAmneziaKernel
         else if cap_UserspaceAmnezia caps then Inr BackendAmneziaGo
         else Inr BackendAmneziaKernel)
      else if cap_KernelWG caps then Inr BackendKernel
      else if cap_UserspaceWG caps then Inr BackendUserspace
      else Inr BackendKernel))"

section \<open>Lemmas\<close>

lemma NormalizeProtocol_cases:
  "NormalizeProtocol s = Inr p \<Longrightarrow> p = ProtocolWG \<or> p = ProtocolAWG"
  by (auto simp: NormalizeProtocol_def Let_def split: if_splits)

lemma NormalizeBackend_cases:
  "NormalizeBackend s = Inr b \<Longrightarrow>
    b \<in> {BackendAuto, BackendKernel, BackendUserspace, BackendAmneziaKernel, BackendAmneziaGo, BackendSwift}"
  unfolding NormalizeBackend_def Let_def by (simp split: if_splits; blast)

lemma NormalizeBackend_canonical:
  "b \<in> {BackendAuto, BackendKernel, BackendUserspace, BackendAmneziaKernel, BackendAmneziaGo, BackendSwift}
    \<Longrightarrow> NormalizeBackend b = Inr b"
  by (elim insertE emptyE) (simp_all only:, code_simp+)

lemma NormalizeBackend_idem: "NormalizeBackend s = Inr b \<Longrightarrow> NormalizeBackend b = Inr b"
  by (rule NormalizeBackend_canonical) (rule NormalizeBackend_cases)

lemma IsAmneziaBackend_canonical:
  "NormalizeBackend s = Inr b \<Longrightarrow> IsAmneziaBackend b \<longleftrightarrow> b \<in> {BackendAmneziaKernel, BackendAmneziaGo, BackendSwift}"
  by (simp add: IsAmneziaBackend_def backend_or_empty_def NormalizeBackend_idem)

lemma IsNeutral_iff_zero: "IsZeroParams p \<Longrightarrow> IsNeutral p"
  by (simp add: IsZeroParams_def IsNeutral_def or_else_def)

lemma dup_set_spec: "dup_set seen hs \<longleftrightarrow>
    \<not> (distinct (filter (\<lambda>h. h \<noteq> []) hs) \<and> set (filter (\<lambda>h. h \<noteq> []) hs) \<inter> set seen = {})"
  by (induction seen hs rule: dup_set.induct) auto

section \<open>Properties\<close>

text \<open>
  The data plane chosen is a concrete one that fits: it is never \<open>auto\<close>, an explicit request is
  honoured (never replaced by another data plane), AmneziaWG is only ever given to a data plane that
  speaks it, and asking again with the answer gives the same answer.
\<close>

theorem resolve_backend_sound:
  assumes "ResolveBackend caps pr rq = Inr b"
  shows "b \<in> {BackendKernel, BackendUserspace, BackendAmneziaKernel, BackendAmneziaGo, BackendSwift}
    \<and> NormalizeBackend rq \<in> {Inr BackendAuto, Inr b}
    \<and> (NormalizeProtocol pr = Inr ProtocolWG \<or> IsAmneziaBackend b)
    \<and> ResolveBackend caps pr b = Inr b"
proof -
  from assms obtain proto where p: "NormalizeProtocol pr = Inr proto"
    by (cases "NormalizeProtocol pr") (auto simp: ResolveBackend_def)
  from assms p obtain req where r: "NormalizeBackend rq = Inr req"
    by (cases "NormalizeBackend rq") (auto simp: ResolveBackend_def)
  have pr: "proto = ProtocolWG \<or> proto = ProtocolAWG" using p by (rule NormalizeProtocol_cases)
  have ne: "BackendAuto \<notin> {BackendKernel, BackendUserspace, BackendAmneziaKernel, BackendAmneziaGo, BackendSwift}"
    "ProtocolWG \<noteq> ProtocolAWG" "BackendAmneziaKernel \<notin> {BackendUserspace, BackendAmneziaGo, BackendSwift}"
    "BackendKernel \<notin> {BackendUserspace, BackendAmneziaGo, BackendSwift}" "BackendUserspace \<notin> {BackendAmneziaGo, BackendSwift}"
    "BackendAmneziaGo \<noteq> BackendSwift"
    by (simp_all add: backend_names)
  have b: "b \<in> {BackendKernel, BackendUserspace, BackendAmneziaKernel, BackendAmneziaGo, BackendSwift}"
    using assms p r NormalizeBackend_cases [OF r] by (auto simp: ResolveBackend_def split: if_splits)
  then have nb: "NormalizeBackend b = Inr b" by (intro NormalizeBackend_canonical) blast
  note am = IsAmneziaBackend_canonical [OF nb]
  have "req = BackendAuto \<or> req = b" using assms p r by (auto simp: ResolveBackend_def split: if_splits)
  moreover have "proto = ProtocolWG \<or> IsAmneziaBackend b"
    using assms p r pr am by (auto simp: ResolveBackend_def split: if_splits)
  moreover have "ResolveBackend caps pr b = Inr b"
    using assms p r nb b ne am by (auto simp: ResolveBackend_def split: if_splits)
  ultimately show ?thesis using b p r by auto
qed

theorem resolve_backend_sound_witness:
  "ResolveBackend \<lparr>cap_KernelWG = True, cap_UserspaceWG = True, cap_KernelAmnezia = False,
      cap_UserspaceAmnezia = True, cap_Swift = False, cap_AWGTool = True\<rparr> ''AWG'' ''amnezia_go'' = Inr ''amnezia_go''"
proof -
  have "ResolveBackend \<lparr>cap_KernelWG = True, cap_UserspaceWG = True, cap_KernelAmnezia = False,
      cap_UserspaceAmnezia = True, cap_Swift = False, cap_AWGTool = True\<rparr> ''AWG'' [] = Inr ''amnezia_go''"
    by code_simp
  from resolve_backend_sound [OF this] show ?thesis by blast
qed

text \<open>
  What the validation of AmneziaWG parameters guarantees: it accepts exactly the parameters in
  range, with \<open>jmin\<close> not above a \<open>jmax\<close> that is set, with header types that are pairwise different
  where they are set, and whose padded handshake messages do not have the same length.
\<close>

theorem amnezia_validation_exact:
  "Validate p = None \<longleftrightarrow>
     (am_Jc p \<in> {0..128} \<and> 0 \<le> am_Jmin p \<and> 0 \<le> am_Jmax p \<and> (am_Jmax p = 0 \<or> am_Jmin p \<le> am_Jmax p)
      \<and> 0 \<le> am_S1 p \<and> 0 \<le> am_S2 p \<and> 0 \<le> am_S3 p \<and> 0 \<le> am_S4 p
      \<and> (am_S1 p = 0 \<or> am_S2 p = 0 \<or> i64 (am_S1 p + 56) \<in> - {am_S2 p})
      \<and> distinct (filter (\<lambda>h. h \<noteq> []) [am_H1 p, am_H2 p, am_H3 p, am_H4 p]))"
proof -
  define D where "D = dup_set [] [am_H1 p, am_H2 p, am_H3 p, am_H4 p]"
  have "D \<longleftrightarrow> \<not> distinct (filter (\<lambda>h. h \<noteq> []) [am_H1 p, am_H2 p, am_H3 p, am_H4 p])"
    unfolding D_def dup_set_spec by (simp only: list.set inf_bot_right simp_thms)
  then show ?thesis unfolding Validate_def D_def [symmetric]
    by (auto simp del: filter.simps distinct.simps split: if_splits)
qed

text \<open>
  The port of the AWG twin of an interface with a real port is a real port and not the same one;
  without a port there is no twin port.
\<close>

theorem pair_port_ok:
  "if port \<in> {1..65535} then PairPort port \<in> {1..65535} - {port} else PairPort (min port 0) = 0"
  by (auto simp: PairPort_def Let_def i64_def)

end
