(* ===== verification/Backend.thy ===== *)
theory Backend
  imports Amnezia GoTime Netutil "HOL-Library.Multiset"
begin

text \<open>
  The data the reconciler and the backends exchange (\<open>internal/wgbackend/backend.go\<close>), the parsing
  of DNS lists (\<open>dns_apply.go\<close>) and the multiplexer that lets AmneziaWG share a WireGuard port
  (\<open>mux.go\<close>), with its validation, its nft rule set and the decision what to apply.  The runner of
  host commands is a parameter: which commands succeed.
\<close>

section \<open>Live and desired state\<close>

record live_peer =
  lp_PublicKey :: string
  lp_PresharedKey :: string
  lp_Endpoint :: string
  lp_AllowedIPs :: "string list"
  lp_PersistentKeepaliveInterval :: duration
  lp_LastHandshakeTime :: gotime
  lp_ReceiveBytes :: int
  lp_TransmitBytes :: int

record Device =
  d_Name :: string
  d_PublicKey :: string
  d_PrivateKey :: string
  d_ListenPort :: int
  d_FirewallMark :: int
  d_MTU :: int
  d_Addresses :: "string list"
  d_Peers :: "live_peer list"
  d_Up :: bool
  d_Backend :: string
  d_Protocol :: string

definition ZeroKey :: string where
  "ZeroKey = replicate 43 CHR ''A'' @ ''=''"

definition IsZeroKey :: "string \<Rightarrow> bool" where
  "IsZeroKey k = (k = [] \<or> k = ZeroKey)"

record DesiredPeer =
  dp_PublicKey :: string
  dp_PresharedKey :: string
  dp_Endpoint :: string
  dp_AllowedIPs :: "string list"
  dp_AssignedIPs :: "string list"
  dp_PersistentKeepalive :: int
  dp_Suspended :: bool
  dp_BandwidthRxBps :: int
  dp_BandwidthTxBps :: int

record DesiredInterface =
  di_Name :: string
  di_PrivateKey :: string
  di_ListenPort :: int
  di_FwMark :: int
  di_MTU :: int
  di_Addresses :: "string list"
  di_TableMode :: string
  di_TableID :: "int option"
  di_DNS :: "string list"
  di_PreUp :: string
  di_PostUp :: string
  di_PreDown :: string
  di_PostDown :: string
  di_Enabled :: bool
  di_Peers :: "DesiredPeer list"
  di_Backend :: string
  di_Protocol :: string
  di_Amnezia :: AmneziaParams

datatype backend_error = DeviceNotFound string | MuxInvalid | Failed

section \<open>DNS lists\<close>

record DNSConfig =
  dns_Servers :: "string list"
  dns_Domains :: "string list"

text \<open>The host an entry names: without brackets or port when it has them.\<close>

definition dns_host :: "string \<Rightarrow> string" where
  "dns_host e =
     (if prefix ''['' e then
        (case LastIndex CHR '']'' e of Some i \<Rightarrow> if i > 0 then take (i - 1) (drop 1 e) else e | None \<Rightarrow> e)
      else (case SplitHostPort e of Some (h, _) \<Rightarrow> h | None \<Rightarrow> e))"

definition dns_entry :: "string \<Rightarrow> DNSConfig \<Rightarrow> DNSConfig" where
  "dns_entry e0 cfg =
     (let e = TrimSpace e0 in
      if e = [] then cfg
      else if ParseIP (dns_host e) \<noteq> None then
        (if e \<in> set (dns_Servers cfg) then cfg else cfg\<lparr>dns_Servers := dns_Servers cfg @ [e]\<rparr>)
      else let d = TrimPrefix e ''~'' in
        (if d \<in> set (dns_Domains cfg) then cfg else cfg\<lparr>dns_Domains := dns_Domains cfg @ [d]\<rparr>))"

definition ParseDNSList :: "string list \<Rightarrow> DNSConfig" where
  "ParseDNSList es = fold dns_entry es \<lparr>dns_Servers = [], dns_Domains = []\<rparr>"

definition resolvconfIface :: "string \<Rightarrow> string" where
  "resolvconfIface iface = ''tun.'' @ iface"

section \<open>The multiplexer\<close>

record MuxMap =
  mx_PublicPort :: int
  mx_AWGPort :: int
  mx_Iface :: string
  mx_Alias :: bool

datatype mux_error = MuxBadPort string int int | MuxSamePort string int | MuxUsedTwice string int | MuxBoth int

fun mux_check :: "int list \<Rightarrow> int list \<Rightarrow> MuxMap list \<Rightarrow> mux_error + int list \<times> int list" where
  "mux_check pub bck [] = Inr (pub, bck)"
| "mux_check pub bck (m # ms) =
     (if mx_PublicPort m < 1 \<or> mx_PublicPort m > 65535 \<or> mx_AWGPort m < 1 \<or> mx_AWGPort m > 65535
      then Inl (MuxBadPort (mx_Iface m) (mx_PublicPort m) (mx_AWGPort m))
      else if mx_PublicPort m = mx_AWGPort m then Inl (MuxSamePort (mx_Iface m) (mx_AWGPort m))
      else if mx_PublicPort m \<in> set pub then Inl (MuxUsedTwice (mx_Iface m) (mx_PublicPort m))
      else mux_check (pub @ [mx_PublicPort m]) (mx_AWGPort m # bck) ms)"

text \<open>The last loop ranges over a Go map; of several clashing ports the first given is reported.\<close>

definition ValidateMuxMaps :: "MuxMap list \<Rightarrow> mux_error option" where
  "ValidateMuxMaps maps =
     (case mux_check [] [] maps of
        Inl e \<Rightarrow> Some e
      | Inr (pub, bck) \<Rightarrow> map_option MuxBoth (find (\<lambda>p. p \<in> set bck) pub))"

text \<open>nft identifiers, and Go's quoted strings for ASCII.\<close>

definition is_letter :: "char \<Rightarrow> bool" where
  "is_letter c \<longleftrightarrow> CHR ''A'' \<le> c \<and> c \<le> CHR ''Z'' \<or> CHR ''a'' \<le> c \<and> c \<le> CHR ''z''"

definition sanitizeNFTIdent :: "string \<Rightarrow> string" where
  "sanitizeNFTIdent s =
     (if s = [] then ''iface''
      else let out = map (\<lambda>r. if is_letter r \<or> is_digit r \<or> r = CHR ''_'' then r else CHR ''_'') s
        in if is_digit (hd out) then ''n'' @ out else out)"

definition quote_char :: "char \<Rightarrow> string" where
  "quote_char c =
     (if c = CHR 0x22 \<or> c = CHR 0x5C then [CHR 0x5C, c]
      else case map_of [(CHR 0x07, CHR ''a''), (CHR 0x08, CHR ''b''), (CHR 0x0C, CHR ''f''), (CHR 0x0A, CHR ''n''),
          (CHR 0x0D, CHR ''r''), (CHR 0x09, CHR ''t''), (CHR 0x0B, CHR ''v'')] c of
        Some e \<Rightarrow> [CHR 0x5C, e]
      | None \<Rightarrow> (let n = of_char c :: nat; d = ''0123456789abcdef'' in
          if n < 32 \<or> n = 127 then [CHR 0x5C, CHR ''x'', d ! (n div 16), d ! (n mod 16)] else [c]))"

definition quoted :: "string \<Rightarrow> string" where
  "quoted s = [CHR 0x22] @ concat (map quote_char s) @ [CHR 0x22]"

definition nl :: string where
  "nl = [CHR 0x0A]"

definition jump_rule :: "MuxMap \<Rightarrow> string" where
  "jump_rule m =
     (if mx_Alias m then
        ''    fib daddr type local udp dport '' @ int_str (mx_PublicPort m) @ '' counter redirect to :''
          @ int_str (mx_AWGPort m) @ '' comment '' @ quoted (''swift alias '' @ sanitizeNFTIdent (mx_Iface m)) @ nl
      else ''    fib daddr type local udp dport '' @ int_str (mx_PublicPort m) @ '' jump classify_''
          @ int_str (mx_PublicPort m) @ nl)"

definition classify_chain :: "MuxMap \<Rightarrow> string" where
  "classify_chain m =
     (if mx_Alias m then []
      else ''  chain classify_'' @ int_str (mx_PublicPort m) @ '' {'' @ nl
        @ ''    udp length 156 @th,64,32 0x01000000 counter return comment '' @ quoted ''wg initiation'' @ nl
        @ ''    udp length 100 @th,64,32 0x02000000 counter return comment '' @ quoted ''wg response'' @ nl
        @ ''    udp length 72 @th,64,32 0x03000000 counter return comment '' @ quoted ''wg cookie'' @ nl
        @ ''    udp length >= 40 udp length & 0x000f == 0x0008 @th,64,32 0x04000000 counter return comment ''
          @ quoted ''wg transport'' @ nl
        @ ''    udp dport '' @ int_str (mx_PublicPort m) @ '' counter redirect to :'' @ int_str (mx_AWGPort m)
          @ '' comment '' @ quoted (''awg '' @ sanitizeNFTIdent (mx_Iface m)) @ nl
        @ ''  }'' @ nl)"

definition muxTable :: string where
  "muxTable = ''wireguardd_mux''"

definition RenderMux :: "MuxMap list \<Rightarrow> string" where
  "RenderMux maps =
     (if maps = [] then []
      else let ms = sort_key mx_PublicPort maps in
        ''table inet '' @ muxTable @ '' {'' @ nl
        @ ''  chain prerouting {'' @ nl
        @ ''    type nat hook prerouting priority dstnat; policy accept;'' @ nl
        @ concat (map jump_rule ms)
        @ ''  }'' @ nl
        @ concat (map classify_chain ms)
        @ ''}'' @ nl)"

text \<open>
  \<open>HostBackend.SyncMux\<close>: the error, the rule set remembered and the commands run, for a runner that
  says which commands succeed; removing the temporary file is not modelled.
\<close>

datatype mux_cmd = ListTable | DeleteTable | WriteScript string | ApplyScript string

definition mux_script :: "string \<Rightarrow> string" where
  "mux_script rules = ''table inet '' @ muxTable @ nl @ ''delete table inet '' @ muxTable @ nl @ rules"

datatype mux_sync_error = MuxRejected mux_error | MuxRemoveFailed | MuxTempFileFailed | MuxApplyFailed

definition SyncMux :: "(mux_cmd \<Rightarrow> bool) \<Rightarrow> MuxMap list \<Rightarrow> string
    \<Rightarrow> mux_sync_error option \<times> string \<times> mux_cmd list" where
  "SyncMux ok maps applied =
     (case ValidateMuxMaps maps of Some e \<Rightarrow> (Some (MuxRejected e), applied, []) | None \<Rightarrow>
      (let rules = RenderMux maps; present = ok ListTable in
       if rules = [] then
         (if \<not> present then (None, [], [ListTable])
          else if \<not> ok DeleteTable then (Some MuxRemoveFailed, [], [ListTable, DeleteTable])
          else (None, [], [ListTable, DeleteTable]))
       else if present \<and> rules = applied then (None, applied, [ListTable])
       else let f = WriteScript (mux_script rules); c = ApplyScript (mux_script rules) in
         (if \<not> ok f then (Some MuxTempFileFailed, applied, [ListTable, f])
          else if \<not> ok c then (Some MuxApplyFailed, applied, [ListTable, f, c])
          else (None, rules, [ListTable, f, c]))))"

section \<open>Lemmas\<close>

lemma mux_check_spec:
  "mux_check pub bck ms = Inr (pub', bck') \<longleftrightarrow>
     (\<forall>m\<in>set ms. mx_PublicPort m \<in> {1..65535} \<and> mx_AWGPort m \<in> {1..65535} \<and> mx_PublicPort m \<noteq> mx_AWGPort m)
     \<and> distinct (map mx_PublicPort ms) \<and> set (map mx_PublicPort ms) \<inter> set pub = {}
     \<and> pub' = pub @ map mx_PublicPort ms \<and> bck' = rev (map mx_AWGPort ms) @ bck"
  by (induction pub bck ms rule: mux_check.induct) auto

lemma ValidateMuxMaps_None:
  "ValidateMuxMaps maps = None \<longleftrightarrow>
     (\<forall>m\<in>set maps. mx_PublicPort m \<in> {1..65535} \<and> mx_AWGPort m \<in> {1..65535})
     \<and> distinct (map mx_PublicPort maps) \<and> set (map mx_PublicPort maps) \<inter> set (map mx_AWGPort maps) = {}"
proof (cases "mux_check [] [] maps")
  case (Inl e)
  then have "\<not> (\<exists>q. mux_check [] [] maps = Inr q)" by simp
  with mux_check_spec [of "[]" "[]" maps] Inl show ?thesis
    by (fastforce simp: ValidateMuxMaps_def)
next
  case (Inr q)
  obtain pub bck where q: "q = (pub, bck)" by (cases q)
  with Inr mux_check_spec [of "[]" "[]" maps pub bck] show ?thesis
    by (auto simp: ValidateMuxMaps_def find_None_iff)
qed

lemma RenderMux_Nil [simp]: "RenderMux maps = [] \<longleftrightarrow> maps = []"
  by (simp add: RenderMux_def Let_def)

section \<open>Properties\<close>

text \<open>
  The validation of the multiplexer's maps accepts exactly the consistent ones: every port is a
  real UDP port, no public port is used twice, and no port is both a public port and an AWG port
  (in particular no flow is redirected to the port it came from).
\<close>

theorem mux_validation_exact:
  "ValidateMuxMaps maps = None \<longleftrightarrow>
     list_all (\<lambda>m. mx_PublicPort m \<in> {1..65535} \<and> mx_AWGPort m \<in> {1..65535}) maps
     \<and> distinct (map mx_PublicPort maps) \<and> set (map mx_PublicPort maps) \<inter> set (map mx_AWGPort maps) = {}"
  by (simp add: ValidateMuxMaps_None list_all_iff)

lemma RenderMux_mset:
  assumes "ValidateMuxMaps maps = None" and "mset maps' = mset maps"
  shows "ValidateMuxMaps maps' = None" and "RenderMux maps' = RenderMux maps"
proof -
  have s: "set maps' = set maps" using assms(2) by (rule mset_eq_setD)
  have d: "distinct (map mx_PublicPort maps)" using assms(1) by (simp add: ValidateMuxMaps_None)
  have "mset (map mx_PublicPort maps') = mset (map mx_PublicPort maps)" using assms(2) by simp
  then have d': "distinct (map mx_PublicPort maps')" using d mset_eq_imp_distinct_iff by blast
  show "ValidateMuxMaps maps' = None"
    using assms(1) d' s by (simp add: ValidateMuxMaps_None)
  have "sort_key mx_PublicPort maps' = sort_key mx_PublicPort maps"
    using d' assms(2) by (intro sort_key_inj_key_eq) (simp_all add: distinct_map)
  moreover have "maps' = [] \<longleftrightarrow> maps = []" using s by (metis set_empty)
  ultimately show "RenderMux maps' = RenderMux maps" by (simp add: RenderMux_def)
qed

text \<open>
  The multiplexer settles: a synchronisation that succeeds remembers the rule set of exactly the
  maps given, and while the table is still there a later synchronisation with the same maps, in any
  order, changes nothing on the host: it only lists the table.
\<close>

theorem mux_sync_settles:
  assumes "SyncMux ok maps applied = (None, a, cmds)" and "maps \<noteq> []"
    and "ok' ListTable" and "mset maps' = mset maps"
  shows "a = RenderMux maps \<and> SyncMux ok' maps' a = (None, a, [ListTable])"
proof -
  have v: "ValidateMuxMaps maps = None" using assms(1) by (auto simp: SyncMux_def split: option.splits)
  note m = RenderMux_mset [OF v assms(4)]
  have "a = RenderMux maps" using assms(1,2) v by (auto simp: SyncMux_def Let_def split: if_splits)
  moreover have "maps' \<noteq> []" using assms(2,4) by auto
  ultimately show ?thesis using m assms(2,3) by (simp add: SyncMux_def)
qed

theorem mux_sync_settles_witness:
  "let ms = [\<lparr>mx_PublicPort = 51820, mx_AWGPort = 51830, mx_Iface = ''awg0'', mx_Alias = False\<rparr>,
             \<lparr>mx_PublicPort = 443, mx_AWGPort = 444, mx_Iface = ''awg1'', mx_Alias = True\<rparr>];
       a = fst (snd (SyncMux (\<lambda>_. True) ms []))
   in a \<noteq> [] \<and> SyncMux (\<lambda>c. c = ListTable) (rev ms) a = (None, a, [ListTable])"
proof -
  define ms where "ms = [\<lparr>mx_PublicPort = 51820, mx_AWGPort = 51830, mx_Iface = ''awg0'', mx_Alias = False\<rparr>,
     \<lparr>mx_PublicPort = 443, mx_AWGPort = 444, mx_Iface = ''awg1'', mx_Alias = True\<rparr>]"
  have v: "ValidateMuxMaps ms = None" unfolding ValidateMuxMaps_None by (simp add: ms_def)
  have ne: "ms \<noteq> []" by (simp add: ms_def)
  with v obtain a cmds where a: "SyncMux (\<lambda>_. True) ms [] = (None, a, cmds)" "a \<noteq> []"
    by (auto simp: SyncMux_def Let_def)
  have "SyncMux (\<lambda>c. c = ListTable) (rev ms) a = (None, a, [ListTable])"
    by (rule mux_sync_settles [OF a(1) ne, THEN conjunct2]) simp_all
  then show ?thesis using a unfolding ms_def [symmetric] Let_def by simp
qed

lemma dns_fold_spec:
  defines "addr \<equiv> \<lambda>e. ParseIP (dns_host (TrimSpace e)) \<noteq> None"
  shows "distinct (dns_Servers c) \<Longrightarrow> distinct (dns_Domains c) \<Longrightarrow>
    distinct (dns_Servers (fold dns_entry es c)) \<and> distinct (dns_Domains (fold dns_entry es c))
    \<and> set (dns_Servers (fold dns_entry es c)) = set (dns_Servers c)
        \<union> TrimSpace ` {e \<in> set es. TrimSpace e \<noteq> [] \<and> addr e}
    \<and> set (dns_Domains (fold dns_entry es c)) = set (dns_Domains c)
        \<union> (\<lambda>e. TrimPrefix (TrimSpace e) ''~'') ` {e \<in> set es. TrimSpace e \<noteq> [] \<and> \<not> addr e}"
proof (induction es arbitrary: c)
  case (Cons e es)
  have c: "distinct (dns_Servers (dns_entry e c))" "distinct (dns_Domains (dns_entry e c))"
    "set (dns_Servers (dns_entry e c)) = set (dns_Servers c) \<union> (if TrimSpace e \<noteq> [] \<and> addr e then {TrimSpace e} else {})"
    "set (dns_Domains (dns_entry e c)) = set (dns_Domains c)
       \<union> (if TrimSpace e \<noteq> [] \<and> \<not> addr e then {TrimPrefix (TrimSpace e) ''~''} else {})"
    using Cons.prems by (auto simp: dns_entry_def Let_def addr_def)
  from Cons.IH [OF c(1,2)] c(3,4) show ?case by (auto split: if_splits)
qed simp

text \<open>
  A DNS list is split without loss or duplicates: the servers are exactly the entries that name
  an IP address (with or without brackets and port), the search domains exactly the other entries
  that are not blank, without the routing marker, and no server or domain is listed twice.
\<close>

theorem dns_list_split:
  "distinct (dns_Servers (ParseDNSList es)) \<and> distinct (dns_Domains (ParseDNSList es))
   \<and> set (dns_Servers (ParseDNSList es))
       = TrimSpace ` {e \<in> set es. TrimSpace e \<noteq> [] \<and> ParseIP (dns_host (TrimSpace e)) \<noteq> None}
   \<and> set (dns_Domains (ParseDNSList es))
       = (\<lambda>e. TrimPrefix (TrimSpace e) ''~'') ` {e \<in> set es. TrimSpace e \<noteq> [] \<and> ParseIP (dns_host (TrimSpace e)) = None}"
  using dns_fold_spec [of "\<lparr>dns_Servers = [], dns_Domains = []\<rparr>" es] by (simp add: ParseDNSList_def)

text \<open>
  An address with a zone is not recognised: the entry \<open>fe80::1%eth0\<close> becomes a search domain,
  although the comment of the function counts it as an address.
\<close>

theorem dns_zone_is_domain:
  "ParseDNSList [''fe80::1%eth0'', ''fe80::1'', ''1.1.1.1:53'', ''~lan'']
     = \<lparr>dns_Servers = [''fe80::1'', ''1.1.1.1:53''], dns_Domains = [''fe80::1%eth0'', ''lan'']\<rparr>"
  by code_simp

end
