(* ===== verification/Contract.thy ===== *)
theory Contract
  imports Backend
begin

text \<open>
  The interface \<open>wgbackend.Backend\<close> as a record of operations on the backend's state, and the
  contract its clients rely on as two locales: every operation touches only the device it names
  and the passive ones touch no device; and a healthy backend performs what it is asked.
\<close>

type_synonym 'w action = "'w \<Rightarrow> backend_error option \<times> 'w"

record 'w backend_ops =
  op_Devices :: "'w \<Rightarrow> Device list"
  op_Device :: "string \<Rightarrow> 'w \<Rightarrow> backend_error + Device"
  op_EnsureInterface :: "DesiredInterface \<Rightarrow> 'w action"
  op_RemoveInterface :: "string \<Rightarrow> 'w action"
  op_SetUp :: "string \<Rightarrow> bool \<Rightarrow> 'w action"
  op_ApplyPeers :: "string \<Rightarrow> DesiredPeer list \<Rightarrow> 'w action"
  op_ApplySuspendRoutes :: "string \<Rightarrow> DesiredPeer \<Rightarrow> bool \<Rightarrow> 'w action"
  op_SyncBandwidth :: "string \<Rightarrow> DesiredPeer list \<Rightarrow> 'w action"
  op_SyncRoutes :: "DesiredInterface \<Rightarrow> 'w action"
  op_SyncDNS :: "DesiredInterface \<Rightarrow> 'w action"
  op_ExportConf :: "string \<Rightarrow> string \<Rightarrow> 'w action"
  op_RunHook :: "string \<Rightarrow> 'w action"
  op_SyncMux :: "(MuxMap list \<Rightarrow> 'w action) option"

definition dev :: "'w backend_ops \<Rightarrow> string \<Rightarrow> 'w \<Rightarrow> Device option" where
  "dev ops n w = (case op_Device ops n w of Inl _ \<Rightarrow> None | Inr d \<Rightarrow> Some d)"

text \<open>What a peer may send and receive: its key and the networks routed to it.\<close>

definition live_peers :: "Device \<Rightarrow> (string \<times> string list) list" where
  "live_peers d = map (\<lambda>p. (lp_PublicKey p, lp_AllowedIPs p)) (d_Peers d)"

definition wanted_peers :: "DesiredPeer list \<Rightarrow> (string \<times> string list) list" where
  "wanted_peers ps = map (\<lambda>p. (dp_PublicKey p, if dp_Suspended p then [] else dp_AllowedIPs p)) ps"

locale backend =
  fixes ops :: "'w backend_ops" and ok :: "'w \<Rightarrow> bool"
  assumes devices_iff: "ok w \<Longrightarrow> n \<in> d_Name ` set (op_Devices ops w) \<longleftrightarrow> dev ops n w \<noteq> None"
    and ok_ensure: "ok w \<Longrightarrow> ok (snd (op_EnsureInterface ops di w))"
    and ok_remove: "ok w \<Longrightarrow> ok (snd (op_RemoveInterface ops n w))"
    and ok_setup: "ok w \<Longrightarrow> ok (snd (op_SetUp ops n up w))"
    and ok_apply: "ok w \<Longrightarrow> ok (snd (op_ApplyPeers ops n ps w))"
    and ok_suspend: "ok w \<Longrightarrow> ok (snd (op_ApplySuspendRoutes ops n p s w))"
    and ok_bandwidth: "ok w \<Longrightarrow> ok (snd (op_SyncBandwidth ops n ps w))"
    and ok_routes: "ok w \<Longrightarrow> ok (snd (op_SyncRoutes ops di w))"
    and ok_dns: "ok w \<Longrightarrow> ok (snd (op_SyncDNS ops di w))"
    and ok_export: "ok w \<Longrightarrow> ok (snd (op_ExportConf ops path content w))"
    and ok_hook: "ok w \<Longrightarrow> ok (snd (op_RunHook ops h w))"
    and ok_mux: "op_SyncMux ops = Some f \<Longrightarrow> ok w \<Longrightarrow> ok (snd (f maps w))"
    and ensure_frame: "m \<noteq> di_Name di \<Longrightarrow> dev ops m (snd (op_EnsureInterface ops di w)) = dev ops m w"
    and remove_frame: "m \<noteq> n \<Longrightarrow> dev ops m (snd (op_RemoveInterface ops n w)) = dev ops m w"
    and setup_frame: "m \<noteq> n \<Longrightarrow> dev ops m (snd (op_SetUp ops n up w)) = dev ops m w"
    and setup_peers: "map_option live_peers (dev ops n (snd (op_SetUp ops n up w))) = map_option live_peers (dev ops n w)"
    and apply_frame: "m \<noteq> n \<Longrightarrow> dev ops m (snd (op_ApplyPeers ops n ps w)) = dev ops m w"
    and suspend_dev: "dev ops m (snd (op_ApplySuspendRoutes ops n p s w)) = dev ops m w"
    and bandwidth_dev: "dev ops m (snd (op_SyncBandwidth ops n ps w)) = dev ops m w"
    and routes_dev: "dev ops m (snd (op_SyncRoutes ops di w)) = dev ops m w"
    and dns_dev: "dev ops m (snd (op_SyncDNS ops di w)) = dev ops m w"
    and export_dev: "dev ops m (snd (op_ExportConf ops path content w)) = dev ops m w"
    and hook_dev: "dev ops m (snd (op_RunHook ops h w)) = dev ops m w"
    and mux_dev: "op_SyncMux ops = Some f \<Longrightarrow> dev ops m (snd (f maps w)) = dev ops m w"

text \<open>A backend that, while it is healthy, stays so and does not fail on a device that exists.\<close>

locale healthy_backend = backend ops ok for ops :: "'w backend_ops" and ok +
  fixes healthy :: "'w \<Rightarrow> bool"
  assumes ensure_ok: "healthy w \<Longrightarrow> fst (op_EnsureInterface ops di w) = None
      \<and> dev ops (di_Name di) (snd (op_EnsureInterface ops di w)) \<noteq> None"
    and remove_ok: "healthy w \<Longrightarrow> fst (op_RemoveInterface ops n w) = None
      \<and> dev ops n (snd (op_RemoveInterface ops n w)) = None"
    and setup_ok: "healthy w \<Longrightarrow> map_option d_Up (dev ops n (snd (op_SetUp ops n up w))) = map_option (\<lambda>_. up) (dev ops n w)"
    and apply_ok: "healthy w \<Longrightarrow> dev ops n w \<noteq> None \<Longrightarrow> fst (op_ApplyPeers ops n ps w) = None
      \<and> map_option live_peers (dev ops n (snd (op_ApplyPeers ops n ps w))) = Some (wanted_peers ps)"
    and h_ensure: "healthy w \<Longrightarrow> healthy (snd (op_EnsureInterface ops di w))"
    and h_remove: "healthy w \<Longrightarrow> healthy (snd (op_RemoveInterface ops n w))"
    and h_setup: "healthy w \<Longrightarrow> healthy (snd (op_SetUp ops n up w))"
    and h_apply: "healthy w \<Longrightarrow> healthy (snd (op_ApplyPeers ops n ps w))"
    and h_suspend: "healthy w \<Longrightarrow> healthy (snd (op_ApplySuspendRoutes ops n p s w))"
    and h_bandwidth: "healthy w \<Longrightarrow> healthy (snd (op_SyncBandwidth ops n ps w))"
    and h_routes: "healthy w \<Longrightarrow> healthy (snd (op_SyncRoutes ops di w))"
    and h_dns: "healthy w \<Longrightarrow> healthy (snd (op_SyncDNS ops di w))"
    and h_export: "healthy w \<Longrightarrow> healthy (snd (op_ExportConf ops path content w))"
    and h_hook: "healthy w \<Longrightarrow> healthy (snd (op_RunHook ops h w))"
    and h_mux: "op_SyncMux ops = Some f \<Longrightarrow> healthy w \<Longrightarrow> healthy (snd (f maps w))"

end
