(* ===== verification/Reconciler.thy ===== *)
theory Reconciler
  imports Contract Stats StoreLaws Confparse
begin

text \<open>
  The reconciler (\<open>internal/reconcile/reconciler.go\<close>): one pass brings the devices to the state the
  database asks for, enforces quotas and expiry, exports configuration files, samples the live
  counters and prunes what is gone.  The backend is a record of operations (theory \<open>Contract\<close>), the
  decoder of \<open>encoding/json\<close> and the clock are parameters; the several readings of the clock within
  one pass are one value, and failures of the database are not modelled (see \<open>Store\<close>).
\<close>

section \<open>State\<close>

record rconfig =
  rc_Persistence :: string
  rc_ConfDir :: string
  rc_HandshakeConnectedSec :: int
  rc_SampleInterval :: duration
  rc_SampleRetention :: duration
  rc_AllowHooks :: bool

record 'w rstate =
  r_store :: store
  r_backend :: 'w
  r_cache :: cache
  r_prevSample :: "(string \<times> sample) list"
  r_hookState :: "(string \<times> bool) list"
  r_prevPeerConn :: "(string \<times> bool) list"

definition cfg_defaults :: "rconfig \<Rightarrow> rconfig" where
  "cfg_defaults cfg = cfg\<lparr>
     rc_HandshakeConnectedSec := (if rc_HandshakeConnectedSec cfg \<le> 0 then 180 else rc_HandshakeConnectedSec cfg),
     rc_SampleRetention := (if rc_SampleRetention cfg \<le> 0 then 7 * 24 * Hour else rc_SampleRetention cfg)\<rparr>"

definition NewReconciler :: "store \<Rightarrow> 'w \<Rightarrow> cache \<Rightarrow> 'w rstate" where
  "NewReconciler st w c = \<lparr>r_store = st, r_backend = w, r_cache = c, r_prevSample = [], r_hookState = [],
     r_prevPeerConn = []\<rparr>"

type_synonym decoder = "string \<Rightarrow> AmneziaParams option"

definition decodeAmneziaJSON :: "decoder \<Rightarrow> string \<Rightarrow> AmneziaParams" where
  "decodeAmneziaJSON um s0 =
     (let s = TrimSpace s0 in
      if s = [] \<or> s = ''{}'' \<or> s = ''null'' then zero_amnezia
      else case um s of None \<Rightarrow> zero_amnezia | Some p \<Rightarrow> p)"

section \<open>Enforcement and desired state\<close>

definition suspend_event :: "db_peer \<Rightarrow> string \<Rightarrow> string \<times> string \<times> string" where
  "suspend_event p reason =
     (if reason = ''expired''
      then (''peer.expired'', ''auto-suspended: expires_at passed'',
        ''{'' @ quoted ''reason'' @ '':'' @ quoted ''expired'' @ '','' @ quoted ''expires_at'' @ '':''
          @ quoted (p_ExpiresAt p) @ ''}'')
      else (''enforce'', ''auto-suspended: traffic limit exceeded'',
        ''{'' @ quoted ''reason'' @ '':'' @ quoted ''traffic_limit'' @ ''}''))"

definition suspend_peer :: "gotime \<Rightarrow> string \<Rightarrow> db_peer \<Rightarrow> store \<Rightarrow> db_peer \<times> store" where
  "suspend_peer now name p st =
     (let reason = AutoSuspendReason p now in
      if reason = [] then (p, st)
      else let p' = p\<lparr>p_Suspended := True\<rparr>;
               st1 = snd (SetPeerSuspended now (p_ID p') True st);
               (kind, msg, meta) = suspend_event p' reason
        in (p', AddEvent now ''warn'' kind name (p_PublicKey p') msg meta st1))"

fun auto_suspend :: "gotime \<Rightarrow> string \<Rightarrow> db_peer list \<Rightarrow> store \<Rightarrow> db_peer list \<times> store" where
  "auto_suspend now name [] st = ([], st)"
| "auto_suspend now name (p # ps) st =
     (let (p', st1) = suspend_peer now name p st; (ps', st2) = auto_suspend now name ps st1
      in (p' # ps', st2))"

definition desired_peer :: "db_peer \<Rightarrow> DesiredPeer" where
  "desired_peer p =
     (let (rx, tx) = EffectiveBandwidth (p_BandwidthRxBps p) (p_BandwidthTxBps p) (p_BandwidthTotalBps p)
      in \<lparr>dp_PublicKey = p_PublicKey p, dp_PresharedKey = p_PresharedKey p, dp_Endpoint = p_Endpoint p,
          dp_AllowedIPs = p_AllowedIPs p, dp_AssignedIPs = p_AssignedIPs p,
          dp_PersistentKeepalive = p_PersistentKeepalive p, dp_Suspended = p_Suspended p,
          dp_BandwidthRxBps = rx, dp_BandwidthTxBps = tx\<rparr>)"

definition desired_iface :: "decoder \<Rightarrow> db_interface \<Rightarrow> DesiredPeer list \<Rightarrow> DesiredInterface" where
  "desired_iface um i dps =
     \<lparr>di_Name = i_Name i, di_PrivateKey = i_PrivateKey i, di_ListenPort = i_ListenPort i, di_FwMark = i_FwMark i,
      di_MTU = i_MTU i, di_Addresses = i_Addresses i, di_TableMode = i_TableMode i, di_TableID = i_TableID i,
      di_DNS = i_DNS i, di_PreUp = i_PreUp i, di_PostUp = i_PostUp i, di_PreDown = i_PreDown i,
      di_PostDown = i_PostDown i, di_Enabled = i_Enabled i, di_Peers = dps, di_Backend = i_Backend i,
      di_Protocol = i_Protocol i,
      di_Amnezia = (if i_AmneziaJSON i \<noteq> [] then decodeAmneziaJSON um (i_AmneziaJSON i) else zero_amnezia)\<rparr>"

section \<open>Exported configuration\<close>

text \<open>\<open>filepath.Clean\<close> and \<open>filepath.Join\<close> of two elements.\<close>

fun clean_parts :: "bool \<Rightarrow> string list \<Rightarrow> string list \<Rightarrow> string list" where
  "clean_parts rooted acc [] = rev acc"
| "clean_parts rooted acc (c # cs) =
     (if c = [] \<or> c = ''.'' then clean_parts rooted acc cs
      else if c = ''..'' then
        (case acc of
           [] \<Rightarrow> clean_parts rooted (if rooted then [] else [''..'']) cs
         | x # xs \<Rightarrow> if x = ''..'' then clean_parts rooted (''..'' # acc) cs else clean_parts rooted xs cs)
      else clean_parts rooted (c # acc) cs)"

definition Clean :: "string \<Rightarrow> string" where
  "Clean p =
     (if p = [] then ''.''
      else let rooted = (hd p = CHR ''/'');
               out = (if rooted then ''/'' else []) @ Join (clean_parts rooted [] (split_on CHR ''/'' p)) ''/''
        in if out = [] then ''.'' else out)"

definition filepath_Join :: "string \<Rightarrow> string \<Rightarrow> string" where
  "filepath_Join a b = (if a \<noteq> [] then Clean (a @ ''/'' @ b) else if b \<noteq> [] then Clean b else [])"

definition export_peer :: "db_peer \<Rightarrow> PeerSection" where
  "export_peer p = zero_peer_section\<lparr>cp_PublicKey := p_PublicKey p, cp_PresharedKey := p_PresharedKey p,
     cp_AllowedIPs := (if p_Suspended p then [] else p_AllowedIPs p), cp_Endpoint := p_Endpoint p,
     cp_PersistentKeepalive := p_PersistentKeepalive p, cp_Name := p_Name p, cp_Notes := p_Notes p,
     cp_TrafficLimit := p_TrafficLimitBytes p, cp_ExpiresAt := p_ExpiresAt p,
     cp_Address := (case p_AssignedIPs p of [] \<Rightarrow> []
       | a # _ \<Rightarrow> if CHR ''/'' \<in> set a then a else a @ ''/32'')\<rparr>"

definition export_config :: "db_interface \<Rightarrow> db_peer list \<Rightarrow> Config" where
  "export_config i peers = \<lparr>cf_Interface = zero_iface_section\<lparr>ci_PrivateKey := i_PrivateKey i,
      ci_PublicKeyComment := i_PublicKey i, ci_Address := i_Addresses i, ci_ListenPort := i_ListenPort i,
      ci_DNS := i_DNS i, ci_MTU := i_MTU i,
      ci_Table := (case i_TableID i of Some k \<Rightarrow> if i_TableMode i = ''number'' then int_str k else i_TableMode i
        | None \<Rightarrow> i_TableMode i),
      ci_FwMark := i_FwMark i, ci_PreUp := i_PreUp i, ci_PostUp := i_PostUp i, ci_PreDown := i_PreDown i,
      ci_PostDown := i_PostDown i, ci_PeerEndpoint := i_PublicEndpoint i,
      ci_PeerDNS := (if i_DNS i \<noteq> [] then Join (i_DNS i) '', '' else [])\<rparr>,
     cf_Peers = map export_peer peers\<rparr>"

definition exportConf :: "'w backend_ops \<Rightarrow> rconfig \<Rightarrow> db_interface \<Rightarrow> db_peer list \<Rightarrow> 'w action" where
  "exportConf ops cfg i peers =
     op_ExportConf ops (filepath_Join (rc_ConfDir cfg) (i_Name i @ ''.conf'')) (Render (export_config i peers))"

definition exports :: "rconfig \<Rightarrow> db_interface \<Rightarrow> bool" where
  "exports cfg i \<longleftrightarrow> (rc_Persistence cfg = ''hybrid'' \<or> rc_Persistence cfg = ''wg-quick'')
     \<and> i_PrivateKey i \<noteq> [] \<and> \<not> IsZeroKey (i_PrivateKey i)"

section \<open>Sampling\<close>

definition window_of :: "gotime \<Rightarrow> int \<Rightarrow> int \<Rightarrow> (string \<times> traffic_sample) list \<Rightarrow> string \<times> duration
    \<Rightarrow> string \<times> window_counters" where
  "window_of now curRx curTx bases w =
     (case w of (name, d) \<Rightarrow>
       (case map_of bases name of
          None \<Rightarrow> (name, WindowDelta curRx curTx 0 0 d)
        | Some b \<Rightarrow> (let span0 = time_Sub now (ts_SampledAt b) in
            (name, WindowDelta curRx curTx (ts_RxBytes b) (ts_TxBytes b) (if span0 \<le> 0 then d else span0)))))"

definition computePeerWindows :: "store \<Rightarrow> int \<Rightarrow> gotime \<Rightarrow> int \<Rightarrow> int \<Rightarrow> (string \<times> window_counters) list" where
  "computePeerWindows st k now curRx curTx =
     (let bases = PeerWindowBaselines k (map (\<lambda>(name, d). (name, now - d)) DefaultWindows) st
      in map (window_of now curRx curTx bases) DefaultWindows)"

text \<open>The handshake columns of a peer and whether it counts as connected.\<close>

definition handshake :: "rconfig \<Rightarrow> gotime \<Rightarrow> gotime \<Rightarrow> db_peer \<Rightarrow> db_peer \<times> bool" where
  "handshake cfg now hs p =
     (if IsZero hs then (p, False)
      else let hsStr = FormatNano hs;
               p1 = p\<lparr>p_FirstHandshakeAt := (if p_FirstHandshakeAt p = [] then hsStr else p_FirstHandshakeAt p),
                 p_LastHandshakeAt := hsStr\<rparr>
        in if time_Sub now hs \<le> i64 (rc_HandshakeConnectedSec cfg * Second)
           then (p1\<lparr>p_ConnectedSince := (if p_ConnectedSince p1 = [] then hsStr else p_ConnectedSince p1)\<rparr>, True)
           else (p1\<lparr>p_ConnectedSince := []\<rparr>, False))"

text \<open>The new counters and rates of a peer from the live ones and the previous observation.\<close>

record measure =
  me_rx :: int
  me_tx :: int
  me_rxBps :: real
  me_txBps :: real
  me_rxRaw :: real
  me_txRaw :: real
  me_interval :: real

definition measured :: "sample option \<Rightarrow> sample \<Rightarrow> db_peer \<Rightarrow> measure" where
  "measured prev cur p =
     (let hasPrev = (prev \<noteq> None);
          pv = (case prev of Some s \<Rightarrow> s | None \<Rightarrow> \<lparr>s_Time = 0, s_Rx = 0, s_Tx = 0\<rparr>);
          rate = ComputeRate pv cur
      in \<lparr>me_rx = AccumulateLifetime (p_LastRxBytes p) (s_Rx cur) (s_Rx pv) hasPrev,
          me_tx = AccumulateLifetime (p_LastTxBytes p) (s_Tx cur) (s_Tx pv) hasPrev,
          me_rxBps = (if hasPrev then EWMA (p_LastRxBps p) (r_RxBps rate) (3 / 10) else 0),
          me_txBps = (if hasPrev then EWMA (p_LastTxBps p) (r_TxBps rate) (3 / 10) else 0),
          me_rxRaw = (if hasPrev then r_RxBps rate else 0),
          me_txRaw = (if hasPrev then r_TxBps rate else 0),
          me_interval = (if hasPrev then Seconds (time_Sub (s_Time cur) (s_Time pv)) else 0)\<rparr>)"

definition conn_event :: "gotime \<Rightarrow> string \<Rightarrow> string \<Rightarrow> bool option \<Rightarrow> bool \<Rightarrow> store \<Rightarrow> store" where
  "conn_event now name pub was conn st =
     (case was of None \<Rightarrow> st | Some b \<Rightarrow>
        if b = conn then st
        else if conn then AddEvent now ''info'' ''peer.connected'' name pub ''peer handshake active'' ''{}'' st
        else AddEvent now ''info'' ''peer.disconnected'' name pub ''peer handshake stale'' ''{}'' st)"

record totals =
  to_rx :: int
  to_tx :: int
  to_rxBps :: real
  to_txBps :: real

definition sample_peer :: "rconfig \<Rightarrow> gotime \<Rightarrow> string \<Rightarrow> live_peer list \<Rightarrow> db_peer
    \<Rightarrow> 'w rstate \<times> traffic_sample list \<times> totals \<Rightarrow> 'w rstate \<times> traffic_sample list \<times> totals" where
  "sample_peer cfg now name live p0 = (\<lambda>(r, pending, t).
     (let lp = find (\<lambda>q. lp_PublicKey q = p_PublicKey p0) (rev live);
          rawRx = (case lp of Some q \<Rightarrow> lp_ReceiveBytes q | None \<Rightarrow> 0);
          rawTx = (case lp of Some q \<Rightarrow> lp_TransmitBytes q | None \<Rightarrow> 0);
          hs = (case lp of Some q \<Rightarrow> lp_LastHandshakeTime q | None \<Rightarrow> 0);
          ep = (case lp of Some q \<Rightarrow> if lp_Endpoint q \<noteq> [] then lp_Endpoint q else p_Endpoint p0 | None \<Rightarrow> p_Endpoint p0);
          key = peerKey name (p_PublicKey p0);
          cur = \<lparr>s_Time = now, s_Rx = rawRx, s_Tx = rawTx\<rparr>;
          m = measured (map_of (r_prevSample r) key) cur p0;
          p1 = p0\<lparr>p_LastRxBytes := me_rx m, p_LastTxBytes := me_tx m, p_LastRxBps := me_rxBps m,
            p_LastTxBps := me_txBps m, p_LastEndpoint := ep\<rparr>;
          (p, conn) = handshake cfg now hs p1;
          st1 = conn_event now name (p_PublicKey p) (map_of (r_prevPeerConn r) key) conn (r_store r);
          effRx = EffectiveRx p; effTx = EffectiveTx p;
          st2 = UpdatePeerStats now p st1;
          windows = computePeerWindows st2 (p_ID p) now effRx effTx;
          ps = \<lparr>ps_Interface = name, ps_PublicKey = p_PublicKey p, ps_Name = p_Name p, ps_Endpoint = ep,
            ps_AllowedIPs = p_AllowedIPs p, ps_LastHandshake = hs, ps_Connected = conn,
            ps_ConnectedSince = parseTime (p_ConnectedSince p), ps_RxBytes = effRx, ps_TxBytes = effTx,
            ps_RxBps = me_rxBps m, ps_TxBps = me_txBps m, ps_RxBpsRaw = me_rxRaw m, ps_TxBpsRaw = me_txRaw m,
            ps_IntervalSec = me_interval m, ps_Windows = windows, ps_Suspended = p_Suspended p,
            ps_TrafficLimitBytes = p_TrafficLimitBytes p, ps_BandwidthRxBps = p_BandwidthRxBps p,
            ps_BandwidthTxBps = p_BandwidthTxBps p, ps_UpdatedAt = now\<rparr>
      in (r\<lparr>r_store := st2, r_cache := SetPeer ps (r_cache r),
            r_prevSample := AList.update key cur (r_prevSample r),
            r_prevPeerConn := AList.update key conn (r_prevPeerConn r)\<rparr>,
          pending @ [\<lparr>ts_ID = 0, ts_PeerID = p_ID p, ts_SampledAt = now, ts_RxBytes = effRx, ts_TxBytes = effTx,
            ts_RxBps = me_rxBps m, ts_TxBps = me_txBps m\<rparr>],
          \<lparr>to_rx = i64 (to_rx t + effRx), to_tx = i64 (to_tx t + effTx),
           to_rxBps = to_rxBps t + me_rxBps m, to_txBps = to_txBps t + me_txBps m\<rparr>)))"

definition sampleInterface :: "'w backend_ops \<Rightarrow> rconfig \<Rightarrow> gotime \<Rightarrow> db_interface \<Rightarrow> db_peer list
    \<Rightarrow> 'w rstate \<Rightarrow> 'w rstate" where
  "sampleInterface ops cfg now i peers r =
     (case op_Device ops (i_Name i) (r_backend r) of
        Inl _ \<Rightarrow> r\<lparr>r_cache := SetInterface \<lparr>is_Name = i_Name i, is_PublicKey = i_PublicKey i, is_Up = i_Enabled i,
            is_ListenPort = i_ListenPort i, is_PeerCount = int (length peers), is_RxBytes = 0, is_TxBytes = 0,
            is_RxBps = 0, is_TxBps = 0, is_UpdatedAt = now\<rparr> (r_cache r)\<rparr>
      | Inr d \<Rightarrow>
        (let (r1, pending, t) = fold (sample_peer cfg now (i_Name i) (d_Peers d)) peers
               (r, [], \<lparr>to_rx = 0, to_tx = 0, to_rxBps = 0, to_txBps = 0\<rparr>)
         in r1\<lparr>r_store := InsertSamples pending (r_store r1),
               r_cache := SetInterface \<lparr>is_Name = i_Name i, is_PublicKey = i_PublicKey i,
                 is_Up = (d_Up d \<and> i_Enabled i), is_ListenPort = d_ListenPort d,
                 is_PeerCount = int (length peers), is_RxBytes = to_rx t, is_TxBytes = to_tx t,
                 is_RxBps = to_rxBps t, is_TxBps = to_txBps t, is_UpdatedAt = now\<rparr> (r_cache r1)\<rparr>))"

section \<open>One pass\<close>

definition run_hook :: "'w backend_ops \<Rightarrow> bool \<Rightarrow> string \<Rightarrow> 'w \<Rightarrow> 'w" where
  "run_hook ops b h w = (if b \<and> h \<noteq> [] then snd (op_RunHook ops h w) else w)"

text \<open>Everything between \<open>EnsureInterface\<close> and the hooks after it; errors are only logged.\<close>

definition apply_device :: "'w backend_ops \<Rightarrow> db_interface \<Rightarrow> DesiredInterface \<Rightarrow> DesiredPeer list \<Rightarrow> 'w \<Rightarrow> 'w" where
  "apply_device ops i di dps w0 =
     (let n = i_Name i;
          w1 = snd (op_ApplyPeers ops n dps w0);
          w2 = fold (\<lambda>p w. snd (op_ApplySuspendRoutes ops n p (dp_Suspended p) w)) dps w1;
          w3 = snd (op_SyncBandwidth ops n dps w2);
          w4 = snd (op_SetUp ops n (i_Enabled i) w3);
          w5 = snd (op_SyncRoutes ops di w4)
      in snd (op_SyncDNS ops di w5))"

definition edge_event :: "gotime \<Rightarrow> string \<Rightarrow> bool option \<Rightarrow> bool \<Rightarrow> store \<Rightarrow> store" where
  "edge_event now name prev enabled st =
     (case prev of None \<Rightarrow> st | Some was \<Rightarrow>
        if enabled \<and> \<not> was then AddEvent now ''info'' ''interface.up'' name [] ''interface enabled'' ''{}'' st
        else if \<not> enabled \<and> was then AddEvent now ''warn'' ''interface.down'' name [] ''interface disabled'' ''{}'' st
        else st)"

definition step_iface :: "'w backend_ops \<Rightarrow> decoder \<Rightarrow> rconfig \<Rightarrow> gotime \<Rightarrow> db_interface \<Rightarrow> 'w rstate \<Rightarrow> 'w rstate" where
  "step_iface ops um cfg now i r =
     (if ReservedHostInterface (i_Name i) then r
      else let n = i_Name i;
               (peers, st1) = auto_suspend now n (ListPeersByInterface n (r_store r)) (r_store r);
               dps = map desired_peer peers;
               di = desired_iface um i dps;
               prev = map_of (r_hookState r) n;
               goingUp = (i_Enabled i \<and> prev \<noteq> Some True);
               goingDown = (\<not> i_Enabled i \<and> prev = Some True);
               st2 = edge_event now n prev (i_Enabled i) st1;
               w1 = run_hook ops (rc_AllowHooks cfg \<and> goingUp) (i_PreUp i) (r_backend r);
               w2 = run_hook ops (rc_AllowHooks cfg \<and> goingDown) (i_PreDown i) w1;
               (err, w3) = op_EnsureInterface ops di w2
        in (case err of
              Some _ \<Rightarrow> r\<lparr>r_store := st2, r_backend := w3\<rparr>
            | None \<Rightarrow>
              (let w4 = apply_device ops i di dps w3;
                   w5 = run_hook ops (rc_AllowHooks cfg \<and> goingUp) (i_PostUp i) w4;
                   w6 = run_hook ops (rc_AllowHooks cfg \<and> goingDown) (i_PostDown i) w5;
                   w7 = (if exports cfg i then snd (exportConf ops cfg i peers w6) else w6)
               in sampleInterface ops cfg now i peers
                    (r\<lparr>r_store := st2, r_backend := w7,
                       r_hookState := AList.update n (i_Enabled i) (r_hookState r)\<rparr>))))"

text \<open>The maps for the multiplexer, and why the other interfaces with a port for it are skipped.\<close>

datatype mux_skip = NotAWG string | PortOwned string int | NeutralParams string | NoWGPort string int

definition mux_entry :: "decoder \<Rightarrow> int set \<Rightarrow> db_interface \<Rightarrow> (mux_skip + MuxMap) option" where
  "mux_entry um wgPorts i =
     (if i_MuxPort i \<le> 0 \<or> \<not> i_Enabled i \<or> i_ListenPort i \<le> 0 then None
      else if i_Protocol i \<noteq> ProtocolAWG then Some (Inl (NotAWG (i_Name i)))
      else if backend_or_empty (i_Backend i) = BackendSwift then
        (if i_MuxPort i \<in> wgPorts then Some (Inl (PortOwned (i_Name i) (i_MuxPort i)))
         else Some (Inr \<lparr>mx_PublicPort = i_MuxPort i, mx_AWGPort = i_ListenPort i, mx_Iface = i_Name i, mx_Alias = True\<rparr>))
      else if IsNeutral (decodeAmneziaJSON um (i_AmneziaJSON i)) then Some (Inl (NeutralParams (i_Name i)))
      else if i_MuxPort i \<notin> wgPorts then Some (Inl (NoWGPort (i_Name i) (i_MuxPort i)))
      else Some (Inr \<lparr>mx_PublicPort = i_MuxPort i, mx_AWGPort = i_ListenPort i, mx_Iface = i_Name i, mx_Alias = False\<rparr>))"

definition wg_ports :: "db_interface list \<Rightarrow> int set" where
  "wg_ports ifaces = set (map i_ListenPort (filter (\<lambda>i. i_Enabled i \<and> i_Protocol i \<noteq> ProtocolAWG \<and> i_ListenPort i > 0) ifaces))"

definition muxMaps :: "decoder \<Rightarrow> db_interface list \<Rightarrow> MuxMap list \<times> mux_skip list" where
  "muxMaps um ifaces =
     (let es = List.map_filter (mux_entry um (wg_ports ifaces)) ifaces
      in (List.map_filter (\<lambda>e. case e of Inr m \<Rightarrow> Some m | Inl _ \<Rightarrow> None) es,
          List.map_filter (\<lambda>e. case e of Inl s \<Rightarrow> Some s | Inr _ \<Rightarrow> None) es))"

definition syncMux :: "'w backend_ops \<Rightarrow> decoder \<Rightarrow> db_interface list \<Rightarrow> 'w \<Rightarrow> 'w" where
  "syncMux ops um ifaces w =
     (case op_SyncMux ops of None \<Rightarrow> w | Some f \<Rightarrow> snd (f (fst (muxMaps um ifaces)) w))"

text \<open>Interfaces managed before and no longer desired are removed, host-managed ones are forgotten.\<close>

definition prune_iface :: "'w backend_ops \<Rightarrow> string list \<Rightarrow> string list \<Rightarrow> string \<Rightarrow> 'w \<Rightarrow> 'w" where
  "prune_iface ops desired live n w =
     (if n \<in> set desired \<or> ReservedHostInterface n \<or> n \<notin> set live then w
      else snd (op_RemoveInterface ops n w))"

definition desired_names :: "db_interface list \<Rightarrow> string list" where
  "desired_names ifaces = filter (\<lambda>n. \<not> ReservedHostInterface n) (map i_Name ifaces)"

definition eventRetention :: duration where
  "eventRetention = 30 * 24 * Hour"

definition run :: "'w backend_ops \<Rightarrow> decoder \<Rightarrow> rconfig \<Rightarrow> gotime \<Rightarrow> 'w rstate \<Rightarrow> 'w rstate" where
  "run ops um cfg now r =
     (let ifaces = ListInterfaces (r_store r);
          live = map d_Name (op_Devices ops (r_backend r));
          desired = desired_names ifaces;
          r1 = fold (step_iface ops um cfg now) ifaces r;
          w1 = syncMux ops um ifaces (r_backend r1);
          w2 = fold (prune_iface ops desired live) (map fst (r_hookState r1)) w1;
          keepPeers = map (\<lambda>p. peerKey (p_InterfaceName p) (p_PublicKey p)) (ListAllPeers (r_store r1));
          st1 = snd (PurgeSamples now (rc_SampleRetention cfg) (r_store r1));
          st2 = snd (PurgeEvents now eventRetention st1)
      in r1\<lparr>r_backend := w2, r_store := st2,
            r_hookState := filter (\<lambda>(n, b). n \<in> set desired) (r_hookState r1),
            r_prevSample := filter (\<lambda>(k, s). k \<in> set keepPeers) (r_prevSample r1),
            r_cache := Retain desired keepPeers (r_cache r1)\<rparr>)"

text \<open>One round of \<open>compactLoop\<close>: the range thinned next and the mark of what is done.\<close>

definition rawSampleWindow :: duration where "rawSampleWindow = Hour"
definition thinBucket :: duration where "thinBucket = 10 * Minute"

definition Truncate :: "gotime \<Rightarrow> duration \<Rightarrow> gotime" where
  "Truncate t d = (if d \<le> 0 then t else t - t mod d)"

definition compact_step :: "rconfig \<Rightarrow> gotime \<Rightarrow> gotime \<Rightarrow> store \<Rightarrow> gotime \<times> nat \<times> store" where
  "compact_step cfg now fin st =
     (let to = Truncate (now - rawSampleWindow) thinBucket;
          from = (if IsZero fin then Truncate (to - rc_SampleRetention cfg) thinBucket else fin);
          (n, st') = ThinSamples from to st
      in (to, n, st'))"

end
