(* ===== verification/Wgutil.thy ===== *)
theory Wgutil
  imports Prelude
begin

text \<open>
  WireGuard keys as text (\<open>pkg/wgutil/pubkey.go\<close>): Go's standard base64, the normal form of a key and
  its form in the path of a URL.  Raw bytes are numbers below 256.
\<close>

section \<open>Standard base64\<close>

definition b64_alphabet :: string where
  "b64_alphabet = ''ABCDEFGHIJKLMNOPQRSTUVWXYZabcdefghijklmnopqrstuvwxyz0123456789+/''"

definition b64_char :: "nat \<Rightarrow> char" where
  "b64_char n = b64_alphabet ! n"

definition b64_value :: "char \<Rightarrow> nat option" where
  "b64_value c = map_of (zip b64_alphabet [0..<64]) c"

fun EncodeToString :: "nat list \<Rightarrow> string" where
  "EncodeToString [] = []"
| "EncodeToString [a] = [b64_char (a div 4), b64_char (a mod 4 * 16), CHR ''='', CHR ''='']"
| "EncodeToString [a, b] =
     [b64_char (a div 4), b64_char (a mod 4 * 16 + b div 16), b64_char (b mod 16 * 4), CHR ''='']"
| "EncodeToString (a # b # c # bs) =
     [b64_char (a div 4), b64_char (a mod 4 * 16 + b div 16), b64_char (b mod 16 * 4 + c div 64), b64_char (c mod 64)]
     @ EncodeToString bs"

text \<open>The bytes of a group of four; only the last group may be padded, bits beyond a byte are dropped.\<close>

definition full_group :: "nat \<Rightarrow> nat \<Rightarrow> nat \<Rightarrow> nat \<Rightarrow> nat list" where
  "full_group v w x y = [v * 4 + w div 16, w mod 16 * 16 + x div 4, x mod 4 * 64 + y]"

definition last_group :: "char \<Rightarrow> char \<Rightarrow> char \<Rightarrow> char \<Rightarrow> nat list option" where
  "last_group a b c d =
     (case (b64_value a, b64_value b) of
        (Some v, Some w) \<Rightarrow>
          (if c = CHR ''='' \<and> d = CHR ''='' then Some [v * 4 + w div 16]
           else case b64_value c of None \<Rightarrow> None | Some x \<Rightarrow>
             (if d = CHR ''='' then Some [v * 4 + w div 16, w mod 16 * 16 + x div 4]
              else case b64_value d of None \<Rightarrow> None | Some y \<Rightarrow> Some (full_group v w x y)))
      | _ \<Rightarrow> None)"

fun decode_groups :: "string \<Rightarrow> nat list option" where
  "decode_groups [] = Some []"
| "decode_groups [a, b, c, d] = last_group a b c d"
| "decode_groups (a # b # c # d # s) =
     (case (b64_value a, b64_value b, b64_value c, b64_value d) of
        (Some v, Some w, Some x, Some y) \<Rightarrow> map_option (\<lambda>bs. full_group v w x y @ bs) (decode_groups s)
      | _ \<Rightarrow> None)"
| "decode_groups _ = None"

definition DecodeString :: "string \<Rightarrow> nat list option" where
  "DecodeString s = decode_groups (filter (\<lambda>c. c \<noteq> CHR 0x0A \<and> c \<noteq> CHR 0x0D) s)"

section \<open>Keys\<close>

datatype key_error = EmptyKey | InvalidEncoding | InvalidLength nat

definition NormalizeKey :: "string \<Rightarrow> key_error + string" where
  "NormalizeKey s0 =
     (let s = TrimSpace s0 in
      if s = [] then Inl EmptyKey
      else let s1 = map (\<lambda>c. if c = CHR ''-'' then CHR ''+'' else c) s;
               s2 = map (\<lambda>c. if c = CHR ''_'' then CHR ''/'' else c) s1
        in (case DecodeString s2 of
              None \<Rightarrow> Inl InvalidEncoding
            | Some raw \<Rightarrow> if length raw \<noteq> 32 then Inl (InvalidLength (length raw))
                else Inr (EncodeToString raw)))"

definition ShortKey :: "string \<Rightarrow> string" where
  "ShortKey s0 = (let s = TrimSpace s0 in
     if length s \<le> 12 then s
     else take 8 s @ map char_of [0xE2 :: nat, 0x80, 0xA6] @ drop (length s - 4) s)"

definition PathEscapeKey :: "string \<Rightarrow> string" where
  "PathEscapeKey s =
     map (\<lambda>c. if c = CHR ''/'' then CHR ''_'' else c)
       (map (\<lambda>c. if c = CHR ''+'' then CHR ''-'' else c) (TrimSpace s))"

definition PathUnescapeKey :: "string \<Rightarrow> key_error + string" where
  "PathUnescapeKey s = NormalizeKey s"

section \<open>Round trips\<close>

lemma b64_tables:
  "list_all (\<lambda>n. b64_value (b64_char n) = Some n) [0..<64]"
  "list_all (\<lambda>n. let c = b64_char n in \<not> is_space c \<and> c \<noteq> CHR ''='' \<and> c \<noteq> CHR ''-'' \<and> c \<noteq> CHR ''_''
     \<and> c \<noteq> CHR 0x0A \<and> c \<noteq> CHR 0x0D) [0..<64]"
  by code_simp+

lemma b64_value_char [simp]: "n < 64 \<Longrightarrow> b64_value (b64_char n) = Some n"
  using b64_tables(1) by (simp add: list_all_iff)

lemma b64_value_lt: "b64_value c = Some n \<Longrightarrow> n < 64"
  by (auto simp: b64_value_def dest!: map_of_SomeD set_zip_rightD)

lemma b64_char_plain: "n < 64 \<Longrightarrow> \<not> is_space (b64_char n) \<and> b64_char n \<noteq> CHR ''='' \<and> b64_char n \<noteq> CHR ''-''
    \<and> b64_char n \<noteq> CHR ''_'' \<and> b64_char n \<noteq> CHR 0x0A \<and> b64_char n \<noteq> CHR 0x0D"
  using b64_tables(2) by (simp add: list_all_iff Let_def)

definition bytes_ok :: "nat list \<Rightarrow> bool" where
  "bytes_ok bs \<longleftrightarrow> list_all (\<lambda>b. b < 256) bs"

lemma digits: "b < m \<Longrightarrow> (a * m + b) div m = a" "b < m \<Longrightarrow> (a * m + b) mod m = b" for a b m :: nat
  by simp_all

lemma group_bounds:
  fixes a b c :: nat
  assumes "a < 256" "b < 256" "c < 256"
  shows "a div 4 < 64" "a mod 4 * 16 + b div 16 < 64" "b mod 16 * 4 + c div 64 < 64"
    "a mod 4 * 16 < 64" "b mod 16 * 4 < 64" "b div 16 < 16" "c div 64 < 4"
proof -
  have m: "a mod 4 \<le> 3" "b mod 16 \<le> 15" by (simp_all add: less_Suc_eq_le [symmetric])
  show d: "a div 4 < 64" "b div 16 < 16" "c div 64 < 4" using assms by (auto intro: less_mult_imp_div_less)
  show "a mod 4 * 16 + b div 16 < 64" "b mod 16 * 4 + c div 64 < 64" "a mod 4 * 16 < 64" "b mod 16 * 4 < 64"
    using m d by linarith+
qed

lemma full_group_bytes:
  assumes "a < 256" "b < 256" "c < 256"
  shows "full_group (a div 4) (a mod 4 * 16 + b div 16) (b mod 16 * 4 + c div 64) (c mod 64) = [a, b, c]"
  unfolding full_group_def digits [OF group_bounds(6) [OF assms]] digits [OF group_bounds(7) [OF assms]] by simp

lemma EncodeToString_chars:
  "bytes_ok bs \<Longrightarrow> c \<in> set (EncodeToString bs) \<Longrightarrow> c = CHR ''='' \<or> c \<in> b64_char ` {..<64}"
proof (induction bs rule: EncodeToString.induct)
  case (2 a)
  then show ?case using group_bounds [of a 0 0] by (auto simp: bytes_ok_def)
next
  case (3 a b)
  then show ?case using group_bounds [of a b 0] by (auto simp: bytes_ok_def)
next
  case (4 a b d bs)
  then have "a < 256" "b < 256" "d < 256" "bytes_ok bs" by (simp_all add: bytes_ok_def)
  with 4 group_bounds [of a b d] show ?case by auto
qed simp

lemma decode_encode: "bytes_ok bs \<Longrightarrow> decode_groups (EncodeToString bs) = Some bs"
proof (induction bs rule: EncodeToString.induct)
  case (2 a)
  then have "a < 256" by (simp add: bytes_ok_def)
  with group_bounds [of a 0 0] show ?case by (simp add: last_group_def)
next
  case (3 a b)
  then have "a < 256" "b < 256" by (simp_all add: bytes_ok_def)
  note g = group_bounds [OF this, of 0]
  have "(a mod 4 * 16 + b div 16) div 16 = a mod 4" "(a mod 4 * 16 + b div 16) mod 16 = b div 16"
    using digits [OF g(6)] by simp_all
  with g b64_char_plain [of "b mod 16 * 4"] show ?case by (simp add: last_group_def)
next
  case (4 a b c bs)
  then have l: "a < 256" "b < 256" "c < 256" "bytes_ok bs" by (simp_all add: bytes_ok_def)
  note g = group_bounds [OF l(1-3)] full_group_bytes [OF l(1-3)]
  have ih: "decode_groups (EncodeToString bs) = Some bs" by (rule "4.IH" [OF l(4)])
  show ?case
  proof (cases "EncodeToString bs")
    case Nil
    then have "bs = []" by (cases bs rule: EncodeToString.cases) auto
    then show ?thesis using g b64_char_plain [of "b mod 16 * 4 + c div 64"] b64_char_plain [of "c mod 64"]
      by (simp add: last_group_def)
  next
    case (Cons x xs)
    then show ?thesis using g ih by simp
  qed
qed simp

lemma group_bytes:
  assumes "v < 64" "w < 64" "x < 64" "y < (64::nat)"
  shows "v * 4 + w div 16 < 256" "w mod 16 * 16 + x div 4 < 256" "x mod 4 * 64 + y < 256"
proof -
  have d: "w div 16 < 4" "x div 4 < 16" using assms by (auto intro: less_mult_imp_div_less)
  have m: "w mod 16 \<le> 15" "x mod 4 \<le> 3" by (simp_all add: less_Suc_eq_le [symmetric])
  show "v * 4 + w div 16 < 256" "w mod 16 * 16 + x div 4 < 256" "x mod 4 * 64 + y < 256"
    using d m assms by linarith+
qed

lemma last_group_bytes: "last_group a b c d = Some bs \<Longrightarrow> bytes_ok bs"
  by (auto simp: last_group_def full_group_def bytes_ok_def split: option.splits if_splits
    dest!: b64_value_lt intro: group_bytes(1) [of _ _ 0 0] group_bytes(2) [of 0 _ _ 0] group_bytes(3) [of 0 0])

lemma decode_bytes_ok: "decode_groups s = Some bs \<Longrightarrow> bytes_ok bs"
proof (induction s arbitrary: bs rule: decode_groups.induct)
  case (2 a b c d)
  then show ?case by (simp add: last_group_bytes)
next
  case (3 a b c d e s)
  then obtain v w x y cs where "b64_value a = Some v" "b64_value b = Some w" "b64_value c = Some x"
    "b64_value d = Some y" "decode_groups (e # s) = Some cs" "bs = full_group v w x y @ cs"
    by (auto split: option.splits)
  with 3 group_bytes [of v w x y] show ?case by (auto simp: full_group_def bytes_ok_def dest!: b64_value_lt)
qed (auto simp: bytes_ok_def)

lemma EncodeToString_plain:
  assumes "bytes_ok bs" "c \<in> set (EncodeToString bs)"
  shows "\<not> is_space c \<and> c \<noteq> CHR ''-'' \<and> c \<noteq> CHR ''_'' \<and> c \<noteq> CHR 0x0A \<and> c \<noteq> CHR 0x0D"
  using EncodeToString_chars [OF assms] b64_char_plain by (auto simp: is_space_def)

lemma Encode_decodes: "bytes_ok bs \<Longrightarrow> DecodeString (EncodeToString bs) = Some bs"
  using EncodeToString_plain by (simp add: DecodeString_def decode_encode filter_id_conv cong: filter_cong)

text \<open>A text whose blanks at the ends are none and whose URL-safe form is read back is its own key.\<close>

lemma NormalizeKey_escaped:
  assumes "bytes_ok bs" and "length bs = 32"
    and "map (\<lambda>c. if c = CHR ''_'' then CHR ''/'' else c) (map (\<lambda>c. if c = CHR ''-'' then CHR ''+'' else c) t) = EncodeToString bs"
    and "\<forall>c\<in>set t. \<not> is_space c"
  shows "NormalizeKey t = Inr (EncodeToString bs)"
proof -
  have "TrimSpace t = t"
    by (rule TrimSpace_trimmed) (use assms(4) in \<open>auto simp: trimmed_def hd_in_set last_in_set\<close>)
  moreover have "t \<noteq> []"
  proof
    assume "t = []"
    with assms(3) have "EncodeToString bs = []" by simp
    with assms(2) show False by (cases bs rule: EncodeToString.cases) auto
  qed
  ultimately show ?thesis using assms(1,2,3) by (simp add: NormalizeKey_def Encode_decodes Let_def del: map_map)
qed

lemma NormalizeKey_Inr: "NormalizeKey s = Inr k \<Longrightarrow> \<exists>bs. bytes_ok bs \<and> length bs = 32 \<and> k = EncodeToString bs"
  by (auto simp: NormalizeKey_def DecodeString_def Let_def split: if_splits option.splits dest: decode_bytes_ok)

lemma NormalizeKey_idem:
  assumes "NormalizeKey s = Inr k"
  shows "NormalizeKey k = Inr k"
proof -
  obtain bs where b: "bytes_ok bs" "length bs = 32" "k = EncodeToString bs" using NormalizeKey_Inr [OF assms] by blast
  note p = EncodeToString_plain [OF b(1)]
  have "map (\<lambda>c. if c = CHR ''_'' then CHR ''/'' else c) (map (\<lambda>c. if c = CHR ''-'' then CHR ''+'' else c) k) = k"
    using p b(3) by (intro map_idI trans [OF map_map]) auto
  with p b show ?thesis by (intro NormalizeKey_escaped [of bs k, folded b(3)]) auto
qed

text \<open>
  Keys survive the path of a URL: a key in normal form has 44 characters, is its own normal form,
  its escaped form has no slash or plus sign, and unescaping that gives the key back.
\<close>

theorem key_path_roundtrip:
  assumes "NormalizeKey s = Inr k"
  shows "NormalizeKey k = Inr k \<and> PathUnescapeKey (PathEscapeKey k) = Inr k
    \<and> set (PathEscapeKey k) \<inter> {CHR ''/'', CHR ''+'', CHR '' ''} = {}"
proof -
  obtain bs where b: "bytes_ok bs" "length bs = 32" "k = EncodeToString bs" using NormalizeKey_Inr [OF assms] by blast
  note p = EncodeToString_plain [OF b(1), folded b(3)]
  have t: "TrimSpace k = k" by (rule TrimSpace_trimmed) (use p in \<open>auto simp: trimmed_def hd_in_set last_in_set\<close>)
  have m: "map (\<lambda>c. if c = CHR ''_'' then CHR ''/'' else c) (map (\<lambda>c. if c = CHR ''-'' then CHR ''+'' else c) (PathEscapeKey k)) = k"
    unfolding PathEscapeKey_def t using p by (simp add: comp_def) (intro map_idI, auto)
  have s: "\<forall>c\<in>set (PathEscapeKey k). \<not> is_space c \<and> c \<noteq> CHR ''/'' \<and> c \<noteq> CHR ''+''"
    unfolding PathEscapeKey_def t using p by (auto simp: is_space_def)
  have "PathUnescapeKey (PathEscapeKey k) = Inr k"
    unfolding PathUnescapeKey_def by (rule NormalizeKey_escaped [OF b(1,2), of "PathEscapeKey k", folded b(3)]) (use m s in auto)
  with NormalizeKey_idem [OF assms] s show ?thesis by (auto simp: is_space_def)
qed

theorem key_path_roundtrip_witness:
  "PathUnescapeKey (PathEscapeKey ''////////////////////////////////////////+/8='')
     = Inr ''////////////////////////////////////////+/8=''"
proof -
  have "NormalizeKey ''  ____////////////////////////////////////-/8= '' = Inr ''////////////////////////////////////////+/8=''"
    by code_simp
  from key_path_roundtrip [OF this] show ?thesis by simp
qed

end
