(* ===== verification/ApiPeers.thy ===== *)
theory ApiPeers
  imports Reconciler Wgutil
begin

text \<open>
  The handlers of the HTTP API for peers (\<open>internal/api/handlers_peers.go\<close>).  A handler takes the
  decoded request (\<open>None\<close> when \<open>decodeJSON\<close> fails), the parameters of the route, the clock and the daemon's
  state, and gives the reply with the new state.  Parameters of the environment: the public key of
  a private key and fresh keys (Curve25519), the ports the host knows (\<open>net.LookupPort\<close>), the JSON
  decoder and the backend.  A reply is a status with a body, or a status with an error code; the
  texts of error messages are not modelled.
\<close>

section \<open>Environment and replies\<close>

datatype 'b reply = Refused nat string | Answer nat 'b

record 'w api_env =
  en_ops :: "'w backend_ops"
  en_um :: decoder
  en_cfg :: rconfig
  en_pub :: "string \<Rightarrow> string option"
  en_port :: "string \<Rightarrow> bool"
  en_handshake :: int

record key_pair =
  kp_PrivateKey :: string
  kp_PublicKey :: string

definition ForceReconcile :: "'w api_env \<Rightarrow> gotime \<Rightarrow> 'w rstate \<Rightarrow> 'w rstate" where
  "ForceReconcile en now r = run (en_ops en) (en_um en) (en_cfg en) now r"

definition audit :: "gotime \<Rightarrow> string \<Rightarrow> string \<Rightarrow> string \<Rightarrow> string \<Rightarrow> string \<Rightarrow> string \<Rightarrow> 'w rstate \<Rightarrow> 'w rstate" where
  "audit now level kind name pub msg js r = r\<lparr>r_store := AddEvent now level kind name pub msg js (r_store r)\<rparr>"

text \<open>The key in a path: normalised when it is one, as given otherwise.\<close>

definition path_key :: "string \<Rightarrow> string" where
  "path_key s = (case PathUnescapeKey s of Inr k \<Rightarrow> k | Inl _ \<Rightarrow> s)"

definition or_else_r :: "'e + 'a \<Rightarrow> ('a \<Rightarrow> 'e + 'b) \<Rightarrow> 'e + 'b" where
  "or_else_r x f = (case x of Inl e \<Rightarrow> Inl e | Inr a \<Rightarrow> f a)"

text \<open>The guards of a handler: the status and code of the first that fails.\<close>

definition guard :: "bool \<Rightarrow> nat \<Rightarrow> string \<Rightarrow> nat \<times> string + unit" where
  "guard b status code = (if b then Inr () else Inl (status, code))"

section \<open>A peer as the API shows it\<close>

record api_peer =
  ap_ID :: int
  ap_InterfaceName :: string
  ap_PublicKey :: string
  ap_PresharedKey :: string
  ap_Name :: string
  ap_Notes :: string
  ap_AllowedIPs :: "string list"
  ap_AssignedIPs :: "string list"
  ap_Endpoint :: string
  ap_PersistentKeepalive :: int
  ap_Suspended :: bool
  ap_TrafficLimitBytes :: int
  ap_ExpiresAt :: string
  ap_BandwidthRxBps :: int
  ap_BandwidthTxBps :: int
  ap_BandwidthTotalBps :: int
  ap_FirstHandshakeAt :: string
  ap_LastHandshakeAt :: string
  ap_ConnectedSince :: string
  ap_LastEndpoint :: string
  ap_RxBytes :: int
  ap_TxBytes :: int
  ap_RxBps :: real
  ap_TxBps :: real
  ap_RxBpsRaw :: real
  ap_TxBpsRaw :: real
  ap_IntervalSec :: real
  ap_Windows :: "(string \<times> window_counters) list"
  ap_Connected :: bool
  ap_Tags :: "string list"
  ap_CreatedAt :: gotime
  ap_UpdatedAt :: gotime

definition api_connected :: "int \<Rightarrow> gotime \<Rightarrow> db_peer \<Rightarrow> bool" where
  "api_connected window now p =
     (p_LastHandshakeAt p \<noteq> [] \<and> (case ParseRFC3339 (p_LastHandshakeAt p) of None \<Rightarrow> False
        | Some hs \<Rightarrow> time_Sub now hs \<le> i64 (window * Second)))"

definition toAPIPeer :: "'w api_env \<Rightarrow> gotime \<Rightarrow> 'w rstate \<Rightarrow> db_peer \<Rightarrow> bool \<Rightarrow> api_peer" where
  "toAPIPeer en now r p reveal =
     (let c = GetPeer (r_cache r) (p_InterfaceName p) (p_PublicKey p);
          fresh = (case c of None \<Rightarrow> False
            | Some s \<Rightarrow> ps_RxBytes s > 0 \<or> ps_TxBytes s > 0 \<or> p_UpdatedAt p < ps_UpdatedAt s)
      in \<lparr>ap_ID = p_ID p, ap_InterfaceName = p_InterfaceName p, ap_PublicKey = p_PublicKey p,
          ap_PresharedKey = (if reveal then p_PresharedKey p else []), ap_Name = p_Name p, ap_Notes = p_Notes p,
          ap_AllowedIPs = p_AllowedIPs p, ap_AssignedIPs = p_AssignedIPs p, ap_Endpoint = p_Endpoint p,
          ap_PersistentKeepalive = p_PersistentKeepalive p, ap_Suspended = p_Suspended p,
          ap_TrafficLimitBytes = p_TrafficLimitBytes p, ap_ExpiresAt = p_ExpiresAt p,
          ap_BandwidthRxBps = p_BandwidthRxBps p, ap_BandwidthTxBps = p_BandwidthTxBps p,
          ap_BandwidthTotalBps = p_BandwidthTotalBps p, ap_FirstHandshakeAt = p_FirstHandshakeAt p,
          ap_LastHandshakeAt = p_LastHandshakeAt p, ap_ConnectedSince = p_ConnectedSince p,
          ap_LastEndpoint = p_LastEndpoint p,
          ap_RxBytes = (if fresh then (case c of Some s \<Rightarrow> ps_RxBytes s | None \<Rightarrow> 0) else EffectiveRx p),
          ap_TxBytes = (if fresh then (case c of Some s \<Rightarrow> ps_TxBytes s | None \<Rightarrow> 0) else EffectiveTx p),
          ap_RxBps = (case c of Some s \<Rightarrow> ps_RxBps s | None \<Rightarrow> p_LastRxBps p),
          ap_TxBps = (case c of Some s \<Rightarrow> ps_TxBps s | None \<Rightarrow> p_LastTxBps p),
          ap_RxBpsRaw = (case c of Some s \<Rightarrow> ps_RxBpsRaw s | None \<Rightarrow> 0),
          ap_TxBpsRaw = (case c of Some s \<Rightarrow> ps_TxBpsRaw s | None \<Rightarrow> 0),
          ap_IntervalSec = (case c of Some s \<Rightarrow> ps_IntervalSec s | None \<Rightarrow> 0),
          ap_Windows = (case c of Some s \<Rightarrow> ps_Windows s | None \<Rightarrow> []),
          ap_Connected = api_connected (en_handshake en) now p, ap_Tags = p_Tags p,
          ap_CreatedAt = p_CreatedAt p, ap_UpdatedAt = p_UpdatedAt p\<rparr>)"

section \<open>Reading\<close>

definition handleListPeers :: "'w api_env \<Rightarrow> gotime \<Rightarrow> string \<Rightarrow> 'w rstate \<Rightarrow> api_peer list reply" where
  "handleListPeers en now name r =
     (case GetInterfaceByName name (r_store r) of
        Inl _ \<Rightarrow> Refused 404 ''not_found''
      | Inr _ \<Rightarrow> Answer 200 (map (\<lambda>p. toAPIPeer en now r p False) (ListPeersByInterface name (r_store r))))"

definition handleGetPeer :: "'w api_env \<Rightarrow> gotime \<Rightarrow> string \<Rightarrow> string \<Rightarrow> bool \<Rightarrow> 'w rstate \<Rightarrow> api_peer reply" where
  "handleGetPeer en now name param reveal r =
     (case GetPeerRow name (path_key param) (r_store r) of
        Inr p \<Rightarrow> Answer 200 (toAPIPeer en now r p reveal)
      | Inl _ \<Rightarrow> (case GetPeerRow name param (r_store r) of
          Inr p \<Rightarrow> Answer 200 (toAPIPeer en now r p reveal)
        | Inl _ \<Rightarrow> Refused 404 ''not_found''))"

section \<open>Creating\<close>

record peer_create =
  cr_PublicKey :: string
  cr_PresharedKey :: string
  cr_GeneratePSK :: bool
  cr_GenerateClientKey :: bool
  cr_ClientPrivateKey :: string
  cr_Name :: string
  cr_Notes :: string
  cr_AllowedIPs :: "string list"
  cr_AssignedIPs :: "string list"
  cr_Endpoint :: string
  cr_PersistentKeepalive :: int
  cr_TrafficLimitBytes :: int
  cr_ExpiresAt :: string
  cr_BandwidthRxBps :: int
  cr_BandwidthTxBps :: int
  cr_BandwidthTotalBps :: int
  cr_Tags :: "string list"

text \<open>
  The public key, preshared key and client key of a new peer; the results of the two generators are
  given, \<open>None\<close> where they fail.
\<close>

definition peer_keys_of :: "(string \<Rightarrow> string option) \<Rightarrow> string option \<Rightarrow> key_pair option \<Rightarrow> peer_create
    \<Rightarrow> nat \<times> string + string \<times> string \<times> string" where
  "peer_keys_of pubOf newPSK newPair req =
     or_else_r
       (if cr_PublicKey req \<noteq> [] then
          (case NormalizeKey (cr_PublicKey req) of Inl _ \<Rightarrow> Inl (400, ''invalid_key'') | Inr k \<Rightarrow> Inr k)
        else if \<not> cr_GenerateClientKey req \<and> cr_ClientPrivateKey req = [] then Inl (400, ''validation'')
        else Inr [])
     (\<lambda>pub0. or_else_r
       (if cr_GeneratePSK req then (case newPSK of None \<Rightarrow> Inl (500, ''keygen_failed'') | Some k \<Rightarrow> Inr k)
        else Inr (cr_PresharedKey req))
     (\<lambda>psk. or_else_r
       (if cr_GenerateClientKey req \<and> cr_ClientPrivateKey req = [] then
          (if cr_PublicKey req \<noteq> [] then Inl (400, ''validation'')
           else case newPair of None \<Rightarrow> Inl (500, ''keygen_failed'')
             | Some kp \<Rightarrow> Inr (kp_PrivateKey kp, kp_PublicKey kp))
        else Inr (cr_ClientPrivateKey req, pub0))
     (\<lambda>(clientPriv, pub1). or_else_r
       (if clientPriv \<noteq> [] then
          (case pubOf clientPriv of None \<Rightarrow> Inl (400, ''invalid_key'')
           | Some derived \<Rightarrow> if pub1 = [] then Inr derived
               else if pub1 \<noteq> derived then Inl (400, ''validation'') else Inr pub1)
        else Inr pub1)
     (\<lambda>pub. if pub = [] then Inl (400, ''validation'') else Inr (pub, psk, clientPriv)))))"

text \<open>The used hosts of an interface, without those of one peer, and the next free address.\<close>

definition used_hosts :: "db_interface \<Rightarrow> int \<Rightarrow> db_peer list \<Rightarrow> string list" where
  "used_hosts i skip ps0 =
     (let ps = filter (\<lambda>p. \<not> (skip \<noteq> 0 \<and> p_ID p = skip)) ps0
      in CollectUsedHosts (i_Addresses i) (map p_AssignedIPs ps) (map p_AllowedIPs ps))"

definition allocatePeerIP :: "string \<Rightarrow> db_interface \<Rightarrow> int \<Rightarrow> store \<Rightarrow> net_error + string \<times> string" where
  "allocatePeerIP name i skip st =
     fst (AllocateNextHost (i_Addresses i) (used_hosts i skip (ListPeersByInterface name st)))"

definition expiry_ok :: "string \<Rightarrow> bool" where
  "expiry_ok s = (s = [] \<or> ParseRFC3339 s \<noteq> None)"

text \<open>The networks and addresses of a new peer: those given, or the next free ones.\<close>

definition peer_addresses :: "string \<Rightarrow> db_interface \<Rightarrow> peer_create \<Rightarrow> store \<Rightarrow> nat \<times> string + string list \<times> string list" where
  "peer_addresses name i req st =
     (if cr_AllowedIPs req = [] \<and> cr_AssignedIPs req = [] then
        (case allocatePeerIP name i 0 st of Inl _ \<Rightarrow> Inl (400, ''validation'')
         | Inr (host, cidr) \<Rightarrow> Inr ([cidr], [host]))
      else Inr (cr_AllowedIPs req, cr_AssignedIPs req))"

definition new_peer :: "db_interface \<Rightarrow> peer_create \<Rightarrow> string \<times> string \<times> string \<Rightarrow> string list \<times> string list \<Rightarrow> db_peer" where
  "new_peer i req keys ips =
     (case (keys, ips) of ((pub, psk, clientPriv), (allowed, assigned)) \<Rightarrow>
        zero_peer\<lparr>p_InterfaceID := i_ID i, p_PublicKey := pub, p_PresharedKey := psk,
          p_ClientPrivateKey := clientPriv, p_Name := cr_Name req, p_Notes := cr_Notes req,
          p_AllowedIPs := allowed, p_AssignedIPs := assigned, p_Endpoint := cr_Endpoint req,
          p_PersistentKeepalive := (if cr_PersistentKeepalive req = 0 \<and> i_DefaultKeepalive i > 0
            then i_DefaultKeepalive i else cr_PersistentKeepalive req),
          p_TrafficLimitBytes := cr_TrafficLimitBytes req, p_ExpiresAt := TrimSpace (cr_ExpiresAt req),
          p_BandwidthRxBps := cr_BandwidthRxBps req, p_BandwidthTxBps := cr_BandwidthTxBps req,
          p_BandwidthTotalBps := cr_BandwidthTotalBps req, p_Tags := cr_Tags req\<rparr>)"

text \<open>All checks of \<open>handleCreatePeer\<close> before the row is written, in their order.\<close>

definition create_peer_checks :: "'w api_env \<Rightarrow> string option \<Rightarrow> key_pair option \<Rightarrow> string \<Rightarrow> peer_create option \<Rightarrow> store
    \<Rightarrow> nat \<times> string + db_peer" where
  "create_peer_checks en newPSK newPair name body st =
     (case GetInterfaceByName name st of Inl _ \<Rightarrow> Inl (404, ''not_found'') | Inr i \<Rightarrow>
     (case body of None \<Rightarrow> Inl (400, ''invalid_json'') | Some req \<Rightarrow>
       or_else_r (peer_keys_of (en_pub en) newPSK newPair req)
       (\<lambda>keys. or_else_r (peer_addresses name i req st)
       (\<lambda>(allowed, assigned). or_else_r (guard (ValidateCIDRList allowed = None) 400 ''validation'')
       (\<lambda>_. or_else_r (guard (ValidateIPOrCIDRList assigned = None) 400 ''validation'')
       (\<lambda>_. or_else_r (guard (cr_Endpoint req = [] \<or> ValidateEndpoint (en_port en) (cr_Endpoint req) = None) 400 ''validation'')
       (\<lambda>_. or_else_r (guard (expiry_ok (TrimSpace (cr_ExpiresAt req))) 400 ''validation'')
       (\<lambda>_. Inr (new_peer i req keys (allowed, assigned))))))))))"

definition handleCreatePeer :: "'w api_env \<Rightarrow> gotime \<Rightarrow> string option \<Rightarrow> key_pair option \<Rightarrow> string \<Rightarrow> peer_create option
    \<Rightarrow> 'w rstate \<Rightarrow> api_peer reply \<times> 'w rstate" where
  "handleCreatePeer en now newPSK newPair name body r =
     (case create_peer_checks en newPSK newPair name body (r_store r) of
        Inl (status, code) \<Rightarrow> (Refused status code, r)
      | Inr p \<Rightarrow>
        (case CreatePeer now p (r_store r) of
           (Inl _, _) \<Rightarrow> (Refused 409 ''create_failed'', r)
         | (Inr p1, st1) \<Rightarrow>
           (let p2 = p1\<lparr>p_InterfaceName := name\<rparr>;
                r1 = audit now ''info'' ''audit'' name (p_PublicKey p) ''peer created'' ''{}'' (r\<lparr>r_store := st1\<rparr>);
                r2 = ForceReconcile en now r1
            in (Answer 201 (toAPIPeer en now r2 p2 True), r2))))"

section \<open>Changing\<close>

text \<open>A field of a patch is \<open>None\<close> when the request leaves it out.\<close>

record peer_update =
  up_PresharedKey :: "string option"
  up_ClientPrivateKey :: "string option"
  up_Name :: "string option"
  up_Notes :: "string option"
  up_AllowedIPs :: "string list option"
  up_AssignedIPs :: "string list option"
  up_Endpoint :: "string option"
  up_PersistentKeepalive :: "int option"
  up_TrafficLimitBytes :: "int option"
  up_ExpiresAt :: "string option"
  up_BandwidthRxBps :: "int option"
  up_BandwidthTxBps :: "int option"
  up_BandwidthTotalBps :: "int option"
  up_Tags :: "string list option"
  up_Suspended :: "bool option"

definition patch :: "'a option \<Rightarrow> 'a \<Rightarrow> 'a" where
  "patch new old = (case new of None \<Rightarrow> old | Some x \<Rightarrow> x)"

definition patch_client_key :: "(string \<Rightarrow> string option) \<Rightarrow> string option \<Rightarrow> db_peer \<Rightarrow> nat \<times> string + string" where
  "patch_client_key pubOf new p =
     (case new of None \<Rightarrow> Inr (p_ClientPrivateKey p)
      | Some k \<Rightarrow> (let priv = TrimSpace k in
          if priv = [] then Inr []
          else case pubOf priv of None \<Rightarrow> Inl (400, ''invalid_key'')
            | Some pub \<Rightarrow> if pub \<noteq> p_PublicKey p then Inl (400, ''validation'') else Inr priv))"

definition patch_peer :: "'w api_env \<Rightarrow> peer_update \<Rightarrow> db_peer \<Rightarrow> nat \<times> string + db_peer" where
  "patch_peer en req p =
     or_else_r (patch_client_key (en_pub en) (up_ClientPrivateKey req) p)
     (\<lambda>clientPriv. or_else_r (guard (case up_AllowedIPs req of None \<Rightarrow> True | Some xs \<Rightarrow> ValidateCIDRList xs = None) 400 ''validation'')
     (\<lambda>_. or_else_r (guard (case up_AssignedIPs req of None \<Rightarrow> True | Some xs \<Rightarrow> ValidateIPOrCIDRList xs = None) 400 ''validation'')
     (\<lambda>_. or_else_r (guard (case up_Endpoint req of None \<Rightarrow> True | Some e \<Rightarrow> ValidateEndpoint (en_port en) e = None) 400 ''validation'')
     (\<lambda>_. or_else_r (guard (case up_ExpiresAt req of None \<Rightarrow> True | Some e \<Rightarrow> expiry_ok (TrimSpace e)) 400 ''validation'')
     (\<lambda>_. Inr (p\<lparr>p_PresharedKey := patch (up_PresharedKey req) (p_PresharedKey p),
        p_ClientPrivateKey := clientPriv, p_Name := patch (up_Name req) (p_Name p),
        p_Notes := patch (up_Notes req) (p_Notes p), p_AllowedIPs := patch (up_AllowedIPs req) (p_AllowedIPs p),
        p_AssignedIPs := patch (up_AssignedIPs req) (p_AssignedIPs p), p_Endpoint := patch (up_Endpoint req) (p_Endpoint p),
        p_PersistentKeepalive := patch (up_PersistentKeepalive req) (p_PersistentKeepalive p),
        p_TrafficLimitBytes := patch (up_TrafficLimitBytes req) (p_TrafficLimitBytes p),
        p_ExpiresAt := patch (map_option TrimSpace (up_ExpiresAt req)) (p_ExpiresAt p),
        p_BandwidthRxBps := patch (up_BandwidthRxBps req) (p_BandwidthRxBps p),
        p_BandwidthTxBps := patch (up_BandwidthTxBps req) (p_BandwidthTxBps p),
        p_BandwidthTotalBps := patch (up_BandwidthTotalBps req) (p_BandwidthTotalBps p),
        p_Tags := patch (up_Tags req) (p_Tags p), p_Suspended := patch (up_Suspended req) (p_Suspended p)\<rparr>))))))"

definition handleUpdatePeer :: "'w api_env \<Rightarrow> gotime \<Rightarrow> string \<Rightarrow> string \<Rightarrow> peer_update option
    \<Rightarrow> 'w rstate \<Rightarrow> api_peer reply \<times> 'w rstate" where
  "handleUpdatePeer en now name param body r =
     (case GetPeerRow name (path_key param) (r_store r) of Inl _ \<Rightarrow> (Refused 404 ''not_found'', r) | Inr p \<Rightarrow>
     (case body of None \<Rightarrow> (Refused 400 ''invalid_json'', r) | Some req \<Rightarrow>
     (case patch_peer en req p of Inl (status, code) \<Rightarrow> (Refused status code, r) | Inr p1 \<Rightarrow>
     (case UpdatePeer now p1 (r_store r) of
        (Inl _, _) \<Rightarrow> (Refused 500 ''update_failed'', r)
      | (Inr p2, st1) \<Rightarrow>
        (let r1 = audit now ''info'' ''audit'' name (p_PublicKey p2) ''peer updated'' ''{}'' (r\<lparr>r_store := st1\<rparr>);
             r2 = (case up_Suspended req of None \<Rightarrow> r1 | Some b \<Rightarrow>
               if b \<noteq> p_Suspended p
               then audit now ''info'' ''enforce'' name (p_PublicKey p2) (if b then ''peer suspended'' else ''peer resumed'')
                 (''{'' @ quoted ''via'' @ '':'' @ quoted ''patch'' @ ''}'') r1
               else r1);
             r3 = ForceReconcile en now r2
         in (Answer 200 (toAPIPeer en now r3 p2 False), r3))))))"

definition handleDeletePeer :: "'w api_env \<Rightarrow> gotime \<Rightarrow> string \<Rightarrow> string \<Rightarrow> 'w rstate \<Rightarrow> unit reply \<times> 'w rstate" where
  "handleDeletePeer en now name param r =
     (let pubkey = path_key param in
      case DeletePeer name pubkey (r_store r) of
        (Inl NotFound, _) \<Rightarrow> (Refused 404 ''not_found'', r)
      | (Inl _, _) \<Rightarrow> (Refused 500 ''delete_failed'', r)
      | (Inr _, st1) \<Rightarrow>
        (let r1 = audit now ''info'' ''audit'' name pubkey ''peer deleted'' ''{}'' (r\<lparr>r_store := st1\<rparr>)
         in (Answer 204 (), ForceReconcile en now r1)))"

definition setSuspend :: "'w api_env \<Rightarrow> gotime \<Rightarrow> string \<Rightarrow> string \<Rightarrow> bool \<Rightarrow> 'w rstate \<Rightarrow> bool reply \<times> 'w rstate" where
  "setSuspend en now name param suspended r =
     (let pubkey = path_key param in
      case GetPeerRow name pubkey (r_store r) of Inl _ \<Rightarrow> (Refused 404 ''not_found'', r) | Inr p \<Rightarrow>
      (case SetPeerSuspended now (p_ID p) suspended (r_store r) of
         (Inl _, _) \<Rightarrow> (Refused 500 ''update_failed'', r)
       | (Inr _, st1) \<Rightarrow>
         (let r1 = audit now ''info'' ''enforce'' name pubkey (if suspended then ''peer suspended'' else ''peer resumed'')
                ''{}'' (r\<lparr>r_store := st1\<rparr>)
          in (Answer 200 suspended, ForceReconcile en now r1))))"

definition handleSuspendPeer :: "'w api_env \<Rightarrow> gotime \<Rightarrow> string \<Rightarrow> string \<Rightarrow> 'w rstate \<Rightarrow> bool reply \<times> 'w rstate" where
  "handleSuspendPeer en now name param = setSuspend en now name param True"

definition handleResumePeer :: "'w api_env \<Rightarrow> gotime \<Rightarrow> string \<Rightarrow> string \<Rightarrow> 'w rstate \<Rightarrow> bool reply \<times> 'w rstate" where
  "handleResumePeer en now name param = setSuspend en now name param False"

definition handleResetPeerTraffic :: "gotime \<Rightarrow> string \<Rightarrow> string \<Rightarrow> 'w rstate \<Rightarrow> unit reply \<times> 'w rstate" where
  "handleResetPeerTraffic now name param r =
     (let pubkey = path_key param in
      case GetPeerRow name pubkey (r_store r) of Inl _ \<Rightarrow> (Refused 404 ''not_found'', r) | Inr p \<Rightarrow>
      (case SoftResetPeerTraffic now (p_ID p) (p_LastRxBytes p) (p_LastTxBytes p) (r_store r) of
         (Inl _, _) \<Rightarrow> (Refused 500 ''update_failed'', r)
       | (Inr _, st1) \<Rightarrow>
         (Answer 200 (), audit now ''info'' ''audit'' name pubkey ''traffic counters reset'' ''{}'' (r\<lparr>r_store := st1\<rparr>))))"

section \<open>Client configuration\<close>

definition decodeAmnezia :: "decoder \<Rightarrow> string \<Rightarrow> AmneziaParams option" where
  "decodeAmnezia um s0 =
     (let s = TrimSpace s0 in if s = [] \<or> s = ''{}'' \<or> s = ''null'' then None else um s)"

definition with_amnezia :: "AmneziaParams option \<Rightarrow> InterfaceSection \<Rightarrow> InterfaceSection" where
  "with_amnezia am sec = (case am of None \<Rightarrow> sec | Some a \<Rightarrow>
     sec\<lparr>ci_Jc := am_Jc a, ci_Jmin := am_Jmin a, ci_Jmax := am_Jmax a,
       ci_S1 := am_S1 a, ci_S2 := am_S2 a, ci_S3 := am_S3 a, ci_S4 := am_S4 a,
       ci_H1 := am_H1 a, ci_H2 := am_H2 a, ci_H3 := am_H3 a, ci_H4 := am_H4 a,
       ci_I1 := am_I1 a, ci_I2 := am_I2 a, ci_I3 := am_I3 a, ci_I4 := am_I4 a, ci_I5 := am_I5 a\<rparr>)"

definition client_addr :: "string \<Rightarrow> string" where
  "client_addr a = (if CHR ''/'' \<in> set a then a else if CHR '':'' \<in> set a then a @ ''/128'' else a @ ''/32'')"

definition client_section :: "decoder \<Rightarrow> db_interface \<Rightarrow> db_peer \<Rightarrow> string \<Rightarrow> Config" where
  "client_section um i p endpoint =
     (let addrs = (if p_AssignedIPs p = [] then filter (\<lambda>a. suffix ''/32'' a \<or> suffix ''/128'' a) (p_AllowedIPs p)
            else p_AssignedIPs p)
      in \<lparr>cf_Interface = with_amnezia (decodeAmnezia um (i_AmneziaJSON i))
            (zero_iface_section\<lparr>ci_PrivateKey := p_ClientPrivateKey p, ci_Address := map client_addr addrs,
               ci_DNS := i_DNS i, ci_MTU := i_MTU i, ci_Protocol := i_Protocol i\<rparr>),
          cf_Peers = [zero_peer_section\<lparr>cp_PublicKey := i_PublicKey i, cp_PresharedKey := p_PresharedKey p,
            cp_AllowedIPs := [''0.0.0.0/0'', ''::/0''], cp_Endpoint := endpoint,
            cp_PersistentKeepalive := p_PersistentKeepalive p\<rparr>]\<rparr>)"

datatype client_error = NoSuchInterface | NoSuchPeer | NoClientKey | NoPublicEndpoint

definition buildClientConfig :: "decoder \<Rightarrow> string \<Rightarrow> string \<Rightarrow> store \<Rightarrow> client_error + string" where
  "buildClientConfig um name pubkey st =
     (case GetInterfaceByName name st of Inl _ \<Rightarrow> Inl NoSuchInterface | Inr i \<Rightarrow>
     (case GetPeerRow name pubkey st of Inl _ \<Rightarrow> Inl NoSuchPeer | Inr p \<Rightarrow>
      if p_ClientPrivateKey p = [] then Inl NoClientKey
      else let endpoint = (if i_PublicEndpoint i = [] \<and> i_ListenPort i > 0
             then ''SERVER_PUBLIC_IP:'' @ int_str (i_ListenPort i) else i_PublicEndpoint i)
        in if endpoint = [] then Inl NoPublicEndpoint else Inr (Render (client_section um i p endpoint))))"

definition client_config_error :: "client_error \<Rightarrow> 'b reply" where
  "client_config_error e = (if e = NoSuchInterface \<or> e = NoSuchPeer then Refused 404 ''not_found''
     else Refused 400 ''client_config'')"

definition handlePeerClientConfig :: "'w api_env \<Rightarrow> string \<Rightarrow> string \<Rightarrow> 'w rstate \<Rightarrow> string reply" where
  "handlePeerClientConfig en name param r =
     (case buildClientConfig (en_um en) name (path_key param) (r_store r) of
        Inl e \<Rightarrow> client_config_error e | Inr cfg \<Rightarrow> Answer 200 cfg)"

record issued_key =
  ik_Peer :: api_peer
  ik_ClientPrivateKey :: string
  ik_PreviousPublicKey :: string
  ik_Config :: string
  ik_Rotated :: bool

definition handleIssueClientKey :: "'w api_env \<Rightarrow> gotime \<Rightarrow> key_pair option \<Rightarrow> string \<Rightarrow> string \<Rightarrow> bool option \<Rightarrow> bool
    \<Rightarrow> 'w rstate \<Rightarrow> issued_key reply \<times> 'w rstate" where
  "handleIssueClientKey en now newPair name param body queryRotate r =
     (case GetPeerRow name (path_key param) (r_store r) of Inl _ \<Rightarrow> (Refused 404 ''not_found'', r) | Inr p \<Rightarrow>
     (case body of None \<Rightarrow> (Refused 400 ''invalid_json'', r) | Some bodyRotate \<Rightarrow>
      (let rotate = (bodyRotate \<or> queryRotate) in
       if p_ClientPrivateKey p \<noteq> [] \<and> \<not> rotate then
         (case buildClientConfig (en_um en) name (p_PublicKey p) (r_store r) of
            Inl _ \<Rightarrow> (Refused 400 ''client_config'', r)
          | Inr cfg \<Rightarrow> (Answer 200 \<lparr>ik_Peer = toAPIPeer en now r p False, ik_ClientPrivateKey = p_ClientPrivateKey p,
              ik_PreviousPublicKey = [], ik_Config = cfg, ik_Rotated = False\<rparr>, r))
       else if \<not> rotate \<and> p_ClientPrivateKey p = [] then (Refused 400 ''client_key_missing'', r)
       else case newPair of None \<Rightarrow> (Refused 500 ''keygen_failed'', r) | Some kp \<Rightarrow>
         (case UpdatePeer now (p\<lparr>p_PublicKey := kp_PublicKey kp, p_ClientPrivateKey := kp_PrivateKey kp,
              p_RxBytesOffset := 0, p_TxBytesOffset := 0, p_LastRxBytes := 0, p_LastTxBytes := 0\<rparr>) (r_store r) of
            (Inl _, _) \<Rightarrow> (Refused 500 ''update_failed'', r)
          | (Inr p1, st1) \<Rightarrow>
            (let r1 = audit now ''warn'' ''audit'' name (kp_PublicKey kp)
                   ''client key issued (rotated peer public key; old client config invalid)''
                   (''{'' @ quoted ''previous_public_key'' @ '':'' @ quoted (p_PublicKey p) @ ''}'') (r\<lparr>r_store := st1\<rparr>);
                 r2 = ForceReconcile en now r1
             in (Answer 200 \<lparr>ik_Peer = toAPIPeer en now r2 p1 True, ik_ClientPrivateKey = p_ClientPrivateKey p1,
                   ik_PreviousPublicKey = p_PublicKey p,
                   ik_Config = (case buildClientConfig (en_um en) name (p_PublicKey p1) (r_store r2) of
                     Inl _ \<Rightarrow> [] | Inr cfg \<Rightarrow> cfg),
                   ik_Rotated = True\<rparr>, r2))))))"

end
