(* ===== verification/MockBackend.thy ===== *)
theory MockBackend
  imports Contract
begin

text \<open>
  The in-memory backend (\<open>internal/wgbackend/mock_backend.go\<close>), operation by operation.  Go maps are
  association lists; the file \<open>ExportConf\<close> also writes is not modelled (it succeeds).
\<close>

record mock =
  m_Devices :: "(string \<times> Device) list"
  m_Hooks :: "string list"
  m_Exports :: "(string \<times> string) list"
  m_Bandwidth :: "(string \<times> (string \<times> DesiredPeer) list) list"
  m_RouteTables :: "(string \<times> string) list"
  m_RouteCounts :: "(string \<times> int) list"
  m_DNSApplied :: "(string \<times> DNSConfig) list"
  m_MuxMaps :: "MuxMap list"
  m_FailNext :: "backend_error option"

definition NewMock :: mock where
  "NewMock = \<lparr>m_Devices = [], m_Hooks = [], m_Exports = [], m_Bandwidth = [], m_RouteTables = [],
     m_RouteCounts = [], m_DNSApplied = [], m_MuxMaps = [], m_FailNext = None\<rparr>"

text \<open>\<open>if err := m.fail(); err != nil \{ return err \}\<close> before the rest of an operation.\<close>

definition failing :: "mock action \<Rightarrow> mock action" where
  "failing f m = (case m_FailNext m of Some e \<Rightarrow> (Some e, m\<lparr>m_FailNext := None\<rparr>) | None \<Rightarrow> f m)"

definition mock_Devices :: "mock \<Rightarrow> Device list" where
  "mock_Devices m = map snd (m_Devices m)"

definition mock_Device :: "string \<Rightarrow> mock \<Rightarrow> backend_error + Device" where
  "mock_Device n m = (case map_of (m_Devices m) n of None \<Rightarrow> Inl (DeviceNotFound n) | Some d \<Rightarrow> Inr d)"

definition new_device :: "string \<Rightarrow> Device" where
  "new_device n = \<lparr>d_Name = n, d_PublicKey = [], d_PrivateKey = [], d_ListenPort = 0, d_FirewallMark = 0,
     d_MTU = 0, d_Addresses = [], d_Peers = [], d_Up = False, d_Backend = [], d_Protocol = []\<rparr>"

definition resolved :: "DesiredInterface \<Rightarrow> string" where
  "resolved di = (if di_Backend di = [] \<or> di_Backend di = BackendAuto then
       (if di_Protocol di = ProtocolAWG \<or> \<not> IsZeroParams (di_Amnezia di) then BackendAmneziaKernel else BackendKernel)
     else di_Backend di)"

definition ensured :: "DesiredInterface \<Rightarrow> Device \<Rightarrow> Device" where
  "ensured di d = d\<lparr>
     d_PrivateKey := (if \<not> IsZeroKey (di_PrivateKey di) then di_PrivateKey di else d_PrivateKey d),
     d_ListenPort := (if di_ListenPort di > 0 then di_ListenPort di else d_ListenPort d),
     d_FirewallMark := (if di_FwMark di > 0 then di_FwMark di else d_FirewallMark d),
     d_MTU := (if di_MTU di > 0 then di_MTU di else d_MTU d),
     d_Addresses := (if di_Addresses di \<noteq> [] then di_Addresses di else d_Addresses d),
     d_Backend := resolved di,
     d_Protocol := (if di_Protocol di \<noteq> [] then di_Protocol di
       else if IsAmneziaBackend (resolved di) then ProtocolAWG else ProtocolWG),
     d_Up := di_Enabled di\<rparr>"

definition mock_EnsureInterface :: "DesiredInterface \<Rightarrow> mock action" where
  "mock_EnsureInterface di = failing (\<lambda>m.
     let d = (case map_of (m_Devices m) (di_Name di) of Some d \<Rightarrow> d | None \<Rightarrow> new_device (di_Name di))
     in (None, m\<lparr>m_Devices := AList.update (di_Name di) (ensured di d) (m_Devices m)\<rparr>))"

definition mock_RemoveInterface :: "string \<Rightarrow> mock action" where
  "mock_RemoveInterface n = failing (\<lambda>m. (None, m\<lparr>m_Devices := AList.delete n (m_Devices m)\<rparr>))"

definition mock_SetUp :: "string \<Rightarrow> bool \<Rightarrow> mock action" where
  "mock_SetUp n up = failing (\<lambda>m. case map_of (m_Devices m) n of
       None \<Rightarrow> (Some (DeviceNotFound n), m)
     | Some d \<Rightarrow> (None, m\<lparr>m_Devices := AList.update n (d\<lparr>d_Up := up\<rparr>) (m_Devices m)\<rparr>))"

text \<open>A peer applied again keeps its counters, its handshake and, if none is given, its endpoint.\<close>

definition applied_peer :: "live_peer list \<Rightarrow> DesiredPeer \<Rightarrow> live_peer" where
  "applied_peer prv p =
     (let np = \<lparr>lp_PublicKey = dp_PublicKey p, lp_PresharedKey = dp_PresharedKey p, lp_Endpoint = dp_Endpoint p,
            lp_AllowedIPs = (if dp_Suspended p then [] else dp_AllowedIPs p),
            lp_PersistentKeepaliveInterval = 0, lp_LastHandshakeTime = 0, lp_ReceiveBytes = 0, lp_TransmitBytes = 0\<rparr>
      in case find (\<lambda>q. lp_PublicKey q = dp_PublicKey p) (rev prv) of
           None \<Rightarrow> np
         | Some q \<Rightarrow> np\<lparr>lp_ReceiveBytes := lp_ReceiveBytes q, lp_TransmitBytes := lp_TransmitBytes q,
             lp_LastHandshakeTime := lp_LastHandshakeTime q,
             lp_Endpoint := (if dp_Endpoint p = [] then lp_Endpoint q else dp_Endpoint p)\<rparr>)"

definition mock_ApplyPeers :: "string \<Rightarrow> DesiredPeer list \<Rightarrow> mock action" where
  "mock_ApplyPeers n ps = failing (\<lambda>m. case map_of (m_Devices m) n of
       None \<Rightarrow> (Some (DeviceNotFound n), m)
     | Some d \<Rightarrow> (None, m\<lparr>m_Devices := AList.update n (d\<lparr>d_Peers := map (applied_peer (d_Peers d)) ps\<rparr>) (m_Devices m)\<rparr>))"

definition mock_ApplySuspendRoutes :: "string \<Rightarrow> DesiredPeer \<Rightarrow> bool \<Rightarrow> mock action" where
  "mock_ApplySuspendRoutes n p b m = (None, m)"

definition mock_SyncBandwidth :: "string \<Rightarrow> DesiredPeer list \<Rightarrow> mock action" where
  "mock_SyncBandwidth n ps m =
     (let cur = fold (\<lambda>p c. if dp_BandwidthRxBps p > 0 \<or> dp_BandwidthTxBps p > 0
            then AList.update (dp_PublicKey p) p c else c) ps []
      in (None, m\<lparr>m_Bandwidth := AList.update n cur (m_Bandwidth m)\<rparr>))"

definition mock_ApplyBandwidth :: "string \<Rightarrow> DesiredPeer \<Rightarrow> mock action" where
  "mock_ApplyBandwidth n p = mock_SyncBandwidth n [p]"

definition route_mode :: "DesiredInterface \<Rightarrow> string" where
  "route_mode di =
     (let mode0 = (if di_TableMode di = [] then ''auto'' else di_TableMode di);
          mode1 = (case di_TableID di of Some k \<Rightarrow> if mode0 = ''number'' then int_str k else mode0 | None \<Rightarrow> mode0)
      in if \<not> di_Enabled di then ''off'' else mode1)"

definition mock_SyncRoutes :: "DesiredInterface \<Rightarrow> mock action" where
  "mock_SyncRoutes di m =
     (let n = sum_list (map (\<lambda>p. int (length (dp_AllowedIPs p))) (filter (\<lambda>p. \<not> dp_Suspended p) (di_Peers di)))
      in (None, m\<lparr>m_RouteTables := AList.update (di_Name di) (route_mode di) (m_RouteTables m),
                  m_RouteCounts := AList.update (di_Name di) n (m_RouteCounts m)\<rparr>))"

definition mock_SyncDNS :: "DesiredInterface \<Rightarrow> mock action" where
  "mock_SyncDNS di m =
     (if \<not> di_Enabled di \<or> di_DNS di = [] then (None, m\<lparr>m_DNSApplied := AList.delete (di_Name di) (m_DNSApplied m)\<rparr>)
      else (None, m\<lparr>m_DNSApplied := AList.update (di_Name di) (ParseDNSList (di_DNS di)) (m_DNSApplied m)\<rparr>))"

definition mock_ExportConf :: "string \<Rightarrow> string \<Rightarrow> mock action" where
  "mock_ExportConf path content m = (None, m\<lparr>m_Exports := AList.update path content (m_Exports m)\<rparr>)"

definition mock_RunHook :: "string \<Rightarrow> mock action" where
  "mock_RunHook h m = (None, m\<lparr>m_Hooks := m_Hooks m @ [h]\<rparr>)"

definition mock_SyncMux :: "MuxMap list \<Rightarrow> mock action" where
  "mock_SyncMux maps m = (case ValidateMuxMaps maps of Some _ \<Rightarrow> (Some MuxInvalid, m)
     | None \<Rightarrow> (None, m\<lparr>m_MuxMaps := maps\<rparr>))"

text \<open>The counters of the first peer with the key are set.\<close>

fun set_traffic :: "string \<Rightarrow> int \<Rightarrow> int \<Rightarrow> live_peer list \<Rightarrow> live_peer list" where
  "set_traffic k rx tx [] = []"
| "set_traffic k rx tx (p # ps) =
     (if lp_PublicKey p = k then p\<lparr>lp_ReceiveBytes := rx, lp_TransmitBytes := tx\<rparr> # ps
      else p # set_traffic k rx tx ps)"

definition SetPeerTraffic :: "string \<Rightarrow> string \<Rightarrow> int \<Rightarrow> int \<Rightarrow> mock \<Rightarrow> mock" where
  "SetPeerTraffic n k rx tx m = (case map_of (m_Devices m) n of None \<Rightarrow> m
     | Some d \<Rightarrow> m\<lparr>m_Devices := AList.update n (d\<lparr>d_Peers := set_traffic k rx tx (d_Peers d)\<rparr>) (m_Devices m)\<rparr>)"

definition mock_ops :: "mock backend_ops" where
  "mock_ops = \<lparr>op_Devices = mock_Devices, op_Device = mock_Device,
     op_EnsureInterface = mock_EnsureInterface, op_RemoveInterface = mock_RemoveInterface,
     op_SetUp = mock_SetUp, op_ApplyPeers = mock_ApplyPeers,
     op_ApplySuspendRoutes = mock_ApplySuspendRoutes, op_SyncBandwidth = mock_SyncBandwidth,
     op_SyncRoutes = mock_SyncRoutes, op_SyncDNS = mock_SyncDNS, op_ExportConf = mock_ExportConf,
     op_RunHook = mock_RunHook, op_SyncMux = Some mock_SyncMux\<rparr>"

section \<open>The mock keeps the contract\<close>

definition mock_ok :: "mock \<Rightarrow> bool" where
  "mock_ok m \<longleftrightarrow> distinct (map fst (m_Devices m)) \<and> (\<forall>(k, d)\<in>set (m_Devices m). d_Name d = k)"

lemma mock_dev [simp]: "dev mock_ops n m = map_of (m_Devices m) n"
  by (simp add: dev_def mock_ops_def mock_Device_def split: option.split)

lemma mock_ok_update:
  "mock_ok m \<Longrightarrow> d_Name d = n \<Longrightarrow> mock_ok (m\<lparr>m_Devices := AList.update n d (m_Devices m)\<rparr>)"
proof -
  assume m: "mock_ok m" and d: "d_Name d = n"
  have "set (AList.update n d xs) \<subseteq> insert (n, d) (set xs)" for xs :: "(string \<times> Device) list"
    by (induction xs) auto
  with m d show ?thesis by (fastforce simp: mock_ok_def distinct_update)
qed

lemma mock_ok_delete: "mock_ok m \<Longrightarrow> mock_ok (m\<lparr>m_Devices := AList.delete n (m_Devices m)\<rparr>)"
  by (auto simp: mock_ok_def AList.delete_eq distinct_map_filter)

lemma mock_ok_name: "mock_ok m \<Longrightarrow> map_of (m_Devices m) n = Some d \<Longrightarrow> d_Name d = n"
  by (auto simp: mock_ok_def dest: map_of_SomeD)

lemma mock_ok_frame [simp]:
  "mock_ok (m\<lparr>m_FailNext := a\<rparr>) = mock_ok m" "mock_ok (m\<lparr>m_Hooks := b\<rparr>) = mock_ok m"
  "mock_ok (m\<lparr>m_Exports := c\<rparr>) = mock_ok m" "mock_ok (m\<lparr>m_Bandwidth := e\<rparr>) = mock_ok m"
  "mock_ok (m\<lparr>m_RouteTables := f, m_RouteCounts := g\<rparr>) = mock_ok m"
  "mock_ok (m\<lparr>m_DNSApplied := h\<rparr>) = mock_ok m" "mock_ok (m\<lparr>m_MuxMaps := i\<rparr>) = mock_ok m"
  by (simp_all add: mock_ok_def)

lemma ensured_name [simp]: "d_Name (ensured di d) = d_Name d" "d_Name (new_device n) = n"
  by (simp_all add: ensured_def new_device_def)

lemma applied_live [simp]:
  "lp_PublicKey (applied_peer prv p) = dp_PublicKey p"
  "lp_AllowedIPs (applied_peer prv p) = (if dp_Suspended p then [] else dp_AllowedIPs p)"
  by (simp_all add: applied_peer_def Let_def split: option.split)

lemmas mock_defs = mock_EnsureInterface_def mock_RemoveInterface_def mock_SetUp_def mock_ApplyPeers_def
  mock_ApplySuspendRoutes_def mock_SyncBandwidth_def mock_SyncRoutes_def mock_SyncDNS_def
  mock_ExportConf_def mock_RunHook_def mock_SyncMux_def failing_def Let_def

lemma mock_op_simps [simp]:
  "op_Devices mock_ops = mock_Devices" "op_Device mock_ops = mock_Device"
  "op_EnsureInterface mock_ops = mock_EnsureInterface" "op_RemoveInterface mock_ops = mock_RemoveInterface"
  "op_SetUp mock_ops = mock_SetUp" "op_ApplyPeers mock_ops = mock_ApplyPeers"
  "op_ApplySuspendRoutes mock_ops = mock_ApplySuspendRoutes" "op_SyncBandwidth mock_ops = mock_SyncBandwidth"
  "op_SyncRoutes mock_ops = mock_SyncRoutes" "op_SyncDNS mock_ops = mock_SyncDNS"
  "op_ExportConf mock_ops = mock_ExportConf" "op_RunHook mock_ops = mock_RunHook"
  "op_SyncMux mock_ops = Some mock_SyncMux"
  by (simp_all add: mock_ops_def)

lemma mock_devices_iff: "mock_ok m \<Longrightarrow> n \<in> d_Name ` set (mock_Devices m) \<longleftrightarrow> map_of (m_Devices m) n \<noteq> None"
proof -
  assume m: "mock_ok m"
  then have "d_Name ` set (mock_Devices m) = fst ` set (m_Devices m)"
    by (force simp: mock_ok_def mock_Devices_def)
  then show ?thesis by (metis domIff dom_map_of_conv_image_fst)
qed

interpretation mock: backend mock_ops mock_ok
  by unfold_locales
    (auto simp: mock_defs mock_devices_iff update_conv' delete_conv' live_peers_def
      intro!: mock_ok_update mock_ok_delete dest: mock_ok_name split: option.splits)

definition mock_healthy :: "mock \<Rightarrow> bool" where
  "mock_healthy m \<longleftrightarrow> m_FailNext m = None"

interpretation mock: healthy_backend mock_ops mock_ok mock_healthy
  by unfold_locales
    (auto simp: mock_defs mock_healthy_def update_conv' delete_conv' live_peers_def wanted_peers_def
      split: option.splits)

end
