(* ===== verification/ReconcilerLaws.thy ===== *)
theory ReconcilerLaws
  imports Reconciler MockBackend
begin

text \<open>
  What a pass of the reconciler does to the database: the columns an administrator sets are never
  written, the statistics columns only for peers of managed interfaces, and a peer becomes suspended
  exactly when its quota or its time is over.  Nothing here depends on the backend's behaviour.
\<close>

section \<open>How a pass changes the database\<close>

text \<open>
  The columns of a peer that a pass never writes; and the shape of every change it makes: the rows
  with keys in \<open>K\<close> may get new statistics, those with keys in \<open>S\<close> become suspended, nothing else.
\<close>

definition static :: "db_peer \<Rightarrow> db_peer" where
  "static p = p\<lparr>p_Suspended := False, p_FirstHandshakeAt := [], p_LastHandshakeAt := [],
     p_ConnectedSince := [], p_LastEndpoint := [], p_LastRxBytes := 0, p_LastTxBytes := 0,
     p_LastRxBps := 0, p_LastTxBps := 0, p_UpdatedAt := 0\<rparr>"

lemma static_fields:
  "static p = static q \<Longrightarrow> p_ID p = p_ID q \<and> p_InterfaceID p = p_InterfaceID q \<and> p_PublicKey p = p_PublicKey q
     \<and> p_AllowedIPs p = p_AllowedIPs q \<and> p_Name p = p_Name q \<and> p_InterfaceName p = p_InterfaceName q"
  unfolding static_def by (drule arg_cong [of _ _ "\<lambda>p. (p_ID p, p_InterfaceID p, p_PublicKey p, p_AllowedIPs p, p_Name p, p_InterfaceName p)"]) simp

definition row_map :: "int set \<Rightarrow> int set \<Rightarrow> (db_peer \<Rightarrow> db_peer) \<Rightarrow> bool" where
  "row_map K S g \<longleftrightarrow> (\<forall>p. static (g p) = static p \<and> (p_ID p \<notin> K \<longrightarrow> g p = p)
     \<and> p_Suspended (g p) = (p_Suspended p \<or> p_ID p \<in> S))"

definition evolves :: "int set \<Rightarrow> int set \<Rightarrow> store \<Rightarrow> store \<Rightarrow> bool" where
  "evolves K S st st' \<longleftrightarrow> s_ifaces st' = s_ifaces st \<and> s_peer_seq st' = s_peer_seq st
     \<and> (\<exists>g. row_map K S g \<and> s_peers st' = map g (s_peers st))"

lemma row_map_ID: "row_map K S g \<Longrightarrow> p_ID (g p) = p_ID p"
  using static_fields [of "g p" p] by (simp add: row_map_def)

lemma row_map_comp:
  assumes "row_map K S g" and "row_map K' S' h"
  shows "row_map (K \<union> K') (S \<union> S') (h \<circ> g)"
  using assms row_map_ID [OF assms(1)] by (auto simp: row_map_def)

lemma evolves_refl: "evolves {} {} st st"
  by (auto simp: evolves_def row_map_def intro!: exI [of _ id])

lemma evolves_trans: "evolves K S st st1 \<Longrightarrow> evolves K' S' st1 st2 \<Longrightarrow> evolves (K \<union> K') (S \<union> S') st st2"
  unfolding evolves_def using row_map_comp by (metis map_map)

lemma evolves_mono: "evolves K S st st' \<Longrightarrow> K \<subseteq> K' \<Longrightarrow> evolves K' S st st'"
  unfolding evolves_def row_map_def by blast

lemma evolves_peers_same:
  "s_ifaces st' = s_ifaces st \<Longrightarrow> s_peer_seq st' = s_peer_seq st \<Longrightarrow> s_peers st' = s_peers st \<Longrightarrow> evolves {} {} st st'"
  by (auto simp: evolves_def row_map_def intro!: exI [of _ id])

lemma evolves_upd:
  assumes "s_ifaces st' = s_ifaces st" "s_peer_seq st' = s_peer_seq st"
    and "s_peers st' = upd_where p_ID k f (s_peers st)"
    and "\<And>p. static (f p) = static p" and "\<And>p. p_Suspended (f p) = (p_Suspended p \<or> b)"
  shows "evolves {k} (if b then {k} else {}) st st'"
proof -
  let ?g = "\<lambda>r. if p_ID r = k then f r else r"
  have "row_map {k} (if b then {k} else {}) ?g" using assms(4,5) by (auto simp: row_map_def)
  then show ?thesis using assms(1,2,3) unfolding evolves_def upd_where_def by blast
qed

lemma evolves_suspend: "evolves {k} {k} st (snd (SetPeerSuspended now k True st))"
proof (cases "list_ex (\<lambda>r. p_ID r = k) (s_peers st)")
  case True
  then show ?thesis
    using evolves_upd [of "snd (SetPeerSuspended now k True st)" st k "\<lambda>r. r\<lparr>p_Suspended := True, p_UpdatedAt := now\<rparr>" True]
    by (simp add: SetPeerSuspended_def static_def)
next
  case False
  then have "upd_where p_ID k (\<lambda>r. r\<lparr>p_Suspended := True\<rparr>) (s_peers st) = s_peers st"
    by (auto simp: upd_where_def list_ex_iff intro: map_idI)
  with False show ?thesis
    using evolves_upd [of st st k "\<lambda>r. r\<lparr>p_Suspended := True\<rparr>" True]
    by (simp add: SetPeerSuspended_def static_def)
qed

lemma evolves_stats: "evolves {p_ID p} {} st (UpdatePeerStats now p st)"
  using evolves_upd [of "UpdatePeerStats now p st" st "p_ID p" "update_stats_row now p" False]
  by (simp add: UpdatePeerStats_def static_def update_stats_row_def)

lemma evolves_event: "evolves {} {} st (AddEvent now l k n pub m me st)"
  by (rule evolves_peers_same) (simp_all add: AddEvent_def Let_def)

lemma evolves_samples: "evolves {} {} st (InsertSamples ss st)"
  by (rule evolves_peers_same) (simp_all add: InsertSamples_frame)

text \<open>The automatic suspension of the peers of an interface.\<close>

definition due :: "gotime \<Rightarrow> db_peer list \<Rightarrow> int set" where
  "due now ps = p_ID ` {p \<in> set ps. ShouldAutoSuspendAt p now}"

definition enforced :: "gotime \<Rightarrow> db_peer \<Rightarrow> db_peer" where
  "enforced now p = (if ShouldAutoSuspendAt p now then p\<lparr>p_Suspended := True\<rparr> else p)"

lemma suspend_peer_fst: "fst (suspend_peer now n p st) = enforced now p"
  using AutoSuspendReason_iff [of p now]
  by (auto simp: suspend_peer_def enforced_def Let_def split: prod.splits)

lemma suspend_peer_snd:
  "db_ok st \<Longrightarrow> db_ok (snd (suspend_peer now n p st))
    \<and> evolves {p_ID p} (due now [p]) st (snd (suspend_peer now n p st))
    \<and> s_samples (snd (suspend_peer now n p st)) = s_samples st"
proof (cases "AutoSuspendReason p now = []")
  case True
  then have "due now [p] = {}" using AutoSuspendReason_iff [of p now] by (auto simp: due_def)
  with True show "db_ok st \<Longrightarrow> ?thesis"
    using evolves_mono [OF evolves_refl, of "{p_ID p}" st] by (simp add: suspend_peer_def)
next
  case False
  then have d: "due now [p] = {p_ID p}" using AutoSuspendReason_iff [of p now] by (auto simp: due_def)
  have "evolves ({p_ID p} \<union> {}) ({p_ID p} \<union> {}) st (snd (suspend_peer now n p st))"
    using False evolves_trans [OF evolves_suspend evolves_event]
    by (auto simp: suspend_peer_def Let_def split: prod.splits)
  moreover assume "db_ok st"
  then have "db_ok (snd (suspend_peer now n p st))"
    using False by (auto simp: suspend_peer_def Let_def SetPeerSuspended_ok AddEvent_ok split: prod.splits)
  ultimately show ?thesis using False d
    by (auto simp: suspend_peer_def Let_def AddEvent_def SetPeerSuspended_def split: prod.splits)
qed

lemma auto_suspend_spec:
  "db_ok st \<Longrightarrow> fst (auto_suspend now n ps st) = map (enforced now) ps
    \<and> db_ok (snd (auto_suspend now n ps st))
    \<and> evolves (p_ID ` set ps) (due now ps) st (snd (auto_suspend now n ps st))
    \<and> s_samples (snd (auto_suspend now n ps st)) = s_samples st"
proof (induction ps arbitrary: st)
  case Nil
  then show ?case using evolves_refl by (simp add: due_def)
next
  case (Cons p ps)
  let ?st1 = "snd (suspend_peer now n p st)"
  note 1 = suspend_peer_snd [OF Cons.prems, of now n p]
  note 2 = Cons.IH [OF conjunct1 [OF 1]]
  have "evolves ({p_ID p} \<union> p_ID ` set ps) (due now [p] \<union> due now ps) st (snd (auto_suspend now n ps ?st1))"
    using 1 2 evolves_trans by blast
  moreover have "due now [p] \<union> due now ps = due now (p # ps)" by (auto simp: due_def)
  ultimately show ?case using 1 2 suspend_peer_fst [of now n p st]
    by (simp add: Let_def split: prod.splits) (metis fst_conv snd_conv)
qed

text \<open>Sampling: the backend and the hook state are not touched, the rows only get statistics.\<close>

lemma handshake_ID [simp]: "p_ID (fst (handshake cfg now hs p)) = p_ID p"
  by (simp add: handshake_def Let_def)

lemma conn_event_ok: "db_ok st \<Longrightarrow> db_ok (conn_event now n pub was c st)"
  by (auto simp: conn_event_def AddEvent_ok split: option.splits)

lemma conn_event_evolves: "evolves {} {} st (conn_event now n pub was c st)"
  by (auto simp: conn_event_def evolves_event evolves_refl split: option.splits)

lemma sample_peer_spec:
  assumes "sample_peer cfg now n live p (r, pend, t) = (r', pend', t')"
  shows "r_backend r' = r_backend r" and "r_hookState r' = r_hookState r"
    and "db_ok (r_store r) \<Longrightarrow> db_ok (r_store r')" and "evolves {p_ID p} {} (r_store r) (r_store r')"
    and "map ts_PeerID pend' = map ts_PeerID pend @ [p_ID p]"
proof -
  define lp where "lp = find (\<lambda>q. lp_PublicKey q = p_PublicKey p) (rev live)"
  define hs where "hs = (case lp of Some q \<Rightarrow> lp_LastHandshakeTime q | None \<Rightarrow> 0)"
  obtain p1 q c was where h: "handshake cfg now hs p1 = (q, c)" "p_ID p1 = p_ID p"
    and st: "r_store r' = UpdatePeerStats now q (conn_event now n (p_PublicKey q) was c (r_store r))"
    and rest: "r_backend r' = r_backend r" "r_hookState r' = r_hookState r"
    "pend' = pend @ [\<lparr>ts_ID = 0, ts_PeerID = p_ID q, ts_SampledAt = now, ts_RxBytes = EffectiveRx q,
        ts_TxBytes = EffectiveTx q, ts_RxBps = ts_RxBps (last pend'), ts_TxBps = ts_TxBps (last pend')\<rparr>]"
    using assms unfolding sample_peer_def Let_def hs_def lp_def
    by (simp split: prod.splits) fastforce
  have q: "p_ID q = p_ID p" using handshake_ID [of cfg now hs p1] h by simp
  show "r_backend r' = r_backend r" "r_hookState r' = r_hookState r"
    using rest by simp_all
  show "map ts_PeerID pend' = map ts_PeerID pend @ [p_ID p]" using arg_cong [OF rest(3), of "map ts_PeerID"] q by simp
  show "db_ok (r_store r')" if "db_ok (r_store r)" using that by (simp add: st UpdatePeerStats_ok conn_event_ok)
  have "evolves ({} \<union> {p_ID q}) ({} \<union> {}) (r_store r) (r_store r')"
    unfolding st by (rule evolves_trans [OF conn_event_evolves evolves_stats])
  then show "evolves {p_ID p} {} (r_store r) (r_store r')" using q by simp
qed

lemma sample_fold_spec:
  "fold (sample_peer cfg now n live) ps (r, pend, t) = (r', pend', t') \<Longrightarrow>
    r_backend r' = r_backend r \<and> r_hookState r' = r_hookState r
    \<and> (db_ok (r_store r) \<longrightarrow> db_ok (r_store r')) \<and> evolves (p_ID ` set ps) {} (r_store r) (r_store r')
    \<and> map ts_PeerID pend' = map ts_PeerID pend @ map p_ID ps"
proof (induction ps arbitrary: r pend t)
  case Nil
  then show ?case by (simp add: evolves_refl)
next
  case (Cons p ps)
  obtain r1 pend1 t1 where 1: "sample_peer cfg now n live p (r, pend, t) = (r1, pend1, t1)"
    using prod_cases3 by blast
  note s = sample_peer_spec [OF 1]
  from Cons.IH [of r1 pend1 t1] Cons.prems 1
  have i: "r_backend r' = r_backend r1" "r_hookState r' = r_hookState r1"
    "db_ok (r_store r1) \<longrightarrow> db_ok (r_store r')" "evolves (p_ID ` set ps) {} (r_store r1) (r_store r')"
    "map ts_PeerID pend' = map ts_PeerID pend1 @ map p_ID ps" by simp_all
  have "evolves ({p_ID p} \<union> p_ID ` set ps) ({} \<union> {}) (r_store r) (r_store r')"
    by (rule evolves_trans [OF s(4) i(4)])
  with s i show ?case by simp
qed

lemma sampleInterface_spec:
  assumes "db_ok (r_store r)" and "\<forall>p\<in>set ps. p_ID p \<le> s_peer_seq (r_store r)"
  shows "r_backend (sampleInterface ops cfg now i ps r) = r_backend r"
    and "r_hookState (sampleInterface ops cfg now i ps r) = r_hookState r"
    and "db_ok (r_store (sampleInterface ops cfg now i ps r))"
    and "evolves (p_ID ` set ps) {} (r_store r) (r_store (sampleInterface ops cfg now i ps r))"
proof -
  have "r_backend (sampleInterface ops cfg now i ps r) = r_backend r
    \<and> r_hookState (sampleInterface ops cfg now i ps r) = r_hookState r
    \<and> db_ok (r_store (sampleInterface ops cfg now i ps r))
    \<and> evolves (p_ID ` set ps) {} (r_store r) (r_store (sampleInterface ops cfg now i ps r))"
  proof (cases "op_Device ops (i_Name i) (r_backend r)")
    case (Inl e)
    then show ?thesis using assms evolves_mono [OF evolves_refl] by (simp add: sampleInterface_def)
  next
    case (Inr d)
    let ?t = "\<lparr>to_rx = 0, to_tx = 0, to_rxBps = 0, to_txBps = 0\<rparr> :: totals"
    obtain r1 pend t1 where f: "fold (sample_peer cfg now (i_Name i) (d_Peers d)) ps (r, [], ?t) = (r1, pend, t1)"
      using prod_cases3 by blast
    note s = sample_fold_spec [OF f]
    have im: "ts_PeerID ` set pend = p_ID ` set ps" using s by (metis append_Nil list.set_map list.simps(8))
    have sq: "s_peer_seq (r_store r1) = s_peer_seq (r_store r)" using s by (auto simp: evolves_def)
    have "\<forall>x\<in>set pend. ts_PeerID x \<le> s_peer_seq (r_store r1)"
    proof
      fix x
      assume "x \<in> set pend"
      then have "ts_PeerID x \<in> p_ID ` set ps" by (simp flip: im)
      with assms(2) sq show "ts_PeerID x \<le> s_peer_seq (r_store r1)" by auto
    qed
    then have "db_ok (InsertSamples pend (r_store r1))" using s assms(1) InsertSamples_ok by blast
    moreover have "evolves (p_ID ` set ps \<union> {}) ({} \<union> {}) (r_store r) (InsertSamples pend (r_store r1))"
      using s by (intro evolves_trans [OF _ evolves_samples]) blast
    ultimately show ?thesis using Inr f s by (simp add: sampleInterface_def)
  qed
  then show "r_backend (sampleInterface ops cfg now i ps r) = r_backend r"
    "r_hookState (sampleInterface ops cfg now i ps r) = r_hookState r"
    "db_ok (r_store (sampleInterface ops cfg now i ps r))"
    "evolves (p_ID ` set ps) {} (r_store r) (r_store (sampleInterface ops cfg now i ps r))" by blast+
qed

lemma edge_event_ok: "db_ok st \<Longrightarrow> db_ok (edge_event now n prev b st)"
  by (auto simp: edge_event_def AddEvent_ok split: option.splits)

lemma edge_event_evolves: "evolves {} {} st (edge_event now n prev b st)"
  by (auto simp: edge_event_def evolves_event evolves_refl split: option.splits)

lemma peer_row_bound: "db_ok st \<Longrightarrow> p \<in> set (ListPeersByInterface n st) \<Longrightarrow> p_ID p \<le> s_peer_seq st"
  by (auto simp: set_ListPeers join_peers_map db_ok_def table_ok_def)

text \<open>
  The state in which the device of an interface has been configured (after \<open>EnsureInterface\<close> and
  what follows it), as a function of the state the step began in.
\<close>

lemma step_iface_unfold:
  fixes r :: "'w rstate" and i now um
  assumes "db_ok (r_store r)" and "\<not> ReservedHostInterface (i_Name i)"
  defines "n \<equiv> i_Name i" and "ps \<equiv> ListPeersByInterface (i_Name i) (r_store r)"
  defines "dps \<equiv> map (desired_peer \<circ> enforced now) ps"
  defines "di \<equiv> desired_iface um i dps"
  obtains st2 h1 h2 h3 h4 where "db_ok st2" "evolves (p_ID ` set ps) (due now ps) (r_store r) st2"
    "step_iface ops um cfg now i r =
      (let w2 = run_hook ops h2 (i_PreDown i) (run_hook ops h1 (i_PreUp i) (r_backend r)) in
       case op_EnsureInterface ops di w2 of
         (Some _, w3) \<Rightarrow> r\<lparr>r_store := st2, r_backend := w3\<rparr>
       | (None, w3) \<Rightarrow>
         (let w6 = run_hook ops h4 (i_PostDown i) (run_hook ops h3 (i_PostUp i) (apply_device ops i di dps w3));
              w7 = (if exports cfg i then snd (exportConf ops cfg i (map (enforced now) ps) w6) else w6)
          in sampleInterface ops cfg now i (map (enforced now) ps)
               (r\<lparr>r_store := st2, r_backend := w7, r_hookState := AList.update n (i_Enabled i) (r_hookState r)\<rparr>)))"
proof -
  obtain st1 where a: "auto_suspend now n ps (r_store r) = (map (enforced now) ps, st1)"
    using auto_suspend_spec [OF assms(1), of now n ps] by (metis prod.collapse)
  from auto_suspend_spec [OF assms(1), of now n ps] a
  have s: "db_ok st1" "evolves (p_ID ` set ps) (due now ps) (r_store r) st1" by simp_all
  let ?prev = "map_of (r_hookState r) n"
  let ?st2 = "edge_event now n ?prev (i_Enabled i) st1"
  have "evolves (p_ID ` set ps \<union> {}) (due now ps \<union> {}) (r_store r) ?st2"
    by (rule evolves_trans [OF s(2) edge_event_evolves])
  then have e: "evolves (p_ID ` set ps) (due now ps) (r_store r) ?st2" by simp
  let ?up = "rc_AllowHooks cfg \<and> i_Enabled i \<and> ?prev \<noteq> Some True"
  let ?down = "rc_AllowHooks cfg \<and> \<not> i_Enabled i \<and> ?prev = Some True"
  show thesis
    by (rule that [of ?st2 ?down ?up ?down ?up, OF edge_event_ok [OF s(1)] e])
      (use assms(2) a in \<open>simp add: step_iface_def n_def ps_def dps_def di_def Let_def conj_assoc
        split: prod.splits option.splits\<close>)
qed

lemma enforced_ID [simp]: "p_ID (enforced now p) = p_ID p" "p_PublicKey (enforced now p) = p_PublicKey p"
  "p_AllowedIPs (enforced now p) = p_AllowedIPs p"
  "p_Suspended (enforced now p) = (p_Suspended p \<or> ShouldAutoSuspendAt p now)"
  by (simp_all add: enforced_def)

text \<open>The keys of the rows a step may write, and of those it suspends.\<close>

definition touched :: "db_interface \<Rightarrow> store \<Rightarrow> int set" where
  "touched i st = (if ReservedHostInterface (i_Name i) then {} else p_ID ` set (peers_of (i_Name i) st))"

definition cut_off :: "gotime \<Rightarrow> db_interface \<Rightarrow> store \<Rightarrow> int set" where
  "cut_off now i st = (if ReservedHostInterface (i_Name i) then {} else due now (peers_of (i_Name i) st))"

lemma set_List_peers_of: "set (ListPeersByInterface n st) = set (peers_of n st)"
  by (simp add: set_ListPeers peers_of_def)

lemma due_set_cong: "set ps = set qs \<Longrightarrow> due now ps = due now qs"
  by (simp add: due_def)

lemma step_store:
  assumes ok: "db_ok (r_store r)"
  shows "db_ok (r_store (step_iface ops um cfg now i r))"
    and "evolves (touched i (r_store r)) (cut_off now i (r_store r)) (r_store r) (r_store (step_iface ops um cfg now i r))"
proof -
  have "db_ok (r_store (step_iface ops um cfg now i r)) \<and>
    evolves (touched i (r_store r)) (cut_off now i (r_store r)) (r_store r) (r_store (step_iface ops um cfg now i r))"
  proof (cases "ReservedHostInterface (i_Name i)")
    case True
    then show ?thesis using ok evolves_refl by (simp add: step_iface_def touched_def cut_off_def)
  next
    case False
    let ?ps = "ListPeersByInterface (i_Name i) (r_store r)"
    have K: "touched i (r_store r) = p_ID ` set ?ps" "cut_off now i (r_store r) = due now ?ps"
      using False due_set_cong [OF set_List_peers_of] by (simp_all add: touched_def cut_off_def set_List_peers_of)
    obtain st2 h1 h2 h3 h4 where st2: "db_ok st2" "evolves (p_ID ` set ?ps) (due now ?ps) (r_store r) st2"
      and step: "step_iface ops um cfg now i r =
      (let w2 = run_hook ops h2 (i_PreDown i) (run_hook ops h1 (i_PreUp i) (r_backend r));
           dps = map (desired_peer \<circ> enforced now) ?ps; di = desired_iface um i dps in
       case op_EnsureInterface ops di w2 of
         (Some _, w3) \<Rightarrow> r\<lparr>r_store := st2, r_backend := w3\<rparr>
       | (None, w3) \<Rightarrow>
         (let w6 = run_hook ops h4 (i_PostDown i) (run_hook ops h3 (i_PostUp i) (apply_device ops i di dps w3));
              w7 = (if exports cfg i then snd (exportConf ops cfg i (map (enforced now) ?ps) w6) else w6)
          in sampleInterface ops cfg now i (map (enforced now) ?ps)
               (r\<lparr>r_store := st2, r_backend := w7, r_hookState := AList.update (i_Name i) (i_Enabled i) (r_hookState r)\<rparr>)))"
      by (rule step_iface_unfold [OF ok False, of now ops um cfg]) (simp add: Let_def)
    have sq: "s_peer_seq st2 = s_peer_seq (r_store r)" using st2(2) by (simp add: evolves_def)
    have b: "\<forall>p\<in>set (map (enforced now) ?ps). p_ID p \<le> s_peer_seq st2"
      using peer_row_bound [OF ok] sq by auto
    have im: "p_ID ` set (map (enforced now) ?ps) = p_ID ` set ?ps" by (simp add: image_image)
    have sam: "db_ok (r_store (sampleInterface ops cfg now i (map (enforced now) ?ps) r'))
        \<and> evolves (p_ID ` set ?ps) (due now ?ps) (r_store r) (r_store (sampleInterface ops cfg now i (map (enforced now) ?ps) r'))"
      if "r_store r' = st2" for r' :: "'a rstate"
    proof -
      note s = sampleInterface_spec [of r' "map (enforced now) ?ps", unfolded that, OF st2(1) b, of ops cfg now i]
      have "evolves (p_ID ` set ?ps \<union> p_ID ` set ?ps) (due now ?ps \<union> {}) (r_store r)
          (r_store (sampleInterface ops cfg now i (map (enforced now) ?ps) r'))"
        using evolves_trans [OF st2(2) s(4)] unfolding im .
      with s(3) show ?thesis by simp
    qed
    show ?thesis unfolding K step Let_def
      using st2 sam by (auto split: prod.splits option.splits)
  qed
  then show "db_ok (r_store (step_iface ops um cfg now i r))"
    "evolves (touched i (r_store r)) (cut_off now i (r_store r)) (r_store r) (r_store (step_iface ops um cfg now i r))"
    by blast+
qed

text \<open>What a change that touches other rows only leaves alone.\<close>

lemma join_evolves:
  assumes "db_ok st" "db_ok st'" "evolves K S st st'"
  obtains g where "join_peers st' = map g (join_peers st)"
    "\<And>p. p \<in> set (join_peers st) \<Longrightarrow> static (g p) = static p \<and> (p_ID p \<notin> K \<longrightarrow> g p = p)
       \<and> p_Suspended (g p) = (p_Suspended p \<or> p_ID p \<in> S)"
proof -
  from assms(3) obtain g where g: "row_map K S g" "s_peers st' = map g (s_peers st)" "s_ifaces st' = s_ifaces st"
    by (auto simp: evolves_def)
  let ?N = "\<lambda>p. p\<lparr>p_InterfaceName := the (iface_name_of st (p_InterfaceID p))\<rparr>"
  have nm: "iface_name_of st' = iface_name_of st" using g(3) by (simp add: iface_name_of_def fun_eq_iff)
  have gi: "p_InterfaceID (g p) = p_InterfaceID p" for p
    using g(1) static_fields [of "g p" p] by (simp add: row_map_def)
  have inj: "inj_on ?N (set (s_peers st))"
  proof (rule inj_onI)
    fix p q
    assume pq: "p \<in> set (s_peers st)" "q \<in> set (s_peers st)" "?N p = ?N q"
    then have "p_ID p = p_ID q" by (metis db_peer.select_convs(1) db_peer.surjective db_peer.update_convs(3))
    moreover have "distinct (map p_ID (s_peers st))" using assms(1) by (auto simp: db_ok_def intro: table_ok_distinct)
    ultimately show "p = q" using pq key_unique by metis
  qed
  define h where "h = (\<lambda>p. ?N (g (the_inv_into (set (s_peers st)) ?N p)))"
  have hN: "h (?N p) = ?N (g p)" if "p \<in> set (s_peers st)" for p
    by (simp add: h_def the_inv_into_f_f [OF inj that])
  have "join_peers st' = map h (join_peers st)"
    unfolding join_peers_map [OF assms(1)] join_peers_map [OF assms(2)] g(2) nm using hN by (simp add: gi)
  moreover have "static (h p) = static p \<and> (p_ID p \<notin> K \<longrightarrow> h p = p) \<and> p_Suspended (h p) = (p_Suspended p \<or> p_ID p \<in> S)"
    if p: "p \<in> set (join_peers st)" for p
  proof -
    from p obtain q where q: "q \<in> set (s_peers st)" "p = ?N q" by (auto simp: join_peers_map [OF assms(1)])
    have sg: "static (g q) = static q" "p_ID q \<notin> K \<longrightarrow> g q = q" "p_Suspended (g q) = (p_Suspended q \<or> p_ID q \<in> S)"
      using g(1) by (auto simp: row_map_def)
    have "static (?N (g q)) = (static (g q))\<lparr>p_InterfaceName := the (iface_name_of st (p_InterfaceID (g q)))\<rparr>"
      by (simp add: static_def)
    also have "\<dots> = static (?N q)" by (simp add: sg(1) gi) (simp add: static_def)
    finally show ?thesis using hN [OF q(1)] q(2) sg by simp
  qed
  ultimately show thesis by (rule that)
qed

lemma peers_of_frame:
  assumes "db_ok st" "db_ok st'" "evolves K S st st'" "p_ID ` set (peers_of n st) \<inter> K = {}"
  shows "peers_of n st' = peers_of n st"
proof -
  obtain g where j: "join_peers st' = map g (join_peers st)"
    and g: "\<And>p. p \<in> set (join_peers st) \<Longrightarrow> static (g p) = static p \<and> (p_ID p \<notin> K \<longrightarrow> g p = p)
       \<and> p_Suspended (g p) = (p_Suspended p \<or> p_ID p \<in> S)"
    using join_evolves [OF assms(1,2,3)] by blast
  have "filter (\<lambda>p. p_InterfaceName p = n) (map g xs) = filter (\<lambda>p. p_InterfaceName p = n) xs"
    if "set xs \<subseteq> set (join_peers st)" for xs
    using that
  proof (induction xs)
    case (Cons x xs)
    have n: "p_InterfaceName (g x) = p_InterfaceName x" using g [of x] static_fields [of "g x" x] Cons.prems by simp
    have "g x = x" if "p_InterfaceName x = n"
      using g [of x] that Cons.prems assms(4) by (auto simp: peers_of_def)
    with n Cons show ?case by auto
  qed simp
  then show ?thesis by (simp add: peers_of_def j)
qed

lemma join_distinct: "db_ok st \<Longrightarrow> distinct (map p_ID (join_peers st))"
  by (simp add: join_peers_map comp_def) (auto simp: db_ok_def dest: table_ok_distinct)

lemma touched_disjoint:
  assumes "db_ok st" "i_Name i \<noteq> n"
  shows "p_ID ` set (peers_of n st) \<inter> touched i st = {}"
proof (rule ccontr)
  assume "\<not> ?thesis"
  then obtain p q where pq: "p \<in> set (peers_of n st)" "q \<in> set (peers_of (i_Name i) st)" "p_ID p = p_ID q"
    by (auto simp: touched_def split: if_splits)
  then have "p = q" using key_unique [OF join_distinct [OF assms(1)]] by (auto simp: peers_of_def)
  with pq assms(2) show False by (simp add: peers_of_def)
qed

lemma steps_store:
  assumes "db_ok (r_store r)" and "distinct (map i_Name ifs)"
  shows "db_ok (r_store (fold (step_iface ops um cfg now) ifs r))"
    and "evolves (\<Union>i\<in>set ifs. touched i (r_store r)) (\<Union>i\<in>set ifs. cut_off now i (r_store r))
      (r_store r) (r_store (fold (step_iface ops um cfg now) ifs r))"
    and "n \<notin> set (map i_Name ifs) \<Longrightarrow> peers_of n (r_store (fold (step_iface ops um cfg now) ifs r)) = peers_of n (r_store r)"
proof -
  have "db_ok (r_store (fold (step_iface ops um cfg now) ifs r))
    \<and> evolves (\<Union>i\<in>set ifs. touched i (r_store r)) (\<Union>i\<in>set ifs. cut_off now i (r_store r))
      (r_store r) (r_store (fold (step_iface ops um cfg now) ifs r))
    \<and> (n \<notin> set (map i_Name ifs) \<longrightarrow> peers_of n (r_store (fold (step_iface ops um cfg now) ifs r)) = peers_of n (r_store r))"
    using assms
  proof (induction ifs arbitrary: r)
    case Nil
    then show ?case by (simp add: evolves_refl)
  next
    case (Cons i ifs)
    let ?r1 = "step_iface ops um cfg now i r"
    note s = step_store [OF Cons.prems(1), where ops = ops and um = um and cfg = cfg and now = now and i = i]
    have fr: "peers_of m (r_store ?r1) = peers_of m (r_store r)" if "m \<noteq> i_Name i" for m
      using peers_of_frame [OF Cons.prems(1) s] touched_disjoint [OF Cons.prems(1)] that by metis
    have d: "distinct (map i_Name ifs)" "\<forall>j\<in>set ifs. i_Name j \<noteq> i_Name i"
      using Cons.prems(2) by (simp_all, metis image_eqI)
    have eq: "touched j (r_store ?r1) = touched j (r_store r)" "cut_off now j (r_store ?r1) = cut_off now j (r_store r)"
      if "j \<in> set ifs" for j using fr d(2) that by (simp_all add: touched_def cut_off_def)
    note i = Cons.IH [OF s(1) d(1)]
    have e: "evolves (\<Union>j\<in>set ifs. touched j (r_store r)) (\<Union>j\<in>set ifs. cut_off now j (r_store r))
      (r_store ?r1) (r_store (fold (step_iface ops um cfg now) (i # ifs) r))" using i eq by simp
    have "evolves (touched i (r_store r) \<union> (\<Union>j\<in>set ifs. touched j (r_store r)))
       (cut_off now i (r_store r) \<union> (\<Union>j\<in>set ifs. cut_off now j (r_store r)))
       (r_store r) (r_store (fold (step_iface ops um cfg now) (i # ifs) r))"
      by (rule evolves_trans [OF s(2) e])
    then show ?case using i fr by simp
  qed
  then show "db_ok (r_store (fold (step_iface ops um cfg now) ifs r))"
    "evolves (\<Union>i\<in>set ifs. touched i (r_store r)) (\<Union>i\<in>set ifs. cut_off now i (r_store r))
      (r_store r) (r_store (fold (step_iface ops um cfg now) ifs r))"
    "n \<notin> set (map i_Name ifs) \<Longrightarrow> peers_of n (r_store (fold (step_iface ops um cfg now) ifs r)) = peers_of n (r_store r)"
    by blast+
qed

lemma ListInterfaces_names:
  assumes "db_ok st"
  shows "distinct (map i_Name (ListInterfaces st))" and "i_Name ` set (ListInterfaces st) = i_Name ` set (s_ifaces st)"
proof -
  have n: "i_Name (scanInterface i) = i_Name i" for i by (simp add: scanInterface_def)
  have "mset (map i_Name (sort_key i_Name (s_ifaces st))) = mset (map i_Name (s_ifaces st))" by simp
  then have "distinct (map i_Name (sort_key i_Name (s_ifaces st)))"
    using assms mset_eq_imp_distinct_iff unfolding db_ok_def by blast
  then show "distinct (map i_Name (ListInterfaces st))" by (simp add: ListInterfaces_def comp_def n)
  show "i_Name ` set (ListInterfaces st) = i_Name ` set (s_ifaces st)"
    by (simp add: ListInterfaces_def image_image n)
qed

lemma run_store_eq:
  "r_store (run ops um cfg now r) = snd (PurgeEvents now eventRetention (snd (PurgeSamples now (rc_SampleRetention cfg)
     (r_store (fold (step_iface ops um cfg now) (ListInterfaces (r_store r)) r)))))"
  by (simp add: run_def Let_def)

lemma run_store_ok:
  assumes "db_ok (r_store r)"
  shows "db_ok (r_store (run ops um cfg now r))"
    and "join_peers (r_store (run ops um cfg now r))
      = join_peers (r_store (fold (step_iface ops um cfg now) (ListInterfaces (r_store r)) r))"
    and "s_ifaces (r_store (run ops um cfg now r)) = s_ifaces (r_store r)"
proof -
  let ?st = "r_store (fold (step_iface ops um cfg now) (ListInterfaces (r_store r)) r)"
  note s = steps_store [OF assms ListInterfaces_names(1) [OF assms], where ops = ops and um = um and cfg = cfg and now = now]
  show "db_ok (r_store (run ops um cfg now r))" using s(1) by (simp add: run_store_eq PurgeSamples_ok PurgeEvents_ok)
  have "join_peers (snd (PurgeEvents now a (snd (PurgeSamples now b st)))) = join_peers st" for a b st
    by (simp add: join_peers_def PurgeEvents_eq PurgeSamples_eq iface_name_of_def)
  then show "join_peers (r_store (run ops um cfg now r)) = join_peers ?st" by (simp add: run_store_eq)
  show "s_ifaces (r_store (run ops um cfg now r)) = s_ifaces (r_store r)"
    using s(2) by (simp add: run_store_eq PurgeEvents_eq PurgeSamples_eq evolves_def)
qed

text \<open>The rows after a pass: statistics aside, the same, and suspended where enforcement says so.\<close>

lemma run_rows:
  assumes ok: "db_ok (r_store r)"
  obtains g where "join_peers (r_store (run ops um cfg now r)) = map g (join_peers (r_store r))"
    "\<And>p. p \<in> set (join_peers (r_store r)) \<Longrightarrow> static (g p) = static p
      \<and> p_Suspended (g p) = (p_Suspended p \<or> \<not> ReservedHostInterface (p_InterfaceName p) \<and> ShouldAutoSuspendAt p now)"
proof -
  let ?st = "r_store r" and ?ifs = "ListInterfaces (r_store r)"
  note s = steps_store [OF ok ListInterfaces_names(1) [OF ok], where ops = ops and um = um and cfg = cfg and now = now]
  obtain g where j: "join_peers (r_store (run ops um cfg now r)) = map g (join_peers ?st)"
    and g: "\<And>p. p \<in> set (join_peers ?st) \<Longrightarrow> static (g p) = static p
       \<and> p_Suspended (g p) = (p_Suspended p \<or> p_ID p \<in> (\<Union>i\<in>set ?ifs. cut_off now i ?st))"
    using join_evolves [OF ok s(1) s(2)] run_store_ok(2) [OF ok, where ops = ops and um = um and cfg = cfg and now = now]
    by (metis (no_types, lifting))
  have cut: "p_ID p \<in> (\<Union>i\<in>set ?ifs. cut_off now i ?st) \<longleftrightarrow>
      \<not> ReservedHostInterface (p_InterfaceName p) \<and> ShouldAutoSuspendAt p now"
    if p: "p \<in> set (join_peers ?st)" for p
  proof -
    have own: "q = p" if "q \<in> set (join_peers ?st)" "p_ID q = p_ID p" for q
      using key_unique [OF join_distinct [OF ok] that(1) p that(2)] .
    have ex: "\<exists>i\<in>set ?ifs. i_Name i = p_InterfaceName p"
    proof -
      from p obtain q where q: "q \<in> set (s_peers ?st)"
        "p_InterfaceName p = the (iface_name_of ?st (p_InterfaceID q))" by (auto simp: join_peers_map [OF ok])
      from ok q(1) obtain i where i: "i \<in> set (s_ifaces ?st)" "i_ID i = p_InterfaceID q" by (force simp: db_ok_def)
      then have "iface_name_of ?st (p_InterfaceID q) = Some (i_Name i)" by (auto simp: iface_name_of_iff [OF ok])
      then have "p_InterfaceName p \<in> i_Name ` set ?ifs" using i q by (simp add: ListInterfaces_names(2) [OF ok])
      then show ?thesis by force
    qed
    have due: "p_ID p \<in> due now (peers_of n ?st) \<longleftrightarrow> n = p_InterfaceName p \<and> ShouldAutoSuspendAt p now" for n
    proof
      assume "p_ID p \<in> due now (peers_of n ?st)"
      then obtain q where "q \<in> set (peers_of n ?st)" "ShouldAutoSuspendAt q now" "p_ID q = p_ID p" by (auto simp: due_def)
      with own [of q] show "n = p_InterfaceName p \<and> ShouldAutoSuspendAt p now" by (auto simp: peers_of_def)
    next
      assume "n = p_InterfaceName p \<and> ShouldAutoSuspendAt p now"
      with p show "p_ID p \<in> due now (peers_of n ?st)" by (auto simp: due_def peers_of_def)
    qed
    have "p_ID p \<in> cut_off now i ?st \<longleftrightarrow> i_Name i = p_InterfaceName p
        \<and> \<not> ReservedHostInterface (p_InterfaceName p) \<and> ShouldAutoSuspendAt p now" for i
      unfolding cut_off_def using due [of "i_Name i"] by auto
    with ex show ?thesis by blast
  qed
  show thesis using that [OF j] g cut by metis
qed

text \<open>
  C2. Enforcement is exact and persistent: after one pass, whatever the backend does and even if it
  fails, the peers suspended in the database are those that were suspended before and those of
  interfaces not managed by the host whose quota is used up or whose expiry has passed; every other
  column that an administrator sets is as it was.
\<close>

theorem enforcement_exact:
  assumes ok: "db_ok (r_store r)"
  shows "map (\<lambda>p. (p_ID p, p_Suspended p)) (join_peers (r_store (run ops um cfg now r)))
      = map (\<lambda>p. (p_ID p, p_Suspended p \<or> \<not> ReservedHostInterface (p_InterfaceName p) \<and> ShouldAutoSuspendAt p now))
          (join_peers (r_store r))
    \<and> map static (join_peers (r_store (run ops um cfg now r))) = map static (join_peers (r_store r))
    \<and> s_ifaces (r_store (run ops um cfg now r)) = s_ifaces (r_store r)"
proof -
  obtain g where j: "join_peers (r_store (run ops um cfg now r)) = map g (join_peers (r_store r))"
    and g: "\<And>p. p \<in> set (join_peers (r_store r)) \<Longrightarrow> static (g p) = static p
      \<and> p_Suspended (g p) = (p_Suspended p \<or> \<not> ReservedHostInterface (p_InterfaceName p) \<and> ShouldAutoSuspendAt p now)"
    using run_rows [OF ok] by metis
  have "p_ID (g p) = p_ID p" if "p \<in> set (join_peers (r_store r))" for p using g [OF that] static_fields [of "g p" p] by simp
  with g show ?thesis using run_store_ok(3) [OF ok] by (simp add: j)
qed

text \<open>A daemon that manages one interface with two peers, one of them over its quota.\<close>

definition over_quota_store :: store where
  "over_quota_store =
     UpdatePeerStats 5 (zero_peer\<lparr>p_ID := 2, p_LastRxBytes := 150\<rparr>)
     (snd (CreatePeer 4 (zero_peer\<lparr>p_InterfaceID := 1, p_PublicKey := ''B'', p_AllowedIPs := [''10.0.0.3/32''],
        p_TrafficLimitBytes := 100\<rparr>)
     (snd (CreatePeer 3 (zero_peer\<lparr>p_InterfaceID := 1, p_PublicKey := ''A'', p_AllowedIPs := [''10.0.0.2/32'']\<rparr>)
     (snd (CreateInterface 2 (zero_interface\<lparr>i_Name := ''wg0'', i_Enabled := True\<rparr>) empty_store))))))"

lemma over_quota_ok: "db_ok over_quota_store"
  unfolding over_quota_store_def
  by (rule db_reach_ok) (rule db_reach.step [OF _ update_stats] db_reach.step [OF _ create_peer]
      db_reach.step [OF _ create_interface] db_reach.init)+

lemma over_quota_peers:
  "map (\<lambda>p. (p_ID p, p_InterfaceName p, p_Suspended p, ShouldAutoSuspendAt p now)) (join_peers over_quota_store)
     = [(1, ''wg0'', False, False), (2, ''wg0'', False, True)]"
proof -
  have e: "p_ExpiresAt p = [] \<Longrightarrow> ShouldAutoSuspendAt p now = (\<not> p_Suspended p \<and> TrafficLimitExceeded p)" for p
    by (simp add: ShouldAutoSuspendAt_def IsExpired_def)
  have 1: "map p_ExpiresAt (join_peers over_quota_store) = [[], []]"
    "map (\<lambda>p. (p_ID p, p_InterfaceName p, p_Suspended p, \<not> p_Suspended p \<and> TrafficLimitExceeded p)) (join_peers over_quota_store)
       = [(1, ''wg0'', False, False), (2, ''wg0'', False, True)]" by code_simp+
  from 1(1) have "\<forall>p\<in>set (join_peers over_quota_store). p_ExpiresAt p = []"
    by (metis in_set_conv_nth length_map nth_map set_map imageI empty_iff empty_set insert_iff list.simps(15))
  then have "map (\<lambda>p. (p_ID p, p_InterfaceName p, p_Suspended p, ShouldAutoSuspendAt p now)) (join_peers over_quota_store)
    = map (\<lambda>p. (p_ID p, p_InterfaceName p, p_Suspended p, \<not> p_Suspended p \<and> TrafficLimitExceeded p)) (join_peers over_quota_store)"
    by (intro map_cong [OF refl]) (simp add: e)
  with 1(2) show ?thesis by simp
qed

definition demo_cfg :: rconfig where
  "demo_cfg = \<lparr>rc_Persistence = ''hybrid'', rc_ConfDir = ''/etc/wireguard'', rc_HandshakeConnectedSec = 180,
     rc_SampleInterval = 10 * Second, rc_SampleRetention = 7 * 24 * Hour, rc_AllowHooks = False\<rparr>"

definition demo_state :: "mock rstate" where
  "demo_state = NewReconciler over_quota_store NewMock NewCache"

definition after_pass :: "mock rstate" where
  "after_pass = run mock_ops (\<lambda>_. None) demo_cfg 10 demo_state"

lemma demo_state_simps [simp]:
  "r_store demo_state = over_quota_store" "r_backend demo_state = NewMock" "r_hookState demo_state = []"
  by (simp_all add: demo_state_def NewReconciler_def)

theorem enforcement_exact_witness:
  "map (\<lambda>p. (p_ID p, p_Suspended p)) (join_peers (r_store after_pass)) = [(1, False), (2, True)]"
proof -
  have "map (\<lambda>p. (p_ID p, p_Suspended p \<or> \<not> ReservedHostInterface (p_InterfaceName p) \<and> ShouldAutoSuspendAt p 10))
      (join_peers over_quota_store) = map (\<lambda>(k, n, s, d). (k, s \<or> \<not> ReservedHostInterface n \<and> d))
        (map (\<lambda>p. (p_ID p, p_InterfaceName p, p_Suspended p, ShouldAutoSuspendAt p 10)) (join_peers over_quota_store))"
    by simp
  also have "\<dots> = [(1, False), (2, True)]" unfolding over_quota_peers by code_simp
  finally show ?thesis
    using enforcement_exact [of demo_state mock_ops "\<lambda>_. None" demo_cfg 10] over_quota_ok
    by (simp add: after_pass_def)
qed

section \<open>State that a pass never forgets\<close>

lemma conn_step:
  shows "fst ` set (r_prevPeerConn r) \<subseteq> fst ` set (r_prevPeerConn (sampleInterface ops cfg now i ps r))"
proof -
  have up: "fst ` set xs \<subseteq> fst ` set (AList.update k v xs)" for k v and xs :: "(string \<times> bool) list"
    by (induction xs) auto
  have p: "fst ` set (r_prevPeerConn (fst x)) \<subseteq> fst ` set (r_prevPeerConn (fst (sample_peer cfg now n live p x)))"
    for n live p and x :: "'a rstate \<times> traffic_sample list \<times> totals"
    using up by (cases x) (auto simp: sample_peer_def Let_def split: prod.split)
  have f: "fst ` set (r_prevPeerConn (fst x)) \<subseteq> fst ` set (r_prevPeerConn (fst (fold (sample_peer cfg now n live) ps x)))"
    for n live and x :: "'a rstate \<times> traffic_sample list \<times> totals"
  proof (induction ps arbitrary: x)
    case (Cons q ps)
    show ?case using order_trans [OF p Cons.IH] by simp
  qed simp
  show ?thesis
  proof (cases "op_Device ops (i_Name i) (r_backend r)")
    case (Inr d)
    obtain r1 pend t1 where e: "fold (sample_peer cfg now (i_Name i) (d_Peers d)) ps
        (r, [], \<lparr>to_rx = 0, to_tx = 0, to_rxBps = 0, to_txBps = 0\<rparr>) = (r1, pend, t1)" using prod_cases3 by blast
    from f [of "(r, [], \<lparr>to_rx = 0, to_tx = 0, to_rxBps = 0, to_txBps = 0\<rparr>)" "i_Name i" "d_Peers d"] e Inr
    show ?thesis by (simp add: sampleInterface_def)
  qed (simp add: sampleInterface_def)
qed

lemma prev_conn_step: "fst ` set (r_prevPeerConn r) \<subseteq> fst ` set (r_prevPeerConn (step_iface ops um cfg now i r))"
proof -
  have c: "fst ` set (r_prevPeerConn r) \<subseteq> fst ` set (r_prevPeerConn (sampleInterface ops cfg now i ps r'))"
    if "r_prevPeerConn r' = r_prevPeerConn r" for ps and r' :: "'a rstate"
    using conn_step [of r'] that by metis
  show ?thesis
  proof (cases "ReservedHostInterface (i_Name i)")
    case False
    obtain peers st1 where a: "auto_suspend now (i_Name i) (ListPeersByInterface (i_Name i) (r_store r)) (r_store r) = (peers, st1)"
      by force
    define e where "e = op_EnsureInterface ops (desired_iface um i (map desired_peer peers))
      (run_hook ops (rc_AllowHooks cfg \<and> \<not> i_Enabled i \<and> map_of (r_hookState r) (i_Name i) = Some True) (i_PreDown i)
        (run_hook ops (rc_AllowHooks cfg \<and> i_Enabled i \<and> map_of (r_hookState r) (i_Name i) \<noteq> Some True) (i_PreUp i)
          (r_backend r)))"
    show ?thesis
    proof (cases "fst e")
      case None
      then obtain w3 where "e = (None, w3)" by (cases e) simp
      with False show ?thesis unfolding step_iface_def Let_def a prod.case e_def [symmetric]
        by (simp only: if_False prod.case option.case) (rule c, simp)
    next
      case (Some x)
      then obtain w3 where "e = (Some x, w3)" by (cases e) simp
      with False show ?thesis unfolding step_iface_def Let_def a prod.case e_def [symmetric] by simp
    qed
  qed (simp add: step_iface_def)
qed

text \<open>The edge-detection state of a peer is never dropped, not even after the peer is deleted.\<close>

lemma prev_conn_kept:
  "fst ` set (r_prevPeerConn r) \<subseteq> fst ` set (r_prevPeerConn (run ops um cfg now r))"
proof -
  have "fst ` set (r_prevPeerConn r) \<subseteq> fst ` set (r_prevPeerConn (fold (step_iface ops um cfg now) ifs r))" for ifs
  proof (induction ifs arbitrary: r)
    case (Cons i ifs)
    show ?case using order_trans [OF prev_conn_step Cons.IH] by simp
  qed simp
  then show ?thesis unfolding run_def Let_def by simp
qed

end
