(* ===== verification/ReconcilerDevices.thy ===== *)
theory ReconcilerDevices
  imports ReconcilerLaws MockBackend
begin

text \<open>
  What a pass of the reconciler does to the devices, proved for every backend that keeps the contract
  of theory \<open>Contract\<close> and read off for the mock backend by its interpretations: devices that are not
  the daemon's are left alone, and on a healthy backend the managed ones become what the database asks for.
\<close>

section \<open>What a pass does to the devices\<close>

lemma step_hooks:
  assumes "db_ok (r_store r)"
  shows "fst ` set (r_hookState (step_iface ops um cfg now i r)) \<subseteq>
      fst ` set (r_hookState r) \<union> (if ReservedHostInterface (i_Name i) then {} else {i_Name i})"
proof (cases "ReservedHostInterface (i_Name i)")
  case True
  then show ?thesis by (simp add: step_iface_def)
next
  case False
  have hs: "r_hookState (sampleInterface ops cfg now i ps r') = r_hookState r'" for ps and r' :: "'a rstate"
  proof (cases "op_Device ops (i_Name i) (r_backend r')")
    case (Inr d)
    obtain r1 pend t1 where f: "fold (sample_peer cfg now (i_Name i) (d_Peers d)) ps
        (r', [], \<lparr>to_rx = 0, to_tx = 0, to_rxBps = 0, to_txBps = 0\<rparr>) = (r1, pend, t1)" using prod_cases3 by blast
    from sample_fold_spec [OF f] f Inr show ?thesis by (simp add: sampleInterface_def)
  qed (simp add: sampleInterface_def)
  have up: "fst ` set (AList.update k v xs) \<subseteq> fst ` set xs \<union> {k}" for k v and xs :: "(string \<times> bool) list"
    by (induction xs) auto
  show ?thesis
    by (rule step_iface_unfold [OF assms False, of now ops um cfg])
      (use up False in \<open>auto simp: Let_def hs split: prod.splits option.splits\<close>)
qed

context backend
begin

lemma run_hook_dev [simp]: "dev ops m (run_hook ops b h w) = dev ops m w"
  by (simp add: run_hook_def hook_dev)

lemma run_hook_ok: "ok w \<Longrightarrow> ok (run_hook ops b h w)"
  by (simp add: run_hook_def ok_hook)

lemma fold_suspend_dev [simp]:
  "dev ops m (fold (\<lambda>p w. snd (op_ApplySuspendRoutes ops n p (dp_Suspended p) w)) dps w) = dev ops m w"
  by (induction dps arbitrary: w) (simp_all add: suspend_dev)

lemma fold_suspend_ok:
  "ok w \<Longrightarrow> ok (fold (\<lambda>p w. snd (op_ApplySuspendRoutes ops n p (dp_Suspended p) w)) dps w)"
  by (induction dps arbitrary: w) (simp_all add: ok_suspend)

lemma apply_device_frame: "m \<noteq> i_Name i \<Longrightarrow> dev ops m (apply_device ops i di dps w) = dev ops m w"
  by (simp add: apply_device_def Let_def dns_dev routes_dev setup_frame bandwidth_dev apply_frame)

lemma apply_device_ok: "ok w \<Longrightarrow> ok (apply_device ops i di dps w)"
  by (simp add: apply_device_def Let_def ok_dns ok_routes ok_setup ok_bandwidth ok_apply fold_suspend_ok)

lemma apply_device_peers:
  "map_option live_peers (dev ops (i_Name i) (apply_device ops i di dps w))
     = map_option live_peers (dev ops (i_Name i) (snd (op_ApplyPeers ops (i_Name i) dps w)))"
  by (simp add: apply_device_def Let_def dns_dev routes_dev setup_peers bandwidth_dev)

lemma export_dev' [simp]: "dev ops m (snd (exportConf ops cfg i ps w)) = dev ops m w"
  by (simp add: exportConf_def export_dev)

lemma export_ok: "ok w \<Longrightarrow> ok (snd (exportConf ops cfg i ps w))"
  by (simp add: exportConf_def ok_export)

text \<open>One step configures the device of its interface and no other.\<close>

lemma step_dev:
  assumes "db_ok (r_store r)"
  shows "m \<noteq> i_Name i \<or> ReservedHostInterface m \<Longrightarrow>
      dev ops m (r_backend (step_iface ops um cfg now i r)) = dev ops m (r_backend r)"
    and "ok (r_backend r) \<Longrightarrow> ok (r_backend (step_iface ops um cfg now i r))"
proof -
  have "(m \<noteq> i_Name i \<or> ReservedHostInterface m \<longrightarrow>
      dev ops m (r_backend (step_iface ops um cfg now i r)) = dev ops m (r_backend r))
    \<and> (ok (r_backend r) \<longrightarrow> ok (r_backend (step_iface ops um cfg now i r)))"
  proof (cases "ReservedHostInterface (i_Name i)")
    case True
    then show ?thesis by (simp add: step_iface_def)
  next
    case False
    let ?ps = "ListPeersByInterface (i_Name i) (r_store r)"
    let ?dps = "map (desired_peer \<circ> enforced now) ?ps"
    let ?di = "desired_iface um i ?dps"
    have n: "di_Name ?di = i_Name i" by (simp add: desired_iface_def)
    obtain st2 h1 h2 h3 h4 where st2: "db_ok st2" "evolves (p_ID ` set ?ps) (due now ?ps) (r_store r) st2"
      and step: "step_iface ops um cfg now i r =
      (let w2 = run_hook ops h2 (i_PreDown i) (run_hook ops h1 (i_PreUp i) (r_backend r)) in
       case op_EnsureInterface ops ?di w2 of
         (Some _, w3) \<Rightarrow> r\<lparr>r_store := st2, r_backend := w3\<rparr>
       | (None, w3) \<Rightarrow>
         (let w6 = run_hook ops h4 (i_PostDown i) (run_hook ops h3 (i_PostUp i) (apply_device ops i ?di ?dps w3));
              w7 = (if exports cfg i then snd (exportConf ops cfg i (map (enforced now) ?ps) w6) else w6)
          in sampleInterface ops cfg now i (map (enforced now) ?ps)
               (r\<lparr>r_store := st2, r_backend := w7, r_hookState := AList.update (i_Name i) (i_Enabled i) (r_hookState r)\<rparr>)))"
      by (rule step_iface_unfold [OF assms False, of now ops um cfg])
    have sq: "s_peer_seq st2 = s_peer_seq (r_store r)" using st2(2) by (simp add: evolves_def)
    have b: "\<forall>p\<in>set (map (enforced now) ?ps). p_ID p \<le> s_peer_seq st2"
      using peer_row_bound [OF assms] sq by auto
    have sam: "r_backend (sampleInterface ops cfg now i (map (enforced now) ?ps) r') = r_backend r'"
      if "r_store r' = st2" for r'
      by (rule sampleInterface_spec(1)) (use that st2(1) b in simp_all)
    define w2 where "w2 = run_hook ops h2 (i_PreDown i) (run_hook ops h1 (i_PreUp i) (r_backend r))"
    have w2: "dev ops m w2 = dev ops m (r_backend r)" "ok (r_backend r) \<Longrightarrow> ok w2"
      by (simp_all add: w2_def run_hook_ok)
    obtain e w3 where e: "op_EnsureInterface ops ?di w2 = (e, w3)" by force
    have w3: "m \<noteq> i_Name i \<Longrightarrow> dev ops m w3 = dev ops m (r_backend r)" "ok (r_backend r) \<Longrightarrow> ok w3"
      using ensure_frame [of m ?di w2] ok_ensure [of w2 ?di] e w2 n by auto
    from False show ?thesis unfolding step Let_def w2_def [symmetric] e
      using w3 by (cases e) (auto simp: sam apply_device_frame apply_device_ok run_hook_ok export_ok)
  qed
  then show "m \<noteq> i_Name i \<or> ReservedHostInterface m \<Longrightarrow>
      dev ops m (r_backend (step_iface ops um cfg now i r)) = dev ops m (r_backend r)"
    "ok (r_backend r) \<Longrightarrow> ok (r_backend (step_iface ops um cfg now i r))" by blast+
qed

lemma steps_dev:
  assumes "db_ok (r_store r)"
  shows "m \<notin> set (desired_names ifs) \<Longrightarrow>
      dev ops m (r_backend (fold (step_iface ops um cfg now) ifs r)) = dev ops m (r_backend r)"
    and "ok (r_backend r) \<Longrightarrow> ok (r_backend (fold (step_iface ops um cfg now) ifs r))"
    and "fst ` set (r_hookState (fold (step_iface ops um cfg now) ifs r))
      \<subseteq> fst ` set (r_hookState r) \<union> set (desired_names ifs)"
proof -
  have "(m \<notin> set (desired_names ifs) \<longrightarrow>
      dev ops m (r_backend (fold (step_iface ops um cfg now) ifs r)) = dev ops m (r_backend r))
    \<and> (ok (r_backend r) \<longrightarrow> ok (r_backend (fold (step_iface ops um cfg now) ifs r)))
    \<and> fst ` set (r_hookState (fold (step_iface ops um cfg now) ifs r))
      \<subseteq> fst ` set (r_hookState r) \<union> set (desired_names ifs)"
    using assms
  proof (induction ifs arbitrary: r)
    case (Cons i ifs)
    let ?r1 = "step_iface ops um cfg now i r"
    have 1: "db_ok (r_store ?r1)" by (rule step_store(1) [OF Cons.prems])
    have 2: "dev ops m (r_backend ?r1) = dev ops m (r_backend r)" if "m \<notin> set (desired_names (i # ifs))"
      using step_dev(1) [OF Cons.prems, of m i um cfg now] that by (auto simp: desired_names_def split: if_splits)
    have d: "set (desired_names (i # ifs)) = set (desired_names ifs)
        \<union> (if ReservedHostInterface (i_Name i) then {} else {i_Name i})" by (auto simp: desired_names_def)
    note ih = Cons.IH [OF 1]
    have "fst ` set (r_hookState (fold (step_iface ops um cfg now) (i # ifs) r))
        \<subseteq> fst ` set (r_hookState r) \<union> set (desired_names (i # ifs))"
    proof -
      have h1: "fst ` set (r_hookState (fold (step_iface ops um cfg now) ifs ?r1))
          \<subseteq> fst ` set (r_hookState ?r1) \<union> set (desired_names ifs)" using ih by (elim conjE)
      have h2: "fst ` set (r_hookState ?r1) \<subseteq> fst ` set (r_hookState r)
          \<union> (if ReservedHostInterface (i_Name i) then {} else {i_Name i})"
        by (rule step_hooks [OF Cons.prems])
      show ?thesis unfolding d fold_simps(2) by (rule order_trans [OF h1]) (use h2 in blast)
    qed
    moreover have "m \<notin> set (desired_names (i # ifs)) \<longrightarrow>
        dev ops m (r_backend (fold (step_iface ops um cfg now) (i # ifs) r)) = dev ops m (r_backend r)"
      using ih 2 d by auto
    moreover have "ok (r_backend r) \<longrightarrow> ok (r_backend (fold (step_iface ops um cfg now) (i # ifs) r))"
      using ih step_dev(2) [OF Cons.prems, of um cfg now i] by simp
    ultimately show ?case by blast
  qed simp
  then show "m \<notin> set (desired_names ifs) \<Longrightarrow>
      dev ops m (r_backend (fold (step_iface ops um cfg now) ifs r)) = dev ops m (r_backend r)"
    "ok (r_backend r) \<Longrightarrow> ok (r_backend (fold (step_iface ops um cfg now) ifs r))"
    "fst ` set (r_hookState (fold (step_iface ops um cfg now) ifs r))
      \<subseteq> fst ` set (r_hookState r) \<union> set (desired_names ifs)" by blast+
qed

lemma prune_dev:
  "m \<in> set desired \<or> ReservedHostInterface m \<or> m \<notin> set ns \<or> m \<notin> set live \<Longrightarrow>
    dev ops m (fold (prune_iface ops desired live) ns w) = dev ops m w"
proof (induction ns arbitrary: w)
  case (Cons n ns)
  have "dev ops m (prune_iface ops desired live n w) = dev ops m w"
    using Cons.prems remove_frame [of m n w] by (auto simp: prune_iface_def)
  with Cons show ?case by auto
qed simp

lemma syncMux_dev [simp]: "dev ops m (syncMux ops um ifs w) = dev ops m w"
  by (auto simp: syncMux_def mux_dev split: option.split)

text \<open>Devices that are none of the daemon's business are never touched.\<close>

lemma run_untouched:
  assumes "db_ok (r_store r)"
    and "ReservedHostInterface m \<or> m \<notin> i_Name ` set (s_ifaces (r_store r)) \<and> m \<notin> fst ` set (r_hookState r)"
  shows "dev ops m (r_backend (run ops um cfg now r)) = dev ops m (r_backend r)"
proof -
  let ?ifs = "ListInterfaces (r_store r)"
  have d: "set (desired_names ?ifs) = {n \<in> i_Name ` set (s_ifaces (r_store r)). \<not> ReservedHostInterface n}"
    using ListInterfaces_names(2) [OF assms(1)] by (auto simp: desired_names_def)
  then have m: "m \<notin> set (desired_names ?ifs)" using assms(2) by auto
  note s = steps_dev(1) [OF assms(1) m, of um cfg now] steps_dev(3) [OF assms(1), of um cfg now ?ifs]
  have "m \<notin> fst ` set (r_hookState (fold (step_iface ops um cfg now) ?ifs r)) \<or> ReservedHostInterface m"
    using s(2) m assms(2) by auto
  then show ?thesis
    unfolding run_def Let_def using s(1) prune_dev by (simp add: image_set [symmetric])
qed

end

lemma desired_iface_name [simp]: "di_Name (desired_iface um i dps) = i_Name i"
  by (simp add: desired_iface_def)

text \<open>A device that is what the database asks for: the peers with their networks, and up or down.\<close>

definition converged :: "'w backend_ops \<Rightarrow> gotime \<Rightarrow> db_interface \<Rightarrow> store \<Rightarrow> 'w \<Rightarrow> bool" where
  "converged ops now i st w \<longleftrightarrow>
     map_option live_peers (dev ops (i_Name i) w) = Some (map (\<lambda>p. (p_PublicKey p,
       if p_Suspended p \<or> ShouldAutoSuspendAt p now then [] else p_AllowedIPs p)) (ListPeersByInterface (i_Name i) st))
     \<and> map_option d_Up (dev ops (i_Name i) w) = Some (i_Enabled i)"

lemma wanted_desired:
  "wanted_peers (map (desired_peer \<circ> enforced now) ps)
     = map (\<lambda>p. (p_PublicKey p, if p_Suspended p \<or> ShouldAutoSuspendAt p now then [] else p_AllowedIPs p)) ps"
  by (simp add: wanted_peers_def desired_peer_def split: prod.splits)

context healthy_backend
begin

lemma run_hook_healthy: "healthy w \<Longrightarrow> healthy (run_hook ops b h w)"
  by (simp add: run_hook_def h_hook)

lemma fold_suspend_healthy:
  "healthy w \<Longrightarrow> healthy (fold (\<lambda>p w. snd (op_ApplySuspendRoutes ops n p (dp_Suspended p) w)) dps w)"
  by (induction dps arbitrary: w) (simp_all add: h_suspend)

lemma export_healthy: "healthy w \<Longrightarrow> healthy (snd (exportConf ops cfg i ps w))"
  by (simp add: exportConf_def h_export)

lemma apply_device_healthy:
  assumes "healthy w" and "dev ops (i_Name i) w \<noteq> None"
  shows "healthy (apply_device ops i di dps w)"
    and "map_option live_peers (dev ops (i_Name i) (apply_device ops i di dps w)) = Some (wanted_peers dps)"
    and "map_option d_Up (dev ops (i_Name i) (apply_device ops i di dps w)) = Some (i_Enabled i)"
proof -
  show "healthy (apply_device ops i di dps w)"
    by (simp add: apply_device_def Let_def h_dns h_routes h_setup h_bandwidth h_apply fold_suspend_healthy assms)
  note a = apply_ok [OF assms, of dps]
  then show "map_option live_peers (dev ops (i_Name i) (apply_device ops i di dps w)) = Some (wanted_peers dps)"
    by (simp add: apply_device_peers)
  let ?w = "snd (op_SyncBandwidth ops (i_Name i) dps (fold (\<lambda>p w. snd (op_ApplySuspendRoutes ops (i_Name i) p (dp_Suspended p) w)) dps
      (snd (op_ApplyPeers ops (i_Name i) dps w))))"
  have "healthy ?w" by (simp add: h_bandwidth h_apply fold_suspend_healthy assms)
  from setup_ok [OF this, of "i_Name i" "i_Enabled i"] a
  show "map_option d_Up (dev ops (i_Name i) (apply_device ops i di dps w)) = Some (i_Enabled i)"
    by (auto simp: apply_device_def Let_def dns_dev routes_dev bandwidth_dev)
qed

lemma step_healthy:
  assumes dbok: "db_ok (r_store r)" and h: "healthy (r_backend r)" and res: "\<not> ReservedHostInterface (i_Name i)"
  shows "healthy (r_backend (step_iface ops um cfg now i r))
    \<and> converged ops now i (r_store r) (r_backend (step_iface ops um cfg now i r))
    \<and> r_hookState (step_iface ops um cfg now i r) = AList.update (i_Name i) (i_Enabled i) (r_hookState r)"
proof -
  let ?ps = "ListPeersByInterface (i_Name i) (r_store r)"
  let ?dps = "map (desired_peer \<circ> enforced now) ?ps"
  let ?di = "desired_iface um i ?dps"
  obtain st2 h1 h2 h3 h4 where st2: "db_ok st2" "evolves (p_ID ` set ?ps) (due now ?ps) (r_store r) st2"
    and step: "step_iface ops um cfg now i r =
      (let w2 = run_hook ops h2 (i_PreDown i) (run_hook ops h1 (i_PreUp i) (r_backend r)) in
       case op_EnsureInterface ops ?di w2 of
         (Some _, w3) \<Rightarrow> r\<lparr>r_store := st2, r_backend := w3\<rparr>
       | (None, w3) \<Rightarrow>
         (let w6 = run_hook ops h4 (i_PostDown i) (run_hook ops h3 (i_PostUp i) (apply_device ops i ?di ?dps w3));
              w7 = (if exports cfg i then snd (exportConf ops cfg i (map (enforced now) ?ps) w6) else w6)
          in sampleInterface ops cfg now i (map (enforced now) ?ps)
               (r\<lparr>r_store := st2, r_backend := w7, r_hookState := AList.update (i_Name i) (i_Enabled i) (r_hookState r)\<rparr>)))"
    by (rule step_iface_unfold [OF dbok res, of now ops um cfg])
  define w2 where "w2 = run_hook ops h2 (i_PreDown i) (run_hook ops h1 (i_PreUp i) (r_backend r))"
  have "healthy w2" by (simp add: w2_def run_hook_healthy h)
  from ensure_ok [OF this, of ?di] h_ensure [OF this, of ?di]
  obtain w3 where e: "op_EnsureInterface ops ?di w2 = (None, w3)" "healthy w3" "dev ops (i_Name i) w3 \<noteq> None"
    by (cases "op_EnsureInterface ops ?di w2") auto
  note a = apply_device_healthy [OF e(2,3), of ?di ?dps]
  define w7 where "w7 = (let w6 = run_hook ops h4 (i_PostDown i) (run_hook ops h3 (i_PostUp i) (apply_device ops i ?di ?dps w3))
     in if exports cfg i then snd (exportConf ops cfg i (map (enforced now) ?ps) w6) else w6)"
  have w7: "healthy w7" "dev ops m w7 = dev ops m (apply_device ops i ?di ?dps w3)" for m
    using a(1) by (simp_all add: w7_def Let_def run_hook_healthy export_healthy)
  let ?r = "r\<lparr>r_store := st2, r_backend := w7, r_hookState := AList.update (i_Name i) (i_Enabled i) (r_hookState r)\<rparr>"
  have S: "step_iface ops um cfg now i r = sampleInterface ops cfg now i (map (enforced now) ?ps) ?r"
    unfolding step Let_def w2_def [symmetric] e by (simp add: w7_def Let_def)
  have sq: "s_peer_seq st2 = s_peer_seq (r_store r)" using st2(2) by (simp add: evolves_def)
  have "\<forall>p\<in>set (map (enforced now) ?ps). p_ID p \<le> s_peer_seq (r_store ?r)"
    using peer_row_bound [OF dbok] sq by auto
  note sam = sampleInterface_spec(1,2) [of ?r, OF _ this, of ops cfg now i]
  have "r_backend (step_iface ops um cfg now i r) = w7"
    "r_hookState (step_iface ops um cfg now i r) = AList.update (i_Name i) (i_Enabled i) (r_hookState r)"
    unfolding S using sam st2(1) by simp_all
  then show ?thesis using w7 a(2,3) by (simp add: converged_def wanted_desired)
qed

text \<open>All steps of a pass over a healthy backend, for interfaces with different names.\<close>

lemma steps_healthy:
  assumes "db_ok (r_store r)" and "healthy (r_backend r)" and "distinct (map i_Name ifs)"
  shows "healthy (r_backend (fold (step_iface ops um cfg now) ifs r))"
    and "i \<in> set ifs \<Longrightarrow> \<not> ReservedHostInterface (i_Name i) \<Longrightarrow>
      converged ops now i (r_store r) (r_backend (fold (step_iface ops um cfg now) ifs r))"
    and "map_of (r_hookState (fold (step_iface ops um cfg now) ifs r)) n =
      (case find (\<lambda>i. i_Name i = n \<and> \<not> ReservedHostInterface n) ifs of
         Some i \<Rightarrow> Some (i_Enabled i) | None \<Rightarrow> map_of (r_hookState r) n)"
proof -
  have "healthy (r_backend (fold (step_iface ops um cfg now) ifs r))
    \<and> (\<forall>i\<in>set ifs. \<not> ReservedHostInterface (i_Name i) \<longrightarrow>
      converged ops now i (r_store r) (r_backend (fold (step_iface ops um cfg now) ifs r)))
    \<and> map_of (r_hookState (fold (step_iface ops um cfg now) ifs r)) n =
      (case find (\<lambda>i. i_Name i = n \<and> \<not> ReservedHostInterface n) ifs of
         Some i \<Rightarrow> Some (i_Enabled i) | None \<Rightarrow> map_of (r_hookState r) n)"
    using assms
  proof (induction ifs arbitrary: r)
    case (Cons i ifs)
    let ?r1 = "step_iface ops um cfg now i r"
    have dbok: "db_ok (r_store ?r1)" by (rule step_store(1) [OF Cons.prems(1)])
    have d: "distinct (map i_Name ifs)" "i_Name i \<notin> set (map i_Name ifs)" using Cons.prems(3) by auto
    have h: "healthy (r_backend ?r1)"
      using step_healthy [OF Cons.prems(1,2), of i um cfg now] Cons.prems(2)
      by (cases "ReservedHostInterface (i_Name i)") (simp_all add: step_iface_def)
    note ih = Cons.IH [OF dbok h d(1)]
    have st: "converged ops now j (r_store ?r1) w = converged ops now j (r_store r) w" if "j \<in> set ifs" for j w
    proof -
      have "i_Name j \<noteq> i_Name i" using that d(2) by (metis image_eqI list.set_map)
      then have "peers_of (i_Name j) (r_store ?r1) = peers_of (i_Name j) (r_store r)"
        using steps_store(3) [OF Cons.prems(1), of "[i]" "i_Name j" ops um cfg now] by simp
      then show ?thesis by (simp add: converged_def ListPeersByInterface_def peers_of_def)
    qed
    have i: "converged ops now i (r_store r) (r_backend (fold (step_iface ops um cfg now) ifs ?r1))"
      if res: "\<not> ReservedHostInterface (i_Name i)"
    proof -
      have "i_Name i \<notin> set (desired_names ifs)" using d(2) by (auto simp: desired_names_def)
      from steps_dev(1) [OF dbok this, of um cfg now] step_healthy [OF Cons.prems(1,2) res, of um cfg now]
      show ?thesis by (simp add: converged_def)
    qed
    have hk: "map_of (r_hookState ?r1) n = (if i_Name i = n \<and> \<not> ReservedHostInterface n then Some (i_Enabled i)
        else map_of (r_hookState r) n)"
      using step_healthy [OF Cons.prems(1,2), of i um cfg now]
      by (cases "ReservedHostInterface (i_Name i)") (auto simp: step_iface_def update_conv')
    have "map_of (r_hookState (fold (step_iface ops um cfg now) ifs ?r1)) n =
      (case find (\<lambda>j. i_Name j = n \<and> \<not> ReservedHostInterface n) ifs of
         Some j \<Rightarrow> Some (i_Enabled j) | None \<Rightarrow> map_of (r_hookState ?r1) n)" using ih by (elim conjE)
    moreover have "find (\<lambda>j. i_Name j = n \<and> \<not> ReservedHostInterface n) ifs = None" if "i_Name i = n"
      unfolding find_None_iff using that d(2) by (metis image_eqI list.set_map)
    ultimately have "map_of (r_hookState (fold (step_iface ops um cfg now) (i # ifs) r)) n =
      (case find (\<lambda>j. i_Name j = n \<and> \<not> ReservedHostInterface n) (i # ifs) of
         Some j \<Rightarrow> Some (i_Enabled j) | None \<Rightarrow> map_of (r_hookState r) n)"
      using hk by (cases "i_Name i = n"; cases "ReservedHostInterface n") (simp_all cong: option.case_cong)
    moreover have "\<forall>j\<in>set (i # ifs). \<not> ReservedHostInterface (i_Name j) \<longrightarrow>
        converged ops now j (r_store r) (r_backend (fold (step_iface ops um cfg now) (i # ifs) r))"
      using ih st i by simp
    ultimately show ?case using ih by (simp del: find.simps)
  qed simp
  then show "healthy (r_backend (fold (step_iface ops um cfg now) ifs r))"
    "i \<in> set ifs \<Longrightarrow> \<not> ReservedHostInterface (i_Name i) \<Longrightarrow>
      converged ops now i (r_store r) (r_backend (fold (step_iface ops um cfg now) ifs r))"
    "map_of (r_hookState (fold (step_iface ops um cfg now) ifs r)) n =
      (case find (\<lambda>i. i_Name i = n \<and> \<not> ReservedHostInterface n) ifs of
         Some i \<Rightarrow> Some (i_Enabled i) | None \<Rightarrow> map_of (r_hookState r) n)" by blast+
qed

lemma syncMux_healthy: "healthy w \<Longrightarrow> healthy (syncMux ops um ifs w)"
  by (auto simp: syncMux_def h_mux split: option.split)

lemma prune_removed:
  assumes "healthy w" "n \<in> set ns" "n \<notin> set desired" "\<not> ReservedHostInterface n" "n \<in> set live"
  shows "dev ops n (fold (prune_iface ops desired live) ns w) = None"
proof -
  have keep: "dev ops n (fold (prune_iface ops desired live) ns w) = None"
    if "healthy w" "dev ops n w = None" for ns w
    using that
  proof (induction ns arbitrary: w)
    case (Cons m ns)
    have "dev ops n (prune_iface ops desired live m w) = None"
      using Cons.prems remove_frame [of n m w] remove_ok [of w m] by (cases "m = n") (auto simp: prune_iface_def)
    with Cons show ?case by (simp add: prune_iface_def h_remove)
  qed simp
  show ?thesis
    using assms(1,2)
  proof (induction ns arbitrary: w)
    case (Cons m ns)
    show ?case
    proof (cases "m = n")
      case True
      then have "dev ops n (prune_iface ops desired live m w) = None \<and> healthy (prune_iface ops desired live m w)"
        using assms(3,4,5) Cons.prems(1) by (simp add: prune_iface_def remove_ok h_remove)
      then show ?thesis using keep by simp
    next
      case False
      with Cons show ?thesis by (simp add: prune_iface_def h_remove)
    qed
  qed simp
qed

text \<open>The whole pass.\<close>

lemma run_converged:
  assumes "db_ok (r_store r)" "healthy (r_backend r)"
    and "i \<in> set (s_ifaces (r_store r))" "\<not> ReservedHostInterface (i_Name i)"
  shows "converged ops now (scanInterface i) (r_store r) (r_backend (run ops um cfg now r))"
proof -
  let ?ifs = "ListInterfaces (r_store r)"
  have i: "scanInterface i \<in> set ?ifs" "i_Name (scanInterface i) = i_Name i"
    using assms(3) by (simp_all add: ListInterfaces_def scanInterface_def)
  then have des: "i_Name i \<in> set (desired_names ?ifs)" using assms(4) i by (auto simp: desired_names_def intro: rev_image_eqI)
  from steps_healthy(2) [OF assms(1,2) ListInterfaces_names(1) [OF assms(1)] i(1), where um = um and cfg = cfg and now = now] assms(4) i(2)
  have "converged ops now (scanInterface i) (r_store r) (r_backend (fold (step_iface ops um cfg now) ?ifs r))" by simp
  then show ?thesis using des i(2) by (simp add: run_def Let_def converged_def prune_dev)
qed

lemma run_stale_removed:
  assumes dbok: "db_ok (r_store r)" and okb: "ok (r_backend r)" and h: "healthy (r_backend r)"
    and n: "n \<in> fst ` set (r_hookState r)" "n \<notin> i_Name ` set (s_ifaces (r_store r))" "\<not> ReservedHostInterface n"
  shows "dev ops n (r_backend (run ops um cfg now r)) = None"
proof -
  let ?ifs = "ListInterfaces (r_store r)"
  let ?r1 = "fold (step_iface ops um cfg now) ?ifs r"
  have "n \<notin> i_Name ` set ?ifs" using n(2) ListInterfaces_names(2) [OF dbok] by simp
  then have ne: "i_Name i \<noteq> n" if "i \<in> set ?ifs" for i using that by blast
  have d: "n \<notin> set (desired_names ?ifs)" using ne unfolding desired_names_def by auto
  have f: "find (\<lambda>i. i_Name i = n \<and> \<not> ReservedHostInterface n) ?ifs = None"
    unfolding find_None_iff using ne by blast
  have "map_of (r_hookState ?r1) n = map_of (r_hookState r) n"
    using steps_healthy(3) [OF dbok h ListInterfaces_names(1) [OF dbok], of um cfg now n] f by simp
  then have k: "n \<in> fst ` set (r_hookState ?r1)"
    using n(1) by (metis map_of_eq_None_iff)
  have hs: "healthy (syncMux ops um ?ifs (r_backend ?r1))"
    by (intro syncMux_healthy steps_healthy(1) [OF dbok h ListInterfaces_names(1) [OF dbok]])
  show ?thesis
  proof (cases "n \<in> set (map d_Name (op_Devices ops (r_backend r)))")
    case True
    have "n \<in> set (map fst (r_hookState ?r1))" using k by simp
    from prune_removed [OF hs this d n(3) True] show ?thesis unfolding run_def Let_def by simp
  next
    case False
    then have "dev ops n (r_backend r) = None" using devices_iff [OF okb, of n] by (metis list.set_map)
    then have "dev ops n (r_backend ?r1) = None" using steps_dev(1) [OF dbok d, of um cfg now] by simp
    with prune_dev [OF disjI2 [OF disjI2 [OF disjI2 [OF False]]]] show ?thesis unfolding run_def Let_def by simp
  qed
qed

lemma run_hook_state:
  assumes "db_ok (r_store r)" "healthy (r_backend r)"
  shows "map_of (r_hookState (run ops um cfg now r)) n =
    map_option i_Enabled (find (\<lambda>i. i_Name i = n \<and> \<not> ReservedHostInterface n) (ListInterfaces (r_store r)))"
proof -
  let ?ifs = "ListInterfaces (r_store r)"
  have "map_of (r_hookState (run ops um cfg now r)) n = (if n \<in> set (desired_names ?ifs)
      then map_of (r_hookState (fold (step_iface ops um cfg now) ?ifs r)) n else None)"
    by (simp add: run_def Let_def map_of_filter_keys)
  moreover have "find (\<lambda>i. i_Name i = n \<and> \<not> ReservedHostInterface n) ?ifs = None \<longleftrightarrow> n \<notin> set (desired_names ?ifs)"
    by (auto simp: find_None_iff desired_names_def)
  ultimately show ?thesis
    using steps_healthy(3) [OF assms ListInterfaces_names(1) [OF assms(1)], of um cfg now n]
    by (auto split: option.splits)
qed

end

section \<open>Properties\<close>

text \<open>
  C1. A pass over a healthy backend brings every managed interface to what the database asks for: the
  device exists, is up exactly when the interface is enabled, and has exactly the peers of the
  database, where a peer that is suspended, expired or over its quota at that moment has no
  allowed networks, so that no traffic of it passes.
\<close>

theorem reconcile_converges:
  assumes "db_ok (r_store r)" and "mock_healthy (r_backend r)"
    and "i \<in> set (s_ifaces (r_store r))" and "\<not> ReservedHostInterface (i_Name i)"
  shows "let d = map_of (m_Devices (r_backend (run mock_ops um cfg now r))) (i_Name i) in
    map_option d_Up d = Some (i_Enabled i)
    \<and> map_option live_peers d = Some (map (\<lambda>p. (p_PublicKey p,
        if p_Suspended p \<or> ShouldAutoSuspendAt p now then [] else p_AllowedIPs p))
        (ListPeersByInterface (i_Name i) (r_store r)))"
  using mock.run_converged [OF assms, where um = um and cfg = cfg and now = now] by (simp add: converged_def scanInterface_def iface_defaults_def Let_def)

lemma over_quota_ifaces: "map (\<lambda>i. (i_Name i, i_Enabled i)) (s_ifaces over_quota_store) = [(''wg0'', True)]"
  by code_simp

lemma wg0_managed: "\<not> ReservedHostInterface ''wg0''"
  by code_simp

theorem reconcile_converges_witness:
  "map_option live_peers (map_of (m_Devices (r_backend after_pass)) ''wg0'') = Some [(''A'', [''10.0.0.2/32'']), (''B'', [])]"
proof -
  obtain i where i: "i \<in> set (s_ifaces over_quota_store)" "i_Name i = ''wg0''"
    using over_quota_ifaces by (cases "s_ifaces over_quota_store") auto
  have l: "map (\<lambda>p. (p_PublicKey p, p_AllowedIPs p, p_Suspended p, p_ExpiresAt p, TrafficLimitExceeded p))
      (ListPeersByInterface ''wg0'' over_quota_store)
    = [(''A'', [''10.0.0.2/32''], False, [], False), (''B'', [''10.0.0.3/32''], False, [], True)]" by code_simp
  then have "map (\<lambda>p. (p_PublicKey p, if p_Suspended p \<or> ShouldAutoSuspendAt p 10 then [] else p_AllowedIPs p))
      (ListPeersByInterface ''wg0'' over_quota_store) = [(''A'', [''10.0.0.2/32'']), (''B'', [])]"
    by (auto simp: ShouldAutoSuspendAt_def IsExpired_def map_eq_Cons_conv)
  with reconcile_converges [of demo_state i, where um = "\<lambda>_. None" and cfg = demo_cfg and now = 10] i wg0_managed over_quota_ok
  show ?thesis by (simp add: after_pass_def Let_def mock_healthy_def NewMock_def)
qed

text \<open>
  C8. Devices that are none of the daemon's business survive: a pass changes nothing of a device whose
  name is reserved for the host, or that the database does not know and no earlier pass managed,
  whatever the backend's state is.
\<close>

theorem foreign_devices_untouched:
  assumes "db_ok (r_store r)"
    and "ReservedHostInterface n \<or> n \<notin> i_Name ` set (s_ifaces (r_store r)) \<and> n \<notin> fst ` set (r_hookState r)"
  shows "map_of (m_Devices (r_backend (run mock_ops um cfg now r))) n = map_of (m_Devices (r_backend r)) n"
  using mock.run_untouched [OF assms, of um cfg now] by simp

definition foreign_state :: "mock rstate" where
  "foreign_state = demo_state\<lparr>r_hookState := [(''wg8'', True)],
     r_backend := NewMock\<lparr>m_Devices := [(''eth0'', new_device ''eth0''), (''wg8'', new_device ''wg8'')]\<rparr>\<rparr>"

theorem foreign_devices_untouched_witness:
  "map_of (m_Devices (r_backend (run mock_ops (\<lambda>_. None) demo_cfg 10 foreign_state))) ''eth0'' = Some (new_device ''eth0'')"
proof -
  have "i_Name ` set (s_ifaces over_quota_store) = {''wg0''}"
    using arg_cong [OF over_quota_ifaces, of "\<lambda>xs. fst ` set xs"] by (simp add: image_image)
  with foreign_devices_untouched [of foreign_state "''eth0''", where um = "\<lambda>_. None" and cfg = demo_cfg and now = 10] over_quota_ok
  show ?thesis by (simp add: foreign_state_def demo_state_def NewReconciler_def)
qed

text \<open>
  An interface deleted from the database disappears from the host: when a device was managed by
  an earlier pass and its interface is gone, the next pass over a healthy backend removes the device.
\<close>

theorem stale_devices_removed:
  assumes "db_ok (r_store r)" and "mock_ok (r_backend r)" and "mock_healthy (r_backend r)"
    and "n \<in> fst ` set (r_hookState r)" and "n \<notin> i_Name ` set (s_ifaces (r_store r))"
    and "\<not> ReservedHostInterface n"
  shows "map_of (m_Devices (r_backend (run mock_ops um cfg now r))) n = None"
  using mock.run_stale_removed [OF assms, of um cfg now] by simp

theorem stale_devices_removed_witness:
  "map_of (m_Devices (r_backend foreign_state)) ''wg8'' = Some (new_device ''wg8'')
   \<and> map_of (m_Devices (r_backend (run mock_ops (\<lambda>_. None) demo_cfg 10 foreign_state))) ''wg8'' = None"
proof -
  have n: "i_Name ` set (s_ifaces over_quota_store) = {''wg0''}"
    using arg_cong [OF over_quota_ifaces, of "\<lambda>xs. fst ` set xs"] by (simp add: image_image)
  have r: "\<not> ReservedHostInterface ''wg8''" by code_simp
  have s: "r_store foreign_state = over_quota_store" "r_hookState foreign_state = [(''wg8'', True)]"
    "mock_ok (r_backend foreign_state)" "mock_healthy (r_backend foreign_state)"
    "map_of (m_Devices (r_backend foreign_state)) ''wg8'' = Some (new_device ''wg8'')"
    by (simp_all add: foreign_state_def mock_ok_def mock_healthy_def NewMock_def)
  have h: "''wg8'' \<in> fst ` set (r_hookState foreign_state)" "''wg8'' \<notin> i_Name ` set (s_ifaces (r_store foreign_state))"
    "db_ok (r_store foreign_state)"
    using s(1,2) n over_quota_ok by simp_all
  show ?thesis using stale_devices_removed [OF h(3) s(3,4) h(1,2) r] s(5) by simp
qed

text \<open>
  What the daemon remembers as managed is what it manages: after a pass over a healthy backend
  the edge-detection state of the hooks has an entry for exactly the managed interfaces of the
  database, and it is whether the interface is enabled, so that the next pass runs the up and down
  hooks exactly at a change.
\<close>

theorem hook_state_exact:
  assumes "db_ok (r_store r)" and "mock_healthy (r_backend r)"
  shows "map_of (r_hookState (run mock_ops um cfg now r)) n =
    map_option i_Enabled (find (\<lambda>i. i_Name i = n \<and> \<not> ReservedHostInterface n) (ListInterfaces (r_store r)))"
  by (rule mock.run_hook_state [OF assms])

theorem hook_state_exact_witness: "map_of (r_hookState after_pass) ''wg0'' = Some True"
proof -
  have "map (\<lambda>i. (i_Name i, i_Enabled i)) (ListInterfaces over_quota_store) = [(''wg0'', True)]" by code_simp
  then obtain i where "ListInterfaces over_quota_store = [i]" "i_Name i = ''wg0''" "i_Enabled i" by auto
  with hook_state_exact [of demo_state, where um = "\<lambda>_. None" and cfg = demo_cfg and now = 10 and n = "''wg0''"] over_quota_ok wg0_managed
  show ?thesis by (simp add: after_pass_def mock_healthy_def NewMock_def)
qed

lemma run_static:
  assumes "db_ok (r_store r)"
  shows "map static (join_peers (r_store (run ops um cfg now r))) = map static (join_peers (r_store r))"
proof -
  obtain g where "join_peers (r_store (run ops um cfg now r)) = map g (join_peers (r_store r))"
    and "\<And>p. p \<in> set (join_peers (r_store r)) \<Longrightarrow> static (g p) = static p"
    using run_rows [OF assms] by metis
  then show ?thesis by simp
qed

definition peer_keys :: "store \<Rightarrow> string set" where
  "peer_keys st = (\<lambda>p. peerKey (p_InterfaceName p) (p_PublicKey p)) ` set (join_peers st)"

lemma peer_keys_static:
  assumes "map static (join_peers st) = map static (join_peers st')"
  shows "peer_keys st = peer_keys st'"
proof -
  have "peerKey (p_InterfaceName (static p)) (p_PublicKey (static p)) = peerKey (p_InterfaceName p) (p_PublicKey p)" for p
    by (simp add: static_def)
  then have "peer_keys s = (\<lambda>p. peerKey (p_InterfaceName p) (p_PublicKey p)) ` set (map static (join_peers s))" for s
    by (simp add: peer_keys_def image_image)
  with assms show ?thesis by metis
qed

text \<open>
  The caches do not leak: after a pass the statistics cache has interfaces of the database that the
  host does not reserve and peers of the database only, and the same holds for the remembered
  samples from which the rates are computed.
\<close>

theorem pass_forgets:
  assumes "db_ok (r_store r)" and "r' = run mock_ops um cfg now r"
  shows "fst ` set (c_ifaces (r_cache r')) \<subseteq> {n \<in> i_Name ` set (s_ifaces (r_store r)). \<not> ReservedHostInterface n}
    \<and> fst ` set (c_peers (r_cache r')) \<union> fst ` set (r_prevSample r') \<subseteq> peer_keys (r_store r)"
proof -
  let ?r1 = "fold (step_iface mock_ops um cfg now) (ListInterfaces (r_store r)) r"
  let ?keep = "map (\<lambda>p. peerKey (p_InterfaceName p) (p_PublicKey p)) (ListAllPeers (r_store ?r1))"
  let ?D = "desired_names (ListInterfaces (r_store r))"
  have sub: "fst ` set (filter (\<lambda>(a, b). a \<in> A) xs) \<subseteq> A" for A and xs :: "('a \<times> 'b) list" by auto
  have "join_peers (r_store r') = join_peers (r_store ?r1)"
    unfolding assms(2) by (rule run_store_ok(2) [OF assms(1)])
  then have "set ?keep = peer_keys (r_store r')" by (simp add: peer_keys_def ListAllPeers_def)
  then have k: "set ?keep = peer_keys (r_store r)"
    unfolding assms(2) using peer_keys_static [OF run_static [OF assms(1)]] by blast
  have n: "set ?D = {n \<in> i_Name ` set (s_ifaces (r_store r)). \<not> ReservedHostInterface n}"
    using ListInterfaces_names(2) [OF assms(1)] by (auto simp: desired_names_def)
  have "c_ifaces (r_cache r') = filter (\<lambda>(a, b). a \<in> set ?D) (c_ifaces (r_cache ?r1))"
    "c_peers (r_cache r') = filter (\<lambda>(a, b). a \<in> set ?keep) (c_peers (r_cache ?r1))"
    "r_prevSample r' = filter (\<lambda>(a, b). a \<in> set ?keep) (r_prevSample ?r1)"
    unfolding assms(2) run_def Let_def Retain_def by simp_all
  then have "fst ` set (c_ifaces (r_cache r')) \<subseteq> set ?D" "fst ` set (c_peers (r_cache r')) \<subseteq> set ?keep"
    "fst ` set (r_prevSample r') \<subseteq> set ?keep" by (simp_all only: sub)
  then show ?thesis unfolding n k by (intro conjI Un_least)
qed

theorem pass_forgets_witness: "fst ` set (r_prevSample after_pass) \<subseteq> {''wg0/A'', ''wg0/B''}"
proof -
  have "map (\<lambda>p. (p_InterfaceName p, p_PublicKey p)) (join_peers over_quota_store) = [(''wg0'', ''A''), (''wg0'', ''B'')]"
    by code_simp
  then have "(\<lambda>(n, k). peerKey n k) ` set (map (\<lambda>p. (p_InterfaceName p, p_PublicKey p)) (join_peers over_quota_store))
      = {''wg0/A'', ''wg0/B''}" by (simp only:) (simp add: peerKey_def)
  then have "peer_keys over_quota_store = {''wg0/A'', ''wg0/B''}" by (simp add: peer_keys_def image_image)
  with pass_forgets [of demo_state after_pass, where um = "\<lambda>_. None" and cfg = demo_cfg and now = 10] over_quota_ok
  show ?thesis by (simp add: after_pass_def)
qed

text \<open>
  The multiplexer only gets flows it may take: the maps are exactly those of the enabled AmneziaWG
  interfaces with a public port where either the userspace backend answers on a port no plain
  WireGuard interface owns, or the obfuscation parameters differ from plain WireGuard and the port
  is the one of an enabled plain WireGuard interface; every other interface that asks for a public
  port is reported with a reason.
\<close>

theorem mux_maps_sound:
  "set (fst (muxMaps um ifs)) =
     (\<lambda>i. \<lparr>mx_PublicPort = i_MuxPort i, mx_AWGPort = i_ListenPort i, mx_Iface = i_Name i,
        mx_Alias = (backend_or_empty (i_Backend i) = BackendSwift)\<rparr>) `
     {i \<in> set ifs. i_Enabled i \<and> 0 < i_MuxPort i \<and> 0 < i_ListenPort i \<and> i_Protocol i = ProtocolAWG
        \<and> (if backend_or_empty (i_Backend i) = BackendSwift then i_MuxPort i \<notin> wg_ports ifs
           else \<not> IsNeutral (decodeAmneziaJSON um (i_AmneziaJSON i)) \<and> i_MuxPort i \<in> wg_ports ifs)}
   \<and> length (fst (muxMaps um ifs)) + length (snd (muxMaps um ifs))
     = length (filter (\<lambda>i. i_Enabled i \<and> 0 < i_MuxPort i \<and> 0 < i_ListenPort i) ifs)"
proof -
  have s: "set (List.map_filter f xs) = {y. \<exists>x\<in>set xs. f x = Some y}" for f and xs :: "'x list"
    by (auto simp: List.map_filter_def image_iff) (metis option.sel)+
  have c: "length (List.map_filter (\<lambda>e. case e of Inr m \<Rightarrow> Some m | Inl _ \<Rightarrow> None) es)
      + length (List.map_filter (\<lambda>e. case e of Inl s \<Rightarrow> Some s | Inr _ \<Rightarrow> None) es) = length es" for es :: "('x + 'y) list"
    by (induction es) (simp_all add: List.map_filter_def split: sum.split)
  have l: "length (List.map_filter f xs) = length (filter (\<lambda>x. f x \<noteq> None) xs)" for f and xs :: "'x list"
    by (simp add: List.map_filter_def comp_def)
  have e: "mux_entry um P i \<noteq> None \<longleftrightarrow> i_Enabled i \<and> 0 < i_MuxPort i \<and> 0 < i_ListenPort i" for P i
    by (auto simp: mux_entry_def)
  have m: "mux_entry um P i = Some (Inr x) \<longleftrightarrow> i_Enabled i \<and> 0 < i_MuxPort i \<and> 0 < i_ListenPort i \<and> i_Protocol i = ProtocolAWG
     \<and> (if backend_or_empty (i_Backend i) = BackendSwift then i_MuxPort i \<notin> P
           else \<not> IsNeutral (decodeAmneziaJSON um (i_AmneziaJSON i)) \<and> i_MuxPort i \<in> P)
     \<and> x = \<lparr>mx_PublicPort = i_MuxPort i, mx_AWGPort = i_ListenPort i, mx_Iface = i_Name i,
        mx_Alias = (backend_or_empty (i_Backend i) = BackendSwift)\<rparr>" for P i x
    by (auto simp: mux_entry_def)
  have "set (fst (muxMaps um ifs)) = {x. \<exists>i\<in>set ifs. mux_entry um (wg_ports ifs) i = Some (Inr x)}"
    by (auto simp: muxMaps_def Let_def s split: sum.splits) (metis sum.exhaust)
  moreover have "length (fst (muxMaps um ifs)) + length (snd (muxMaps um ifs))
     = length (filter (\<lambda>i. i_Enabled i \<and> 0 < i_MuxPort i \<and> 0 < i_ListenPort i) ifs)"
    unfolding muxMaps_def Let_def fst_conv snd_conv c by (simp only: l e)
  ultimately show ?thesis unfolding m by blast
qed

section \<open>The whole daemon\<close>

text \<open>What an administrator, the daemon and the kernel do, one after the other.\<close>

inductive daemon_step :: "decoder \<Rightarrow> rconfig \<Rightarrow> mock rstate \<Rightarrow> mock rstate \<Rightarrow> bool" for um cfg where
  request: "db_step (r_store r) st' \<Longrightarrow> daemon_step um cfg r (r\<lparr>r_store := st'\<rparr>)"
| reconcile: "daemon_step um cfg r (run mock_ops um cfg now r)"
| compact: "compact_step cfg now fin (r_store r) = (to, n, st') \<Longrightarrow> daemon_step um cfg r (r\<lparr>r_store := st'\<rparr>)"
| kernel: "mock_ok w \<Longrightarrow> daemon_step um cfg r (r\<lparr>r_backend := w\<rparr>)"

inductive daemon_reach :: "decoder \<Rightarrow> rconfig \<Rightarrow> mock rstate \<Rightarrow> bool" for um cfg where
  start: "mock_ok w \<Longrightarrow> daemon_reach um cfg (NewReconciler empty_store w NewCache)"
| step: "daemon_reach um cfg r \<Longrightarrow> daemon_step um cfg r r' \<Longrightarrow> daemon_reach um cfg r'"

definition daemon_ok :: "mock rstate \<Rightarrow> bool" where
  "daemon_ok r \<longleftrightarrow> db_ok (r_store r) \<and> mock_ok (r_backend r)
     \<and> list_all (\<lambda>n. \<not> ReservedHostInterface n) (map fst (r_hookState r))"

lemma run_mock_ok: "db_ok (r_store r) \<Longrightarrow> mock_ok (r_backend r) \<Longrightarrow> mock_ok (r_backend (run mock_ops um cfg now r))"
proof -
  assume d: "db_ok (r_store r)" and m: "mock_ok (r_backend r)"
  have s: "mock_ok (syncMux mock_ops um ifs w)" if "mock_ok w" for ifs w
    using that mock.ok_mux [of mock_SyncMux] by (auto simp: syncMux_def)
  have p: "mock_ok (fold (prune_iface mock_ops desired live) ns w)" if "mock_ok w" for desired live ns w
    using that by (induction ns arbitrary: w) (simp_all add: prune_iface_def mock.ok_remove [simplified])
  show ?thesis unfolding run_def Let_def
    using p s mock.steps_dev(2) [OF d m] by simp
qed

lemma daemon_step_ok: "daemon_step um cfg r r' \<Longrightarrow> daemon_ok r \<Longrightarrow> daemon_ok r'"
proof (induction rule: daemon_step.induct)
  case (request r st')
  then show ?case by (simp add: daemon_ok_def db_step_inv)
next
  case (reconcile r now)
  have h: "r_hookState (run mock_ops um cfg now r) = filter (\<lambda>(n, b). n \<in> set (desired_names (ListInterfaces (r_store r))))
      (r_hookState (fold (step_iface mock_ops um cfg now) (ListInterfaces (r_store r)) r))"
    by (simp add: run_def Let_def)
  have "list_all (\<lambda>n. \<not> ReservedHostInterface n) (map fst (r_hookState (run mock_ops um cfg now r)))"
    unfolding h by (auto simp: list_all_iff desired_names_def)
  with reconcile show ?case by (simp add: daemon_ok_def run_mock_ok run_store_ok)
next
  case (compact now fin r to n st')
  then have "st' = snd (ThinSamples (if IsZero fin then Truncate (to - rc_SampleRetention cfg) thinBucket else fin) to (r_store r))"
    by (auto simp: compact_step_def Let_def split: prod.splits)
  with compact show ?case by (simp add: daemon_ok_def ThinSamples_ok)
qed (simp add: daemon_ok_def)

text \<open>
  C12. The daemon keeps its house in order: whatever sequence of requests to the database, passes of
  the reconciler, rounds of compaction and changes of the host's devices happens, and in whatever
  order, no two interfaces have one name, no two peers of an interface one public key, every peer
  belongs to an existing interface, and nothing the host reserves is ever remembered as managed.
\<close>

theorem daemon_integrity:
  assumes "daemon_reach um cfg r"
  shows "distinct (map i_Name (s_ifaces (r_store r)))
    \<and> distinct (map (\<lambda>p. (p_InterfaceID p, p_PublicKey p)) (s_peers (r_store r)))
    \<and> p_InterfaceID ` set (s_peers (r_store r)) \<subseteq> i_ID ` set (s_ifaces (r_store r))
    \<and> distinct (map d_Name (mock_Devices (r_backend r)))
    \<and> (\<nexists>n. ReservedHostInterface n \<and> n \<in> fst ` set (r_hookState r))"
proof -
  have "daemon_ok r" using assms
  proof (induction rule: daemon_reach.induct)
    case (start w)
    then show ?case by (simp add: daemon_ok_def NewReconciler_def empty_store_ok)
  qed (rule daemon_step_ok)
  moreover have "map d_Name (mock_Devices m) = map fst (m_Devices m)" if "mock_ok m" for m
    using that by (auto simp: mock_ok_def mock_Devices_def)
  ultimately show ?thesis by (auto simp: daemon_ok_def db_ok_def list_all_iff mock_ok_def)
qed

lemma after_pass_reach: "daemon_reach (\<lambda>_. None) demo_cfg after_pass"
proof -
  have s: "daemon_reach (\<lambda>_. None) demo_cfg (r\<lparr>r_store := st\<rparr>)"
    if "daemon_reach (\<lambda>_. None) demo_cfg (r\<lparr>r_store := st0\<rparr>)" "db_step st0 st" for r :: "mock rstate" and st0 st
    using daemon_reach.step [OF that(1) request [of "r\<lparr>r_store := st0\<rparr>" st]] that(2) by simp
  have "daemon_reach (\<lambda>_. None) demo_cfg (demo_state\<lparr>r_store := empty_store\<rparr>)"
    using daemon_reach.start [of NewMock] by (simp add: demo_state_def NewReconciler_def mock_ok_def NewMock_def)
  then have "daemon_reach (\<lambda>_. None) demo_cfg (demo_state\<lparr>r_store := over_quota_store\<rparr>)"
    unfolding over_quota_store_def by (intro s [OF _ update_stats] s [OF _ create_peer] s [OF _ create_interface])
  then have "daemon_reach (\<lambda>_. None) demo_cfg demo_state" by (simp add: demo_state_def NewReconciler_def)
  then show ?thesis unfolding after_pass_def by (rule daemon_reach.step) (rule reconcile)
qed

theorem daemon_integrity_witness: "distinct (map d_Name (mock_Devices (r_backend after_pass)))"
  using daemon_integrity [OF after_pass_reach] by simp

text \<open>
  An exported configuration file reads back as what was exported: the parser accepts it, finds
  the interface's key, port and addresses, and for every peer its key, with its allowed networks if
  it is active and with none if it is suspended.
\<close>

theorem export_readable:
  assumes "conf_ok (export_config i ps)"
  shows "\<exists>c. Parse (Render (export_config i ps)) = Inr c
    \<and> ci_PrivateKey (cf_Interface c) = i_PrivateKey i \<and> ci_ListenPort (cf_Interface c) = i_ListenPort i
    \<and> ci_Address (cf_Interface c) = i_Addresses i
    \<and> map (\<lambda>q. (cp_PublicKey q, cp_AllowedIPs q, cp_TrafficLimit q, cp_ExpiresAt q)) (cf_Peers c)
      = map (\<lambda>p. (p_PublicKey p, if p_Suspended p then [] else p_AllowedIPs p, p_TrafficLimitBytes p, p_ExpiresAt p)) ps"
  unfolding parse_render [OF assms] by (simp add: export_config_def export_peer_def without_trailing_def tidy_def tidy_hooks_def
      flat_notes_def comp_def)

text \<open>What the exported file does not record: the backend, protocol, twin and AmneziaWG parameters.\<close>

lemma export_drops_amnezia:
  "export_config (i\<lparr>i_Backend := b, i_Protocol := q, i_AmneziaJSON := a, i_PairName := n, i_MuxPort := m\<rparr>) ps
     = export_config i ps"
  by (cases "i_TableID i") (simp_all add: export_config_def)

definition backup_iface :: db_interface where
  "backup_iface = zero_interface\<lparr>i_Name := ''wg0'', i_PrivateKey := ''k='', i_ListenPort := 51820,
     i_Addresses := [''10.0.0.1/24''], i_TableMode := ''auto''\<rparr>"

definition backup_peers :: "db_peer list" where
  "backup_peers = [zero_peer\<lparr>p_PublicKey := ''A='', p_AllowedIPs := [''10.0.0.2/32'']\<rparr>,
     zero_peer\<lparr>p_PublicKey := ''B='', p_AllowedIPs := [''10.0.0.3/32''], p_Suspended := True\<rparr>]"

theorem export_readable_witness:
  "map_option (\<lambda>c. map (\<lambda>q. (cp_PublicKey q, cp_AllowedIPs q)) (cf_Peers c))
     (case Parse (Render (export_config backup_iface backup_peers)) of Inl _ \<Rightarrow> None | Inr c \<Rightarrow> Some c)
   = Some [(''A='', [''10.0.0.2/32'']), (''B='', [])]"
proof -
  have c: "conf_ok (export_config backup_iface backup_peers)"
    by (simp add: export_config_def export_peer_def backup_iface_def backup_peers_def zero_interface_def
      zero_peer_def Confparse.demo_simps)
  from export_readable [OF c] show ?thesis
    by (auto simp: backup_peers_def zero_peer_def)
qed

end
