(* ===== verification/StoreMap.thy ===== *)
theory StoreMap
  imports StoreLaws
begin

text \<open>
  The two tables behind the peers (\<open>internal/db/peers.go\<close>, \<open>internal/db/interfaces.go\<close>) refine a finite
  map from the name of an interface and a public key to the peer's row: each operation of the store
  acts on that map as the abstract operation of the same name does.
\<close>

section \<open>Rows are determined by interface and key\<close>

text \<open>Finding a peer by name and key.\<close>

lemma GetPeerRow_Inr:
  "GetPeerRow n k st = Inr p \<Longrightarrow> p \<in> set (join_peers st) \<and> p_InterfaceName p = n \<and> p_PublicKey p = k"
  by (auto simp: GetPeerRow_def split: option.splits dest: find_SomeD)

lemma row_iface:
  assumes "db_ok st" "r \<in> set (s_peers st)"
  obtains i where "i \<in> set (s_ifaces st)" "i_ID i = p_InterfaceID r" "iface_name_of st (p_InterfaceID r) = Some (i_Name i)"
proof -
  have sub: "p_InterfaceID ` set (s_peers st) \<subseteq> i_ID ` set (s_ifaces st)" using assms(1) by (simp add: db_ok_def)
  obtain i where i: "i \<in> set (s_ifaces st)" "i_ID i = p_InterfaceID r"
    using subsetD [OF sub imageI [OF assms(2)]] by force
  then show thesis by (intro that) (auto simp: iface_name_of_iff [OF assms(1)])
qed

lemma names_unique:
  assumes "db_ok st" "p \<in> set (join_peers st)" "q \<in> set (join_peers st)"
    "p_InterfaceName p = p_InterfaceName q" "p_PublicKey p = p_PublicKey q"
  shows "p = q"
proof -
  obtain a b where ab: "a \<in> set (s_peers st)" "b \<in> set (s_peers st)"
    "p = a\<lparr>p_InterfaceName := the (iface_name_of st (p_InterfaceID a))\<rparr>"
    "q = b\<lparr>p_InterfaceName := the (iface_name_of st (p_InterfaceID b))\<rparr>"
    using assms(2,3) by (auto simp: join_peers_map [OF assms(1)])
  obtain i where i: "i \<in> set (s_ifaces st)" "i_ID i = p_InterfaceID a" "iface_name_of st (p_InterfaceID a) = Some (i_Name i)"
    by (rule row_iface [OF assms(1) ab(1)])
  obtain j where j: "j \<in> set (s_ifaces st)" "i_ID j = p_InterfaceID b" "iface_name_of st (p_InterfaceID b) = Some (i_Name j)"
    by (rule row_iface [OF assms(1) ab(2)])
  have "i_Name i = i_Name j" using assms(4) ab(3,4) i j by simp
  then have "i = j" using key_unique [of i_Name "s_ifaces st" i j] i(1) j(1) assms(1) by (simp add: db_ok_def)
  then have "p_InterfaceID a = p_InterfaceID b" using i j by simp
  then have "a = b" using key_unique [of "\<lambda>p. (p_InterfaceID p, p_PublicKey p)" "s_peers st" a b] ab assms(1,5)
    by (simp add: db_ok_def)
  then show ?thesis using ab by simp
qed

lemma GetPeerRow_iff:
  assumes "db_ok st"
  shows "GetPeerRow n k st = Inr p \<longleftrightarrow> p \<in> set (join_peers st) \<and> p_InterfaceName p = n \<and> p_PublicKey p = k"
proof
  assume p: "p \<in> set (join_peers st) \<and> p_InterfaceName p = n \<and> p_PublicKey p = k"
  show "GetPeerRow n k st = Inr p"
  proof (cases "find (\<lambda>q. p_InterfaceName q = n \<and> p_PublicKey q = k) (join_peers st)")
    case None
    then show ?thesis using p by (auto simp: find_None_iff)
  next
    case (Some q)
    then have q: "GetPeerRow n k st = Inr q" by (simp add: GetPeerRow_def)
    have "q = p" by (rule names_unique [OF assms]) (use GetPeerRow_Inr [OF q] p in auto)
    with q show ?thesis by simp
  qed
qed (rule GetPeerRow_Inr)


section \<open>The map\<close>

type_synonym peer_view = "string \<times> string \<rightharpoonup> db_peer"

definition peer_map :: "store \<Rightarrow> peer_view" where
  "peer_map st = (\<lambda>(n, k). case GetPeerRow n k st of Inl _ \<Rightarrow> None | Inr p \<Rightarrow> Some p)"

lemma peer_map_Some: "peer_map st (n, k) = Some p \<longleftrightarrow> GetPeerRow n k st = Inr p"
  by (simp add: peer_map_def split: sum.split)

lemma peer_map_iff:
  "db_ok st \<Longrightarrow> peer_map st x = Some p \<longleftrightarrow> p \<in> set (join_peers st) \<and> (p_InterfaceName p, p_PublicKey p) = x"
  by (cases x) (auto simp: peer_map_Some GetPeerRow_iff)

lemma peer_map_eqI:
  assumes "db_ok st" and "\<And>x p. m x = Some p \<longleftrightarrow> p \<in> set (join_peers st) \<and> (p_InterfaceName p, p_PublicKey p) = x"
  shows "peer_map st = m"
proof
  fix x show "peer_map st x = m x"
    using assms(2) [of x] peer_map_iff [OF assms(1), of x] by (metis not_Some_eq)
qed

lemma peer_map_cong: "s_ifaces st' = s_ifaces st \<Longrightarrow> s_peers st' = s_peers st \<Longrightarrow> peer_map st' = peer_map st"
  by (simp add: peer_map_def GetPeerRow_def join_peers_def iface_name_of_def fun_eq_iff)

lemma finite_peer_map:
  assumes "db_ok st" shows "finite (dom (peer_map st))"
proof -
  have "dom (peer_map st) \<subseteq> (\<lambda>p. (p_InterfaceName p, p_PublicKey p)) ` set (join_peers st)"
    by (auto simp: peer_map_iff [OF assms])
  then show ?thesis by (rule finite_subset) simp
qed

text \<open>Changing one row of the peers in place, by a change that leaves its interface alone.\<close>

lemma join_upd:
  assumes "\<And>p. p_InterfaceID (f p) = p_InterfaceID p" and "\<And>p n. (f p)\<lparr>p_InterfaceName := n\<rparr> = f (p\<lparr>p_InterfaceName := n\<rparr>)"
  shows "join_peers (st\<lparr>s_peers := upd_where p_ID k f (s_peers st)\<rparr>)
    = map (\<lambda>p. if p_ID p = k then f p else p) (join_peers st)"
proof -
  let ?g = "\<lambda>p. if p_ID p = k then f p else p"
    and ?J = "\<lambda>p. case iface_name_of st (p_InterfaceID p) of None \<Rightarrow> [] | Some n \<Rightarrow> [p\<lparr>p_InterfaceName := n\<rparr>]"
  have J: "?J (?g p) = map ?g (?J p)" for p
    by (simp add: assms split: option.split)
  have "concat (map ?J (map ?g ps)) = map ?g (concat (map ?J ps))" for ps
  proof (induction ps)
    case (Cons p ps)
    then show ?case unfolding list.map concat.simps map_append by (simp only: J)
  qed simp
  moreover have "iface_name_of (st\<lparr>s_peers := xs\<rparr>) = iface_name_of st" for xs
    by (simp add: iface_name_of_def fun_eq_iff)
  moreover have "s_peers (st\<lparr>s_peers := xs\<rparr>) = xs" for xs by simp
  ultimately show ?thesis by (simp only: join_peers_def upd_where_def)
qed

lemma join_row_unique: "db_ok st \<Longrightarrow> p \<in> set (join_peers st) \<Longrightarrow> q \<in> set (join_peers st) \<Longrightarrow> p_ID p = p_ID q \<Longrightarrow> p = q"
  by (rule key_unique [of p_ID "join_peers st"])
    (auto simp: join_peers_map comp_def db_ok_def intro: table_ok_distinct)

lemma peer_map_upd:
  assumes ok: "db_ok st" "db_ok (st\<lparr>s_peers := upd_where p_ID k f (s_peers st)\<rparr>)"
    and f: "\<And>p. p_InterfaceID (f p) = p_InterfaceID p" "\<And>p. p_InterfaceName (f p) = p_InterfaceName p"
      "\<And>p n. (f p)\<lparr>p_InterfaceName := n\<rparr> = f (p\<lparr>p_InterfaceName := n\<rparr>)" "\<And>p. p_PublicKey (f p) = p_PublicKey p"
  shows "peer_map (st\<lparr>s_peers := upd_where p_ID k f (s_peers st)\<rparr>)
    = (\<lambda>x. map_option (\<lambda>p. if p_ID p = k then f p else p) (peer_map st x))"
  by (rule peer_map_eqI [OF ok(2)]) (auto simp: join_upd f peer_map_iff [OF ok(1)])

lemma row_in_join: "list_ex (\<lambda>r. p_ID r = k) (s_peers st) \<longleftrightarrow> (\<exists>p\<in>set (join_peers st). p_ID p = k)" if "db_ok st"
  by (auto simp: list_ex_iff join_peers_map [OF that])

text \<open>
  The abstract operations.  A peer is updated under a key that must be free; the others change the row
  with a given identifier, or nothing.
\<close>

definition view_change :: "int \<Rightarrow> (db_peer \<Rightarrow> db_peer) \<Rightarrow> peer_view \<Rightarrow> peer_view" where
  "view_change k f m = (\<lambda>x. map_option (\<lambda>p. if p_ID p = k then f p else p) (m x))"

lemma view_change_absent:
  assumes "db_ok st" "\<not> list_ex (\<lambda>r. p_ID r = k) (s_peers st)"
  shows "view_change k f (peer_map st) = peer_map st"
proof
  fix x
  have "p_ID p \<noteq> k" if "peer_map st x = Some p" for p
    using that assms(2) by (auto simp: row_in_join [OF assms(1)] peer_map_iff [OF assms(1)])
  then show "view_change k f (peer_map st) x = peer_map st x"
    by (cases "peer_map st x") (simp_all add: view_change_def)
qed

definition view_create :: "string option \<Rightarrow> db_peer \<Rightarrow> peer_view \<Rightarrow> peer_view" where
  "view_create name p m = (case name of None \<Rightarrow> m
     | Some n \<Rightarrow> if m (n, p_PublicKey p) = None then m((n, p_PublicKey p) \<mapsto> p\<lparr>p_InterfaceName := n\<rparr>) else m)"

definition view_update :: "string \<Rightarrow> db_peer \<Rightarrow> db_peer \<Rightarrow> peer_view \<Rightarrow> peer_view" where
  "view_update n old new m = (if p_PublicKey new = p_PublicKey old \<or> m (n, p_PublicKey new) = None
     then (m((n, p_PublicKey old) := None))((n, p_PublicKey new) \<mapsto> new) else m)"

lemma view_SetPeerSuspended:
  assumes "db_ok st"
  shows "peer_map (snd (SetPeerSuspended now k b st)) = view_change k (\<lambda>p. p\<lparr>p_Suspended := b, p_UpdatedAt := now\<rparr>) (peer_map st)"
proof (cases "list_ex (\<lambda>r. p_ID r = k) (s_peers st)")
  case True
  then have e: "snd (SetPeerSuspended now k b st)
      = st\<lparr>s_peers := upd_where p_ID k (\<lambda>r. r\<lparr>p_Suspended := b, p_UpdatedAt := now\<rparr>) (s_peers st)\<rparr>"
    by (simp add: SetPeerSuspended_def)
  show ?thesis using SetPeerSuspended_ok [OF assms, of now k b] unfolding e view_change_def
    by (intro peer_map_upd [OF assms]) simp_all
next
  case False
  then show ?thesis by (simp add: SetPeerSuspended_def view_change_absent [OF assms])
qed

lemma view_SoftReset:
  assumes "db_ok st"
  shows "peer_map (snd (SoftResetPeerTraffic now k rx tx st))
    = view_change k (\<lambda>p. p\<lparr>p_RxBytesOffset := rx, p_TxBytesOffset := tx, p_UpdatedAt := now\<rparr>) (peer_map st)"
proof (cases "list_ex (\<lambda>r. p_ID r = k) (s_peers st)")
  case True
  then have e: "snd (SoftResetPeerTraffic now k rx tx st) = st\<lparr>s_peers := upd_where p_ID k
      (\<lambda>r. r\<lparr>p_RxBytesOffset := rx, p_TxBytesOffset := tx, p_UpdatedAt := now\<rparr>) (s_peers st)\<rparr>"
    by (simp add: SoftResetPeerTraffic_def)
  show ?thesis using SoftReset_ok [OF assms, of now k rx tx] unfolding e view_change_def
    by (intro peer_map_upd [OF assms]) simp_all
next
  case False
  then show ?thesis by (simp add: SoftResetPeerTraffic_def view_change_absent [OF assms])
qed

lemma view_UpdatePeerStats:
  assumes "db_ok st"
  shows "peer_map (UpdatePeerStats now p st) = view_change (p_ID p) (update_stats_row now p) (peer_map st)"
  using UpdatePeerStats_ok [OF assms, of now p] unfolding UpdatePeerStats_def view_change_def
  by (intro peer_map_upd [OF assms]) (simp_all add: update_stats_row_def)

text \<open>The unique constraint on a new row is that its place in the map is free.\<close>

lemma unique_view:
  assumes "db_ok st" "iface_name_of st (p_InterfaceID p) = Some n"
  shows "(\<exists>q\<in>set (s_peers st). p_InterfaceID q = p_InterfaceID p \<and> p_PublicKey q = p_PublicKey p)
    \<longleftrightarrow> peer_map st (n, p_PublicKey p) \<noteq> None"
proof -
  obtain i where i: "i \<in> set (s_ifaces st)" "i_ID i = p_InterfaceID p" "i_Name i = n"
    using assms(2) by (auto simp: iface_name_of_iff [OF assms(1)])
  have "p_InterfaceID q = p_InterfaceID p \<longleftrightarrow> the (iface_name_of st (p_InterfaceID q)) = n" if "q \<in> set (s_peers st)" for q
    using owned_by_name [OF assms(1) i(1) that] i(2,3) by simp
  then have "(\<exists>q\<in>set (s_peers st). p_InterfaceID q = p_InterfaceID p \<and> p_PublicKey q = p_PublicKey p)
      \<longleftrightarrow> (\<exists>q\<in>set (join_peers st). p_InterfaceName q = n \<and> p_PublicKey q = p_PublicKey p)"
    unfolding join_peers_map [OF assms(1)] by fastforce
  then show ?thesis using peer_map_iff [OF assms(1), of "(n, p_PublicKey p)"] by auto
qed

lemma CreatePeer_reply:
  assumes "db_ok st" "iface_name_of st (p_InterfaceID p) = Some n"
  shows "fst (CreatePeer now p st) = (if peer_map st (n, p_PublicKey p) = None
    then Inr (p\<lparr>p_ID := s_peer_seq st + 1, p_CreatedAt := now, p_UpdatedAt := now\<rparr>) else Inl UniqueFailed)"
proof (cases rule: CreatePeer_cases [of now p st])
  case orphan
  then show ?thesis using assms(2) by (auto simp: iface_name_of_iff [OF assms(1)])
qed (use unique_view [OF assms] in auto)

lemma view_CreatePeer:
  assumes "db_ok st"
  shows "peer_map (snd (CreatePeer now p st)) = view_create (iface_name_of st (p_InterfaceID p))
    (p\<lparr>p_ID := s_peer_seq st + 1, p_CreatedAt := now, p_UpdatedAt := now\<rparr>) (peer_map st)"
proof (cases "iface_name_of st (p_InterfaceID p)")
  case None
  then have "\<forall>i\<in>set (s_ifaces st). i_ID i \<noteq> p_InterfaceID p"
    using iface_name_of_iff [OF assms, of "p_InterfaceID p"] by auto
  then have "snd (CreatePeer now p st) = st" by (cases rule: CreatePeer_cases [of now p st]) auto
  then show ?thesis using None by (simp add: view_create_def)
next
  case n: (Some n)
  show ?thesis
  proof (cases rule: CreatePeer_cases [of now p st])
    case new
    let ?r = "p\<lparr>p_ID := s_peer_seq st + 1, p_CreatedAt := now, p_UpdatedAt := now\<rparr>" and ?st = "snd (CreatePeer now p st)"
    have ok: "db_ok ?st" by (rule CreatePeer_ok [OF assms])
    have nm: "iface_name_of ?st = iface_name_of st" by (simp add: new(1) iface_name_of_def fun_eq_iff)
    have j: "join_peers ?st = join_peers st @ [?r\<lparr>p_InterfaceName := n\<rparr>]"
      unfolding join_peers_map [OF ok] join_peers_map [OF assms] nm by (simp add: new(1) n)
    have free: "peer_map st (n, p_PublicKey p) = None" using unique_view [OF assms n] new(2) by auto
    then have out: "\<not> (p_InterfaceName q = n \<and> p_PublicKey q = p_PublicKey p)" if "q \<in> set (join_peers st)" for q
      using that peer_map_iff [OF assms, of "(n, p_PublicKey p)" q] by auto
    have v: "view_create (iface_name_of st (p_InterfaceID p)) ?r (peer_map st)
        = (peer_map st)((n, p_PublicKey p) \<mapsto> ?r\<lparr>p_InterfaceName := n\<rparr>)"
      using free by (simp add: view_create_def n)
    show ?thesis unfolding v
      by (rule peer_map_eqI [OF ok]) (use out in \<open>auto simp: j peer_map_iff [OF assms]\<close>)
  next
    case dup
    then show ?thesis using unique_view [OF assms n] by (auto simp: view_create_def n)
  next
    case orphan
    then show ?thesis using n by (auto simp: iface_name_of_iff [OF assms])
  qed
qed

lemma view_DeletePeer:
  assumes "db_ok st"
  shows "peer_map (snd (DeletePeer n k st)) = (peer_map st)((n, k) := None)"
proof (cases "GetPeerRow n k st")
  case (Inl e)
  then have "peer_map st (n, k) = None" by (simp add: peer_map_def)
  then show ?thesis using Inl by (simp add: DeletePeer_def fun_upd_idem)
next
  case (Inr p)
  let ?st = "snd (DeletePeer n k st)"
  have p: "p \<in> set (join_peers st)" "p_InterfaceName p = n" "p_PublicKey p = k" using GetPeerRow_Inr [OF Inr] by auto
  have ok: "db_ok ?st" by (rule DeletePeer_ok [OF assms])
  have st: "s_ifaces ?st = s_ifaces st" "s_peers ?st = filter (\<lambda>r. p_ID r \<noteq> p_ID p) (s_peers st)"
    using Inr by (simp_all add: DeletePeer_def DeletePeerSamples_def)
  then have "join_peers ?st = filter (\<lambda>r. p_ID r \<noteq> p_ID p) (join_peers st)"
    unfolding join_peers_map [OF ok] join_peers_map [OF assms] by (simp add: iface_name_of_def filter_map comp_def)
  then have j: "q \<in> set (join_peers ?st) \<longleftrightarrow> q \<in> set (join_peers st) \<and> q \<noteq> p" for q
    using join_row_unique [OF assms _ p(1), of q] by auto
  have uniq: "q = p" if "q \<in> set (join_peers st)" "p_InterfaceName q = n" "p_PublicKey q = k" for q
    by (rule names_unique [OF assms that(1) p(1)]) (simp_all add: that p)
  have "((peer_map st)((n, k) := None)) x = Some q \<longleftrightarrow>
      q \<in> set (join_peers ?st) \<and> (p_InterfaceName q, p_PublicKey q) = x" for x q
  proof (cases "x = (n, k)")
    case True
    then show ?thesis using uniq [of q] by (auto simp: j)
  next
    case False
    then show ?thesis using p by (auto simp: j peer_map_iff [OF assms])
  qed
  then show ?thesis by (rule peer_map_eqI [OF ok])
qed

lemma view_UpdatePeer:
  assumes "db_ok st" and "peer_map st (n, k) = Some old" and "p_ID p = p_ID old"
  shows "peer_map (snd (UpdatePeer now p st)) = view_update n old (update_peer_row now p old) (peer_map st)"
    and "fst (UpdatePeer now p st) = (if p_PublicKey p = k \<or> peer_map st (n, p_PublicKey p) = None
      then Inr (p\<lparr>p_UpdatedAt := now\<rparr>) else Inl UniqueFailed)"
proof -
  have old: "old \<in> set (join_peers st)" "p_InterfaceName old = n" "p_PublicKey old = k"
    using assms(2) by (auto simp: peer_map_iff [OF assms(1)])
  have uniq: "q = old" if "q \<in> set (join_peers st)" "p_InterfaceName q = n" "p_PublicKey q = k" for q
    by (rule names_unique [OF assms(1) that(1) old(1)]) (simp_all add: that old)
  let ?N = "\<lambda>r. r\<lparr>p_InterfaceName := the (iface_name_of st (p_InterfaceID r))\<rparr>"
  obtain r where r: "r \<in> set (s_peers st)" "old = ?N r" using old(1) by (auto simp: join_peers_map [OF assms(1)])
  have dist: "distinct (map p_ID (s_peers st))" using assms(1) by (auto simp: db_ok_def intro: table_ok_distinct)
  have f: "find (\<lambda>r. p_ID r = p_ID p) (s_peers st) = Some r"
    using r assms(3) by (simp add: find_key [OF dist])
  let ?dup = "list_ex (\<lambda>q. p_ID q \<noteq> p_ID p \<and> p_InterfaceID q = p_InterfaceID r \<and> p_PublicKey q = p_PublicKey p) (s_peers st)"
  obtain i where row: "i \<in> set (s_ifaces st)" "i_ID i = p_InterfaceID r" "iface_name_of st (p_InterfaceID r) = Some (i_Name i)"
    by (rule row_iface [OF assms(1) r(1)])
  have "i_Name i = n" using old(2) unfolding r(2) row(3) by simp
  note i = row(1,2) this
  have dup: "?dup \<longleftrightarrow> \<not> (p_PublicKey p = k \<or> peer_map st (n, p_PublicKey p) = None)"
  proof -
    have "?dup \<longleftrightarrow> (\<exists>q\<in>set (join_peers st). p_ID q \<noteq> p_ID old \<and> p_InterfaceName q = n \<and> p_PublicKey q = p_PublicKey p)"
    proof -
      have "p_InterfaceID q = p_InterfaceID r \<longleftrightarrow> the (iface_name_of st (p_InterfaceID q)) = n" if "q \<in> set (s_peers st)" for q
        using owned_by_name [OF assms(1) i(1) that] i(2,3) by simp
      then show ?thesis unfolding list_ex_iff join_peers_map [OF assms(1)] assms(3) by fastforce
    qed
    also have "\<dots> \<longleftrightarrow> (\<exists>q. peer_map st (n, p_PublicKey p) = Some q \<and> q \<noteq> old)"
      using join_row_unique [OF assms(1) _ old(1)] by (auto simp: peer_map_iff [OF assms(1)])
    also have "\<dots> \<longleftrightarrow> \<not> (p_PublicKey p = k \<or> peer_map st (n, p_PublicKey p) = None)"
      using assms(2) old(3) uniq by (auto simp: peer_map_iff [OF assms(1)])
    finally show ?thesis .
  qed
  show "fst (UpdatePeer now p st) = (if p_PublicKey p = k \<or> peer_map st (n, p_PublicKey p) = None
      then Inr (p\<lparr>p_UpdatedAt := now\<rparr>) else Inl UniqueFailed)"
    using f dup by (simp add: UpdatePeer_def)
  show "peer_map (snd (UpdatePeer now p st)) = view_update n old (update_peer_row now p old) (peer_map st)"
  proof (cases ?dup)
    case True
    then show ?thesis using f dup old(3) by (auto simp: UpdatePeer_def view_update_def update_peer_row_def)
  next
    case False
    define u where "u = update_peer_row now p old"
    let ?st = "snd (UpdatePeer now p st)"
    have st: "?st = st\<lparr>s_peers := upd_where p_ID (p_ID p) (update_peer_row now p) (s_peers st)\<rparr>"
      using f False by (simp add: UpdatePeer_def)
    have ok: "db_ok ?st" by (rule UpdatePeer_ok [OF assms(1)])
    have "join_peers ?st = map (\<lambda>q. if p_ID q = p_ID p then update_peer_row now p q else q) (join_peers st)"
      unfolding st by (rule join_upd) (simp_all add: update_peer_row_def)
    then have j: "q \<in> set (join_peers ?st) \<longleftrightarrow> q \<in> set (join_peers st) \<and> q \<noteq> old \<or> q = u" for q
    proof -
      assume e: "join_peers ?st = map (\<lambda>q. if p_ID q = p_ID p then update_peer_row now p q else q) (join_peers st)"
      have "(if p_ID a = p_ID p then update_peer_row now p a else a) = (if a = old then u else a)"
        if "a \<in> set (join_peers st)" for a
        using join_row_unique [OF assms(1) that old(1)] assms(3) by (auto simp: u_def)
      then have "set (join_peers ?st) = (\<lambda>a. if a = old then u else a) ` set (join_peers st)"
        unfolding e set_map by (rule image_cong [OF refl])
      then show ?thesis using old(1) by auto
    qed
    have k: "p_InterfaceName u = n" "p_PublicKey u = p_PublicKey p" using old by (simp_all add: u_def update_peer_row_def)
    have free: "p_PublicKey p = k \<or> peer_map st (n, p_PublicKey p) = None" using False unfolding dup by simp
    have "((peer_map st)((n, k) := None, (n, p_PublicKey p) \<mapsto> u)) x = Some q \<longleftrightarrow>
        q \<in> set (join_peers ?st) \<and> (p_InterfaceName q, p_PublicKey q) = x" for x q
    proof -
      have none: "q \<notin> set (join_peers st) \<or> p_InterfaceName q \<noteq> n \<or> p_PublicKey q \<noteq> p_PublicKey p \<or> q = old" for q
        using free uniq [of q] peer_map_iff [OF assms(1), of "(n, p_PublicKey p)" q] by auto
      show ?thesis
      proof (cases "x = (n, p_PublicKey p)")
        case True
        then show ?thesis using k none [of q] by (auto simp: j)
      next
        case x: False
        show ?thesis
        proof (cases "x = (n, k)")
          case True
          then show ?thesis using x k uniq [of q] by (auto simp: j)
        next
          case False
          then show ?thesis using x k old(2,3) by (auto simp: j peer_map_iff [OF assms(1)])
        qed
      qed
    qed
    then have "peer_map ?st = (peer_map st)((n, k) := None, (n, p_PublicKey p) \<mapsto> u)" by (rule peer_map_eqI [OF ok])
    then show ?thesis using free old(3) k by (simp add: view_update_def u_def)
  qed
qed

lemma view_DeleteInterface:
  assumes "db_ok st"
  shows "peer_map (snd (DeleteInterface n st)) = peer_map st |` {x. fst x \<noteq> n}"
proof (cases "n \<in> i_Name ` set (s_ifaces st)")
  case True
  then obtain i where i: "i \<in> set (s_ifaces st)" "i_Name i = n" by auto
  note d = DeleteInterface_spec [OF assms i]
  let ?st = "snd (DeleteInterface n st)"
  have ok: "db_ok ?st" by (rule DeleteInterface_ok [OF assms])
  have own: "p_InterfaceID q = i_ID i \<longleftrightarrow> the (iface_name_of st (p_InterfaceID q)) = n" if "q \<in> set (s_peers st)" for q
    using owned_by_name [OF assms i(1) that] i(2) by simp
  have nm: "iface_name_of ?st (p_InterfaceID q) = iface_name_of st (p_InterfaceID q)"
    if q: "q \<in> set (s_peers st)" "p_InterfaceID q \<noteq> i_ID i" for q
  proof -
    obtain j where j: "j \<in> set (s_ifaces st)" "i_ID j = p_InterfaceID q" "iface_name_of st (p_InterfaceID q) = Some (i_Name j)"
      by (rule row_iface [OF assms q(1)])
    have "i_Name j \<noteq> n" using own [OF q(1)] q(2) j(3) by simp
    then have "iface_name_of ?st (p_InterfaceID q) = Some (i_Name j)"
      unfolding iface_name_of_iff [OF ok] using j(1,2) by (auto simp: d)
    then show ?thesis using j(3) by simp
  qed
  have ps: "s_peers ?st = filter (\<lambda>q. the (iface_name_of st (p_InterfaceID q)) \<noteq> n) (s_peers st)"
    using own by (auto simp: d intro: filter_cong)
  have "join_peers ?st = filter (\<lambda>q. p_InterfaceName q \<noteq> n) (join_peers st)"
    unfolding join_peers_map [OF ok] join_peers_map [OF assms] ps filter_map comp_def
    by (intro map_cong) (use nm own in auto)
  then show ?thesis by (intro peer_map_eqI [OF ok]) (auto simp: restrict_map_def peer_map_iff [OF assms])
next
  case False
  then have "snd (DeleteInterface n st) = st" by (auto simp: DeleteInterface_def Let_def filter_empty_conv)
  moreover have "peer_map st x = None" if n: "fst x = n" for x
  proof (rule ccontr)
    assume "peer_map st x \<noteq> None"
    then obtain p where p: "p \<in> set (join_peers st)" "p_InterfaceName p = n" using n by (cases x) (auto simp: peer_map_iff [OF assms])
    then obtain r where r: "r \<in> set (s_peers st)" "n = the (iface_name_of st (p_InterfaceID r))" by (auto simp: join_peers_map [OF assms])
    then show False using False row_iface [OF assms r(1)] by (metis image_eqI option.sel)
  qed
  then have "peer_map st |` {x. fst x \<noteq> n} = peer_map st" by (auto simp: restrict_map_def fun_eq_iff)
  ultimately show ?thesis by simp
qed

text \<open>
  C4. The peers and interfaces tables refine a finite map from interface name and public key to peer:
  in every reachable store a lookup, the peers of an interface and the list of all peers are what the
  map says, and creating, updating (also under a new key), deleting, suspending, resetting and
  sampling a peer, and deleting an interface, change the map exactly as the abstract operations do.
\<close>

theorem store_refines_map:
  assumes "db_reach st"
  shows "finite (dom (peer_map st))
    \<and> GetPeerRow n k st = (case peer_map st (n, k) of None \<Rightarrow> Inl NotFound | Some p \<Rightarrow> Inr p)
    \<and> set (ListPeersByInterface n st) = {p. \<exists>k. peer_map st (n, k) = Some p}
    \<and> set (ListAllPeers st) = ran (peer_map st)
    \<and> peer_map (snd (CreatePeer now p st)) = view_create (iface_name_of st (p_InterfaceID p))
        (p\<lparr>p_ID := s_peer_seq st + 1, p_CreatedAt := now, p_UpdatedAt := now\<rparr>) (peer_map st)
    \<and> (case peer_map st (n, k) of None \<Rightarrow> True
       | Some old \<Rightarrow> peer_map (snd (UpdatePeer now (p\<lparr>p_ID := p_ID old\<rparr>) st))
           = view_update n old (update_peer_row now p old) (peer_map st))
    \<and> peer_map (snd (DeletePeer n k st)) = (peer_map st)((n, k) := None)
    \<and> peer_map (snd (SetPeerSuspended now i b st))
        = view_change i (\<lambda>p. p\<lparr>p_Suspended := b, p_UpdatedAt := now\<rparr>) (peer_map st)
    \<and> peer_map (snd (SoftResetPeerTraffic now i rx tx st))
        = view_change i (\<lambda>p. p\<lparr>p_RxBytesOffset := rx, p_TxBytesOffset := tx, p_UpdatedAt := now\<rparr>) (peer_map st)
    \<and> peer_map (UpdatePeerStats now p st) = view_change (p_ID p) (update_stats_row now p) (peer_map st)
    \<and> peer_map (snd (DeleteInterface n st)) = peer_map st |` {x. fst x \<noteq> n}"
proof (intro conjI)
  note ok = db_reach_ok [OF assms]
  show "GetPeerRow n k st = (case peer_map st (n, k) of None \<Rightarrow> Inl NotFound | Some p \<Rightarrow> Inr p)"
    by (auto simp: peer_map_def GetPeerRow_def split: sum.split option.split)
  show "set (ListPeersByInterface n st) = {p. \<exists>k. peer_map st (n, k) = Some p}"
    by (auto simp: set_ListPeers peer_map_iff [OF ok])
  show "set (ListAllPeers st) = ran (peer_map st)"
    by (auto simp: ListAllPeers_def ran_def peer_map_iff [OF ok])
  show "case peer_map st (n, k) of None \<Rightarrow> True
     | Some old \<Rightarrow> peer_map (snd (UpdatePeer now (p\<lparr>p_ID := p_ID old\<rparr>) st)) = view_update n old (update_peer_row now p old) (peer_map st)"
  proof (cases "peer_map st (n, k)")
    case (Some old)
    have "update_peer_row now (p\<lparr>p_ID := p_ID old\<rparr>) old = update_peer_row now p old" by (simp add: update_peer_row_def)
    then show ?thesis using view_UpdatePeer(1) [OF ok Some, of "p\<lparr>p_ID := p_ID old\<rparr>" now] Some by simp
  qed simp
qed (simp_all add: db_reach_ok [OF assms] finite_peer_map view_CreatePeer view_DeletePeer view_SetPeerSuspended
  view_SoftReset view_UpdatePeerStats view_DeleteInterface)

theorem store_refines_map_witness:
  "peer_map (snd (DeleteInterface ''wg0'' demo_store)) = peer_map demo_store |` {x. fst x \<noteq> ''wg0''}"
  using store_refines_map [OF demo_reach, of "''wg0''"] by blast

section \<open>Interfaces by name\<close>

type_synonym iface_view = "string \<rightharpoonup> db_interface"

definition iface_map :: "store \<Rightarrow> iface_view" where
  "iface_map st = (\<lambda>n. case GetInterfaceByName n st of Inl _ \<Rightarrow> None | Inr i \<Rightarrow> Some i)"

lemma iface_map_Some: "iface_map st n = Some i \<longleftrightarrow> GetInterfaceByName n st = Inr i"
  by (simp add: iface_map_def split: sum.split)

lemma iface_map_None: "iface_map st n = None \<longleftrightarrow> n \<notin> i_Name ` set (s_ifaces st)"
  using GetInterfaceByName_none [of n st] by (auto simp: iface_map_def split: sum.splits)

lemma absent_iface: "iface_map st n = None \<Longrightarrow> GetInterfaceByName n st = Inl NotFound"
  by (auto simp: iface_map_def GetInterfaceByName_def split: sum.splits option.splits)

lemma iface_map_iff:
  "db_ok st \<Longrightarrow> iface_map st n = Some i \<longleftrightarrow> (\<exists>r\<in>set (s_ifaces st). i_Name r = n \<and> i = scanInterface r)"
  by (simp add: iface_map_Some GetInterfaceByName_iff)

lemma iface_map_eqI:
  assumes "db_ok st" and "\<And>n i. m n = Some i \<longleftrightarrow> (\<exists>r\<in>set (s_ifaces st). i_Name r = n \<and> i = scanInterface r)"
  shows "iface_map st = m"
proof
  fix n show "iface_map st n = m n"
    using assms(2) [of n] iface_map_iff [OF assms(1), of n] by (metis not_Some_eq)
qed

lemma iface_map_cong: "s_ifaces st' = s_ifaces st \<Longrightarrow> iface_map st' = iface_map st"
  by (simp add: iface_map_def GetInterfaceByName_def fun_eq_iff)

lemma scan_simps [simp]: "i_Name (scanInterface i) = i_Name i" "i_ID (scanInterface i) = i_ID i"
  "scanInterface (scanInterface i) = scanInterface i"
  by (simp_all add: scanInterface_def) (simp add: iface_defaults_def)

text \<open>The peers do not change when the interface table changes and names keep their meaning.\<close>

lemma peer_map_names:
  assumes "db_ok st" "db_ok st'" "s_peers st' = s_peers st"
    "\<And>p. p \<in> set (s_peers st) \<Longrightarrow> iface_name_of st' (p_InterfaceID p) = iface_name_of st (p_InterfaceID p)"
  shows "peer_map st' = peer_map st"
proof -
  have "join_peers st' = join_peers st"
    unfolding join_peers_map [OF assms(1)] join_peers_map [OF assms(2)] assms(3) using assms(4) by simp
  then show ?thesis by (simp add: peer_map_def GetPeerRow_def fun_eq_iff)
qed

definition new_iface :: "gotime \<Rightarrow> store \<Rightarrow> db_interface \<Rightarrow> db_interface" where
  "new_iface now st i = (iface_defaults (table_default i))\<lparr>i_ID := s_iface_seq st + 1, i_CreatedAt := now, i_UpdatedAt := now\<rparr>"

lemma new_iface_name [simp]: "i_Name (new_iface now st i) = i_Name i"
  by (simp add: new_iface_def)

lemma view_CreateInterface:
  assumes "db_ok st"
  shows "if iface_map st (i_Name i) = None
    then fst (CreateInterface now i st) = Inr (new_iface now st i)
      \<and> iface_map (snd (CreateInterface now i st)) = (iface_map st)(i_Name i \<mapsto> scanInterface (new_iface now st i))
      \<and> peer_map (snd (CreateInterface now i st)) = peer_map st
    else CreateInterface now i st = (Inl UniqueFailed, st)"
proof (cases "iface_map st (i_Name i) = None")
  case False
  then show ?thesis by (auto simp: iface_map_None CreateInterface_def list_ex_iff Let_def)
next
  case True
  let ?r = "new_iface now st i" and ?st = "snd (CreateInterface now i st)"
  have free: "\<not> list_ex (\<lambda>r. i_Name r = i_Name i) (s_ifaces st)"
    using True image_eqI [of _ i_Name] by (fastforce simp: iface_map_None list_ex_iff)
  then have c: "CreateInterface now i st = (Inr ?r, st\<lparr>s_ifaces := s_ifaces st @ [?r], s_iface_seq := s_iface_seq st + 1\<rparr>)"
    by (simp add: CreateInterface_def insert_iface_def new_iface_def Let_def)
  have ok: "db_ok ?st" by (rule CreateInterface_ok [OF assms])
  have "iface_map ?st = (iface_map st)(i_Name i \<mapsto> scanInterface ?r)"
    using free by (intro iface_map_eqI [OF ok]) (auto simp: c iface_map_iff [OF assms] list_ex_iff)
  moreover have "peer_map ?st = peer_map st"
  proof (rule peer_map_names [OF assms ok])
    fix p assume "p \<in> set (s_peers st)"
    then obtain j where j: "j \<in> set (s_ifaces st)" "i_ID j = p_InterfaceID p" "iface_name_of st (p_InterfaceID p) = Some (i_Name j)"
      by (rule row_iface [OF assms])
    then show "iface_name_of ?st (p_InterfaceID p) = iface_name_of st (p_InterfaceID p)"
      unfolding j(3) iface_name_of_iff [OF ok] by (auto simp: c)
  qed (simp add: c)
  ultimately show ?thesis using True c by simp
qed

lemma view_UpdateInterface:
  assumes "db_ok st" "iface_map st n = Some old" "i_ID i = i_ID old" "i_Name i = n"
  shows "fst (UpdateInterface now i st) = Inr ((iface_defaults i)\<lparr>i_UpdatedAt := now\<rparr>)"
    and "iface_map (snd (UpdateInterface now i st)) = (iface_map st)(n \<mapsto> scanInterface (i\<lparr>i_CreatedAt := i_CreatedAt old, i_UpdatedAt := now\<rparr>))"
    and "peer_map (snd (UpdateInterface now i st)) = peer_map st"
proof -
  obtain r where r: "r \<in> set (s_ifaces st)" "i_Name r = n" "old = scanInterface r"
    using assms(2) by (auto simp: iface_map_iff [OF assms(1)])
  have id: "i_ID i = i_ID r" using assms(3) r(3) by simp
  let ?st = "snd (UpdateInterface now i st)" and ?f = "update_iface_row now (iface_defaults i)"
  have ex: "list_ex (\<lambda>q. i_ID q = i_ID i) (s_ifaces st)" using r(1) id by (auto simp: list_ex_iff)
  then show "fst (UpdateInterface now i st) = Inr ((iface_defaults i)\<lparr>i_UpdatedAt := now\<rparr>)"
    by (simp add: UpdateInterface_def Let_def)
  have st: "?st = st\<lparr>s_ifaces := upd_where i_ID (i_ID i) ?f (s_ifaces st)\<rparr>"
    using ex by (simp add: UpdateInterface_def Let_def)
  have ok: "db_ok ?st" by (rule UpdateInterface_ok [OF assms(1)])
  have d: "distinct (map i_ID (s_ifaces st))" using assms(1) by (auto simp: db_ok_def intro: table_ok_distinct)
  have set: "set (s_ifaces ?st) = (\<lambda>q. if q = r then ?f r else q) ` set (s_ifaces st)"
  proof -
    have "(if i_ID q = i_ID i then ?f q else q) = (if q = r then ?f r else q)" if "q \<in> set (s_ifaces st)" for q
      using key_unique [OF d that r(1)] id by auto
    then show ?thesis unfolding st by (simp add: set_upd_where)
  qed
  have row: "scanInterface (?f r) = scanInterface (i\<lparr>i_CreatedAt := i_CreatedAt old, i_UpdatedAt := now\<rparr>)"
    using id r assms(4) by (cases i) (simp add: scanInterface_def iface_defaults_def update_iface_row_def)
  have uniq: "q = r" if "q \<in> set (s_ifaces st)" "i_Name q = n" for q
    using key_unique [of i_Name "s_ifaces st" q r] that r assms(1) by (simp add: db_ok_def)
  have nf: "i_Name (?f r) = n" using r(2) by simp
  show "iface_map ?st = (iface_map st)(n \<mapsto> scanInterface (i\<lparr>i_CreatedAt := i_CreatedAt old, i_UpdatedAt := now\<rparr>))"
  proof (rule iface_map_eqI [OF ok])
    fix m j
    have "(\<exists>q\<in>set (s_ifaces ?st). i_Name q = m \<and> j = scanInterface q) \<longleftrightarrow>
        (m = n \<and> j = scanInterface (?f r)) \<or> (\<exists>q\<in>set (s_ifaces st). q \<noteq> r \<and> i_Name q = m \<and> j = scanInterface q)"
      unfolding set using r(1) nf by auto
    then show "((iface_map st)(n \<mapsto> scanInterface (i\<lparr>i_CreatedAt := i_CreatedAt old, i_UpdatedAt := now\<rparr>))) m = Some j
        \<longleftrightarrow> (\<exists>q\<in>set (s_ifaces ?st). i_Name q = m \<and> j = scanInterface q)"
      using uniq r(2) by (cases "m = n") (auto simp: row iface_map_iff [OF assms(1)])
  qed
  have im: "(\<lambda>x. (i_ID x, i_Name x)) ` set (s_ifaces ?st) = (\<lambda>x. (i_ID x, i_Name x)) ` set (s_ifaces st)"
    unfolding st by (simp add: image_upd_where)
  have pair: "(\<exists>x\<in>X. i_ID x = a \<and> i_Name x = b) \<longleftrightarrow> (a, b) \<in> (\<lambda>x. (i_ID x, i_Name x)) ` X" for a b X by auto
  have "iface_name_of ?st k = Some m \<longleftrightarrow> iface_name_of st k = Some m" for k m
    unfolding iface_name_of_iff [OF ok] iface_name_of_iff [OF assms(1)] pair im ..
  then have "iface_name_of ?st k = iface_name_of st k" for k by (metis not_Some_eq)
  then show "peer_map ?st = peer_map st" by (intro peer_map_names [OF assms(1) ok]) (simp_all add: st)
qed

lemma view_DeleteInterface_ifaces:
  assumes "db_ok st"
  shows "iface_map (snd (DeleteInterface n st)) = (iface_map st)(n := None)"
    and "fst (DeleteInterface n st) = (if iface_map st n = None then Inl NotFound else Inr ())"
proof -
  have ok: "db_ok (snd (DeleteInterface n st))" by (rule DeleteInterface_ok [OF assms])
  show "fst (DeleteInterface n st) = (if iface_map st n = None then Inl NotFound else Inr ())"
    by (auto simp: DeleteInterface_def Let_def iface_map_None filter_empty_conv)
  have "set (s_ifaces (snd (DeleteInterface n st))) = {i \<in> set (s_ifaces st). i_Name i \<noteq> n}"
    by (auto simp: DeleteInterface_def Let_def DeletePeersSamples_eq filter_empty_conv)
  then show "iface_map (snd (DeleteInterface n st)) = (iface_map st)(n := None)"
    by (intro iface_map_eqI [OF ok]) (auto simp: iface_map_iff [OF assms])
qed

lemma peers_of_view: "db_ok st \<Longrightarrow> peer_map st (n, k) = Some p \<longleftrightarrow> p \<in> set (peers_of n st) \<and> p_PublicKey p = k"
  by (auto simp: peer_map_iff peers_of_def)

lemma others_view: "db_ok st \<Longrightarrow> fst x \<noteq> n \<Longrightarrow> peer_map st x = Some p \<longleftrightarrow> p \<in> set (others n st) \<and> (p_InterfaceName p, p_PublicKey p) = x"
  by (cases x) (auto simp: peer_map_iff others_def)

text \<open>A successful import: its interface and its peers, everything else as it was.\<close>

lemma view_ImportInterface:
  assumes "db_ok st"
  shows "if distinct (map p_PublicKey ps)
    then fst (ImportInterface now i ps st) = Inr () \<and> (let st' = snd (ImportInterface now i ps st) in
      (\<forall>n. n \<noteq> i_Name i \<longrightarrow> iface_map st' n = iface_map st n)
      \<and> (\<exists>k c. iface_map st' (i_Name i) = Some (scanInterface ((iface_defaults (table_default i))\<lparr>i_ID := k, i_CreatedAt := c, i_UpdatedAt := now\<rparr>)))
      \<and> (\<forall>x. fst x \<noteq> i_Name i \<longrightarrow> peer_map st' x = peer_map st x)
      \<and> (\<exists>k. ListPeersByInterface (i_Name i) st' = sort_key (\<lambda>p. (p_Name p, p_PublicKey p))
          (map (\<lambda>p. p\<lparr>p_InterfaceName := i_Name i\<rparr>) (new_rows now k (s_peer_seq st) ps))))
    else ImportInterface now i ps st = (Inl UniqueFailed, st)"
proof (cases "distinct (map p_PublicKey ps)")
  case False
  obtain k st1 where "import_iface now i st = (k, st1)" by force
  from ImportInterface_eq [OF assms this, of ps] False show ?thesis by simp
next
  case True
  obtain k st' where I: "ImportInterface now i ps st = (Inr (), st')" "db_ok st'"
    "others (i_Name i) st' = others (i_Name i) st"
    "peers_of (i_Name i) st' = map (\<lambda>p. p\<lparr>p_InterfaceName := i_Name i\<rparr>) (new_rows now k (s_peer_seq st) ps)"
    "filter (\<lambda>r. i_Name r \<noteq> i_Name i) (s_ifaces st') = filter (\<lambda>r. i_Name r \<noteq> i_Name i) (s_ifaces st)"
    "\<exists>r\<in>set (s_ifaces st'). r = (iface_defaults (table_default i))\<lparr>i_ID := k, i_CreatedAt := i_CreatedAt r, i_UpdatedAt := now\<rparr>"
    by (rule import_spec [OF assms True])
  have "iface_map st' n = iface_map st n" if "n \<noteq> i_Name i" for n
  proof -
    have "r \<in> set (s_ifaces st') \<longleftrightarrow> r \<in> set (s_ifaces st)" if "i_Name r = n" for r
      using arg_cong [OF I(5), of set] that \<open>n \<noteq> i_Name i\<close> by auto
    then show ?thesis using iface_map_iff [OF assms, of n] iface_map_iff [OF I(2), of n] by (metis not_Some_eq)
  qed
  moreover have "\<exists>k c. iface_map st' (i_Name i) = Some (scanInterface ((iface_defaults (table_default i))\<lparr>i_ID := k, i_CreatedAt := c, i_UpdatedAt := now\<rparr>))"
  proof -
    obtain r where r: "r \<in> set (s_ifaces st')" "r = (iface_defaults (table_default i))\<lparr>i_ID := k, i_CreatedAt := i_CreatedAt r, i_UpdatedAt := now\<rparr>"
      using I(6) by blast
    have "i_Name r = i_Name i" using arg_cong [OF r(2), of i_Name] by simp
    then have "iface_map st' (i_Name i) = Some (scanInterface r)" using r(1) by (auto simp: iface_map_iff [OF I(2)])
    then show ?thesis using arg_cong [OF r(2), of scanInterface] by metis
  qed
  moreover have "peer_map st' x = peer_map st x" if "fst x \<noteq> i_Name i" for x
    using others_view [OF assms that] others_view [OF I(2) that] I(3) by (metis not_Some_eq)
  ultimately show ?thesis using True I(1,4) by (auto simp: Let_def ListPeersByInterface_def peers_of_def [symmetric])
qed

end
