(* ===== verification/ApiLaws.thy ===== *)
theory ApiLaws
  imports ApiPeers ReconcilerDevices StoreMap
begin

text \<open>
  What the peer handlers guarantee: each acts on the map of peers of \<open>StoreMap\<close> as specified, with the
  reconciler's enforcement applied, and leaves the device of its interface mirroring the database.
\<close>

section \<open>The devices mirror the database\<close>

lemma insort_key_map: "insort_key k (g x) (map g xs) = map g (insort_key (\<lambda>x. k (g x)) x xs)"
  by (induction xs) auto

lemma sort_key_map: "sort_key k (map g xs) = map g (sort_key (\<lambda>x. k (g x)) xs)"
  by (induction xs) (simp_all add: insort_key_map)

text \<open>A change of the joined rows that keeps their static columns changes each list of peers in place.\<close>

lemma ListPeers_map:
  assumes "join_peers st' = map g (join_peers st)" and "\<And>p. p \<in> set (join_peers st) \<Longrightarrow> static (g p) = static p"
  shows "ListPeersByInterface n st' = map g (ListPeersByInterface n st)"
proof -
  define h where "h = (\<lambda>p. if p \<in> set (join_peers st) then g p else p)"
  have j: "join_peers st' = map h (join_peers st)" using assms(1) by (simp add: h_def)
  have s: "p_InterfaceName (h p) = p_InterfaceName p" "p_Name (h p) = p_Name p" "p_PublicKey (h p) = p_PublicKey p" for p
    using assms(2) [of p] static_fields [of "g p" p] by (auto simp: h_def)
  have "ListPeersByInterface n st' = map h (ListPeersByInterface n st)"
    by (simp add: ListPeersByInterface_def j filter_map comp_def sort_key_map s)
  also have "\<dots> = map g (ListPeersByInterface n st)"
    by (auto simp: h_def ListPeersByInterface_def)
  finally show ?thesis .
qed

lemma run_lists:
  assumes "db_ok (r_store r)"
  obtains g where "ListPeersByInterface n (r_store (run ops um cfg now r)) = map g (ListPeersByInterface n (r_store r))"
    "\<And>p. p \<in> set (ListPeersByInterface n (r_store r)) \<Longrightarrow> static (g p) = static p
      \<and> p_Suspended (g p) = (p_Suspended p \<or> \<not> ReservedHostInterface n \<and> ShouldAutoSuspendAt p now)"
proof -
  obtain g where j: "join_peers (r_store (run ops um cfg now r)) = map g (join_peers (r_store r))"
    and g: "\<And>p. p \<in> set (join_peers (r_store r)) \<Longrightarrow> static (g p) = static p
      \<and> p_Suspended (g p) = (p_Suspended p \<or> \<not> ReservedHostInterface (p_InterfaceName p) \<and> ShouldAutoSuspendAt p now)"
    using run_rows [OF assms] by metis
  have "ListPeersByInterface n (r_store (run ops um cfg now r)) = map g (ListPeersByInterface n (r_store r))"
    by (rule ListPeers_map [OF j]) (use g in blast)
  moreover have "static (g p) = static p
      \<and> p_Suspended (g p) = (p_Suspended p \<or> \<not> ReservedHostInterface n \<and> ShouldAutoSuspendAt p now)"
    if "p \<in> set (ListPeersByInterface n (r_store r))" for p
    using g [of p] that by (auto simp: ListPeersByInterface_def)
  ultimately show thesis by (rule that)
qed

text \<open>A device that is exactly what the rows of its interface say.\<close>

definition mirrored :: "string \<Rightarrow> mock rstate \<Rightarrow> bool" where
  "mirrored n r \<longleftrightarrow> map_option live_peers (map_of (m_Devices (r_backend r)) n)
     = Some (map (\<lambda>p. (p_PublicKey p, if p_Suspended p then [] else p_AllowedIPs p)) (ListPeersByInterface n (r_store r)))"

lemma run_mirrors:
  assumes "db_ok (r_store r)" "mock_healthy (r_backend r)" "n \<in> i_Name ` set (s_ifaces (r_store r))"
    "\<not> ReservedHostInterface n"
  shows "mirrored n (run mock_ops um cfg now r)"
proof -
  obtain i where i: "i \<in> set (s_ifaces (r_store r))" "i_Name i = n" using assms(3) by auto
  then have res: "\<not> ReservedHostInterface (i_Name i)" using assms(4) by simp
  obtain g where g: "ListPeersByInterface n (r_store (run mock_ops um cfg now r)) = map g (ListPeersByInterface n (r_store r))"
    "\<And>p. p \<in> set (ListPeersByInterface n (r_store r)) \<Longrightarrow> static (g p) = static p
      \<and> p_Suspended (g p) = (p_Suspended p \<or> \<not> ReservedHostInterface n \<and> ShouldAutoSuspendAt p now)"
    using run_lists [OF assms(1)] by blast
  have "(p_PublicKey (g p), if p_Suspended (g p) then [] else p_AllowedIPs (g p))
      = (p_PublicKey p, if p_Suspended p \<or> ShouldAutoSuspendAt p now then [] else p_AllowedIPs p)"
    if "p \<in> set (ListPeersByInterface n (r_store r))" for p
    using g(2) [OF that] static_fields [of "g p" p] assms(4) by simp
  then have "map (\<lambda>p. (p_PublicKey p, if p_Suspended p then [] else p_AllowedIPs p)) (ListPeersByInterface n (r_store (run mock_ops um cfg now r)))
      = map (\<lambda>p. (p_PublicKey p, if p_Suspended p \<or> ShouldAutoSuspendAt p now then [] else p_AllowedIPs p)) (ListPeersByInterface n (r_store r))"
    unfolding g(1) by simp
  then show ?thesis
    using mock.run_converged [OF assms(1,2) i(1) res, where um = um and cfg = cfg and now = now] i(2)
    by (simp add: mirrored_def converged_def scanInterface_def)
qed

text \<open>The row a peer is after a pass.\<close>

lemma run_GetPeerRow:
  assumes "db_ok (r_store r)" "GetPeerRow n k (r_store r) = Inr p"
  obtains p' where "GetPeerRow n k (r_store (run ops um cfg now r)) = Inr p'" "static p' = static p"
    "p_Suspended p' = (p_Suspended p \<or> \<not> ReservedHostInterface n \<and> ShouldAutoSuspendAt p now)"
proof -
  obtain g where j: "join_peers (r_store (run ops um cfg now r)) = map g (join_peers (r_store r))"
    and g: "\<And>p. p \<in> set (join_peers (r_store r)) \<Longrightarrow> static (g p) = static p
      \<and> p_Suspended (g p) = (p_Suspended p \<or> \<not> ReservedHostInterface (p_InterfaceName p) \<and> ShouldAutoSuspendAt p now)"
    using run_rows [OF assms(1)] by metis
  note p = GetPeerRow_Inr [OF assms(2)]
  have s: "static (g p) = static p" using g p by blast
  have "GetPeerRow n k (r_store (run ops um cfg now r)) = Inr (g p)"
    unfolding GetPeerRow_iff [OF run_store_ok(1) [OF assms(1)]] using p j static_fields [OF s] by simp
  then show thesis using that s g p by blast
qed

section \<open>What a request does to the peers\<close>

text \<open>
  The peers as an administrator sees them: statistics apart, and with enforcement applied.
\<close>

definition plain_view :: "peer_view \<Rightarrow> string \<times> string \<rightharpoonup> db_peer \<times> bool" where
  "plain_view m = (\<lambda>x. map_option (\<lambda>p. (static p, p_Suspended p)) (m x))"

definition enforced_view :: "gotime \<Rightarrow> peer_view \<Rightarrow> string \<times> string \<rightharpoonup> db_peer \<times> bool" where
  "enforced_view now m = (\<lambda>x. map_option (\<lambda>p. (static p,
     p_Suspended p \<or> \<not> ReservedHostInterface (fst x) \<and> ShouldAutoSuspendAt p now)) (m x))"

lemma run_view:
  assumes "db_ok (r_store r)"
  shows "plain_view (peer_map (r_store (run ops um cfg now r))) = enforced_view now (peer_map (r_store r))"
proof
  fix x :: "string \<times> string"
  let ?r' = "run ops um cfg now r"
  obtain n k where x: "x = (n, k)" by (cases x)
  obtain g where j: "join_peers (r_store ?r') = map g (join_peers (r_store r))"
    and g: "\<And>p. p \<in> set (join_peers (r_store r)) \<Longrightarrow> static (g p) = static p
      \<and> p_Suspended (g p) = (p_Suspended p \<or> \<not> ReservedHostInterface (p_InterfaceName p) \<and> ShouldAutoSuspendAt p now)"
    using run_rows [OF assms] by metis
  note ok = run_store_ok(1) [OF assms, where ops = ops and um = um and cfg = cfg and now = now]
  show "plain_view (peer_map (r_store ?r')) x = enforced_view now (peer_map (r_store r)) x"
  proof (cases "peer_map (r_store r) x")
    case None
    have "peer_map (r_store ?r') x = None"
    proof (rule ccontr)
      assume "peer_map (r_store ?r') x \<noteq> None"
      then obtain p where p: "p \<in> set (join_peers (r_store r))" "(p_InterfaceName (g p), p_PublicKey (g p)) = x"
        by (auto simp: peer_map_iff [OF ok] j)
      then have "(p_InterfaceName p, p_PublicKey p) = x" using static_fields [of "g p" p] g [OF p(1)] by simp
      then have "peer_map (r_store r) x = Some p" using p(1) by (simp add: peer_map_iff [OF assms])
      with None show False by simp
    qed
    with None show ?thesis by (simp add: plain_view_def enforced_view_def)
  next
    case (Some p)
    then have p: "p \<in> set (join_peers (r_store r))" "(p_InterfaceName p, p_PublicKey p) = x"
      by (auto simp: peer_map_iff [OF assms])
    then have "peer_map (r_store ?r') x = Some (g p)"
      using static_fields [of "g p" p] g [OF p(1)] by (simp add: peer_map_iff [OF ok] j)
    with Some g [OF p(1)] p(2) show ?thesis by (auto simp: plain_view_def enforced_view_def)
  qed
qed

lemma audit_frame [simp]:
  "r_backend (audit now l kd n k m js r) = r_backend r" "s_ifaces (r_store (audit now l kd n k m js r)) = s_ifaces (r_store r)"
  "s_peers (r_store (audit now l kd n k m js r)) = s_peers (r_store r)"
  "db_ok (r_store r) \<Longrightarrow> db_ok (r_store (audit now l kd n k m js r))"
  by (simp_all add: audit_def AddEvent_ok) (simp_all add: AddEvent_def Let_def)

lemma audit_view [simp]: "peer_map (r_store (audit now l kd n k m js r)) = peer_map (r_store r)"
  by (rule peer_map_cong) simp_all

lemma reconciled:
  assumes "db_ok (r_store r)"
  shows "plain_view (peer_map (r_store (ForceReconcile en now r))) = enforced_view now (peer_map (r_store r))"
  by (simp add: ForceReconcile_def run_view [OF assms])

lemma reconciled_mirrors:
  assumes "en_ops en = mock_ops" "db_ok (r_store r)" "mock_healthy (r_backend r)"
    "n \<in> i_Name ` set (s_ifaces (r_store r))" "\<not> ReservedHostInterface n"
  shows "mirrored n (ForceReconcile en now r)"
  unfolding ForceReconcile_def assms(1) by (rule run_mirrors [OF assms(2-)])

lemma GetPeerRow_iface:
  assumes "db_ok st" "GetPeerRow n k st = Inr p"
  shows "n \<in> i_Name ` set (s_ifaces st)"
proof -
  have "p \<in> set (join_peers st)" "p_InterfaceName p = n" using GetPeerRow_Inr [OF assms(2)] by auto
  then obtain r where r: "r \<in> set (s_peers st)" "n = the (iface_name_of st (p_InterfaceID r))"
    by (auto simp: join_peers_map [OF assms(1)])
  then show ?thesis using row_iface [OF assms(1) r(1)] by (metis image_eqI option.sel)
qed

lemma GetInterfaceByName_ID:
  assumes "db_ok st" "GetInterfaceByName n st = Inr i"
  shows "iface_name_of st (i_ID i) = Some n" "n \<in> i_Name ` set (s_ifaces st)"
  using assms by (auto simp: GetInterfaceByName_iff iface_name_of_iff scanInterface_def)

text \<open>The peer a request creates, as the database stores it.\<close>

definition stored :: "gotime \<Rightarrow> store \<Rightarrow> db_peer \<Rightarrow> db_peer" where
  "stored now st p = p\<lparr>p_ID := s_peer_seq st + 1, p_CreatedAt := now, p_UpdatedAt := now\<rparr>"

lemma stored_key [simp]: "p_PublicKey (stored now st p) = p_PublicKey p"
  by (simp add: stored_def)

lemma checked_peer:
  assumes "create_peer_checks en psk pair n body st = Inr p"
  obtains i req where "GetInterfaceByName n st = Inr i" "body = Some req" "p_InterfaceID p = i_ID i"
  using assms by (auto simp: create_peer_checks_def or_else_r_def new_peer_def split: sum.splits option.splits prod.splits)

text \<open>
  A request has landed when the peers are the given ones with enforcement applied (for every backend, working or not),
  and, where the daemon runs on a healthy mock and manages the interface, the device mirrors the database.  The columns of
  statistics are not compared: the pass that follows the request samples the device and writes them.
\<close>

definition lands :: "mock api_env \<Rightarrow> gotime \<Rightarrow> string \<Rightarrow> mock rstate \<Rightarrow> peer_view \<Rightarrow> mock rstate \<Rightarrow> bool" where
  "lands en now n r m r' \<longleftrightarrow> plain_view (peer_map (r_store r')) = enforced_view now m
     \<and> (en_ops en = mock_ops \<and> mock_healthy (r_backend r) \<and> \<not> ReservedHostInterface n \<longrightarrow> mirrored n r')"

text \<open>What every changing request ends with: an entry in the audit log and a pass of the reconciler.\<close>

lemma finished:
  assumes "db_ok (r_store r1)" "r_backend r1 = r_backend r" "s_ifaces (r_store r1) = s_ifaces (r_store r)"
    "n \<in> i_Name ` set (s_ifaces (r_store r))"
  shows "lands en now n r (peer_map (r_store r1)) (ForceReconcile en now r1)"
  unfolding lands_def using reconciled [OF assms(1), of en now] reconciled_mirrors [OF _ assms(1), of en n now] assms(2-4) by simp

lemma create_accepted:
  assumes "db_ok (r_store r)" "create_peer_checks en psk pair n body (r_store r) = Inr p"
    "peer_map (r_store r) (n, p_PublicKey p) = None"
  shows "\<exists>a r'. handleCreatePeer en now psk pair n body r = (Answer 201 a, r')
        \<and> lands en now n r ((peer_map (r_store r))((n, p_PublicKey p) \<mapsto> (stored now (r_store r) p)\<lparr>p_InterfaceName := n\<rparr>)) r'"
proof -
  obtain i req where i: "GetInterfaceByName n (r_store r) = Inr i" "body = Some req" "p_InterfaceID p = i_ID i"
    by (rule checked_peer [OF assms(2)])
  note nm = GetInterfaceByName_ID [OF assms(1) i(1)]
  have iface: "iface_name_of (r_store r) (p_InterfaceID p) = Some n" using nm(1) i(3) by simp
  obtain st1 where st1: "CreatePeer now p (r_store r) = (Inr (stored now (r_store r) p), st1)"
    using CreatePeer_reply [OF assms(1) iface, of now] assms(3) by (cases "CreatePeer now p (r_store r)") (simp add: stored_def)
  have ok: "db_ok st1" using CreatePeer_ok [OF assms(1), of now p] st1 by simp
  have m: "peer_map st1 = (peer_map (r_store r))((n, p_PublicKey p) \<mapsto> (stored now (r_store r) p)\<lparr>p_InterfaceName := n\<rparr>)"
    using view_CreatePeer [OF assms(1), of now p] assms(3) st1 by (simp add: iface view_create_def stored_def)
  have ifs: "s_ifaces st1 = s_ifaces (r_store r)" using st1 by (cases rule: CreatePeer_cases [of now p "r_store r"]) auto
  let ?r1 = "audit now ''info'' ''audit'' n (p_PublicKey p) ''peer created'' ''{}'' (r\<lparr>r_store := st1\<rparr>)"
  note f = finished [of ?r1, where en = en and now = now, OF _ _ _ nm(2)]
  show ?thesis using f ok ifs m by (simp add: handleCreatePeer_def assms(2) st1 Let_def)
qed

lemma create_duplicate:
  assumes "db_ok (r_store r)" "create_peer_checks en psk pair n body (r_store r) = Inr p"
    "peer_map (r_store r) (n, p_PublicKey p) \<noteq> None"
  shows "handleCreatePeer en now psk pair n body r = (Refused 409 ''create_failed'', r)"
proof -
  obtain i req where i: "GetInterfaceByName n (r_store r) = Inr i" "body = Some req" "p_InterfaceID p = i_ID i"
    by (rule checked_peer [OF assms(2)])
  have iface: "iface_name_of (r_store r) (p_InterfaceID p) = Some n" using GetInterfaceByName_ID [OF assms(1) i(1)] i(3) by simp
  obtain st1 where "CreatePeer now p (r_store r) = (Inl UniqueFailed, st1)"
    using CreatePeer_reply [OF assms(1) iface, of now] assms(3) by (cases "CreatePeer now p (r_store r)") auto
  then show ?thesis by (simp add: handleCreatePeer_def assms(2))
qed

text \<open>
  C9. Creating a peer: a request that fails a check is refused with that check's status and a public
  key the interface already has with 409, both without any change; otherwise the answer is 201 and the peers afterwards are
  the old ones and the new one under its interface and key, with the time-based enforcement applied
  and no other column changed, apart from the statistics, which the forced pass samples and which are not compared.  This
  holds whatever the backend answers, for the handler ignores errors of the pass.  The device is claimed only where the
  daemon runs on the mock backend, that backend is healthy and the name of the interface is not reserved for the host:
  then the device of the interface has exactly the peers of the database, suspended ones without networks.
\<close>

theorem create_peer_exact:
  assumes "db_ok (r_store r)"
  shows "case create_peer_checks en psk pair n body (r_store r) of
      Inl (status, code) \<Rightarrow> handleCreatePeer en now psk pair n body r = (Refused status code, r)
    | Inr p \<Rightarrow> if peer_map (r_store r) (n, p_PublicKey p) = None
        then (\<exists>a r'. handleCreatePeer en now psk pair n body r = (Answer 201 a, r')
          \<and> lands en now n r ((peer_map (r_store r))((n, p_PublicKey p) \<mapsto> (stored now (r_store r) p)\<lparr>p_InterfaceName := n\<rparr>)) r')
        else handleCreatePeer en now psk pair n body r = (Refused 409 ''create_failed'', r)"
proof (cases "create_peer_checks en psk pair n body (r_store r)")
  case (Inl e)
  then show ?thesis by (cases e) (simp add: handleCreatePeer_def)
next
  case (Inr p)
  then show ?thesis using create_accepted [OF assms Inr, of now] create_duplicate [OF assms Inr, of now] by simp
qed

text \<open>A daemon on the mock, with a toy key pair for the demonstrations.\<close>

definition demo_env :: "mock api_env" where
  "demo_env = \<lparr>en_ops = mock_ops, en_um = (\<lambda>_. None), en_cfg = demo_cfg,
     en_pub = (\<lambda>k. if k = ''c'' then Some ''C'' else None), en_port = (\<lambda>_. False), en_handshake = 180\<rparr>"

definition demo_create :: peer_create where
  "demo_create = \<lparr>cr_PublicKey = [], cr_PresharedKey = [], cr_GeneratePSK = False, cr_GenerateClientKey = False,
     cr_ClientPrivateKey = ''c'', cr_Name = ''new'', cr_Notes = [], cr_AllowedIPs = [''10.0.0.4/32''], cr_AssignedIPs = [],
     cr_Endpoint = [], cr_PersistentKeepalive = 25, cr_TrafficLimitBytes = 0, cr_ExpiresAt = [], cr_BandwidthRxBps = 0,
     cr_BandwidthTxBps = 0, cr_BandwidthTotalBps = 0, cr_Tags = []\<rparr>"

lemma demo_env_ops: "en_ops demo_env = mock_ops" "mock_healthy (r_backend demo_state)"
  by (simp_all add: demo_env_def mock_healthy_def NewMock_def)

lemma demo_checks:
  "(case create_peer_checks demo_env None None ''wg0'' (Some demo_create) over_quota_store of Inl _ \<Rightarrow> None
     | Inr p \<Rightarrow> Some (p_PublicKey p, p_AllowedIPs p)) = Some (''C'', [''10.0.0.4/32''])"
  by code_simp

lemma demo_free: "peer_map over_quota_store (''wg0'', ''C'') = None" "peer_map over_quota_store (''wg0'', path_key ''A'') \<noteq> None"
  by code_simp+

theorem create_peer_exact_witness:
  "\<exists>a r'. handleCreatePeer demo_env 10 None None ''wg0'' (Some demo_create) demo_state = (Answer 201 a, r') \<and> mirrored ''wg0'' r'"
proof -
  obtain p where "create_peer_checks demo_env None None ''wg0'' (Some demo_create) (r_store demo_state) = Inr p" "p_PublicKey p = ''C''"
    using demo_checks by (auto split: sum.splits)
  then show ?thesis
    using create_peer_exact [where r = demo_state and en = demo_env and psk = None and pair = None and n = "''wg0''"
        and body = "Some demo_create" and now = 10]
      over_quota_ok demo_env_ops wg0_managed demo_free(1) by (auto simp: lands_def)
qed

lemma update_reply:
  assumes "GetPeerRow n (path_key param) (r_store r) = Inr p" "patch_peer en req p = Inr p1"
    "UpdatePeer now p1 (r_store r) = (Inr p2, st1)"
  shows "\<exists>r2. handleUpdatePeer en now n param (Some req) r = (Answer 200 (toAPIPeer en now (ForceReconcile en now r2) p2 False), ForceReconcile en now r2)
    \<and> r_backend r2 = r_backend r \<and> s_ifaces (r_store r2) = s_ifaces st1 \<and> peer_map (r_store r2) = peer_map st1
    \<and> (db_ok st1 \<longrightarrow> db_ok (r_store r2))"
proof -
  let ?r1 = "audit now ''info'' ''audit'' n (p_PublicKey p2) ''peer updated'' ''{}'' (r\<lparr>r_store := st1\<rparr>)"
  let ?r2 = "case up_Suspended req of None \<Rightarrow> ?r1 | Some b \<Rightarrow> if b \<noteq> p_Suspended p
    then audit now ''info'' ''enforce'' n (p_PublicKey p2) (if b then ''peer suspended'' else ''peer resumed'')
      (''{'' @ quoted ''via'' @ '':'' @ quoted ''patch'' @ ''}'') ?r1 else ?r1"
  have "handleUpdatePeer en now n param (Some req) r = (Answer 200 (toAPIPeer en now (ForceReconcile en now ?r2) p2 False), ForceReconcile en now ?r2)"
    using assms by (simp add: handleUpdatePeer_def Let_def)
  moreover have "r_backend ?r2 = r_backend r \<and> s_ifaces (r_store ?r2) = s_ifaces st1 \<and> peer_map (r_store ?r2) = peer_map st1
      \<and> (db_ok st1 \<longrightarrow> db_ok (r_store ?r2))"
    by (simp split: option.split)
  ultimately show ?thesis by blast
qed

text \<open>The checks of an edit, in their order, and the row it writes.\<close>

definition edit_ok :: "'w api_env \<Rightarrow> peer_update \<Rightarrow> string \<Rightarrow> bool" where
  "edit_ok en req key \<longleftrightarrow>
     (case up_ClientPrivateKey req of None \<Rightarrow> True | Some k \<Rightarrow> TrimSpace k = [] \<or> en_pub en (TrimSpace k) = Some key)
     \<and> (case up_AllowedIPs req of None \<Rightarrow> True | Some xs \<Rightarrow> ValidateCIDRList xs = None)
     \<and> (case up_AssignedIPs req of None \<Rightarrow> True | Some xs \<Rightarrow> ValidateIPOrCIDRList xs = None)
     \<and> (case up_Endpoint req of None \<Rightarrow> True | Some e \<Rightarrow> ValidateEndpoint (en_port en) e = None)
     \<and> (case up_ExpiresAt req of None \<Rightarrow> True | Some e \<Rightarrow> expiry_ok (TrimSpace e))"

lemma patch_key_cases:
  "patch_client_key pubOf new p =
     (if (case new of None \<Rightarrow> True | Some k \<Rightarrow> TrimSpace k = [] \<or> pubOf (TrimSpace k) = Some (p_PublicKey p))
      then Inr (case new of None \<Rightarrow> p_ClientPrivateKey p | Some k \<Rightarrow> TrimSpace k)
      else Inl (400, case new of None \<Rightarrow> ''validation''
        | Some k \<Rightarrow> if TrimSpace k \<noteq> [] \<and> pubOf (TrimSpace k) = None then ''invalid_key'' else ''validation''))"
  by (auto simp: patch_client_key_def Let_def split: option.splits)

lemma patch_refused:
  assumes "\<not> edit_ok en req (p_PublicKey p)"
  shows "patch_peer en req p = Inl (400, case up_ClientPrivateKey req of None \<Rightarrow> ''validation''
    | Some k \<Rightarrow> if TrimSpace k \<noteq> [] \<and> en_pub en (TrimSpace k) = None then ''invalid_key'' else ''validation'')"
proof (cases "case up_ClientPrivateKey req of None \<Rightarrow> True | Some k \<Rightarrow> TrimSpace k = [] \<or> en_pub en (TrimSpace k) = Some (p_PublicKey p)")
  case False
  then show ?thesis by (simp add: patch_peer_def patch_key_cases or_else_r_def)
next
  case True
  then have "(case up_ClientPrivateKey req of None \<Rightarrow> ''validation''
    | Some k \<Rightarrow> if TrimSpace k \<noteq> [] \<and> en_pub en (TrimSpace k) = None then ''invalid_key'' else ''validation'') = ''validation''"
    by (auto split: option.splits)
  moreover have "patch_peer en req p = Inl (400, ''validation'')"
    using assms True unfolding edit_ok_def patch_peer_def patch_key_cases
    by (simp add: or_else_r_def guard_def)
  ultimately show ?thesis by simp
qed

lemma patch_accepted:
  assumes "edit_ok en req (p_PublicKey p)"
  shows "patch_peer en req p = Inr (p\<lparr>p_PresharedKey := patch (up_PresharedKey req) (p_PresharedKey p),
        p_ClientPrivateKey := (case up_ClientPrivateKey req of None \<Rightarrow> p_ClientPrivateKey p | Some k \<Rightarrow> TrimSpace k),
        p_Name := patch (up_Name req) (p_Name p),
        p_Notes := patch (up_Notes req) (p_Notes p), p_AllowedIPs := patch (up_AllowedIPs req) (p_AllowedIPs p),
        p_AssignedIPs := patch (up_AssignedIPs req) (p_AssignedIPs p), p_Endpoint := patch (up_Endpoint req) (p_Endpoint p),
        p_PersistentKeepalive := patch (up_PersistentKeepalive req) (p_PersistentKeepalive p),
        p_TrafficLimitBytes := patch (up_TrafficLimitBytes req) (p_TrafficLimitBytes p),
        p_ExpiresAt := patch (map_option TrimSpace (up_ExpiresAt req)) (p_ExpiresAt p),
        p_BandwidthRxBps := patch (up_BandwidthRxBps req) (p_BandwidthRxBps p),
        p_BandwidthTxBps := patch (up_BandwidthTxBps req) (p_BandwidthTxBps p),
        p_BandwidthTotalBps := patch (up_BandwidthTotalBps req) (p_BandwidthTotalBps p),
        p_Tags := patch (up_Tags req) (p_Tags p), p_Suspended := patch (up_Suspended req) (p_Suspended p)\<rparr>)"
  using assms by (simp add: edit_ok_def patch_peer_def patch_key_cases or_else_r_def guard_def)

lemma patch_case_option: "patch new old = case_option old id new"
  by (simp add: patch_def split: option.split)

lemma patch_trim: "case_option old id (map_option TrimSpace new) = (case new of None \<Rightarrow> old | Some e \<Rightarrow> TrimSpace e)"
  by (simp split: option.split)

text \<open>
  C10. Editing a peer: an unknown key is 404, a body that does not parse 400, and a client key that is invalid or not the
  peer's, a malformed network, address, endpoint or expiry 400, all without any change; otherwise the answer is 200 and
  exactly the row under that key changes: every field the request names takes its value (the client key and the expiry
  trimmed), every field it leaves out, the key, the name of the interface and the offsets stay, and enforcement is applied.
  The statistics are not compared, for the forced pass samples them.  This holds whatever the backend answers.  The device
  is claimed only where the daemon runs on the mock backend, that backend is healthy and the name of the interface is not
  reserved for the host: then it has exactly the peers of the database.
\<close>

theorem update_peer_exact:
  assumes "db_ok (r_store r)"
  shows "case peer_map (r_store r) (n, path_key param) of
      None \<Rightarrow> handleUpdatePeer en now n param body r = (Refused 404 ''not_found'', r)
    | Some p \<Rightarrow> (case body of None \<Rightarrow> handleUpdatePeer en now n param body r = (Refused 400 ''invalid_json'', r)
      | Some req \<Rightarrow>
        if (case up_ClientPrivateKey req of None \<Rightarrow> True | Some k \<Rightarrow> TrimSpace k = [] \<or> en_pub en (TrimSpace k) = Some (path_key param))
          \<and> (case up_AllowedIPs req of None \<Rightarrow> True | Some xs \<Rightarrow> ValidateCIDRList xs = None)
          \<and> (case up_AssignedIPs req of None \<Rightarrow> True | Some xs \<Rightarrow> ValidateIPOrCIDRList xs = None)
          \<and> (case up_Endpoint req of None \<Rightarrow> True | Some e \<Rightarrow> ValidateEndpoint (en_port en) e = None)
          \<and> (case up_ExpiresAt req of None \<Rightarrow> True | Some e \<Rightarrow> expiry_ok (TrimSpace e))
        then (\<exists>a r' q. handleUpdatePeer en now n param body r = (Answer 200 a, r')
            \<and> lands en now n r ((peer_map (r_store r))((n, path_key param) \<mapsto> q)) r'
            \<and> q = p\<lparr>p_UpdatedAt := now,
              p_ClientPrivateKey := (case up_ClientPrivateKey req of None \<Rightarrow> p_ClientPrivateKey p | Some k \<Rightarrow> TrimSpace k),
              p_ExpiresAt := (case up_ExpiresAt req of None \<Rightarrow> p_ExpiresAt p | Some e \<Rightarrow> TrimSpace e),
              p_PresharedKey := case_option (p_PresharedKey p) id (up_PresharedKey req),
              p_Name := case_option (p_Name p) id (up_Name req), p_Notes := case_option (p_Notes p) id (up_Notes req),
              p_AllowedIPs := case_option (p_AllowedIPs p) id (up_AllowedIPs req),
              p_AssignedIPs := case_option (p_AssignedIPs p) id (up_AssignedIPs req),
              p_Endpoint := case_option (p_Endpoint p) id (up_Endpoint req),
              p_PersistentKeepalive := case_option (p_PersistentKeepalive p) id (up_PersistentKeepalive req),
              p_TrafficLimitBytes := case_option (p_TrafficLimitBytes p) id (up_TrafficLimitBytes req),
              p_BandwidthRxBps := case_option (p_BandwidthRxBps p) id (up_BandwidthRxBps req),
              p_BandwidthTxBps := case_option (p_BandwidthTxBps p) id (up_BandwidthTxBps req),
              p_BandwidthTotalBps := case_option (p_BandwidthTotalBps p) id (up_BandwidthTotalBps req),
              p_Tags := case_option (p_Tags p) id (up_Tags req), p_Suspended := case_option (p_Suspended p) id (up_Suspended req)\<rparr>)
        else (\<exists>code. handleUpdatePeer en now n param body r = (Refused 400 code, r)
            \<and> code = (case up_ClientPrivateKey req of None \<Rightarrow> ''validation''
              | Some k \<Rightarrow> if TrimSpace k \<noteq> [] \<and> en_pub en (TrimSpace k) = None then ''invalid_key'' else ''validation'')))"
proof (cases "peer_map (r_store r) (n, path_key param)")
  case None
  then obtain e where "GetPeerRow n (path_key param) (r_store r) = Inl e" by (auto simp: peer_map_def split: sum.splits)
  with None show ?thesis by (simp add: handleUpdatePeer_def)
next
  case p: (Some p)
  then have row: "GetPeerRow n (path_key param) (r_store r) = Inr p" by (simp add: peer_map_Some)
  have key: "p_PublicKey p = path_key param" using GetPeerRow_Inr [OF row] by simp
  show ?thesis
  proof (cases body)
    case None
    with p row show ?thesis by (simp add: handleUpdatePeer_def)
  next
    case req: (Some req)
    note e = edit_ok_def [of en req "path_key param", symmetric]
    show ?thesis
    proof (cases "edit_ok en req (path_key param)")
      case False
      then have "handleUpdatePeer en now n param (Some req) r = (Refused 400 (case up_ClientPrivateKey req of None \<Rightarrow> ''validation''
          | Some k \<Rightarrow> if TrimSpace k \<noteq> [] \<and> en_pub en (TrimSpace k) = None then ''invalid_key'' else ''validation''), r)"
        using patch_refused [of en req p] key by (simp add: handleUpdatePeer_def row)
      then show ?thesis unfolding p req option.case e if_not_P [OF False] by blast
    next
      case True
      then obtain p1 where Inr: "patch_peer en req p = Inr p1" using patch_accepted [of en req p] key by simp
      note p1_fields = patch_accepted [of en req p, unfolded Inr key sum.inject, OF True]
      then have p1: "p_ID p1 = p_ID p" "p_PublicKey p1 = p_PublicKey p"
        by (auto simp: patch_peer_def or_else_r_def split: sum.splits)
      note u = view_UpdatePeer [OF assms p p1(1), of now]
      have r2: "fst (UpdatePeer now p1 (r_store r)) = Inr (p1\<lparr>p_UpdatedAt := now\<rparr>)" using u(2) p1 key by simp
      then obtain st1 where st1: "UpdatePeer now p1 (r_store r) = (Inr (p1\<lparr>p_UpdatedAt := now\<rparr>), st1)"
        by (cases "UpdatePeer now p1 (r_store r)") simp
      have ok: "db_ok st1" using UpdatePeer_ok [OF assms, of now p1] st1 by simp
      have m: "peer_map st1 = (peer_map (r_store r))((n, path_key param) \<mapsto> update_peer_row now p1 p)"
        using u(1) st1 p1 key by (simp add: view_update_def update_peer_row_def)
      have ifs: "s_ifaces st1 = s_ifaces (r_store r)" using st1 by (auto simp: UpdatePeer_def split: option.splits if_splits)
      obtain r2 where r2: "handleUpdatePeer en now n param (Some req) r = (Answer 200 (toAPIPeer en now (ForceReconcile en now r2) (p1\<lparr>p_UpdatedAt := now\<rparr>) False), ForceReconcile en now r2)"
        "r_backend r2 = r_backend r" "s_ifaces (r_store r2) = s_ifaces (r_store r)"
        "peer_map (r_store r2) = (peer_map (r_store r))((n, path_key param) \<mapsto> update_peer_row now p1 p)" "db_ok (r_store r2)"
        using update_reply [OF row Inr st1] ifs m ok by auto
      have q: "update_peer_row now p1 p = p\<lparr>p_UpdatedAt := now,
              p_ClientPrivateKey := (case up_ClientPrivateKey req of None \<Rightarrow> p_ClientPrivateKey p | Some k \<Rightarrow> TrimSpace k),
              p_ExpiresAt := (case up_ExpiresAt req of None \<Rightarrow> p_ExpiresAt p | Some e \<Rightarrow> TrimSpace e),
              p_PresharedKey := case_option (p_PresharedKey p) id (up_PresharedKey req),
              p_Name := case_option (p_Name p) id (up_Name req), p_Notes := case_option (p_Notes p) id (up_Notes req),
              p_AllowedIPs := case_option (p_AllowedIPs p) id (up_AllowedIPs req),
              p_AssignedIPs := case_option (p_AssignedIPs p) id (up_AssignedIPs req),
              p_Endpoint := case_option (p_Endpoint p) id (up_Endpoint req),
              p_PersistentKeepalive := case_option (p_PersistentKeepalive p) id (up_PersistentKeepalive req),
              p_TrafficLimitBytes := case_option (p_TrafficLimitBytes p) id (up_TrafficLimitBytes req),
              p_BandwidthRxBps := case_option (p_BandwidthRxBps p) id (up_BandwidthRxBps req),
              p_BandwidthTxBps := case_option (p_BandwidthTxBps p) id (up_BandwidthTxBps req),
              p_BandwidthTotalBps := case_option (p_BandwidthTotalBps p) id (up_BandwidthTotalBps req),
              p_Tags := case_option (p_Tags p) id (up_Tags req), p_Suspended := case_option (p_Suspended p) id (up_Suspended req)\<rparr>"
        unfolding p1_fields patch_case_option patch_trim update_peer_row_def by (rule db_peer.equality) simp_all
      show ?thesis
        using finished [OF r2(5,2,3) GetPeerRow_iface [OF assms row], of en now] r2(1)
        unfolding p req option.case e if_P [OF True] r2(4) q by blast
    qed
  qed
qed

definition demo_update :: peer_update where
  "demo_update = \<lparr>up_PresharedKey = None, up_ClientPrivateKey = None, up_Name = Some ''renamed'', up_Notes = None,
     up_AllowedIPs = Some [''10.0.0.9/32''], up_AssignedIPs = None, up_Endpoint = None, up_PersistentKeepalive = None,
     up_TrafficLimitBytes = None, up_ExpiresAt = None, up_BandwidthRxBps = None, up_BandwidthTxBps = None,
     up_BandwidthTotalBps = None, up_Tags = None, up_Suspended = Some True\<rparr>"

lemma static_name: "p_Name (static p) = p_Name p"
  by (simp add: static_def)

lemma demo_nets: "ValidateCIDRList [''10.0.0.9/32''] = None"
  by code_simp

theorem update_peer_exact_witness:
  "\<exists>a r'. handleUpdatePeer demo_env 10 ''wg0'' ''A'' (Some demo_update) demo_state = (Answer 200 a, r') \<and> mirrored ''wg0'' r'
     \<and> map_option (\<lambda>p. p_Name (fst p)) (plain_view (peer_map (r_store r')) (''wg0'', path_key ''A'')) = Some ''renamed''"
proof -
  obtain p where p: "peer_map (r_store demo_state) (''wg0'', path_key ''A'') = Some p" using demo_free(2) by auto
  with update_peer_exact [where r = demo_state and en = demo_env and n = "''wg0''" and param = "''A''"
        and body = "Some demo_update" and now = 10] over_quota_ok demo_env_ops wg0_managed demo_nets
  show ?thesis by (auto simp: lands_def demo_update_def enforced_view_def static_name)
qed

section \<open>Deleting, suspending, resetting, rotating\<close>

lemma view_change_at:
  assumes "db_ok st" "peer_map st x = Some p"
  shows "view_change (p_ID p) f (peer_map st) = (peer_map st)(x \<mapsto> f p)"
proof
  fix y
  show "view_change (p_ID p) f (peer_map st) y = ((peer_map st)(x \<mapsto> f p)) y"
  proof (cases "peer_map st y")
    case None
    then show ?thesis using assms(2) by (auto simp: view_change_def)
  next
    case (Some q)
    have "q = p" if "p_ID q = p_ID p"
      using join_row_unique [OF assms(1) _ _ that] Some assms(2) by (simp add: peer_map_iff [OF assms(1)])
    moreover have "y = x" if "q = p" using Some assms(2) that by (simp add: peer_map_iff [OF assms(1)])
    ultimately show ?thesis using Some assms(2) by (auto simp: view_change_def)
  qed
qed

lemma suspend_outcome:
  assumes "db_ok (r_store r)" "peer_map (r_store r) (n, path_key param) = Some p"
  shows "\<exists>r'. setSuspend en now n param b r = (Answer 200 b, r')
    \<and> lands en now n r ((peer_map (r_store r))((n, path_key param) \<mapsto> p\<lparr>p_Suspended := b, p_UpdatedAt := now\<rparr>)) r'"
proof -
  have row: "GetPeerRow n (path_key param) (r_store r) = Inr p" using assms(2) by (simp add: peer_map_Some)
  have "list_ex (\<lambda>q. p_ID q = p_ID p) (s_peers (r_store r))"
    using GetPeerRow_Inr [OF row] by (auto simp: row_in_join [OF assms(1)])
  then obtain st1 where st1: "SetPeerSuspended now (p_ID p) b (r_store r) = (Inr (), st1)" "s_ifaces st1 = s_ifaces (r_store r)"
    by (auto simp: SetPeerSuspended_def)
  have ok: "db_ok st1" using SetPeerSuspended_ok [OF assms(1), of now "p_ID p" b] st1 by simp
  have m: "peer_map st1 = (peer_map (r_store r))((n, path_key param) \<mapsto> p\<lparr>p_Suspended := b, p_UpdatedAt := now\<rparr>)"
    using view_SetPeerSuspended [OF assms(1), of now "p_ID p" b] st1 view_change_at [OF assms] by simp
  let ?r1 = "audit now ''info'' ''enforce'' n (path_key param) (if b then ''peer suspended'' else ''peer resumed'') ''{}'' (r\<lparr>r_store := st1\<rparr>)"
  note f = finished [of ?r1, where en = en and now = now, OF _ _ _ GetPeerRow_iface [OF assms(1) row]]
  show ?thesis using f ok st1 m row by (simp add: setSuspend_def Let_def)
qed

lemma delete_outcome:
  assumes "db_ok (r_store r)" "peer_map (r_store r) (n, path_key param) = Some p"
  shows "\<exists>r'. handleDeletePeer en now n param r = (Answer 204 (), r')
    \<and> lands en now n r ((peer_map (r_store r))((n, path_key param) := None)) r'"
proof -
  have row: "GetPeerRow n (path_key param) (r_store r) = Inr p" using assms(2) by (simp add: peer_map_Some)
  then obtain st1 where st1: "DeletePeer n (path_key param) (r_store r) = (Inr (), st1)" "s_ifaces st1 = s_ifaces (r_store r)"
    by (auto simp: DeletePeer_def DeletePeerSamples_def)
  have ok: "db_ok st1" using DeletePeer_ok [OF assms(1), of n "path_key param"] st1 by simp
  have m: "peer_map st1 = (peer_map (r_store r))((n, path_key param) := None)"
    using view_DeletePeer [OF assms(1), of n "path_key param"] st1 by simp
  let ?r1 = "audit now ''info'' ''audit'' n (path_key param) ''peer deleted'' ''{}'' (r\<lparr>r_store := st1\<rparr>)"
  note f = finished [of ?r1, where en = en and now = now, OF _ _ _ GetPeerRow_iface [OF assms(1) row]]
  show ?thesis using f ok st1 m by (simp add: handleDeletePeer_def Let_def)
qed

lemma reset_outcome:
  assumes "db_ok (r_store r)" "peer_map (r_store r) (n, path_key param) = Some p"
  shows "\<exists>r'. handleResetPeerTraffic now n param r = (Answer 200 (), r') \<and> r_backend r' = r_backend r
    \<and> peer_map (r_store r') = (peer_map (r_store r))((n, path_key param) \<mapsto>
        p\<lparr>p_RxBytesOffset := p_LastRxBytes p, p_TxBytesOffset := p_LastTxBytes p, p_UpdatedAt := now\<rparr>)"
proof -
  have row: "GetPeerRow n (path_key param) (r_store r) = Inr p" using assms(2) by (simp add: peer_map_Some)
  have "list_ex (\<lambda>q. p_ID q = p_ID p) (s_peers (r_store r))"
    using GetPeerRow_Inr [OF row] by (auto simp: row_in_join [OF assms(1)])
  then obtain st1 where st1: "SoftResetPeerTraffic now (p_ID p) (p_LastRxBytes p) (p_LastTxBytes p) (r_store r) = (Inr (), st1)"
    by (auto simp: SoftResetPeerTraffic_def)
  have m: "peer_map st1 = (peer_map (r_store r))((n, path_key param) \<mapsto>
        p\<lparr>p_RxBytesOffset := p_LastRxBytes p, p_TxBytesOffset := p_LastTxBytes p, p_UpdatedAt := now\<rparr>)"
    using view_SoftReset [OF assms(1), of now "p_ID p" "p_LastRxBytes p" "p_LastTxBytes p"] st1 view_change_at [OF assms] by simp
  show ?thesis using st1 m row by (simp add: handleResetPeerTraffic_def Let_def)
qed

lemma absent_row: "peer_map st (n, k) = None \<Longrightarrow> GetPeerRow n k st = Inl NotFound"
  by (auto simp: peer_map_def GetPeerRow_def split: sum.splits option.splits)

text \<open>
  C20. Controlling a peer: requests for an unknown key are 404 and change nothing; deleting a known
  peer removes exactly that peer, suspending or resuming it changes exactly that flag, in both cases
  with enforcement applied (so a peer over its quota is suspended again by the very request that
  resumes it) and with the statistics, which the forced pass samples, left out of the comparison; this holds whatever the
  backend answers.  The device is claimed only where the daemon runs on the mock backend, that backend is healthy and the
  name of the interface is not reserved for the host: then it has exactly the peers of the database.  A reset of the
  counters sets exactly the offsets of the row, after
  which both effective counters are zero, and touches no device.
\<close>

theorem control_peer_exact:
  assumes "db_ok (r_store r)"
  shows "case peer_map (r_store r) (n, path_key param) of
      None \<Rightarrow> handleDeletePeer en now n param r = (Refused 404 ''not_found'', r)
        \<and> handleSuspendPeer en now n param r = (Refused 404 ''not_found'', r)
        \<and> handleResumePeer en now n param r = (Refused 404 ''not_found'', r)
        \<and> handleResetPeerTraffic now n param r = (Refused 404 ''not_found'', r)
    | Some p \<Rightarrow>
        (\<exists>r'. handleDeletePeer en now n param r = (Answer 204 (), r')
          \<and> lands en now n r ((peer_map (r_store r))((n, path_key param) := None)) r')
        \<and> (\<exists>r'. handleSuspendPeer en now n param r = (Answer 200 True, r') \<and> lands en now n r
            ((peer_map (r_store r))((n, path_key param) \<mapsto> p\<lparr>p_Suspended := True, p_UpdatedAt := now\<rparr>)) r')
        \<and> (\<exists>r'. handleResumePeer en now n param r = (Answer 200 False, r') \<and> lands en now n r
            ((peer_map (r_store r))((n, path_key param) \<mapsto> p\<lparr>p_Suspended := False, p_UpdatedAt := now\<rparr>)) r')
        \<and> (\<exists>r' q. handleResetPeerTraffic now n param r = (Answer 200 (), r') \<and> r_backend r' = r_backend r
            \<and> peer_map (r_store r') = (peer_map (r_store r))((n, path_key param) \<mapsto> q)
            \<and> q = p\<lparr>p_RxBytesOffset := p_LastRxBytes p, p_TxBytesOffset := p_LastTxBytes p, p_UpdatedAt := now\<rparr>
            \<and> EffectiveRx q = 0 \<and> EffectiveTx q = 0)"
proof (cases "peer_map (r_store r) (n, path_key param)")
  case None
  then show ?thesis by (simp add: absent_row handleDeletePeer_def DeletePeer_def handleSuspendPeer_def handleResumePeer_def
      setSuspend_def handleResetPeerTraffic_def Let_def)
next
  case (Some p)
  show ?thesis
    using Some delete_outcome [OF assms Some, of en now] suspend_outcome [OF assms Some, of en now True]
      suspend_outcome [OF assms Some, of en now False] reset_outcome [OF assms Some, of now]
    by (simp add: handleSuspendPeer_def handleResumePeer_def EffectiveRx_def EffectiveTx_def i64_id in64_nonneg)
qed

theorem control_peer_exact_witness:
  "\<exists>r'. handleSuspendPeer demo_env 10 ''wg0'' ''A'' demo_state = (Answer 200 True, r') \<and> mirrored ''wg0'' r'"
proof -
  obtain p where p: "peer_map (r_store demo_state) (''wg0'', path_key ''A'') = Some p" using demo_free(2) by auto
  with control_peer_exact [where r = demo_state and en = demo_env and n = "''wg0''" and param = "''A''" and now = 10]
    over_quota_ok demo_env_ops wg0_managed show ?thesis by (auto simp: lands_def)
qed



text \<open>
  A rotation forgets a soft reset: the row keeps its lifetime counter and loses its offset, so the
  traffic a reset had hidden counts against the quota again.
\<close>

lemma rotation_undoes_reset:
  assumes "in64 (p_LastRxBytes p)" "0 \<le> p_LastRxBytes p" "p_RxBytesOffset p = p_LastRxBytes p"
    "q = p\<lparr>p_PublicKey := k, p_ClientPrivateKey := c, p_RxBytesOffset := 0, p_TxBytesOffset := 0, p_UpdatedAt := now\<rparr>"
  shows "EffectiveRx p = 0 \<and> EffectiveRx q = p_LastRxBytes p"
  using assms by (simp add: EffectiveRx_def i64_id in64_nonneg)

section \<open>Addresses given to new peers\<close>

lemma checked_addresses:
  assumes "create_peer_checks en psk pair n (Some req) st = Inr p"
  shows "\<exists>i. GetInterfaceByName n st = Inr i \<and> peer_addresses n i req st = Inr (p_AllowedIPs p, p_AssignedIPs p)"
  using assms by (auto simp: create_peer_checks_def or_else_r_def new_peer_def split: sum.splits option.splits prod.splits)

lemma allocated:
  assumes "create_peer_checks en psk pair n (Some req) st = Inr p" "cr_AllowedIPs req = []" "cr_AssignedIPs req = []"
  obtains i h c u where "GetInterfaceByName n st = Inr i" "p_AssignedIPs p = [h]" "p_AllowedIPs p = [c]"
    "AllocateNextHost (i_Addresses i) (used_hosts i 0 (ListPeersByInterface n st)) = (Inr (h, c), u)"
proof -
  obtain i where i: "GetInterfaceByName n st = Inr i" "peer_addresses n i req st = Inr (p_AllowedIPs p, p_AssignedIPs p)"
    using checked_addresses [OF assms(1)] by blast
  obtain x u where x: "AllocateNextHost (i_Addresses i) (used_hosts i 0 (ListPeersByInterface n st)) = (x, u)"
    by (cases "AllocateNextHost (i_Addresses i) (used_hosts i 0 (ListPeersByInterface n st))")
  have "peer_addresses n i req st = (case x of Inl _ \<Rightarrow> Inl (400, ''validation'') | Inr (h, c) \<Rightarrow> Inr ([c], [h]))"
    using assms(2,3) x by (simp add: peer_addresses_def allocatePeerIP_def)
  with i(2) obtain h c where "x = Inr (h, c)" "p_AllowedIPs p = [c]" "p_AssignedIPs p = [h]"
    by (cases x) (auto split: prod.splits)
  with that i(1) x show thesis by blast
qed

text \<open>
  C23. An address the daemon chooses for a new peer is free: it is none of the interface's own
  addresses, none that is assigned to another peer of the interface and none that another peer's
  host networks route, however those were written.
\<close>

theorem chosen_address_free:
  assumes "handleCreatePeer en now psk pair n (Some req) r = (Answer 201 a, r')"
    and "cr_AllowedIPs req = []" "cr_AssignedIPs req = []"
  shows "\<exists>i h c. GetInterfaceByName n (r_store r) = Inr i \<and> ap_AssignedIPs a = [h] \<and> ap_AllowedIPs a = [c]
    \<and> (c = h @ ''/32'' \<or> c = h @ ''/128'')
    \<and> (\<forall>s\<in>set (i_Addresses i). NormalizeHostIP s \<noteq> Inr h)
    \<and> (\<forall>q\<in>set (ListPeersByInterface n (r_store r)).
        (\<forall>s\<in>set (p_AssignedIPs q). NormalizeHostIP s \<noteq> Inr h)
        \<and> (\<forall>s\<in>set (p_AllowedIPs q). suffix ''/32'' s \<or> suffix ''/128'' s \<or> CHR ''/'' \<notin> set s \<longrightarrow> NormalizeHostIP s \<noteq> Inr h))"
proof -
  obtain p where p: "create_peer_checks en psk pair n (Some req) (r_store r) = Inr p"
    and a: "ap_AssignedIPs a = p_AssignedIPs p" "ap_AllowedIPs a = p_AllowedIPs p"
    using assms(1) by (auto simp: handleCreatePeer_def CreatePeer_def insert_peer_def toAPIPeer_def Let_def
        split: sum.splits prod.splits if_splits)
  obtain i h c u where al: "GetInterfaceByName n (r_store r) = Inr i" "p_AssignedIPs p = [h]" "p_AllowedIPs p = [c]"
    "AllocateNextHost (i_Addresses i) (used_hosts i 0 (ListPeersByInterface n (r_store r))) = (Inr (h, c), u)"
    by (rule allocated [OF p assms(2,3)])
  from alloc_spec [OF al(4)] have h: "h \<notin> set (used_hosts i 0 (ListPeersByInterface n (r_store r)))" "c = h @ ''/32'' \<or> c = h @ ''/128''"
    by auto
  show ?thesis using al(1-3) a h unfolding used_hosts_def set_CollectUsedHosts Let_def by fastforce
qed

definition addr_store :: store where
  "addr_store = snd (CreatePeer 3 (zero_peer\<lparr>p_InterfaceID := 1, p_PublicKey := ''A'', p_AssignedIPs := [''10.0.0.2/24'']\<rparr>)
     (snd (CreateInterface 2 (zero_interface\<lparr>i_Name := ''wg0'', i_Enabled := True, i_Addresses := [''10.0.0.1/24'']\<rparr>) empty_store)))"

lemma addr_store_ok: "db_ok addr_store"
  unfolding addr_store_def
  by (rule db_reach_ok) (rule db_reach.step [OF _ create_peer] db_reach.step [OF _ create_interface] db_reach.init)+

lemma addr_checks:
  "(case create_peer_checks demo_env None None ''wg0'' (Some (demo_create\<lparr>cr_AllowedIPs := []\<rparr>)) addr_store of Inl _ \<Rightarrow> None
     | Inr p \<Rightarrow> Some (p_PublicKey p, p_AllowedIPs p)) = Some (''C'', [''10.0.0.3/32''])"
  "peer_map addr_store (''wg0'', ''C'') = None"
  by code_simp+

theorem chosen_address_free_witness:
  "\<exists>a r'. handleCreatePeer demo_env 10 None None ''wg0'' (Some (demo_create\<lparr>cr_AllowedIPs := []\<rparr>)) (NewReconciler addr_store NewMock NewCache)
       = (Answer 201 a, r') \<and> (\<exists>h c. ap_AssignedIPs a = [h] \<and> ap_AllowedIPs a = [c] \<and> (c = h @ ''/32'' \<or> c = h @ ''/128''))"
proof -
  let ?r = "NewReconciler addr_store NewMock NewCache" and ?req = "demo_create\<lparr>cr_AllowedIPs := []\<rparr>"
  have st: "r_store ?r = addr_store" by (simp add: NewReconciler_def)
  obtain p where p: "create_peer_checks demo_env None None ''wg0'' (Some ?req) (r_store ?r) = Inr p" "p_PublicKey p = ''C''"
    using addr_checks(1) st by (auto split: sum.splits)
  obtain a r' where h: "handleCreatePeer demo_env 10 None None ''wg0'' (Some ?req) ?r = (Answer 201 a, r')"
    using create_accepted [OF _ p(1), of 10] p(2) addr_checks(2) addr_store_ok st by auto
  have "cr_AllowedIPs ?req = []" "cr_AssignedIPs ?req = []" by (simp_all add: demo_create_def)
  from chosen_address_free [OF h this] h show ?thesis by blast
qed

end
