(* ===== verification/ApiInterfaces.thy ===== *)
theory ApiInterfaces
  imports ApiPeers
begin

text \<open>
  The handlers of the HTTP API for interfaces (\<open>internal/api/handlers_interfaces.go\<close>,
  \<open>internal/api/amnezia.go\<close>), in the style of \<open>ApiPeers\<close>.  Besides the environment of the peer
  handlers, a handler that generates keys or noise parameters takes the generated values.
\<close>

section \<open>Noise parameters as JSON\<close>

text \<open>\<open>json.Marshal\<close> of the parameters, for ASCII strings: fields with their zero value are left out.\<close>

definition json_char :: "char \<Rightarrow> string" where
  "json_char c =
     (if c = CHR 0x22 \<or> c = CHR 0x5C then [CHR 0x5C, c]
      else case map_of [(CHR 0x08, CHR ''b''), (CHR 0x0C, CHR ''f''), (CHR 0x0A, CHR ''n''),
          (CHR 0x0D, CHR ''r''), (CHR 0x09, CHR ''t'')] c of
        Some e \<Rightarrow> [CHR 0x5C, e]
      | None \<Rightarrow> (let n = of_char c :: nat; d = ''0123456789abcdef'' in
          if n < 32 \<or> c = CHR ''<'' \<or> c = CHR ''>'' \<or> c = CHR ''&''
          then [CHR 0x5C, CHR ''u'', CHR ''0'', CHR ''0'', d ! (n div 16), d ! (n mod 16)] else [c]))"

definition json_string :: "string \<Rightarrow> string" where
  "json_string s = [CHR 0x22] @ concat (map json_char s) @ [CHR 0x22]"

definition json_int :: "string \<Rightarrow> int \<Rightarrow> string list" where
  "json_int k v = (if v = 0 then [] else [json_string k @ '':'' @ int_str v])"

definition json_str :: "string \<Rightarrow> string \<Rightarrow> string list" where
  "json_str k v = (if v = [] then [] else [json_string k @ '':'' @ json_string v])"

definition amnezia_json :: "AmneziaParams \<Rightarrow> string" where
  "amnezia_json a = ''{'' @ Join (json_int ''jc'' (am_Jc a) @ json_int ''jmin'' (am_Jmin a) @ json_int ''jmax'' (am_Jmax a)
     @ json_int ''s1'' (am_S1 a) @ json_int ''s2'' (am_S2 a) @ json_int ''s3'' (am_S3 a) @ json_int ''s4'' (am_S4 a)
     @ json_str ''h1'' (am_H1 a) @ json_str ''h2'' (am_H2 a) @ json_str ''h3'' (am_H3 a) @ json_str ''h4'' (am_H4 a)
     @ json_str ''i1'' (am_I1 a) @ json_str ''i2'' (am_I2 a) @ json_str ''i3'' (am_I3 a) @ json_str ''i4'' (am_I4 a)
     @ json_str ''i5'' (am_I5 a)) '','' @ ''}''"

definition encodeAmnezia :: "AmneziaParams option \<Rightarrow> string" where
  "encodeAmnezia p = (case p of None \<Rightarrow> []
     | Some a \<Rightarrow> (let s = amnezia_json a in if s = ''{}'' \<or> s = ''null'' then [] else s))"

section \<open>An interface as the API shows it\<close>

record api_interface =
  ai_ID :: int
  ai_Name :: string
  ai_PrivateKey :: string
  ai_PublicKey :: string
  ai_ListenPort :: int
  ai_FwMark :: int
  ai_MTU :: int
  ai_TableMode :: string
  ai_TableID :: "int option"
  ai_DNS :: "string list"
  ai_Addresses :: "string list"
  ai_Hooks :: "string \<times> string \<times> string \<times> string"
  ai_DefaultKeepalive :: int
  ai_PublicEndpoint :: string
  ai_Enabled :: bool
  ai_Up :: bool
  ai_PeerCount :: nat
  ai_RxBytes :: int
  ai_TxBytes :: int
  ai_RxBps :: real
  ai_TxBps :: real
  ai_Backend :: string
  ai_ResolvedBackend :: string
  ai_Protocol :: string
  ai_Amnezia :: "AmneziaParams option"
  ai_PairName :: string
  ai_MuxPort :: int
  ai_CreatedAt :: gotime
  ai_UpdatedAt :: gotime

definition toAPIInterface :: "'w api_env \<Rightarrow> 'w rstate \<Rightarrow> db_interface \<Rightarrow> bool \<Rightarrow> api_interface" where
  "toAPIInterface en r i reveal =
     (let ps = ListPeersByInterface (i_Name i) (r_store r);
          d = op_Device (en_ops en) (i_Name i) (r_backend r)
      in \<lparr>ai_ID = i_ID i, ai_Name = i_Name i, ai_PrivateKey = (if reveal then i_PrivateKey i else []),
          ai_PublicKey = i_PublicKey i, ai_ListenPort = i_ListenPort i, ai_FwMark = i_FwMark i, ai_MTU = i_MTU i,
          ai_TableMode = i_TableMode i, ai_TableID = i_TableID i, ai_DNS = i_DNS i, ai_Addresses = i_Addresses i,
          ai_Hooks = (if rc_AllowHooks (en_cfg en) then (i_PreUp i, i_PostUp i, i_PreDown i, i_PostDown i) else ([], [], [], [])),
          ai_DefaultKeepalive = i_DefaultKeepalive i, ai_PublicEndpoint = i_PublicEndpoint i, ai_Enabled = i_Enabled i,
          ai_Up = (case d of Inr dv \<Rightarrow> d_Up dv \<and> i_Enabled i | Inl _ \<Rightarrow> i_Enabled i), ai_PeerCount = length ps,
          ai_RxBytes = foldl (\<lambda>a p. i64 (a + EffectiveRx p)) 0 ps, ai_TxBytes = foldl (\<lambda>a p. i64 (a + EffectiveTx p)) 0 ps,
          ai_RxBps = foldl (\<lambda>a p. a + p_LastRxBps p) 0 ps, ai_TxBps = foldl (\<lambda>a p. a + p_LastTxBps p) 0 ps,
          ai_Backend = i_Backend i, ai_ResolvedBackend = (case d of Inr dv \<Rightarrow> d_Backend dv | Inl _ \<Rightarrow> []),
          ai_Protocol = i_Protocol i, ai_Amnezia = decodeAmnezia (en_um en) (i_AmneziaJSON i),
          ai_PairName = i_PairName i, ai_MuxPort = i_MuxPort i, ai_CreatedAt = i_CreatedAt i, ai_UpdatedAt = i_UpdatedAt i\<rparr>)"

definition handleListInterfaces :: "'w api_env \<Rightarrow> 'w rstate \<Rightarrow> api_interface list reply" where
  "handleListInterfaces en r = Answer 200 (map (\<lambda>i. toAPIInterface en r i False) (ListInterfaces (r_store r)))"

definition handleGetInterface :: "'w api_env \<Rightarrow> string \<Rightarrow> bool \<Rightarrow> 'w rstate \<Rightarrow> api_interface reply" where
  "handleGetInterface en name reveal r =
     (case GetInterfaceByName name (r_store r) of Inl _ \<Rightarrow> Refused 404 ''not_found''
      | Inr i \<Rightarrow> Answer 200 (toAPIInterface en r i reveal))"

section \<open>Creating\<close>

record iface_create =
  ic_Name :: string
  ic_PrivateKey :: string
  ic_ListenPort :: int
  ic_FwMark :: int
  ic_MTU :: int
  ic_TableMode :: string
  ic_TableID :: "int option"
  ic_DNS :: "string list"
  ic_Addresses :: "string list"
  ic_PreUp :: string
  ic_PostUp :: string
  ic_PreDown :: string
  ic_PostDown :: string
  ic_DefaultKeepalive :: int
  ic_PublicEndpoint :: string
  ic_Enabled :: "bool option"
  ic_Backend :: string
  ic_Protocol :: string
  ic_Amnezia :: "AmneziaParams option"
  ic_CreateAWGPair :: bool
  ic_AWGName :: string
  ic_AWGAddresses :: "string list"
  ic_AWGBackend :: string
  ic_AWGAmnezia :: "AmneziaParams option"
  ic_NeutralAWG :: bool
  ic_MuxPort :: int
  ic_SamePort :: bool

definition validateMuxPort :: "string \<Rightarrow> int \<Rightarrow> int \<Rightarrow> bool" where
  "validateMuxPort protocol listenPort muxPort =
     (muxPort = 0 \<or> protocol = ProtocolAWG \<and> 1 \<le> muxPort \<and> muxPort \<le> 65535 \<and> muxPort \<noteq> listenPort)"

text \<open>
  The key of a new interface: the one given, else the one of a device with that name (an interface
  keeps its identity), else a new one.
\<close>

definition iface_keys :: "'w api_env \<Rightarrow> key_pair option \<Rightarrow> string \<Rightarrow> string \<Rightarrow> 'w \<Rightarrow> nat \<times> string + string \<times> string" where
  "iface_keys en newPair name given w =
     (let (priv, pub) =
        (if given \<noteq> [] then (given, [])
         else case op_Device (en_ops en) name w of
           Inr dv \<Rightarrow> (if d_PrivateKey dv \<noteq> [] \<and> \<not> IsZeroKey (d_PrivateKey dv)
             then (d_PrivateKey dv, case en_pub en (d_PrivateKey dv) of Some p \<Rightarrow> p | None \<Rightarrow> []) else ([], []))
         | Inl _ \<Rightarrow> ([], []))
      in if priv = [] then
           (case newPair of None \<Rightarrow> Inl (500, ''keygen_failed'') | Some kp \<Rightarrow> Inr (kp_PrivateKey kp, kp_PublicKey kp))
         else if pub = [] then
           (case en_pub en priv of None \<Rightarrow> Inl (400, ''invalid_key'') | Some p \<Rightarrow> Inr (priv, p))
         else Inr (priv, pub))"

definition amnezia_column :: "AmneziaParams option \<Rightarrow> string \<Rightarrow> AmneziaParams \<Rightarrow> nat \<times> string + string" where
  "amnezia_column given protocol noise =
     (case given of
        Some a \<Rightarrow> if Validate a \<noteq> None then Inl (400, ''validation'') else Inr (encodeAmnezia (Some a))
      | None \<Rightarrow> Inr (if protocol = ProtocolAWG then encodeAmnezia (Some noise) else []))"

definition name_check :: "name_error + string \<Rightarrow> nat \<times> string + string" where
  "name_check x = (case x of Inl _ \<Rightarrow> Inl (400, ''validation'') | Inr s \<Rightarrow> Inr s)"

text \<open>All checks before the first write, and the row they give.\<close>

definition create_iface_checks :: "'w api_env \<Rightarrow> key_pair option \<Rightarrow> AmneziaParams \<Rightarrow> iface_create \<Rightarrow> 'w \<Rightarrow> nat \<times> string + db_interface" where
  "create_iface_checks en newPair noise req w =
     or_else_r (guard (ic_Name req \<noteq> []) 400 ''validation'')
     (\<lambda>_. or_else_r (guard (\<not> ReservedHostInterface (ic_Name req)) 409 ''reserved_interface'')
     (\<lambda>_. or_else_r (guard (0 \<le> ic_ListenPort req \<and> ic_ListenPort req \<le> 65535) 400 ''validation'')
     (\<lambda>_. or_else_r (guard (ValidateCIDRList (ic_Addresses req) = None) 400 ''validation'')
     (\<lambda>_. or_else_r (guard (ic_PublicEndpoint req = [] \<or> ValidateEndpoint (en_port en) (ic_PublicEndpoint req) = None) 400 ''validation'')
     (\<lambda>_. or_else_r (guard (rc_AllowHooks (en_cfg en) \<or> ic_PreUp req = [] \<and> ic_PostUp req = [] \<and> ic_PreDown req = [] \<and> ic_PostDown req = [])
            400 ''hooks_disabled'')
     (\<lambda>_. or_else_r (iface_keys en newPair (ic_Name req) (ic_PrivateKey req) w)
     (\<lambda>(priv, pub). or_else_r (name_check (NormalizeBackend (ic_Backend req)))
     (\<lambda>backend. or_else_r (name_check (NormalizeProtocol (ic_Protocol req)))
     (\<lambda>protocol0. let protocol = (if ic_Protocol req = [] \<and> IsAmneziaBackend backend then ProtocolAWG else protocol0) in
       or_else_r (amnezia_column (ic_Amnezia req) protocol noise)
     (\<lambda>amneziaJSON. or_else_r (guard (validateMuxPort protocol (ic_ListenPort req) (ic_MuxPort req)) 400 ''validation'')
     (\<lambda>_. Inr (zero_interface\<lparr>i_Name := ic_Name req, i_PrivateKey := priv, i_PublicKey := pub,
        i_ListenPort := ic_ListenPort req, i_FwMark := ic_FwMark req, i_MTU := ic_MTU req,
        i_TableMode := (if ic_TableMode req = [] then ''auto'' else ic_TableMode req), i_TableID := ic_TableID req,
        i_DNS := ic_DNS req, i_Addresses := ic_Addresses req, i_PreUp := ic_PreUp req, i_PostUp := ic_PostUp req,
        i_PreDown := ic_PreDown req, i_PostDown := ic_PostDown req, i_DefaultKeepalive := ic_DefaultKeepalive req,
        i_PublicEndpoint := ic_PublicEndpoint req,
        i_Enabled := (case ic_Enabled req of None \<Rightarrow> True | Some b \<Rightarrow> b),
        i_Backend := backend, i_Protocol := protocol, i_AmneziaJSON := amneziaJSON, i_MuxPort := ic_MuxPort req\<rparr>))))))))))))"

text \<open>\<open>fmt.Sscanf\<close> with \<open>%d\<close>: blanks, a sign, digits; what follows is ignored.\<close>

definition Sscanf_d :: "string \<Rightarrow> int option" where
  "Sscanf_d s =
     (let t = dropWhile (\<lambda>c. is_space c \<and> c \<noteq> CHR 0x0A) s;
          neg = (t \<noteq> [] \<and> hd t = CHR ''-'');
          u = (if t \<noteq> [] \<and> (hd t = CHR ''-'' \<or> hd t = CHR ''+'') then tl t else t);
          ds = takeWhile is_digit u;
          v = (if neg then - int (the (dec_val 0 ds)) else int (the (dec_val 0 ds)))
      in if ds = [] \<or> \<not> in64 v then None else Some v)"

definition splitHostPortRaw :: "string \<Rightarrow> (string \<times> string) option" where
  "splitHostPortRaw ep = (case LastIndex CHR '':'' ep of None \<Rightarrow> None
     | Some i \<Rightarrow> if i = 0 \<or> i = length ep - 1 then None else Some (take i ep, drop (i + 1) ep))"

definition splitHostPort :: "string \<Rightarrow> (string \<times> int) option" where
  "splitHostPort ep = (case splitHostPortRaw ep of None \<Rightarrow> None
     | Some (host, portStr) \<Rightarrow> map_option (\<lambda>p. (host, p)) (Sscanf_d portStr))"

text \<open>The AWG twin of a plain interface: checks, then the row.\<close>

definition pair_checks :: "AmneziaParams \<Rightarrow> iface_create \<Rightarrow> db_interface \<Rightarrow> nat \<times> string + string \<times> string \<times> AmneziaParams" where
  "pair_checks noise req i =
     or_else_r (guard (i_Protocol i \<noteq> ProtocolAWG) 400 ''validation'')
     (\<lambda>_. let awgName0 = TrimSpace (ic_AWGName req);
             awgName = (if awgName0 = [] then DefaultPairName (ic_Name req) else awgName0)
       in or_else_r (guard (awgName \<noteq> ic_Name req) 400 ''validation'')
     (\<lambda>_. or_else_r (name_check (NormalizeBackend (ic_AWGBackend req)))
     (\<lambda>awgBackend. or_else_r
        (if ic_NeutralAWG req then Inr NeutralAmneziaParams
         else case ic_AWGAmnezia req of
           Some a \<Rightarrow> if Validate a \<noteq> None then Inl (400, ''validation'') else Inr a
         | None \<Rightarrow> Inr noise)
     (\<lambda>awgParams. Inr (awgName, awgBackend, awgParams)))))"

definition pair_iface :: "iface_create \<Rightarrow> db_interface \<Rightarrow> string \<times> string \<times> AmneziaParams \<Rightarrow> db_interface" where
  "pair_iface req i awg =
     (case awg of (awgName, awgBackend, awgParams) \<Rightarrow>
       let awgPort = PairPort (ic_ListenPort req) in
       i\<lparr>i_Name := awgName, i_ListenPort := awgPort, i_Addresses := ic_AWGAddresses req,
         i_PublicEndpoint := (if ic_PublicEndpoint req \<noteq> [] \<and> ic_ListenPort req > 0 then
             (case splitHostPort (ic_PublicEndpoint req) of
                Some (host, port) \<Rightarrow> if port = ic_ListenPort req then host @ '':'' @ int_str awgPort else ic_PublicEndpoint req
              | None \<Rightarrow> ic_PublicEndpoint req)
           else ic_PublicEndpoint req),
         i_Backend := awgBackend, i_Protocol := ProtocolAWG, i_AmneziaJSON := encodeAmnezia (Some awgParams),
         i_PairName := i_Name i, i_MuxPort := (if ic_SamePort req then ic_ListenPort req else 0)\<rparr>)"

datatype created = Single api_interface | Pair api_interface api_interface

definition create_pair :: "'w api_env \<Rightarrow> gotime \<Rightarrow> iface_create \<Rightarrow> db_interface \<Rightarrow> string \<times> string \<times> AmneziaParams
    \<Rightarrow> 'w rstate \<Rightarrow> created reply \<times> 'w rstate" where
  "create_pair en now req i awg r =
     (case CreateInterface now (i\<lparr>i_PairName := fst awg\<rparr>) (r_store r) of
        (Inl _, _) \<Rightarrow> (Refused 409 ''create_failed'', r)
      | (Inr i1, st1) \<Rightarrow>
        if ic_SamePort req \<and> ic_NeutralAWG req then (Refused 400 ''validation'', r\<lparr>r_store := st1\<rparr>)
        else (case CreateInterface now (pair_iface req i1 awg) st1 of
           (Inl _, _) \<Rightarrow> (Refused 409 ''create_failed'', r\<lparr>r_store := snd (DeleteInterface (i_Name i1) st1)\<rparr>)
         | (Inr i2, st2) \<Rightarrow>
           (let r1 = audit now ''info'' ''audit'' (i_Name i1) [] ''interface pair created (wg+awg)''
                  (''{'' @ quoted ''awg'' @ '':'' @ quoted (fst awg) @ '','' @ quoted ''wg_port'' @ '':'' @ int_str (i_ListenPort i1)
                    @ '','' @ quoted ''awg_port'' @ '':'' @ int_str (PairPort (ic_ListenPort req)) @ ''}'') (r\<lparr>r_store := st2\<rparr>);
                r2 = ForceReconcile en now r1
            in (Answer 201 (Pair (toAPIInterface en r2 i1 True) (toAPIInterface en r2 i2 True)), r2))))"

definition handleCreateInterface :: "'w api_env \<Rightarrow> gotime \<Rightarrow> key_pair option \<Rightarrow> AmneziaParams \<Rightarrow> AmneziaParams
    \<Rightarrow> iface_create option \<Rightarrow> 'w rstate \<Rightarrow> created reply \<times> 'w rstate" where
  "handleCreateInterface en now newPair noise awgNoise body r =
     (case body of None \<Rightarrow> (Refused 400 ''invalid_json'', r) | Some req \<Rightarrow>
     (case create_iface_checks en newPair noise req (r_backend r) of Inl (status, code) \<Rightarrow> (Refused status code, r) | Inr i \<Rightarrow>
      if ic_CreateAWGPair req then
        (case pair_checks awgNoise req i of Inl (status, code) \<Rightarrow> (Refused status code, r)
         | Inr awg \<Rightarrow> create_pair en now req i awg r)
      else (case CreateInterface now i (r_store r) of
          (Inl _, _) \<Rightarrow> (Refused 409 ''create_failed'', r)
        | (Inr i1, st1) \<Rightarrow>
          (let r1 = audit now ''info'' ''audit'' (i_Name i1) [] ''interface created'' ''{}'' (r\<lparr>r_store := st1\<rparr>);
               r2 = ForceReconcile en now r1
           in (Answer 201 (Single (toAPIInterface en r2 i1 True)), r2)))))"

section \<open>Changing\<close>

record iface_update =
  iu_PrivateKey :: "string option"
  iu_ListenPort :: "int option"
  iu_FwMark :: "int option"
  iu_MTU :: "int option"
  iu_TableMode :: "string option"
  iu_TableID :: "int option"
  iu_DNS :: "string list option"
  iu_Addresses :: "string list option"
  iu_PreUp :: "string option"
  iu_PostUp :: "string option"
  iu_PreDown :: "string option"
  iu_PostDown :: "string option"
  iu_DefaultKeepalive :: "int option"
  iu_PublicEndpoint :: "string option"
  iu_Enabled :: "bool option"
  iu_Backend :: "string option"
  iu_Protocol :: "string option"
  iu_Amnezia :: "AmneziaParams option"
  iu_PairName :: "string option"
  iu_MuxPort :: "int option"

definition patch_check :: "'a option \<Rightarrow> 'b \<Rightarrow> ('a \<Rightarrow> 'e + 'b) \<Rightarrow> 'e + 'b" where
  "patch_check new old f = (case new of None \<Rightarrow> Inr old | Some x \<Rightarrow> f x)"

definition patch_iface :: "'w api_env \<Rightarrow> iface_update \<Rightarrow> db_interface \<Rightarrow> nat \<times> string + db_interface" where
  "patch_iface en req i =
     or_else_r (patch_check (iu_PrivateKey req) (i_PrivateKey i, i_PublicKey i)
       (\<lambda>k. case en_pub en k of None \<Rightarrow> Inl (400, ''invalid_key'') | Some pub \<Rightarrow> Inr (k, pub)))
     (\<lambda>(priv, pub). or_else_r (guard (case iu_ListenPort req of None \<Rightarrow> True | Some p \<Rightarrow> 0 \<le> p \<and> p \<le> 65535) 400 ''validation'')
     (\<lambda>_. or_else_r (guard (case iu_Addresses req of None \<Rightarrow> True | Some xs \<Rightarrow> ValidateCIDRList xs = None) 400 ''validation'')
     (\<lambda>_. or_else_r (guard (rc_AllowHooks (en_cfg en) \<or> iu_PreUp req = None \<and> iu_PostUp req = None \<and> iu_PreDown req = None
            \<and> iu_PostDown req = None) 400 ''hooks_disabled'')
     (\<lambda>_. or_else_r (guard (case iu_PublicEndpoint req of None \<Rightarrow> True
            | Some e \<Rightarrow> e = [] \<or> ValidateEndpoint (en_port en) e = None) 400 ''validation'')
     (\<lambda>_. or_else_r (patch_check (iu_Backend req) (i_Backend i) (\<lambda>b. name_check (NormalizeBackend b)))
     (\<lambda>backend. or_else_r (patch_check (iu_Protocol req) (i_Protocol i) (\<lambda>p. name_check (NormalizeProtocol p)))
     (\<lambda>protocol. or_else_r (patch_check (iu_Amnezia req) (i_AmneziaJSON i)
            (\<lambda>a. if Validate a \<noteq> None then Inl (400, ''validation'') else Inr (encodeAmnezia (Some a))))
     (\<lambda>amneziaJSON. let i1 = i\<lparr>i_PrivateKey := priv, i_PublicKey := pub,
            i_ListenPort := patch (iu_ListenPort req) (i_ListenPort i), i_FwMark := patch (iu_FwMark req) (i_FwMark i),
            i_MTU := patch (iu_MTU req) (i_MTU i), i_TableMode := patch (iu_TableMode req) (i_TableMode i),
            i_TableID := (case iu_TableID req of None \<Rightarrow> i_TableID i | Some k \<Rightarrow> Some k),
            i_DNS := patch (iu_DNS req) (i_DNS i), i_Addresses := patch (iu_Addresses req) (i_Addresses i),
            i_PreUp := patch (iu_PreUp req) (i_PreUp i), i_PostUp := patch (iu_PostUp req) (i_PostUp i),
            i_PreDown := patch (iu_PreDown req) (i_PreDown i), i_PostDown := patch (iu_PostDown req) (i_PostDown i),
            i_DefaultKeepalive := patch (iu_DefaultKeepalive req) (i_DefaultKeepalive i),
            i_PublicEndpoint := patch (iu_PublicEndpoint req) (i_PublicEndpoint i),
            i_Enabled := patch (iu_Enabled req) (i_Enabled i), i_Backend := backend, i_Protocol := protocol,
            i_AmneziaJSON := amneziaJSON, i_PairName := patch (iu_PairName req) (i_PairName i),
            i_MuxPort := patch (iu_MuxPort req) (i_MuxPort i)\<rparr>
       in or_else_r (guard (validateMuxPort (i_Protocol i1) (i_ListenPort i1) (i_MuxPort i1)) 400 ''validation'')
     (\<lambda>_. Inr i1)))))))))"

definition handleUpdateInterface :: "'w api_env \<Rightarrow> gotime \<Rightarrow> string \<Rightarrow> iface_update option \<Rightarrow> 'w rstate
    \<Rightarrow> api_interface reply \<times> 'w rstate" where
  "handleUpdateInterface en now name body r =
     (if ReservedHostInterface name then (Refused 409 ''reserved_interface'', r)
      else case GetInterfaceByName name (r_store r) of Inl _ \<Rightarrow> (Refused 404 ''not_found'', r) | Inr i \<Rightarrow>
     (case body of None \<Rightarrow> (Refused 400 ''invalid_json'', r) | Some req \<Rightarrow>
     (case patch_iface en req i of Inl (status, code) \<Rightarrow> (Refused status code, r) | Inr i1 \<Rightarrow>
     (case UpdateInterface now i1 (r_store r) of
        (Inl _, _) \<Rightarrow> (Refused 500 ''update_failed'', r)
      | (Inr i2, st1) \<Rightarrow>
        (let r1 = audit now ''info'' ''audit'' (i_Name i2) [] ''interface updated'' ''{}'' (r\<lparr>r_store := st1\<rparr>);
             r2 = ForceReconcile en now r1
         in (Answer 200 (toAPIInterface en r2 i2 False), r2))))))"

text \<open>A reserved interface is only purged from the database; another one also from the backend.\<close>

definition handleDeleteInterface :: "'w api_env \<Rightarrow> gotime \<Rightarrow> string \<Rightarrow> 'w rstate \<Rightarrow> unit reply \<times> 'w rstate" where
  "handleDeleteInterface en now name r =
     (if ReservedHostInterface name then
        (case DeleteInterface name (r_store r) of
           (Inl NotFound, _) \<Rightarrow> (Refused 409 ''reserved_interface'', r)
         | (Inl _, _) \<Rightarrow> (Refused 500 ''delete_failed'', r)
         | (Inr _, st1) \<Rightarrow> (Answer 200 (), audit now ''info'' ''audit'' name []
             ''reserved interface purged from DB only (kernel left intact)'' ''{}'' (r\<lparr>r_store := st1\<rparr>)))
      else
        (case DeleteInterface name (r_store r) of
           (Inl NotFound, _) \<Rightarrow> (Refused 404 ''not_found'', r)
         | (Inl _, _) \<Rightarrow> (Refused 500 ''delete_failed'', r)
         | (Inr _, st1) \<Rightarrow> (Answer 204 (), audit now ''info'' ''audit'' name [] ''interface deleted'' ''{}''
             (r\<lparr>r_store := st1, r_backend := snd (op_RemoveInterface (en_ops en) name (r_backend r))\<rparr>))))"

definition set_enabled :: "'w api_env \<Rightarrow> gotime \<Rightarrow> string \<Rightarrow> bool \<Rightarrow> 'w rstate \<Rightarrow> string reply \<times> 'w rstate" where
  "set_enabled en now name b r =
     (case GetInterfaceByName name (r_store r) of Inl _ \<Rightarrow> (Refused 404 ''not_found'', r) | Inr i \<Rightarrow>
     (case UpdateInterface now (i\<lparr>i_Enabled := b\<rparr>) (r_store r) of
        (Inl _, _) \<Rightarrow> (Refused 500 ''update_failed'', r)
      | (Inr _, st1) \<Rightarrow> (Answer 200 (if b then ''up'' else ''down''), ForceReconcile en now (r\<lparr>r_store := st1\<rparr>))))"

definition handleInterfaceUp :: "'w api_env \<Rightarrow> gotime \<Rightarrow> string \<Rightarrow> 'w rstate \<Rightarrow> string reply \<times> 'w rstate" where
  "handleInterfaceUp en now name = set_enabled en now name True"

definition handleInterfaceDown :: "'w api_env \<Rightarrow> gotime \<Rightarrow> string \<Rightarrow> 'w rstate \<Rightarrow> string reply \<times> 'w rstate" where
  "handleInterfaceDown en now name = set_enabled en now name False"

section \<open>Export and import\<close>

definition conf_peer :: "db_peer \<Rightarrow> PeerSection" where
  "conf_peer p = zero_peer_section\<lparr>cp_PublicKey := p_PublicKey p, cp_PresharedKey := p_PresharedKey p,
     cp_AllowedIPs := (if p_Suspended p then [] else p_AllowedIPs p), cp_Endpoint := p_Endpoint p,
     cp_PersistentKeepalive := p_PersistentKeepalive p, cp_Name := p_Name p, cp_Notes := p_Notes p,
     cp_TrafficLimit := p_TrafficLimitBytes p,
     cp_Address := (case p_AssignedIPs p of [] \<Rightarrow> [] | a # _ \<Rightarrow> a)\<rparr>"

definition iface_conf :: "decoder \<Rightarrow> db_interface \<Rightarrow> db_peer list \<Rightarrow> Config" where
  "iface_conf um i peers = \<lparr>cf_Interface = with_amnezia (decodeAmnezia um (i_AmneziaJSON i))
      (zero_iface_section\<lparr>ci_PrivateKey := i_PrivateKey i, ci_Address := i_Addresses i, ci_ListenPort := i_ListenPort i,
        ci_DNS := i_DNS i, ci_MTU := i_MTU i,
        ci_Table := (case i_TableID i of Some k \<Rightarrow> if i_TableMode i = ''number'' then int_str k else i_TableMode i
          | None \<Rightarrow> i_TableMode i),
        ci_FwMark := i_FwMark i, ci_PreUp := i_PreUp i, ci_PostUp := i_PostUp i, ci_PreDown := i_PreDown i,
        ci_PostDown := i_PostDown i, ci_Backend := i_Backend i, ci_Protocol := i_Protocol i, ci_PairName := i_PairName i\<rparr>),
     cf_Peers = map conf_peer peers\<rparr>"

definition renderIfaceConf :: "decoder \<Rightarrow> db_interface \<Rightarrow> db_peer list \<Rightarrow> string" where
  "renderIfaceConf um i peers = Render (iface_conf um i peers)"

definition handleInterfaceExport :: "'w api_env \<Rightarrow> string \<Rightarrow> 'w rstate \<Rightarrow> string reply \<times> 'w rstate" where
  "handleInterfaceExport en name r =
     (case GetInterfaceByName name (r_store r) of Inl _ \<Rightarrow> (Refused 404 ''not_found'', r) | Inr i \<Rightarrow>
     (let path = filepath_Join (rc_ConfDir (en_cfg en)) (name @ ''.conf'');
          (failed, w) = op_ExportConf (en_ops en) path
            (renderIfaceConf (en_um en) i (ListPeersByInterface name (r_store r))) (r_backend r)
      in (if failed = None then Answer 200 path else Refused 500 ''export_failed'', r\<lparr>r_backend := w\<rparr>)))"

text \<open>The loop of \<open>parseScan\<close>: digits only, and the value wraps around at 64 bits.\<close>

definition parseScan :: "string \<Rightarrow> int option" where
  "parseScan s = (if list_all is_digit s then Some (foldl (\<lambda>v c. i64 (v * 10 + int (digit_val c))) 0 s) else None)"

definition import_table :: "string \<Rightarrow> (nat \<times> string) + string \<times> int option" where
  "import_table t =
     (if t = [] then Inr (''auto'', None)
      else let l = ToLower t in if l = ''off'' \<or> l = ''auto'' then Inr (l, None)
      else case parseScan t of None \<Rightarrow> Inl (400, ''invalid_table'') | Some n \<Rightarrow> Inr (''number'', Some n))"

definition section_amnezia :: "InterfaceSection \<Rightarrow> AmneziaParams" where
  "section_amnezia c = \<lparr>am_Jc = ci_Jc c, am_Jmin = ci_Jmin c, am_Jmax = ci_Jmax c, am_S1 = ci_S1 c, am_S2 = ci_S2 c,
     am_S3 = ci_S3 c, am_S4 = ci_S4 c, am_H1 = ci_H1 c, am_H2 = ci_H2 c, am_H3 = ci_H3 c, am_H4 = ci_H4 c,
     am_I1 = ci_I1 c, am_I2 = ci_I2 c, am_I3 = ci_I3 c, am_I4 = ci_I4 c, am_I5 = ci_I5 c\<rparr>"

definition imported_iface :: "string \<Rightarrow> string \<Rightarrow> string \<times> int option \<Rightarrow> InterfaceSection \<Rightarrow> db_interface" where
  "imported_iface name pub table c = zero_interface\<lparr>i_Name := name, i_PrivateKey := ci_PrivateKey c, i_PublicKey := pub,
     i_ListenPort := ci_ListenPort c, i_FwMark := ci_FwMark c, i_MTU := ci_MTU c, i_TableMode := fst table,
     i_TableID := snd table, i_DNS := ci_DNS c, i_Addresses := ci_Address c, i_PreUp := ci_PreUp c,
     i_PostUp := ci_PostUp c, i_PreDown := ci_PreDown c, i_PostDown := ci_PostDown c, i_Enabled := True,
     i_Backend := (if ci_Backend c = [] then ''auto'' else ci_Backend c),
     i_Protocol := (if ci_Protocol c = [] then (if HasAmnezia c then ProtocolAWG else ProtocolWG) else ci_Protocol c),
     i_AmneziaJSON := (if HasAmnezia c then encodeAmnezia (Some (section_amnezia c)) else []), i_PairName := ci_PairName c\<rparr>"

definition imported_peer :: "PeerSection \<Rightarrow> db_peer" where
  "imported_peer p = zero_peer\<lparr>p_PublicKey := cp_PublicKey p, p_PresharedKey := cp_PresharedKey p,
     p_AllowedIPs := cp_AllowedIPs p, p_Endpoint := cp_Endpoint p, p_PersistentKeepalive := cp_PersistentKeepalive p\<rparr>"

definition import_checks :: "'w api_env \<Rightarrow> string \<Rightarrow> (string \<times> string) option \<Rightarrow> nat \<times> string + db_interface \<times> db_peer list" where
  "import_checks en param body =
     (case body of None \<Rightarrow> Inl (400, ''invalid_json'') | Some (content, given) \<Rightarrow>
     (case Parse content of Inl _ \<Rightarrow> Inl (400, ''invalid_conf'') | Inr cfg \<Rightarrow>
     (let name = (if given \<noteq> [] then given else param); c = cf_Interface cfg in
      or_else_r (guard (name \<noteq> []) 400 ''validation'')
      (\<lambda>_. case en_pub en (ci_PrivateKey c) of None \<Rightarrow> Inl (400, ''invalid_key'') | Some pub \<Rightarrow>
        or_else_r (import_table (ci_Table c))
        (\<lambda>table. Inr (imported_iface name pub table c, map imported_peer (cf_Peers cfg)))))))"

definition handleInterfaceImport :: "'w api_env \<Rightarrow> gotime \<Rightarrow> string \<Rightarrow> (string \<times> string) option \<Rightarrow> 'w rstate
    \<Rightarrow> api_interface reply \<times> 'w rstate" where
  "handleInterfaceImport en now param body r =
     (case import_checks en param body of Inl (status, code) \<Rightarrow> (Refused status code, r) | Inr (i, peers) \<Rightarrow>
     (case ImportInterface now i peers (r_store r) of
        (Inl _, _) \<Rightarrow> (Refused 500 ''import_failed'', r)
      | (Inr _, st1) \<Rightarrow>
        (let r1 = ForceReconcile en now (r\<lparr>r_store := st1\<rparr>)
         in case GetInterfaceByName (i_Name i) (r_store r1) of
              Inr i1 \<Rightarrow> (Answer 200 (toAPIInterface en r1 i1 False), r1)
            | Inl _ \<Rightarrow> (Refused 500 ''panic'', r1))))"

end
