(* ===== verification/ApiIfaceLaws.thy ===== *)
theory ApiIfaceLaws
  imports ApiLaws ApiInterfaces
begin

text \<open>
  What the interface handlers guarantee: each acts on the map of interfaces of \<open>StoreMap\<close> as specified,
  keeps the peers of other interfaces, and leaves the device mirroring the database.
\<close>

section \<open>Interfaces after a pass\<close>

lemma reconciled_ifaces:
  "db_ok (r_store r) \<Longrightarrow> iface_map (r_store (ForceReconcile en now r)) = iface_map (r_store r)"
  unfolding ForceReconcile_def by (rule iface_map_cong) (rule run_store_ok(3))

lemma audit_ifaces [simp]: "iface_map (r_store (audit now l kd n k m js r)) = iface_map (r_store r)"
  by (rule iface_map_cong) simp

text \<open>The outcome of a request that changes interfaces: their map, and the peers as ever.\<close>

definition lands_iface :: "mock api_env \<Rightarrow> gotime \<Rightarrow> string \<Rightarrow> mock rstate \<Rightarrow> iface_view \<Rightarrow> peer_view \<Rightarrow> mock rstate \<Rightarrow> bool" where
  "lands_iface en now n r m ps r' \<longleftrightarrow> iface_map (r_store r') = m \<and> lands en now n r ps r'"

lemma finished_iface:
  assumes "db_ok st1" "iface_map st1 n \<noteq> None" "r_store r1 = st1 \<or> (\<exists>l kd nm k m js. r1 = audit now l kd nm k m js (r\<lparr>r_store := st1\<rparr>))"
    "r_backend r1 = r_backend r"
  shows "lands_iface en now n r (iface_map st1) (peer_map st1) (ForceReconcile en now r1)"
proof -
  have s: "db_ok (r_store r1)" "iface_map (r_store r1) = iface_map st1" "peer_map (r_store r1) = peer_map st1"
    "n \<in> i_Name ` set (s_ifaces (r_store r1))"
    using assms(1-3) by (auto simp: iface_map_None)
  show ?thesis unfolding lands_iface_def lands_def
    using reconciled [OF s(1), of en now] reconciled_mirrors [OF _ s(1), of en n now] reconciled_ifaces [OF s(1), of en now] s assms(4)
    by simp
qed

lemma finished_audited:
  assumes "db_ok st1" "iface_map st1 n \<noteq> None"
  shows "lands_iface en now n r (iface_map st1) (peer_map st1) (ForceReconcile en now (audit now l kd nm k m js (r\<lparr>r_store := st1\<rparr>)))"
  by (rule finished_iface [OF assms]) (blast, simp)

section \<open>Creating interfaces\<close>

lemma checked_iface:
  assumes "create_iface_checks en kp noise req w = Inr i"
  shows "i_Name i = ic_Name req" "\<not> ReservedHostInterface (ic_Name req)" "ValidateCIDRList (i_Addresses i) = None"
    "iface_keys en kp (ic_Name req) (ic_PrivateKey req) w = Inr (i_PrivateKey i, i_PublicKey i)"
  using assms by (auto simp: create_iface_checks_def or_else_r_def guard_def Let_def split: sum.splits if_splits prod.splits)

lemma iface_created:
  assumes "db_ok st" "iface_map st (i_Name i) = None"
  obtains st1 where "CreateInterface now i st = (Inr (new_iface now st i), st1)" "db_ok st1"
    "iface_map st1 = (iface_map st)(i_Name i \<mapsto> scanInterface (new_iface now st i))" "peer_map st1 = peer_map st"
proof -
  obtain x st1 where c: "CreateInterface now i st = (x, st1)" by (cases "CreateInterface now i st")
  show thesis using that [of st1] view_CreateInterface [OF assms(1), of i now] CreateInterface_ok [OF assms(1), of now i] assms(2)
    by (simp add: c)
qed

lemma iface_exists:
  assumes "db_ok st" "iface_map st (i_Name i) \<noteq> None"
  shows "CreateInterface now i st = (Inl UniqueFailed, st)"
  using view_CreateInterface [OF assms(1), of i now] assms(2) by simp

lemma create_single:
  assumes "db_ok (r_store r)" "create_iface_checks en kp noise req (r_backend r) = Inr i" "\<not> ic_CreateAWGPair req"
  shows "if iface_map (r_store r) (ic_Name req) = None
    then \<exists>a r'. handleCreateInterface en now kp noise twinNoise (Some req) r = (Answer 201 (Single a), r')
      \<and> lands_iface en now (ic_Name req) r
          ((iface_map (r_store r))(ic_Name req \<mapsto> scanInterface (new_iface now (r_store r) i))) (peer_map (r_store r)) r'
    else handleCreateInterface en now kp noise twinNoise (Some req) r = (Refused 409 ''create_failed'', r)"
proof -
  note n = checked_iface(1) [OF assms(2)]
  show ?thesis
  proof (cases "iface_map (r_store r) (ic_Name req) = None")
    case True
    then have "iface_map (r_store r) (i_Name i) = None" using n by simp
    then obtain st1 where st1: "CreateInterface now i (r_store r) = (Inr (new_iface now (r_store r) i), st1)" "db_ok st1"
      "iface_map st1 = (iface_map (r_store r))(i_Name i \<mapsto> scanInterface (new_iface now (r_store r) i))" "peer_map st1 = peer_map (r_store r)"
      by (rule iface_created [OF assms(1)])
    have "iface_map st1 (ic_Name req) \<noteq> None" using st1(3) n by simp
    note f = finished_audited [OF st1(2) this, where r = r and en = en and now = now and l = "''info''" and kd = "''audit''"
        and nm = "i_Name (new_iface now (r_store r) i)" and k = "[]" and m = "''interface created''" and js = "''{}''"]
    show ?thesis using assms(2,3) True n f st1 by (simp add: handleCreateInterface_def Let_def)
  next
    case False
    then have "CreateInterface now i (r_store r) = (Inl UniqueFailed, r_store r)"
      using n by (intro iface_exists [OF assms(1)]) simp
    then show ?thesis using assms(2,3) n False by (simp add: handleCreateInterface_def)
  qed
qed

text \<open>
  C18. Creating an interface: a request that fails a check is refused with that check's status, a name
  that is taken with 409, both without any change; otherwise exactly one interface is added, under the
  requested name, which the host does not reserve, with addresses that parse, and no peer changes but for
  enforcement and the statistics the forced pass samples, which are not compared; this holds whatever the backend answers,
  for the handler ignores errors of the pass.  Requests for a twin are not part of this claim.  The device of the new
  interface is claimed to mirror the database only where the daemon runs on the mock backend and that backend is healthy.
\<close>

theorem create_interface_exact:
  assumes "db_ok (r_store r)"
  shows "case create_iface_checks en kp noise req (r_backend r) of
      Inl (status, code) \<Rightarrow> handleCreateInterface en now kp noise twinNoise (Some req) r = (Refused status code, r)
    | Inr i \<Rightarrow> i_Name i = ic_Name req \<and> \<not> ReservedHostInterface (ic_Name req) \<and> ValidateCIDRList (i_Addresses i) = None
      \<and> (ic_CreateAWGPair req \<or>
        (if iface_map (r_store r) (ic_Name req) = None
         then \<exists>a r'. handleCreateInterface en now kp noise twinNoise (Some req) r = (Answer 201 (Single a), r')
           \<and> lands_iface en now (ic_Name req) r
               ((iface_map (r_store r))(ic_Name req \<mapsto> scanInterface (new_iface now (r_store r) i))) (peer_map (r_store r)) r'
         else handleCreateInterface en now kp noise twinNoise (Some req) r = (Refused 409 ''create_failed'', r)))"
proof (cases "create_iface_checks en kp noise req (r_backend r)")
  case (Inl e)
  then show ?thesis by (cases e) (simp add: handleCreateInterface_def)
next
  case (Inr i)
  then show ?thesis using checked_iface [OF Inr] create_single [OF assms Inr, where now = now and twinNoise = twinNoise] by (cases "ic_CreateAWGPair req") simp_all
qed

definition demo_iface_req :: iface_create where
  "demo_iface_req = \<lparr>ic_Name = ''wg9'', ic_PrivateKey = ''c'', ic_ListenPort = 51900, ic_FwMark = 0, ic_MTU = 0,
     ic_TableMode = [], ic_TableID = None, ic_DNS = [], ic_Addresses = [''10.9.0.1/24''], ic_PreUp = [], ic_PostUp = [],
     ic_PreDown = [], ic_PostDown = [], ic_DefaultKeepalive = 25, ic_PublicEndpoint = [], ic_Enabled = None,
     ic_Backend = [], ic_Protocol = [], ic_Amnezia = None, ic_CreateAWGPair = False, ic_AWGName = [], ic_AWGAddresses = [],
     ic_AWGBackend = [], ic_AWGAmnezia = None, ic_NeutralAWG = False, ic_MuxPort = 0, ic_SamePort = False\<rparr>"

lemma demo_iface_checks:
  "(case create_iface_checks demo_env None zero_amnezia demo_iface_req NewMock of Inl _ \<Rightarrow> None
     | Inr i \<Rightarrow> Some (i_Name i, i_Protocol i)) = Some (''wg9'', ''wg'')"
  by code_simp

lemma demo_iface_free: "i_Name ` set (s_ifaces over_quota_store) = {''wg0''}"
  using arg_cong [OF over_quota_ifaces, of "\<lambda>xs. fst ` set xs"] by (simp add: image_image)

theorem create_interface_exact_witness:
  "\<exists>a r'. handleCreateInterface demo_env 10 None zero_amnezia zero_amnezia (Some demo_iface_req) demo_state = (Answer 201 (Single a), r')
     \<and> iface_map (r_store r') ''wg0'' = iface_map over_quota_store ''wg0''"
proof -
  obtain i where i: "create_iface_checks demo_env None zero_amnezia demo_iface_req (r_backend demo_state) = Inr i"
    using demo_iface_checks by (auto split: sum.splits)
  have "iface_map over_quota_store ''wg9'' = None" by (simp add: iface_map_None demo_iface_free)
  then show ?thesis
    using create_interface_exact [where r = demo_state and en = demo_env and kp = None and noise = zero_amnezia
        and twinNoise = zero_amnezia and req = demo_iface_req and now = 10] over_quota_ok i
    by (auto simp: demo_iface_req_def lands_iface_def)
qed

lemma pair_checked: "pair_checks twinNoise req i = Inr awg \<Longrightarrow> fst awg \<noteq> ic_Name req"
  by (auto simp: pair_checks_def or_else_r_def guard_def Let_def split: sum.splits if_splits option.splits)

lemma create_pair_taken:
  assumes "db_ok (r_store r)" "iface_map (r_store r) (i_Name i) \<noteq> None"
  shows "create_pair en now req i awg r = (Refused 409 ''create_failed'', r)"
  using iface_exists [OF assms(1), of "i\<lparr>i_PairName := fst awg\<rparr>" now] assms(2) by (simp add: create_pair_def)

lemma create_pair_stuck:
  assumes "db_ok (r_store r)" "iface_map (r_store r) (i_Name i) = None" "ic_SamePort req \<and> ic_NeutralAWG req"
  shows "\<exists>st1. create_pair en now req i awg r = (Refused 400 ''validation'', r\<lparr>r_store := st1\<rparr>)
    \<and> iface_map st1 = (iface_map (r_store r))(i_Name i \<mapsto> scanInterface (new_iface now (r_store r) (i\<lparr>i_PairName := fst awg\<rparr>)))"
proof -
  have "iface_map (r_store r) (i_Name (i\<lparr>i_PairName := fst awg\<rparr>)) = None" using assms(2) by simp
  then show ?thesis
    by (rule iface_created [OF assms(1), where now = now]) (use assms(3) in \<open>auto simp: create_pair_def\<close>)
qed

lemma pair_iface_simps [simp]:
  "i_Name (pair_iface req i awg) = fst awg" "i_PairName (pair_iface req i awg) = i_Name i"
  "i_PrivateKey (pair_iface req i awg) = i_PrivateKey i" "i_PublicKey (pair_iface req i awg) = i_PublicKey i"
  by (cases awg; simp add: pair_iface_def Let_def)+

lemma scan_keys [simp]: "i_PrivateKey (scanInterface i) = i_PrivateKey i" "i_PublicKey (scanInterface i) = i_PublicKey i"
  "i_PairName (scanInterface i) = i_PairName i"
  by (simp_all add: scanInterface_def iface_defaults_def)

lemma new_iface_fields [simp]:
  "i_PairName (new_iface now st i) = i_PairName i" "i_PrivateKey (new_iface now st i) = i_PrivateKey i"
  "i_PublicKey (new_iface now st i) = i_PublicKey i"
  by (simp_all add: new_iface_def iface_defaults_def table_default_def)

lemma create_pair_outcome:
  assumes "db_ok (r_store r)" "iface_map (r_store r) (i_Name i) = None" "\<not> (ic_SamePort req \<and> ic_NeutralAWG req)"
    "fst awg \<noteq> i_Name i" and i1_def: "i1 = new_iface now (r_store r) (i\<lparr>i_PairName := fst awg\<rparr>)"
  shows "if iface_map (r_store r) (fst awg) \<noteq> None
    then \<exists>st1. create_pair en now req i awg r = (Refused 409 ''create_failed'', r\<lparr>r_store := st1\<rparr>)
      \<and> iface_map st1 = iface_map (r_store r) \<and> peer_map st1 = peer_map (r_store r)
    else \<exists>a b r' i2. create_pair en now req i awg r = (Answer 201 (Pair a b), r')
      \<and> lands_iface en now (i_Name i) r ((iface_map (r_store r))(i_Name i \<mapsto> scanInterface i1, fst awg \<mapsto> scanInterface i2))
          (peer_map (r_store r)) r'
      \<and> i_PairName i2 = i_Name i \<and> i_PrivateKey i2 = i_PrivateKey i1 \<and> i_PublicKey i2 = i_PublicKey i1"
proof -
  have "iface_map (r_store r) (i_Name (i\<lparr>i_PairName := fst awg\<rparr>)) = None" using assms(2) by simp
  then obtain st1 where st1: "CreateInterface now (i\<lparr>i_PairName := fst awg\<rparr>) (r_store r) = (Inr i1, st1)" "db_ok st1"
      "iface_map st1 = (iface_map (r_store r))(i_Name i \<mapsto> scanInterface i1)" "peer_map st1 = peer_map (r_store r)"
    unfolding i1_def by (rule iface_created [OF assms(1), where now = now]) simp
  have n1: "i_Name i1 = i_Name i" by (simp add: i1_def)
  show ?thesis
  proof (cases "iface_map (r_store r) (fst awg) = None")
    case False
    then have taken: "iface_map st1 (i_Name (pair_iface req i1 awg)) \<noteq> None" using st1(3) by simp
    have c: "create_pair en now req i awg r = (Refused 409 ''create_failed'', r\<lparr>r_store := snd (DeleteInterface (i_Name i) st1)\<rparr>)"
      using st1(1) assms(3) iface_exists [OF st1(2) taken, of now] n1 by (simp add: create_pair_def)
    have "iface_map (snd (DeleteInterface (i_Name i) st1)) = iface_map (r_store r)"
      using view_DeleteInterface_ifaces(1) [OF st1(2), of "i_Name i"] st1(3) assms(2) by (simp add: fun_upd_idem)
    moreover have "peer_map (r_store r) x = None" if "fst x = i_Name i" for x
    proof (cases x)
      case (Pair n k)
      then show ?thesis using that assms(2) GetPeerRow_iface [OF assms(1), of n k]
        by (cases "GetPeerRow n k (r_store r)") (auto simp: peer_map_def iface_map_None)
    qed
    then have "peer_map (snd (DeleteInterface (i_Name i) st1)) = peer_map (r_store r)"
      using view_DeleteInterface [OF st1(2), of "i_Name i"] st1(4) by (auto simp: restrict_map_def fun_eq_iff)
    ultimately show ?thesis using False c by auto
  next
    case True
    then have "iface_map st1 (i_Name (pair_iface req i1 awg)) = None" using st1(3) assms(4) by simp
    then obtain st2 where st2: "CreateInterface now (pair_iface req i1 awg) st1 = (Inr (new_iface now st1 (pair_iface req i1 awg)), st2)"
        "db_ok st2" "iface_map st2 = (iface_map st1)(fst awg \<mapsto> scanInterface (new_iface now st1 (pair_iface req i1 awg)))" "peer_map st2 = peer_map st1"
      by (rule iface_created [OF st1(2), where now = now]) simp
    let ?r1 = "audit now ''info'' ''audit'' (i_Name i1) [] ''interface pair created (wg+awg)''
                  (''{'' @ quoted ''awg'' @ '':'' @ quoted (fst awg) @ '','' @ quoted ''wg_port'' @ '':'' @ int_str (i_ListenPort i1)
                    @ '','' @ quoted ''awg_port'' @ '':'' @ int_str (PairPort (ic_ListenPort req)) @ ''}'') (r\<lparr>r_store := st2\<rparr>)"
    have "iface_map st2 (i_Name i) \<noteq> None" using st2(3) st1(3) by simp
    then have "lands_iface en now (i_Name i) r (iface_map st2) (peer_map st2) (ForceReconcile en now ?r1)"
      by (rule finished_audited [OF st2(2)])
    then show ?thesis using True st1 st2 assms(3) n1 by (auto simp: create_pair_def Let_def)
  qed
qed

text \<open>
  C19. Creating a WireGuard interface with its AWG twin: when the checks pass and both names are free,
  exactly the two interfaces are added, named as each other's twin, with one key pair; when the
  primary name is taken nothing changes, and when the twin's is, the primary is taken back.  Only the
  combination of \<open>same_port\<close> and \<open>neutral_awg\<close> is refused after the primary interface was written.
\<close>

theorem create_pair_exact:
  assumes "db_ok (r_store r)"
  shows "case create_iface_checks en kp noise req (r_backend r) of Inl _ \<Rightarrow> True
    | Inr i \<Rightarrow> \<not> ic_CreateAWGPair req \<or> (case pair_checks twinNoise req i of
        Inl (status, code) \<Rightarrow> handleCreateInterface en now kp noise twinNoise (Some req) r = (Refused status code, r)
      | Inr awg \<Rightarrow> (let i1 = new_iface now (r_store r) (i\<lparr>i_PairName := fst awg\<rparr>) in
          fst awg \<noteq> ic_Name req
          \<and> (if iface_map (r_store r) (ic_Name req) \<noteq> None
             then handleCreateInterface en now kp noise twinNoise (Some req) r = (Refused 409 ''create_failed'', r)
             else if ic_SamePort req \<and> ic_NeutralAWG req
             then (\<exists>st1. handleCreateInterface en now kp noise twinNoise (Some req) r = (Refused 400 ''validation'', r\<lparr>r_store := st1\<rparr>)
               \<and> iface_map st1 = (iface_map (r_store r))(ic_Name req \<mapsto> scanInterface i1))
             else if iface_map (r_store r) (fst awg) \<noteq> None
             then (\<exists>st1. handleCreateInterface en now kp noise twinNoise (Some req) r = (Refused 409 ''create_failed'', r\<lparr>r_store := st1\<rparr>)
               \<and> iface_map st1 = iface_map (r_store r) \<and> peer_map st1 = peer_map (r_store r))
             else (\<exists>a b r' i2. handleCreateInterface en now kp noise twinNoise (Some req) r = (Answer 201 (Pair a b), r')
               \<and> lands_iface en now (ic_Name req) r ((iface_map (r_store r))(ic_Name req \<mapsto> scanInterface i1, fst awg \<mapsto> scanInterface i2))
                   (peer_map (r_store r)) r'
               \<and> i_PairName i1 = fst awg \<and> i_PairName i2 = ic_Name req
               \<and> i_PrivateKey i2 = i_PrivateKey i1 \<and> i_PublicKey i2 = i_PublicKey i1))))"
proof (cases "create_iface_checks en kp noise req (r_backend r)")
  case (Inr i)
  note n = checked_iface [OF Inr]
  show ?thesis
  proof (cases "pair_checks twinNoise req i")
    case (Inl e)
    then show ?thesis using Inr by (cases e) (simp add: handleCreateInterface_def)
  next
    case awg: (Inr awg)
    have ne: "fst awg \<noteq> i_Name i" by (rule pair_checked [OF awg, folded n(1)])
    have h: "handleCreateInterface en now kp noise twinNoise (Some req) r = create_pair en now req i awg r" if "ic_CreateAWGPair req"
      using that Inr awg by (simp add: handleCreateInterface_def)
    show ?thesis
    proof (cases "ic_CreateAWGPair req")
      case False
      then show ?thesis using Inr awg by simp
    next
      case True
      note c = h [OF True] n(1)
      consider (taken) "iface_map (r_store r) (i_Name i) \<noteq> None"
        | (stuck) "iface_map (r_store r) (i_Name i) = None" "ic_SamePort req \<and> ic_NeutralAWG req"
        | (go) "iface_map (r_store r) (i_Name i) = None" "\<not> (ic_SamePort req \<and> ic_NeutralAWG req)" by blast
      then show ?thesis
      proof cases
        case taken
        then show ?thesis using create_pair_taken [OF assms taken, of en now req awg] ne Inr awg c by simp
      next
        case stuck
        then show ?thesis using create_pair_stuck [OF assms stuck, of en now awg] ne Inr awg c by (simp add: Let_def)
      next
        case go
        then show ?thesis using create_pair_outcome [OF assms go ne refl, of en now] ne Inr awg c
          by (cases "iface_map (r_store r) (fst awg) = None") (auto simp: Let_def)
      qed
    qed
  qed
qed simp

theorem create_pair_exact_witness:
  "\<exists>a b r'. handleCreateInterface demo_env 10 None zero_amnezia zero_amnezia (Some (demo_iface_req\<lparr>ic_CreateAWGPair := True\<rparr>)) demo_state
     = (Answer 201 (Pair a b), r')"
proof -
  let ?req = "demo_iface_req\<lparr>ic_CreateAWGPair := True\<rparr>"
  have "(case create_iface_checks demo_env None zero_amnezia ?req NewMock of Inl _ \<Rightarrow> False
      | Inr i \<Rightarrow> (case pair_checks zero_amnezia ?req i of Inl _ \<Rightarrow> False | Inr awg \<Rightarrow> fst awg = ''awg9''))" by code_simp
  then obtain i awg where i: "create_iface_checks demo_env None zero_amnezia ?req (r_backend demo_state) = Inr i"
      "pair_checks zero_amnezia ?req i = Inr awg" "fst awg = ''awg9''"
    by (auto split: sum.splits)
  have "iface_map over_quota_store ''wg9'' = None" "iface_map over_quota_store ''awg9'' = None"
    by (simp_all add: iface_map_None demo_iface_free)
  then show ?thesis
    using create_pair_exact [where r = demo_state and en = demo_env and kp = None and noise = zero_amnezia
        and twinNoise = zero_amnezia and req = ?req and now = 10] over_quota_ok i
    by (auto simp: demo_iface_req_def Let_def)
qed

text \<open>The name of a twin is not checked against the names the host reserves.\<close>

lemma twin_may_be_reserved:
  "(case create_iface_checks demo_env None zero_amnezia (demo_iface_req\<lparr>ic_CreateAWGPair := True, ic_AWGName := ''mesh0''\<rparr>) NewMock of
      Inl _ \<Rightarrow> None | Inr i \<Rightarrow> (case pair_checks zero_amnezia (demo_iface_req\<lparr>ic_CreateAWGPair := True, ic_AWGName := ''mesh0''\<rparr>) i of
      Inl _ \<Rightarrow> None | Inr awg \<Rightarrow> Some (fst awg))) = Some ''mesh0'' \<and> ReservedHostInterface ''mesh0''"
  by code_simp

text \<open>
  C17. Creating an interface over a device that already has a key keeps that key: when the request
  names none, the new interface (and its twin, if one is asked for) has the private key of the device,
  whatever the key generator would have given, so the peers of the device still recognise it.
\<close>

theorem device_identity_kept:
  fixes r r' :: "mock rstate"
  assumes "op_Device (en_ops en) (ic_Name req) (r_backend r) = Inr dv" "d_PrivateKey dv \<noteq> []" "\<not> IsZeroKey (d_PrivateKey dv)"
    and "ic_PrivateKey req = []" and "db_ok (r_store r)"
    and "handleCreateInterface en now kp noise twinNoise (Some req) r = (Answer 201 c, r')"
  shows "\<exists>i. iface_map (r_store r') (ic_Name req) = Some i \<and> i_PrivateKey i = d_PrivateKey dv
    \<and> en_pub en (d_PrivateKey dv) = Some (i_PublicKey i)
    \<and> (case c of Single _ \<Rightarrow> True
       | Pair _ b \<Rightarrow> (\<exists>j. iface_map (r_store r') (i_PairName i) = Some j \<and> i_PrivateKey j = d_PrivateKey dv))"
proof -
  have "create_iface_checks en kp noise req (r_backend r) \<noteq> Inl e" for e
    using assms(6) by (cases e) (auto simp: handleCreateInterface_def)
  then obtain i where i: "create_iface_checks en kp noise req (r_backend r) = Inr i" by (metis sum.exhaust)
  note n = checked_iface [OF i]
  have key: "i_PrivateKey i = d_PrivateKey dv" "en_pub en (d_PrivateKey dv) = Some (i_PublicKey i)"
    using n(4) assms(1-4) by (auto simp: iface_keys_def split: option.splits if_splits)
  show ?thesis
  proof (cases "ic_CreateAWGPair req")
    case False
    have "iface_map (r_store r) (ic_Name req) = None"
      using create_single [OF assms(5) i False, where now = now and twinNoise = twinNoise] assms(6) by (auto split: if_splits)
    then have "iface_map (r_store r') (ic_Name req) = Some (scanInterface (new_iface now (r_store r) i))" "\<exists>a. c = Single a"
      using create_single [OF assms(5) i False, where now = now and twinNoise = twinNoise] assms(6) by (auto simp: lands_iface_def)
    then show ?thesis using key by auto
  next
    case True
    obtain awg where awg: "pair_checks twinNoise req i = Inr awg"
      using assms(6) True i by (cases "pair_checks twinNoise req i") (auto simp: handleCreateInterface_def)
    have h: "create_pair en now req i awg r = (Answer 201 c, r')" using assms(6) True i awg by (simp add: handleCreateInterface_def)
    have ne: "fst awg \<noteq> i_Name i" by (rule pair_checked [OF awg, folded n(1)])
    have go: "iface_map (r_store r) (i_Name i) = None" "\<not> (ic_SamePort req \<and> ic_NeutralAWG req)"
      using create_pair_taken [OF assms(5), of i en now req awg] create_pair_stuck [OF assms(5), of i req en now awg] h by fastforce+
    obtain i2 where i2: "lands_iface en now (i_Name i) r ((iface_map (r_store r))(i_Name i \<mapsto>
          scanInterface (new_iface now (r_store r) (i\<lparr>i_PairName := fst awg\<rparr>)), fst awg \<mapsto> scanInterface i2)) (peer_map (r_store r)) r'"
        "i_PrivateKey i2 = i_PrivateKey i" "\<exists>a b. c = Pair a b"
      using create_pair_outcome [OF assms(5) go ne refl, of en now] h by (auto split: if_splits)
    then show ?thesis using key ne n(1) by (auto simp: lands_iface_def)
  qed
qed

definition keyed_state :: "mock rstate" where
  "keyed_state = demo_state\<lparr>r_backend := NewMock\<lparr>m_Devices := [(''wg9'', (new_device ''wg9'')\<lparr>d_PrivateKey := ''c''\<rparr>)]\<rparr>\<rparr>"

lemma keyed_checks:
  "(case create_iface_checks demo_env None zero_amnezia (demo_iface_req\<lparr>ic_PrivateKey := []\<rparr>)
       (NewMock\<lparr>m_Devices := [(''wg9'', (new_device ''wg9'')\<lparr>d_PrivateKey := ''c''\<rparr>)]\<rparr>) of Inl _ \<Rightarrow> False | Inr i \<Rightarrow> True)"
  "(case mock_Device ''wg9'' (NewMock\<lparr>m_Devices := [(''wg9'', (new_device ''wg9'')\<lparr>d_PrivateKey := ''c''\<rparr>)]\<rparr>) of
     Inl _ \<Rightarrow> False | Inr d \<Rightarrow> d_PrivateKey d = ''c'' \<and> \<not> IsZeroKey (d_PrivateKey d))"
  by code_simp+

theorem device_identity_kept_witness:
  "\<exists>c r' i. handleCreateInterface demo_env 10 None zero_amnezia zero_amnezia (Some (demo_iface_req\<lparr>ic_PrivateKey := []\<rparr>)) keyed_state = (Answer 201 c, r')
     \<and> iface_map (r_store r') ''wg9'' = Some i \<and> i_PrivateKey i = ''c''"
proof -
  let ?req = "demo_iface_req\<lparr>ic_PrivateKey := []\<rparr>"
  have st: "r_store keyed_state = over_quota_store" by (simp add: keyed_state_def)
  have ok: "db_ok (r_store keyed_state)" using over_quota_ok st by simp
  obtain i where i: "create_iface_checks demo_env None zero_amnezia ?req (r_backend keyed_state) = Inr i"
    using keyed_checks(1) by (auto simp: keyed_state_def split: sum.splits)
  have "iface_map (r_store keyed_state) ''wg9'' = None" "\<not> ic_CreateAWGPair ?req" "ic_Name ?req = ''wg9''"
    by (simp_all add: iface_map_None demo_iface_free st demo_iface_req_def)
  then obtain c r' where h: "handleCreateInterface demo_env 10 None zero_amnezia zero_amnezia (Some ?req) keyed_state = (Answer 201 c, r')"
    using create_single [OF ok i, where now = 10 and twinNoise = zero_amnezia] by auto
  obtain dv where dv: "op_Device (en_ops demo_env) (ic_Name ?req) (r_backend keyed_state) = Inr dv" "d_PrivateKey dv = ''c''" "\<not> IsZeroKey (d_PrivateKey dv)"
    using keyed_checks(2) by (auto simp: demo_env_def mock_ops_def keyed_state_def demo_iface_req_def split: sum.splits)
  have "d_PrivateKey dv \<noteq> []" "ic_PrivateKey ?req = []" using dv(2) by simp_all
  from device_identity_kept [OF dv(1) this(1) dv(3) this(2) ok h] h dv(2) show ?thesis by (auto simp: demo_iface_req_def)
qed

section \<open>Changing and deleting interfaces\<close>

lemma patched_iface:
  "patch_iface en req i = Inr i1 \<Longrightarrow> i_ID i1 = i_ID i \<and> i_Name i1 = i_Name i \<and> i_CreatedAt i1 = i_CreatedAt i"
  by (auto simp: patch_iface_def or_else_r_def Let_def split: sum.splits prod.splits)

lemma iface_updated:
  assumes "db_ok st" "iface_map st n = Some old" "i_ID i = i_ID old" "i_Name i = n" "i_CreatedAt i = i_CreatedAt old"
  obtains st1 where "UpdateInterface now i st = (Inr ((iface_defaults i)\<lparr>i_UpdatedAt := now\<rparr>), st1)" "db_ok st1"
    "iface_map st1 = (iface_map st)(n \<mapsto> scanInterface (i\<lparr>i_UpdatedAt := now\<rparr>))" "peer_map st1 = peer_map st"
proof -
  obtain x st1 where c: "UpdateInterface now i st = (x, st1)" by (cases "UpdateInterface now i st")
  have "i\<lparr>i_CreatedAt := i_CreatedAt old, i_UpdatedAt := now\<rparr> = i\<lparr>i_UpdatedAt := now\<rparr>" using assms(5) by (cases i) simp
  then show thesis using that [of st1] view_UpdateInterface [OF assms(1-4), of now] UpdateInterface_ok [OF assms(1), of now i]
    by (simp add: c)
qed

text \<open>
  C15. Editing an interface: a reserved name is refused with 409, an unknown one with 404, a body that
  does not parse or a value that does not validate with 400, hooks where they are disabled likewise,
  all without any change; otherwise exactly that interface takes the patched columns, and neither
  another interface nor, enforcement apart, any peer changes.  Switching it up or down is the edit of
  its one flag.
\<close>

theorem update_interface_exact:
  assumes "db_ok (r_store r)"
  shows "case iface_map (r_store r) n of
      None \<Rightarrow> handleUpdateInterface en now n body r = (Refused (if ReservedHostInterface n then 409 else 404)
          (if ReservedHostInterface n then ''reserved_interface'' else ''not_found''), r)
        \<and> handleInterfaceUp en now n r = (Refused 404 ''not_found'', r) \<and> handleInterfaceDown en now n r = (Refused 404 ''not_found'', r)
    | Some i \<Rightarrow>
        (if ReservedHostInterface n then handleUpdateInterface en now n body r = (Refused 409 ''reserved_interface'', r)
         else case body of None \<Rightarrow> handleUpdateInterface en now n body r = (Refused 400 ''invalid_json'', r)
         | Some req \<Rightarrow> (case patch_iface en req i of
             Inl (status, code) \<Rightarrow> handleUpdateInterface en now n body r = (Refused status code, r)
           | Inr i1 \<Rightarrow> (\<exists>a r'. handleUpdateInterface en now n body r = (Answer 200 a, r')
               \<and> lands_iface en now n r ((iface_map (r_store r))(n \<mapsto> scanInterface (i1\<lparr>i_UpdatedAt := now\<rparr>))) (peer_map (r_store r)) r')))
        \<and> (\<exists>r'. handleInterfaceUp en now n r = (Answer 200 ''up'', r')
            \<and> lands_iface en now n r ((iface_map (r_store r))(n \<mapsto> scanInterface (i\<lparr>i_Enabled := True, i_UpdatedAt := now\<rparr>))) (peer_map (r_store r)) r')
        \<and> (\<exists>r'. handleInterfaceDown en now n r = (Answer 200 ''down'', r')
            \<and> lands_iface en now n r ((iface_map (r_store r))(n \<mapsto> scanInterface (i\<lparr>i_Enabled := False, i_UpdatedAt := now\<rparr>))) (peer_map (r_store r)) r')"
proof (cases "iface_map (r_store r) n")
  case None
  then show ?thesis by (simp add: absent_iface handleUpdateInterface_def handleInterfaceUp_def handleInterfaceDown_def set_enabled_def)
next
  case i: (Some i)
  then have row: "GetInterfaceByName n (r_store r) = Inr i" by (simp add: iface_map_Some)
  have n: "i_Name i = n" using i by (auto simp: iface_map_iff [OF assms])
  have enabled: "\<exists>r'. set_enabled en now n b r = (Answer 200 (if b then ''up'' else ''down''), r')
      \<and> lands_iface en now n r ((iface_map (r_store r))(n \<mapsto> scanInterface (i\<lparr>i_Enabled := b, i_UpdatedAt := now\<rparr>))) (peer_map (r_store r)) r'" for b
  proof -
    have "i_ID (i\<lparr>i_Enabled := b\<rparr>) = i_ID i" "i_Name (i\<lparr>i_Enabled := b\<rparr>) = n" "i_CreatedAt (i\<lparr>i_Enabled := b\<rparr>) = i_CreatedAt i"
      using n by simp_all
    then obtain st1 where st1: "UpdateInterface now (i\<lparr>i_Enabled := b\<rparr>) (r_store r) = (Inr ((iface_defaults (i\<lparr>i_Enabled := b\<rparr>))\<lparr>i_UpdatedAt := now\<rparr>), st1)"
        "db_ok st1" "iface_map st1 = (iface_map (r_store r))(n \<mapsto> scanInterface (i\<lparr>i_Enabled := b, i_UpdatedAt := now\<rparr>))" "peer_map st1 = peer_map (r_store r)"
      by (rule iface_updated [OF assms i])
    have "iface_map st1 n \<noteq> None" using st1(3) by simp
    then have "lands_iface en now n r (iface_map st1) (peer_map st1) (ForceReconcile en now (r\<lparr>r_store := st1\<rparr>))"
      by (rule finished_iface [OF st1(2)]) simp_all
    then show ?thesis using row st1 by (simp add: set_enabled_def)
  qed
  have "case body of None \<Rightarrow> handleUpdateInterface en now n body r = (Refused 400 ''invalid_json'', r)
     | Some req \<Rightarrow> (case patch_iface en req i of
         Inl (status, code) \<Rightarrow> handleUpdateInterface en now n body r = (Refused status code, r)
       | Inr i1 \<Rightarrow> (\<exists>a r'. handleUpdateInterface en now n body r = (Answer 200 a, r')
           \<and> lands_iface en now n r ((iface_map (r_store r))(n \<mapsto> scanInterface (i1\<lparr>i_UpdatedAt := now\<rparr>))) (peer_map (r_store r)) r'))"
    if res: "\<not> ReservedHostInterface n"
  proof (cases body)
    case None
    then show ?thesis using row res by (simp add: handleUpdateInterface_def)
  next
    case req: (Some req)
    show ?thesis
    proof (cases "patch_iface en req i")
      case (Inl e)
      then show ?thesis using row res req by (cases e) (simp add: handleUpdateInterface_def)
    next
      case (Inr i1)
      obtain st1 where st1: "UpdateInterface now i1 (r_store r) = (Inr ((iface_defaults i1)\<lparr>i_UpdatedAt := now\<rparr>), st1)"
          "db_ok st1" "iface_map st1 = (iface_map (r_store r))(n \<mapsto> scanInterface (i1\<lparr>i_UpdatedAt := now\<rparr>))" "peer_map st1 = peer_map (r_store r)"
        using iface_updated [OF assms i, of i1 now] patched_iface [OF Inr] n by auto
      have "iface_map st1 n \<noteq> None" using st1(3) by simp
      note f = finished_audited [OF st1(2) this, where r = r and en = en and now = now and l = "''info''" and kd = "''audit''"
          and nm = "i_Name ((iface_defaults i1)\<lparr>i_UpdatedAt := now\<rparr>)" and k = "[]" and m = "''interface updated''" and js = "''{}''"]
      show ?thesis using row res req Inr st1 f by (simp add: handleUpdateInterface_def Let_def)
    qed
  qed
  then show ?thesis using i enabled [of True] enabled [of False]
    by (simp add: handleInterfaceUp_def handleInterfaceDown_def handleUpdateInterface_def)
qed

theorem update_interface_exact_witness:
  "\<exists>r' i. handleInterfaceDown demo_env 10 ''wg0'' demo_state = (Answer 200 ''down'', r') \<and> iface_map (r_store r') ''wg0'' = Some i \<and> \<not> i_Enabled i"
proof -
  obtain i where i: "iface_map (r_store demo_state) ''wg0'' = Some i"
    using demo_iface_free iface_map_None [of over_quota_store "''wg0''"] by auto
  obtain r' where "handleInterfaceDown demo_env 10 ''wg0'' demo_state = (Answer 200 ''down'', r')"
      "lands_iface demo_env 10 ''wg0'' demo_state ((iface_map (r_store demo_state))(''wg0'' \<mapsto> scanInterface (i\<lparr>i_Enabled := False, i_UpdatedAt := 10\<rparr>)))
        (peer_map (r_store demo_state)) r'"
    using update_interface_exact [where r = demo_state and n = "''wg0''" and en = demo_env and now = 10 and body = None] i over_quota_ok by auto
  then show ?thesis by (auto simp: lands_iface_def scanInterface_def iface_defaults_def)
qed

text \<open>
  Deleting an interface: an unknown name is refused and changes nothing; otherwise exactly that
  interface and its peers leave the database.  The device goes with them unless the host reserves its
  name, and no other device is touched either way.
\<close>

theorem delete_interface_exact:
  assumes "db_ok (r_store r)" and "en_ops en = mock_ops"
  shows "case iface_map (r_store r) n of
      None \<Rightarrow> handleDeleteInterface en now n r = (Refused (if ReservedHostInterface n then 409 else 404)
          (if ReservedHostInterface n then ''reserved_interface'' else ''not_found''), r)
    | Some i \<Rightarrow> (\<exists>r'. handleDeleteInterface en now n r = (Answer (if ReservedHostInterface n then 200 else 204) (), r')
        \<and> iface_map (r_store r') = (iface_map (r_store r))(n := None)
        \<and> peer_map (r_store r') = peer_map (r_store r) |` {x. fst x \<noteq> n}
        \<and> (\<forall>m. m \<noteq> n \<or> ReservedHostInterface n \<longrightarrow> map_of (m_Devices (r_backend r')) m = map_of (m_Devices (r_backend r)) m)
        \<and> (mock_healthy (r_backend r) \<and> \<not> ReservedHostInterface n \<longrightarrow> map_of (m_Devices (r_backend r')) n = None))"
proof (cases "iface_map (r_store r) n")
  case None
  then have "fst (DeleteInterface n (r_store r)) = Inl NotFound" using view_DeleteInterface_ifaces(2) [OF assms(1), of n] by simp
  then obtain st1 where "DeleteInterface n (r_store r) = (Inl NotFound, st1)" by (cases "DeleteInterface n (r_store r)") simp
  then show ?thesis using None by (simp add: handleDeleteInterface_def)
next
  case (Some i)
  then have "fst (DeleteInterface n (r_store r)) = Inr ()" using view_DeleteInterface_ifaces(2) [OF assms(1), of n] by simp
  then obtain st1 where st1: "DeleteInterface n (r_store r) = (Inr (), st1)" by (cases "DeleteInterface n (r_store r)") simp
  have m: "iface_map st1 = (iface_map (r_store r))(n := None)" "peer_map st1 = peer_map (r_store r) |` {x. fst x \<noteq> n}"
    using view_DeleteInterface_ifaces(1) [OF assms(1), of n] view_DeleteInterface [OF assms(1), of n] st1 by simp_all
  show ?thesis
    using Some st1 m mock.remove_frame [of _ n "r_backend r"] mock.remove_ok [of "r_backend r" n]
    by (simp add: handleDeleteInterface_def assms(2))
qed

theorem delete_interface_exact_witness:
  "\<exists>r'. handleDeleteInterface demo_env 10 ''wg0'' demo_state = (Answer 204 (), r') \<and> iface_map (r_store r') ''wg0'' = None"
proof -
  obtain i where i: "iface_map (r_store demo_state) ''wg0'' = Some i"
    using demo_iface_free iface_map_None [of over_quota_store "''wg0''"] by auto
  then show ?thesis
    using delete_interface_exact [where r = demo_state and en = demo_env and n = "''wg0''" and now = 10] over_quota_ok demo_env_ops wg0_managed
    by (auto simp: fun_upd_def)
qed

section \<open>Importing\<close>

lemma new_rows_keys: "p_PublicKey ` set (new_rows now k sq ps) = p_PublicKey ` set ps"
  by (metis list.set_map new_rows_simps(1))

lemma new_rows_row:
  assumes "p \<in> set ps"
  shows "\<exists>j. p\<lparr>p_InterfaceID := k, p_ID := j, p_CreatedAt := now, p_UpdatedAt := now\<rparr> \<in> set (new_rows now k sq ps)"
  using assms by (induction ps arbitrary: sq) auto

text \<open>The peers of an import as the map shows them.\<close>

lemma imported_view:
  assumes "db_ok st" "ImportInterface now i ps st = (Inr (), st')"
  shows "peer_map st' (i_Name i, k) = None \<longleftrightarrow> k \<notin> p_PublicKey ` set ps"
    and "p \<in> set ps \<Longrightarrow> \<exists>q j m. peer_map st' (i_Name i, p_PublicKey p) = Some q \<and>
      q = p\<lparr>p_InterfaceID := m, p_ID := j, p_CreatedAt := now, p_UpdatedAt := now, p_InterfaceName := i_Name i\<rparr>"
    and "distinct (map p_PublicKey ps)" "db_ok st'"
proof -
  note v = view_ImportInterface [OF assms(1), of ps now i]
  show d: "distinct (map p_PublicKey ps)" using v assms(2) by (auto split: if_splits)
  show ok: "db_ok st'" using ImportInterface_ok [OF assms(1), of now i ps] assms(2) by simp
  obtain m where l: "ListPeersByInterface (i_Name i) st' = sort_key (\<lambda>p. (p_Name p, p_PublicKey p))
          (map (\<lambda>p. p\<lparr>p_InterfaceName := i_Name i\<rparr>) (new_rows now m (s_peer_seq st) ps))"
    using v d assms(2) by (auto simp: Let_def)
  have set: "q \<in> set (join_peers st') \<and> p_InterfaceName q = i_Name i \<longleftrightarrow>
      q \<in> (\<lambda>p. p\<lparr>p_InterfaceName := i_Name i\<rparr>) ` set (new_rows now m (s_peer_seq st) ps)" for q
    using arg_cong [OF l, of set] by (auto simp: set_ListPeers)
  have view: "peer_map st' (i_Name i, k) = Some q \<longleftrightarrow>
      q \<in> (\<lambda>p. p\<lparr>p_InterfaceName := i_Name i\<rparr>) ` set (new_rows now m (s_peer_seq st) ps) \<and> p_PublicKey q = k" for k q
    unfolding set [symmetric] by (auto simp: peer_map_iff [OF ok])
  have "(\<exists>q. peer_map st' (i_Name i, k) = Some q) \<longleftrightarrow> k \<in> p_PublicKey ` set (new_rows now m (s_peer_seq st) ps)"
    unfolding view by (auto simp: image_iff)
  then show "peer_map st' (i_Name i, k) = None \<longleftrightarrow> k \<notin> p_PublicKey ` set ps"
    unfolding new_rows_keys by (cases "peer_map st' (i_Name i, k)") auto
  assume "p \<in> set ps"
  then obtain j where "p\<lparr>p_InterfaceID := m, p_ID := j, p_CreatedAt := now, p_UpdatedAt := now\<rparr> \<in> set (new_rows now m (s_peer_seq st) ps)"
    using new_rows_row by blast
  then show "\<exists>q j m. peer_map st' (i_Name i, p_PublicKey p) = Some q \<and>
      q = p\<lparr>p_InterfaceID := m, p_ID := j, p_CreatedAt := now, p_UpdatedAt := now, p_InterfaceName := i_Name i\<rparr>"
    unfolding view by (intro exI conjI image_eqI) (rule refl | assumption | simp)+
qed

text \<open>
  What a successful import makes of the maps of interfaces and peers: the interface and exactly the
  given peers with their networks under its name, and nothing different under any other.
\<close>

definition imported_maps :: "gotime \<Rightarrow> db_interface \<Rightarrow> db_peer list \<Rightarrow> iface_view \<Rightarrow> peer_view \<Rightarrow> iface_view \<Rightarrow> peer_view \<Rightarrow> bool" where
  "imported_maps now i ps m0 ps0 m ps' \<longleftrightarrow> (\<forall>n. n \<noteq> i_Name i \<longrightarrow> m n = m0 n)
     \<and> (\<exists>k c. m (i_Name i) = Some (scanInterface ((iface_defaults (table_default i))\<lparr>i_ID := k, i_CreatedAt := c, i_UpdatedAt := now\<rparr>)))
     \<and> (\<forall>x. fst x \<noteq> i_Name i \<longrightarrow> ps' x = ps0 x)
     \<and> (\<forall>k. ps' (i_Name i, k) = None \<longleftrightarrow> k \<notin> p_PublicKey ` set ps)
     \<and> (\<forall>p\<in>set ps. map_option p_AllowedIPs (ps' (i_Name i, p_PublicKey p)) = Some (p_AllowedIPs p))"

lemma import_maps:
  assumes "db_ok st" "ImportInterface now i ps st = (Inr (), st1)"
  shows "imported_maps now i ps (iface_map st) (peer_map st) (iface_map st1) (peer_map st1)"
proof -
  note iv = imported_view [OF assms]
  have "map_option p_AllowedIPs (peer_map st1 (i_Name i, p_PublicKey p)) = Some (p_AllowedIPs p)" if "p \<in> set ps" for p
    using iv(2) [OF that] by auto
  then show ?thesis using view_ImportInterface [OF assms(1), of ps now i] iv(1,3) assms(2)
    unfolding imported_maps_def by (simp add: Let_def)
qed

text \<open>
  C16. Importing a configuration file: a body that does not parse, no name, a bad key or table are
  refused with 400 and a file that names a public key twice with 500, all without any change;
  otherwise the interface has the columns of the file and exactly the peers of the file, and no
  other interface changes.
\<close>

theorem import_request_exact:
  assumes "db_ok (r_store r)"
  shows "case import_checks en n body of
      Inl (status, code) \<Rightarrow> handleInterfaceImport en now n body r = (Refused status code, r)
    | Inr (i, ps) \<Rightarrow> if \<not> distinct (map p_PublicKey ps)
        then handleInterfaceImport en now n body r = (Refused 500 ''import_failed'', r)
        else (\<exists>a r' m ps'. handleInterfaceImport en now n body r = (Answer 200 a, r')
          \<and> lands_iface en now (i_Name i) r m ps' r'
          \<and> imported_maps now i ps (iface_map (r_store r)) (peer_map (r_store r)) m ps')"
proof (cases "import_checks en n body")
  case (Inl e)
  then show ?thesis by (cases e) (simp add: handleInterfaceImport_def)
next
  case (Inr x)
  obtain i ps where x: "x = (i, ps)" by (cases x)
  note v = view_ImportInterface [OF assms, of ps now i]
  show ?thesis
  proof (cases "distinct (map p_PublicKey ps)")
    case False
    then show ?thesis using Inr x v by (simp add: handleInterfaceImport_def)
  next
    case True
    then obtain st1 where st1: "ImportInterface now i ps (r_store r) = (Inr (), st1)"
      using v by (cases "ImportInterface now i ps (r_store r)") simp
    note iv = imported_view [OF assms st1]
    have m: "iface_map st1 (i_Name i) \<noteq> None" using v True st1 by (auto simp: Let_def)
    have f: "lands_iface en now (i_Name i) r (iface_map st1) (peer_map st1) (ForceReconcile en now (r\<lparr>r_store := st1\<rparr>))"
      by (rule finished_iface [OF iv(4) m]) simp_all
    then have "iface_map (r_store (ForceReconcile en now (r\<lparr>r_store := st1\<rparr>))) (i_Name i) \<noteq> None"
      using m by (simp add: lands_iface_def)
    then obtain j where j: "GetInterfaceByName (i_Name i) (r_store (ForceReconcile en now (r\<lparr>r_store := st1\<rparr>))) = Inr j"
      by (auto simp: iface_map_def split: sum.splits)
    have "handleInterfaceImport en now n body r
        = (Answer 200 (toAPIInterface en (ForceReconcile en now (r\<lparr>r_store := st1\<rparr>)) j False), ForceReconcile en now (r\<lparr>r_store := st1\<rparr>))"
      using Inr x st1 j by (simp add: handleInterfaceImport_def Let_def)
    with f import_maps [OF assms st1] show ?thesis using Inr x True by auto
  qed
qed

lemma demo_conf_ok: "conf_ok demo_conf"
  by (simp add: demo_simps)

definition open_env :: "mock api_env" where
  "open_env = demo_env\<lparr>en_pub := \<lambda>_. Some ''P''\<rparr>"

lemma demo_import:
  "\<exists>i. import_checks open_env ''wg7'' (Some (Render demo_conf, [])) = Inr (i, [imported_peer demo_peer]) \<and> i_Name i = ''wg7''"
  using parse_render [OF demo_conf_ok]
  by (simp add: import_checks_def or_else_r_def guard_def Let_def import_table_def open_env_def imported_iface_def
      demo_conf_def without_trailing_def zero_iface_section_def tidy_def tidy_hooks_def imported_peer_def flat_notes_def)

theorem import_request_exact_witness:
  "\<exists>a r'. handleInterfaceImport open_env 10 ''wg7'' (Some (Render demo_conf, [])) demo_state = (Answer 200 a, r')
     \<and> iface_map (r_store r') ''wg0'' = iface_map over_quota_store ''wg0''"
proof -
  obtain i where i: "import_checks open_env ''wg7'' (Some (Render demo_conf, [])) = Inr (i, [imported_peer demo_peer])" "i_Name i = ''wg7''"
    using demo_import by blast
  then show ?thesis
    using import_request_exact [where r = demo_state and en = open_env and n = "''wg7''" and body = "Some (Render demo_conf, [])" and now = 10] over_quota_ok
    by (auto simp: lands_iface_def imported_maps_def)
qed

section \<open>Exporting and importing back\<close>

lemma i64_step: "i64 (i64 v * 10 + d) = i64 (v * 10 + d)"
proof -
  define a where "a = (v + 2 ^ 63) mod (2 ^ 64 :: int)"
  have "(a - 2 ^ 63) mod 2 ^ 64 = v mod 2 ^ 64" by (simp add: a_def mod_diff_left_eq)
  then have "((a - 2 ^ 63) * 10 + (d + 2 ^ 63)) mod 2 ^ 64 = (v * 10 + (d + 2 ^ 63)) mod 2 ^ 64"
    by (intro mod_add_cong mod_mult_cong) auto
  then show ?thesis by (simp add: i64_def a_def add.assoc)
qed

lemma scan_nat_str: "foldl (\<lambda>v c. i64 (v * 10 + int (digit_val c))) 0 (nat_str n) = i64 (int n)"
proof (induction n rule: nat_str.induct)
  case (1 n)
  show ?case
  proof (cases "n < 10")
    case True
    then show ?thesis by (simp add: nat_str_eval)
  next
    case False
    have "int (n div 10) * 10 + int (n mod 10) = int n" by presburger
    with 1 False show ?thesis by (simp add: nat_str_eval i64_step)
  qed
qed

lemma import_table_number:
  assumes "0 \<le> k" "k < 2 ^ 63"
  shows "import_table (int_str k) = Inr (''number'', Some k)"
proof -
  have s: "int_str k = nat_str (nat k)" using assms(1) by (simp add: int_str_def)
  have d: "list_all is_digit (nat_str (nat k))" using nat_str_digits by (auto simp: list_all_iff)
  have "foldl (\<lambda>v c. i64 (v * 10 + int (digit_val c))) 0 (nat_str (nat k)) = k"
    using assms by (simp add: scan_nat_str i64_id in64_def)
  then have p: "parseScan (int_str k) = Some k" using d by (simp add: parseScan_def s)
  have h: "is_digit (hd (nat_str (nat k)))" by (rule hd_nat_str)
  have l: "lower_char c = c" if "is_digit c" for c
    using that by (auto simp: lower_char_def is_digit_range less_eq_char_def)
  have "ToLower (nat_str (nat k)) = nat_str (nat k)"
    unfolding ToLower_def using nat_str_digits l by (intro map_idI) blast
  moreover have "nat_str (nat k) \<noteq> ''off''" "nat_str (nat k) \<noteq> ''auto''" using h by (auto simp: is_digit_range)
  ultimately show ?thesis using p by (simp add: import_table_def s Let_def)
qed

lemma with_amnezia_simps [simp]:
  "ci_PrivateKey (with_amnezia x s) = ci_PrivateKey s" "ci_ListenPort (with_amnezia x s) = ci_ListenPort s"
  "ci_FwMark (with_amnezia x s) = ci_FwMark s" "ci_MTU (with_amnezia x s) = ci_MTU s" "ci_DNS (with_amnezia x s) = ci_DNS s"
  "ci_Address (with_amnezia x s) = ci_Address s" "ci_PreUp (with_amnezia x s) = ci_PreUp s" "ci_PostUp (with_amnezia x s) = ci_PostUp s"
  "ci_PreDown (with_amnezia x s) = ci_PreDown s" "ci_PostDown (with_amnezia x s) = ci_PostDown s" "ci_Table (with_amnezia x s) = ci_Table s"
  by (cases x; simp add: with_amnezia_def)+

lemma without_trailing_simps [simp]:
  "ci_PrivateKey (without_trailing s) = ci_PrivateKey s" "ci_ListenPort (without_trailing s) = ci_ListenPort s"
  "ci_FwMark (without_trailing s) = ci_FwMark s" "ci_MTU (without_trailing s) = ci_MTU s" "ci_DNS (without_trailing s) = ci_DNS s"
  "ci_Address (without_trailing s) = ci_Address s" "ci_PreUp (without_trailing s) = ci_PreUp s" "ci_PostUp (without_trailing s) = ci_PostUp s"
  "ci_PreDown (without_trailing s) = ci_PreDown s" "ci_PostDown (without_trailing s) = ci_PostDown s" "ci_Table (without_trailing s) = ci_Table s"
  "section_amnezia (without_trailing s) = section_amnezia s"
  by (simp_all add: without_trailing_def section_amnezia_def)

lemma section_amnezia_tidy: "section_amnezia (tidy_hooks s) = section_amnezia s"
  by (simp add: tidy_hooks_def section_amnezia_def)

lemma section_amnezia_with: "section_amnezia (with_amnezia (Some a) s) = a"
  by (cases a) (simp add: section_amnezia_def with_amnezia_def)

lemma HasAmnezia_section: "HasAmnezia s \<longleftrightarrow> \<not> IsZeroParams (section_amnezia s)"
  by (simp add: HasAmnezia_def IsZeroParams_def section_amnezia_def)

lemma section_amnezia_none: "section_amnezia (with_amnezia None (zero_iface_section\<lparr>ci_PrivateKey := a, ci_Address := b, ci_ListenPort := c,
    ci_DNS := d, ci_MTU := e, ci_Table := f, ci_FwMark := g, ci_PreUp := h, ci_PostUp := i, ci_PreDown := j, ci_PostDown := k,
    ci_Backend := l, ci_Protocol := m, ci_PairName := n\<rparr>)) = zero_amnezia"
  by (simp add: with_amnezia_def section_amnezia_def zero_iface_section_def zero_amnezia_def)

definition table_wf :: "db_interface \<Rightarrow> bool" where
  "table_wf i \<longleftrightarrow> (i_TableMode i = ''auto'' \<or> i_TableMode i = ''off'') \<and> i_TableID i = None
     \<or> i_TableMode i = ''number'' \<and> (\<exists>k. i_TableID i = Some k \<and> 0 \<le> k \<and> k < 2 ^ 63)"

text \<open>
  C14. Exporting an interface and importing the text back under a name that is not empty restores it: the keys, port,
  mark, MTU, table, DNS and addresses are the exported ones, so are the hooks up to blanks and empty lines
  (\<open>tidy_hook\<close>), the noise parameters are, and every peer comes back in order with its keys, endpoint, keepalive and networks
  (none where it was suspended).  This is claimed for interfaces whose configuration survives rendering in the sense of C6
  (\<open>conf_ok\<close>: no newlines in values, no commas in items, no negative numbers, a listen port or an address), whose table mode is
  auto or off without a table number or number with one, and whose recorded public key is the one of the private key.
\<close>

theorem export_import_roundtrip:
  assumes "conf_ok (iface_conf (en_um en) i ps)" and "table_wf i" and "name \<noteq> []"
    and "en_pub en (i_PrivateKey i) = Some (i_PublicKey i)"
  shows "\<exists>i'. import_checks en name (Some (renderIfaceConf (en_um en) i ps, [])) = Inr (i',
      map (\<lambda>p. zero_peer\<lparr>p_PublicKey := p_PublicKey p, p_PresharedKey := p_PresharedKey p,
        p_AllowedIPs := (if p_Suspended p then [] else p_AllowedIPs p), p_Endpoint := p_Endpoint p,
        p_PersistentKeepalive := p_PersistentKeepalive p\<rparr>) ps)
    \<and> (i_Name i', i_PrivateKey i', i_PublicKey i') = (name, i_PrivateKey i, i_PublicKey i)
    \<and> (i_ListenPort i', i_FwMark i', i_MTU i', i_TableMode i', i_TableID i') = (i_ListenPort i, i_FwMark i, i_MTU i, i_TableMode i, i_TableID i)
    \<and> (i_DNS i', i_Addresses i', i_PreUp i', i_PostUp i', i_PreDown i', i_PostDown i')
      = (i_DNS i, i_Addresses i, tidy_hook (i_PreUp i), tidy_hook (i_PostUp i), tidy_hook (i_PreDown i), tidy_hook (i_PostDown i))
    \<and> i_AmneziaJSON i' = (case decodeAmnezia (en_um en) (i_AmneziaJSON i) of None \<Rightarrow> []
        | Some a \<Rightarrow> if IsZeroParams a then [] else encodeAmnezia (Some a))"
proof -
  let ?cfg = "iface_conf (en_um en) i ps"
  let ?i = "cf_Interface (tidy ?cfg)"
  let ?c = "if ps = [] then ?i else without_trailing ?i"
  have i: "?i = tidy_hooks (cf_Interface ?cfg)" by (simp add: tidy_def)
  have nil: "cf_Peers ?cfg = [] \<longleftrightarrow> ps = []" by (simp add: iface_conf_def)
  define cfg' where "cfg' = (if ps = [] then tidy ?cfg else (tidy ?cfg)\<lparr>cf_Interface := without_trailing ?i\<rparr>)"
  have cfg': "Parse (Render ?cfg) = Inr cfg'" "cf_Interface cfg' = ?c" "cf_Peers cfg' = map (\<lambda>p. flat_notes (conf_peer p)) ps"
    using parse_render [OF assms(1)] unfolding nil by (simp_all add: cfg'_def) (simp add: iface_conf_def tidy_def comp_def)
  have sel: "ci_PrivateKey ?c = i_PrivateKey i" "ci_ListenPort ?c = i_ListenPort i" "ci_FwMark ?c = i_FwMark i" "ci_MTU ?c = i_MTU i"
    "ci_DNS ?c = i_DNS i" "ci_Address ?c = i_Addresses i" "ci_PreUp ?c = tidy_hook (i_PreUp i)" "ci_PostUp ?c = tidy_hook (i_PostUp i)"
    "ci_PreDown ?c = tidy_hook (i_PreDown i)" "ci_PostDown ?c = tidy_hook (i_PostDown i)"
    "ci_Table ?c = (case i_TableID i of Some k \<Rightarrow> if i_TableMode i = ''number'' then int_str k else i_TableMode i | None \<Rightarrow> i_TableMode i)"
    unfolding i by (simp_all add: iface_conf_def tidy_hooks_def)
  have sec: "section_amnezia ?c = section_amnezia (cf_Interface ?cfg)" unfolding i by (simp add: section_amnezia_tidy)
  have amn: "(if HasAmnezia ?c then encodeAmnezia (Some (section_amnezia ?c)) else [])
      = (case decodeAmnezia (en_um en) (i_AmneziaJSON i) of None \<Rightarrow> [] | Some a \<Rightarrow> if IsZeroParams a then [] else encodeAmnezia (Some a))"
    unfolding HasAmnezia_section sec
    by (cases "decodeAmnezia (en_um en) (i_AmneziaJSON i)")
      (simp_all add: iface_conf_def section_amnezia_with section_amnezia_none, simp add: zero_amnezia_def IsZeroParams_def)
  have table: "import_table (ci_Table ?c) = Inr (i_TableMode i, i_TableID i)"
    unfolding sel(11) using assms(2) import_table_number
    by (auto simp: table_wf_def) (simp_all add: import_table_def ToLower_def lower_char_def less_eq_char_def)
  have peers: "map imported_peer (map (\<lambda>p. flat_notes (conf_peer p)) ps) = map (\<lambda>p. zero_peer\<lparr>p_PublicKey := p_PublicKey p, p_PresharedKey := p_PresharedKey p,
        p_AllowedIPs := (if p_Suspended p then [] else p_AllowedIPs p), p_Endpoint := p_Endpoint p,
        p_PersistentKeepalive := p_PersistentKeepalive p\<rparr>) ps"
    by (simp add: imported_peer_def conf_peer_def flat_notes_def)
  have "import_checks en name (Some (renderIfaceConf (en_um en) i ps, [])) = Inr (imported_iface name (i_PublicKey i) (i_TableMode i, i_TableID i) ?c,
      map imported_peer (map (\<lambda>p. flat_notes (conf_peer p)) ps))"
    using cfg' table assms(3,4) sel(1) by (simp add: import_checks_def renderIfaceConf_def Let_def or_else_r_def guard_def)
  then show ?thesis unfolding peers using sel amn by (simp add: imported_iface_def)
qed

definition backup_row :: db_interface where
  "backup_row = zero_interface\<lparr>i_Name := ''wg0'', i_PrivateKey := ''c2VjcmV0'', i_PublicKey := ''P'', i_ListenPort := 51820,
     i_TableMode := ''off'', i_Addresses := [''10.0.0.1/24''], i_Backend := ''auto'', i_Protocol := ''wg''\<rparr>"

definition backup_peer :: db_peer where
  "backup_peer = zero_peer\<lparr>p_PublicKey := ''cGVlcg=='', p_AllowedIPs := [''10.0.0.2/32'']\<rparr>"

theorem export_import_roundtrip_witness:
  "\<exists>i' ps'. import_checks open_env ''wg7'' (Some (renderIfaceConf (en_um open_env) backup_row [backup_peer], [])) = Inr (i', ps')
     \<and> i_Addresses i' = [''10.0.0.1/24''] \<and> map p_AllowedIPs ps' = [[''10.0.0.2/32'']]"
proof -
  have c: "conf_ok (iface_conf (en_um open_env) backup_row [backup_peer])"
    by (simp add: iface_conf_def backup_row_def backup_peer_def conf_peer_def conf_ok_def iface_ok_def peer_ok_def list_ok_def
        item_ok_def val_ok_def trimmed_def blank_free_def blank_runes_def tidy_hooks_def tidy_hook_def flat_notes_def is_space_def hook_ok_def in64_def zero_iface_section_def zero_peer_section_def
        zero_interface_def zero_peer_def with_amnezia_def decodeAmnezia_def TrimSpace_def Let_def)
  have t: "table_wf backup_row" "en_pub open_env (i_PrivateKey backup_row) = Some (i_PublicKey backup_row)"
    by (simp_all add: table_wf_def backup_row_def open_env_def zero_interface_def)
  show ?thesis using export_import_roundtrip [OF c t(1) _ t(2), of "''wg7''"]
    by (auto simp: backup_row_def backup_peer_def zero_peer_def)
qed

end
