(* ===== verification/Adopt.thy ===== *)
theory Adopt
  imports ApiPeers
begin

text \<open>
  Adoption of live interfaces into the database (\<open>internal/adopt/adopt.go\<close>,
  \<open>internal/api/handlers_adopt.go\<close>).  Parameters: reading a file (\<open>None\<close> is an error) and the public key of
  a private one.  A plan is made for every device before any is applied.
\<close>

section \<open>Devices, peers and files\<close>

record adopt_options =
  ao_Names :: "string list"
  ao_ReadConf :: bool
  ao_ConfDir :: string
  ao_Overwrite :: bool

datatype adopt_note = NoteParseError confparse_error | NoteNoPrivateKey | NoteTableMode string
  | NoteConfOnly string | NoteAlready

record preview =
  pv_Name :: string
  pv_PublicKey :: string
  pv_HasPrivateKey :: bool
  pv_ListenPort :: int
  pv_FwMark :: int
  pv_MTU :: int
  pv_Addresses :: "string list"
  pv_PeerCount :: nat
  pv_Up :: bool
  pv_ConfPath :: string
  pv_ConfLoaded :: bool
  pv_AlreadyInDB :: bool
  pv_TableMode :: string
  pv_Notes :: "adopt_note list"

record adopt_plan =
  pl_preview :: preview
  pl_iface :: db_interface
  pl_peers :: "db_peer list"

definition mapTable :: "string \<Rightarrow> string \<times> int option" where
  "mapTable t0 =
     (let t = TrimSpace t0; l = ToLower t in
      if l = [] \<or> l = ''auto'' then (''auto'', None)
      else if l = ''off'' then (''off'', None)
      else case Atoi t of Some n \<Rightarrow> (if n > 0 then (''number'', Some n) else (t, None)) | None \<Rightarrow> (t, None))"

definition filterAddrs :: "string list \<Rightarrow> string list" where
  "filterAddrs xs = filter (\<lambda>a. \<not> (a = [] \<or> prefix ''fe80:'' a \<or> prefix ''fe80::'' a)) (map TrimSpace xs)"

definition hostIPsFromAllowed :: "string list \<Rightarrow> string list" where
  "hostIPsFromAllowed xs = List.map_filter (\<lambda>a. if suffix ''/32'' a then Some (TrimSuffix a ''/32'')
     else if suffix ''/128'' a then Some (TrimSuffix a ''/128'') else None) xs"

definition short :: "string \<Rightarrow> string" where
  "short pub = (if length pub \<le> 12 then pub else take 8 pub @ [CHR 0xE2, CHR 0x80, CHR 0xA6])"

definition conf_host :: "string \<Rightarrow> string list \<Rightarrow> string list" where
  "conf_host address assigned =
     (if address = [] then assigned
      else let host = hd (split_on CHR ''/'' address) in if host = [] then assigned else [host])"

definition quot_second :: "duration \<Rightarrow> int" where
  "quot_second d = (if d < 0 then - ((- d) div Second) else d div Second)"

text \<open>A peer of the device, and what the file adds to it.\<close>

definition live_row :: "live_peer \<Rightarrow> db_peer" where
  "live_row lp =
     (let p = zero_peer\<lparr>p_PublicKey := lp_PublicKey lp, p_PresharedKey := lp_PresharedKey lp,
          p_AllowedIPs := lp_AllowedIPs lp, p_AssignedIPs := hostIPsFromAllowed (lp_AllowedIPs lp),
          p_Endpoint := lp_Endpoint lp,
          p_PersistentKeepalive := quot_second (lp_PersistentKeepaliveInterval lp),
          p_LastEndpoint := lp_Endpoint lp, p_LastRxBytes := lp_ReceiveBytes lp, p_LastTxBytes := lp_TransmitBytes lp\<rparr>
      in if IsZero (lp_LastHandshakeTime lp) then p
         else p\<lparr>p_LastHandshakeAt := FormatNano (lp_LastHandshakeTime lp),
                p_FirstHandshakeAt := FormatNano (lp_LastHandshakeTime lp)\<rparr>)"

definition enrich :: "PeerSection option \<Rightarrow> db_peer \<Rightarrow> db_peer" where
  "enrich c p = (case c of None \<Rightarrow> p | Some cp \<Rightarrow>
     p\<lparr>p_PresharedKey := (if p_PresharedKey p = [] \<and> cp_PresharedKey cp \<noteq> [] then cp_PresharedKey cp else p_PresharedKey p),
       p_Endpoint := (if p_Endpoint p = [] \<and> cp_Endpoint cp \<noteq> [] then cp_Endpoint cp else p_Endpoint p),
       p_AllowedIPs := (if p_AllowedIPs p = [] \<and> cp_AllowedIPs cp \<noteq> [] then cp_AllowedIPs cp else p_AllowedIPs p),
       p_PersistentKeepalive := (if p_PersistentKeepalive p = 0 \<and> cp_PersistentKeepalive cp > 0
         then cp_PersistentKeepalive cp else p_PersistentKeepalive p),
       p_Name := (if cp_Name cp \<noteq> [] then cp_Name cp else p_Name p),
       p_Notes := (if cp_Notes cp \<noteq> [] then cp_Notes cp else p_Notes p),
       p_TrafficLimitBytes := (if cp_TrafficLimit cp > 0 then cp_TrafficLimit cp else p_TrafficLimitBytes p),
       p_RxBytesOffset := (if cp_TrafficLimit cp > 0 then p_LastRxBytes p else p_RxBytesOffset p),
       p_TxBytesOffset := (if cp_TrafficLimit cp > 0 then p_LastTxBytes p else p_TxBytesOffset p),
       p_ExpiresAt := (if cp_ExpiresAt cp \<noteq> [] then cp_ExpiresAt cp else p_ExpiresAt p),
       p_AssignedIPs := conf_host (cp_Address cp) (p_AssignedIPs p)\<rparr>)"

definition conf_row :: "PeerSection \<Rightarrow> db_peer" where
  "conf_row cp = zero_peer\<lparr>p_PublicKey := cp_PublicKey cp, p_PresharedKey := cp_PresharedKey cp,
     p_Name := cp_Name cp, p_Notes := cp_Notes cp, p_AllowedIPs := cp_AllowedIPs cp,
     p_AssignedIPs := conf_host (cp_Address cp) (hostIPsFromAllowed (cp_AllowedIPs cp)),
     p_Endpoint := cp_Endpoint cp, p_PersistentKeepalive := cp_PersistentKeepalive cp,
     p_TrafficLimitBytes := cp_TrafficLimit cp, p_ExpiresAt := cp_ExpiresAt cp\<rparr>"

text \<open>The stanza of a key: the last one in the file.\<close>

definition byPub :: "PeerSection list \<Rightarrow> string \<Rightarrow> PeerSection option" where
  "byPub cps k = map_of (rev (map (\<lambda>c. (cp_PublicKey c, c)) cps)) k"

definition adopt_peers :: "Config option \<Rightarrow> live_peer list \<Rightarrow> db_peer list" where
  "adopt_peers conf lps =
     (let rows = map live_row lps in
      case conf of None \<Rightarrow> rows
      | Some c \<Rightarrow> map (\<lambda>p. enrich (byPub (cf_Peers c) (p_PublicKey p)) p) rows
          @ map conf_row (filter (\<lambda>cp. cp_PublicKey cp \<notin> set (map p_PublicKey rows)) (cf_Peers c)))"

definition conf_only_notes :: "Config option \<Rightarrow> live_peer list \<Rightarrow> adopt_note list" where
  "conf_only_notes conf lps = (case conf of None \<Rightarrow> []
     | Some c \<Rightarrow> map (\<lambda>cp. NoteConfOnly (short (cp_PublicKey cp)))
         (filter (\<lambda>cp. cp_PublicKey cp \<notin> set (map lp_PublicKey lps)) (cf_Peers c)))"

section \<open>The plan of a device\<close>

text \<open>The file of a device: the path when it can be read, its configuration when it parses.\<close>

definition adopt_conf :: "(string \<Rightarrow> string option) \<Rightarrow> adopt_options \<Rightarrow> string
    \<Rightarrow> string \<times> Config option \<times> adopt_note list" where
  "adopt_conf readFile opts name =
     (if \<not> ao_ReadConf opts then ([], None, [])
      else let path = filepath_Join (ao_ConfDir opts) (name @ ''.conf'') in
        case readFile path of None \<Rightarrow> ([], None, [])
        | Some raw \<Rightarrow> (case Parse raw of Inl e \<Rightarrow> (path, None, [NoteParseError e]) | Inr c \<Rightarrow> (path, Some c, [])))"

definition adopt_keys :: "(string \<Rightarrow> string option) \<Rightarrow> Device \<Rightarrow> Config option \<Rightarrow> string \<times> string" where
  "adopt_keys pubOf d conf =
     (let priv0 = (if IsZeroKey (d_PrivateKey d) then [] else d_PrivateKey d);
          (priv, pub) = (case conf of None \<Rightarrow> (priv0, d_PublicKey d)
            | Some cfg \<Rightarrow> (let c = cf_Interface cfg;
                (pr, pu) = (if ci_PrivateKey c \<noteq> [] \<and> \<not> IsZeroKey (ci_PrivateKey c)
                  then (ci_PrivateKey c, case pubOf (ci_PrivateKey c) of Some p \<Rightarrow> p | None \<Rightarrow> d_PublicKey d)
                  else (priv0, d_PublicKey d))
              in (pr, if ci_PublicKeyComment c \<noteq> [] then ci_PublicKeyComment c else pu)))
      in (priv, if pub = [] \<and> priv \<noteq> [] then (case pubOf priv of Some p \<Rightarrow> p | None \<Rightarrow> pub) else pub))"

definition adopt_iface :: "(string \<Rightarrow> string option) \<Rightarrow> Device \<Rightarrow> Config option \<Rightarrow> db_interface option \<Rightarrow> db_interface" where
  "adopt_iface pubOf d conf existing =
     (let (priv, pub) = adopt_keys pubOf d conf;
          c = (case conf of None \<Rightarrow> zero_iface_section | Some cfg \<Rightarrow> cf_Interface cfg);
          table = (if ci_Table c \<noteq> [] then mapTable (ci_Table c) else (''off'', None));
          i = zero_interface\<lparr>i_Name := d_Name d, i_PrivateKey := priv, i_PublicKey := pub,
            i_ListenPort := (if ci_ListenPort c > 0 then ci_ListenPort c else d_ListenPort d),
            i_FwMark := (if ci_FwMark c > 0 then ci_FwMark c else d_FirewallMark d),
            i_MTU := (if ci_MTU c > 0 then ci_MTU c else d_MTU d),
            i_TableMode := fst table, i_TableID := snd table, i_DNS := ci_DNS c,
            i_Addresses := (if ci_Address c \<noteq> [] then ci_Address c else filterAddrs (d_Addresses d)),
            i_PreUp := ci_PreUp c, i_PostUp := ci_PostUp c, i_PreDown := ci_PreDown c, i_PostDown := ci_PostDown c,
            i_PublicEndpoint := ci_PeerEndpoint c, i_Enabled := True\<rparr>
      in case existing of None \<Rightarrow> i
         | Some e \<Rightarrow> i\<lparr>i_ID := i_ID e,
             i_PublicEndpoint := (if i_PublicEndpoint i = [] then i_PublicEndpoint e else i_PublicEndpoint i),
             i_DefaultKeepalive := i_DefaultKeepalive e\<rparr>)"

definition buildPlan :: "(string \<Rightarrow> string option) \<Rightarrow> (string \<Rightarrow> string option) \<Rightarrow> adopt_options \<Rightarrow> store \<Rightarrow> Device \<Rightarrow> adopt_plan" where
  "buildPlan pubOf readFile opts st d =
     (let (path, conf, notes0) = adopt_conf readFile opts (d_Name d);
          existing = (case GetInterfaceByName (d_Name d) st of Inr e \<Rightarrow> Some e | Inl _ \<Rightarrow> None);
          i = adopt_iface pubOf d conf existing;
          peers = adopt_peers conf (d_Peers d)
      in \<lparr>pl_preview = \<lparr>pv_Name = d_Name d, pv_PublicKey = i_PublicKey i, pv_HasPrivateKey = (i_PrivateKey i \<noteq> []),
            pv_ListenPort = i_ListenPort i, pv_FwMark = i_FwMark i, pv_MTU = i_MTU i, pv_Addresses = i_Addresses i,
            pv_PeerCount = length peers, pv_Up = d_Up d, pv_ConfPath = path, pv_ConfLoaded = (conf \<noteq> None),
            pv_AlreadyInDB = (existing \<noteq> None), pv_TableMode = i_TableMode i,
            pv_Notes = notes0 @ (if i_PrivateKey i = [] then [NoteNoPrivateKey] else [])
              @ (if i_TableMode i \<noteq> ''auto'' \<and> i_TableMode i \<noteq> ''number'' then [NoteTableMode (i_TableMode i)] else [])
              @ conf_only_notes conf (d_Peers d)\<rparr>,
          pl_iface = i, pl_peers = peers\<rparr>)"

text \<open>Which devices are considered: those asked for (all, when none is), never a reserved one.\<close>

definition adopt_plans :: "(string \<Rightarrow> string option) \<Rightarrow> (string \<Rightarrow> string option) \<Rightarrow> adopt_options \<Rightarrow> store \<Rightarrow> Device list
    \<Rightarrow> adopt_plan list" where
  "adopt_plans pubOf readFile opts st live =
     (let want = filter (\<lambda>n. n \<noteq> []) (map TrimSpace (ao_Names opts))
      in map (buildPlan pubOf readFile opts st)
           (filter (\<lambda>d. \<not> (want \<noteq> [] \<and> d_Name d \<notin> set want) \<and> \<not> ReservedHostInterface (d_Name d)) live))"

section \<open>Discovering and adopting\<close>

datatype adopt_action = Created | Updated | Skipped | Failed db_error

record adopt_result =
  ar_Name :: string
  ar_Action :: adopt_action
  ar_HasPrivateKey :: bool
  ar_PeerCount :: nat
  ar_ConfLoaded :: bool
  ar_Notes :: "adopt_note list"

definition adopt_normalize :: "string \<Rightarrow> adopt_options \<Rightarrow> adopt_options" where
  "adopt_normalize confDir opts = (if ao_ConfDir opts = []
     then opts\<lparr>ao_ConfDir := (if confDir = [] then ''/etc/wireguard'' else confDir)\<rparr> else opts)"

definition Discover :: "(string \<Rightarrow> string option) \<Rightarrow> (string \<Rightarrow> string option) \<Rightarrow> string \<Rightarrow> adopt_options \<Rightarrow> Device list \<Rightarrow> store
    \<Rightarrow> preview list" where
  "Discover pubOf readFile confDir opts live st =
     map pl_preview (adopt_plans pubOf readFile (adopt_normalize confDir opts) st live)"

definition adopt_one :: "gotime \<Rightarrow> bool \<Rightarrow> adopt_plan \<Rightarrow> store \<Rightarrow> adopt_result \<times> store" where
  "adopt_one now overwrite p st =
     (let v = pl_preview p;
          result = (\<lambda>a ns. \<lparr>ar_Name = pv_Name v, ar_Action = a, ar_HasPrivateKey = pv_HasPrivateKey v,
            ar_PeerCount = pv_PeerCount v, ar_ConfLoaded = pv_ConfLoaded v, ar_Notes = pv_Notes v @ ns\<rparr>)
      in if pv_AlreadyInDB v \<and> \<not> overwrite then (result Skipped [NoteAlready], st)
         else case ImportInterface now (pl_iface p) (pl_peers p) st of
             (Inl e, st') \<Rightarrow> (result (Failed e) [], st')
           | (Inr _, st') \<Rightarrow> (result (if pv_AlreadyInDB v then Updated else Created) [], st'))"

fun adopt_all :: "gotime \<Rightarrow> bool \<Rightarrow> adopt_plan list \<Rightarrow> store \<Rightarrow> adopt_result list \<times> store" where
  "adopt_all now overwrite [] st = ([], st)"
| "adopt_all now overwrite (p # ps) st =
     (let (r, st1) = adopt_one now overwrite p st; (rs, st2) = adopt_all now overwrite ps st1 in (r # rs, st2))"

definition Adopt :: "(string \<Rightarrow> string option) \<Rightarrow> (string \<Rightarrow> string option) \<Rightarrow> string \<Rightarrow> gotime \<Rightarrow> adopt_options \<Rightarrow> Device list \<Rightarrow> store
    \<Rightarrow> (preview list \<times> adopt_result list) \<times> store" where
  "Adopt pubOf readFile confDir now opts live st =
     (let o1 = adopt_normalize confDir opts;
          plans = adopt_plans pubOf readFile o1 st live;
          (rs, st1) = adopt_all now (ao_Overwrite o1) plans st
      in ((map pl_preview plans, rs), AddEvent now ''info'' ''audit'' [] []
           (''adopt finished: '' @ nat_str (length rs) @ '' device(s)'') ''{}'' st1))"

section \<open>The handlers\<close>

definition handleDiscover :: "'w api_env \<Rightarrow> (string \<Rightarrow> string option) \<Rightarrow> string list \<Rightarrow> string \<Rightarrow> 'w rstate \<Rightarrow> preview list reply" where
  "handleDiscover en readFile names queryConf r =
     Answer 200 (Discover (en_pub en) readFile (rc_ConfDir (en_cfg en))
       \<lparr>ao_Names = names, ao_ReadConf = (queryConf \<noteq> ''0'' \<and> queryConf \<noteq> ''false''), ao_ConfDir = [], ao_Overwrite = False\<rparr>
       (op_Devices (en_ops en) (r_backend r)) (r_store r))"

record adopt_request =
  aq_Names :: "string list"
  aq_ReadConf :: "bool option"
  aq_Overwrite :: bool

definition handleAdopt :: "'w api_env \<Rightarrow> (string \<Rightarrow> string option) \<Rightarrow> gotime \<Rightarrow> adopt_request option \<Rightarrow> 'w rstate
    \<Rightarrow> (preview list \<times> adopt_result list) reply \<times> 'w rstate" where
  "handleAdopt en readFile now body r =
     (case body of None \<Rightarrow> (Refused 400 ''invalid_json'', r) | Some req \<Rightarrow>
      (let (rep, st1) = Adopt (en_pub en) readFile (rc_ConfDir (en_cfg en)) now
             \<lparr>ao_Names = aq_Names req, ao_ReadConf = (case aq_ReadConf req of None \<Rightarrow> True | Some b \<Rightarrow> b),
              ao_ConfDir = [], ao_Overwrite = aq_Overwrite req\<rparr>
             (op_Devices (en_ops en) (r_backend r)) (r_store r)
       in (Answer 200 rep, ForceReconcile en now (r\<lparr>r_store := st1\<rparr>))))"

end
