(* ===== verification/AdoptLaws.thy ===== *)
theory AdoptLaws
  imports ApiIfaceLaws Adopt
begin

text \<open>
  What adoption guarantees: interfaces the database already has and devices the host reserves are left
  alone, and the peers of an adopted device keep the networks they had.
\<close>

section \<open>Plans\<close>

lemma adopt_iface_name [simp]: "i_Name (adopt_iface pubOf d conf e) = d_Name d"
  by (simp add: adopt_iface_def Let_def split: prod.split option.split)

lemma adopt_iface_kind:
  "i_Backend (adopt_iface pubOf d conf e) = []" "i_Protocol (adopt_iface pubOf d conf e) = []"
  "i_PairName (adopt_iface pubOf d conf e) = []" "i_MuxPort (adopt_iface pubOf d conf e) = 0"
  by (cases e; simp add: adopt_iface_def zero_interface_def Let_def split_beta)+

lemma buildPlan_iface: "\<exists>conf e. pl_iface (buildPlan pubOf rf opts st d) = adopt_iface pubOf d conf e"
  by (auto simp: buildPlan_def Let_def split_beta)

lemma buildPlan_simps [simp]:
  "i_Name (pl_iface (buildPlan pubOf rf opts st d)) = d_Name d" "pv_Name (pl_preview (buildPlan pubOf rf opts st d)) = d_Name d"
  "pv_AlreadyInDB (pl_preview (buildPlan pubOf rf opts st d)) \<longleftrightarrow> iface_map st (d_Name d) \<noteq> None"
  by (simp_all add: buildPlan_def iface_map_def Let_def split: prod.split sum.split)

lemma plan_names:
  "p \<in> set (adopt_plans pubOf rf opts st live) \<Longrightarrow> \<exists>d\<in>set live. p = buildPlan pubOf rf opts st d \<and> \<not> ReservedHostInterface (d_Name d)"
  by (auto simp: adopt_plans_def Let_def)

lemma adopt_one_ok: "db_ok st \<Longrightarrow> db_ok (snd (adopt_one now ow p st))"
  using ImportInterface_ok [of st now "pl_iface p" "pl_peers p"]
  by (auto simp: adopt_one_def Let_def split: prod.split sum.split)

lemma adopt_one_frame:
  assumes "db_ok st" "n \<noteq> i_Name (pl_iface p) \<or> pv_AlreadyInDB (pl_preview p) \<and> \<not> ow"
  shows "iface_map (snd (adopt_one now ow p st)) n = iface_map st n
    \<and> (\<forall>k. peer_map (snd (adopt_one now ow p st)) (n, k) = peer_map st (n, k))"
proof (cases "pv_AlreadyInDB (pl_preview p) \<and> \<not> ow")
  case True
  then show ?thesis by (simp add: adopt_one_def Let_def)
next
  case False
  then have n: "n \<noteq> i_Name (pl_iface p)" using assms(2) by blast
  have "snd (adopt_one now ow p st) = snd (ImportInterface now (pl_iface p) (pl_peers p) st)"
    using False by (auto simp: adopt_one_def Let_def split: prod.split sum.split)
  moreover have "iface_map (snd (ImportInterface now (pl_iface p) (pl_peers p) st)) n = iface_map st n
      \<and> (\<forall>k. peer_map (snd (ImportInterface now (pl_iface p) (pl_peers p) st)) (n, k) = peer_map st (n, k))"
    using view_ImportInterface [OF assms(1), of "pl_peers p" now "pl_iface p"] n by (auto simp: Let_def split: if_splits)
  ultimately show ?thesis by simp
qed

lemma adopt_all_snd: "snd (adopt_all now ow ps st) = fold (\<lambda>p st. snd (adopt_one now ow p st)) ps st"
  by (induction ps arbitrary: st) (simp_all add: Let_def split: prod.split, metis snd_conv)

lemma adopt_all_ok: "db_ok st \<Longrightarrow> db_ok (fold (\<lambda>p st. snd (adopt_one now ow p st)) ps st)"
  by (induction ps arbitrary: st) (simp_all add: adopt_one_ok)

lemma adopt_all_frame:
  assumes "db_ok st" "\<forall>p\<in>set ps. n \<noteq> i_Name (pl_iface p) \<or> pv_AlreadyInDB (pl_preview p) \<and> \<not> ow"
  shows "iface_map (fold (\<lambda>p st. snd (adopt_one now ow p st)) ps st) n = iface_map st n
    \<and> (\<forall>k. peer_map (fold (\<lambda>p st. snd (adopt_one now ow p st)) ps st) (n, k) = peer_map st (n, k))"
  using assms
proof (induction ps arbitrary: st)
  case (Cons p ps)
  have "db_ok (snd (adopt_one now ow p st))" by (rule adopt_one_ok [OF Cons.prems(1)])
  from Cons.IH [OF this] Cons.prems adopt_one_frame [OF Cons.prems(1), of n p ow now] show ?case by simp
qed simp

lemma event_frame: "s_ifaces (AddEvent now l kd n k m js st) = s_ifaces st" "s_peers (AddEvent now l kd n k m js st) = s_peers st"
  by (simp_all add: AddEvent_def Let_def)

lemma event_views [simp]:
  "iface_map (AddEvent now l kd n k m js st) = iface_map st" "peer_map (AddEvent now l kd n k m js st) = peer_map st"
  by (rule iface_map_cong, rule event_frame) (rule peer_map_cong; rule event_frame)

lemma Adopt_store:
  "\<exists>msg. snd (Adopt pubOf rf dir now opts live st) = AddEvent now ''info'' ''audit'' [] [] msg ''{}''
     (fold (\<lambda>p st. snd (adopt_one now (ao_Overwrite (adopt_normalize dir opts)) p st))
       (adopt_plans pubOf rf (adopt_normalize dir opts) st live) st)"
proof -
  let ?o = "adopt_normalize dir opts"
  obtain rs st1 where a: "adopt_all now (ao_Overwrite ?o) (adopt_plans pubOf rf ?o st live) st = (rs, st1)"
    by (cases "adopt_all now (ao_Overwrite ?o) (adopt_plans pubOf rf ?o st live) st")
  have "st1 = fold (\<lambda>p st. snd (adopt_one now (ao_Overwrite ?o) p st)) (adopt_plans pubOf rf ?o st live) st"
    using adopt_all_snd [of now "ao_Overwrite ?o" "adopt_plans pubOf rf ?o st live" st] a by simp
  with a show ?thesis by (simp add: Adopt_def Let_def) blast
qed

lemma adopted_store:
  assumes "handleAdopt en rf now (Some req) r = (Answer 200 rep, r')" "db_ok (r_store r)"
  defines "opts \<equiv> adopt_normalize (rc_ConfDir (en_cfg en)) \<lparr>ao_Names = aq_Names req,
      ao_ReadConf = (case aq_ReadConf req of None \<Rightarrow> True | Some b \<Rightarrow> b), ao_ConfDir = [], ao_Overwrite = aq_Overwrite req\<rparr>"
  obtains st1 where "r' = ForceReconcile en now (r\<lparr>r_store := st1\<rparr>)" "db_ok st1"
    "\<forall>x. iface_map st1 x = iface_map (fold (\<lambda>p st. snd (adopt_one now (aq_Overwrite req) p st))
       (adopt_plans (en_pub en) rf opts (r_store r) (op_Devices (en_ops en) (r_backend r))) (r_store r)) x"
    "\<forall>x. peer_map st1 x = peer_map (fold (\<lambda>p st. snd (adopt_one now (aq_Overwrite req) p st))
       (adopt_plans (en_pub en) rf opts (r_store r) (op_Devices (en_ops en) (r_backend r))) (r_store r)) x"
proof -
  let ?plans = "adopt_plans (en_pub en) rf opts (r_store r) (op_Devices (en_ops en) (r_backend r))"
  let ?fold = "fold (\<lambda>p st. snd (adopt_one now (aq_Overwrite req) p st)) ?plans (r_store r)"
  have ow: "ao_Overwrite opts = aq_Overwrite req" by (simp add: opts_def adopt_normalize_def)
  let ?req = "\<lparr>ao_Names = aq_Names req, ao_ReadConf = (case aq_ReadConf req of None \<Rightarrow> True | Some b \<Rightarrow> b), ao_ConfDir = [], ao_Overwrite = aq_Overwrite req\<rparr>"
  let ?A = "Adopt (en_pub en) rf (rc_ConfDir (en_cfg en)) now ?req (op_Devices (en_ops en) (r_backend r)) (r_store r)"
  have "r' = ForceReconcile en now (r\<lparr>r_store := snd ?A\<rparr>)"
    using assms(1) by (cases ?A) (simp add: handleAdopt_def)
  moreover obtain msg where "snd ?A = AddEvent now ''info'' ''audit'' [] [] msg ''{}'' ?fold"
    using Adopt_store [of "en_pub en" rf "rc_ConfDir (en_cfg en)" now ?req "op_Devices (en_ops en) (r_backend r)" "r_store r"]
    by (auto simp: opts_def [symmetric] ow)
  ultimately have "r' = ForceReconcile en now (r\<lparr>r_store := AddEvent now ''info'' ''audit'' [] [] msg ''{}'' ?fold\<rparr>)" by simp
  then show thesis by (rule that) (simp_all add: AddEvent_ok adopt_all_ok assms(2))
qed

text \<open>
  C22. Adopting is conservative: unless it is asked to overwrite, an adoption changes no interface the
  database already has, and never adds or changes one with a name the host reserves; the peers of those
  interfaces change, if at all, by enforcement.
\<close>

theorem adopt_conservative:
  assumes "db_ok (r_store r)" and "handleAdopt en rf now (Some req) r = (Answer 200 rep, r')"
    and "iface_map (r_store r) n \<noteq> None \<and> \<not> aq_Overwrite req \<or> ReservedHostInterface n"
  shows "iface_map (r_store r') n = iface_map (r_store r) n
    \<and> (\<forall>k. plain_view (peer_map (r_store r')) (n, k) = enforced_view now (peer_map (r_store r)) (n, k))"
proof -
  let ?opts = "adopt_normalize (rc_ConfDir (en_cfg en)) \<lparr>ao_Names = aq_Names req,
      ao_ReadConf = (case aq_ReadConf req of None \<Rightarrow> True | Some b \<Rightarrow> b), ao_ConfDir = [], ao_Overwrite = aq_Overwrite req\<rparr>"
  let ?plans = "adopt_plans (en_pub en) rf ?opts (r_store r) (op_Devices (en_ops en) (r_backend r))"
  obtain st1 where st1: "r' = ForceReconcile en now (r\<lparr>r_store := st1\<rparr>)" "db_ok st1"
    "\<forall>x. iface_map st1 x = iface_map (fold (\<lambda>p st. snd (adopt_one now (aq_Overwrite req) p st)) ?plans (r_store r)) x"
    "\<forall>x. peer_map st1 x = peer_map (fold (\<lambda>p st. snd (adopt_one now (aq_Overwrite req) p st)) ?plans (r_store r)) x"
    by (rule adopted_store [OF assms(2,1)])
  have "\<forall>p\<in>set ?plans. n \<noteq> i_Name (pl_iface p) \<or> pv_AlreadyInDB (pl_preview p) \<and> \<not> aq_Overwrite req"
  proof
    fix p assume "p \<in> set ?plans"
    then obtain d where "p = buildPlan (en_pub en) rf ?opts (r_store r) d" "\<not> ReservedHostInterface (d_Name d)"
      using plan_names by blast
    then show "n \<noteq> i_Name (pl_iface p) \<or> pv_AlreadyInDB (pl_preview p) \<and> \<not> aq_Overwrite req"
      using assms(3) by auto
  qed
  from adopt_all_frame [OF assms(1) this] st1(3,4)
  have same: "iface_map st1 n = iface_map (r_store r) n" "\<forall>k. peer_map st1 (n, k) = peer_map (r_store r) (n, k)" by simp_all
  have ok: "db_ok (r_store (r\<lparr>r_store := st1\<rparr>))" using st1(2) by simp
  show ?thesis unfolding st1(1)
    using reconciled_ifaces [OF ok, of en now] reconciled [OF ok, of en now] same by (simp add: enforced_view_def)
qed

text \<open>
  What overwriting loses: a row that was there leaves with the default backend and protocol, no obfuscation
  parameters, no twin and no mux, whatever it had.
\<close>

lemma overwrite_resets:
  assumes "db_ok st" "fst (adopt_one now True (buildPlan pubOf rf opts s0 d) st) = res" "ar_Action res = Updated"
  shows "\<exists>i. iface_map (snd (adopt_one now True (buildPlan pubOf rf opts s0 d) st)) (d_Name d) = Some i
    \<and> i_Backend i = ''auto'' \<and> i_Protocol i = ''wg'' \<and> i_PairName i = [] \<and> i_MuxPort i = 0"
proof -
  let ?p = "buildPlan pubOf rf opts s0 d"
  obtain st' where I: "ImportInterface now (pl_iface ?p) (pl_peers ?p) st = (Inr (), st')" "snd (adopt_one now True ?p st) = st'"
    using assms(2,3) by (auto simp: adopt_one_def Let_def split: prod.splits sum.splits if_splits)
  then obtain k c where "iface_map st' (d_Name d) =
      Some (scanInterface ((iface_defaults (table_default (pl_iface ?p)))\<lparr>i_ID := k, i_CreatedAt := c, i_UpdatedAt := now\<rparr>))"
    using view_ImportInterface [OF assms(1), of "pl_peers ?p" now "pl_iface ?p"] by (auto simp: Let_def split: if_splits)
  moreover have "i_Backend (pl_iface ?p) = []" "i_Protocol (pl_iface ?p) = []" "i_PairName (pl_iface ?p) = []" "i_MuxPort (pl_iface ?p) = 0"
    using buildPlan_iface [of pubOf rf opts s0 d] by (metis adopt_iface_kind)+
  ultimately show ?thesis unfolding I(2) by (simp add: scanInterface_def iface_defaults_def table_default_def)
qed

section \<open>Traffic goes on\<close>

lemma enriched_fields [simp]:
  "p_PublicKey (enrich c p) = p_PublicKey p" "p_Suspended (enrich c p) = p_Suspended p"
  "p_AllowedIPs p \<noteq> [] \<Longrightarrow> p_AllowedIPs (enrich c p) = p_AllowedIPs p"
  by (auto simp: enrich_def split: option.split)

lemma live_row_fields [simp]:
  "p_PublicKey (live_row lp) = lp_PublicKey lp" "p_Suspended (live_row lp) = False" "p_AllowedIPs (live_row lp) = lp_AllowedIPs lp"
  "p_TrafficLimitBytes (live_row lp) = 0"
  by (simp_all add: live_row_def Let_def zero_peer_def)

text \<open>An adopted peer starts with no traffic against its limit.\<close>

lemma adopted_within_limit:
  "\<not> TrafficLimitExceeded (enrich c (live_row lp))"
proof (cases c)
  case None
  then show ?thesis by (simp add: enrich_def TrafficLimitExceeded_def)
next
  case (Some cp)
  have "p_TrafficLimitBytes (enrich c (live_row lp)) = (if cp_TrafficLimit cp > 0 then cp_TrafficLimit cp else 0)"
    by (simp add: enrich_def Some)
  moreover have "EffectiveBytes (enrich c (live_row lp)) = 0" if "cp_TrafficLimit cp > 0"
    using that by (simp add: enrich_def Some EffectiveBytes_def EffectiveRx_def EffectiveTx_def i64_id in64_nonneg)
  ultimately show ?thesis by (simp add: TrafficLimitExceeded_def)
qed

lemma adopt_one_import:
  assumes "db_ok st" "\<not> pv_AlreadyInDB (pl_preview p) \<or> ow" "distinct (map p_PublicKey (pl_peers p))"
  shows "ImportInterface now (pl_iface p) (pl_peers p) st = (Inr (), snd (adopt_one now ow p st))"
proof -
  have "fst (ImportInterface now (pl_iface p) (pl_peers p) st) = Inr ()"
    using view_ImportInterface [OF assms(1), of "pl_peers p" now "pl_iface p"] assms(3) by (simp add: Let_def)
  then obtain st' where "ImportInterface now (pl_iface p) (pl_peers p) st = (Inr (), st')"
    by (cases "ImportInterface now (pl_iface p) (pl_peers p) st") simp
  with assms(2) show ?thesis by (auto simp: adopt_one_def Let_def)
qed

lemma adopt_all_import:
  assumes "db_ok st" "ps = ps1 @ p # ps2" "\<forall>q\<in>set (ps1 @ ps2). i_Name (pl_iface q) \<noteq> i_Name (pl_iface p)"
    "\<not> pv_AlreadyInDB (pl_preview p) \<or> ow" "distinct (map p_PublicKey (pl_peers p))" "x \<in> set (pl_peers p)"
    and st'_def: "st' = fold (\<lambda>p st. snd (adopt_one now ow p st)) ps st" and n_def: "n = i_Name (pl_iface p)"
  shows "iface_map st' n \<noteq> None"
    and "\<exists>q j m. peer_map st' (n, p_PublicKey x) = Some q \<and>
      q = x\<lparr>p_InterfaceID := m, p_ID := j, p_CreatedAt := now, p_UpdatedAt := now, p_InterfaceName := n\<rparr>"
proof -
  let ?st1 = "fold (\<lambda>p st. snd (adopt_one now ow p st)) ps1 st"
  let ?st2 = "snd (adopt_one now ow p ?st1)"
  have ok: "db_ok ?st1" by (rule adopt_all_ok [OF assms(1)])
  note imp = adopt_one_import [OF ok assms(4,5), of now]
  have st': "st' = fold (\<lambda>p st. snd (adopt_one now ow p st)) ps2 ?st2" by (simp add: st'_def assms(2))
  have "\<forall>q\<in>set ps2. n \<noteq> i_Name (pl_iface q) \<or> pv_AlreadyInDB (pl_preview q) \<and> \<not> ow"
    using assms(3) by (auto simp: n_def)
  note fr = adopt_all_frame [OF adopt_one_ok [OF ok, where now = now and ow = ow and p = p] this, where now = now]
  have frame: "iface_map st' n = iface_map ?st2 n" "peer_map st' (n, k) = peer_map ?st2 (n, k)" for k
    using fr unfolding st' by simp_all
  show "iface_map st' n \<noteq> None"
    using view_ImportInterface [OF ok, of "pl_peers p" now "pl_iface p"] imp assms(5) unfolding frame unfolding n_def by (auto simp: Let_def)
  show "\<exists>q j m. peer_map st' (n, p_PublicKey x) = Some q \<and>
      q = x\<lparr>p_InterfaceID := m, p_ID := j, p_CreatedAt := now, p_UpdatedAt := now, p_InterfaceName := n\<rparr>"
    unfolding frame unfolding n_def by (rule imported_view(2) [OF ok imp assms(6)])
qed

lemma distinct_plans:
  assumes "distinct (map d_Name live)"
  shows "distinct (map (\<lambda>p. i_Name (pl_iface p)) (adopt_plans pubOf rf opts st live))"
  using assms by (simp add: adopt_plans_def Let_def comp_def distinct_map_filter)

lemma mock_names_distinct: "mock_ok m \<Longrightarrow> distinct (map d_Name (mock_Devices m))"
proof -
  assume m: "mock_ok m"
  then have "map d_Name (mock_Devices m) = map fst (m_Devices m)" by (auto simp: mock_ok_def mock_Devices_def)
  with m show ?thesis by (simp add: mock_ok_def)
qed

text \<open>A row with fresh keys is as overdue as the row it was made from.\<close>

lemma due_fields:
  "q = p\<lparr>p_InterfaceID := m, p_ID := j, p_CreatedAt := a, p_UpdatedAt := b, p_InterfaceName := n\<rparr> \<Longrightarrow>
     IsExpired q now = IsExpired p now \<and> TrafficLimitExceeded q = TrafficLimitExceeded p \<and> p_Suspended q = p_Suspended p
     \<and> p_PublicKey q = p_PublicKey p \<and> p_AllowedIPs q = p_AllowedIPs p"
  by (simp add: IsExpired_def TrafficLimitExceeded_def EffectiveBytes_def EffectiveRx_def EffectiveTx_def)

lemma mirrored_peer:
  assumes "mirrored n r" "db_ok (r_store r)" "peer_map (r_store r) (n, k) = Some q" "\<not> p_Suspended q"
  shows "\<exists>d. map_of (m_Devices (r_backend r)) n = Some d \<and> (k, p_AllowedIPs q) \<in> set (live_peers d)"
proof -
  have q: "q \<in> set (ListPeersByInterface n (r_store r))" "p_PublicKey q = k"
    using assms(3) by (auto simp: set_ListPeers peer_map_iff [OF assms(2)])
  obtain d where "map_of (m_Devices (r_backend r)) n = Some d"
      "live_peers d = map (\<lambda>p. (p_PublicKey p, if p_Suspended p then [] else p_AllowedIPs p)) (ListPeersByInterface n (r_store r))"
    using assms(1) by (auto simp: mirrored_def)
  with q assms(4) show ?thesis by force
qed

text \<open>
  C11. Adopting does not cut anybody off: after a device is adopted, by name or with all others, with or without a
  configuration file beside it, and after the pass that follows, every peer of the device that had networks still has exactly
  those, however much traffic it already had and whatever limit the file names for it, unless the file
  says it has expired.  This is claimed of devices whose name is not reserved for the host, that are new to the database or
  overwritten, and whose peers have distinct keys, those only in the file included (a key named twice makes the import fail
  as a whole); and for a daemon on the mock backend while that backend is healthy.
\<close>

theorem adopt_keeps_traffic:
  assumes "db_ok (r_store r)" "mock_ok (r_backend r)" "mock_healthy (r_backend r)" "en_ops en = mock_ops"
    and "handleAdopt en rf now (Some req) r = (Answer 200 rep, r')"
    and "wanted = filter (\<lambda>n. n \<noteq> []) (map TrimSpace (aq_Names req))" "wanted = [] \<or> d_Name d \<in> set wanted"
    and "d \<in> set (mock_Devices (r_backend r))" "\<not> ReservedHostInterface (d_Name d)"
    and "iface_map (r_store r) (d_Name d) = None \<or> aq_Overwrite req"
    and "adopt_conf rf (adopt_normalize (rc_ConfDir (en_cfg en)) \<lparr>ao_Names = aq_Names req,
      ao_ReadConf = (case aq_ReadConf req of None \<Rightarrow> True | Some b \<Rightarrow> b), ao_ConfDir = [], ao_Overwrite = aq_Overwrite req\<rparr>)
      (d_Name d) = (path, conf, msgs)"
    and "distinct (map p_PublicKey (adopt_peers conf (d_Peers d)))"
    and "lp \<in> set (d_Peers d)" "lp_AllowedIPs lp \<noteq> []"
    and "\<not> IsExpired (enrich (case conf of None \<Rightarrow> None | Some c \<Rightarrow> byPub (cf_Peers c) (lp_PublicKey lp)) (live_row lp)) now"
  shows "\<exists>d'. map_of (m_Devices (r_backend r')) (d_Name d) = Some d' \<and> (lp_PublicKey lp, lp_AllowedIPs lp) \<in> set (live_peers d')"
proof -
  note wanted = assms(6,7) and assms = assms(1-5) refl assms(8-15)
  let ?opts = "adopt_normalize (rc_ConfDir (en_cfg en)) \<lparr>ao_Names = aq_Names req,
      ao_ReadConf = (case aq_ReadConf req of None \<Rightarrow> True | Some b \<Rightarrow> b), ao_ConfDir = [], ao_Overwrite = aq_Overwrite req\<rparr>"
  let ?x = "enrich (case conf of None \<Rightarrow> None | Some c \<Rightarrow> byPub (cf_Peers c) (lp_PublicKey lp)) (live_row lp)"
  let ?live = "mock_Devices (r_backend r)" and ?p = "buildPlan (en_pub en) rf ?opts (r_store r) d" and ?n = "d_Name d"
  let ?plans = "adopt_plans (en_pub en) rf ?opts (r_store r) ?live"
  obtain st1 where st1: "r' = ForceReconcile en now (r\<lparr>r_store := st1\<rparr>)" "db_ok st1"
    "\<forall>x. iface_map st1 x = iface_map (fold (\<lambda>p st. snd (adopt_one now (aq_Overwrite req) p st)) ?plans (r_store r)) x"
    "\<forall>x. peer_map st1 x = peer_map (fold (\<lambda>p st. snd (adopt_one now (aq_Overwrite req) p st)) ?plans (r_store r)) x"
    by (rule adopted_store [OF assms(5,1)]) (simp add: assms(4))
  have "?p \<in> set ?plans" using assms(7,8) wanted by (auto simp: adopt_plans_def Let_def adopt_normalize_def)
  then obtain ps1 ps2 where ps: "?plans = ps1 @ ?p # ps2" by (meson split_list)
  have others: "\<forall>q\<in>set (ps1 @ ps2). i_Name (pl_iface q) \<noteq> i_Name (pl_iface ?p)"
    using distinct_plans [OF mock_names_distinct [OF assms(2)], of "en_pub en" rf ?opts "r_store r"] unfolding ps
    by (auto simp: image_iff)
  have peers: "pl_peers ?p = adopt_peers conf (d_Peers d)" by (simp add: buildPlan_def assms(10) Let_def)
  have x: "?x \<in> set (pl_peers ?p)" "p_PublicKey ?x = lp_PublicKey lp" "p_AllowedIPs ?x = lp_AllowedIPs lp" "\<not> p_Suspended ?x"
    using assms(12,13) unfolding peers by (auto simp: adopt_peers_def Let_def enrich_def [of None] split: option.split)
  have go: "\<not> pv_AlreadyInDB (pl_preview ?p) \<or> aq_Overwrite req" using assms(9) by simp
  have "distinct (map p_PublicKey (pl_peers ?p))" using assms(11) peers by simp
  note imp = adopt_all_import [OF assms(1) ps others go this x(1) refl refl, of now]
  obtain q j m where q: "peer_map st1 (?n, lp_PublicKey lp) = Some q"
    "q = ?x\<lparr>p_InterfaceID := m, p_ID := j, p_CreatedAt := now, p_UpdatedAt := now, p_InterfaceName := ?n\<rparr>"
    using imp(2) x(2) st1(4) by auto
  have keep: "\<not> ShouldAutoSuspendAt q now" "\<not> p_Suspended q" "p_AllowedIPs q = lp_AllowedIPs lp"
    using due_fields [OF q(2), of now] adopted_within_limit assms(14) x by (simp_all add: ShouldAutoSuspendAt_def)
  have ok: "db_ok (r_store (r\<lparr>r_store := st1\<rparr>))" "mock_healthy (r_backend (r\<lparr>r_store := st1\<rparr>))" using st1(2) assms(3) by simp_all
  have "?n \<in> i_Name ` set (s_ifaces (r_store (r\<lparr>r_store := st1\<rparr>)))"
  proof -
    have "iface_map st1 ?n \<noteq> None" using imp(1) by (simp only: st1(3) buildPlan_simps not_False_eq_True)
    then show ?thesis by (simp add: iface_map_None)
  qed
  then have mir: "mirrored ?n r'" unfolding st1(1) by (rule reconciled_mirrors [OF assms(4) ok _ assms(8)])
  have "plain_view (peer_map (r_store r')) (?n, lp_PublicKey lp) = enforced_view now (peer_map st1) (?n, lp_PublicKey lp)"
    unfolding st1(1) using reconciled [OF ok(1), of en now] by simp
  then obtain q' where q': "peer_map (r_store r') (?n, lp_PublicKey lp) = Some q'" "static q' = static q" "\<not> p_Suspended q'"
    using q(1) keep by (auto simp: plain_view_def enforced_view_def)
  have ok': "db_ok (r_store r')" unfolding st1(1) ForceReconcile_def by (rule run_store_ok(1) [OF ok(1)])
  have "p_AllowedIPs q' = lp_AllowedIPs lp" using static_fields [OF q'(2)] keep(3) by simp
  with mirrored_peer [OF mir ok' q'(1,3)] show ?thesis by simp
qed

text \<open>A device nobody configured, with one peer.\<close>

definition foreign_peer :: live_peer where
  "foreign_peer = \<lparr>lp_PublicKey = ''F'', lp_PresharedKey = [], lp_Endpoint = [], lp_AllowedIPs = [''10.9.0.2/32''],
     lp_PersistentKeepaliveInterval = 0, lp_LastHandshakeTime = 0, lp_ReceiveBytes = 500, lp_TransmitBytes = 700\<rparr>"

definition foreign_state :: "mock rstate" where
  "foreign_state = NewReconciler over_quota_store
     (NewMock\<lparr>m_Devices := [(''wg5'', (new_device ''wg5'')\<lparr>d_Peers := [foreign_peer]\<rparr>)]\<rparr>) NewCache"

definition adopt_wg5 :: adopt_request where
  "adopt_wg5 = \<lparr>aq_Names = ['' wg5 '', []], aq_ReadConf = None, aq_Overwrite = False\<rparr>"

definition adopt_everything :: adopt_request where
  "adopt_everything = \<lparr>aq_Names = [], aq_ReadConf = None, aq_Overwrite = False\<rparr>"

lemma foreign_simps:
  "r_store foreign_state = over_quota_store" "m_FailNext (r_backend foreign_state) = None"
  "m_Devices (r_backend foreign_state) = [(''wg5'', (new_device ''wg5'')\<lparr>d_Peers := [foreign_peer]\<rparr>)]"
  by (simp_all add: foreign_state_def NewReconciler_def NewMock_def)

lemma adopt_answers: "\<exists>rep r'. handleAdopt en rf now (Some req) r = (Answer 200 rep, r')"
  by (simp add: handleAdopt_def split: prod.split)

theorem adopt_conservative_witness:
  "\<exists>rep r'. handleAdopt demo_env (\<lambda>_. None) 10 (Some adopt_everything) foreign_state = (Answer 200 rep, r')
     \<and> iface_map (r_store r') ''wg0'' = iface_map over_quota_store ''wg0''"
proof -
  obtain rep r' where a: "handleAdopt demo_env (\<lambda>_. None) 10 (Some adopt_everything) foreign_state = (Answer 200 rep, r')"
    using adopt_answers by blast
  have "iface_map over_quota_store ''wg0'' \<noteq> None" by (simp add: iface_map_None demo_iface_free)
  with adopt_conservative [OF _ a, where n = "''wg0''"] a over_quota_ok show ?thesis
    by (simp add: foreign_simps) (simp add: adopt_everything_def)
qed

theorem adopt_keeps_traffic_witness:
  "\<exists>rep r' d'. handleAdopt demo_env (\<lambda>_. None) 10 (Some adopt_wg5) foreign_state = (Answer 200 rep, r')
     \<and> map_of (m_Devices (r_backend r')) ''wg5'' = Some d' \<and> (''F'', [''10.9.0.2/32'']) \<in> set (live_peers d')"
proof -
  let ?d = "(new_device ''wg5'')\<lparr>d_Peers := [foreign_peer]\<rparr>"
  obtain rep r' where a: "handleAdopt demo_env (\<lambda>_. None) 10 (Some adopt_wg5) foreign_state = (Answer 200 rep, r')"
    using adopt_answers by blast
  have free: "iface_map over_quota_store ''wg5'' = None" by (simp add: iface_map_None demo_iface_free)
  have "\<exists>d'. map_of (m_Devices (r_backend r')) (d_Name ?d) = Some d' \<and> (lp_PublicKey foreign_peer, lp_AllowedIPs foreign_peer) \<in> set (live_peers d')"
  proof (rule adopt_keeps_traffic [OF _ _ _ _ a, where wanted = "[''wg5'']" and path = "[]" and conf = None and msgs = "[]"])
    show "\<not> ReservedHostInterface (d_Name ?d)" by (simp add: new_device_def, code_simp)
  qed (simp_all add: foreign_simps over_quota_ok demo_env_ops mock_ok_def mock_healthy_def adopt_wg5_def mock_Devices_def new_device_def
      free adopt_conf_def adopt_peers_def adopt_normalize_def foreign_peer_def TrimSpace_def is_space_def enrich_def IsExpired_def live_row_def zero_peer_def Let_def)
  with a show ?thesis by (auto simp: new_device_def foreign_peer_def)
qed

end
