(* ===== verification/HostCmd.thy ===== *)
theory HostCmd
  imports Backend
begin

text \<open>
  Commands of the host (\<open>internal/wgbackend/exec.go\<close>).  A runner takes the name of a command, its arguments
  and the state of the host, and gives an error with its text or the output, and the new state: what a
  command does is a parameter everywhere below.  Go visits the entries of a map in no fixed order; a map that is
  ranged over is a list without repetitions, and an \<open>order\<close> rearranges the lists a loop visits.
\<close>

type_synonym 'k runner = "string \<Rightarrow> string list \<Rightarrow> 'k \<Rightarrow> (string + string) \<times> 'k"

text \<open>A command whose result is not looked at, and several of them.\<close>

definition attempt :: "'k runner \<Rightarrow> string \<Rightarrow> string list \<Rightarrow> 'k \<Rightarrow> 'k" where
  "attempt run cmd args k = snd (run cmd args k)"

definition failed :: "string + string \<Rightarrow> string option" where
  "failed r = (case r of Inl e \<Rightarrow> Some e | Inr _ \<Rightarrow> None)"

text \<open>Steps that are taken until one fails; a command whose failure is an error unless its text is tolerated.\<close>

fun until_error :: "('k \<Rightarrow> string option \<times> 'k) list \<Rightarrow> 'k \<Rightarrow> string option \<times> 'k" where
  "until_error [] k = (None, k)"
| "until_error (f # fs) k = (case f k of (Some e, k') \<Rightarrow> (Some e, k') | (None, k') \<Rightarrow> until_error fs k')"

definition must :: "'k runner \<Rightarrow> (string \<Rightarrow> bool) \<Rightarrow> string \<Rightarrow> string \<Rightarrow> string list \<Rightarrow> 'k \<Rightarrow> string option \<times> 'k" where
  "must run tolerated what cmd args k =
     (case run cmd args k of (Inr _, k') \<Rightarrow> (None, k')
      | (Inl t, k') \<Rightarrow> (if tolerated t then None else Some (what @ '': '' @ t), k'))"

lemma until_error_append:
  "until_error (fs @ gs) k = (case until_error fs k of (Some e, k') \<Rightarrow> (Some e, k') | (None, k') \<Rightarrow> until_error gs k')"
  by (induction fs arbitrary: k) (auto split: prod.splits option.splits)

text \<open>\<open>strings.Contains\<close> and \<open>strings.Fields\<close>.\<close>

definition has_text :: "string \<Rightarrow> string \<Rightarrow> bool" where
  "has_text e t = sublist t e"

fun fields_acc :: "string \<Rightarrow> string \<Rightarrow> string list" where
  "fields_acc acc [] = (if acc = [] then [] else [rev acc])"
| "fields_acc acc (c # cs) =
     (if is_space c then (if acc = [] then [] else [rev acc]) @ fields_acc [] cs else fields_acc (c # acc) cs)"

definition Fields :: "string \<Rightarrow> string list" where
  "Fields s = fields_acc [] s"

text \<open>The orders in which a loop may visit the entries of a map.\<close>

definition rearranges :: "('a list \<Rightarrow> 'a list) \<Rightarrow> bool" where
  "rearranges ord \<longleftrightarrow> (\<forall>xs. mset (ord xs) = mset xs)"

lemma rearranges_set: "rearranges ord \<Longrightarrow> set (ord xs) = set xs"
  by (metis rearranges_def mset_eq_setD)

lemma rearranges_distinct: "rearranges ord \<Longrightarrow> distinct (ord xs) \<longleftrightarrow> distinct xs"
  by (metis rearranges_def mset_eq_imp_distinct_iff)

lemma rearranges_length: "rearranges ord \<Longrightarrow> length (ord xs) = length xs"
  by (metis rearranges_def size_mset)

lemma rearranges_id [simp]: "rearranges (\<lambda>xs. xs)" "rearranges rev"
  by (simp_all add: rearranges_def)

text \<open>\<open>sameStrings\<close> compares two slices; \<open>uniqueStrings\<close> keeps the first of equal entries; \<open>shortKey\<close>.\<close>

definition sameStrings :: "string list \<Rightarrow> string list \<Rightarrow> bool" where
  "sameStrings a b \<longleftrightarrow> a = b"

definition uniqueStrings :: "string list \<Rightarrow> string list" where
  "uniqueStrings xs = rev (fold (\<lambda>s out. if s \<in> set out then out else s # out) xs [])"

lemma unique_fold:
  "set (fold (\<lambda>s out. if s \<in> set out then out else s # out) xs acc) = set acc \<union> set xs"
  "distinct acc \<Longrightarrow> distinct (fold (\<lambda>s out. if s \<in> set out then out else s # out) xs acc)"
  by (induction xs arbitrary: acc) auto

lemma set_uniqueStrings [simp]: "set (uniqueStrings xs) = set xs" "distinct (uniqueStrings xs)"
  by (simp_all add: uniqueStrings_def unique_fold)

end
