(* ===== verification/Routes.thy ===== *)
theory Routes
  imports HostCmd
begin

text \<open>
  Routes and policy rules of an interface (\<open>internal/wgbackend/table_routes.go\<close>).  The maps of installed routes and
  rules are lists without repetitions.
\<close>

section \<open>What is wanted\<close>

record routeKey =
  rk_Dst :: string
  rk_Table :: string
  rk_Proto :: string

record ruleKey =
  ru_Family :: string
  ru_Spec :: string

record ifaceRouteState =
  rs_routes :: "routeKey list"
  rs_rules :: "ruleKey list"
  rs_fwmark :: int

definition no_routes :: ifaceRouteState where
  "no_routes = \<lparr>rs_routes = [], rs_rules = [], rs_fwmark = 0\<rparr>"

definition normalizeTableMode :: "string \<Rightarrow> string" where
  "normalizeTableMode mode0 =
     (let mode = ToLower (TrimSpace mode0) in
      if mode = [] \<or> mode = ''auto'' then ''auto''
      else if mode = ''off'' then ''off''
      else if mode = ''number'' \<or> mode = ''custom'' then ''number''
      else if Atoi mode \<noteq> None then ''number'' else ''off'')"

definition ResolveTableID :: "string \<Rightarrow> int option \<Rightarrow> string \<times> int" where
  "ResolveTableID mode0 tid =
     (let mode = normalizeTableMode mode0 in
      if mode = ''off'' then (''off'', 0)
      else if mode = ''number'' then (case tid of Some n \<Rightarrow> (int_str n, n) | None \<Rightarrow> (''auto'', 0))
      else (''auto'', 0))"

definition normalizeCIDR :: "string \<Rightarrow> string" where
  "normalizeCIDR a0 =
     (let a = TrimSpace a0 in
      if a = [] \<or> CHR ''/'' \<in> set a then a
      else case ParseIP a of None \<Rightarrow> a
        | Some ip \<Rightarrow> if To4 ip \<noteq> None then a @ ''/32'' else a @ ''/128'')"

text \<open>The family of a prefix and whether it is a default route; \<open>None\<close> when it does not parse.\<close>

definition classifyCIDR :: "string \<Rightarrow> (string \<times> bool) option" where
  "classifyCIDR cidr =
     (case ParseCIDR cidr of None \<Rightarrow> None
      | Some (_, ipnet) \<Rightarrow> Some (if To4 (net_IP ipnet) \<noteq> None then ''4'' else ''6'', fst (Mask_Size (net_Mask ipnet)) = 0))"

definition addrHostFamily :: "string \<Rightarrow> (string \<times> string) option" where
  "addrHostFamily addr =
     (case (if CHR ''/'' \<in> set addr then map_option fst (ParseCIDR addr) else ParseIP addr) of None \<Rightarrow> None
      | Some ip \<Rightarrow> Some (IP_String ip, if To4 ip \<noteq> None then ''4'' else ''6''))"

text \<open>The prefixes of the peers that are not suspended, sorted, without repetitions.\<close>

definition allowed_entry :: "string \<Rightarrow> string option" where
  "allowed_entry a0 =
     (let a = TrimSpace a0 in
      if a = [] then None
      else if CHR ''/'' \<in> set a then Some a
      else case ParseIP a of None \<Rightarrow> None
        | Some ip \<Rightarrow> Some (if To4 ip \<noteq> None then a @ ''/32'' else a @ ''/128''))"

definition allowed_of :: "DesiredPeer list \<Rightarrow> string list" where
  "allowed_of ps = uniqueStrings (sort (concat (map (\<lambda>p. if dp_Suspended p then []
     else List.map_filter allowed_entry (dp_AllowedIPs p)) ps)))"

definition effective_mark :: "DesiredInterface \<Rightarrow> int" where
  "effective_mark di = (if di_FwMark di \<le> 0 then (if di_ListenPort di > 0 then di_ListenPort di else 51820) else di_FwMark di)"

definition table_num :: "DesiredInterface \<Rightarrow> int" where
  "table_num di = (if normalizeTableMode (di_TableMode di) = ''number''
     then (case di_TableID di of Some n \<Rightarrow> n | None \<Rightarrow> 0) else 0)"

definition wantRoute :: "DesiredInterface \<Rightarrow> string \<Rightarrow> routeKey option" where
  "wantRoute di cidr =
     (case classifyCIDR cidr of None \<Rightarrow> None
      | Some (proto, isDefault) \<Rightarrow>
        (let mode = normalizeTableMode (di_TableMode di) in
         if mode = ''auto'' then
           Some \<lparr>rk_Dst = cidr, rk_Table = (if isDefault then int_str (effective_mark di) else ''main''), rk_Proto = proto\<rparr>
         else if mode = ''number'' then Some \<lparr>rk_Dst = cidr, rk_Table = int_str (table_num di), rk_Proto = proto\<rparr>
         else None))"

definition default_rules :: "DesiredInterface \<Rightarrow> string \<Rightarrow> ruleKey list" where
  "default_rules di cidr =
     (case classifyCIDR cidr of None \<Rightarrow> []
      | Some (proto, isDefault) \<Rightarrow>
        if normalizeTableMode (di_TableMode di) = ''auto'' \<and> isDefault then
          [\<lparr>ru_Family = proto, ru_Spec = ''not from all fwmark 0x'' @ hex_str (nat (effective_mark di))
              @ '' lookup '' @ int_str (effective_mark di)\<rparr>,
           \<lparr>ru_Family = proto, ru_Spec = ''from all lookup main suppress_prefixlength 0''\<rparr>]
        else [])"

definition number_rules :: "DesiredInterface \<Rightarrow> ruleKey list" where
  "number_rules di =
     (if normalizeTableMode (di_TableMode di) = ''number'' \<and> table_num di > 0 then
        List.map_filter (\<lambda>addr. map_option (\<lambda>(host, fam). \<lparr>ru_Family = fam,
            ru_Spec = ''from '' @ host @ '' lookup '' @ int_str (table_num di)\<rparr>) (addrHostFamily addr)) (di_Addresses di)
        @ map (\<lambda>fam. \<lparr>ru_Family = fam,
            ru_Spec = ''from all iif '' @ di_Name di @ '' lookup '' @ int_str (table_num di)\<rparr>) [''4'', ''6'']
      else [])"

definition wantRoutes :: "DesiredInterface \<Rightarrow> routeKey list" where
  "wantRoutes di = remdups (List.map_filter (wantRoute di) (allowed_of (di_Peers di)))"

definition wantRules :: "DesiredInterface \<Rightarrow> ruleKey list" where
  "wantRules di = remdups (concat (map (default_rules di) (allowed_of (di_Peers di))) @ number_rules di)"

section \<open>The commands\<close>

definition route_args :: "string \<Rightarrow> string \<Rightarrow> routeKey \<Rightarrow> string list" where
  "route_args verb iface rk =
     [''-'' @ rk_Proto rk, ''route'', verb, rk_Dst rk, ''dev'', iface]
     @ (if rk_Table rk \<noteq> [] \<and> rk_Table rk \<noteq> ''main'' then [''table'', rk_Table rk] else [])"

definition addRoute :: "'k runner \<Rightarrow> string \<Rightarrow> routeKey \<Rightarrow> 'k \<Rightarrow> string option \<times> 'k" where
  "addRoute run iface rk k = (let (r, k') = run ''ip'' (route_args ''replace'' iface rk) k in (failed r, k'))"

definition delRoute :: "'k runner \<Rightarrow> string \<Rightarrow> routeKey \<Rightarrow> 'k \<Rightarrow> string option \<times> 'k" where
  "delRoute run iface rk k =
     (let (r, k') = run ''ip'' (route_args ''del'' iface rk) k in
      (case failed r of None \<Rightarrow> None
       | Some e \<Rightarrow> if has_text e ''No such'' \<or> has_text e ''not found'' \<or> has_text e ''Cannot find'' then None else Some e, k'))"

definition addRule :: "'k runner \<Rightarrow> ruleKey \<Rightarrow> int \<Rightarrow> 'k \<Rightarrow> string option \<times> 'k" where
  "addRule run ru prio k =
     (let (r, k') = run ''ip'' ([''-'' @ ru_Family ru, ''rule'', ''add''] @ Fields (ru_Spec ru) @ [''priority'', int_str prio]) k
      in (failed r, k'))"

definition delRule :: "'k runner \<Rightarrow> ruleKey \<Rightarrow> 'k \<Rightarrow> string option \<times> 'k" where
  "delRule run ru k =
     (let (r, k') = run ''ip'' ([''-'' @ ru_Family ru, ''rule'', ''del''] @ Fields (ru_Spec ru)) k in
      (case failed r of None \<Rightarrow> None
       | Some e \<Rightarrow> if has_text e ''No such'' \<or> has_text e ''not found'' then None else Some e, k'))"

section \<open>Synchronising\<close>

record map_order =
  mo_routes :: "routeKey list \<Rightarrow> routeKey list"
  mo_rules :: "ruleKey list \<Rightarrow> ruleKey list"

definition order_ok :: "map_order \<Rightarrow> bool" where
  "order_ok o' \<longleftrightarrow> rearranges (mo_routes o') \<and> rearranges (mo_rules o')"

definition drop_routes :: "'k runner \<Rightarrow> string \<Rightarrow> routeKey list \<Rightarrow> 'k \<Rightarrow> 'k" where
  "drop_routes run iface rks k = fold (\<lambda>rk k. snd (delRoute run iface rk k)) rks k"

definition drop_rules :: "'k runner \<Rightarrow> ruleKey list \<Rightarrow> 'k \<Rightarrow> 'k" where
  "drop_rules run rus k = fold (\<lambda>ru k. snd (delRule run ru k)) rus k"

definition rulePrioBase :: int where
  "rulePrioBase = 32764"

text \<open>The loops that add what is missing: the keys installed, the errors and the host after them.\<close>

fun add_routes :: "'k runner \<Rightarrow> string \<Rightarrow> routeKey list \<Rightarrow> routeKey list \<times> string list \<times> 'k \<Rightarrow> routeKey list \<times> string list \<times> 'k" where
  "add_routes run iface [] s = s"
| "add_routes run iface (rk # rks) (inst, errs, k) =
     (if rk \<in> set inst then add_routes run iface rks (inst, errs, k)
      else let (e, k') = addRoute run iface rk k in
        (case e of None \<Rightarrow> add_routes run iface rks (inst @ [rk], errs, k')
         | Some t \<Rightarrow> if has_text t ''File exists'' \<or> has_text t ''exists'' then add_routes run iface rks (inst @ [rk], errs, k')
             else add_routes run iface rks (inst, errs @ [''route '' @ rk_Dst rk @ '': '' @ t], k')))"

fun add_rules :: "'k runner \<Rightarrow> ruleKey list \<Rightarrow> int \<Rightarrow> ruleKey list \<times> string list \<times> 'k \<Rightarrow> ruleKey list \<times> string list \<times> 'k" where
  "add_rules run [] prio s = s"
| "add_rules run (ru # rus) prio (inst, errs, k) =
     (if ru \<in> set inst then add_rules run rus prio (inst, errs, k)
      else let (e, k') = addRule run ru prio k in
        (case e of None \<Rightarrow> add_rules run rus (prio + 1) (inst @ [ru], errs, k')
         | Some t \<Rightarrow> if has_text t ''File exists'' then add_rules run rus (prio + 1) (inst @ [ru], errs, k')
             else add_rules run rus prio (inst, errs @ [''rule '' @ ru_Spec ru @ '': '' @ t], k')))"

definition routes_sync :: "map_order \<Rightarrow> 'k runner \<Rightarrow> DesiredInterface \<Rightarrow> ifaceRouteState \<Rightarrow> 'k
    \<Rightarrow> string option \<times> ifaceRouteState \<times> 'k" where
  "routes_sync mo run di st k =
     (if normalizeTableMode (di_TableMode di) = ''off'' \<or> \<not> di_Enabled di then
        (None, st\<lparr>rs_routes := [], rs_rules := []\<rparr>,
         drop_rules run (mo_rules mo (rs_rules st)) (drop_routes run (di_Name di) (mo_routes mo (rs_routes st)) k))
      else
        let stale = filter (\<lambda>rk. rk \<notin> set (wantRoutes di)) (mo_routes mo (rs_routes st));
            k1 = drop_routes run (di_Name di) stale k;
            staleRules = filter (\<lambda>ru. ru \<notin> set (wantRules di)) (mo_rules mo (rs_rules st));
            k2 = drop_rules run staleRules k1;
            (routes, errs1, k3) = add_routes run (di_Name di) (mo_routes mo (wantRoutes di))
              (filter (\<lambda>rk. rk \<in> set (wantRoutes di)) (rs_routes st), [], k2);
            (rules, errs, k4) = add_rules run (mo_rules mo (wantRules di)) rulePrioBase
              (filter (\<lambda>ru. ru \<in> set (wantRules di)) (rs_rules st), errs1, k3)
        in (if errs = [] then None else Some (''sync routes: '' @ Join errs ''; ''),
            \<lparr>rs_routes = routes, rs_rules = rules, rs_fwmark = effective_mark di\<rparr>, k4))"

text \<open>Before synchronising, a device that is to carry a default route gets its mark.\<close>

definition wants_default :: "DesiredInterface \<Rightarrow> bool" where
  "wants_default di = list_ex (\<lambda>p. \<not> dp_Suspended p
     \<and> list_ex (\<lambda>a. case classifyCIDR (normalizeCIDR a) of Some (_, d) \<Rightarrow> d | None \<Rightarrow> False) (dp_AllowedIPs p)) (di_Peers di)"

text \<open>The kernel client sets the mark when there is one (\<open>Inl\<close>: a function of the host), else \<open>wg\<close> does.\<close>

definition ensureDefaultRouteFwMark :: "(string \<Rightarrow> int \<Rightarrow> 'k \<Rightarrow> 'k) option \<Rightarrow> 'k runner \<Rightarrow> DesiredInterface \<Rightarrow> 'k \<Rightarrow> 'k" where
  "ensureDefaultRouteFwMark client run di k =
     (if normalizeTableMode (di_TableMode di) \<noteq> ''auto'' \<or> \<not> di_Enabled di \<or> \<not> wants_default di then k
      else case client of Some f \<Rightarrow> f (di_Name di) (effective_mark di) k
        | None \<Rightarrow> attempt run ''wg'' [''set'', di_Name di, ''fwmark'', int_str (effective_mark di)] k)"

definition clear_routes :: "map_order \<Rightarrow> 'k runner \<Rightarrow> string \<Rightarrow> ifaceRouteState \<Rightarrow> 'k \<Rightarrow> 'k" where
  "clear_routes mo run iface st k =
     drop_rules run (mo_rules mo (rs_rules st)) (drop_routes run iface (mo_routes mo (rs_routes st)) k)"

end
