(* ===== verification/RoutesLaws.thy ===== *)
theory RoutesLaws
  imports Routes
begin

text \<open>
  What a synchronisation of routes leaves on the host, for every \<open>ip\<close> command that installs and removes what
  it is asked to, and which commands it runs, for every \<open>ip\<close> command.
\<close>

section \<open>The wanted routes\<close>

lemma set_map_filter: "set (List.map_filter f xs) = {y. \<exists>x\<in>set xs. f x = Some y}"
  by (force simp: List.map_filter_def)

lemma set_allowed_of:
  "set (allowed_of ps) = {c. \<exists>p\<in>set ps. \<not> dp_Suspended p \<and> (\<exists>a\<in>set (dp_AllowedIPs p). allowed_entry a = Some c)}"
  by (auto simp: allowed_of_def set_map_filter split: if_splits)

lemma set_wantRoutes:
  "rk \<in> set (wantRoutes di) \<longleftrightarrow> (\<exists>p\<in>set (di_Peers di). \<not> dp_Suspended p \<and>
     (\<exists>a\<in>set (dp_AllowedIPs p). \<exists>c. allowed_entry a = Some c \<and> wantRoute di c = Some rk))"
  by (auto simp: wantRoutes_def set_map_filter set_allowed_of)

lemma want_distinct [simp]: "distinct (wantRoutes di)" "distinct (wantRules di)"
  by (simp_all add: wantRoutes_def wantRules_def)

section \<open>Commands that do as they are told\<close>

text \<open>
  A key \<open>ip\<close> takes for what it says: the destination is written the way \<open>ip\<close> prints it, without bits set behind the mask
  (\<open>ip\<close> refuses those), in its own family, and the table is the main one under its name or a number that is not an alias of
  a table of the host (0 none given, 253 default, 254 main, 255 local).
\<close>

definition own_table_name :: "string \<Rightarrow> bool" where
  "own_table_name t \<longleftrightarrow> (case Atoi t of None \<Rightarrow> False
     | Some n \<Rightarrow> t = int_str n \<and> 0 < n \<and> n < 2 ^ 32 \<and> n \<noteq> 253 \<and> n \<noteq> 254 \<and> n \<noteq> 255)"

definition own_network :: "string \<Rightarrow> string \<Rightarrow> bool" where
  "own_network dst proto \<longleftrightarrow> (case ParseCIDR dst of None \<Rightarrow> False
     | Some (x, net) \<Rightarrow> dst = IP_String (net_IP net) @ ''/'' @ nat_str (fst (Mask_Size (net_Mask net)))
         \<and> proto = (if To4 (net_IP net) \<noteq> None then ''4'' else ''6''))"

definition canonical :: "routeKey \<Rightarrow> bool" where
  "canonical rk \<longleftrightarrow> (rk_Table rk = ''main'' \<or> own_table_name (rk_Table rk)) \<and> own_network (rk_Dst rk) (rk_Proto rk)"

definition all_canonical :: "ifaceRouteState \<Rightarrow> bool" where
  "all_canonical st \<longleftrightarrow> (\<forall>rk\<in>set (rs_routes st). canonical rk)"

text \<open>
  What \<open>ip route\<close> documents, for such keys, of the routes of default metric and service (the view): \<open>replace\<close> changes or adds
  the route with that destination and table, \<open>del\<close> removes it, a command that fails changes nothing, and rules are no routes.
  A failing \<open>del\<close> that says there is no such route or device counts as done, and there is none to see then.
\<close>

definition ip_installs :: "'k runner \<Rightarrow> ('k \<Rightarrow> (string \<times> routeKey) set) \<Rightarrow> bool" where
  "ip_installs run view \<longleftrightarrow> (\<forall>n rk k. canonical rk \<longrightarrow>
     view (snd (addRoute run n rk k)) = (if fst (addRoute run n rk k) = None
       then insert (n, rk) {x \<in> view k. snd x \<noteq> rk} else view k)
     \<and> view (snd (delRoute run n rk k)) = (if fst (delRoute run n rk k) = None then view k - {(n, rk)} else view k))
     \<and> (\<forall>ru prio k. view (snd (addRule run ru prio k)) = view k \<and> view (snd (delRule run ru k)) = view k)"

text \<open>
  An \<open>ip\<close> that works for an interface: its link is there and up, so such routes can be set and removed, and the rules of the interface
  can be added or are there already.
\<close>

definition ip_healthy :: "'k runner \<Rightarrow> DesiredInterface \<Rightarrow> bool" where
  "ip_healthy run di \<longleftrightarrow> (\<forall>rk k. canonical rk \<longrightarrow>
       fst (addRoute run (di_Name di) rk k) = None \<and> fst (delRoute run (di_Name di) rk k) = None)
     \<and> (\<forall>ru prio k. ru \<in> set (wantRules di) \<longrightarrow> rulePrioBase \<le> prio \<longrightarrow>
         (case fst (addRule run ru prio k) of None \<Rightarrow> True | Some t \<Rightarrow> has_text t ''File exists''))"


lemma wantRoute_fields:
  assumes "wantRoute di c = Some rk"
  shows "rk_Dst rk = c" "normalizeTableMode (di_TableMode di) = ''auto'' \<Longrightarrow> map_option snd (classifyCIDR c) = Some True
    \<Longrightarrow> rk_Table rk = int_str (effective_mark di)"
  using assms by (auto simp: wantRoute_def Let_def split: option.splits if_splits)

lemma mode_cases: "normalizeTableMode m \<in> {''auto'', ''off'', ''number''}"
  by (simp add: normalizeTableMode_def Let_def)

lemma wantRoute_iff:
  assumes "normalizeTableMode (di_TableMode di) \<noteq> ''off''"
  shows "wantRoute di c = Some rk \<longleftrightarrow> (\<exists>proto isDefault. classifyCIDR c = Some (proto, isDefault)
    \<and> rk = \<lparr>rk_Dst = c, rk_Table = (if normalizeTableMode (di_TableMode di) = ''number''
          then int_str (case di_TableID di of Some n \<Rightarrow> n | None \<Rightarrow> 0)
          else if isDefault then int_str (if di_FwMark di > 0 then di_FwMark di else if di_ListenPort di > 0 then di_ListenPort di else 51820)
          else ''main''), rk_Proto = proto\<rparr>)"
  using assms mode_cases [of "di_TableMode di"]
  by (auto simp: wantRoute_def table_num_def effective_mark_def Let_def split: option.split)

lemma ip_adds:
  assumes "ip_installs run view" "ip_healthy run di" "canonical rk"
  shows "fst (addRoute run (di_Name di) rk k) = None"
    "view (snd (addRoute run (di_Name di) rk k)) = insert (di_Name di, rk) {x \<in> view k. snd x \<noteq> rk}"
  using assms by (auto simp: ip_installs_def ip_healthy_def)

lemma drop_routes_view:
  assumes "ip_installs run view" "ip_healthy run di" "\<forall>rk\<in>set rks. canonical rk"
  shows "view (drop_routes run (di_Name di) rks k) = view k - (\<lambda>rk. (di_Name di, rk)) ` set rks"
  using assms(3)
proof (induction rks arbitrary: k)
  case (Cons rk rks)
  have "view (snd (delRoute run (di_Name di) rk k)) = view k - {(di_Name di, rk)}"
    using assms(1,2) Cons.prems by (simp add: ip_installs_def ip_healthy_def)
  with Cons show ?case by (auto simp: drop_routes_def)
qed (simp add: drop_routes_def)

lemma drop_rules_view: "ip_installs run view \<Longrightarrow> view (drop_rules run rus k) = view k"
  by (induction rus arbitrary: k) (simp_all add: drop_rules_def ip_installs_def)

lemma add_rules_view:
  "ip_installs run view \<Longrightarrow> view (snd (snd (add_rules run rus prio (inst, errs, k)))) = view k"
proof (induction rus arbitrary: prio inst errs k)
  case (Cons ru rus)
  have "view (snd (addRule run ru prio k)) = view k" using Cons.prems by (simp add: ip_installs_def)
  with Cons show ?case by (simp add: Let_def split_beta split: option.split)
qed simp

lemma add_rules_healthy:
  assumes "ip_healthy run di" "set rus \<subseteq> set (wantRules di)" "rulePrioBase \<le> prio"
  shows "set (fst (add_rules run rus prio (inst, errs, k))) = set inst \<union> set rus
    \<and> fst (snd (add_rules run rus prio (inst, errs, k))) = errs"
  using assms(2,3)
proof (induction rus arbitrary: prio inst errs k)
  case (Cons ru rus)
  have "case fst (addRule run ru prio k) of None \<Rightarrow> True | Some t \<Rightarrow> has_text t ''File exists''"
    using assms(1) Cons.prems by (simp add: ip_healthy_def)
  with Cons show ?case by (auto simp: Let_def split_beta split: option.splits)
qed simp

lemma add_routes_healthy:
  assumes "ip_installs run view" "ip_healthy run di" "\<forall>rk\<in>set rks. canonical rk" and n: "n = di_Name di"
  shows "set (fst (add_routes run n rks (inst, errs, k))) = set inst \<union> set rks
    \<and> fst (snd (add_routes run n rks (inst, errs, k))) = errs
    \<and> view (snd (snd (add_routes run n rks (inst, errs, k)))) =
        (\<lambda>rk. (n, rk)) ` (set rks - set inst) \<union> {x \<in> view k. snd x \<notin> set rks - set inst}"
  using assms(3)
proof (induction rks arbitrary: inst errs k)
  case (Cons rk rks)
  have named: "canonical rk" "\<forall>rk\<in>set rks. canonical rk" using Cons.prems by simp_all
  show ?case
  proof (cases "rk \<in> set inst")
    case True
    then show ?thesis using Cons.IH [OF named(2), of inst errs k] by auto
  next
    case False
    obtain k' where k': "addRoute run n rk k = (None, k')" using ip_adds(1) [OF assms(1,2) named(1)] unfolding n by (metis prod.collapse)
    then have "view k' = insert (n, rk) {x \<in> view k. snd x \<noteq> rk}"
      using ip_adds(2) [OF assms(1,2) named(1), of k] unfolding n by simp
    then show ?thesis using Cons.IH [OF named(2), of "inst @ [rk]" errs k'] False by (auto simp: k')
  qed
qed auto

text \<open>
  C25. Routes converge: with a working \<open>ip\<close>, whatever the orders in which maps are visited, a synchronisation of an
  enabled interface whose installed routes are the remembered ones leaves exactly one route for each network of
  each peer that is not suspended, all of them remembered and without error: with the automatic table in the main table, but a
  default route in the table numbered like the mark (the listen port, or 51820, when there is no mark); with a numbered
  table in the table of the interface's table number.  With the table off or the interface down it leaves none; a route of another
  interface changes only when it has the same destination and table as one that is wanted.  This is claimed of keys \<open>ip\<close> takes
  for what they say: networks in canonical text, and tables other than 0 (so a numbered mode comes with a table number) and
  the reserved 253 to 255.
\<close>

theorem routes_converge:
  assumes "ip_installs run view" "ip_healthy run di" "order_ok mo" "all_canonical st" "\<forall>rk\<in>set (wantRoutes di). canonical rk"
    and "\<forall>rk. (di_Name di, rk) \<in> view k \<longleftrightarrow> rk \<in> set (rs_routes st)"
    and "routes_sync mo run di st k = (e, st', k')"
  shows "e = None \<and> all_canonical st'
    \<and> (\<forall>rk. rk \<in> set (rs_routes st') \<longleftrightarrow> normalizeTableMode (di_TableMode di) \<noteq> ''off'' \<and> di_Enabled di
        \<and> (\<exists>p\<in>set (di_Peers di). \<not> dp_Suspended p \<and> (\<exists>a\<in>set (dp_AllowedIPs p). \<exists>c proto isDefault.
            allowed_entry a = Some c \<and> classifyCIDR c = Some (proto, isDefault)
            \<and> rk = \<lparr>rk_Dst = c, rk_Table = (if normalizeTableMode (di_TableMode di) = ''number''
                then int_str (case di_TableID di of Some n \<Rightarrow> n | None \<Rightarrow> 0)
                else if isDefault then int_str (if di_FwMark di > 0 then di_FwMark di else if di_ListenPort di > 0 then di_ListenPort di else 51820)
                else ''main''), rk_Proto = proto\<rparr>)))
    \<and> (\<forall>rk. (di_Name di, rk) \<in> view k' \<longleftrightarrow> rk \<in> set (rs_routes st'))
    \<and> (\<forall>m rk. m \<noteq> di_Name di \<longrightarrow> rk \<notin> set (rs_routes st') \<longrightarrow> (m, rk) \<in> view k' \<longleftrightarrow> (m, rk) \<in> view k)"
proof (cases "normalizeTableMode (di_TableMode di) = ''off'' \<or> \<not> di_Enabled di")
  case True
  then have "e = None" "rs_routes st' = []"
    "k' = drop_rules run (mo_rules mo (rs_rules st)) (drop_routes run (di_Name di) (mo_routes mo (rs_routes st)) k)"
    using assms(7) by (auto simp: routes_sync_def)
  moreover have "set (mo_routes mo (rs_routes st)) = set (rs_routes st)" using assms(3) by (simp add: order_ok_def rearranges_set)
  moreover from this have "view k' = view k - (\<lambda>rk. (di_Name di, rk)) ` set (rs_routes st)"
    using assms(4) unfolding calculation(3) drop_rules_view [OF assms(1)]
    by (subst drop_routes_view [OF assms(1,2)]) (auto simp: all_canonical_def)
  ultimately show ?thesis using True assms(6) by (auto simp: all_canonical_def)
next
  case False
  let ?n = "di_Name di" and ?W = "wantRoutes di"
  let ?k1 = "drop_routes run ?n (filter (\<lambda>rk. rk \<notin> set ?W) (mo_routes mo (rs_routes st))) k"
  let ?k2 = "drop_rules run (filter (\<lambda>ru. ru \<notin> set (wantRules di)) (mo_rules mo (rs_rules st))) ?k1"
  let ?I = "filter (\<lambda>rk. rk \<in> set ?W) (rs_routes st)"
  let ?A = "add_routes run ?n (mo_routes mo ?W) (?I, [], ?k2)"
  let ?R = "add_rules run (mo_rules mo (wantRules di)) rulePrioBase (filter (\<lambda>ru. ru \<in> set (wantRules di)) (rs_rules st), fst (snd ?A), snd (snd ?A))"
  have ord: "set (mo_routes mo xs) = set xs" "set (mo_rules mo ys) = set ys" for xs ys
    using assms(3) by (simp_all add: order_ok_def rearranges_set)
  have "\<forall>rk\<in>set (mo_routes mo ?W). canonical rk" using assms(5) by (simp add: ord)
  note A = add_routes_healthy [OF assms(1,2) this refl, of ?I "[]" ?k2]
  have st': "e = (if fst (snd ?R) = [] then None else Some (''sync routes: '' @ Join (fst (snd ?R)) ''; ''))"
    "rs_routes st' = fst ?A" "k' = snd (snd ?R)"
    using assms(7) False by (auto simp: routes_sync_def Let_def split_beta split: prod.splits)
  have e: "e = None" unfolding st'(1) using add_rules_healthy [OF assms(2), of "mo_rules mo (wantRules di)" rulePrioBase] A by (simp add: ord)
  have routes: "set (rs_routes st') = set ?W" unfolding st'(2) using A ord by auto
  have v: "view k' = view (snd (snd ?A))" unfolding st'(3) by (rule add_rules_view [OF assms(1)])
  have v2: "view ?k2 = view k - (\<lambda>rk. (?n, rk)) ` {rk \<in> set (rs_routes st). rk \<notin> set ?W}"
    unfolding drop_rules_view [OF assms(1)]
    using assms(4) by (subst drop_routes_view [OF assms(1,2)]) (auto simp: ord all_canonical_def)
  have view: "view k' = (\<lambda>rk. (?n, rk)) ` (set ?W - set ?I) \<union> {x \<in> view ?k2. snd x \<notin> set ?W - set ?I}"
    unfolding v using A ord by simp
  have "(?n, rk) \<in> view k' \<longleftrightarrow> rk \<in> set ?W" for rk
    using assms(6) unfolding view v2 by auto
  moreover have "(m, rk) \<in> view k' \<longleftrightarrow> (m, rk) \<in> view k" if "m \<noteq> ?n" "rk \<notin> set ?W" for m rk
    using that unfolding view v2 by auto
  moreover have "rk \<in> set ?W \<longleftrightarrow> (\<exists>p\<in>set (di_Peers di). \<not> dp_Suspended p \<and> (\<exists>a\<in>set (dp_AllowedIPs p). \<exists>c proto isDefault.
            allowed_entry a = Some c \<and> classifyCIDR c = Some (proto, isDefault)
            \<and> rk = \<lparr>rk_Dst = c, rk_Table = (if normalizeTableMode (di_TableMode di) = ''number''
                then int_str (case di_TableID di of Some n \<Rightarrow> n | None \<Rightarrow> 0)
                else if isDefault then int_str (if di_FwMark di > 0 then di_FwMark di else if di_ListenPort di > 0 then di_ListenPort di else 51820)
                else ''main''), rk_Proto = proto\<rparr>))" for rk
    using False unfolding set_wantRoutes by (simp add: wantRoute_iff)
  ultimately show ?thesis using e False assms(5) unfolding all_canonical_def routes by simp
qed

text \<open>A host that knows nothing but routes.\<close>

definition route_host_do :: "string \<Rightarrow> string \<Rightarrow> routeKey \<Rightarrow> (string \<times> routeKey) list \<Rightarrow> (string \<times> routeKey) list" where
  "route_host_do verb n rk k =
     (if verb = ''replace'' then (n, rk) # filter (\<lambda>x. snd x \<noteq> rk) k else filter (\<lambda>x. x \<noteq> (n, rk)) k)"

definition route_host :: "(string \<times> routeKey) list runner" where
  "route_host cmd args k = (Inr [],
     (case args of
        [f, what, verb, dst, d, n] \<Rightarrow> if what = ''route'' then route_host_do verb n \<lparr>rk_Dst = dst, rk_Table = ''main'', rk_Proto = tl f\<rparr> k else k
      | [f, what, verb, dst, d, n, t, tab] \<Rightarrow> if what = ''route'' then route_host_do verb n \<lparr>rk_Dst = dst, rk_Table = tab, rk_Proto = tl f\<rparr> k else k
      | _ \<Rightarrow> k))"

lemma route_host_args:
  "rk_Table rk \<noteq> [] \<Longrightarrow> route_host ''ip'' (route_args verb n rk) k = (Inr [], route_host_do verb n rk k)"
  by (cases rk) (simp add: route_host_def route_args_def)

lemma route_host_rule: "route_host ''ip'' (f # ''rule'' # as) k = (Inr [], k)"
  by (simp add: route_host_def split: list.split)

lemma canonical_named: "canonical rk \<Longrightarrow> rk_Table rk \<noteq> []"
  by (auto simp: canonical_def own_table_name_def Atoi_def)

lemma route_host_ok: "ip_installs route_host set" "ip_healthy route_host di"
  by (auto dest!: canonical_named simp: ip_installs_def ip_healthy_def addRoute_def delRoute_def addRule_def delRule_def route_host_args route_host_rule
      route_host_do_def failed_def Let_def split_beta)

lemma route_host_rules: "fst (addRule route_host ru prio k) = None"
  by (simp add: addRule_def route_host_rule failed_def Let_def split_beta)

definition office :: DesiredInterface where
  "office = \<lparr>di_Name = ''wg0'', di_PrivateKey = [], di_ListenPort = 100, di_FwMark = 0, di_MTU = 0,
     di_Addresses = [''10.0.0.1/24''], di_TableMode = [], di_TableID = None, di_DNS = [], di_PreUp = [], di_PostUp = [],
     di_PreDown = [], di_PostDown = [], di_Enabled = True,
     di_Peers = [\<lparr>dp_PublicKey = ''A'', dp_PresharedKey = [], dp_Endpoint = [], dp_AllowedIPs = [''10.0.0.2'', ''0.0.0.0/0''],
        dp_AssignedIPs = [], dp_PersistentKeepalive = 0, dp_Suspended = False, dp_BandwidthRxBps = 0, dp_BandwidthTxBps = 0\<rparr>],
     di_Backend = [], di_Protocol = [], di_Amnezia = zero_amnezia\<rparr>"

lemma office_routes:
  "map (\<lambda>rk. (rk_Dst rk, rk_Table rk)) (wantRoutes office) = [(''0.0.0.0/0'', ''100''), (''10.0.0.2/32'', ''main'')]"
  by code_simp

lemma int_str_100: "int_str 100 = ''100''"
  by (simp add: int_str_def nat_str_eval digit_char_eval)

lemma office_canonical: "\<forall>rk\<in>set (wantRoutes office). canonical rk"
proof -
  have w: "wantRoutes office = [\<lparr>rk_Dst = ''0.0.0.0/0'', rk_Table = ''100'', rk_Proto = ''4''\<rparr>,
      \<lparr>rk_Dst = ''10.0.0.2/32'', rk_Table = ''main'', rk_Proto = ''4''\<rparr>]"
    by code_simp
  have "Atoi ''100'' = Some 100" using Atoi_int_str [of 100] by (simp add: int_str_100)
  then have t: "own_table_name ''100''" by (simp add: own_table_name_def int_str_100)
  have "own_network ''0.0.0.0/0'' ''4''" "own_network ''10.0.0.2/32'' ''4''" by code_simp+
  with t show ?thesis by (simp add: w canonical_def)
qed

lemma office_networks:
  "allowed_entry ''0.0.0.0/0'' = Some ''0.0.0.0/0''" "classifyCIDR ''0.0.0.0/0'' = Some (''4'', True)" "normalizeTableMode [] = ''auto''"
  by code_simp+

theorem routes_converge_witness:
  "\<exists>e st' k'. routes_sync \<lparr>mo_routes = rev, mo_rules = rev\<rparr> route_host office no_routes [(''eth0'', \<lparr>rk_Dst = ''0.0.0.0/0'', rk_Table = ''main'', rk_Proto = ''4''\<rparr>)]
     = (e, st', k') \<and> e = None \<and> (''wg0'', \<lparr>rk_Dst = ''0.0.0.0/0'', rk_Table = ''100'', rk_Proto = ''4''\<rparr>) \<in> set k'"
proof -
  let ?k = "[(''eth0'', \<lparr>rk_Dst = ''0.0.0.0/0'', rk_Table = ''main'', rk_Proto = ''4''\<rparr>)]" and ?mo = "\<lparr>mo_routes = rev, mo_rules = rev\<rparr>"
  obtain e st' k' where s: "routes_sync ?mo route_host office no_routes ?k = (e, st', k')" by (metis prod_cases3)
  have "order_ok ?mo" "all_canonical no_routes" "\<forall>rk\<in>set (wantRoutes office). canonical rk" "\<forall>rk. (di_Name office, rk) \<in> set ?k \<longleftrightarrow> rk \<in> set (rs_routes no_routes)"
    using office_canonical by (simp_all add: order_ok_def all_canonical_def no_routes_def) (simp add: office_def)
  note c = routes_converge [OF route_host_ok this s]
  let ?rk = "\<lparr>rk_Dst = ''0.0.0.0/0'', rk_Table = ''100'', rk_Proto = ''4''\<rparr>"
  have "?rk \<in> set (rs_routes st')"
    unfolding c [THEN conjunct2, THEN conjunct2, THEN conjunct1, THEN spec, of ?rk]
    by (simp add: office_def office_networks int_str_100) blast
  with c have "(di_Name office, ?rk) \<in> set k'" "e = None" by blast+
  with s show ?thesis by (simp add: office_def)
qed

section \<open>The commands that are run\<close>

text \<open>A runner that keeps a log.\<close>

definition logged :: "'k runner \<Rightarrow> ('k \<times> (string \<times> string list) list) runner" where
  "logged run cmd args s = (let (r, k') = run cmd args (fst s) in (r, (k', snd s @ [(cmd, args)])))"

definition rule_args :: "string \<Rightarrow> ruleKey \<Rightarrow> string list" where
  "rule_args verb ru = [''-'' @ ru_Family ru, ''rule'', verb] @ Fields (ru_Spec ru)"

lemma log_ip [simp]:
  "snd (snd (delRoute (logged run) n rk s)) = snd s @ [(''ip'', route_args ''del'' n rk)]"
  "snd (snd (delRule (logged run) ru s)) = snd s @ [(''ip'', rule_args ''del'' ru)]"
  "snd (snd (addRoute (logged run) n rk s)) = snd s @ [(''ip'', route_args ''replace'' n rk)]"
  "snd (snd (addRule (logged run) ru prio s)) = snd s @ [(''ip'', rule_args ''add'' ru @ [''priority'', int_str prio])]"
  by (simp_all add: delRoute_def delRule_def addRoute_def addRule_def logged_def rule_args_def Let_def split_beta)







text \<open>
  The mode can be given as a number, but the number is then not the table: without a table of its own the
  routes go to table 0.
\<close>

lemma numeric_mode_loses_table:
  "normalizeTableMode ''100'' = ''number''"
  "normalizeTableMode (di_TableMode di) = ''number'' \<Longrightarrow> di_TableID di = None \<Longrightarrow> rk \<in> set (wantRoutes di) \<Longrightarrow> rk_Table rk = ''0''"
proof -
  have "Atoi ''100'' = Some 100"
    using Atoi_int_str [of 100] by (simp add: int_str_def nat_str_eval digit_char_eval)
  moreover have "ToLower (TrimSpace ''100'') = ''100''" by code_simp
  ultimately show "normalizeTableMode ''100'' = ''number''" by (simp add: normalizeTableMode_def)
  assume "normalizeTableMode (di_TableMode di) = ''number''" "di_TableID di = None" "rk \<in> set (wantRoutes di)"
  then show "rk_Table rk = ''0''"
    by (auto simp: set_wantRoutes wantRoute_def table_num_def int_str_def nat_str_eval digit_char_eval Let_def split: option.splits prod.splits if_splits)
qed

text \<open>
  Rules get increasing priorities from 32764 in the order the map is visited: the third one has the
  priority of the rule that looks up the main table, behind which it is never reached when the main
  table has a default route.  A table of its own always needs at least three rules.
\<close>

lemma logged_rule: "fst (addRule (logged run) ru prio s) = fst (addRule run ru prio (fst s))"
  by (simp add: addRule_def logged_def Let_def split_beta)

lemma add_rules_numbered:
  assumes "\<forall>ru prio k. fst (addRule run ru prio k) = None" "distinct rus" "set rus \<inter> set inst = {}"
  shows "set (snd s) \<subseteq> set (snd (snd (snd (add_rules (logged run) rus prio (inst, errs, s)))))
    \<and> (\<forall>i<length rus. (''ip'', rule_args ''add'' (rus ! i) @ [''priority'', int_str (prio + int i)])
        \<in> set (snd (snd (snd (add_rules (logged run) rus prio (inst, errs, s))))))"
  using assms(2,3)
proof (induction rus arbitrary: prio inst s)
  case (Cons ru rus)
  obtain s' where e: "addRule (logged run) ru prio s = (None, s')"
    using assms(1) logged_rule [of run ru prio s] by (metis prod.collapse)
  then have s': "snd s' = snd s @ [(''ip'', rule_args ''add'' ru @ [''priority'', int_str prio])]" by (metis log_ip(4) snd_conv)
  let ?log = "snd (snd (snd (add_rules (logged run) rus (prio + 1) (inst @ [ru], errs, s'))))"
  have ih: "set (snd s') \<subseteq> set ?log"
    "i < length rus \<Longrightarrow> (''ip'', rule_args ''add'' (rus ! i) @ [''priority'', int_str (prio + 1 + int i)]) \<in> set ?log" for i
    using Cons.IH [of "inst @ [ru]" s' "prio + 1"] Cons.prems by auto
  have "(''ip'', rule_args ''add'' ((ru # rus) ! i) @ [''priority'', int_str (prio + int i)]) \<in> set ?log" if "i < length (ru # rus)" for i
  proof (cases i)
    case 0
    then show ?thesis using ih(1) by (simp add: s')
  next
    case (Suc j)
    then show ?thesis using ih(2) [of j] that by (simp add: algebra_simps)
  qed
  with ih(1) Cons.prems show ?case by (simp add: e s')
qed simp

definition own_table :: DesiredInterface where
  "own_table = office\<lparr>di_TableMode := ''number'', di_TableID := Some 7\<rparr>"

lemma own_table_rules: "length (wantRules own_table) = 3" "normalizeTableMode (di_TableMode own_table) = ''number''"
  by code_simp+

lemma rule_priority_reaches_main:
  assumes "order_ok mo"
  shows "\<exists>ru\<in>set (wantRules own_table). (''ip'', rule_args ''add'' ru @ [''priority'', int_str 32766])
    \<in> set (snd (snd (snd (routes_sync mo (logged route_host) own_table no_routes ([], [])))))"
proof -
  let ?rus = "mo_rules mo (wantRules own_table)"
  have r: "length ?rus = 3" "set ?rus = set (wantRules own_table)" "distinct ?rus"
    using assms by (simp_all add: order_ok_def rearranges_length rearranges_set rearranges_distinct own_table_rules(1))
  have on: "\<not> (normalizeTableMode (di_TableMode own_table) = ''off'' \<or> \<not> di_Enabled own_table)"
    by (simp add: own_table_rules(2)) (simp add: own_table_def office_def)
  have "\<forall>ru prio k. fst (addRule route_host ru prio k) = None" by (simp add: route_host_rules)
  note numbered = add_rules_numbered [OF this r(3), of "[]", THEN conjunct2, rule_format, of 2]
  have "(''ip'', rule_args ''add'' (?rus ! 2) @ [''priority'', int_str 32766]) \<in>
      set (snd (snd (snd (add_rules (logged route_host) ?rus rulePrioBase ([], es)))))" for es
    using numbered [of rulePrioBase "fst es" "snd es"] r(1) by (simp add: rulePrioBase_def)
  moreover have "?rus ! 2 \<in> set (wantRules own_table)" using r(1,2) nth_mem [of 2 ?rus] by simp
  ultimately show ?thesis using on
    by (intro bexI [of _ "?rus ! 2"]) (simp_all add: routes_sync_def no_routes_def Let_def split_beta)
qed

end
