(* ===== verification/Blackholes.thy ===== *)
theory Blackholes
  imports HostCmd
begin

text \<open>
  Blackhole routes for suspended peers (\<open>internal/wgbackend/routes.go\<close>): what a suspension installs, what a
  resumption removes, and the listing that saves needless removals.
\<close>

section \<open>The listing\<close>

text \<open>The destinations of the last listing, if it is known, and when it was made.\<close>

record bh_cache =
  bc_listed :: "string list option"
  bc_at :: gotime

definition blackholeListTTL :: duration where
  "blackholeListTTL = 5 * Second"

definition hostRouteKey :: "string \<Rightarrow> string" where
  "hostRouteKey cidr = TrimSuffix (TrimSuffix cidr ''/32'') ''/128''"

definition listed_routes :: "string \<Rightarrow> string list" where
  "listed_routes out = List.map_filter (\<lambda>line. case Fields line of
     f # dst # _ \<Rightarrow> if f = ''blackhole'' then Some (hostRouteKey dst) else None | _ \<Rightarrow> None) (split_on CHR 0x0A out)"

definition blackholeRouteMissing :: "'k runner \<Rightarrow> gotime \<Rightarrow> string \<Rightarrow> bh_cache \<times> 'k \<Rightarrow> bool \<times> bh_cache \<times> 'k" where
  "blackholeRouteMissing run now cidr s =
     (case s of (c, k) \<Rightarrow>
      case (if bc_listed c = None \<or> time_Sub now (bc_at c) \<ge> blackholeListTTL then None else bc_listed c) of
        Some l \<Rightarrow> (hostRouteKey cidr \<notin> set l, c, k)
      | None \<Rightarrow>
        (let (v4, k1) = run ''ip'' [''route'', ''show'', ''type'', ''blackhole''] k;
             (v6, k2) = run ''ip'' [''-6'', ''route'', ''show'', ''type'', ''blackhole''] k1
         in case (v4, v6) of
              (Inr o4, Inr o6) \<Rightarrow>
                (let l = listed_routes (o4 @ [CHR 0x0A] @ o6)
                 in (hostRouteKey cidr \<notin> set l, \<lparr>bc_listed = Some l, bc_at = now\<rparr>, k2))
            | _ \<Rightarrow> (False, c\<lparr>bc_listed := None\<rparr>, k2)))"

section \<open>One destination, and all of a peer\<close>

text \<open>The destination as it is handed to \<open>ip\<close>; \<open>None\<close> when it is neither a prefix nor an address.\<close>

definition bh_target :: "string \<Rightarrow> string option" where
  "bh_target cidr =
     (if ParseCIDR cidr \<noteq> None then Some cidr
      else case ParseIP cidr of None \<Rightarrow> None
        | Some ip \<Rightarrow> Some (IP_String ip @ (if To4 ip \<noteq> None then ''/32'' else ''/128'')))"

definition bh_remember :: "bool \<Rightarrow> string \<Rightarrow> bh_cache \<Rightarrow> bh_cache" where
  "bh_remember add cidr c = c\<lparr>bc_listed := map_option (\<lambda>l. if add then hostRouteKey cidr # l
     else removeAll (hostRouteKey cidr) l) (bc_listed c)\<rparr>"

definition blackholeCIDR :: "'k runner \<Rightarrow> gotime \<Rightarrow> string \<Rightarrow> bool \<Rightarrow> bh_cache \<times> 'k \<Rightarrow> string option \<times> bh_cache \<times> 'k" where
  "blackholeCIDR run now cidr0 add s0 =
     (case bh_target cidr0 of None \<Rightarrow> (None, s0) | Some cidr \<Rightarrow>
      (let (skip, s1) = (if add then (False, s0) else blackholeRouteMissing run now cidr s0) in
       if skip then (None, s1)
       else let (r, k) = run ''ip'' [''route'', if add then ''replace'' else ''del'', ''blackhole'', cidr] (snd s1) in
         (case r of
            Inr _ \<Rightarrow> (None, bh_remember add cidr (fst s1), k)
          | Inl e \<Rightarrow> (if add then Some e else None, fst s1, k))))"

definition hostSizedIPs :: "string list \<Rightarrow> string list" where
  "hostSizedIPs cidrs = filter (\<lambda>a. a \<noteq> [] \<and> (CHR ''/'' \<notin> set a \<or> suffix ''/32'' a \<or> suffix ''/128'' a)) (map TrimSpace cidrs)"

definition suspend_hosts :: "DesiredPeer \<Rightarrow> string list" where
  "suspend_hosts p = (if hostSizedIPs (dp_AssignedIPs p) = [] then hostSizedIPs (dp_AllowedIPs p) else hostSizedIPs (dp_AssignedIPs p))"

fun blackhole_all :: "'k runner \<Rightarrow> gotime \<Rightarrow> bool \<Rightarrow> string list \<Rightarrow> bh_cache \<times> 'k \<Rightarrow> string option \<times> bh_cache \<times> 'k" where
  "blackhole_all run now add [] s = (None, s)"
| "blackhole_all run now add (ip # ips) s =
     (case blackholeCIDR run now ip add s of (Some e, s') \<Rightarrow> (Some e, s') | (None, s') \<Rightarrow> blackhole_all run now add ips s')"

definition applySuspendRoutes :: "'k runner \<Rightarrow> gotime \<Rightarrow> DesiredPeer \<Rightarrow> bool \<Rightarrow> bh_cache \<times> 'k \<Rightarrow> string option \<times> bh_cache \<times> 'k" where
  "applySuspendRoutes run now p suspend s = blackhole_all run now suspend (suspend_hosts p) s"

section \<open>Suspending and resuming\<close>

text \<open>
  What \<open>ip route\<close> documents of blackholes, for the destinations as \<open>ip\<close> prints them (\<open>print\<close>): they are installed,
  removed and listed.
\<close>

definition ip_blackholes :: "'k runner \<Rightarrow> ('k \<Rightarrow> string set) \<Rightarrow> (string \<Rightarrow> string) \<Rightarrow> bool" where
  "ip_blackholes run view print \<longleftrightarrow>
     (\<forall>c k. let (r, k') = run ''ip'' [''route'', ''replace'', ''blackhole'', c] k
        in (\<exists>t. r = Inr t) \<and> view k' = insert (print c) (view k))
     \<and> (\<forall>c k. let (r, k') = run ''ip'' [''route'', ''del'', ''blackhole'', c] k
        in ((\<exists>t. r = Inr t) \<longleftrightarrow> print c \<in> view k) \<and> view k' = view k - {print c})
     \<and> (\<forall>k. \<exists>t4 t6 k1 k2. run ''ip'' [''route'', ''show'', ''type'', ''blackhole''] k = (Inr t4, k1)
        \<and> run ''ip'' [''-6'', ''route'', ''show'', ''type'', ''blackhole''] k1 = (Inr t6, k2)
        \<and> view k1 = view k \<and> view k2 = view k \<and> set (listed_routes (t4 @ [CHR 0x0A] @ t6)) = view k)"

definition cache_true :: "('k \<Rightarrow> string set) \<Rightarrow> bh_cache \<times> 'k \<Rightarrow> bool" where
  "cache_true view s \<longleftrightarrow> (case bc_listed (fst s) of None \<Rightarrow> True | Some l \<Rightarrow> set l = view (snd s))"

lemma missing_sound:
  assumes "ip_blackholes run view print" "cache_true view s" "blackholeRouteMissing run now cidr s = (b, s')"
  shows "b \<longleftrightarrow> hostRouteKey cidr \<notin> view (snd s)" "cache_true view s'" "view (snd s') = view (snd s)"
proof -
  obtain c k where s: "s = (c, k)" by fastforce
  obtain t4 t6 k1 k2 where t: "run ''ip'' [''route'', ''show'', ''type'', ''blackhole''] k = (Inr t4, k1)"
      "run ''ip'' [''-6'', ''route'', ''show'', ''type'', ''blackhole''] k1 = (Inr t6, k2)"
      "view k1 = view k" "view k2 = view k" "set (listed_routes (t4 @ [CHR 0x0A] @ t6)) = view k"
    using assms(1) unfolding ip_blackholes_def by blast
  show "b \<longleftrightarrow> hostRouteKey cidr \<notin> view (snd s)" "cache_true view s'" "view (snd s') = view (snd s)"
  proof -
    have "(b = (hostRouteKey cidr \<notin> view k)) \<and> cache_true view s' \<and> view (snd s') = view k"
    proof (cases "bc_listed c = None \<or> time_Sub now (bc_at c) \<ge> blackholeListTTL")
      case True
      then have "(b, s') = (hostRouteKey cidr \<notin> set (listed_routes (t4 @ [CHR 0x0A] @ t6)),
          \<lparr>bc_listed = Some (listed_routes (t4 @ [CHR 0x0A] @ t6)), bc_at = now\<rparr>, k2)"
        using assms(3) by (simp only: blackholeRouteMissing_def s prod.case if_True option.case t(1,2) sum.case Let_def)
      then show ?thesis using t(4,5) by (simp add: cache_true_def)
    next
      case False
      then obtain l where "bc_listed c = Some l" by (cases "bc_listed c") auto
      with False have "(b, s') = (hostRouteKey cidr \<notin> set l, c, k)"
        using assms(3) by (simp add: blackholeRouteMissing_def s)
      then show ?thesis using assms(2) \<open>bc_listed c = Some l\<close> by (simp add: cache_true_def s)
    qed
    then show "b \<longleftrightarrow> hostRouteKey cidr \<notin> view (snd s)" "cache_true view s'" "view (snd s') = view (snd s)" by (simp_all add: s)
  qed
qed

lemma blackhole_one:
  assumes "ip_blackholes run view print" "cache_true view s" "bh_target a = Some c" "print c = hostRouteKey c"
    "blackholeCIDR run now a add s = (e, s')"
  shows "e = None" "cache_true view s'"
    "view (snd s') = (if add then insert (hostRouteKey c) (view (snd s)) else view (snd s) - {hostRouteKey c})"
proof -
  obtain skip s1 where s1: "(if add then (False, s) else blackholeRouteMissing run now c s) = (skip, s1)" by (metis prod.collapse)
  have m: "skip \<longleftrightarrow> \<not> add \<and> hostRouteKey c \<notin> view (snd s)" "cache_true view s1" "view (snd s1) = view (snd s)"
  proof -
    have "(skip \<longleftrightarrow> \<not> add \<and> hostRouteKey c \<notin> view (snd s)) \<and> cache_true view s1 \<and> view (snd s1) = view (snd s)"
    proof (cases add)
      case True
      with s1 assms(2) show ?thesis by simp
    next
      case False
      with s1 have "blackholeRouteMissing run now c s = (skip, s1)" by simp
      from missing_sound [OF assms(1,2) this] False show ?thesis by blast
    qed
    then show "skip \<longleftrightarrow> \<not> add \<and> hostRouteKey c \<notin> view (snd s)" "cache_true view s1" "view (snd s1) = view (snd s)" by blast+
  qed
  obtain r k where r: "run ''ip'' [''route'', if add then ''replace'' else ''del'', ''blackhole'', c] (snd s1) = (r, k)" by (metis prod.collapse)
  have k: "view k = (if add then insert (hostRouteKey c) (view (snd s)) else view (snd s) - {hostRouteKey c})"
    "(\<exists>t. r = Inr t) \<longleftrightarrow> add \<or> hostRouteKey c \<in> view (snd s)"
  proof -
    note do_add = assms(1) [unfolded ip_blackholes_def, THEN conjunct1, rule_format, of c "snd s1"]
    note do_del = assms(1) [unfolded ip_blackholes_def, THEN conjunct2, THEN conjunct1, rule_format, of c "snd s1"]
    show "view k = (if add then insert (hostRouteKey c) (view (snd s)) else view (snd s) - {hostRouteKey c})"
      "(\<exists>t. r = Inr t) \<longleftrightarrow> add \<or> hostRouteKey c \<in> view (snd s)"
      using do_add do_del r m(3) assms(4) by (cases add; simp)+
  qed
  have "e = None \<and> cache_true view s'
    \<and> view (snd s') = (if add then insert (hostRouteKey c) (view (snd s)) else view (snd s) - {hostRouteKey c})"
  proof (cases skip)
    case True
    then have "(e, s') = (None, s1)" using assms(3,5) s1 by (simp add: blackholeCIDR_def)
    then show ?thesis using m True by simp
  next
    case False
    then obtain t where t: "r = Inr t" using k(2) m(1) by blast
    then have "(e, s') = (None, bh_remember add c (fst s1), k)" using assms(3,5) s1 r False by (simp add: blackholeCIDR_def)
    then show ?thesis using k(1) m(2,3) by (auto simp: cache_true_def bh_remember_def split: option.splits)
  qed
  then show "e = None" "cache_true view s'"
    "view (snd s') = (if add then insert (hostRouteKey c) (view (snd s)) else view (snd s) - {hostRouteKey c})" by blast+
qed

text \<open>
  C28. Suspending cuts off and resuming restores: with an \<open>ip\<close> that keeps blackholes and a listing that is true,
  suspending a peer ends with every one of its host addresses blackholed, resuming it with none, no other
  destination is touched and the listing stays true -- provided \<open>ip\<close> prints these destinations as they are
  written.
\<close>

theorem suspension_exact:
  assumes "ip_blackholes run view print" "cache_true view s"
    and "\<forall>a\<in>set (suspend_hosts p). \<forall>c. bh_target a = Some c \<longrightarrow> print c = hostRouteKey c"
    and "applySuspendRoutes run now p suspend s = (e, s')"
  shows "e = None \<and> cache_true view s'
    \<and> view (snd s') = (let hosts = hostRouteKey ` set (List.map_filter bh_target (suspend_hosts p))
        in if suspend then view (snd s) \<union> hosts else view (snd s) - hosts)"
proof -
  have "e = None \<and> cache_true view s'
    \<and> view (snd s') = (let hosts = hostRouteKey ` set (List.map_filter bh_target ips) in if add then view (snd s) \<union> hosts else view (snd s) - hosts)"
    if "cache_true view s" "blackhole_all run now add ips s = (e, s')"
      "\<forall>a\<in>set ips. \<forall>c. bh_target a = Some c \<longrightarrow> print c = hostRouteKey c" for ips add s e s'
    using that
  proof (induction ips arbitrary: s)
    case (Cons a ips)
    obtain e1 s1 where b: "blackholeCIDR run now a add s = (e1, s1)" by (metis prod.collapse)
    show ?case
    proof (cases "bh_target a")
      case None
      then have "(e1, s1) = (None, s)" using b by (simp add: blackholeCIDR_def)
      then show ?thesis using Cons b None by (simp add: map_filter_simps)
    next
      case (Some c)
      note one = blackhole_one [OF assms(1) Cons.prems(1) Some _ b]
      have "print c = hostRouteKey c" using Cons.prems(3) Some by simp
      note one = one [OF this]
      have "blackhole_all run now add ips s1 = (e, s')" using Cons.prems(2) by (simp add: b one(1))
      from Cons.IH [OF one(2) this] Cons.prems(3) show ?thesis by (auto simp: one(3) Some map_filter_simps Let_def)
    qed
  qed (simp add: map_filter_simps)
  from this [OF assms(2) assms(4) [unfolded applySuspendRoutes_def] assms(3)] show ?thesis .
qed

text \<open>A host with one address that may be blackholed.\<close>

definition one_hole :: "bool runner" where
  "one_hole cmd args k =
     (case args of [r, verb, what, c] \<Rightarrow>
        (if verb = ''replace'' then (Inr [], True)
         else if verb = ''del'' then (if k then Inr [] else Inl ''No such process'', False)
         else (Inr (if k then ''blackhole 10.0.0.2'' else []), k))
      | _ \<Rightarrow> (Inr [], k))"

lemma one_hole_ok: "ip_blackholes one_hole (\<lambda>k. if k then {''10.0.0.2''} else {}) (\<lambda>_. ''10.0.0.2'')"
proof -
  have "listed_routes (''blackhole 10.0.0.2'' @ [CHR 0x0A] @ []) = [''10.0.0.2'']" "listed_routes ([] @ [CHR 0x0A] @ []) = []"
    by code_simp+
  then show ?thesis by (simp add: ip_blackholes_def one_hole_def)
qed

definition held_peer :: DesiredPeer where
  "held_peer = \<lparr>dp_PublicKey = ''A'', dp_PresharedKey = [], dp_Endpoint = [], dp_AllowedIPs = [''10.0.0.2/32''],
     dp_AssignedIPs = [], dp_PersistentKeepalive = 0, dp_Suspended = True, dp_BandwidthRxBps = 0, dp_BandwidthTxBps = 0\<rparr>"

theorem suspension_exact_witness:
  "\<exists>e s'. applySuspendRoutes one_hole 0 held_peer True (\<lparr>bc_listed = None, bc_at = 0\<rparr>, False) = (e, s') \<and> e = None \<and> snd s'"
proof -
  let ?s = "(\<lparr>bc_listed = None, bc_at = 0\<rparr>, False)"
  obtain e s' where a: "applySuspendRoutes one_hole 0 held_peer True ?s = (e, s')" by (metis prod.collapse)
  have h: "suspend_hosts held_peer = [''10.0.0.2/32'']" "bh_target ''10.0.0.2/32'' = Some ''10.0.0.2/32''"
    "hostRouteKey ''10.0.0.2/32'' = ''10.0.0.2''"
    by code_simp+
  have "cache_true (\<lambda>k. if k then {''10.0.0.2''} else {}) ?s" by (simp add: cache_true_def)
  from suspension_exact [OF one_hole_ok this _ a] a show ?thesis by (simp add: h map_filter_simps split: if_splits)
qed

text \<open>
  An address that \<open>ip\<close> prints otherwise is not found in the listing, so its blackhole is left in place and the
  resumed peer stays cut off.
\<close>

lemma resume_keeps_blackhole:
  assumes "bc_listed c = Some [''fd00::5'']" "time_Sub now (bc_at c) < blackholeListTTL" "suspend_hosts p = [''FD00::5/128'']"
  shows "applySuspendRoutes run now p False (c, k) = (None, c, k)"
proof -
  have t: "bh_target ''FD00::5/128'' = Some ''FD00::5/128''" "hostRouteKey ''FD00::5/128'' = ''FD00::5''" by code_simp+
  have "blackholeRouteMissing run now ''FD00::5/128'' (c, k) = (True, c, k)"
    using assms(1,2) by (simp add: blackholeRouteMissing_def t)
  then show ?thesis using assms(3) by (simp add: applySuspendRoutes_def blackholeCIDR_def t)
qed

end
