(* ===== verification/TcLimits.thy ===== *)
theory TcLimits
  imports HostCmd "HOL-Library.AList"
begin

text \<open>
  Bandwidth limits with \<open>tc\<close> (\<open>internal/wgbackend/tc_limits.go\<close>): a class and filters for each limited peer of an
  interface, and what is remembered of them.  Minors are 32-bit words; a pointer in the map of peers is
  the entry itself, updated in place.
\<close>

unbundle bit_operations_syntax

section \<open>State\<close>

record peerTCState =
  tc_minor :: "32 word"
  tc_txBps :: int
  tc_rxBps :: int
  tc_ips :: "string list"
  tc_active :: bool

record ifaceTCState =
  tf_rootReady :: bool
  tf_ingressReady :: bool
  tf_minors :: "(32 word \<times> string) list"
  tf_peers :: "(string \<times> peerTCState) list"

definition new_tc :: ifaceTCState where
  "new_tc = \<lparr>tf_rootReady = False, tf_ingressReady = False, tf_minors = [], tf_peers = []\<rparr>"

definition tcMinorMin :: "32 word" where "tcMinorMin = 0x10"
definition tcMinorMax :: "32 word" where "tcMinorMax = 0xffe"
definition tcDefaultMinor :: "32 word" where "tcDefaultMinor = 1"

section \<open>Minors, rates and addresses\<close>

text \<open>\<open>fnv.New32a\<close> of the standard library.\<close>

definition fnv32a :: "string \<Rightarrow> 32 word" where
  "fnv32a s = foldl (\<lambda>h c. (h XOR of_nat (of_char c)) * 16777619) 2166136261 s"

definition peerMinorHint :: "string \<Rightarrow> 32 word" where
  "peerMinorHint pub = fnv32a pub"

definition minor_at :: "32 word \<Rightarrow> 32 word \<Rightarrow> 32 word" where
  "minor_at base i = tcMinorMin + (base + i) mod (tcMinorMax - tcMinorMin + 1)"

definition minor_free :: "ifaceTCState \<Rightarrow> string \<Rightarrow> 32 word \<Rightarrow> bool" where
  "minor_free st pub m \<longleftrightarrow> (case map_of (tf_minors st) m of None \<Rightarrow> True | Some owner \<Rightarrow> owner = pub)"

text \<open>The loop of \<open>allocateMinor\<close>, with the number of iterations left.\<close>

fun minor_loop :: "ifaceTCState \<Rightarrow> string \<Rightarrow> 32 word \<Rightarrow> nat \<Rightarrow> 32 word \<Rightarrow> 32 word option" where
  "minor_loop st pub base 0 i = None"
| "minor_loop st pub base (Suc n) i =
     (let m = minor_at base i in
      if m = tcDefaultMinor then minor_loop st pub base n (i + 1)
      else if minor_free st pub m then Some m
      else minor_loop st pub base n (i + 1))"

definition allocateMinor :: "ifaceTCState \<Rightarrow> string \<Rightarrow> 32 word" where
  "allocateMinor st pub =
     (case minor_loop st pub (peerMinorHint pub) (unat (tcMinorMax - tcMinorMin + 1)) 0 of
        Some m \<Rightarrow> m | None \<Rightarrow> tcMinorMin + peerMinorHint pub mod 100)"

text \<open>Rates and bursts (of positive limits, so that Go's division is \<open>div\<close>).\<close>

definition formatTCRate :: "int \<Rightarrow> string" where
  "formatTCRate bps0 =
     (let bps = (if bps0 < 1 then 1 else bps0) in
      if bps mod 1000000 = 0 then int_str (bps div 1000000) @ ''mbit''
      else if bps mod 1000 = 0 then int_str (bps div 1000) @ ''kbit''
      else int_str bps @ ''bit'')"

definition formatTCBurst :: "int \<Rightarrow> string" where
  "formatTCBurst bps =
     (let burst = bps div 8 div 20;
          low = (if burst < 3200 then 3200 else burst)
      in int_str (if low > 16 * 1024 * 1024 then 16 * 1024 * 1024 else low))"

definition shortKey :: "string \<Rightarrow> string" where
  "shortKey pub = (if length pub \<le> 12 then pub else take 8 pub @ map char_of [0xE2 :: nat, 0x80, 0xA6])"

text \<open>The host addresses of a peer: those assigned to it, else those it may use, sorted.\<close>

definition host_ip :: "string \<Rightarrow> string option" where
  "host_ip raw0 =
     (let raw = TrimSpace raw0 in
      if raw = [] then None
      else if CHR ''/'' \<in> set raw then
        (case ParseCIDR raw of None \<Rightarrow> None
         | Some (ip, ipnet) \<Rightarrow> (let (ones, bits) = Mask_Size (net_Mask ipnet) in
             if ones \<noteq> bits then None else Some (IP_String ip)))
      else if ParseIP raw = None then None else Some raw)"

definition peerHostIPs :: "DesiredPeer \<Rightarrow> string list" where
  "peerHostIPs p =
     (let hosts = (\<lambda>xs. uniqueStrings (List.map_filter host_ip xs));
          out = hosts (dp_AssignedIPs p)
      in sort (if out = [] then hosts (dp_AllowedIPs p) else out))"

definition limited :: "DesiredPeer \<Rightarrow> bool" where
  "limited p \<longleftrightarrow> \<not> (dp_BandwidthRxBps p \<le> 0 \<and> dp_BandwidthTxBps p \<le> 0)"

section \<open>The commands\<close>

definition class_id :: "32 word \<Rightarrow> string" where
  "class_id m = ''1:'' @ hex_str (unat m)"

text \<open>\<open>matchDst\<close> and \<open>matchSrc\<close>: the protocol and the match, for a direction.\<close>

definition match_ip :: "string \<Rightarrow> string \<Rightarrow> (string \<times> string list) option" where
  "match_ip dir ip =
     (case ParseIP ip of None \<Rightarrow> None
      | Some x \<Rightarrow> (case To4 x of
          Some v4 \<Rightarrow> Some (''ip'', [''u32'', ''match'', ''ip'', dir, IP_String v4 @ ''/32''])
        | None \<Rightarrow> Some (''ipv6'', [''u32'', ''match'', ''ip6'', dir, IP_String x @ ''/128''])))"

definition filter_args :: "string \<Rightarrow> string \<Rightarrow> string \<Rightarrow> int \<Rightarrow> string list \<Rightarrow> string list" where
  "filter_args iface proto par pref rest =
     [''filter'', ''replace'', ''dev'', iface, ''protocol'', proto, ''parent'', par, ''prio'', int_str pref] @ rest"

definition addEgressFilter :: "'k runner \<Rightarrow> string \<Rightarrow> string \<Rightarrow> string \<Rightarrow> int \<Rightarrow> 'k \<Rightarrow> string option \<times> 'k" where
  "addEgressFilter run iface classID ip pref k =
     (case match_ip ''dst'' ip of None \<Rightarrow> (Some (''invalid ip '' @ quoted ip), k)
      | Some (proto, args) \<Rightarrow>
        (let (r, k') = run ''tc'' (filter_args iface proto ''1:'' pref (args @ [''flowid'', classID])) k in (failed r, k')))"

definition addIngressPolice :: "'k runner \<Rightarrow> string \<Rightarrow> string \<Rightarrow> string \<Rightarrow> string \<Rightarrow> int \<Rightarrow> 'k \<Rightarrow> string option \<times> 'k" where
  "addIngressPolice run iface rate burst ip pref k =
     (case match_ip ''src'' ip of None \<Rightarrow> (Some (''invalid ip '' @ quoted ip), k)
      | Some (proto, args) \<Rightarrow>
        (let (r, k') = run ''tc'' (filter_args iface proto ''ffff:'' pref
               (args @ [''action'', ''police'', ''rate'', rate, ''burst'', burst, ''drop''])) k in (failed r, k')))"

text \<open>One filter for each address, with increasing preferences, until one fails.\<close>

fun each_ip :: "(string \<Rightarrow> int \<Rightarrow> 'k \<Rightarrow> string option \<times> 'k) \<Rightarrow> string \<Rightarrow> string list \<Rightarrow> int \<Rightarrow> 'k \<Rightarrow> string option \<times> 'k" where
  "each_ip add what [] pref k = (None, k)"
| "each_ip add what (ip # ips) pref k =
     (case add ip pref k of
        (Some e, k') \<Rightarrow> (Some (what @ '' '' @ ip @ '': '' @ e), k')
      | (None, k') \<Rightarrow> each_ip add what ips (pref + 1) k')"

definition apply_tx :: "'k runner \<Rightarrow> string \<Rightarrow> peerTCState \<Rightarrow> 'k \<Rightarrow> string option \<times> 'k" where
  "apply_tx run iface s k =
     (let classID = class_id (tc_minor s); rate = formatTCRate (tc_txBps s); burst = formatTCBurst (tc_txBps s);
          (r, k1) = run ''tc'' [''class'', ''replace'', ''dev'', iface, ''parent'', ''1:'', ''classid'', classID, ''htb'',
            ''rate'', rate, ''ceil'', rate, ''burst'', burst, ''cburst'', burst] k
      in case r of Inl e \<Rightarrow> (Some (''tx class: '' @ e), k1)
         | Inr _ \<Rightarrow> each_ip (addEgressFilter run iface classID) ''tx filter'' (tc_ips s) (int (unat (tc_minor s)))
             (attempt run ''tc'' [''qdisc'', ''replace'', ''dev'', iface, ''parent'', classID, ''handle'',
               hex_str (unat (tc_minor s)) @ '':'', ''sfq'', ''perturb'', ''10''] k1))"

definition apply_rx :: "'k runner \<Rightarrow> string \<Rightarrow> peerTCState \<Rightarrow> int \<Rightarrow> 'k \<Rightarrow> string option \<times> 'k" where
  "apply_rx run iface s pref k =
     each_ip (addIngressPolice run iface (formatTCRate (tc_rxBps s)) (formatTCBurst (tc_rxBps s))) ''rx police'' (tc_ips s) pref k"

definition applyPeerTC :: "'k runner \<Rightarrow> string \<Rightarrow> peerTCState \<Rightarrow> 'k \<Rightarrow> string option \<times> 'k" where
  "applyPeerTC run iface s k =
     (let pref = int (unat (tc_minor s));
          (e, k1) = (if tc_txBps s > 0 then apply_tx run iface s k else (None, k))
      in if e \<noteq> None then (e, k1)
         else if tc_rxBps s > 0 then apply_rx run iface s (if tc_txBps s > 0 then pref + int (length (tc_ips s)) else pref) k1
         else (None, k1))"

text \<open>Removing a peer: filters of a range of preferences, then its class.  It never fails.\<close>

definition del_filters :: "'k runner \<Rightarrow> string \<Rightarrow> int \<Rightarrow> 'k \<Rightarrow> 'k" where
  "del_filters run iface pref k =
     attempt run ''tc'' [''filter'', ''del'', ''dev'', iface, ''parent'', ''ffff:'', ''pref'', int_str pref]
       (attempt run ''tc'' [''filter'', ''del'', ''dev'', iface, ''parent'', ''1:'', ''pref'', int_str pref] k)"

definition clearPeerTC :: "'k runner \<Rightarrow> string \<Rightarrow> peerTCState \<Rightarrow> 'k \<Rightarrow> 'k" where
  "clearPeerTC run iface s k =
     attempt run ''tc'' [''class'', ''del'', ''dev'', iface, ''classid'', class_id (tc_minor s)]
       (attempt run ''tc'' [''qdisc'', ''del'', ''dev'', iface, ''parent'', class_id (tc_minor s)]
         (fold (\<lambda>i k. del_filters run iface (int (unat (tc_minor s)) + int i) k) [0..<2 * length (tc_ips s) + 8] k))"

definition default_class :: "string \<Rightarrow> string list" where
  "default_class iface = [''class'', ''replace'', ''dev'', iface, ''parent'', ''1:'', ''classid'', ''1:1'', ''htb'', ''rate'', ''100gbit'', ''ceil'', ''100gbit'']"

definition ensureRootHTB :: "'k runner \<Rightarrow> string \<Rightarrow> ifaceTCState \<Rightarrow> 'k \<Rightarrow> string option \<times> ifaceTCState \<times> 'k" where
  "ensureRootHTB run iface st k =
     (if tf_rootReady st then (None, st, attempt run ''tc'' (default_class iface) k)
      else let (r, k1) = run ''tc'' [''qdisc'', ''add'', ''dev'', iface, ''root'', ''handle'', ''1:'', ''htb'', ''default'', ''1''] k;
             (e, k2) = (case r of Inr _ \<Rightarrow> (None, k1)
               | Inl t \<Rightarrow> if has_text t ''File exists'' \<or> has_text t ''Exclusivity flag'' then (None, k1)
                   else let (r2, k') = run ''tc'' [''qdisc'', ''replace'', ''dev'', iface, ''root'', ''handle'', ''1:'', ''htb'', ''default'', ''1''] k1
                     in (case r2 of Inr _ \<Rightarrow> None | Inl t2 \<Rightarrow> Some (''tc root htb: '' @ t @ '' (also: '' @ t2 @ '')''), k'))
        in case e of Some t \<Rightarrow> (Some t, st, k2)
           | None \<Rightarrow> (let (r3, k3) = run ''tc'' (default_class iface) k2 in
               case r3 of Inl t \<Rightarrow> (Some (''tc default class: '' @ t), st, k3)
               | Inr _ \<Rightarrow> (None, st\<lparr>tf_rootReady := True\<rparr>, k3)))"

definition ensureIngress :: "'k runner \<Rightarrow> string \<Rightarrow> ifaceTCState \<Rightarrow> 'k \<Rightarrow> string option \<times> ifaceTCState \<times> 'k" where
  "ensureIngress run iface st k =
     (if tf_ingressReady st then (None, st, k)
      else let (r, k1) = run ''tc'' [''qdisc'', ''add'', ''dev'', iface, ''handle'', ''ffff:'', ''ingress''] k;
             (e, k2) = (case r of Inr _ \<Rightarrow> (None, k1)
               | Inl t \<Rightarrow> if has_text t ''File exists'' \<or> has_text t ''Exclusivity'' then (None, k1)
                   else let (r2, k') = run ''tc'' [''qdisc'', ''replace'', ''dev'', iface, ''handle'', ''ffff:'', ''ingress''] k1
                     in (case r2 of Inr _ \<Rightarrow> None | Inl t2 \<Rightarrow> if has_text t2 ''File exists'' then None else Some (''tc ingress: '' @ t), k'))
        in case e of Some t \<Rightarrow> (Some t, st, k2) | None \<Rightarrow> (None, st\<lparr>tf_ingressReady := True\<rparr>, k2))"

section \<open>Synchronising\<close>

text \<open>What is wanted for a key: the last peer of the list with it.\<close>

definition desired_by_key :: "DesiredPeer list \<Rightarrow> string \<Rightarrow> DesiredPeer option" where
  "desired_by_key ps = map_of (rev (map (\<lambda>p. (dp_PublicKey p, p)) ps))"

definition tc_stale :: "DesiredPeer list \<Rightarrow> bool \<Rightarrow> string \<times> peerTCState \<Rightarrow> bool" where
  "tc_stale ps full e =
     (let d = desired_by_key ps (fst e);
          zero = (case d of None \<Rightarrow> False | Some p \<Rightarrow> \<not> limited p);
          missing = (full \<and> d = None);
          partialZero = (\<not> full \<and> d \<noteq> None \<and> zero)
      in (missing \<or> zero \<or> partialZero) \<and> tc_active (snd e))"

definition tc_forget :: "'k runner \<Rightarrow> string \<Rightarrow> string \<times> peerTCState \<Rightarrow> ifaceTCState \<times> 'k \<Rightarrow> ifaceTCState \<times> 'k" where
  "tc_forget run iface e s =
     ((fst s)\<lparr>tf_minors := AList.delete (tc_minor (snd e)) (tf_minors (fst s)), tf_peers := AList.delete (fst e) (tf_peers (fst s))\<rparr>,
      clearPeerTC run iface (snd e) (snd s))"

text \<open>Before a peer is applied again, what was applied is cleared; its entry stays, inactive.\<close>

definition tc_retire :: "'k runner \<Rightarrow> string \<Rightarrow> string \<Rightarrow> ifaceTCState \<Rightarrow> 'k \<Rightarrow> ifaceTCState \<times> 'k" where
  "tc_retire run iface pub st k =
     (case map_of (tf_peers st) pub of None \<Rightarrow> (st, k)
      | Some prev \<Rightarrow> if tc_active prev then
          (st\<lparr>tf_minors := AList.delete (tc_minor prev) (tf_minors st), tf_peers := AList.update pub (prev\<lparr>tc_active := False\<rparr>) (tf_peers st)\<rparr>,
           clearPeerTC run iface prev k)
        else (st, k))"

definition tc_unchanged :: "ifaceTCState \<Rightarrow> DesiredPeer \<Rightarrow> bool" where
  "tc_unchanged st p = (case map_of (tf_peers st) (dp_PublicKey p) of None \<Rightarrow> False
     | Some prev \<Rightarrow> tc_active prev \<and> tc_txBps prev = dp_BandwidthTxBps p \<and> tc_rxBps prev = dp_BandwidthRxBps p
         \<and> sameStrings (tc_ips prev) (peerHostIPs p))"

definition tc_peer :: "'k runner \<Rightarrow> string \<Rightarrow> DesiredPeer \<Rightarrow> ifaceTCState \<times> string list \<times> 'k \<Rightarrow> ifaceTCState \<times> string list \<times> 'k" where
  "tc_peer run iface p s =
     (case s of (st, errs, k) \<Rightarrow>
      let pub = dp_PublicKey p in
      if \<not> limited p then s
      else if peerHostIPs p = [] then
        (st, errs @ [''peer '' @ shortKey pub @ '': no host-sized assigned/allowed IPs for TC match''], k)
      else if tc_unchanged st p then s
      else let (st1, k1) = tc_retire run iface pub st k;
             minor = allocateMinor st1 pub;
             new = \<lparr>tc_minor = minor, tc_txBps = dp_BandwidthTxBps p, tc_rxBps = dp_BandwidthRxBps p,
               tc_ips = peerHostIPs p, tc_active = True\<rparr>;
             (e, k2) = applyPeerTC run iface new k1
        in case e of
             Some t \<Rightarrow> (st1\<lparr>tf_minors := AList.delete minor (tf_minors st1)\<rparr>, errs @ [''peer '' @ shortKey pub @ '': '' @ t],
               clearPeerTC run iface new k2)
           | None \<Rightarrow> (st1\<lparr>tf_peers := AList.update pub new (tf_peers st1), tf_minors := AList.update minor pub (tf_minors st1)\<rparr>, errs, k2))"

definition tc_sync :: "((string \<times> peerTCState) list \<Rightarrow> (string \<times> peerTCState) list) \<Rightarrow> 'k runner \<Rightarrow> string
    \<Rightarrow> DesiredPeer list \<Rightarrow> bool \<Rightarrow> ifaceTCState \<Rightarrow> 'k \<Rightarrow> string option \<times> ifaceTCState \<times> 'k" where
  "tc_sync ord run iface ps full st k =
     (let (st1, k1) = fold (tc_forget run iface) (filter (tc_stale ps full) (ord (tf_peers st))) (st, k) in
      if \<not> list_ex limited ps then (None, st1, k1)
      else case ensureRootHTB run iface st1 k1 of
          (Some e, st2, k2) \<Rightarrow> (Some e, st2, k2)
        | (None, st2, k2) \<Rightarrow>
          (case ensureIngress run iface st2 k2 of
             (Some e, st3, k3) \<Rightarrow> (Some e, st3, k3)
           | (None, st3, k3) \<Rightarrow>
             (let (st4, errs, k4) = fold (tc_peer run iface) ps (st3, [], k3)
              in (if errs = [] then None else Some (''tc sync: '' @ Join errs ''; ''), st4, k4))))"

end
