(* ===== verification/NftLimits.thy ===== *)
theory NftLimits
  imports TcLimits
begin

text \<open>
  Bandwidth limits with \<open>nft\<close> (\<open>internal/wgbackend/nft_limits.go\<close>): a table for each interface whose rules drop
  what exceeds the limits of its peers.
\<close>

section \<open>State and names\<close>

record peerNFTState =
  nf_txBps :: int
  nf_rxBps :: int
  nf_ips :: "string list"
  nf_active :: bool

record ifaceNFTState =
  nt_ready :: bool
  nt_peers :: "(string \<times> peerNFTState) list"

definition new_nft :: ifaceNFTState where
  "new_nft = \<lparr>nt_ready = False, nt_peers = []\<rparr>"

definition nftTableName :: "string \<Rightarrow> string" where
  "nftTableName iface = ''wireguardd_'' @ sanitizeNFTIdent iface"

definition nftExistsErr :: "string \<Rightarrow> bool" where
  "nftExistsErr t \<longleftrightarrow> has_text t ''File exists'' \<or> has_text t ''already exists'' \<or> has_text t ''exists''"

definition nftNotFoundErr :: "string \<Rightarrow> bool" where
  "nftNotFoundErr t \<longleftrightarrow> has_text t ''No such file'' \<or> has_text t ''does not exist'' \<or> has_text t ''not found'' \<or> has_text t ''No such''"

definition formatNFTRate :: "int \<Rightarrow> string \<times> string" where
  "formatNFTRate bps0 =
     (let bps = (if bps0 < 8 then 8 else bps0);
          q = bps div 8; bytesPerSec = (if q < 1 then 1 else q);
          rate = (if bytesPerSec mod 1000000 = 0 then int_str (bytesPerSec div 1000000) @ '' mbytes/second''
            else if bytesPerSec mod 1000 = 0 then int_str (bytesPerSec div 1000) @ '' kbytes/second''
            else int_str bytesPerSec @ '' bytes/second'');
          b0 = bytesPerSec div 20; b1 = (if b0 < 3200 then 3200 else b0);
          b = (if b1 > 16 * 1024 * 1024 then 16 * 1024 * 1024 else b1);
          burst = (if b mod 1024 = 0 \<and> b \<ge> 1024 then int_str (b div 1024) @ '' kbytes'' else int_str b @ '' bytes'')
      in (rate, burst))"

text \<open>The comment of a rule, for a key in ASCII: the ellipsis of the short form becomes one underscore.\<close>

definition nftComment :: "string \<Rightarrow> string" where
  "nftComment pub =
     (let s = (if length pub \<le> 12 then pub else take 8 pub @ ''_'')
      in take 64 (map (\<lambda>r. if is_letter r \<or> is_digit r \<or> r = CHR ''_'' \<or> r = CHR ''-'' \<or> r = CHR ''.'' then r else CHR ''_'') s))"

section \<open>The table\<close>

definition nft :: "string list \<Rightarrow> string \<Rightarrow> string list \<Rightarrow> string list" where
  "nft verb table rest = verb @ [''inet'', table] @ rest"

definition nftDeleteTable :: "'k runner \<Rightarrow> string \<Rightarrow> 'k \<Rightarrow> string option \<times> 'k" where
  "nftDeleteTable run iface k =
     (case run ''nft'' (nft [''delete'', ''table''] (nftTableName iface) []) k of
        (Inr _, k') \<Rightarrow> (None, k') | (Inl t, k') \<Rightarrow> (if nftNotFoundErr t then None else Some t, k'))"

definition nft_hooks :: "(string \<times> string \<times> string \<times> string) list" where
  "nft_hooks = [(''rx_input'', ''input'', ''iifname'', ''rx''), (''rx_forward'', ''forward'', ''iifname'', ''rx''),
     (''tx_output'', ''output'', ''oifname'', ''tx''), (''tx_forward'', ''forward'', ''oifname'', ''tx'')]"

definition nft_hook_steps :: "'k runner \<Rightarrow> string \<Rightarrow> string \<Rightarrow> string \<times> string \<times> string \<times> string
    \<Rightarrow> ('k \<Rightarrow> string option \<times> 'k) list" where
  "nft_hook_steps run table iface h =
     (case h of (name, hook, match, jump) \<Rightarrow>
       [must run nftExistsErr (''nft add hook chain '' @ name) ''nft'' (nft [''add'', ''chain''] table
          [name, ''{ type filter hook '' @ hook @ '' priority filter; policy accept; }'']),
        (\<lambda>k. (None, attempt run ''nft'' (nft [''flush'', ''chain''] table [name]) k)),
        must run (\<lambda>_. False) (''nft hook '' @ name @ '' return'') ''nft'' (nft [''add'', ''rule''] table [name, match, ''!='', iface, ''return'']),
        must run (\<lambda>_. False) (''nft hook '' @ name @ '' jump'') ''nft'' (nft [''add'', ''rule''] table [name, ''jump'', jump])])"

definition nft_add_table :: "'k runner \<Rightarrow> string \<Rightarrow> 'k \<Rightarrow> string option \<times> 'k" where
  "nft_add_table run table k =
     (case run ''nft'' (nft [''add'', ''table''] table []) k of (Inr _, k') \<Rightarrow> (None, k')
      | (Inl t, k') \<Rightarrow> if nftExistsErr t then (None, k')
          else (case run ''nft'' (nft [''list'', ''table''] table []) k' of
              (Inr _, k'') \<Rightarrow> (None, k'') | (Inl _, k'') \<Rightarrow> (Some (''nft add table '' @ table @ '': '' @ t), k'')))"

definition nftEnsureTable :: "'k runner \<Rightarrow> string \<Rightarrow> ifaceNFTState \<Rightarrow> 'k \<Rightarrow> string option \<times> ifaceNFTState \<times> 'k" where
  "nftEnsureTable run iface st k =
     (if nt_ready st then (None, st, k)
      else let table = nftTableName iface;
             (e, k') = until_error (nft_add_table run table
               # map (\<lambda>ch. must run nftExistsErr (''nft add chain '' @ ch) ''nft'' (nft [''add'', ''chain''] table [ch])) [''rx'', ''tx'']
               @ concat (map (nft_hook_steps run table iface) nft_hooks)) k
        in case e of Some t \<Rightarrow> (Some t, st, k') | None \<Rightarrow> (None, st\<lparr>nt_ready := True\<rparr>, k'))"

text \<open>The rules of a peer: for each address one for either limited direction, with its label for errors.\<close>

definition nft_rule :: "string \<Rightarrow> string \<Rightarrow> string \<Rightarrow> string \<Rightarrow> string \<Rightarrow> int \<Rightarrow> string \<Rightarrow> string \<times> string list" where
  "nft_rule table pub chain dir ip bps cmt =
     (let v4 = (CHR ''.'' \<in> set ip \<and> CHR '':'' \<notin> set ip); (rate, burst) = formatNFTRate bps
      in (chain @ '' '' @ shortKey pub @ '' '' @ ip,
          nft [''add'', ''rule''] table ([chain, if v4 then ''ip'' else ''ip6'', dir, ip,
            ''limit'', ''rate'', ''over'', rate, ''burst'', burst, ''drop'', ''comment'', cmt])))"

definition peer_rules :: "string \<Rightarrow> string \<times> peerNFTState \<Rightarrow> (string \<times> string list) list" where
  "peer_rules table e =
     (case e of (pub, p) \<Rightarrow> concat (map (\<lambda>ip.
        (if nf_rxBps p > 0 then [nft_rule table pub ''rx'' ''saddr'' ip (nf_rxBps p) (nftComment pub)] else [])
        @ (if nf_txBps p > 0 then [nft_rule table pub ''tx'' ''daddr'' ip (nf_txBps p) (nftComment pub)] else [])) (nf_ips p)))"

definition nft_rules :: "string \<Rightarrow> ifaceNFTState \<Rightarrow> (string \<times> string list) list" where
  "nft_rules iface st = concat (map (peer_rules (nftTableName iface)) (sort_key fst (filter (\<lambda>e. nf_active (snd e)) (nt_peers st))))"

fun add_all :: "'k runner \<Rightarrow> (string \<times> string list) list \<Rightarrow> string list \<times> 'k \<Rightarrow> string list \<times> 'k" where
  "add_all run [] s = s"
| "add_all run ((label, args) # rs) (errs, k) =
     (case run ''nft'' args k of
        (Inr _, k') \<Rightarrow> add_all run rs (errs, k')
      | (Inl t, k') \<Rightarrow> add_all run rs (errs @ [label @ '': '' @ t], k'))"

definition nftRenderIface :: "'k runner \<Rightarrow> string \<Rightarrow> ifaceNFTState \<Rightarrow> 'k \<Rightarrow> string option \<times> 'k" where
  "nftRenderIface run iface st k =
     (let table = nftTableName iface;
          (e, k1) = until_error (map (\<lambda>ch. must run (\<lambda>_. False) (''nft flush '' @ ch) ''nft'' (nft [''flush'', ''chain''] table [ch])) [''rx'', ''tx'']) k
      in case e of Some t \<Rightarrow> (Some t, k1)
         | None \<Rightarrow> (let (errs, k2) = add_all run (nft_rules iface st) ([], k1)
             in (if errs = [] then None else Some (''nft rules: '' @ Join errs ''; ''), k2)))"

section \<open>Synchronising\<close>

definition nft_stale :: "DesiredPeer list \<Rightarrow> bool \<Rightarrow> string \<times> peerNFTState \<Rightarrow> bool" where
  "nft_stale ps full e =
     (let d = desired_by_key ps (fst e);
          zero = (case d of None \<Rightarrow> False | Some p \<Rightarrow> \<not> limited p);
          missing = (full \<and> d = None);
          partialZero = (\<not> full \<and> d \<noteq> None \<and> zero)
      in (missing \<or> zero \<or> partialZero) \<and> nf_active (snd e))"

definition nft_peer :: "bool \<Rightarrow> DesiredPeer \<Rightarrow> (string \<times> peerNFTState) list \<times> string list \<Rightarrow> (string \<times> peerNFTState) list \<times> string list" where
  "nft_peer full p s =
     (let pub = dp_PublicKey p; ips = peerHostIPs p;
          new = \<lparr>nf_txBps = dp_BandwidthTxBps p, nf_rxBps = dp_BandwidthRxBps p, nf_ips = ips, nf_active = True\<rparr>
      in if \<not> limited p then (if full then s else (AList.delete pub (fst s), snd s))
         else if ips = [] then (fst s, snd s @ [''peer '' @ shortKey pub @ '': no host-sized assigned/allowed IPs for nft match''])
         else if map_of (fst s) pub = Some new then s
         else (AList.update pub new (fst s), snd s))"

definition nft_error :: "string list \<Rightarrow> string option" where
  "nft_error errs = (if errs = [] then None else Some (''nft sync: '' @ Join errs ''; ''))"

definition nft_sync :: "'k runner \<Rightarrow> string \<Rightarrow> DesiredPeer list \<Rightarrow> bool \<Rightarrow> ifaceNFTState \<Rightarrow> 'k
    \<Rightarrow> string option \<times> ifaceNFTState \<times> 'k" where
  "nft_sync run iface ps full st0 k =
     (let (peers, errs) = fold (nft_peer full) ps (filter (\<lambda>e. \<not> nft_stale ps full e) (nt_peers st0), []);
          st = st0\<lparr>nt_peers := peers\<rparr>
      in if peers = [] then
           (nft_error errs, st\<lparr>nt_ready := False\<rparr>, if nt_ready st then snd (nftDeleteTable run iface k) else k)
         else case nftEnsureTable run iface st k of
             (Some e, st1, k1) \<Rightarrow> (Some e, st1, k1)
           | (None, st1, k1) \<Rightarrow>
             (case nftRenderIface run iface st1 k1 of
                (Some e, k2) \<Rightarrow> (Some e, st1, k2)
              | (None, k2) \<Rightarrow> (nft_error errs, st1, k2)))"

end
