(* ===== verification/TcLaws.thy ===== *)
theory TcLaws
  imports NftLimits
begin

text \<open>
  What the accounting of \<open>tc\<close> guarantees: minors stay in their band and are never shared, rates mean what the
  tools document, and after a full synchronisation exactly the limited peers are recorded as limited.
\<close>

section \<open>Minors\<close>

definition in_band :: "32 word \<Rightarrow> bool" where
  "in_band m \<longleftrightarrow> tcMinorMin \<le> m \<and> m \<le> tcMinorMax"

lemma unat_minor_at: "unat (minor_at base i) = 16 + unat (base + i) mod 4079"
proof -
  have "unat ((base + i) mod 4079 :: 32 word) = unat (base + i) mod 4079" by (simp add: unat_mod)
  moreover have "unat (base + i) mod 4079 < 4079" by simp
  ultimately have "unat (16 + (base + i) mod 4079 :: 32 word) = 16 + unat (base + i) mod 4079"
    by (subst unat_add_lem [THEN iffD1]) simp_all
  then show ?thesis by (simp add: minor_at_def tcMinorMin_def tcMinorMax_def)
qed

lemma minor_at_band: "in_band (minor_at base i)" "minor_at base i \<noteq> tcDefaultMinor"
proof -
  have "unat (base + i) mod 4079 \<le> 4078" by (simp add: less_Suc_eq_le [symmetric])
  then show "in_band (minor_at base i)"
    by (simp add: in_band_def word_le_nat_alt unat_minor_at tcMinorMin_def tcMinorMax_def)
  show "minor_at base i \<noteq> tcDefaultMinor"
  proof
    assume "minor_at base i = tcDefaultMinor"
    then have "unat (minor_at base i) = 1" by (simp add: tcDefaultMinor_def)
    then show False by (simp add: unat_minor_at)
  qed
qed

lemma minor_loop_Some:
  "minor_loop st pub base n i = Some m \<Longrightarrow> minor_free st pub m \<and> in_band m"
  by (induction n arbitrary: i) (auto simp: Let_def minor_at_band split: if_splits)

lemma minor_loop_None:
  "minor_loop st pub base n i = None \<Longrightarrow> j < n \<Longrightarrow> \<not> minor_free st pub (minor_at base (i + of_nat j))"
proof (induction n arbitrary: i j)
  case (Suc n)
  have no: "\<not> minor_free st pub (minor_at base i)" "minor_loop st pub base n (i + 1) = None"
    using Suc.prems(1) by (auto simp: Let_def minor_at_band split: if_splits)
  show ?case
  proof (cases j)
    case 0
    with no(1) show ?thesis by simp
  next
    case (Suc k)
    with Suc.prems(2) Suc.IH [OF no(2), of k] show ?thesis by (simp add: add.assoc)
  qed
qed simp

lemma mod_window:
  fixes b x y n :: nat
  assumes "(b + x) mod n = (b + y) mod n" "x < n" "y < n"
  shows "x = y"
proof -
  have le: "u = v" if "u \<le> v" "(b + u) mod n = (b + v) mod n" "v < n" for u v
  proof -
    have "n dvd (b + v) - (b + u)" using that(1,2) by (metis mod_eq_dvd_iff_nat add_left_mono)
    then have "n dvd v - u" by simp
    with that(1,3) show ?thesis by (metis dvd_imp_le le_antisym less_imp_diff_less linorder_not_less zero_less_diff)
  qed
  show ?thesis using le [of x y] le [of y x] assms by (metis nle_le)
qed

text \<open>
  The base may be close to \<open>2 ^ 32\<close>, and then the sequence of minors jumps; still more than half of the band is
  visited without repetition.
\<close>

lemma half_visited: "\<exists>j0. j0 + 2040 \<le> 4079 \<and> inj_on (\<lambda>j. minor_at base (of_nat j)) {j0..<j0 + 2040}"
proof -
  have val: "unat (base + of_nat j) = (if unat base + j < 2 ^ 32 then unat base + j else unat base + j - 2 ^ 32)" if "j < 4079" for j
  proof -
    have j: "unat (of_nat j :: 32 word) = j" using that by (simp add: unat_of_nat)
    have "unat base < 2 ^ 32" using unsigned_less [of base] by simp
    then show ?thesis using that by (simp add: unat_word_ariths j mod_if)
  qed
  let ?b = "unat base"
  show ?thesis
  proof (cases "?b + 2040 \<le> 2 ^ 32")
    case True
    have "inj_on (\<lambda>j. minor_at base (of_nat j)) {0..<2040}"
    proof (rule inj_onI)
      fix x y assume xy: "x \<in> {0..<2040}" "y \<in> {0..<2040::nat}" "minor_at base (of_nat x) = minor_at base (of_nat y)"
      then have "unat (base + of_nat x) mod 4079 = unat (base + of_nat y) mod 4079" by (metis unat_minor_at add_left_cancel)
      then have "(?b + x) mod 4079 = (?b + y) mod 4079" using xy True val by simp
      then show "x = y" using xy(1,2) by (intro mod_window [of ?b x 4079 y]) simp_all
    qed
    then show ?thesis by (intro exI [of _ 0]) simp
  next
    case False
    define j0 where "j0 = 2 ^ 32 - ?b"
    have b: "?b < 2 ^ 32" using unsigned_less [of base] by simp
    with False have j0: "j0 + 2040 \<le> 4079" "?b + j0 = 2 ^ 32" by (simp_all add: j0_def)
    have "inj_on (\<lambda>j. minor_at base (of_nat j)) {j0..<j0 + 2040}"
    proof (rule inj_onI)
      fix x y assume xy: "x \<in> {j0..<j0 + 2040}" "y \<in> {j0..<j0 + 2040}" "minor_at base (of_nat x) = minor_at base (of_nat y)"
      then have "unat (base + of_nat x) mod 4079 = unat (base + of_nat y) mod 4079" by (metis unat_minor_at add_left_cancel)
      moreover have "unat (base + of_nat x) = x - j0" "unat (base + of_nat y) = y - j0" using xy j0 val by simp_all
      ultimately have "(x - j0) mod 4079 = (y - j0) mod 4079" by simp
      moreover have "x - j0 < 4079" "y - j0 < 4079" "j0 \<le> x" "j0 \<le> y" using xy by auto
      ultimately show "x = y" by simp
    qed
    with j0(1) show ?thesis by blast
  qed
qed

lemma allocate_fresh:
  assumes "length (tf_minors st) < 2040"
  shows "minor_free st pub (allocateMinor st pub) \<and> in_band (allocateMinor st pub) \<and> allocateMinor st pub \<noteq> tcDefaultMinor"
proof -
  let ?base = "peerMinorHint pub" and ?n = "unat (tcMinorMax - tcMinorMin + 1)"
  have n: "?n = 4079" by (simp add: tcMinorMax_def tcMinorMin_def)
  obtain m where m: "minor_loop st pub ?base ?n 0 = Some m"
  proof (cases "minor_loop st pub ?base ?n 0")
    case None
    obtain j0 where j0: "j0 + 2040 \<le> 4079" "inj_on (\<lambda>j. minor_at ?base (of_nat j)) {j0..<j0 + 2040}"
      using half_visited [of ?base] by blast
    let ?tried = "(\<lambda>j. minor_at ?base (of_nat j)) ` {j0..<j0 + 2040}"
    have "?tried \<subseteq> dom (map_of (tf_minors st))"
      using minor_loop_None [OF None] j0(1) by (force simp: n minor_free_def dom_def split: option.splits)
    then have "card ?tried \<le> card (dom (map_of (tf_minors st)))" by (intro card_mono) (simp_all add: finite_dom_map_of)
    also have "\<dots> \<le> length (tf_minors st)"
      by (metis dom_map_of_conv_image_fst card_image_le card_length finite_set le_trans list.set_map length_map)
    finally show ?thesis using card_image [OF j0(2)] assms by simp
  qed
  have "\<not> in_band tcDefaultMinor" by (simp add: in_band_def tcMinorMin_def tcDefaultMinor_def word_le_nat_alt)
  with minor_loop_Some [OF m] m show ?thesis by (auto simp: allocateMinor_def)
qed

lemma allocate_in_band: "length (tf_minors st) < 2040 \<Longrightarrow> in_band (allocateMinor st pub)"
  using allocate_fresh by blast



section \<open>The two maps agree\<close>

definition tc_ok :: "ifaceTCState \<Rightarrow> bool" where
  "tc_ok st \<longleftrightarrow> distinct (map fst (tf_minors st)) \<and> distinct (map fst (tf_peers st))
     \<and> (\<forall>m pub. map_of (tf_minors st) m = Some pub \<longleftrightarrow>
          (\<exists>q. map_of (tf_peers st) pub = Some q \<and> tc_active q \<and> tc_minor q = m))"

lemma tc_ok_inj:
  assumes "tc_ok st" "map_of (tf_peers st) a = Some x" "map_of (tf_peers st) b = Some y" "tc_active x" "tc_active y" "tc_minor x = tc_minor y"
  shows "a = b"
proof -
  have "map_of (tf_minors st) (tc_minor x) = Some a" using assms by (auto simp: tc_ok_def)
  moreover have "map_of (tf_minors st) (tc_minor x) = Some b" using assms by (auto simp: tc_ok_def)
  ultimately show ?thesis by simp
qed

lemma delete_short: "length (AList.delete k xs) \<le> length xs"
  by (simp add: AList.delete_eq)

lemma update_short: "length (AList.update k v xs) \<le> Suc (length xs)"
  by (induction xs) auto

text \<open>A peer that is active is forgotten or retired: its minor becomes free.\<close>

lemma delete_notin: "map_of xs k = None \<Longrightarrow> AList.delete k xs = xs"
  by (induction xs) (auto split: if_splits)

lemma tc_okI:
  assumes "distinct (map fst (tf_minors st))" "distinct (map fst (tf_peers st))"
    "\<And>m pub. (map_of (tf_minors st) m = Some pub) = (\<exists>q. map_of (tf_peers st) pub = Some q \<and> tc_active q \<and> tc_minor q = m)"
  shows "tc_ok st"
  using assms by (simp add: tc_ok_def)

lemma tc_ok_remove:
  assumes ok: "tc_ok st" and q: "map_of (tf_peers st) pub = Some q" "tc_active q"
  shows "tc_ok (st\<lparr>tf_minors := AList.delete (tc_minor q) (tf_minors st), tf_peers := AList.delete pub (tf_peers st)\<rparr>)"
    "tc_ok (st\<lparr>tf_minors := AList.delete (tc_minor q) (tf_minors st), tf_peers := AList.update pub (q\<lparr>tc_active := False\<rparr>) (tf_peers st)\<rparr>)"
proof -
  have iff: "map_of (tf_minors st) m = Some a \<longleftrightarrow> (\<exists>x. map_of (tf_peers st) a = Some x \<and> tc_active x \<and> tc_minor x = m)" for m a
    using ok by (simp add: tc_ok_def)
  have other: "tc_minor x \<noteq> tc_minor q" if "map_of (tf_peers st) a = Some x" "tc_active x" "a \<noteq> pub" for a x
    using tc_ok_inj [OF ok that(1) q(1) that(2) q(2)] that(3) by blast
  have d: "distinct (map fst (tf_minors st))" "distinct (map fst (tf_peers st))" using ok by (simp_all add: tc_ok_def)
  have gone: "map_of (AList.delete (tc_minor q) (tf_minors st)) m = Some a \<longleftrightarrow>
      a \<noteq> pub \<and> (\<exists>x. map_of (tf_peers st) a = Some x \<and> tc_active x \<and> tc_minor x = m)" for m a
  proof (cases "m = tc_minor q")
    case True
    then show ?thesis using other [of a] by (auto simp: delete_conv')
  next
    case False
    then have "map_of (AList.delete (tc_minor q) (tf_minors st)) m = map_of (tf_minors st) m" by (simp add: delete_conv')
    then show ?thesis using False q iff [of m a] by auto
  qed
  show "tc_ok (st\<lparr>tf_minors := AList.delete (tc_minor q) (tf_minors st), tf_peers := AList.delete pub (tf_peers st)\<rparr>)"
    by (rule tc_okI) (simp add: d distinct_delete, simp add: d distinct_delete, simp add: gone delete_conv' [of pub "tf_peers st"])
  show "tc_ok (st\<lparr>tf_minors := AList.delete (tc_minor q) (tf_minors st), tf_peers := AList.update pub (q\<lparr>tc_active := False\<rparr>) (tf_peers st)\<rparr>)"
    by (rule tc_okI) (simp add: d distinct_delete, simp add: d distinct_update, simp add: gone update_conv')
qed

lemma tc_ok_add:
  assumes "tc_ok st" "map_of (tf_minors st) m = None" "\<forall>q. map_of (tf_peers st) pub = Some q \<longrightarrow> \<not> tc_active q" "tc_minor new = m" "tc_active new"
  shows "tc_ok (st\<lparr>tf_peers := AList.update pub new (tf_peers st), tf_minors := AList.update m pub (tf_minors st)\<rparr>)"
proof -
  have iff: "map_of (tf_minors st) n = Some a \<longleftrightarrow> (\<exists>x. map_of (tf_peers st) a = Some x \<and> tc_active x \<and> tc_minor x = n)" for n a
    using assms(1) by (simp add: tc_ok_def)
  have d: "distinct (map fst (tf_minors st))" "distinct (map fst (tf_peers st))" using assms(1) by (simp_all add: tc_ok_def)
  have "tc_minor x \<noteq> m" if "map_of (tf_peers st) a = Some x" "tc_active x" for a x
    using iff [of m a] assms(2) that by auto
  then show ?thesis using d assms(2-5) iff by (auto simp: tc_ok_def update_conv' distinct_update)
qed

lemma tc_ok_same:
  "tf_minors st' = tf_minors st \<Longrightarrow> tf_peers st' = tf_peers st \<Longrightarrow> tc_ok st' = tc_ok st"
  by (simp add: tc_ok_def)

lemma tc_forget_ok:
  assumes "tc_ok (fst s)" "map_of (tf_peers (fst s)) (fst e) = Some (snd e)" "tc_active (snd e)"
  shows "tc_ok (fst (tc_forget run iface e s))" "length (tf_minors (fst (tc_forget run iface e s))) \<le> length (tf_minors (fst s))"
  using tc_ok_remove(1) [OF assms] by (simp_all add: tc_forget_def delete_short)

lemma tc_retire_ok:
  assumes "tc_ok st"
  shows "tc_ok (fst (tc_retire run iface pub st k))" "length (tf_minors (fst (tc_retire run iface pub st k))) \<le> length (tf_minors st)"
    "\<forall>q. map_of (tf_peers (fst (tc_retire run iface pub st k))) pub = Some q \<longrightarrow> \<not> tc_active q"
  using tc_ok_remove(2) [OF assms] assms
  by (auto simp: tc_retire_def delete_short update_conv' split: option.split)

lemma tc_peer_ok:
  assumes "tc_ok (fst s)" "length (tf_minors (fst s)) < 2040"
  shows "tc_ok (fst (tc_peer run iface p s))" "length (tf_minors (fst (tc_peer run iface p s))) \<le> Suc (length (tf_minors (fst s)))"
proof -
  obtain st errs k where s: "s = (st, errs, k)" by (metis prod_cases3)
  let ?pub = "dp_PublicKey p"
  obtain st1 k1 where st1: "tc_retire run iface ?pub st k = (st1, k1)" by (metis prod.collapse)
  note r = tc_retire_ok [OF assms(1), of run iface ?pub k, unfolded s fst_conv st1]
  let ?m = "allocateMinor st1 ?pub"
  let ?new = "\<lparr>tc_minor = ?m, tc_txBps = dp_BandwidthTxBps p, tc_rxBps = dp_BandwidthRxBps p, tc_ips = peerHostIPs p, tc_active = True\<rparr>"
  have "minor_free st1 ?pub ?m" using allocate_fresh [of st1 ?pub] r(2) assms(2) by (simp add: s)
  then have free: "map_of (tf_minors st1) ?m = None"
    using r(1,3) by (auto simp: minor_free_def tc_ok_def split: option.splits)
  then have "AList.delete ?m (tf_minors st1) = tf_minors st1" by (rule delete_notin)
  then have fail: "tc_ok (st1\<lparr>tf_minors := AList.delete ?m (tf_minors st1)\<rparr>)" using r(1) by simp
  have add: "tc_ok (st1\<lparr>tf_peers := AList.update ?pub ?new (tf_peers st1), tf_minors := AList.update ?m ?pub (tf_minors st1)\<rparr>)"
    by (rule tc_ok_add [OF r(1) free r(3)]) simp_all
  show "tc_ok (fst (tc_peer run iface p s))"
    using assms(1) fail add by (simp add: tc_peer_def s st1 Let_def split: prod.split option.split)
  show "length (tf_minors (fst (tc_peer run iface p s))) \<le> Suc (length (tf_minors (fst s)))"
    using r(2) delete_short [of ?m "tf_minors st1"] update_short [of ?m ?pub "tf_minors st1"]
    by (auto simp: tc_peer_def s st1 Let_def split: prod.split option.split)
qed

section \<open>A whole synchronisation\<close>

definition tc_wanted :: "DesiredPeer \<Rightarrow> peerTCState option \<Rightarrow> bool" where
  "tc_wanted p entry \<longleftrightarrow> (case entry of None \<Rightarrow> False
     | Some q \<Rightarrow> tc_active q \<and> tc_txBps q = dp_BandwidthTxBps p \<and> tc_rxBps q = dp_BandwidthRxBps p \<and> tc_ips q = peerHostIPs p)"

lemma forget_fold:
  assumes "distinct (map fst es)" "tc_ok (fst s)"
    "\<forall>e\<in>set es. map_of (tf_peers (fst s)) (fst e) = Some (snd e) \<and> tc_active (snd e)"
  shows "tc_ok (fst (fold (tc_forget run iface) es s))
    \<and> length (tf_minors (fst (fold (tc_forget run iface) es s))) \<le> length (tf_minors (fst s))
    \<and> (\<forall>a. map_of (tf_peers (fst (fold (tc_forget run iface) es s))) a = (if a \<in> fst ` set es then None else map_of (tf_peers (fst s)) a))"
  using assms
proof (induction es arbitrary: s)
  case (Cons e es)
  let ?s = "tc_forget run iface e s"
  have e: "map_of (tf_peers (fst s)) (fst e) = Some (snd e)" "tc_active (snd e)" using Cons.prems(3) by simp_all
  note ok = tc_forget_ok [OF Cons.prems(2) e, of run iface]
  have peers: "map_of (tf_peers (fst ?s)) a = (if a = fst e then None else map_of (tf_peers (fst s)) a)" for a
    by (simp add: tc_forget_def delete_conv')
  have "\<forall>x\<in>set es. map_of (tf_peers (fst ?s)) (fst x) = Some (snd x) \<and> tc_active (snd x)"
    using Cons.prems(1,3) by (force simp: peers)
  with Cons.IH [of ?s] ok Cons.prems(1) show ?case by (auto simp: peers)
qed simp

lemma tc_peer_other:
  "a \<noteq> dp_PublicKey p \<Longrightarrow> map_of (tf_peers (fst (tc_peer run iface p s))) a = map_of (tf_peers (fst s)) a"
  by (cases s) (auto simp: tc_peer_def tc_retire_def Let_def update_conv' split: prod.split option.split)

lemma tc_peer_errs:
  "fst (snd (tc_peer run iface p s)) = [] \<Longrightarrow>
     fst (snd s) = [] \<and> (limited p \<longrightarrow> tc_wanted p (map_of (tf_peers (fst (tc_peer run iface p s))) (dp_PublicKey p)))
     \<and> (\<not> limited p \<longrightarrow> tc_peer run iface p s = s)"
proof -
  assume clean: "fst (snd (tc_peer run iface p s)) = []"
  obtain st errs k where s: "s = (st, errs, k)" by (metis prod_cases3)
  consider (free) "\<not> limited p" | (none) "limited p" "peerHostIPs p = []"
    | (same) "limited p" "peerHostIPs p \<noteq> []" "tc_unchanged st p" | (again) "limited p" "peerHostIPs p \<noteq> []" "\<not> tc_unchanged st p"
    by blast
  then show ?thesis
  proof cases
    case free
    with clean show ?thesis by (simp add: s tc_peer_def)
  next
    case none
    with clean show ?thesis by (simp add: s tc_peer_def Let_def)
  next
    case same
    then have "tc_peer run iface p s = s" by (simp add: s tc_peer_def Let_def)
    with clean same show ?thesis by (simp add: s tc_unchanged_def tc_wanted_def sameStrings_def split: option.splits)
  next
    case again
    obtain st1 k1 where st1: "tc_retire run iface (dp_PublicKey p) st k = (st1, k1)" by (metis prod.collapse)
    from again clean show ?thesis
      by (simp add: s st1 tc_peer_def tc_wanted_def Let_def update_conv' split: prod.splits option.splits)
  qed
qed

lemma peers_fold:
  assumes "tc_ok (fst s)" "length (tf_minors (fst s)) + length ps \<le> 2040"
  shows "tc_ok (fst (fold (tc_peer run iface) ps s))
    \<and> length (tf_minors (fst (fold (tc_peer run iface) ps s))) \<le> length (tf_minors (fst s)) + length ps"
  using assms
proof (induction ps arbitrary: s)
  case (Cons p ps)
  then show ?case using tc_peer_ok [of s run iface p] Cons.IH [of "tc_peer run iface p s"] by fastforce
qed simp

lemma peers_fold_other:
  "a \<notin> dp_PublicKey ` set ps \<Longrightarrow> map_of (tf_peers (fst (fold (tc_peer run iface) ps s))) a = map_of (tf_peers (fst s)) a"
  by (induction ps arbitrary: s) (simp_all add: tc_peer_other)

lemma peers_fold_errs:
  "fst (snd (fold (tc_peer run iface) ps s)) = [] \<Longrightarrow> fst (snd s) = []"
proof (induction ps arbitrary: s)
  case (Cons p ps)
  have "fst (snd (tc_peer run iface p s)) = []"
    by (rule Cons.IH) (use Cons.prems in \<open>simp only: fold_simps\<close>)
  then show ?case by (rule tc_peer_errs [THEN conjunct1])
qed simp

lemma peers_fold_exact:
  assumes "distinct (map dp_PublicKey ps)" "fst (snd (fold (tc_peer run iface) ps s)) = []" "p \<in> set ps"
  shows "if limited p then tc_wanted p (map_of (tf_peers (fst (fold (tc_peer run iface) ps s))) (dp_PublicKey p))
    else map_of (tf_peers (fst (fold (tc_peer run iface) ps s))) (dp_PublicKey p) = map_of (tf_peers (fst s)) (dp_PublicKey p)"
  using assms
proof (induction ps arbitrary: s)
  case (Cons q ps)
  let ?s = "tc_peer run iface q s"
  have clean: "fst (snd ?s) = []" using peers_fold_errs Cons.prems(2) by simp
  show ?case
  proof (cases "p = q")
    case True
    then have "dp_PublicKey p \<notin> dp_PublicKey ` set ps" using Cons.prems(1) by simp
    note same = peers_fold_other [OF this, of run iface ?s]
    show ?thesis
    proof (cases "limited q")
      case limit: True
      with True same tc_peer_errs [OF clean] show ?thesis by simp
    next
      case free: False
      with tc_peer_errs [OF clean] have "?s = s" by blast
      with True free same show ?thesis by simp
    qed
  next
    case False
    with Cons.prems(3) have "p \<in> set ps" by simp
    moreover from this have "dp_PublicKey p \<noteq> dp_PublicKey q" using Cons.prems(1) by (metis distinct.simps(2) image_eqI list.set_map list.simps(9))
    ultimately have p: "p \<in> set ps" "dp_PublicKey p \<noteq> dp_PublicKey q" .
    from Cons.IH [of ?s] Cons.prems p show ?thesis by (simp add: tc_peer_other [OF p(2)])
  qed
qed simp

lemma stale_list:
  assumes "rearranges ord" "tc_ok st"
  shows "distinct (map fst (filter (tc_stale ps full) (ord (tf_peers st))))"
    "\<forall>e\<in>set (filter (tc_stale ps full) (ord (tf_peers st))). map_of (tf_peers st) (fst e) = Some (snd e) \<and> tc_active (snd e)"
proof -
  have d: "distinct (map fst (tf_peers st))" using assms(2) by (simp add: tc_ok_def)
  have "mset (map fst (ord (tf_peers st))) = mset (map fst (tf_peers st))" using assms(1) by (simp add: rearranges_def)
  then have "distinct (map fst (ord (tf_peers st)))" using d by (metis mset_eq_imp_distinct_iff)
  then show "distinct (map fst (filter (tc_stale ps full) (ord (tf_peers st))))" by (rule distinct_map_filter)
  show "\<forall>e\<in>set (filter (tc_stale ps full) (ord (tf_peers st))). map_of (tf_peers st) (fst e) = Some (snd e) \<and> tc_active (snd e)"
    using d by (auto simp: rearranges_set [OF assms(1)] tc_stale_def Let_def)
qed

lemma root_peers:
  "ensureRootHTB run iface st k = (e, st', k') \<Longrightarrow> tf_peers st' = tf_peers st \<and> tf_minors st' = tf_minors st"
  "ensureIngress run iface st k = (e, st', k') \<Longrightarrow> tf_peers st' = tf_peers st \<and> tf_minors st' = tf_minors st"
  by (auto simp: ensureRootHTB_def ensureIngress_def Let_def split: prod.splits sum.splits option.splits if_splits)

lemma tc_sync_ok:
  assumes "rearranges ord" "tc_ok st" "length (tf_minors st) + length ps \<le> 2040" "tc_sync ord run iface ps full st k = (e, st', k')"
  shows "tc_ok st' \<and> length (tf_minors st') \<le> length (tf_minors st) + length ps"
proof -
  let ?es = "filter (tc_stale ps full) (ord (tf_peers st))"
  obtain st1 k1 where f: "fold (tc_forget run iface) ?es (st, k) = (st1, k1)" by (metis prod.collapse)
  have one: "tc_ok st1" "length (tf_minors st1) \<le> length (tf_minors st)"
    using forget_fold [of ?es "(st, k)" run iface] stale_list [OF assms(1,2), of ps full] assms(2) by (simp_all add: f)
  obtain e2 st2 k2 where root: "ensureRootHTB run iface st1 k1 = (e2, st2, k2)" by (metis prod_cases3)
  obtain e3 st3 k3 where ing: "ensureIngress run iface st2 k2 = (e3, st3, k3)" by (metis prod_cases3)
  obtain st4 errs k4 where ps: "fold (tc_peer run iface) ps (st3, [], k3) = (st4, errs, k4)" by (metis prod_cases3)
  note same = root_peers(1) [OF root] root_peers(2) [OF ing]
  have ok: "tc_ok st2" "tc_ok st3" using one(1) tc_ok_same [of st2 st1] tc_ok_same [of st3 st1] same by simp_all
  have four: "tc_ok st4" "length (tf_minors st4) \<le> length (tf_minors st3) + length ps"
    using peers_fold [of "(st3, [], k3)" ps run iface] ok(2) same one(2) assms(3) by (simp_all add: ps)
  consider "st' = st1" | "st' = st2" | "st' = st3" | "st' = st4"
    using assms(4) by (auto simp: tc_sync_def Let_def f root ing ps split: if_splits option.splits)
  then show ?thesis using one ok four same by cases simp_all
qed

text \<open>
  Whatever the commands do, whichever of them fail and in whatever order Go visits the map, a synchronisation (full or
  of one peer) keeps the accounting consistent: the table of classes names exactly the active peers, so two
  peers never share a class, and it grows by at most one class for each peer of the request.
\<close>

theorem tc_classes_unique:
  assumes "rearranges ord" "tc_ok st" "length (tf_minors st) + length ps \<le> 2040" "tc_sync ord run iface ps full st k = (e, st', k')"
  shows "tc_ok st' \<and> length (tf_minors st') \<le> length (tf_minors st) + length ps
    \<and> (\<forall>a b x y. map_of (tf_peers st') a = Some x \<and> map_of (tf_peers st') b = Some y \<and> tc_active x \<and> tc_active y \<and> a \<noteq> b
         \<longrightarrow> tc_minor x \<noteq> tc_minor y)"
  using tc_sync_ok [OF assms] tc_ok_inj [of st'] by blast

lemma desired_Some:
  "distinct (map dp_PublicKey ps) \<Longrightarrow> desired_by_key ps a = Some p \<longleftrightarrow> p \<in> set ps \<and> dp_PublicKey p = a"
  by (subst desired_by_key_def, subst map_of_eq_Some_iff) (auto simp: rev_map [symmetric] comp_def)

text \<open>
  The account after a full synchronisation that reports no error: exactly the limited peers are recorded with an active class, each with
  its two rates and its host addresses.  It says nothing of the filters on the host (see \<open>neighbour_cleared\<close>).
\<close>

theorem tc_sync_exact:
  assumes "rearranges ord" "tc_ok st" "distinct (map dp_PublicKey ps)" "length (tf_minors st) + length ps \<le> 2040"
    "tc_sync ord run iface ps True st k = (None, st', k')"
  shows "(\<forall>p\<in>set ps. limited p \<longrightarrow> tc_wanted p (map_of (tf_peers st') (dp_PublicKey p)))
    \<and> (\<forall>a q. map_of (tf_peers st') a = Some q \<and> tc_active q \<longrightarrow> (\<exists>p\<in>set ps. dp_PublicKey p = a \<and> limited p))"
proof -
  let ?es = "filter (tc_stale ps True) (ord (tf_peers st))"
  obtain st1 k1 where f: "fold (tc_forget run iface) ?es (st, k) = (st1, k1)" by (metis prod.collapse)
  have one: "map_of (tf_peers st1) a = (if a \<in> fst ` set ?es then None else map_of (tf_peers st) a)" for a
    using forget_fold [of ?es "(st, k)" run iface] stale_list [OF assms(1,2), of ps True] assms(2) by (simp add: f)
  have kept: "\<exists>p\<in>set ps. dp_PublicKey p = a \<and> limited p" if "map_of (tf_peers st1) a = Some q" "tc_active q" for a q
  proof (rule ccontr)
    assume no: "\<not> ?thesis"
    from that(1) have q: "map_of (tf_peers st) a = Some q" "a \<notin> fst ` set ?es" by (simp_all add: one split: if_splits)
    then have "(a, q) \<in> set (ord (tf_peers st))" by (simp add: rearranges_set [OF assms(1)] map_of_SomeD)
    moreover have "tc_stale ps True (a, q)"
      using no that(2) desired_Some [OF assms(3), of a] by (auto simp: tc_stale_def Let_def split: option.split)
    ultimately show False using q(2) by force
  qed
  show ?thesis
  proof (cases "list_ex limited ps")
    case False
    then have "st' = st1" using assms(5) by (simp add: tc_sync_def f)
    with False kept show ?thesis by (force simp: list_ex_iff)
  next
    case True
    obtain e2 st2 k2 where root: "ensureRootHTB run iface st1 k1 = (e2, st2, k2)" by (metis prod_cases3)
    obtain e3 st3 k3 where ing: "ensureIngress run iface st2 k2 = (e3, st3, k3)" by (metis prod_cases3)
    obtain st4 errs k4 where ps: "fold (tc_peer run iface) ps (st3, [], k3) = (st4, errs, k4)" by (metis prod_cases3)
    have fin: "st' = st4" "errs = []" using assms(5) True by (auto simp: tc_sync_def f root ing ps split: option.splits if_splits)
    have three: "tf_peers st3 = tf_peers st1" using root_peers(1) [OF root] root_peers(2) [OF ing] by simp
    note exact = peers_fold_exact [OF assms(3), of run iface "(st3, [], k3)", unfolded ps fst_conv snd_conv fin(2), OF refl]
    have "\<exists>p\<in>set ps. dp_PublicKey p = a \<and> limited p" if a: "map_of (tf_peers st4) a = Some q" "tc_active q" for a q
    proof (rule ccontr)
      assume none: "\<not> ?thesis"
      have "map_of (tf_peers st4) a = map_of (tf_peers st1) a"
      proof (cases "a \<in> dp_PublicKey ` set ps")
        case True
        then obtain p where "p \<in> set ps" "a = dp_PublicKey p" by blast
        with none exact [of p] three show ?thesis by (auto split: if_splits)
      next
        case False
        from peers_fold_other [OF this, of run iface "(st3, [], k3)"] three show ?thesis by (simp add: ps)
      qed
      with a none kept [of a q] show False by simp
    qed
    with exact show ?thesis by (auto simp: fin(1))
  qed
qed

text \<open>A host on which every command succeeds, recording what is run; two limited peers with neighbouring classes.\<close>

definition recorder :: "(string \<times> string list) list runner" where
  "recorder cmd args k = (Inr [], k @ [(cmd, args)])"

definition tc_peer_a :: DesiredPeer where
  "tc_peer_a = \<lparr>dp_PublicKey = ''A'', dp_PresharedKey = [], dp_Endpoint = [], dp_AllowedIPs = [''10.0.0.2/32''],
     dp_AssignedIPs = [], dp_PersistentKeepalive = 0, dp_Suspended = False, dp_BandwidthRxBps = 0, dp_BandwidthTxBps = 1000000\<rparr>"

definition two_classes :: ifaceTCState where
  "two_classes = \<lparr>tf_rootReady = True, tf_ingressReady = True, tf_minors = [(32, ''B''), (33, ''A'')],
     tf_peers = [(''B'', \<lparr>tc_minor = 32, tc_txBps = 8000, tc_rxBps = 0, tc_ips = [''10.0.0.3''], tc_active = True\<rparr>),
       (''A'', \<lparr>tc_minor = 33, tc_txBps = 1000000, tc_rxBps = 0, tc_ips = [''10.0.0.2''], tc_active = True\<rparr>)]\<rparr>"

lemma peer_a_hosts: "peerHostIPs tc_peer_a = [''10.0.0.2'']" "limited tc_peer_a"
  by code_simp+

lemma two_classes_ok: "tc_ok two_classes"
  by (rule tc_okI) (auto simp: two_classes_def)

lemma new_tc_ok: "tc_ok new_tc"
  by (rule tc_okI) (simp_all add: new_tc_def)

theorem tc_classes_unique_witness:
  "\<exists>e st' k'. tc_sync (\<lambda>xs. xs) recorder ''wg0'' [tc_peer_a] True two_classes [] = (e, st', k') \<and> tc_ok st'"
proof -
  obtain e st' k' where s: "tc_sync (\<lambda>xs. xs) recorder ''wg0'' [tc_peer_a] True two_classes [] = (e, st', k')" by (metis prod_cases3)
  have "length (tf_minors two_classes) + length [tc_peer_a] \<le> 2040" by (simp add: two_classes_def)
  from tc_classes_unique [OF rearranges_id(1) two_classes_ok this s] s show ?thesis by blast
qed

text \<open>
  Clearing a peer deletes the filters of every preference from its class number on, for twice its addresses and eight
  more; the preferences of its neighbours lie in that range.  Here \<open>B\<close> leaves, the filter of \<open>A\<close> is deleted with it, and \<open>A\<close>, whose
  entry is unchanged, is skipped: it stays recorded as limited without a filter.
\<close>

lemma sync_run:
  "tc_sync (\<lambda>xs. xs) recorder ''wg0'' [tc_peer_a] True two_classes [] =
     (None, two_classes\<lparr>tf_minors := [(33, ''A'')], tf_peers := tl (tf_peers two_classes)\<rparr>,
      snd (tc_forget recorder ''wg0'' (hd (tf_peers two_classes)) (two_classes, [])) @ [(''tc'', default_class ''wg0'')])"
proof -
  have stale: "filter (tc_stale [tc_peer_a] True) (tf_peers two_classes) = [hd (tf_peers two_classes)]" by code_simp
  have same: "tc_unchanged (two_classes\<lparr>tf_minors := [(33, ''A'')], tf_peers := tl (tf_peers two_classes)\<rparr>) tc_peer_a"
    by (simp add: tc_unchanged_def two_classes_def sameStrings_def peer_a_hosts) (simp add: tc_peer_a_def)
  have one: "fst (tc_forget recorder ''wg0'' (hd (tf_peers two_classes)) (two_classes, [])) =
      two_classes\<lparr>tf_minors := [(33, ''A'')], tf_peers := tl (tf_peers two_classes)\<rparr>"
    by (simp add: tc_forget_def two_classes_def)
  obtain k1 where f: "tc_forget recorder ''wg0'' (hd (tf_peers two_classes)) (two_classes, []) =
      (two_classes\<lparr>tf_minors := [(33, ''A'')], tf_peers := tl (tf_peers two_classes)\<rparr>, k1)"
    using one by (metis prod.collapse)
  let ?st = "two_classes\<lparr>tf_minors := [(33, ''A'')], tf_peers := tl (tf_peers two_classes)\<rparr>"
  have ready: "tf_rootReady ?st" "tf_ingressReady ?st" by (simp_all add: two_classes_def)
  have some: "list_ex limited [tc_peer_a] = True" by (simp add: peer_a_hosts)
  have root: "ensureRootHTB recorder ''wg0'' ?st k1 = (None, ?st, k1 @ [(''tc'', default_class ''wg0'')])"
    using ready(1) by (simp only: ensureRootHTB_def if_True attempt_def recorder_def snd_conv)
  have ing: "ensureIngress recorder ''wg0'' ?st k = (None, ?st, k)" for k
    using ready(2) by (simp only: ensureIngress_def if_True)
  have peer: "tc_peer recorder ''wg0'' tc_peer_a (?st, [], k) = (?st, [], k)" for k
    using same by (simp only: tc_peer_def Let_def split peer_a_hosts if_True if_False not_True_eq_False list.distinct(2))
  show ?thesis
    by (simp only: tc_sync_def stale fold_simps f snd_conv Let_def split some root ing peer option.case if_True if_False not_True_eq_False refl)
qed

lemma neighbour_cleared:
  "\<exists>st' k'. tc_sync (\<lambda>xs. xs) recorder ''wg0'' [tc_peer_a] True two_classes [] = (None, st', k')
     \<and> tc_wanted tc_peer_a (map_of (tf_peers st') ''A'')
     \<and> (''tc'', [''filter'', ''del'', ''dev'', ''wg0'', ''parent'', ''1:'', ''pref'', ''33'']) \<in> set k'
     \<and> (\<forall>c\<in>set k'. take 2 (snd c) \<noteq> [''filter'', ''replace''])"
proof -
  have "(''tc'', [''filter'', ''del'', ''dev'', ''wg0'', ''parent'', ''1:'', ''pref'', ''33'']) \<in>
      set (snd (tc_forget recorder ''wg0'' (hd (tf_peers two_classes)) (two_classes, [])))" by code_simp
  moreover have "\<forall>c\<in>set (snd (tc_forget recorder ''wg0'' (hd (tf_peers two_classes)) (two_classes, []))).
      take 2 (snd c) \<noteq> [''filter'', ''replace'']" by code_simp
  moreover have "tc_wanted tc_peer_a (map_of (tl (tf_peers two_classes)) ''A'')"
    by (simp add: tc_wanted_def two_classes_def peer_a_hosts) (simp add: tc_peer_a_def)
  ultimately show ?thesis by (simp add: sync_run default_class_def)
qed

theorem tc_sync_exact_witness:
  "\<exists>st' k'. tc_sync (\<lambda>xs. xs) recorder ''wg0'' [tc_peer_a] True two_classes [] = (None, st', k')
     \<and> tc_wanted tc_peer_a (map_of (tf_peers st') ''A'')"
proof -
  obtain st' k' where s: "tc_sync (\<lambda>xs. xs) recorder ''wg0'' [tc_peer_a] True two_classes [] = (None, st', k')"
    using sync_run by blast
  have "length (tf_minors two_classes) + length [tc_peer_a] \<le> 2040" by (simp add: two_classes_def)
  from tc_sync_exact [OF rearranges_id(1) two_classes_ok _ this s] s show ?thesis by (simp add: peer_a_hosts) (simp add: tc_peer_a_def)
qed

section \<open>Rates\<close>

lemma unit_chosen:
  fixes q :: int
  shows "\<exists>n u m. (if q mod 1000000 = 0 then int_str (q div 1000000) @ a else if q mod 1000 = 0 then int_str (q div 1000) @ b else int_str q @ c)
      = int_str n @ u \<and> (u, m) \<in> {(a, 1000000), (b, 1000), (c, 1)} \<and> n * m = q"
proof -
  have whole: "q mod n = 0 \<Longrightarrow> q div n * n = q" for n by (metis add.right_neutral div_mult_mod_eq)
  consider "q mod 1000000 = 0" | "q mod 1000000 \<noteq> 0" "q mod 1000 = 0" | "q mod 1000000 \<noteq> 0" "q mod 1000 \<noteq> 0" by blast
  then show ?thesis
  proof cases
    case 1
    with whole [OF 1] show ?thesis by (intro exI [of _ "q div 1000000"] exI [of _ a] exI [of _ 1000000]) simp
  next
    case 2
    with whole [OF 2(2)] show ?thesis by (intro exI [of _ "q div 1000"] exI [of _ b] exI [of _ 1000]) simp
  next
    case 3
    then show ?thesis by (intro exI [of _ q] exI [of _ c] exI [of _ 1]) simp
  qed
qed

lemma nft_unit_chosen:
  fixes q :: int
  assumes "1 \<le> q"
  shows "\<exists>n u m. (if q mod 1000000 = 0 then int_str (q div 1000000) @ a else if q mod 1000 = 0 then int_str (q div 1000) @ b else int_str q @ c)
      = int_str n @ u \<and> (u, m) \<in> {(a, 1048576), (b, 1024), (c, 1)} \<and> q \<le> n * m \<and> n * m * 1000000 \<le> q * 1048576
        \<and> (n * m = q \<longleftrightarrow> q mod 1000 \<noteq> 0)"
proof -
  consider (m) t where "q = t * 1000000" "1 \<le> t" | (k) t where "q = t * 1000" "q mod 1000000 \<noteq> 0" "1 \<le> t"
    | (b) "q mod 1000000 \<noteq> 0" "q mod 1000 \<noteq> 0"
  proof -
    have whole: "q = q div n * n" if "q mod n = 0" for n using that by (metis add.right_neutral div_mult_mod_eq)
    have pos: "1 \<le> q div n" if "q mod n = 0" "0 < n" for n
    proof (rule ccontr)
      assume "\<not> 1 \<le> q div n"
      then have "q div n \<le> 0" by simp
      with that(2) have "q div n * n \<le> 0" by (simp add: mult_nonpos_nonneg)
      with whole [OF that(1)] assms show False by simp
    qed
    show thesis
    proof (cases "q mod 1000000 = 0")
      case True
      then show thesis by (intro that(1) [of "q div 1000000"] whole pos) simp_all
    next
      case big: False
      show thesis
      proof (cases "q mod 1000 = 0")
        case True
        with big show thesis by (intro that(2) [of "q div 1000"] whole pos) simp_all
      next
        case False
        with big show thesis by (rule that(3))
      qed
    qed
  qed
  then show ?thesis
  proof cases
    case m
    have "q = t * 1000 * 1000" using m(1) by simp
    then have "q mod 1000000 = 0" "q div 1000000 = t" "q mod 1000 = 0" using m(1) by simp_all
    with m show ?thesis by (intro exI [of _ t] exI [of _ a] exI [of _ 1048576]) simp
  next
    case k
    have "q mod 1000 = 0" "q div 1000 = t" using k(1) by simp_all
    with k show ?thesis by (intro exI [of _ t] exI [of _ b] exI [of _ 1024]) simp
  next
    case b
    with assms show ?thesis by (intro exI [of _ q] exI [of _ c] exI [of _ 1]) simp
  qed
qed

text \<open>
  The units as the two tools document them: the bits of \<open>tc\<close> count in thousands, the bytes of \<open>nft\<close> in units of 1024.
\<close>

definition tc_units :: "(string \<times> int) set" where
  "tc_units = {(''mbit'', 1000000), (''kbit'', 1000), (''bit'', 1)}"

definition nft_units :: "(string \<times> int) set" where
  "nft_units = {('' mbytes/second'', 1048576), ('' kbytes/second'', 1024), ('' bytes/second'', 1)}"

definition nft_burst_units :: "(string \<times> int) set" where
  "nft_burst_units = {('' kbytes'', 1024), ('' bytes'', 1)}"

text \<open>Fifty milliseconds of a rate in bytes per second, between 3200 bytes and 16 MiB.\<close>

definition bucket :: "int \<Rightarrow> int" where
  "bucket bytes = min 16777216 (max 3200 (bytes div 20))"

text \<open>
  C36. The rate handed to \<open>tc\<close> is exactly the limit in bits per second (at least one), whichever unit is chosen, and the bucket is fifty
  milliseconds of it, between 3200 bytes and 16 MiB.  The bucket handed to \<open>nft\<close> is that of the limit in whole bytes per second (at least one).
  The rate handed to \<open>nft\<close>, read in the units \<open>nft\<close> documents (a kbyte is 1024 bytes, where the code divides by 1000), is never less than the
  limit in whole bytes per second, exceeds it by at most a factor of 1.048576, and is equal to it exactly when the limit is not a multiple
  of 1000 bytes per second.
\<close>

theorem rates_exact:
  "(\<exists>n u m. formatTCRate bps = int_str n @ u \<and> (u, m) \<in> tc_units \<and> n * m = max 1 bps)
   \<and> formatTCBurst bps = int_str (bucket (bps div 8))
   \<and> (\<exists>n u m. snd (formatNFTRate bps) = int_str n @ u \<and> (u, m) \<in> nft_burst_units \<and> n * m = bucket (max 8 bps div 8))
   \<and> (\<exists>n u m. fst (formatNFTRate bps) = int_str n @ u \<and> (u, m) \<in> nft_units
        \<and> max 8 bps div 8 \<le> n * m \<and> n * m * 1000000 \<le> max 8 bps div 8 * 1048576
        \<and> (n * m = max 8 bps div 8 \<longleftrightarrow> max 8 bps div 8 mod 1000 \<noteq> 0))"
proof (intro conjI)
  have "(if bps < 1 then 1 else bps) = max 1 bps" by simp
  then show "\<exists>n u m. formatTCRate bps = int_str n @ u \<and> (u, m) \<in> tc_units \<and> n * m = max 1 bps"
    unfolding formatTCRate_def Let_def tc_units_def by (simp only: unit_chosen)
  show "formatTCBurst bps = int_str (bucket (bps div 8))"
    unfolding formatTCBurst_def bucket_def Let_def by (rule arg_cong [of _ _ int_str]) (simp add: min_def max_def)
  obtain x where x: "x = max 8 bps" "(if bps < 8 then 8 else bps) = x" "8 \<le> x" by simp
  have q: "1 \<le> x div 8" using x(3) by presburger
  then have e: "(if x div 8 < 1 then 1 else x div 8) = x div 8" by simp
  let ?low = "if x div 8 div 20 < 3200 then 3200 else x div 8 div 20"
  have b: "(if ?low > 16 * 1024 * 1024 then 16 * 1024 * 1024 else ?low) = bucket (x div 8)"
    by (simp add: bucket_def min_def max_def)
  have "\<exists>n u m. (if y mod 1024 = 0 \<and> y \<ge> 1024 then int_str (y div 1024) @ '' kbytes'' else int_str y @ '' bytes'')
      = int_str n @ u \<and> (u, m) \<in> nft_burst_units \<and> n * m = y" for y
  proof (cases "y mod 1024 = 0 \<and> y \<ge> 1024")
    case True
    then have "y div 1024 * 1024 = y" by (metis add.right_neutral div_mult_mod_eq)
    with True show ?thesis
      by (intro exI [of _ "y div 1024"] exI [of _ "'' kbytes''"] exI [of _ 1024]) (simp add: nft_burst_units_def)
  next
    case False
    then show ?thesis by (intro exI [of _ y] exI [of _ "'' bytes''"] exI [of _ 1]) (simp add: nft_burst_units_def)
  qed
  then show "\<exists>n u m. snd (formatNFTRate bps) = int_str n @ u \<and> (u, m) \<in> nft_burst_units \<and> n * m = bucket (max 8 bps div 8)"
    unfolding formatNFTRate_def Let_def x(2) e b x(1) [symmetric] snd_conv .
  show "\<exists>n u m. fst (formatNFTRate bps) = int_str n @ u \<and> (u, m) \<in> nft_units
        \<and> max 8 bps div 8 \<le> n * m \<and> n * m * 1000000 \<le> max 8 bps div 8 * 1048576
        \<and> (n * m = max 8 bps div 8 \<longleftrightarrow> max 8 bps div 8 mod 1000 \<noteq> 0)"
    unfolding formatNFTRate_def Let_def x(2) e x(1) [symmetric] fst_conv nft_units_def by (rule nft_unit_chosen [OF q])
qed

text \<open>
  So a limit of eight megabits per second, one million bytes, becomes \<open>1 mbytes/second\<close>, which is 1048576 bytes.
\<close>

lemma nft_exceeds: "fst (formatNFTRate 8000000) = ''1 mbytes/second'' \<and> ('' mbytes/second'', 1048576) \<in> nft_units"
proof -
  have "int_str 1 = ''1''" by code_simp
  then show ?thesis by (simp add: formatNFTRate_def nft_units_def Let_def)
qed

end
