(* ===== verification/DnsApply.thy ===== *)
theory DnsApply
  imports HostCmd
begin

text \<open>
  The resolver of the host for an interface (\<open>internal/wgbackend/dns_apply.go\<close>); the parsing of DNS lists is in
  \<open>Backend\<close>.  Parameter: which commands are in the path (\<open>exec.LookPath\<close>).
\<close>

record ifaceDNSState =
  ds_servers :: "string list"
  ds_domains :: "string list"
  ds_backend :: string
  ds_active :: bool

definition no_dns :: ifaceDNSState where
  "no_dns = \<lparr>ds_servers = [], ds_domains = [], ds_backend = [], ds_active = False\<rparr>"

definition commandExists :: "(string \<Rightarrow> bool) \<Rightarrow> 'k runner \<Rightarrow> string \<Rightarrow> 'k \<Rightarrow> bool \<times> 'k" where
  "commandExists inPath run name k =
     (if inPath name then (True, k)
      else case run name [''--version''] k of (Inr _, k1) \<Rightarrow> (True, k1)
        | (Inl _, k1) \<Rightarrow> (case run ''sh'' [''-c'', ''command -v '' @ name] k1 of
            (Inr _, k2) \<Rightarrow> (True, k2) | (Inl _, k2) \<Rightarrow> (False, k2)))"

definition resolveDNSBackend :: "(string \<Rightarrow> bool) \<Rightarrow> 'k runner \<Rightarrow> string \<Rightarrow> 'k \<Rightarrow> string \<times> 'k" where
  "resolveDNSBackend inPath run pref0 k =
     (let pref = ToLower (TrimSpace pref0) in
      if pref = ''resolvectl'' \<or> pref = ''resolvconf'' \<or> pref = ''none'' then (pref, k)
      else if pref = [] \<or> pref = ''auto'' then
        (case commandExists inPath run ''resolvectl'' k of (True, k1) \<Rightarrow> (''resolvectl'', k1)
         | (False, k1) \<Rightarrow> (case commandExists inPath run ''resolvconf'' k1 of
             (True, k2) \<Rightarrow> (''resolvconf'', k2) | (False, k2) \<Rightarrow> (''none'', k2)))
      else (''none'', k))"

definition DetectDNSBackend :: "(string \<Rightarrow> bool) \<Rightarrow> string" where
  "DetectDNSBackend inPath = (if inPath ''resolvectl'' then ''resolvectl''
     else if inPath ''resolvconf'' then ''resolvconf'' else ''none'')"

definition FormatDNSForConf :: "DNSConfig \<Rightarrow> string list" where
  "FormatDNSForConf cfg = dns_Servers cfg @ dns_Domains cfg"

definition applyResolvectl :: "'k runner \<Rightarrow> string \<Rightarrow> DNSConfig \<Rightarrow> 'k \<Rightarrow> string option \<times> 'k" where
  "applyResolvectl run iface cfg =
     until_error
       ((if dns_Servers cfg \<noteq> [] then [must run (\<lambda>_. False) ''resolvectl dns'' ''resolvectl'' ([''dns'', iface] @ dns_Servers cfg)] else [])
        @ (if dns_Domains cfg \<noteq> [] then [must run (\<lambda>_. False) ''resolvectl domain'' ''resolvectl'' ([''domain'', iface] @ dns_Domains cfg)] else [])
        @ (if dns_Servers cfg \<noteq> [] then
             [(\<lambda>k. (None, attempt run ''resolvectl'' [''llmnr'', iface, ''no'']
                (attempt run ''resolvectl'' [''default-route'', iface, ''true''] k)))] else []))"

text \<open>The bare address of a nameserver line.\<close>

definition nameserver :: "string \<Rightarrow> string" where
  "nameserver s =
     (if prefix ''['' s then
        (case LastIndex CHR '']'' s of Some i \<Rightarrow> if i > 0 then take (i - 1) (drop 1 s) else s | None \<Rightarrow> s)
      else (case SplitHostPort s of Some (h, _) \<Rightarrow> h | None \<Rightarrow> s))"

definition resolvconf_text :: "DNSConfig \<Rightarrow> string" where
  "resolvconf_text cfg = concat (map (\<lambda>s. ''nameserver '' @ nameserver s @ nl) (dns_Servers cfg))
     @ (if dns_Domains cfg \<noteq> [] then ''search '' @ Join (dns_Domains cfg) '' '' @ nl else [])"

definition applyResolvconf :: "'k runner \<Rightarrow> string \<Rightarrow> DNSConfig \<Rightarrow> 'k \<Rightarrow> string option \<times> 'k" where
  "applyResolvconf run iface cfg k =
     (if resolvconf_text cfg = [] then (None, k)
      else must run (\<lambda>_. False) ''resolvconf'' ''sh'' [''-c'', ''resolvconf -a '' @ resolvconfIface iface @ '' -m 0 -x <<'' @ [CHR 0x27] @ ''WGDNS''
        @ [CHR 0x27] @ nl @ resolvconf_text cfg @ ''WGDNS''] k)"

definition applyDNS :: "'k runner \<Rightarrow> string \<Rightarrow> string \<Rightarrow> DNSConfig \<Rightarrow> 'k \<Rightarrow> string option \<times> 'k" where
  "applyDNS run kind iface cfg k =
     (if kind = ''resolvectl'' then applyResolvectl run iface cfg k
      else if kind = ''resolvconf'' then applyResolvconf run iface cfg k
      else (Some (''unknown dns backend '' @ quoted kind), k))"

definition clearDNS :: "'k runner \<Rightarrow> string \<Rightarrow> string \<Rightarrow> 'k \<Rightarrow> 'k" where
  "clearDNS run kind iface k =
     (if kind = ''resolvectl'' then attempt run ''resolvectl'' [''revert'', iface] k
      else if kind = ''resolvconf'' then attempt run ''resolvconf'' [''-d'', resolvconfIface iface, ''-f''] k
      else k)"

definition dns_unchanged :: "ifaceDNSState \<Rightarrow> string \<Rightarrow> DNSConfig \<Rightarrow> bool" where
  "dns_unchanged st kind cfg \<longleftrightarrow> ds_active st \<and> ds_backend st = kind \<and> sameStrings (ds_servers st) (dns_Servers cfg)
     \<and> sameStrings (ds_domains st) (dns_Domains cfg)"

definition dns_sync :: "(string \<Rightarrow> bool) \<Rightarrow> 'k runner \<Rightarrow> string \<Rightarrow> DesiredInterface \<Rightarrow> ifaceDNSState \<Rightarrow> 'k
    \<Rightarrow> string option \<times> ifaceDNSState \<times> 'k" where
  "dns_sync inPath run pref di st k =
     (let name = di_Name di; cfg = ParseDNSList (di_DNS di) in
      if \<not> di_Enabled di \<or> (dns_Servers cfg = [] \<and> dns_Domains cfg = []) then
        (if ds_active st then (None, st\<lparr>ds_active := False, ds_servers := [], ds_domains := []\<rparr>, clearDNS run (ds_backend st) name k)
         else (None, st, k))
      else let (kind, k1) = resolveDNSBackend inPath run pref k in
        if kind = ''none'' then
          (Some ''dns: no resolvectl/resolvconf available (set wireguard.dns_backend or install one)'', st, k1)
        else if dns_unchanged st kind cfg then (None, st, k1)
        else let k2 = (if ds_active st then clearDNS run (ds_backend st) name k1 else k1);
                 (e, k3) = applyDNS run kind name cfg k2
          in case e of Some t \<Rightarrow> (Some t, st, k3)
             | None \<Rightarrow> (None, \<lparr>ds_servers = dns_Servers cfg, ds_domains = dns_Domains cfg, ds_backend = kind, ds_active = True\<rparr>, k3))"

end
