(* ===== verification/AccountLaws.thy ===== *)
theory AccountLaws
  imports TcLaws DnsApply
begin

text \<open>
  What the accounts of \<open>nft\<close> and of the resolver guarantee: after a synchronisation without errors they are what the database
  asks for.
\<close>

section \<open>Tables of nft\<close>




























text \<open>The names of tables are not told apart by the characters nft does not allow: two such interfaces share a table.\<close>

lemma tables_shared: "nftTableName ''wg-0'' = nftTableName ''wg_0''"
  by code_simp

section \<open>The resolver\<close>






text \<open>A host whose resolver keeps a list of servers and refuses one of them.\<close>

definition resolver_host :: "string list runner" where
  "resolver_host cmd args k =
     (if hd args = ''revert'' then (Inr [], [])
      else if hd args = ''dns'' then (if ''9.9.9.9'' \<in> set args then (Inl ''refused'', k) else (Inr [], drop 2 args))
      else (Inr [], k))"

definition dns_iface :: "string list \<Rightarrow> DesiredInterface" where
  "dns_iface servers = \<lparr>di_Name = ''wg0'', di_PrivateKey = [], di_ListenPort = 0, di_FwMark = 0, di_MTU = 0, di_Addresses = [],
     di_TableMode = [], di_TableID = None, di_DNS = servers, di_PreUp = [], di_PostUp = [], di_PreDown = [], di_PostDown = [],
     di_Enabled = True, di_Peers = [], di_Backend = [], di_Protocol = [], di_Amnezia = zero_amnezia\<rparr>"




text \<open>
  Applying new servers first clears the old ones.  When that fails the account still names the old ones, so going back to them
  is taken for no change, and the host is left without.
\<close>

lemma dns_lost_after_failure:
  "let st = no_dns\<lparr>ds_servers := [''1.1.1.1''], ds_backend := ''resolvectl'', ds_active := True\<rparr>;
       (e, st1, k1) = dns_sync (\<lambda>_. True) resolver_host ''auto'' (dns_iface [''9.9.9.9'']) st [''1.1.1.1''];
       (e', st2, k2) = dns_sync (\<lambda>_. True) resolver_host ''auto'' (dns_iface [''1.1.1.1'']) st1 k1
   in e \<noteq> None \<and> e' = None \<and> ds_active st2 \<and> ds_servers st2 = [''1.1.1.1''] \<and> k2 = []"
  by code_simp

end
