(* ===== verification/HostLink.thy ===== *)
theory HostLink
  imports HostCmd
begin

text \<open>
  The links of the host: running commands (\<open>internal/wgbackend/exec.go\<close>), probing what the host can do
  (\<open>resolve.go\<close>), creating and removing links (\<open>create_link.go\<close>), their flags and addresses (\<open>netlink_addrs.go\<close>) and
  \<open>wg-quick\<close> (\<open>wg_cli.go\<close>).  The operating system is a record of functions: what a command does, which
  files exist, the clock and the passing of 50 ms.
\<close>

section \<open>The operating system\<close>

text \<open>\<open>os/exec\<close>: the two outputs and the error of a command.\<close>

type_synonym 'k os_exec = "string \<Rightarrow> string list \<Rightarrow> 'k \<Rightarrow> (string \<times> string \<times> string option) \<times> 'k"

definition ExecRunner_Run :: "'k os_exec \<Rightarrow> string \<Rightarrow> string list \<Rightarrow> 'k \<Rightarrow> (string \<times> string option) \<times> 'k" where
  "ExecRunner_Run ex cmd args k =
     (case ex cmd args k of ((out, err, e), k') \<Rightarrow>
       ((out, case e of None \<Rightarrow> None
         | Some t \<Rightarrow> (let m = TrimSpace err; msg = (if m = [] then t else m) in
             Some (cmd @ '' '' @ Join args '' '' @ '': '' @ msg))), k'))"

record 'k os =
  os_Run :: "string \<Rightarrow> string list \<Rightarrow> 'k \<Rightarrow> (string \<times> string option) \<times> 'k"
  os_exists :: "string \<Rightarrow> 'k \<Rightarrow> bool"
  os_is_dir :: "string \<Rightarrow> 'k \<Rightarrow> bool"
  os_now :: "'k \<Rightarrow> gotime"
  os_sleep :: "'k \<Rightarrow> bool \<times> 'k"

text \<open>Most callers look at the output only when there is no error.\<close>

definition runner_of :: "'k os \<Rightarrow> 'k runner" where
  "runner_of os cmd args k = (case os_Run os cmd args k of ((out, e), k') \<Rightarrow> (case e of None \<Rightarrow> Inr out | Some t \<Rightarrow> Inl t, k'))"

text \<open>A command that is only asked whether it succeeds.\<close>

definition succeeds :: "'k runner \<Rightarrow> string \<Rightarrow> string list \<Rightarrow> 'k \<Rightarrow> bool \<times> 'k" where
  "succeeds run cmd args k = (case run cmd args k of (Inr _, k') \<Rightarrow> (True, k') | (Inl _, k') \<Rightarrow> (False, k'))"

definition wg_quick :: "string \<Rightarrow> 'k runner \<Rightarrow> string \<Rightarrow> 'k \<Rightarrow> string option \<times> 'k" where
  "wg_quick verb run name k = (case run ''wg-quick'' [verb, name] k of (r, k') \<Rightarrow> (failed r, k'))"

text \<open>\<open>n, _ := strconv.Atoi(s)\<close>: 0 for bad syntax, the nearest number when out of range.\<close>

definition AtoiValue :: "string \<Rightarrow> int" where
  "AtoiValue s =
     (case Atoi s of Some n \<Rightarrow> n
      | None \<Rightarrow> (let neg = prefix ''-'' s; ds = (if neg \<or> prefix ''+'' s then tl s else s) in
          if ds = [] \<or> \<not> list_all is_digit ds then 0 else if neg then - (2 ^ 63) else 2 ^ 63 - 1))"

lemma AtoiValue_int_str: "in64 i \<Longrightarrow> AtoiValue (int_str i) = i"
  by (simp add: AtoiValue_def Atoi_int_str_in64)

section \<open>What the host can do\<close>

definition DefaultWireGuardGo :: string where "DefaultWireGuardGo = ''wireguard-go''"
definition DefaultAmneziaWGGo :: string where "DefaultAmneziaWGGo = ''amneziawg-go''"
definition DefaultSwiftWG :: string where "DefaultSwiftWG = ''swiftwg''"
definition DefaultAWGTool :: string where "DefaultAWGTool = ''awg''"
definition DefaultWGTool :: string where "DefaultWGTool = ''wg''"
definition ModuleWireGuard :: string where "ModuleWireGuard = ''wireguard''"
definition ModuleAmneziaWG :: string where "ModuleAmneziaWG = ''amneziawg''"
definition UserspaceSockDirWG :: string where "UserspaceSockDirWG = ''/var/run/wireguard''"
definition UserspaceSockDirAWG :: string where "UserspaceSockDirAWG = ''/var/run/amneziawg''"

record probe =
  pr_caps :: "BackendCaps option"
  pr_wgGo :: string
  pr_awgGo :: string
  pr_swiftWG :: string
  pr_awgTool :: string

definition NewCapabilityProbe :: "string \<Rightarrow> string \<Rightarrow> string \<Rightarrow> probe" where
  "NewCapabilityProbe wgGo awgGo awgTool =
     \<lparr>pr_caps = None, pr_wgGo = or_else wgGo DefaultWireGuardGo, pr_awgGo = or_else awgGo DefaultAmneziaWGGo,
      pr_swiftWG = [], pr_awgTool = or_else awgTool DefaultAWGTool\<rparr>"

definition swiftBin :: "probe \<Rightarrow> string" where
  "swiftBin p = or_else (pr_swiftWG p) DefaultSwiftWG"

definition Invalidate :: "probe \<Rightarrow> probe" where
  "Invalidate p = p\<lparr>pr_caps := None\<rparr>"

definition shellQuote :: "string \<Rightarrow> string" where
  "shellQuote s = [CHR 0x27] @ concat (map (\<lambda>c. if c = CHR 0x27 then [CHR 0x27, CHR 0x22, CHR 0x27, CHR 0x22, CHR 0x27] else [c]) s) @ [CHR 0x27]"

definition binaryExists :: "'k os \<Rightarrow> string \<Rightarrow> 'k \<Rightarrow> bool \<times> 'k" where
  "binaryExists os name k =
     (if name = [] then (False, k)
      else if prefix ''/'' name then (os_exists os name k \<and> \<not> os_is_dir os name k, k)
      else succeeds (runner_of os) ''sh'' [''-c'', ''command -v '' @ shellQuote name] k)"

text \<open>\<open>ip link help\<close> usually fails; both its outputs are searched.\<close>

definition canIPLinkType :: "'k os \<Rightarrow> string \<Rightarrow> 'k \<Rightarrow> bool \<times> 'k" where
  "canIPLinkType os kind k =
     (case os_Run os ''ip'' [''link'', ''help''] k of ((out, e), k') \<Rightarrow>
       (has_text (case e of None \<Rightarrow> out | Some t \<Rightarrow> t @ nl @ out) kind, k'))"

definition moduleLoaded :: "'k os \<Rightarrow> string \<Rightarrow> 'k \<Rightarrow> bool" where
  "moduleLoaded os name k = os_exists os (''/sys/module/'' @ name) k"

definition kernel_has :: "'k os \<Rightarrow> string \<Rightarrow> 'k \<Rightarrow> bool \<times> 'k" where
  "kernel_has os kind k = (if moduleLoaded os kind k then (True, k) else canIPLinkType os kind k)"

definition Caps :: "'k os \<Rightarrow> probe \<Rightarrow> 'k \<Rightarrow> BackendCaps \<times> probe \<times> 'k" where
  "Caps os p k =
     (case pr_caps p of Some c \<Rightarrow> (c, p, k)
      | None \<Rightarrow>
        (let (kw, k1) = kernel_has os ModuleWireGuard k;
             (uw, k2) = binaryExists os (pr_wgGo p) k1;
             (ka, k3) = kernel_has os ModuleAmneziaWG k2;
             (ua, k4) = binaryExists os (pr_awgGo p) k3;
             (sw, k5) = binaryExists os (swiftBin p) k4;
             (tool, k6) = binaryExists os (pr_awgTool p) k5;
             c = \<lparr>cap_KernelWG = kw, cap_UserspaceWG = uw, cap_KernelAmnezia = ka, cap_UserspaceAmnezia = ua,
               cap_Swift = sw, cap_AWGTool = tool\<rparr>
         in (c, p\<lparr>pr_caps := Some c\<rparr>, k6)))"

text \<open>A name in quotes as the shell reads it: \<open>None\<close> if a character is outside quotes or special inside double ones.\<close>

datatype quote_mode = Bare | Single | Double

fun sh_word :: "quote_mode \<Rightarrow> string \<Rightarrow> string option" where
  "sh_word m [] = (if m = Bare then Some [] else None)"
| "sh_word Bare (c # cs) = (if c = CHR 0x27 then sh_word Single cs else if c = CHR 0x22 then sh_word Double cs else None)"
| "sh_word Single (c # cs) = (if c = CHR 0x27 then sh_word Bare cs else map_option ((#) c) (sh_word Single cs))"
| "sh_word Double (c # cs) = (if c = CHR 0x22 then sh_word Bare cs
     else if c = CHR ''$'' \<or> c = CHR 0x60 \<or> c = CHR 0x5C then None else map_option ((#) c) (sh_word Double cs))"

lemma sh_word_quoted:
  "sh_word Single (concat (map (\<lambda>c. if c = CHR 0x27 then [CHR 0x27, CHR 0x22, CHR 0x27, CHR 0x22, CHR 0x27] else [c]) s) @ [CHR 0x27]) = Some s"
  by (induction s) simp_all

text \<open>
  Whatever bytes the configured name of a binary holds, the shell reads the quoted form as exactly that one word: no
  character of it is left to be interpreted.
\<close>

theorem shell_quote_exact: "sh_word Bare (shellQuote s) = Some s"
  using sh_word_quoted [of s] by (simp add: shellQuote_def)

section \<open>Links\<close>

definition linkExists :: "'k runner \<Rightarrow> string \<Rightarrow> 'k \<Rightarrow> bool \<times> 'k" where
  "linkExists run name = succeeds run ''ip'' [''link'', ''show'', ''dev'', name]"

definition linkIsUp :: "'k runner \<Rightarrow> string \<Rightarrow> 'k \<Rightarrow> bool \<times> 'k" where
  "linkIsUp run name k =
     (case run ''ip'' [''-o'', ''link'', ''show'', ''dev'', name] k of
        (Inl _, k') \<Rightarrow> (False, k') | (Inr out, k') \<Rightarrow> (has_text out '',UP'' \<or> has_text out ''<UP'', k'))"

fun mtu_field :: "string list \<Rightarrow> int" where
  "mtu_field (x # y # rest) = (if x = ''mtu'' then AtoiValue y else mtu_field (y # rest))"
| "mtu_field _ = 0"

definition linkMTU :: "'k runner \<Rightarrow> string \<Rightarrow> 'k \<Rightarrow> int \<times> 'k" where
  "linkMTU run name k =
     (case run ''ip'' [''-o'', ''link'', ''show'', ''dev'', name] k of
        (Inl _, k') \<Rightarrow> (0, k') | (Inr out, k') \<Rightarrow> (mtu_field (Fields out), k'))"

definition deleteLink :: "'k runner \<Rightarrow> string \<Rightarrow> 'k \<Rightarrow> string option \<times> 'k" where
  "deleteLink run name k =
     (case linkExists run name k of (False, k1) \<Rightarrow> (None, k1)
      | (True, k1) \<Rightarrow> (case run ''ip'' [''link'', ''del'', ''dev'', name] k1 of (r, k2) \<Rightarrow> (failed r, k2)))"

definition setLinkUp :: "'k runner \<Rightarrow> string \<Rightarrow> bool \<Rightarrow> 'k \<Rightarrow> string option \<times> 'k" where
  "setLinkUp run name up k =
     (case run ''ip'' [''link'', ''set'', ''dev'', name, if up then ''up'' else ''down''] k of (r, k') \<Rightarrow> (failed r, k'))"

definition setMTU :: "'k runner \<Rightarrow> string \<Rightarrow> int \<Rightarrow> 'k \<Rightarrow> string option \<times> 'k" where
  "setMTU run name mtu k =
     (if mtu \<le> 0 then (None, k)
      else case run ''ip'' [''link'', ''set'', ''dev'', name, ''mtu'', int_str mtu] k of (r, k') \<Rightarrow> (failed r, k'))"

text \<open>\<open>rm -f\<close> of both sockets follows; the result is always success.\<close>

definition sock :: "string \<Rightarrow> string \<Rightarrow> string" where
  "sock dir name = dir @ ''/'' @ name @ ''.sock''"

definition deleteLinkExtended :: "'k runner \<Rightarrow> string \<Rightarrow> 'k \<Rightarrow> 'k" where
  "deleteLinkExtended run name k =
     attempt run ''rm'' [''-f'', sock UserspaceSockDirAWG name]
       (attempt run ''rm'' [''-f'', sock UserspaceSockDirWG name] (snd (deleteLink run name k)))"

definition linkKind :: "'k runner \<Rightarrow> string \<Rightarrow> 'k \<Rightarrow> string \<times> 'k" where
  "linkKind run name k =
     (case run ''ip'' [''-d'', ''link'', ''show'', ''dev'', name] k of
        (Inl _, k') \<Rightarrow> ([], k')
      | (Inr out, k') \<Rightarrow> (let low = ToLower out in
          (if has_text low ''amneziawg'' then ''amneziawg'' else if has_text low ''wireguard'' then ''wireguard'' else [], k')))"

definition detectLiveBackend :: "'k os \<Rightarrow> string \<Rightarrow> 'k \<Rightarrow> string \<times> 'k" where
  "detectLiveBackend os name k =
     (case linkKind (runner_of os) name k of (kind, k') \<Rightarrow>
       (let awg = os_exists os (sock UserspaceSockDirAWG name) k'; wg = os_exists os (sock UserspaceSockDirWG name) k' in
        (if kind = ''amneziawg'' then (if awg then BackendAmneziaGo else BackendAmneziaKernel)
         else if kind = ''wireguard'' then (if wg then BackendUserspace else BackendKernel)
         else if awg then BackendAmneziaGo else if wg then BackendUserspace else BackendKernel, k')))"

section \<open>Creating links\<close>

record binaries =
  bin_wgGo :: string
  bin_awgGo :: string
  bin_swift :: string
  bin_awgTool :: string
  bin_wgTool :: string

definition toolForBackend :: "binaries \<Rightarrow> string \<Rightarrow> string" where
  "toolForBackend b backend = (if IsAmneziaBackend backend then bin_awgTool b else bin_wgTool b)"

definition createKernelLink :: "'k runner \<Rightarrow> string \<Rightarrow> string \<Rightarrow> 'k \<Rightarrow> string option \<times> 'k" where
  "createKernelLink run name kind k =
     (let m = (if kind = ''amneziawg'' then ModuleAmneziaWG else if kind = ''wireguard'' then ModuleWireGuard else kind)
      in must run (\<lambda>_. False) (''ip link add type '' @ kind) ''ip'' [''link'', ''add'', ''dev'', name, ''type'', kind]
           (attempt run ''modprobe'' [m] k))"

text \<open>
  Polling until the link is there: \<open>Some None\<close> when it is, an error when the context is cancelled while
  sleeping, \<open>None\<close> at the deadline.  The recursion is undefined if the deadline never comes.
\<close>

partial_function (option) wait_link :: "'k os \<Rightarrow> string \<Rightarrow> gotime \<Rightarrow> 'k \<Rightarrow> (string option option \<times> 'k) option" where
  "wait_link os name deadline k =
     (if os_now os k < deadline then
        (case linkExists (runner_of os) name k of (found, k1) \<Rightarrow>
          if found then Some (Some None, k1)
          else case os_sleep os k1 of (stop, k2) \<Rightarrow>
            if stop then Some (Some (Some ''context canceled''), k2) else wait_link os name deadline k2)
      else Some (None, k))"

definition startUserspace :: "'k os \<Rightarrow> string \<Rightarrow> string \<Rightarrow> string \<Rightarrow> 'k \<Rightarrow> (string option \<times> 'k) option" where
  "startUserspace os name binary sockDir k =
     (if binary = [] then Some (Some (''userspace binary not configured for '' @ name), k)
      else case runner_of os binary [name] k of
          (Inl t, k1) \<Rightarrow> Some (Some (binary @ '' '' @ name @ '': '' @ t), k1)
        | (Inr _, k1) \<Rightarrow>
          (case wait_link os name (os_now os k1 + 5 * Second) k1 of
             None \<Rightarrow> None
           | Some (Some e, k2) \<Rightarrow> Some (e, k2)
           | Some (None, k2) \<Rightarrow> (case linkExists (runner_of os) name k2 of
               (True, k3) \<Rightarrow> Some (None, k3)
             | (False, k3) \<Rightarrow> Some (Some (binary @ '' started but interface '' @ name @ '' did not appear (sock dir '' @ sockDir @ '')''), k3))))"

definition create_link :: "'k os \<Rightarrow> binaries \<Rightarrow> string \<Rightarrow> string \<Rightarrow> 'k \<Rightarrow> (string option \<times> 'k) option" where
  "create_link os b name backend k =
     (let run = runner_of os in
      if backend = BackendKernel then Some (createKernelLink run name ''wireguard'' k)
      else if backend = BackendUserspace then startUserspace os name (bin_wgGo b) UserspaceSockDirWG k
      else if backend = BackendAmneziaKernel then
        (case createKernelLink run name ''amneziawg'' k of
           (None, k1) \<Rightarrow> Some (None, k1)
         | (Some e, k1) \<Rightarrow> (case binaryExists os (bin_awgGo b) k1 of
             (True, k2) \<Rightarrow> startUserspace os name (bin_awgGo b) UserspaceSockDirAWG k2
           | (False, k2) \<Rightarrow> Some (Some e, k2)))
      else if backend = BackendAmneziaGo then startUserspace os name (bin_awgGo b) UserspaceSockDirAWG k
      else if backend = BackendSwift then startUserspace os name (bin_swift b) UserspaceSockDirAWG k
      else Some (Some (''unknown backend '' @ quoted backend), k))"

text \<open>An existing link is replaced only when it is of the wrong family, or a userspace leftover where the kernel is wanted.\<close>

definition replaces_link :: "'k os \<Rightarrow> string \<Rightarrow> string \<Rightarrow> string \<Rightarrow> 'k \<Rightarrow> bool" where
  "replaces_link os name backend kind k \<longleftrightarrow>
     IsAmneziaBackend backend \<and> kind \<noteq> ''amneziawg'' \<and> kind \<noteq> []
     \<or> backend = BackendKernel \<and> kind = [] \<and> os_exists os (sock UserspaceSockDirAWG name) k"

definition ensureLink :: "'k os \<Rightarrow> binaries \<Rightarrow> string \<Rightarrow> string \<Rightarrow> 'k \<Rightarrow> (string option \<times> 'k) option" where
  "ensureLink os b name backend k =
     (let run = runner_of os in
      case linkExists run name k of
        (False, k1) \<Rightarrow> create_link os b name backend k1
      | (True, k1) \<Rightarrow> (case linkKind run name k1 of (kind, k2) \<Rightarrow>
          (if replaces_link os name backend kind k2 then create_link os b name backend (deleteLinkExtended run name k2)
           else Some (None, k2))))"

section \<open>Addresses\<close>

fun inet_fields :: "string list \<Rightarrow> string list" where
  "inet_fields (x # y # rest) = (if x = ''inet'' \<or> x = ''inet6'' then [y] else []) @ inet_fields (y # rest)"
| "inet_fields _ = []"

definition addr_lines :: "string \<Rightarrow> string list" where
  "addr_lines out = concat (map (\<lambda>raw. let line = TrimSpace raw in if line = [] then [] else inet_fields (Fields line)) (split_on (CHR 0x0A) out))"

definition listAddresses :: "'k runner \<Rightarrow> string \<Rightarrow> 'k \<Rightarrow> (string + string list) \<times> 'k" where
  "listAddresses run name k =
     (case run ''ip'' [''-o'', ''addr'', ''show'', ''dev'', name] k of
        (Inl t, k') \<Rightarrow> (Inl t, k') | (Inr out, k') \<Rightarrow> (Inr (addr_lines out), k'))"

definition link_local :: "string \<Rightarrow> bool" where
  "link_local a = prefix ''fe80:'' a"

definition del_address :: "'k runner \<Rightarrow> string \<Rightarrow> string list \<Rightarrow> string \<Rightarrow> 'k \<Rightarrow> 'k" where
  "del_address run name desired a k =
     (if link_local a \<or> a \<in> set desired then k else attempt run ''ip'' [''addr'', ''del'', a, ''dev'', name] k)"

definition add_address :: "'k runner \<Rightarrow> string \<Rightarrow> string list \<Rightarrow> string \<Rightarrow> 'k \<Rightarrow> string option \<times> 'k" where
  "add_address run name known a k =
     (if a \<in> set known then (None, k)
      else must run (\<lambda>t. has_text t ''File exists'') (''addr add '' @ a) ''ip'' [''addr'', ''add'', a, ''dev'', name] k)"

definition syncAddresses :: "'k runner \<Rightarrow> string \<Rightarrow> string list \<Rightarrow> 'k \<Rightarrow> string option \<times> 'k" where
  "syncAddresses run name desired k =
     (if desired = [] then (None, k)
      else case listAddresses run name k of (r, k1) \<Rightarrow>
        (let current = (case r of Inl _ \<Rightarrow> [] | Inr l \<Rightarrow> l); known = filter (\<lambda>a. \<not> link_local a) current in
         until_error (map (add_address run name known) desired) (fold (del_address run name desired) current k1)))"

section \<open>Waiting ends\<close>

text \<open>Time passes while sleeping, and no command turns the clock back.\<close>

definition time_passes :: "'k os \<Rightarrow> bool" where
  "time_passes os \<longleftrightarrow> (\<forall>k. os_now os k + 50000000 \<le> os_now os (snd (os_sleep os k)))
     \<and> (\<forall>cmd args k. os_now os k \<le> os_now os (snd (runner_of os cmd args k)))"

lemma wait_link_returns:
  assumes "time_passes os"
  shows "wait_link os name deadline k \<noteq> None"
proof (induction "nat (deadline - os_now os k)" arbitrary: k rule: less_induct)
  case less
  obtain found k1 where l: "linkExists (runner_of os) name k = (found, k1)" by fastforce
  obtain stop k2 where z: "os_sleep os k1 = (stop, k2)" by fastforce
  have "os_now os k \<le> os_now os k1"
    using assms l by (auto simp: time_passes_def linkExists_def succeeds_def split: prod.splits sum.splits) (metis snd_conv)+
  moreover have "os_now os k1 + 50000000 \<le> os_now os k2" using assms z by (metis time_passes_def snd_conv)
  ultimately have "os_now os k < deadline \<Longrightarrow> nat (deadline - os_now os k2) < nat (deadline - os_now os k)" by simp
  with less [of k2] show ?case by (subst wait_link.simps) (simp add: l z)
qed

text \<open>
  Starting a userspace data plane always returns, as long as sleeping takes time and the clock is not turned back.
\<close>

theorem userspace_start_returns:
  assumes "time_passes os"
  shows "\<exists>e k'. startUserspace os name binary dir k = Some (e, k')"
proof -
  obtain r k1 where r: "runner_of os binary [name] k = (r, k1)" by fastforce
  obtain e k2 where w: "wait_link os name (os_now os k1 + 5 * Second) k1 = Some (e, k2)"
    using wait_link_returns [OF assms] by (metis not_None_eq prod.exhaust)
  show ?thesis
    by (cases "binary = []"; cases r; cases e) (simp_all add: startUserspace_def r w split: prod.split bool.split)
qed

text \<open>A host on which a data plane starts but its link never appears; commands take no time, sleeping takes 50 ms.\<close>

definition idle_os :: "gotime os" where
  "idle_os = \<lparr>os_Run = \<lambda>cmd _ k. (([], if cmd = ''ip'' then Some ''no'' else None), k), os_exists = \<lambda>_ _. False, os_is_dir = \<lambda>_ _. False,
     os_now = \<lambda>k. k, os_sleep = \<lambda>k. (False, k + 50000000)\<rparr>"

theorem userspace_start_returns_witness: "\<exists>e k'. startUserspace idle_os ''wg0'' ''swiftwg'' UserspaceSockDirAWG 0 = Some (e, k')"
  by (rule userspace_start_returns) (simp add: time_passes_def idle_os_def runner_of_def)

section \<open>Addresses compared as text\<close>

text \<open>
  An address that \<open>ip\<close> prints in another form than it was configured in is deleted and added again by every synchronisation.
\<close>

definition printing_host :: "(string \<times> string list) list runner" where
  "printing_host cmd args k = (Inr (if hd args = ''-o'' then ''2: wg0 inet6 fd00::1/64 scope global'' else []), k @ [(cmd, args)])"

lemma address_flaps:
  "syncAddresses printing_host ''wg0'' [''FD00::1/64''] [] =
     (None, [(''ip'', [''-o'', ''addr'', ''show'', ''dev'', ''wg0'']), (''ip'', [''addr'', ''del'', ''fd00::1/64'', ''dev'', ''wg0'']),
       (''ip'', [''addr'', ''add'', ''FD00::1/64'', ''dev'', ''wg0''])])"
  by code_simp

end
