(* ===== verification/HostPeers.thy ===== *)
theory HostPeers
  imports HostLink
begin

text \<open>
  Configuring devices and their peers (\<open>internal/wgbackend/wgctrl_backend.go\<close>, \<open>uapi_set.go\<close>): through the library \<open>awgctrl\<close>, whose
  functions are a record of parameters, and through the command-line tools where that fails.
\<close>

section \<open>The library\<close>

text \<open>\<open>wgtypes.PeerConfig\<close>, \<open>wgtypes.Config\<close>, \<open>wgtypes.Peer\<close> and \<open>wgtypes.Device\<close>, for any type of keys and of UDP addresses.\<close>

record ('key, 'udp) peer_config =
  pc_PublicKey :: 'key
  pc_Remove :: bool
  pc_PresharedKey :: "'key option"
  pc_Endpoint :: "'udp option"
  pc_PersistentKeepaliveInterval :: "duration option"
  pc_ReplaceAllowedIPs :: bool
  pc_AllowedIPs :: "IPNet list"
  pc_AdvancedSecurity :: bool

record ('key, 'udp) wg_config =
  wc_PrivateKey :: "'key option"
  wc_ListenPort :: "int option"
  wc_FirewallMark :: "int option"
  wc_ReplacePeers :: bool
  wc_Peers :: "('key, 'udp) peer_config list"
  wc_ints :: "(string \<times> int option) list"
  wc_strs :: "(string \<times> string option) list"

record ('key, 'udp) wg_peer =
  wp_PublicKey :: 'key
  wp_PresharedKey :: 'key
  wp_Endpoint :: "'udp option"
  wp_PersistentKeepaliveInterval :: duration
  wp_LastHandshakeTime :: gotime
  wp_ReceiveBytes :: int
  wp_TransmitBytes :: int
  wp_AllowedIPs :: "IPNet list"

record ('key, 'udp) wg_device =
  wd_Name :: string
  wd_PrivateKey :: 'key
  wd_PublicKey :: 'key
  wd_ListenPort :: int
  wd_FirewallMark :: int
  wd_IsAmnezia :: bool
  wd_Peers :: "('key, 'udp) wg_peer list"

record ('key, 'udp, 'k) wg_client =
  cl_ParseKey :: "string \<Rightarrow> string + 'key"
  cl_KeyString :: "'key \<Rightarrow> string"
  cl_ResolveUDP :: "'k \<Rightarrow> string \<Rightarrow> string + 'udp"
  cl_UDPString :: "'udp \<Rightarrow> string"
  cl_Device :: "string \<Rightarrow> 'k \<Rightarrow> string + ('key, 'udp) wg_device"
  cl_Devices :: "'k \<Rightarrow> string + ('key, 'udp) wg_device list"
  cl_ConfigureDevice :: "string \<Rightarrow> ('key, 'udp) wg_config \<Rightarrow> 'k \<Rightarrow> string option \<times> 'k"

section \<open>Reading a device\<close>

text \<open>\<open>net.IPNet.String\<close> for the masks of prefixes.\<close>

definition IPNet_String :: "IPNet \<Rightarrow> string" where
  "IPNet_String n =
     (let nn = (case To4 (net_IP n) of Some y \<Rightarrow> y | None \<Rightarrow> net_IP n);
          m = (if length (net_Mask n) = 16 \<and> length nn = 4 then drop 12 (net_Mask n) else net_Mask n)
      in if length nn \<noteq> length m \<or> length nn \<notin> {4, 16} then ''<nil>''
         else IP_String nn @ ''/'' @ nat_str (fst (Mask_Size m)))"

definition zero_empty :: "string \<Rightarrow> string" where
  "zero_empty s = (if IsZeroKey s then [] else s)"

definition convert_peer :: "('key, 'udp, 'k) wg_client \<Rightarrow> ('key, 'udp) wg_peer \<Rightarrow> live_peer" where
  "convert_peer cl p =
     \<lparr>lp_PublicKey = cl_KeyString cl (wp_PublicKey p), lp_PresharedKey = zero_empty (cl_KeyString cl (wp_PresharedKey p)),
      lp_Endpoint = (case wp_Endpoint p of None \<Rightarrow> [] | Some u \<Rightarrow> cl_UDPString cl u),
      lp_AllowedIPs = map IPNet_String (wp_AllowedIPs p), lp_PersistentKeepaliveInterval = wp_PersistentKeepaliveInterval p,
      lp_LastHandshakeTime = wp_LastHandshakeTime p, lp_ReceiveBytes = wp_ReceiveBytes p, lp_TransmitBytes = wp_TransmitBytes p\<rparr>"

definition convertDevice :: "('key, 'udp, 'k) wg_client \<Rightarrow> ('key, 'udp) wg_device \<Rightarrow> Device" where
  "convertDevice cl d =
     \<lparr>d_Name = wd_Name d, d_PublicKey = cl_KeyString cl (wd_PublicKey d), d_PrivateKey = zero_empty (cl_KeyString cl (wd_PrivateKey d)),
      d_ListenPort = wd_ListenPort d, d_FirewallMark = wd_FirewallMark d, d_MTU = 0, d_Addresses = [],
      d_Peers = map (convert_peer cl) (wd_Peers d), d_Up = True,
      d_Backend = (if wd_IsAmnezia d then BackendAmneziaKernel else []),
      d_Protocol = (if wd_IsAmnezia d then ProtocolAWG else ProtocolWG)\<rparr>"

section \<open>Configuring the interface\<close>

definition no_config :: "('key, 'udp) wg_config" where
  "no_config = \<lparr>wc_PrivateKey = None, wc_ListenPort = None, wc_FirewallMark = None, wc_ReplacePeers = False, wc_Peers = [],
     wc_ints = map (\<lambda>f. (f, None)) [''Jc'', ''Jmin'', ''Jmax'', ''S1'', ''S2'', ''S3'', ''S4''],
     wc_strs = map (\<lambda>f. (f, None)) [''H1'', ''H2'', ''H3'', ''H4'', ''I1'', ''I2'', ''I3'', ''I4'', ''I5'']\<rparr>"

definition intPtr :: "int \<Rightarrow> int option" where
  "intPtr v = (if v = 0 then None else Some v)"

definition strPtr :: "string \<Rightarrow> string option" where
  "strPtr s = (if s = [] then None else Some s)"

definition header_ptrs :: "AmneziaParams \<Rightarrow> (string \<times> string option) list" where
  "header_ptrs p = [(''H1'', strPtr (am_H1 p)), (''H2'', strPtr (am_H2 p)), (''H3'', strPtr (am_H3 p)), (''H4'', strPtr (am_H4 p))]"

definition applyAmneziaToConfig :: "AmneziaParams \<Rightarrow> ('key, 'udp) wg_config \<Rightarrow> ('key, 'udp) wg_config" where
  "applyAmneziaToConfig p0 cfg =
     (let p = (if IsZeroParams p0 then NeutralAmneziaParams else p0);
          hs = header_ptrs p;
          headers = (if \<forall>h\<in>set hs. snd h = None then header_ptrs NeutralAmneziaParams else hs)
      in cfg\<lparr>wc_ints := [(''Jc'', intPtr (am_Jc p)), (''Jmin'', intPtr (am_Jmin p)), (''Jmax'', intPtr (am_Jmax p)),
             (''S1'', intPtr (am_S1 p)), (''S2'', intPtr (am_S2 p)), (''S3'', intPtr (am_S3 p)), (''S4'', intPtr (am_S4 p))],
           wc_strs := headers @ [(''I1'', strPtr (am_I1 p)), (''I2'', strPtr (am_I2 p)), (''I3'', strPtr (am_I3 p)),
             (''I4'', strPtr (am_I4 p)), (''I5'', strPtr (am_I5 p))]\<rparr>)"

definition wants_amnezia :: "DesiredInterface \<Rightarrow> string \<Rightarrow> bool" where
  "wants_amnezia di resolved \<longleftrightarrow> \<not> IsZeroParams (di_Amnezia di) \<or> di_Protocol di = ProtocolAWG \<or> IsAmneziaBackend resolved"

definition has_any :: "('key, 'udp) wg_config \<Rightarrow> bool" where
  "has_any c \<longleftrightarrow> wc_PrivateKey c \<noteq> None \<or> wc_ListenPort c \<noteq> None \<or> wc_FirewallMark c \<noteq> None
     \<or> (\<exists>x\<in>set (wc_ints c). snd x \<noteq> None) \<or> (\<exists>x\<in>set (wc_strs c). snd x \<noteq> None)"

definition iface_config :: "DesiredInterface \<Rightarrow> string \<Rightarrow> 'key option \<Rightarrow> ('key, 'udp) wg_config" where
  "iface_config di resolved priv =
     (let c = no_config\<lparr>wc_PrivateKey := priv, wc_ListenPort := (if di_ListenPort di > 0 then Some (di_ListenPort di) else None),
            wc_FirewallMark := (if di_FwMark di > 0 then Some (di_FwMark di) else None)\<rparr>
      in if wants_amnezia di resolved then applyAmneziaToConfig (di_Amnezia di) c else c)"

definition configureDeviceAwgctrl :: "('key, 'udp, 'k) wg_client \<Rightarrow> DesiredInterface \<Rightarrow> string \<Rightarrow> 'k \<Rightarrow> string option \<times> 'k" where
  "configureDeviceAwgctrl cl di resolved k =
     (let send = (\<lambda>priv. let c = iface_config di resolved priv in
            if \<not> has_any c then (None, k)
            else case cl_ConfigureDevice cl (di_Name di) c k of (e, k') \<Rightarrow> (map_option (\<lambda>t. ''configure device: '' @ t) e, k'))
      in if IsZeroKey (di_PrivateKey di) then send None
         else case cl_ParseKey cl (di_PrivateKey di) of
             Inl t \<Rightarrow> (Some (''private key: '' @ t), k) | Inr key \<Rightarrow> send (Some key))"

section \<open>Configuring the peers\<close>

definition parseIPNet :: "string \<Rightarrow> IPNet option" where
  "parseIPNet a =
     (case ParseCIDR a of Some (_, n) \<Rightarrow> Some n
      | None \<Rightarrow> (case ParseIP a of None \<Rightarrow> None
        | Some x \<Rightarrow> Some \<lparr>net_IP = x, net_Mask = (if To4 x \<noteq> None then CIDRMask 32 32 else CIDRMask 128 128)\<rparr>))"

fun parse_nets :: "string list \<Rightarrow> string + IPNet list" where
  "parse_nets [] = Inr []"
| "parse_nets (a # as) =
     (case parseIPNet a of None \<Rightarrow> Inl (''allowed ip '' @ a @ '': invalid CIDR address: '' @ a)
      | Some n \<Rightarrow> (case parse_nets as of Inl e \<Rightarrow> Inl e | Inr ns \<Rightarrow> Inr (n # ns)))"

definition optional :: "string \<Rightarrow> (string \<Rightarrow> string + 'a) \<Rightarrow> string \<Rightarrow> string + 'a option" where
  "optional s f what = (if s = [] then Inr None else case f s of Inl e \<Rightarrow> Inl (what @ '': '' @ e) | Inr x \<Rightarrow> Inr (Some x))"

definition peer_cfg :: "('key, 'udp, 'k) wg_client \<Rightarrow> bool \<Rightarrow> 'k \<Rightarrow> DesiredPeer \<Rightarrow> string + ('key, 'udp) peer_config" where
  "peer_cfg cl amnezia k p =
     (case cl_ParseKey cl (dp_PublicKey p) of Inl e \<Rightarrow> Inl (''peer public key: '' @ e)
      | Inr pub \<Rightarrow>
     (case optional (dp_PresharedKey p) (cl_ParseKey cl) ''peer psk'' of Inl e \<Rightarrow> Inl e
      | Inr psk \<Rightarrow>
     (case optional (dp_Endpoint p) (cl_ResolveUDP cl k) (''endpoint '' @ dp_Endpoint p) of Inl e \<Rightarrow> Inl e
      | Inr udp \<Rightarrow>
     (case (if dp_Suspended p then Inr [] else parse_nets (dp_AllowedIPs p)) of Inl e \<Rightarrow> Inl e
      | Inr nets \<Rightarrow>
        Inr \<lparr>pc_PublicKey = pub, pc_Remove = False, pc_PresharedKey = psk, pc_Endpoint = udp,
          pc_PersistentKeepaliveInterval = Some (i64 (dp_PersistentKeepalive p * Second)),
          pc_ReplaceAllowedIPs = True, pc_AllowedIPs = nets, pc_AdvancedSecurity = amnezia\<rparr>))))"

fun peer_cfgs :: "('key, 'udp, 'k) wg_client \<Rightarrow> bool \<Rightarrow> 'k \<Rightarrow> DesiredPeer list \<Rightarrow> string + ('key, 'udp) peer_config list" where
  "peer_cfgs cl amnezia k [] = Inr []"
| "peer_cfgs cl amnezia k (p # ps) =
     (case peer_cfg cl amnezia k p of Inl e \<Rightarrow> Inl e
      | Inr c \<Rightarrow> (case peer_cfgs cl amnezia k ps of Inl e \<Rightarrow> Inl e | Inr cs \<Rightarrow> Inr (c # cs)))"

definition removal :: "'key \<Rightarrow> ('key, 'udp) peer_config" where
  "removal key = \<lparr>pc_PublicKey = key, pc_Remove = True, pc_PresharedKey = None, pc_Endpoint = None, pc_PersistentKeepaliveInterval = None,
     pc_ReplaceAllowedIPs = False, pc_AllowedIPs = [], pc_AdvancedSecurity = False\<rparr>"

definition removals :: "('key, 'udp, 'k) wg_client \<Rightarrow> string \<Rightarrow> DesiredPeer list \<Rightarrow> 'k \<Rightarrow> ('key, 'udp) peer_config list" where
  "removals cl iface ps k =
     (case cl_Device cl iface k of Inl _ \<Rightarrow> []
      | Inr d \<Rightarrow> map (\<lambda>lp. removal (wp_PublicKey lp))
          (filter (\<lambda>lp. cl_KeyString cl (wp_PublicKey lp) \<notin> dp_PublicKey ` set ps) (wd_Peers d)))"

definition applyPeersAwgctrl :: "('key, 'udp, 'k) wg_client \<Rightarrow> string \<Rightarrow> DesiredPeer list \<Rightarrow> bool \<Rightarrow> 'k \<Rightarrow> string option \<times> 'k" where
  "applyPeersAwgctrl cl iface ps amnezia k =
     (case peer_cfgs cl amnezia k ps of Inl e \<Rightarrow> (Some e, k)
      | Inr cfgs \<Rightarrow>
        (case cl_ConfigureDevice cl iface (no_config\<lparr>wc_Peers := cfgs @ removals cl iface ps k\<rparr>) k of
           (e, k') \<Rightarrow> (map_option (\<lambda>t. ''apply peers: '' @ t) e, k')))"

section \<open>The command-line tools\<close>

text \<open>Temporary files for secrets: creating, writing (with the file closed) and removing.\<close>

record 'k tempfiles =
  tm_create :: "'k \<Rightarrow> (string + string) \<times> 'k"
  tm_write :: "string \<Rightarrow> string \<Rightarrow> 'k \<Rightarrow> string option \<times> 'k"
  tm_remove :: "string \<Rightarrow> 'k \<Rightarrow> 'k"

definition configure_args :: "DesiredInterface \<Rightarrow> string list \<Rightarrow> string list" where
  "configure_args di key_args = [''set'', di_Name di] @ key_args
     @ (if di_ListenPort di > 0 then [''listen-port'', int_str (di_ListenPort di)] else [])
     @ (if di_FwMark di > 0 then [''fwmark'', int_str (di_FwMark di)] else [])"

definition configureDeviceViaCLI :: "'k runner \<Rightarrow> 'k tempfiles \<Rightarrow> string \<Rightarrow> DesiredInterface \<Rightarrow> 'k \<Rightarrow> string option \<times> 'k" where
  "configureDeviceViaCLI run tm tool0 di k =
     (let tool = or_else tool0 DefaultWGTool;
          set_args = (\<lambda>args k. if length args = 2 then (None, k) else case run tool args k of (r, k') \<Rightarrow> (failed r, k'))
      in if IsZeroKey (di_PrivateKey di) then set_args (configure_args di []) k
         else case tm_create tm k of
             (Inl e, k1) \<Rightarrow> (Some e, k1)
           | (Inr path, k1) \<Rightarrow> (case tm_write tm path (di_PrivateKey di @ nl) k1 of
               (Some e, k2) \<Rightarrow> (Some e, tm_remove tm path k2)
             | (None, k2) \<Rightarrow> (case set_args (configure_args di [''private-key'', path]) k2 of (e, k3) \<Rightarrow> (e, tm_remove tm path k3))))"

text \<open>An error, or the panic of slicing eight bytes of a shorter key for the message.\<close>

datatype cli_error = CliError string | CliPanic

definition set_peer_error :: "DesiredPeer \<Rightarrow> string \<Rightarrow> cli_error" where
  "set_peer_error p t = (if length (dp_PublicKey p) < 8 then CliPanic else CliError (''set peer '' @ take 8 (dp_PublicKey p) @ '': '' @ t))"

definition peer_args :: "string \<Rightarrow> DesiredPeer \<Rightarrow> string list \<Rightarrow> string list" where
  "peer_args iface p psk_args = [''set'', iface, ''peer'', dp_PublicKey p] @ psk_args
     @ (if dp_Endpoint p \<noteq> [] then [''endpoint'', dp_Endpoint p] else [])
     @ (if dp_PersistentKeepalive p > 0 then [''persistent-keepalive'', int_str (dp_PersistentKeepalive p)] else [])
     @ (if dp_Suspended p then [''allowed-ips'', []]
        else if dp_AllowedIPs p \<noteq> [] then [''allowed-ips'', Join (dp_AllowedIPs p) '',''] else [])"

text \<open>The temporary files are removed when the function returns, the last one first.\<close>

fun set_peers :: "'k runner \<Rightarrow> 'k tempfiles \<Rightarrow> string \<Rightarrow> string \<Rightarrow> DesiredPeer list \<Rightarrow> string list \<Rightarrow> 'k \<Rightarrow> cli_error option \<times> 'k" where
  "set_peers run tm tool iface [] paths k = (None, fold (tm_remove tm) paths k)"
| "set_peers run tm tool iface (p # ps) paths k =
     (let set_one = (\<lambda>psk_args paths k. case run tool (peer_args iface p psk_args) k of
            (Inl t, k') \<Rightarrow> (Some (set_peer_error p t), fold (tm_remove tm) paths k')
          | (Inr _, k') \<Rightarrow> set_peers run tm tool iface ps paths k')
      in if IsZeroKey (dp_PresharedKey p) then set_one [] paths k
         else case tm_create tm k of
             (Inl e, k1) \<Rightarrow> (Some (CliError e), fold (tm_remove tm) paths k1)
           | (Inr path, k1) \<Rightarrow> set_one [''preshared-key'', path] (path # paths) (snd (tm_write tm path (dp_PresharedKey p @ nl) k1)))"

definition listed_keys :: "string \<Rightarrow> string list" where
  "listed_keys out = remdups (filter (\<lambda>l. l \<noteq> []) (map TrimSpace (split_on (CHR 0x0A) out)))"

definition applyPeersViaCLI :: "(string list \<Rightarrow> string list) \<Rightarrow> 'k runner \<Rightarrow> 'k tempfiles \<Rightarrow> string \<Rightarrow> string \<Rightarrow> DesiredPeer list \<Rightarrow> 'k
    \<Rightarrow> cli_error option \<times> 'k" where
  "applyPeersViaCLI ord run tm tool0 iface ps k =
     (let tool = or_else tool0 DefaultWGTool;
          (r, k1) = run tool [''show'', iface, ''peers''] k;
          current = ord (listed_keys (case r of Inl _ \<Rightarrow> [] | Inr out \<Rightarrow> out));
          stale = filter (\<lambda>pub. pub \<notin> dp_PublicKey ` set ps) current
      in set_peers run tm tool iface ps []
           (fold (\<lambda>pub. attempt run tool [''set'', iface, ''peer'', pub, ''remove'']) stale k1))"

text \<open>The parameters of AmneziaWG, through the tool or else through the socket of the data plane.\<close>

definition amnezia_args :: "AmneziaParams \<Rightarrow> string list" where
  "amnezia_args p =
     (let num = (\<lambda>key v. if v \<noteq> 0 then [key, int_str v] else []); str = (\<lambda>key v. if v \<noteq> [] then [key, v] else [])
      in num ''jc'' (am_Jc p) @ num ''jmin'' (am_Jmin p) @ num ''jmax'' (am_Jmax p) @ num ''s1'' (am_S1 p) @ num ''s2'' (am_S2 p)
         @ num ''s3'' (am_S3 p) @ num ''s4'' (am_S4 p) @ str ''h1'' (am_H1 p) @ str ''h2'' (am_H2 p) @ str ''h3'' (am_H3 p)
         @ str ''h4'' (am_H4 p) @ str ''i1'' (am_I1 p) @ str ''i2'' (am_I2 p) @ str ''i3'' (am_I3 p) @ str ''i4'' (am_I4 p) @ str ''i5'' (am_I5 p))"

text \<open>One request on a control socket: connecting, writing and reading are parameters.\<close>

record 'k sockets =
  so_dial :: "string \<Rightarrow> 'k \<Rightarrow> string option \<times> 'k"
  so_write :: "string \<Rightarrow> 'k \<Rightarrow> string option \<times> 'k"
  so_read :: "'k \<Rightarrow> (string + string) \<times> 'k"

definition writeUAPI :: "'k sockets \<Rightarrow> string \<Rightarrow> string \<Rightarrow> 'k \<Rightarrow> string option \<times> 'k" where
  "writeUAPI so path body k =
     (case so_dial so path k of (Some e, k1) \<Rightarrow> (Some (''uapi dial '' @ path @ '': '' @ e), k1)
      | (None, k1) \<Rightarrow> (case so_write so (''set=1'' @ nl @ body @ nl) k1 of (Some e, k2) \<Rightarrow> (Some (''uapi write: '' @ e), k2)
      | (None, k2) \<Rightarrow> (case so_read so k2 of (Inl e, k3) \<Rightarrow> (Some (''uapi read: '' @ e), k3)
      | (Inr resp, k3) \<Rightarrow> (if has_text (take 256 resp) ''errno=0'' then None
          else Some (''uapi error response: '' @ TrimSpace (take 256 resp)), k3))))"

definition amnezia_by_socket :: "'k os \<Rightarrow> 'k sockets \<Rightarrow> string \<Rightarrow> AmneziaParams \<Rightarrow> 'k \<Rightarrow> string option \<times> 'k" where
  "amnezia_by_socket os so iface p k =
     (let body = Join (UAPILines p) nl @ nl in
      if os_exists os (sock UserspaceSockDirAWG iface) k then writeUAPI so (sock UserspaceSockDirAWG iface) body k
      else if os_exists os (sock UserspaceSockDirWG iface) k then writeUAPI so (sock UserspaceSockDirWG iface) body k
      else (Some (''cannot apply amnezia params on '' @ iface @ '': install awg tools or amneziawg-go''), k))"

definition setAmneziaParams :: "'k os \<Rightarrow> 'k sockets \<Rightarrow> (amnezia_error \<Rightarrow> string) \<Rightarrow> string \<Rightarrow> string \<Rightarrow> AmneziaParams \<Rightarrow> 'k \<Rightarrow> string option \<times> 'k" where
  "setAmneziaParams os so show_err awgTool iface p k =
     (if IsZeroParams p then (None, k)
      else case Validate p of Some e \<Rightarrow> (Some (show_err e), k)
      | None \<Rightarrow> (case binaryExists os awgTool k of
          (False, k1) \<Rightarrow> amnezia_by_socket os so iface p k1
        | (True, k1) \<Rightarrow>
          (if amnezia_args p = [] then amnezia_by_socket os so iface p k1
           else case runner_of os awgTool ([''set'', iface] @ amnezia_args p) k1 of
               (Inr _, k2) \<Rightarrow> (None, k2) | (Inl _, k2) \<Rightarrow> amnezia_by_socket os so iface p k2)))"

definition setSwiftAllowClean :: "'k sockets \<Rightarrow> string \<Rightarrow> AmneziaParams \<Rightarrow> 'k \<Rightarrow> string option \<times> 'k" where
  "setSwiftAllowClean so iface p k =
     (if IsNeutral p then (None, k)
      else case writeUAPI so (sock UserspaceSockDirAWG iface) (''allow_clean=true'' @ nl) k of
          (None, k') \<Rightarrow> (None, k') | (Some e, k') \<Rightarrow> (Some (''swift allow_clean on '' @ iface @ '': '' @ e), k'))"

section \<open>The device has exactly the peers wanted\<close>

text \<open>
  What the library documents of configuring peers, on the networks routed to each key: peers are changed one after
  the other, a network belongs to the peer it was given to last.
\<close>

definition nets_of :: "('key, 'udp) peer_config \<Rightarrow> string set" where
  "nets_of c = IPNet_String ` set (pc_AllowedIPs c)"

definition conf_peer :: "('key, 'udp) peer_config \<Rightarrow> ('key \<rightharpoonup> string set) \<Rightarrow> ('key \<rightharpoonup> string set)" where
  "conf_peer c m =
     (if pc_Remove c then m(pc_PublicKey c := None)
      else (\<lambda>q. if q = pc_PublicKey c
         then Some (nets_of c \<union> (if pc_ReplaceAllowedIPs c then {} else case m q of None \<Rightarrow> {} | Some s \<Rightarrow> s))
         else map_option (\<lambda>s. s - nets_of c) (m q)))"

definition configures :: "('key, 'udp, 'k) wg_client \<Rightarrow> ('k \<Rightarrow> string \<Rightarrow> 'key \<Rightarrow> string set option) \<Rightarrow> bool" where
  "configures cl view \<longleftrightarrow> (\<forall>n c k k'. cl_ConfigureDevice cl n c k = (None, k') \<longrightarrow>
     view k' = (view k)(n := fold conf_peer (wc_Peers c) (if wc_ReplacePeers c then Map.empty else view k n)))"

definition granted :: "DesiredPeer \<Rightarrow> string set" where
  "granted p = (if dp_Suspended p then {} else case parse_nets (dp_AllowedIPs p) of Inl _ \<Rightarrow> {} | Inr ns \<Rightarrow> IPNet_String ` set ns)"

lemma peer_cfg_Inr:
  assumes "peer_cfg cl am k p = Inr c"
  shows "cl_ParseKey cl (dp_PublicKey p) = Inr (pc_PublicKey c)" "\<not> pc_Remove c" "pc_ReplaceAllowedIPs c" "nets_of c = granted p"
  using assms by (auto simp: peer_cfg_def nets_of_def granted_def split: sum.splits if_splits)

lemma peer_cfgs_Inr: "peer_cfgs cl am k ps = Inr cs \<Longrightarrow> list_all2 (\<lambda>p c. peer_cfg cl am k p = Inr c) ps cs"
  by (induction ps arbitrary: cs) (auto split: sum.splits)

lemma rel_members:
  assumes "list_all2 R xs ys"
  shows "\<forall>x\<in>set xs. \<exists>y\<in>set ys. R x y" "\<forall>y\<in>set ys. \<exists>x\<in>set xs. R x y"
  using assms by (induction rule: list_all2_induct) auto

lemma grants:
  assumes "\<forall>c\<in>set cs. \<not> pc_Remove c \<and> pc_ReplaceAllowedIPs c" "distinct (map pc_PublicKey cs)"
    "\<forall>c\<in>set cs. \<forall>d\<in>set cs. c \<noteq> d \<longrightarrow> nets_of c \<inter> nets_of d = {}"
  shows "(\<forall>c\<in>set cs. fold conf_peer cs m (pc_PublicKey c) = Some (nets_of c))
    \<and> dom (fold conf_peer cs m) = dom m \<union> pc_PublicKey ` set cs"
  using assms
proof (induction cs rule: rev_induct)
  case (snoc c cs)
  then have ih: "\<forall>d\<in>set cs. fold conf_peer cs m (pc_PublicKey d) = Some (nets_of d)" "dom (fold conf_peer cs m) = dom m \<union> pc_PublicKey ` set cs"
    by simp_all
  have last: "fold conf_peer (cs @ [c]) m = (\<lambda>q. if q = pc_PublicKey c then Some (nets_of c)
      else map_option (\<lambda>s. s - nets_of c) (fold conf_peer cs m q))"
    by (rule ext) (use snoc.prems(1) in \<open>simp add: conf_peer_def\<close>)
  have apart: "nets_of d \<inter> nets_of c = {}" "pc_PublicKey d \<noteq> pc_PublicKey c" if "d \<in> set cs" for d
  proof -
    have "pc_PublicKey c \<notin> pc_PublicKey ` set cs" using snoc.prems(2) by simp
    with that show "pc_PublicKey d \<noteq> pc_PublicKey c" by (metis imageI)
    then have "d \<noteq> c" by blast
    then show "nets_of d \<inter> nets_of c = {}" using snoc.prems(3) that by simp
  qed
  have "\<forall>d\<in>set (cs @ [c]). fold conf_peer (cs @ [c]) m (pc_PublicKey d) = Some (nets_of d)"
    unfolding last using ih(1) apart by (auto simp: Diff_triv)
  moreover have "dom (fold conf_peer (cs @ [c]) m) = dom m \<union> pc_PublicKey ` set (cs @ [c])"
  proof (rule set_eqI)
    fix q
    have "q \<in> dom (fold conf_peer (cs @ [c]) m) \<longleftrightarrow> q = pc_PublicKey c \<or> q \<in> dom (fold conf_peer cs m)"
      unfolding last by (auto simp: dom_def)
    then show "q \<in> dom (fold conf_peer (cs @ [c]) m) \<longleftrightarrow> q \<in> dom m \<union> pc_PublicKey ` set (cs @ [c])" unfolding ih(2) by auto
  qed
  ultimately show ?case by blast
qed simp

lemma removed: "fold conf_peer (map removal keys) m = (\<lambda>q. if q \<in> set keys then None else m q)"
  by (induction keys arbitrary: m) (auto simp: conf_peer_def removal_def fun_eq_iff)

text \<open>The configuration of wanted peers, and what is left once the stale keys are removed.\<close>

lemma cfgs_of_peers:
  assumes "list_all2 (\<lambda>p c. peer_cfg cl amnezia k p = Inr c) ps cs"
    "\<forall>p\<in>set ps. \<forall>key. cl_ParseKey cl (dp_PublicKey p) = Inr key \<longrightarrow> cl_KeyString cl key = dp_PublicKey p"
    "distinct (map dp_PublicKey ps)" "\<forall>p\<in>set ps. \<forall>q\<in>set ps. p \<noteq> q \<longrightarrow> granted p \<inter> granted q = {}"
  shows "map (cl_KeyString cl) (map pc_PublicKey cs) = map dp_PublicKey ps"
    "\<forall>c\<in>set cs. \<not> pc_Remove c \<and> pc_ReplaceAllowedIPs c" "distinct (map pc_PublicKey cs)"
    "\<forall>c\<in>set cs. \<forall>e\<in>set cs. c \<noteq> e \<longrightarrow> nets_of c \<inter> nets_of e = {}"
    "\<forall>p\<in>set ps. \<exists>c\<in>set cs. cl_ParseKey cl (dp_PublicKey p) = Inr (pc_PublicKey c) \<and> nets_of c = granted p"
proof -
  have of_c: "\<exists>p\<in>set ps. peer_cfg cl amnezia k p = Inr c" if "c \<in> set cs" for c
    using rel_members(2) [OF assms(1)] that by blast
  have key: "cl_KeyString cl (pc_PublicKey c) = dp_PublicKey p" if "p \<in> set ps" "peer_cfg cl amnezia k p = Inr c" for p c
    using assms(2) that(1) peer_cfg_Inr(1) [OF that(2)] by blast
  show keys: "map (cl_KeyString cl) (map pc_PublicKey cs) = map dp_PublicKey ps"
    using assms(1) key by (simp add: list_all2_conv_all_nth list_eq_iff_nth_eq)
  show "\<forall>c\<in>set cs. \<not> pc_Remove c \<and> pc_ReplaceAllowedIPs c" using of_c peer_cfg_Inr(2,3) by metis
  show "distinct (map pc_PublicKey cs)" using assms(3) unfolding keys [symmetric] distinct_map by blast
  show "\<forall>c\<in>set cs. \<forall>e\<in>set cs. c \<noteq> e \<longrightarrow> nets_of c \<inter> nets_of e = {}"
  proof (intro ballI impI)
    fix c e assume ce: "c \<in> set cs" "e \<in> set cs" "c \<noteq> e"
    then obtain p q where pq: "p \<in> set ps" "peer_cfg cl amnezia k p = Inr c" "q \<in> set ps" "peer_cfg cl amnezia k q = Inr e" using of_c by blast
    with ce(3) have "p \<noteq> q" by auto
    with assms(4) pq peer_cfg_Inr(4) show "nets_of c \<inter> nets_of e = {}" by metis
  qed
  show "\<forall>p\<in>set ps. \<exists>c\<in>set cs. cl_ParseKey cl (dp_PublicKey p) = Inr (pc_PublicKey c) \<and> nets_of c = granted p"
    using rel_members(1) [OF assms(1)] peer_cfg_Inr(1,4) by metis
qed

lemma keys_left:
  assumes "inj f" "known = dom m" "D = dom m \<union> keep" "stale = {q \<in> known. f q \<notin> f ` keep}"
  shows "D - stale = keep"
  using assms by (auto dest: injD)

text \<open>
  C3. When the peers of an interface are applied through the library without an error, every peer wanted is on the device with
  exactly its networks, a suspended one with none, and other devices are untouched.  The other peers of the device are removed
  if the device could be read before; if it could not, none of them is removed and no error is reported.  The keys are in normal
  form, no network is given to two peers, a device that is read shows its peers, and the library does what it documents.
\<close>

theorem host_peers_exact:
  assumes "configures cl view" "inj (cl_KeyString cl)"
    "\<forall>d. cl_Device cl iface k = Inr d \<longrightarrow> wp_PublicKey ` set (wd_Peers d) = dom (view k iface)"
    "\<forall>p\<in>set ps. \<forall>key. cl_ParseKey cl (dp_PublicKey p) = Inr key \<longrightarrow> cl_KeyString cl key = dp_PublicKey p"
    "distinct (map dp_PublicKey ps)" "\<forall>p\<in>set ps. \<forall>q\<in>set ps. p \<noteq> q \<longrightarrow> granted p \<inter> granted q = {}"
    "applyPeersAwgctrl cl iface ps amnezia k = (None, k')"
  shows "(\<forall>p\<in>set ps. \<exists>key. cl_ParseKey cl (dp_PublicKey p) = Inr key \<and> view k' iface key = Some (granted p))
    \<and> cl_KeyString cl ` dom (view k' iface) = dp_PublicKey ` set ps \<union>
        (case cl_Device cl iface k of Inr d \<Rightarrow> {} | Inl e \<Rightarrow> cl_KeyString cl ` dom (view k iface))
    \<and> (\<forall>n. n \<noteq> iface \<longrightarrow> view k' n = view k n)"
proof -
  obtain cs where cs: "peer_cfgs cl amnezia k ps = Inr cs"
    using assms(7) by (cases "peer_cfgs cl amnezia k ps") (auto simp: applyPeersAwgctrl_def)
  define stale where "stale = (case cl_Device cl iface k of Inl _ \<Rightarrow> []
    | Inr d \<Rightarrow> map wp_PublicKey (filter (\<lambda>lp. cl_KeyString cl (wp_PublicKey lp) \<notin> dp_PublicKey ` set ps) (wd_Peers d)))"
  have "removals cl iface ps k = map removal stale" by (simp add: removals_def stale_def comp_def split: sum.split)
  then have "cl_ConfigureDevice cl iface (no_config\<lparr>wc_Peers := cs @ map removal stale\<rparr>) k = (None, k')"
    using assms(7) by (auto simp: applyPeersAwgctrl_def cs split: prod.splits)
  from assms(1) [unfolded configures_def, rule_format, OF this]
  have view: "view k' = (view k)(iface := fold conf_peer (cs @ map removal stale) (view k iface))"
    by (simp add: no_config_def)
  note c = cfgs_of_peers [OF peer_cfgs_Inr [OF cs] assms(4-6)]
  note g = grants [OF c(2-4), of "view k iface"]
  have fin: "view k' iface = (\<lambda>q. if q \<in> set stale then None else fold conf_peer cs (view k iface) q)"
    unfolding view fun_upd_same fold_append comp_apply removed ..
  have names: "cl_KeyString cl ` pc_PublicKey ` set cs = dp_PublicKey ` set ps"
    using arg_cong [OF c(1), of set] by (simp add: image_image)
  have fresh: "q \<notin> set stale" if "q \<in> pc_PublicKey ` set cs" for q
  proof -
    have "cl_KeyString cl q \<in> dp_PublicKey ` set ps" using that names by blast
    then show ?thesis by (auto simp: stale_def split: sum.splits)
  qed
  have dom: "dom (view k' iface) = dom (view k iface) \<union> pc_PublicKey ` set cs - set stale"
    unfolding fin using conjunct2 [OF g] by (simp add: dom_def set_eq_iff)
  have "cl_KeyString cl ` dom (view k' iface) = dp_PublicKey ` set ps \<union>
      (case cl_Device cl iface k of Inr d \<Rightarrow> {} | Inl e \<Rightarrow> cl_KeyString cl ` dom (view k iface))"
  proof (cases "cl_Device cl iface k")
    case (Inl e)
    then have "stale = []" by (simp add: stale_def)
    then show ?thesis by (simp add: dom Inl image_Un names Un_commute)
  next
    case (Inr d)
    have "set stale = {q \<in> dom (view k iface). cl_KeyString cl q \<notin> cl_KeyString cl ` pc_PublicKey ` set cs}"
      unfolding names using assms(3) Inr by (auto simp: stale_def)
    from keys_left [OF assms(2) refl refl this] show ?thesis using names by (simp add: dom Inr)
  qed
  moreover have "\<exists>key. cl_ParseKey cl (dp_PublicKey p) = Inr key \<and> view k' iface key = Some (granted p)" if p: "p \<in> set ps" for p
  proof -
    obtain e where e: "e \<in> set cs" "cl_ParseKey cl (dp_PublicKey p) = Inr (pc_PublicKey e)" "nets_of e = granted p"
      using bspec [OF c(5) p] by blast
    then have "view k' iface (pc_PublicKey e) = Some (granted p)" using conjunct1 [OF g] fresh unfolding fin by simp
    with e(2) show ?thesis by blast
  qed
  ultimately show ?thesis unfolding view by simp
qed

text \<open>A library whose keys and addresses are texts, on a host of which only the networks of the peers are kept.\<close>

type_synonym peer_nets = "string \<Rightarrow> string \<Rightarrow> string set option"

definition text_peer :: "string \<Rightarrow> (string, string) wg_peer" where
  "text_peer key = \<lparr>wp_PublicKey = key, wp_PresharedKey = [], wp_Endpoint = None, wp_PersistentKeepaliveInterval = 0,
     wp_LastHandshakeTime = 0, wp_ReceiveBytes = 0, wp_TransmitBytes = 0, wp_AllowedIPs = []\<rparr>"

definition text_client :: "(string, string, peer_nets) wg_client" where
  "text_client =
     \<lparr>cl_ParseKey = Inr, cl_KeyString = id, cl_ResolveUDP = \<lambda>_. Inr, cl_UDPString = id,
      cl_Device = \<lambda>n k. Inr \<lparr>wd_Name = n, wd_PrivateKey = [], wd_PublicKey = [], wd_ListenPort = 0, wd_FirewallMark = 0,
        wd_IsAmnezia = False, wd_Peers = map text_peer (filter (\<lambda>q. k n q \<noteq> None) [''A'', ''B'', ''C''])\<rparr>,
      cl_Devices = \<lambda>_. Inr [],
      cl_ConfigureDevice = \<lambda>n c k. (None, k(n := fold conf_peer (wc_Peers c) (if wc_ReplacePeers c then Map.empty else k n)))\<rparr>"

definition two_peers :: "DesiredPeer list" where
  "two_peers = map (\<lambda>(key, net, held). \<lparr>dp_PublicKey = key, dp_PresharedKey = [], dp_Endpoint = [], dp_AllowedIPs = [net], dp_AssignedIPs = [],
     dp_PersistentKeepalive = 25, dp_Suspended = held, dp_BandwidthRxBps = 0, dp_BandwidthTxBps = 0\<rparr>)
     [(''A'', ''10.0.0.2/32'', False), (''B'', ''10.0.0.3/32'', True)]"

text \<open>A peer that is no longer wanted, C, was on the device.\<close>

definition stale_nets :: peer_nets where
  "stale_nets = (\<lambda>_. Map.empty)(''wg0'' := [''B'' \<mapsto> {''10.0.0.3/32''}, ''C'' \<mapsto> {''10.0.0.2/32''}])"

theorem host_peers_exact_witness:
  "\<exists>k'. applyPeersAwgctrl text_client ''wg0'' two_peers False stale_nets = (None, k') \<and> dom (stale_nets ''wg0'') = {''B'', ''C''}
     \<and> dom (k' ''wg0'') = {''A'', ''B''} \<and> k' ''wg0'' ''B'' = Some {}"
proof -
  have nets: "parse_nets [''10.0.0.2/32''] = Inr [\<lparr>net_IP = [10, 0, 0, 2], net_Mask = [255, 255, 255, 255]\<rparr>]"
    by code_simp
  then obtain k' where k': "applyPeersAwgctrl text_client ''wg0'' two_peers False stale_nets = (None, k')"
    by (simp add: applyPeersAwgctrl_def two_peers_def peer_cfg_def optional_def text_client_def)
  have "configures text_client (\<lambda>k. k)" "inj (cl_KeyString text_client)"
    "\<forall>d. cl_Device text_client ''wg0'' stale_nets = Inr d \<longrightarrow> wp_PublicKey ` set (wd_Peers d) = dom (stale_nets ''wg0'')"
    by (auto simp: configures_def text_client_def stale_nets_def text_peer_def image_iff split: if_splits)
  moreover have "\<forall>p\<in>set two_peers. \<forall>key. cl_ParseKey text_client (dp_PublicKey p) = Inr key \<longrightarrow> cl_KeyString text_client key = dp_PublicKey p"
    "distinct (map dp_PublicKey two_peers)" "\<forall>p\<in>set two_peers. \<forall>q\<in>set two_peers. p \<noteq> q \<longrightarrow> granted p \<inter> granted q = {}"
    by (simp_all add: text_client_def two_peers_def granted_def)
  ultimately have "\<forall>p\<in>set two_peers. \<exists>key. cl_ParseKey text_client (dp_PublicKey p) = Inr key \<and> k' ''wg0'' key = Some (granted p)"
    "cl_KeyString text_client ` dom (k' ''wg0'') = dp_PublicKey ` set two_peers"
    using host_peers_exact [OF _ _ _ _ _ _ k', of "\<lambda>k. k"] by (simp_all add: text_client_def)
  then have "k' ''wg0'' ''B'' = Some {}" "dom (k' ''wg0'') = {''A'', ''B''}" by (simp_all add: text_client_def two_peers_def granted_def)
  moreover have "dom (stale_nets ''wg0'') = {''B'', ''C''}" by (auto simp: stale_nets_def)
  ultimately show ?thesis using k' by blast
qed

text \<open>A device that cannot be read keeps all its peers, and the caller learns nothing of it.\<close>

lemma unread_device_keeps_peers: "cl_Device cl iface k = Inl e \<Longrightarrow> removals cl iface ps k = []"
  by (simp add: removals_def)

text \<open>A pre-shared key that was taken away is not sent, so the device keeps the old one.\<close>

lemma psk_kept: "dp_PresharedKey p = [] \<Longrightarrow> peer_cfg cl am k p = Inr c \<Longrightarrow> pc_PresharedKey c = None"
  by (auto simp: peer_cfg_def optional_def split: sum.splits if_splits)

end
