(* ===== verification/DeviceDump.thy ===== *)
theory DeviceDump
  imports HostLink
begin

text \<open>
  Reading a device from the text of \<open>wg show dump\<close> (\<open>internal/wgbackend/device_dump.go\<close>), and the text those tools are
  documented to print, with the round trip between them.
\<close>

section \<open>Parsing\<close>

definition tab :: char where "tab = CHR 0x09"

definition dumpToolsForKind :: "binaries \<Rightarrow> string \<Rightarrow> string list" where
  "dumpToolsForKind b kind =
     (let awg = or_else (bin_awgTool b) DefaultAWGTool; wg = or_else (bin_wgTool b) DefaultWGTool
      in if kind = ''amneziawg'' then [awg, wg] else [wg, awg])"

text \<open>The columns of a line; some tools separate them by spaces.\<close>

definition columns :: "nat \<Rightarrow> string \<Rightarrow> string list" where
  "columns n line = (let f = split_on tab line in if length f < n then Fields line else f)"

definition drop_none :: "string \<Rightarrow> string" where
  "drop_none s = (if IsZeroKey s \<or> s = ''(none)'' then [] else s)"

definition dump_allowed :: "string \<Rightarrow> string list" where
  "dump_allowed s = (if s = [] \<or> s = ''(none)'' then []
     else filter (\<lambda>a. a \<noteq> []) (map TrimSpace (split_on (CHR '','') s)))"

text \<open>\<open>time.Unix(sec, 0)\<close>; the zero time when there was no handshake.\<close>

definition unix_time :: "int \<Rightarrow> gotime" where
  "unix_time sec = (sec + 62135596800) * 1000000000"

definition dump_handshake :: "string \<Rightarrow> gotime" where
  "dump_handshake s = (case Atoi s of Some sec \<Rightarrow> if sec > 0 then unix_time sec else 0 | None \<Rightarrow> 0)"

definition dump_keepalive :: "string \<Rightarrow> duration" where
  "dump_keepalive s = (case Atoi s of Some n \<Rightarrow> if n > 0 then i64 (n * Second) else 0 | None \<Rightarrow> 0)"

definition parse_dump_peer :: "string \<Rightarrow> live_peer option" where
  "parse_dump_peer raw =
     (let line = TrimSpace raw; f = columns 8 line in
      if line = [] \<or> length f < 8 \<or> f ! 0 = [] \<or> IsZeroKey (f ! 0) then None
      else Some \<lparr>lp_PublicKey = f ! 0, lp_PresharedKey = drop_none (f ! 1),
        lp_Endpoint = (if f ! 2 = ''(none)'' then [] else f ! 2), lp_AllowedIPs = dump_allowed (f ! 3),
        lp_PersistentKeepaliveInterval = dump_keepalive (f ! 7), lp_LastHandshakeTime = dump_handshake (f ! 4),
        lp_ReceiveBytes = AtoiValue (f ! 5), lp_TransmitBytes = AtoiValue (f ! 6)\<rparr>)"

definition parseShowDump :: "string \<Rightarrow> string \<Rightarrow> string + Device" where
  "parseShowDump name raw =
     (let ls = split_on (CHR 0x0A) (TrimSpace raw); f = columns 4 (hd ls) in
      if TrimSpace (hd ls) = [] then Inl (''empty dump for '' @ name)
      else if length f < 4 then Inl (''malformed dump header for '' @ name @ '': '' @ quoted (hd ls))
      else Inr \<lparr>d_Name = name, d_PublicKey = drop_none (f ! 1), d_PrivateKey = drop_none (f ! 0),
        d_ListenPort = AtoiValue (f ! 2), d_FirewallMark = (if f ! 3 \<noteq> ''off'' then AtoiValue (f ! 3) else 0),
        d_MTU = 0, d_Addresses = [], d_Peers = List.map_filter parse_dump_peer (tl ls), d_Up = True, d_Backend = [], d_Protocol = []\<rparr>)"

text \<open>The tools are tried in order; the error is that of the last one.\<close>

fun dump_with :: "'k runner \<Rightarrow> string \<Rightarrow> string list \<Rightarrow> string option \<Rightarrow> 'k \<Rightarrow> (string + Device) \<times> 'k" where
  "dump_with run name [] e k = (Inl (case e of Some t \<Rightarrow> t | None \<Rightarrow> ''no dump tool available for '' @ name), k)"
| "dump_with run name (tool # tools) e k =
     (case run tool [''show'', name, ''dump''] k of
        (Inl t, k') \<Rightarrow> dump_with run name tools (Some t) k'
      | (Inr out, k') \<Rightarrow> (case parseShowDump name out of
          Inl t \<Rightarrow> dump_with run name tools (Some t) k' | Inr d \<Rightarrow> (Inr d, k')))"

definition deviceFromCLI :: "'k runner \<Rightarrow> binaries \<Rightarrow> string \<Rightarrow> 'k \<Rightarrow> (string + Device) \<times> 'k" where
  "deviceFromCLI run b name k =
     (case linkKind run name k of (kind, k') \<Rightarrow> dump_with run name (dumpToolsForKind b kind) None k')"

section \<open>What the tools print\<close>

text \<open>
  One line for the device and one for each peer, with tabs between the columns: absent values as \<open>(none)\<close>, the mark
  in hexadecimal or \<open>off\<close>.
\<close>

definition or_none :: "string \<Rightarrow> string" where
  "or_none s = (if s = [] then ''(none)'' else s)"

definition print_peer :: "live_peer \<Rightarrow> string" where
  "print_peer p = Join [lp_PublicKey p, or_none (lp_PresharedKey p), or_none (lp_Endpoint p), or_none (Join (lp_AllowedIPs p) '',''),
     int_str (if lp_LastHandshakeTime p = 0 then 0 else lp_LastHandshakeTime p div 1000000000 - 62135596800),
     int_str (lp_ReceiveBytes p), int_str (lp_TransmitBytes p),
     if lp_PersistentKeepaliveInterval p = 0 then ''off'' else int_str (lp_PersistentKeepaliveInterval p div Second)] [tab]"

definition print_dump :: "Device \<Rightarrow> string" where
  "print_dump d = Join (Join [or_none (d_PrivateKey d), or_none (d_PublicKey d), int_str (d_ListenPort d),
       if d_FirewallMark d = 0 then ''off'' else ''0x'' @ hex_str (nat (d_FirewallMark d))] [tab]
     # map print_peer (d_Peers d)) nl @ nl"

section \<open>The round trip\<close>

definition plain :: "string \<Rightarrow> bool" where
  "plain s \<longleftrightarrow> (\<forall>c\<in>set s. \<not> is_space c)"

definition key_text :: "string \<Rightarrow> bool" where
  "key_text s \<longleftrightarrow> plain s \<and> s \<noteq> ''(none)'' \<and> s \<noteq> ZeroKey"

definition dump_peer_ok :: "live_peer \<Rightarrow> bool" where
  "dump_peer_ok p \<longleftrightarrow> plain (lp_PublicKey p) \<and> lp_PublicKey p \<noteq> [] \<and> lp_PublicKey p \<noteq> ZeroKey
     \<and> key_text (lp_PresharedKey p) \<and> plain (lp_Endpoint p) \<and> lp_Endpoint p \<noteq> ''(none)''
     \<and> (\<forall>a\<in>set (lp_AllowedIPs p). plain a \<and> a \<noteq> [] \<and> CHR '','' \<notin> set a) \<and> lp_AllowedIPs p \<noteq> [''(none)'']
     \<and> (\<exists>n. 0 \<le> n \<and> n * Second < 2 ^ 63 \<and> lp_PersistentKeepaliveInterval p = n * Second)
     \<and> (lp_LastHandshakeTime p = 0 \<or> (\<exists>sec. 0 < sec \<and> sec < 2 ^ 63 \<and> lp_LastHandshakeTime p = unix_time sec))
     \<and> in64 (lp_ReceiveBytes p) \<and> in64 (lp_TransmitBytes p)"

definition dump_ok :: "Device \<Rightarrow> bool" where
  "dump_ok d \<longleftrightarrow> key_text (d_PrivateKey d) \<and> key_text (d_PublicKey d) \<and> in64 (d_ListenPort d) \<and> d_FirewallMark d = 0
     \<and> d_MTU d = 0 \<and> d_Addresses d = [] \<and> d_Up d \<and> d_Backend d = [] \<and> d_Protocol d = [] \<and> (\<forall>p\<in>set (d_Peers d). dump_peer_ok p)"

lemma plain_sep: "plain s \<Longrightarrow> tab \<notin> set s" "plain s \<Longrightarrow> CHR 0x0A \<notin> set s"
  by (auto simp: plain_def tab_def is_space_def)

lemma plain_trimmed: "plain s \<Longrightarrow> trimmed s"
  by (cases "s = []") (simp_all add: plain_def trimmed_def)

lemma plain_nat_str [simp]: "plain (nat_str n)"
  using nat_str_digits digit_not_space by (metis plain_def)

lemma plain_simps [simp]: "plain []" "plain ''off''" "plain ''(none)''" "plain (int_str i)"
proof -
  show "plain (int_str i)" using plain_nat_str [of "nat i"] plain_nat_str [of "nat (- i)"]
    by (simp add: int_str_def plain_def is_space_def)
qed (simp_all add: plain_def is_space_def)

lemma plain_or_none [simp]: "plain s \<Longrightarrow> plain (or_none s)" "or_none s \<noteq> []"
  by (simp_all add: or_none_def)

lemma Join_members: "c \<in> set (Join xs sep) \<Longrightarrow> c \<in> set sep \<or> (\<exists>x\<in>set xs. c \<in> set x)"
  by (induction xs sep rule: Join.induct) auto

lemma plain_Join: "\<forall>x\<in>set xs. plain x \<Longrightarrow> plain sep \<Longrightarrow> plain (Join xs sep)"
  unfolding plain_def using Join_members by metis

lemma Join_ends:
  "xs \<noteq> [] \<Longrightarrow> [] \<notin> set xs \<Longrightarrow> Join xs sep \<noteq> [] \<and> hd (Join xs sep) = hd (hd xs) \<and> last (Join xs sep) = last (last xs)"
proof (induction xs sep rule: Join.induct)
  case (3 x y ys sep)
  then have "Join (y # ys) sep \<noteq> [] \<and> last (Join (y # ys) sep) = last (last (y # ys))" by simp
  moreover have "x \<noteq> []" using 3(3) by auto
  ultimately show ?case by simp
qed simp_all

lemma trimmed_Join: "[] \<notin> set xs \<Longrightarrow> \<forall>x\<in>set xs. trimmed x \<Longrightarrow> trimmed (Join xs sep)"
  using Join_ends [of xs sep] by (cases "xs = []") (auto simp: trimmed_def, (metis hd_in_set last_in_set)+)

lemma drop_or_none: "key_text s \<Longrightarrow> drop_none (or_none s) = s"
  by (auto simp: drop_none_def or_none_def key_text_def IsZeroKey_def ZeroKey_def)

lemma columns_Join:
  assumes "\<forall>x\<in>set xs. plain x" "n \<le> length xs" "xs \<noteq> []"
  shows "columns n (Join xs [tab]) = xs"
  using split_on_Join [OF assms(3), of tab] assms plain_sep(1) by (auto simp: columns_def Let_def)

lemma dump_allowed_Join:
  assumes "\<forall>a\<in>set as. plain a \<and> a \<noteq> [] \<and> CHR '','' \<notin> set a" "as \<noteq> [''(none)'']"
  shows "dump_allowed (or_none (Join as '','')) = as"
proof (cases "as = []")
  case True
  then show ?thesis by (simp add: dump_allowed_def or_none_def)
next
  case False
  have ne: "Join as '','' \<noteq> []" using Join_ends [of as "'',''"] False assms(1) by blast
  have sp: "split_on (CHR '','') (Join as '','') = as" using split_on_Join [OF False, of "CHR '',''"] assms(1) by simp
  have "Join as '','' \<noteq> ''(none)''"
  proof
    assume "Join as '','' = ''(none)''"
    then have "as = [''(none)'']" using sp by (simp add: split_on_no_sep)
    with assms(2) show False by blast
  qed
  moreover have "map TrimSpace as = as" using assms(1) by (auto intro!: map_idI simp: TrimSpace_trimmed plain_trimmed)
  ultimately show ?thesis using ne assms(1) sp by (auto simp: dump_allowed_def or_none_def filter_id_conv)
qed

lemma handshake_back:
  "t = 0 \<or> (\<exists>sec. 0 < sec \<and> sec < 2 ^ 63 \<and> t = unix_time sec) \<Longrightarrow>
     dump_handshake (int_str (if t = 0 then 0 else t div 1000000000 - 62135596800)) = t"
  using Atoi_int_str_in64 [of 0] by (auto simp: dump_handshake_def unix_time_def Atoi_int_str in64_def)

lemma keepalive_back:
  "\<exists>n. 0 \<le> n \<and> n * Second < 2 ^ 63 \<and> ka = n * Second \<Longrightarrow>
     dump_keepalive (if ka = 0 then ''off'' else int_str (ka div Second)) = ka"
proof -
  assume "\<exists>n. 0 \<le> n \<and> n * Second < 2 ^ 63 \<and> ka = n * Second"
  then obtain n where n: "0 \<le> n" "n * Second < 2 ^ 63" "ka = n * Second" by blast
  have "Atoi ''off'' = None" by code_simp
  moreover have "0 < n \<Longrightarrow> i64 (n * Second) = n * Second" using n by (simp add: i64_id in64_def Second_def)
  moreover have "n < 2 ^ 63" using n by (simp add: Second_def)
  ultimately show ?thesis using n by (auto simp: dump_keepalive_def Second_def Atoi_int_str)
qed

lemma print_peer_plain:
  assumes "dump_peer_ok p"
  shows "parse_dump_peer (print_peer p) = Some p" "print_peer p \<noteq> []" "CHR 0x0A \<notin> set (print_peer p)" "trimmed (print_peer p)"
proof -
  let ?f = "[lp_PublicKey p, or_none (lp_PresharedKey p), or_none (lp_Endpoint p), or_none (Join (lp_AllowedIPs p) '',''),
     int_str (if lp_LastHandshakeTime p = 0 then 0 else lp_LastHandshakeTime p div 1000000000 - 62135596800),
     int_str (lp_ReceiveBytes p), int_str (lp_TransmitBytes p),
     if lp_PersistentKeepaliveInterval p = 0 then ''off'' else int_str (lp_PersistentKeepaliveInterval p div Second)]"
  have pr: "print_peer p = Join ?f [tab]" by (simp only: print_peer_def)
  have al: "plain (Join (lp_AllowedIPs p) '','')"
    by (rule plain_Join) (use assms in \<open>simp_all add: dump_peer_ok_def plain_def is_space_def\<close>)
  have f: "plain (lp_PublicKey p)" "lp_PublicKey p \<noteq> []" "plain (lp_PresharedKey p)" "plain (lp_Endpoint p)"
    using assms by (simp_all add: dump_peer_ok_def key_text_def)
  have pl: "\<forall>x\<in>set ?f. plain x" using al f by simp
  have "\<forall>x\<in>set ?f. x \<noteq> []" using f by simp
  then have ne: "[] \<notin> set ?f" by blast
  have tr: "trimmed (print_peer p)" unfolding pr by (rule trimmed_Join) (use ne pl plain_trimmed in auto)
  show "trimmed (print_peer p)" by (rule tr)
  show nn: "print_peer p \<noteq> []" using Join_ends [of ?f "[tab]"] ne unfolding pr by blast
  show "CHR 0x0A \<notin> set (print_peer p)"
    unfolding pr using pl plain_sep(2) by (auto dest!: Join_members simp: tab_def)
  have col: "columns 8 (print_peer p) = ?f" unfolding pr by (rule columns_Join [OF pl]) simp_all
  have k: "lp_PublicKey p \<noteq> []" "\<not> IsZeroKey (lp_PublicKey p)" using assms by (simp_all add: dump_peer_ok_def IsZeroKey_def)
  have "parse_dump_peer (print_peer p) = Some \<lparr>lp_PublicKey = lp_PublicKey p, lp_PresharedKey = drop_none (or_none (lp_PresharedKey p)),
      lp_Endpoint = (if or_none (lp_Endpoint p) = ''(none)'' then [] else or_none (lp_Endpoint p)),
      lp_AllowedIPs = dump_allowed (or_none (Join (lp_AllowedIPs p) '','')),
      lp_PersistentKeepaliveInterval = dump_keepalive (if lp_PersistentKeepaliveInterval p = 0 then ''off''
        else int_str (lp_PersistentKeepaliveInterval p div Second)),
      lp_LastHandshakeTime = dump_handshake (int_str (if lp_LastHandshakeTime p = 0 then 0 else lp_LastHandshakeTime p div 1000000000 - 62135596800)),
      lp_ReceiveBytes = AtoiValue (int_str (lp_ReceiveBytes p)), lp_TransmitBytes = AtoiValue (int_str (lp_TransmitBytes p))\<rparr>"
    unfolding parse_dump_peer_def Let_def TrimSpace_trimmed [OF tr] col using nn k
    by (simp del: if_split)
  moreover have "drop_none (or_none (lp_PresharedKey p)) = lp_PresharedKey p" "dump_allowed (or_none (Join (lp_AllowedIPs p) '','')) = lp_AllowedIPs p"
    using assms drop_or_none dump_allowed_Join by (simp_all add: dump_peer_ok_def)
  moreover have "(if or_none (lp_Endpoint p) = ''(none)'' then [] else or_none (lp_Endpoint p)) = lp_Endpoint p"
    using assms by (simp add: dump_peer_ok_def or_none_def)
  moreover have "AtoiValue (int_str (lp_ReceiveBytes p)) = lp_ReceiveBytes p" "AtoiValue (int_str (lp_TransmitBytes p)) = lp_TransmitBytes p"
    using assms AtoiValue_int_str by (simp_all add: dump_peer_ok_def)
  moreover note handshake_back [of "lp_LastHandshakeTime p"] keepalive_back [of "lp_PersistentKeepaliveInterval p"]
  ultimately have "parse_dump_peer (print_peer p) = Some \<lparr>lp_PublicKey = lp_PublicKey p, lp_PresharedKey = lp_PresharedKey p,
      lp_Endpoint = lp_Endpoint p, lp_AllowedIPs = lp_AllowedIPs p, lp_PersistentKeepaliveInterval = lp_PersistentKeepaliveInterval p,
      lp_LastHandshakeTime = lp_LastHandshakeTime p, lp_ReceiveBytes = lp_ReceiveBytes p, lp_TransmitBytes = lp_TransmitBytes p\<rparr>"
    using assms by (simp only: dump_peer_ok_def)
  then show "parse_dump_peer (print_peer p) = Some p" by simp
qed

lemma peers_back: "\<forall>p\<in>set ps. dump_peer_ok p \<Longrightarrow> List.map_filter parse_dump_peer (map print_peer ps) = ps"
  by (induction ps) (simp_all add: map_filter_simps print_peer_plain)

text \<open>
  C35. Reading back what the tools print gives the device: every key, endpoint, network, handshake, counter and keepalive interval of
  every peer, in order, for devices without a firewall mark whose texts hold no white space.
\<close>

theorem dump_roundtrip:
  assumes "dump_ok d"
  shows "parseShowDump (d_Name d) (print_dump d) = Inr d"
proof -
  let ?h = "[or_none (d_PrivateKey d), or_none (d_PublicKey d), int_str (d_ListenPort d), ''off'']"
  let ?ls = "Join ?h [tab] # map print_peer (d_Peers d)"
  have ok: "d_FirewallMark d = 0" "plain (d_PrivateKey d)" "plain (d_PublicKey d)" "in64 (d_ListenPort d)" "\<forall>p\<in>set (d_Peers d). dump_peer_ok p"
    "key_text (d_PrivateKey d)" "key_text (d_PublicKey d)"
    using assms by (simp_all add: dump_ok_def key_text_def)
  have "\<forall>x\<in>set ?h. plain x" "\<forall>x\<in>set ?h. x \<noteq> []" using ok by simp_all
  then have hp: "\<forall>x\<in>set ?h. plain x" "[] \<notin> set ?h" by blast+
  have hd_ok: "Join ?h [tab] \<noteq> []" "trimmed (Join ?h [tab])" "CHR 0x0A \<notin> set (Join ?h [tab])"
    using Join_ends [of ?h "[tab]"] trimmed_Join [of ?h "[tab]"] hp plain_trimmed plain_sep(2)
    by (auto dest!: Join_members simp: tab_def)
  have "\<forall>x\<in>set ?ls. x \<noteq> [] \<and> trimmed x \<and> CHR 0x0A \<notin> set x"
    using hd_ok ok(5) print_peer_plain(2-4) by (simp del: Join.simps)
  then have ls: "[] \<notin> set ?ls" "\<forall>x\<in>set ?ls. trimmed x" "\<forall>x\<in>set ?ls. CHR 0x0A \<notin> set x" by blast+
  have "print_dump d = Join ?ls nl @ [CHR 0x0A]" using ok(1) by (simp only: print_dump_def nl_def if_True refl)
  moreover have sp: "is_space (CHR 0x0A)" by (simp add: is_space_def)
  ultimately have "TrimSpace (print_dump d) = Join ?ls nl"
    using TrimSpace_space_snoc [OF sp, of "Join ?ls nl"] TrimSpace_trimmed [OF trimmed_Join [OF ls(1,2)], of nl] by simp
  moreover have "split_on (CHR 0x0A) (Join ?ls nl) = ?ls" unfolding nl_def by (rule split_on_Join) (use ls(3) in auto)
  ultimately have sp: "split_on (CHR 0x0A) (TrimSpace (print_dump d)) = ?ls" by simp
  have col: "columns 4 (Join ?h [tab]) = ?h" by (rule columns_Join [OF hp(1)]) simp_all
  have ne: "TrimSpace (Join ?h [tab]) \<noteq> []" using hd_ok by (simp only: TrimSpace_trimmed not_False_eq_True)
  have "parseShowDump (d_Name d) (print_dump d) = Inr \<lparr>d_Name = d_Name d, d_PublicKey = drop_none (or_none (d_PublicKey d)),
      d_PrivateKey = drop_none (or_none (d_PrivateKey d)), d_ListenPort = AtoiValue (int_str (d_ListenPort d)), d_FirewallMark = 0,
      d_MTU = 0, d_Addresses = [], d_Peers = List.map_filter parse_dump_peer (map print_peer (d_Peers d)), d_Up = True, d_Backend = [], d_Protocol = []\<rparr>"
    unfolding parseShowDump_def Let_def sp list.sel col using ne by simp
  also have "\<dots> = Inr \<lparr>d_Name = d_Name d, d_PublicKey = d_PublicKey d, d_PrivateKey = d_PrivateKey d, d_ListenPort = d_ListenPort d,
      d_FirewallMark = d_FirewallMark d, d_MTU = d_MTU d, d_Addresses = d_Addresses d, d_Peers = d_Peers d, d_Up = d_Up d,
      d_Backend = d_Backend d, d_Protocol = d_Protocol d\<rparr>"
    using assms by (simp only: drop_or_none ok(1,2,3,4,6,7) peers_back [OF ok(5)] AtoiValue_int_str dump_ok_def simp_thms)
  finally show ?thesis by simp
qed

definition dumped :: Device where
  "dumped = \<lparr>d_Name = ''wg0'', d_PublicKey = ''cHVi'', d_PrivateKey = ''cHJpdg'', d_ListenPort = 51820, d_FirewallMark = 0, d_MTU = 0,
     d_Addresses = [], d_Peers = [\<lparr>lp_PublicKey = ''cGVlcg'', lp_PresharedKey = [], lp_Endpoint = ''1.2.3.4:5'',
       lp_AllowedIPs = [''10.0.0.2/32'', ''fd00::2/128''], lp_PersistentKeepaliveInterval = 25 * Second,
       lp_LastHandshakeTime = unix_time 1700000000, lp_ReceiveBytes = 12345, lp_TransmitBytes = 0\<rparr>],
     d_Up = True, d_Backend = [], d_Protocol = []\<rparr>"

theorem dump_roundtrip_witness: "parseShowDump ''wg0'' (print_dump dumped) = Inr dumped"
proof -
  have "\<exists>sec. 0 < sec \<and> sec < 2 ^ 63 \<and> unix_time 1700000000 = unix_time sec" by (rule exI [of _ 1700000000]) simp
  then have "dump_peer_ok (hd (d_Peers dumped))"
    by (auto simp: dump_peer_ok_def dumped_def key_text_def plain_def is_space_def ZeroKey_def Second_def in64_def)
  then have "dump_ok dumped"
    by (simp add: dump_ok_def dumped_def key_text_def plain_def is_space_def ZeroKey_def in64_def)
  from dump_roundtrip [OF this] show ?thesis by (simp add: dumped_def)
qed

text \<open>A mark is printed in hexadecimal but read as a decimal number: it is lost.\<close>

lemma dump_mark_lost: "AtoiValue (''0x'' @ hex_str n) = 0"
proof -
  have "\<not> is_digit CHR ''x''" by (simp add: is_digit_range)
  then have "Atoi (''0x'' @ hex_str n) = None" "\<not> list_all is_digit (''0x'' @ hex_str n)"
    by (simp_all add: Atoi_def ParseUint_def is_digit_range)
  then show ?thesis by (simp add: AtoiValue_def)
qed

end
