(* ===== verification/HostBackend.thy ===== *)
theory HostBackend
  imports HostPeers DeviceDump Routes Blackholes TcLaws DnsApply
begin

text \<open>
  The backend of a real host (\<open>internal/wgbackend/wgctrl_backend.go\<close>): the state it keeps for each interface, and every
  operation of \<open>wgbackend.Backend\<close> composed of the parts of the other theories.
\<close>

section \<open>State\<close>

text \<open>What stands outside the program, and the orders in which maps are visited.\<close>

record ('key, 'udp, 'k) env =
  en_os :: "'k os"
  en_client :: "('key, 'udp, 'k) wg_client"
  en_tm :: "'k tempfiles"
  en_so :: "'k sockets"
  en_inPath :: "string \<Rightarrow> bool"
  en_routes :: map_order
  en_tc :: "(string \<times> peerTCState) list \<Rightarrow> (string \<times> peerTCState) list"
  en_keys :: "string list \<Rightarrow> string list"
  en_devices :: "(string \<times> Device) list \<Rightarrow> (string \<times> Device) list"
  en_show_resolve :: "resolve_error \<Rightarrow> string"
  en_show_amnezia :: "amnezia_error \<Rightarrow> string"
  en_mkdirParent :: "string \<Rightarrow> 'k \<Rightarrow> string option \<times> 'k"
  en_writeFile :: "string \<Rightarrow> string \<Rightarrow> 'k \<Rightarrow> string option \<times> 'k"
  en_rename :: "string \<Rightarrow> string \<Rightarrow> 'k \<Rightarrow> string option \<times> 'k"

record host =
  hb_allowHooks :: bool
  hb_bandwidthBackend :: string
  hb_dnsBackend :: string
  hb_tc :: "string \<rightharpoonup> ifaceTCState"
  hb_nft :: "string \<rightharpoonup> ifaceNFTState"
  hb_routes :: "string \<rightharpoonup> ifaceRouteState"
  hb_dns :: "string \<rightharpoonup> ifaceDNSState"
  hb_blackholes :: bh_cache
  hb_probe :: probe
  hb_bin :: binaries

record host_options =
  ho_AllowHooks :: bool
  ho_BandwidthBackend :: string
  ho_DNSBackend :: string
  ho_WireGuardGo :: string
  ho_AmneziaWGGo :: string
  ho_SwiftWG :: string
  ho_AWGTool :: string
  ho_WGTool :: string

text \<open>Opening the library may fail.\<close>

definition new_host :: "host_options \<Rightarrow> host" where
  "new_host o' =
     (let wgGo = or_else (ho_WireGuardGo o') DefaultWireGuardGo; awgGo = or_else (ho_AmneziaWGGo o') DefaultAmneziaWGGo;
          swift = or_else (ho_SwiftWG o') DefaultSwiftWG; awgTool = or_else (ho_AWGTool o') DefaultAWGTool
      in \<lparr>hb_allowHooks = ho_AllowHooks o', hb_bandwidthBackend = or_else (ho_BandwidthBackend o') ''tc'',
          hb_dnsBackend = or_else (ho_DNSBackend o') ''auto'', hb_tc = Map.empty, hb_nft = Map.empty, hb_routes = Map.empty,
          hb_dns = Map.empty, hb_blackholes = \<lparr>bc_listed = None, bc_at = 0\<rparr>,
          hb_probe = (NewCapabilityProbe wgGo awgGo awgTool)\<lparr>pr_swiftWG := swift\<rparr>,
          hb_bin = \<lparr>bin_wgGo = wgGo, bin_awgGo = awgGo, bin_swift = swift, bin_awgTool = awgTool, bin_wgTool = or_else (ho_WGTool o') DefaultWGTool\<rparr>\<rparr>)"

definition NewHostBackend :: "string option \<Rightarrow> host_options \<Rightarrow> string + host" where
  "NewHostBackend opened o' = (case opened of Some e \<Rightarrow> Inl (''awgctrl: '' @ e) | None \<Rightarrow> Inr (new_host o'))"

type_synonym 'k host_action = "host \<times> 'k \<Rightarrow> string option \<times> host \<times> 'k"

definition en_run :: "('key, 'udp, 'k) env \<Rightarrow> 'k runner" where
  "en_run en = runner_of (en_os en)"

section \<open>Bandwidth\<close>

definition clearInterfaceTCOnly :: "('key, 'udp, 'k) env \<Rightarrow> string \<Rightarrow> host \<times> 'k \<Rightarrow> host \<times> 'k" where
  "clearInterfaceTCOnly en iface s =
     ((fst s)\<lparr>hb_tc := (hb_tc (fst s))(iface := None)\<rparr>,
      attempt (en_run en) ''tc'' [''qdisc'', ''del'', ''dev'', iface, ''ingress'']
        (attempt (en_run en) ''tc'' [''qdisc'', ''del'', ''dev'', iface, ''root''] (snd s)))"

definition clearInterfaceNFT :: "('key, 'udp, 'k) env \<Rightarrow> string \<Rightarrow> host \<times> 'k \<Rightarrow> host \<times> 'k" where
  "clearInterfaceNFT en iface s =
     ((fst s)\<lparr>hb_nft := (hb_nft (fst s))(iface := None)\<rparr>, snd (nftDeleteTable (en_run en) iface (snd s)))"

definition clearInterfaceTC :: "('key, 'udp, 'k) env \<Rightarrow> string \<Rightarrow> host \<times> 'k \<Rightarrow> host \<times> 'k" where
  "clearInterfaceTC en iface s = clearInterfaceNFT en iface (clearInterfaceTCOnly en iface s)"

text \<open>One synchronisation with the state of the interface, created when there is none.\<close>

definition host_tc :: "('key, 'udp, 'k) env \<Rightarrow> string \<Rightarrow> DesiredPeer list \<Rightarrow> bool \<Rightarrow> 'k host_action" where
  "host_tc en iface ps full s =
     (case tc_sync (en_tc en) (en_run en) iface ps full (case hb_tc (fst s) iface of None \<Rightarrow> new_tc | Some st \<Rightarrow> st) (snd s) of
        (e, st, k) \<Rightarrow> (e, (fst s)\<lparr>hb_tc := (hb_tc (fst s))(iface \<mapsto> st)\<rparr>, k))"

definition host_nft :: "('key, 'udp, 'k) env \<Rightarrow> string \<Rightarrow> DesiredPeer list \<Rightarrow> bool \<Rightarrow> 'k host_action" where
  "host_nft en iface ps full s =
     (case nft_sync (en_run en) iface ps full (case hb_nft (fst s) iface of None \<Rightarrow> new_nft | Some st \<Rightarrow> st) (snd s) of
        (e, st, k) \<Rightarrow> (e, (fst s)\<lparr>hb_nft := (hb_nft (fst s))(iface \<mapsto> st)\<rparr>, k))"

definition bad_bandwidth :: "string \<Rightarrow> string" where
  "bad_bandwidth b = ''unsupported bandwidth_backend '' @ quoted b @ '' (supported: tc, nft, none)''"

definition host_SyncBandwidth :: "('key, 'udp, 'k) env \<Rightarrow> string \<Rightarrow> DesiredPeer list \<Rightarrow> 'k host_action" where
  "host_SyncBandwidth en iface ps s =
     (let b = hb_bandwidthBackend (fst s) in
      if b = ''none'' \<or> b = [] then (None, s)
      else if b = ''tc'' then host_tc en iface ps True (clearInterfaceNFT en iface s)
      else if b = ''nft'' then host_nft en iface ps True (clearInterfaceTCOnly en iface s)
      else (Some (bad_bandwidth b), s))"

definition host_ApplyBandwidth :: "('key, 'udp, 'k) env \<Rightarrow> string \<Rightarrow> DesiredPeer \<Rightarrow> 'k host_action" where
  "host_ApplyBandwidth en iface p s =
     (let b = hb_bandwidthBackend (fst s) in
      if b = ''none'' \<or> b = [] then (None, s)
      else if b = ''tc'' then host_tc en iface [p] False s
      else if b = ''nft'' then host_nft en iface [p] False s
      else (Some (bad_bandwidth b), s))"

section \<open>Routes and resolver\<close>

definition set_mark :: "('key, 'udp, 'k) env \<Rightarrow> string \<Rightarrow> int \<Rightarrow> 'k \<Rightarrow> 'k" where
  "set_mark en name mark k = snd (cl_ConfigureDevice (en_client en) name (no_config\<lparr>wc_FirewallMark := Some mark\<rparr>) k)"

definition host_SyncRoutes :: "('key, 'udp, 'k) env \<Rightarrow> DesiredInterface \<Rightarrow> 'k host_action" where
  "host_SyncRoutes en di s =
     (case routes_sync (en_routes en) (en_run en) di (case hb_routes (fst s) (di_Name di) of None \<Rightarrow> no_routes | Some st \<Rightarrow> st)
        (ensureDefaultRouteFwMark (Some (set_mark en)) (en_run en) di (snd s)) of
        (e, st, k) \<Rightarrow> (e, (fst s)\<lparr>hb_routes := (hb_routes (fst s))(di_Name di \<mapsto> st)\<rparr>, k))"

definition clearInterfaceRoutes :: "('key, 'udp, 'k) env \<Rightarrow> string \<Rightarrow> host \<times> 'k \<Rightarrow> host \<times> 'k" where
  "clearInterfaceRoutes en name s =
     (case hb_routes (fst s) name of None \<Rightarrow> s
      | Some st \<Rightarrow> ((fst s)\<lparr>hb_routes := (hb_routes (fst s))(name := None)\<rparr>, clear_routes (en_routes en) (en_run en) name st (snd s)))"

definition host_SyncDNS :: "('key, 'udp, 'k) env \<Rightarrow> DesiredInterface \<Rightarrow> 'k host_action" where
  "host_SyncDNS en di s =
     (let b = or_else (hb_dnsBackend (fst s)) ''auto'' in
      if b = ''none'' then (None, s)
      else case dns_sync (en_inPath en) (en_run en) b di (case hb_dns (fst s) (di_Name di) of None \<Rightarrow> no_dns | Some st \<Rightarrow> st) (snd s) of
          (e, st, k) \<Rightarrow> (e, (fst s)\<lparr>hb_dns := (hb_dns (fst s))(di_Name di \<mapsto> st)\<rparr>, k))"

definition clearInterfaceDNS :: "('key, 'udp, 'k) env \<Rightarrow> string \<Rightarrow> host \<times> 'k \<Rightarrow> host \<times> 'k" where
  "clearInterfaceDNS en name s =
     (case hb_dns (fst s) name of None \<Rightarrow> s
      | Some st \<Rightarrow> if \<not> ds_active st then s
          else ((fst s)\<lparr>hb_dns := (hb_dns (fst s))(name := None)\<rparr>, clearDNS (en_run en) (ds_backend st) name (snd s)))"

definition host_ApplySuspendRoutes :: "('key, 'udp, 'k) env \<Rightarrow> DesiredPeer \<Rightarrow> bool \<Rightarrow> 'k host_action" where
  "host_ApplySuspendRoutes en p suspend s =
     (case applySuspendRoutes (en_run en) (os_now (en_os en) (snd s)) p suspend (hb_blackholes (fst s), snd s) of
        (e, c, k) \<Rightarrow> (e, (fst s)\<lparr>hb_blackholes := c\<rparr>, k))"

section \<open>Devices\<close>

definition enrichDevice :: "('key, 'udp, 'k) env \<Rightarrow> Device \<Rightarrow> 'k \<Rightarrow> Device \<times> 'k" where
  "enrichDevice en d k =
     (let (addrs, k1) = listAddresses (en_run en) (d_Name d) k;
          (up, k2) = linkIsUp (en_run en) (d_Name d) k1;
          (mtu, k3) = linkMTU (en_run en) (d_Name d) k2;
          (backend, k4) = detectLiveBackend (en_os en) (d_Name d) k3
      in (d\<lparr>d_Addresses := (case addrs of Inl _ \<Rightarrow> d_Addresses d | Inr l \<Rightarrow> l), d_Up := up, d_MTU := (if mtu > 0 then mtu else d_MTU d),
            d_Backend := backend, d_Protocol := (if IsAmneziaBackend backend then ProtocolAWG else ProtocolWG)\<rparr>, k4))"

definition host_Device :: "('key, 'udp, 'k) env \<Rightarrow> string \<Rightarrow> host \<times> 'k \<Rightarrow> (string + Device) \<times> host \<times> 'k" where
  "host_Device en name s =
     (case cl_Device (en_client en) name (snd s) of
        Inr d \<Rightarrow> (case enrichDevice en (convertDevice (en_client en) d) (snd s) of (cd, k) \<Rightarrow> (Inr cd, fst s, k))
      | Inl e \<Rightarrow> (case deviceFromCLI (en_run en) (hb_bin (fst s)) name (snd s) of
          (Inl _, k) \<Rightarrow> (Inl e, fst s, k)
        | (Inr d, k) \<Rightarrow> (case enrichDevice en d k of (cd, k') \<Rightarrow> (Inr cd, fst s, k'))))"

definition link_names_script :: string where
  "link_names_script = ''ip -o link show 2>/dev/null | awk -F'' @ [CHR 0x27] @ '': '' @ [CHR 0x27] @ '' '' @ [CHR 0x27] @ ''{print $2}'' @ [CHR 0x27]
     @ '' | cut -d@ -f1 | grep -E '' @ [CHR 0x27] @ ''^(wg|awg)'' @ [CHR 0x27] @ '' || true''"

definition listWGLinkNames :: "'k runner \<Rightarrow> 'k \<Rightarrow> string list \<times> 'k" where
  "listWGLinkNames run k =
     (case run ''bash'' [''-c'', link_names_script] k of
        (Inl _, k') \<Rightarrow> ([], k')
      | (Inr out, k') \<Rightarrow> (filter (\<lambda>n. n \<noteq> [] \<and> n \<noteq> ''mesh0'') (map TrimSpace (Fields out)), k'))"

text \<open>First what the library lists, then the links it missed through the tools.\<close>

definition list_client :: "('key, 'udp, 'k) env \<Rightarrow> ('key, 'udp) wg_device \<Rightarrow> (string \<times> Device) list \<times> 'k \<Rightarrow> (string \<times> Device) list \<times> 'k" where
  "list_client en d s = (case enrichDevice en (convertDevice (en_client en) d) (snd s) of (cd, k) \<Rightarrow> (AList.update (wd_Name d) cd (fst s), k))"

definition list_link :: "('key, 'udp, 'k) env \<Rightarrow> binaries \<Rightarrow> string \<Rightarrow> (string \<times> Device) list \<times> 'k \<Rightarrow> (string \<times> Device) list \<times> 'k" where
  "list_link en b name s =
     (if map_of (fst s) name \<noteq> None then s
      else case deviceFromCLI (en_run en) b name (snd s) of
          (Inl _, k) \<Rightarrow> (fst s, k)
        | (Inr d, k) \<Rightarrow> (case enrichDevice en d k of (cd, k') \<Rightarrow> (AList.update name cd (fst s), k')))"

definition host_Devices :: "('key, 'udp, 'k) env \<Rightarrow> host \<times> 'k \<Rightarrow> (string + Device list) \<times> host \<times> 'k" where
  "host_Devices en s =
     (let r = cl_Devices (en_client en) (snd s);
          (ds, k1) = fold (list_client en) (case r of Inl _ \<Rightarrow> [] | Inr l \<Rightarrow> l) ([], snd s);
          (names, k2) = listWGLinkNames (en_run en) k1;
          (all, k3) = fold (list_link en (hb_bin (fst s))) names (ds, k2)
      in (case r of Inl e \<Rightarrow> if all = [] then Inl e else Inr (map snd (en_devices en all)) | Inr _ \<Rightarrow> Inr (map snd (en_devices en all)), fst s, k3))"

section \<open>Interfaces and peers\<close>

definition host_protocol :: "DesiredInterface \<Rightarrow> string" where
  "host_protocol di = (if di_Protocol di \<noteq> [] then di_Protocol di
     else if IsAmneziaBackend (di_Backend di) \<or> \<not> IsZeroParams (di_Amnezia di) then ProtocolAWG else ProtocolWG)"

text \<open>The host is probed only when both names are valid.\<close>

definition host_resolve :: "('key, 'udp, 'k) env \<Rightarrow> DesiredInterface \<Rightarrow> host \<times> 'k \<Rightarrow> (string + string) \<times> host \<times> 'k" where
  "host_resolve en di s =
     (case (NormalizeProtocol (host_protocol di), NormalizeBackend (or_else (di_Backend di) BackendAuto)) of
        (Inr _, Inr _) \<Rightarrow>
          (case Caps (en_os en) (hb_probe (fst s)) (snd s) of (caps, pr, k) \<Rightarrow>
            (case ResolveBackend caps (host_protocol di) (or_else (di_Backend di) BackendAuto) of
               Inl e \<Rightarrow> Inl (en_show_resolve en e) | Inr b \<Rightarrow> Inr b, (fst s)\<lparr>hb_probe := pr\<rparr>, k))
      | (Inl e, _) \<Rightarrow> (Inl (en_show_resolve en (BadName e)), s)
      | (_, Inl e) \<Rightarrow> (Inl (en_show_resolve en (BadName e)), s))"

definition host_configure :: "('key, 'udp, 'k) env \<Rightarrow> binaries \<Rightarrow> DesiredInterface \<Rightarrow> string \<Rightarrow> 'k \<Rightarrow> string option \<times> 'k" where
  "host_configure en b di resolved k =
     (case configureDeviceAwgctrl (en_client en) di resolved k of
        (None, k1) \<Rightarrow> (None, k1)
      | (Some e, k1) \<Rightarrow>
        (let tool = toolForBackend b resolved in
         case configureDeviceViaCLI (en_run en) (en_tm en) tool di k1 of
           (Some e2, k2) \<Rightarrow> (Some (''configure '' @ di_Name di @ '': awgctrl: '' @ e @ ''; '' @ tool @ '': '' @ e2), k2)
         | (None, k2) \<Rightarrow>
           (if host_protocol di = ProtocolAWG \<or> IsAmneziaBackend resolved then
              (case setAmneziaParams (en_os en) (en_so en) (en_show_amnezia en) (bin_awgTool b) (di_Name di) (di_Amnezia di) k2 of
                 (Some e3, k3) \<Rightarrow> (Some (''amnezia params via '' @ tool @ '': '' @ e3), k3) | (None, k3) \<Rightarrow> (None, k3))
            else (None, k2))))"

definition host_EnsureInterface :: "('key, 'udp, 'k) env \<Rightarrow> DesiredInterface \<Rightarrow> host \<times> 'k \<Rightarrow> (string option \<times> host \<times> 'k) option" where
  "host_EnsureInterface en di s =
     (case host_resolve en di s of
        (Inl e, h, k) \<Rightarrow> Some (Some e, h, k)
      | (Inr resolved, h, k) \<Rightarrow>
        (case ensureLink (en_os en) (hb_bin h) (di_Name di) resolved k of
           None \<Rightarrow> None
         | Some (Some e, k1) \<Rightarrow> Some (Some e, h, k1)
         | Some (None, k1) \<Rightarrow>
           (case until_error
              [host_configure en (hb_bin h) di resolved,
               (\<lambda>k. if resolved = BackendSwift then setSwiftAllowClean (en_so en) (di_Name di) (di_Amnezia di) k else (None, k)),
               setMTU (en_run en) (di_Name di) (di_MTU di),
               syncAddresses (en_run en) (di_Name di) (di_Addresses di),
               (\<lambda>k. if di_Enabled di then setLinkUp (en_run en) (di_Name di) True k else (None, k))] k1 of
              (e, k2) \<Rightarrow> Some (e, h, k2))))"

definition host_RemoveInterface :: "('key, 'udp, 'k) env \<Rightarrow> string \<Rightarrow> 'k host_action" where
  "host_RemoveInterface en name s =
     (case clearInterfaceRoutes en name (clearInterfaceTC en name (clearInterfaceDNS en name s)) of
        (h, k) \<Rightarrow> (None, h, deleteLinkExtended (en_run en) name k))"

definition host_SetUp :: "('key, 'udp, 'k) env \<Rightarrow> string \<Rightarrow> bool \<Rightarrow> 'k host_action" where
  "host_SetUp en name up s = (case setLinkUp (en_run en) name up (snd s) of (e, k) \<Rightarrow> (e, fst s, k))"

definition host_ApplyPeers :: "('key, 'udp, 'k) env \<Rightarrow> string \<Rightarrow> DesiredPeer list \<Rightarrow> host \<times> 'k \<Rightarrow> cli_error option \<times> host \<times> 'k" where
  "host_ApplyPeers en iface ps s =
     (let (backend, k1) = detectLiveBackend (en_os en) iface (snd s); am = IsAmneziaBackend backend in
      case applyPeersAwgctrl (en_client en) iface ps am k1 of
        (None, k2) \<Rightarrow> (None, fst s, k2)
      | (Some e, k2) \<Rightarrow>
        (let (cli, k3) = (if am then (True, k2) else case linkKind (en_run en) iface k2 of (kind, k') \<Rightarrow> (kind = ''amneziawg'', k')) in
         if \<not> cli then (Some (CliError e), fst s, k3)
         else let tool = toolForBackend (hb_bin (fst s)) backend in
           case applyPeersViaCLI (en_keys en) (en_run en) (en_tm en) tool iface ps k3 of
             (None, k4) \<Rightarrow> (None, fst s, k4)
           | (Some CliPanic, k4) \<Rightarrow> (Some CliPanic, fst s, k4)
           | (Some (CliError e2), k4) \<Rightarrow> (Some (CliError (''apply peers: awgctrl: '' @ e @ ''; '' @ tool @ '': '' @ e2)), fst s, k4)))"

definition host_ExportConf :: "('key, 'udp, 'k) env \<Rightarrow> string \<Rightarrow> string \<Rightarrow> 'k host_action" where
  "host_ExportConf en path content s =
     (case until_error [en_mkdirParent en path, en_writeFile en (path @ ''.tmp'') content, en_rename en (path @ ''.tmp'') path] (snd s) of
        (e, k) \<Rightarrow> (e, fst s, k))"

definition host_RunHook :: "('key, 'udp, 'k) env \<Rightarrow> string \<Rightarrow> 'k host_action" where
  "host_RunHook en hook s =
     (if \<not> hb_allowHooks (fst s) \<or> hook = [] then (None, s)
      else case en_run en ''sh'' [''-c'', hook] (snd s) of (r, k) \<Rightarrow> (failed r, fst s, k))"

end
