(* ===== verification/HostLaws.thy ===== *)
theory HostLaws
  imports HostBackend
begin

text \<open>
  What the backend of a host guarantees over any sequence of its operations: removing an interface forgets it, and no two limited peers
  of an interface ever share a class.
\<close>

section \<open>Operations\<close>

text \<open>Every method of the interface \<open>Backend\<close>, and the capability probe.\<close>

datatype host_op =
    OpDevices
  | OpDevice string
  | OpEnsure DesiredInterface
  | OpRemove string
  | OpSetUp string bool
  | OpPeers string "DesiredPeer list"
  | OpSuspend string DesiredPeer bool
  | OpApply string DesiredPeer
  | OpBandwidth string "DesiredPeer list"
  | OpRoutes DesiredInterface
  | OpDNS DesiredInterface
  | OpExport string string
  | OpHook string
  | OpCaps

definition host_Caps :: "('key, 'udp, 'k) env \<Rightarrow> host \<times> 'k \<Rightarrow> BackendCaps \<times> host \<times> 'k" where
  "host_Caps en s = (case Caps (en_os en) (hb_probe (fst s)) (snd s) of (caps, pr, k) \<Rightarrow> (caps, (fst s)\<lparr>hb_probe := pr\<rparr>, k))"

text \<open>The state after an operation; \<open>None\<close> when it does not return (starting a userspace device may wait for ever).\<close>

fun host_do :: "('key, 'udp, 'k) env \<Rightarrow> host_op \<Rightarrow> host \<times> 'k \<Rightarrow> (host \<times> 'k) option" where
  "host_do en OpDevices s = Some (snd (host_Devices en s))"
| "host_do en (OpDevice n) s = Some (snd (host_Device en n s))"
| "host_do en (OpEnsure di) s = map_option snd (host_EnsureInterface en di s)"
| "host_do en (OpRemove n) s = Some (snd (host_RemoveInterface en n s))"
| "host_do en (OpSetUp n up) s = Some (snd (host_SetUp en n up s))"
| "host_do en (OpPeers n ps) s = Some (snd (host_ApplyPeers en n ps s))"
| "host_do en (OpSuspend n p held) s = Some (snd (host_ApplySuspendRoutes en p held s))"
| "host_do en (OpApply n p) s = Some (snd (host_ApplyBandwidth en n p s))"
| "host_do en (OpBandwidth n ps) s = Some (snd (host_SyncBandwidth en n ps s))"
| "host_do en (OpRoutes di) s = Some (snd (host_SyncRoutes en di s))"
| "host_do en (OpDNS di) s = Some (snd (host_SyncDNS en di s))"
| "host_do en (OpExport n c) s = Some (snd (host_ExportConf en n c s))"
| "host_do en (OpHook h) s = Some (snd (host_RunHook en h s))"
| "host_do en OpCaps s = Some (snd (host_Caps en s))"

text \<open>
  Removing an interface always succeeds and forgets it: no class, table, route or active resolver setting is remembered for its
  name, so an interface created under the same name later starts afresh.
\<close>

theorem host_remove_forgets:
  "host_RemoveInterface en n s = (e, h, k) \<Longrightarrow> e = None \<and> hb_tc h n = None \<and> hb_nft h n = None \<and> hb_routes h n = None
     \<and> \<not> (\<exists>st. hb_dns h n = Some st \<and> ds_active st)"
proof -
  assume r: "host_RemoveInterface en n s = (e, h, k)"
  let ?s1 = "clearInterfaceDNS en n s" let ?s3 = "clearInterfaceNFT en n (clearInterfaceTCOnly en n ?s1)"
  have dns: "\<not> (\<exists>st. hb_dns (fst ?s1) n = Some st \<and> ds_active st)" by (auto simp: clearInterfaceDNS_def split: option.splits)
  have tc: "hb_tc (fst ?s3) n = None" "hb_nft (fst ?s3) n = None" "hb_dns (fst ?s3) = hb_dns (fst ?s1)"
    by (simp_all add: clearInterfaceTCOnly_def clearInterfaceNFT_def)
  have "hb_routes (fst (clearInterfaceRoutes en n ?s3)) n = None" "hb_tc (fst (clearInterfaceRoutes en n ?s3)) = hb_tc (fst ?s3)"
    "hb_nft (fst (clearInterfaceRoutes en n ?s3)) = hb_nft (fst ?s3)" "hb_dns (fst (clearInterfaceRoutes en n ?s3)) = hb_dns (fst ?s3)"
    by (simp_all add: clearInterfaceRoutes_def split: option.split)
  moreover have "e = None" "h = fst (clearInterfaceRoutes en n ?s3)"
    using r by (auto simp: host_RemoveInterface_def clearInterfaceTC_def split: prod.splits)
  ultimately show ?thesis using dns tc by simp
qed

section \<open>Reachable states\<close>

text \<open>
  Synchronisations of at most 1020 peers, and of one more peer while fewer than 1020 classes of the interface are in use: half
  of the classes the search can tell apart.  Between two operations the host may change in any way.
\<close>

fun op_small :: "host \<Rightarrow> host_op \<Rightarrow> bool" where
  "op_small h (OpBandwidth n ps) \<longleftrightarrow> length ps \<le> 1020"
| "op_small h (OpApply n p) \<longleftrightarrow> (case hb_tc h n of None \<Rightarrow> True | Some st \<Rightarrow> length (tf_minors st) < 1020)"
| "op_small h op \<longleftrightarrow> True"

inductive host_reach :: "('key, 'udp, 'k) env \<Rightarrow> host \<times> 'k \<Rightarrow> bool" for en where
  start: "host_reach en (new_host o', k)"
| step: "host_reach en s \<Longrightarrow> op_small (fst s) op \<Longrightarrow> host_do en op s = Some s' \<Longrightarrow> host_reach en s'"
| outside: "host_reach en (h, k) \<Longrightarrow> host_reach en (h, k')"

definition tc_sound :: "ifaceTCState \<Rightarrow> bool" where
  "tc_sound st \<longleftrightarrow> tc_ok st \<and> length (tf_minors st) \<le> 1020 \<and> (\<forall>m a. map_of (tf_minors st) m = Some a \<longrightarrow> in_band m)"

lemma new_tc_sound: "tc_sound new_tc"
  using new_tc_ok by (simp add: tc_sound_def) (simp add: new_tc_def)

text \<open>After a full synchronisation only peers of the request have a class, whatever failed.\<close>

lemma full_sync_owners:
  assumes "rearranges ord" "tc_ok st" "tc_sync ord run iface ps True st k = (e, st', k')" "map_of (tf_peers st') a = Some q" "tc_active q"
  shows "a \<in> dp_PublicKey ` set ps"
proof -
  let ?es = "filter (tc_stale ps True) (ord (tf_peers st))"
  obtain st1 k1 where f: "fold (tc_forget run iface) ?es (st, k) = (st1, k1)" by (metis prod.collapse)
  have one: "map_of (tf_peers st1) a = (if a \<in> fst ` set ?es then None else map_of (tf_peers st) a)" for a
    using forget_fold [of ?es "(st, k)" run iface] stale_list [OF assms(1,2), of ps True] assms(2) by (simp add: f)
  obtain e2 st2 k2 where root: "ensureRootHTB run iface st1 k1 = (e2, st2, k2)" by (metis prod_cases3)
  obtain e3 st3 k3 where ing: "ensureIngress run iface st2 k2 = (e3, st3, k3)" by (metis prod_cases3)
  obtain st4 errs k4 where ps: "fold (tc_peer run iface) ps (st3, [], k3) = (st4, errs, k4)" by (metis prod_cases3)
  note same = root_peers(1) [OF root] root_peers(2) [OF ing]
  show ?thesis
  proof (rule ccontr)
    assume no: "a \<notin> dp_PublicKey ` set ps"
    then have four: "map_of (tf_peers st4) a = map_of (tf_peers st1) a"
      using peers_fold_other [of a ps run iface "(st3, [], k3)"] same by (simp add: ps)
    consider "st' = st1" | "st' = st2" | "st' = st3" | "st' = st4"
      using assms(3) by (auto simp: tc_sync_def Let_def f root ing ps split: if_splits option.splits)
    then have "map_of (tf_peers st1) a = Some q" using assms(4) same four by cases simp_all
    then have q: "map_of (tf_peers st) a = Some q" "a \<notin> fst ` set ?es" by (simp_all add: one split: if_splits)
    then have "(a, q) \<in> set (ord (tf_peers st))" by (simp add: rearranges_set [OF assms(1)] map_of_SomeD)
    moreover have "desired_by_key ps a = None" using no by (simp add: desired_by_key_def map_of_eq_None_iff image_image)
    then have "tc_stale ps True (a, q)" using assms(5) by (simp add: tc_stale_def Let_def)
    ultimately show False using q(2) by force
  qed
qed

lemma classes_counted:
  assumes "tc_ok st" "\<And>a q. map_of (tf_peers st) a = Some q \<Longrightarrow> tc_active q \<Longrightarrow> a \<in> S" "finite S"
  shows "length (tf_minors st) \<le> card S"
proof -
  let ?own = "\<lambda>m. the (map_of (tf_minors st) m)"
  have d: "distinct (map fst (tf_minors st))" using assms(1) by (simp add: tc_ok_def)
  have iff: "map_of (tf_minors st) m = Some a \<longleftrightarrow> (\<exists>x. map_of (tf_peers st) a = Some x \<and> tc_active x \<and> tc_minor x = m)" for m a
    using assms(1) by (simp add: tc_ok_def)
  have some: "\<exists>a. map_of (tf_minors st) m = Some a" if "m \<in> fst ` set (tf_minors st)" for m
    using that by (metis map_of_eq_None_iff not_None_eq)
  have "length (tf_minors st) = card (fst ` set (tf_minors st))" using distinct_card [OF d] by simp
  also have "\<dots> \<le> card S"
  proof (rule card_inj_on_le [where f = ?own])
    show "inj_on ?own (fst ` set (tf_minors st))"
    proof (rule inj_onI)
      fix m n assume mn: "m \<in> fst ` set (tf_minors st)" "n \<in> fst ` set (tf_minors st)" "?own m = ?own n"
      then obtain a where "map_of (tf_minors st) m = Some a" "map_of (tf_minors st) n = Some a" using some by (metis option.sel)
      then show "m = n" using iff by auto
    qed
    show "?own ` fst ` set (tf_minors st) \<subseteq> S"
    proof
      fix x assume "x \<in> ?own ` fst ` set (tf_minors st)"
      then obtain m where "m \<in> fst ` set (tf_minors st)" "x = ?own m" by blast
      with some have "map_of (tf_minors st) m = Some x" by fastforce
      then show "x \<in> S" using iff assms(2) by blast
    qed
    show "finite S" by fact
  qed
  finally show ?thesis .
qed

definition band :: "ifaceTCState \<Rightarrow> bool" where
  "band st \<longleftrightarrow> (\<forall>m a. map_of (tf_minors st) m = Some a \<longrightarrow> in_band m)"

lemma band_minors: "tf_minors st' = tf_minors st \<Longrightarrow> band st' = band st"
  by (simp add: band_def)

lemma band_delete: "band st \<Longrightarrow> band (st\<lparr>tf_minors := AList.delete m (tf_minors st)\<rparr>)"
  by (simp add: band_def delete_conv')

lemma band_forget: "band (fst s) \<Longrightarrow> band (fst (tc_forget run iface e s))"
  using band_delete [of "fst s" "tc_minor (snd e)"] by (simp add: tc_forget_def band_def)

lemma band_forgets: "band (fst s) \<Longrightarrow> band (fst (fold (tc_forget run iface) es s))"
  by (induction es arbitrary: s) (simp_all add: band_forget)

lemma band_peer:
  assumes "band (fst s)" "tc_ok (fst s)" "length (tf_minors (fst s)) < 2040"
  shows "band (fst (tc_peer run iface p s))"
proof -
  obtain st errs k where s: "s = (st, errs, k)" by (metis prod_cases3)
  let ?pub = "dp_PublicKey p"
  obtain st1 k1 where st1: "tc_retire run iface ?pub st k = (st1, k1)" by (metis prod.collapse)
  have b1: "band st1"
    using assms(1) st1 by (auto simp: s tc_retire_def band_def delete_conv' split: option.splits if_splits)
  have len: "length (tf_minors st1) < 2040" using tc_retire_ok(2) [of st run iface ?pub k] assms(2,3) by (simp add: s st1)
  have m: "in_band (allocateMinor st1 ?pub)" by (rule allocate_in_band [OF len])
  let ?m = "allocateMinor st1 ?pub"
  have "band (st1\<lparr>tf_minors := AList.delete ?m (tf_minors st1)\<rparr>)" by (rule band_delete [OF b1])
  moreover have "band (st1\<lparr>tf_peers := ps, tf_minors := AList.update ?m ?pub (tf_minors st1)\<rparr>)" for ps
    using b1 m by (simp add: band_def update_conv')
  ultimately show ?thesis
    using assms(1) by (simp add: tc_peer_def s st1 Let_def split: prod.split option.split)
qed

lemma band_peers:
  "band (fst s) \<Longrightarrow> tc_ok (fst s) \<Longrightarrow> length (tf_minors (fst s)) + length ps \<le> 2040 \<Longrightarrow> band (fst (fold (tc_peer run iface) ps s))"
proof (induction ps arbitrary: s)
  case (Cons p ps)
  have l: "length (tf_minors (fst s)) < 2040" using Cons.prems(3) by simp
  note ok = tc_peer_ok [OF Cons.prems(2) l, of run iface p]
  have "length (tf_minors (fst (tc_peer run iface p s))) + length ps \<le> 2040" using ok(2) Cons.prems(3) by simp
  from Cons.IH [OF band_peer [OF Cons.prems(1,2) l] ok(1) this] show ?case by simp
qed simp

lemma band_sync:
  assumes "rearranges ord" "tc_ok st" "band st" "length (tf_minors st) + length ps \<le> 2040" "tc_sync ord run iface ps full st k = (e, st', k')"
  shows "band st'"
proof -
  let ?es = "filter (tc_stale ps full) (ord (tf_peers st))"
  obtain st1 k1 where f: "fold (tc_forget run iface) ?es (st, k) = (st1, k1)" by (metis prod.collapse)
  have one: "band st1" "tc_ok st1" "length (tf_minors st1) \<le> length (tf_minors st)"
    using band_forgets [of "(st, k)" run iface ?es] forget_fold [of ?es "(st, k)" run iface] stale_list [OF assms(1,2), of ps full] assms(2,3)
    by (simp_all add: f)
  obtain e2 st2 k2 where root: "ensureRootHTB run iface st1 k1 = (e2, st2, k2)" by (metis prod_cases3)
  obtain e3 st3 k3 where ing: "ensureIngress run iface st2 k2 = (e3, st3, k3)" by (metis prod_cases3)
  obtain st4 errs k4 where ps: "fold (tc_peer run iface) ps (st3, [], k3) = (st4, errs, k4)" by (metis prod_cases3)
  note same = root_peers(1) [OF root] root_peers(2) [OF ing]
  have three: "band st2" "band st3" "tc_ok st3" "length (tf_minors st3) + length ps \<le> 2040"
    using one same band_minors [of st2 st1] band_minors [of st3 st2] tc_ok_same [of st3 st1] assms(4) by simp_all
  have four: "band st4" using band_peers [of "(st3, [], k3)" ps run iface] three by (simp add: ps)
  consider "st' = st1" | "st' = st2" | "st' = st3" | "st' = st4"
    using assms(5) by (auto simp: tc_sync_def Let_def f root ing ps split: if_splits option.splits)
  then show ?thesis using one three four by cases simp_all
qed

lemma sync_sound:
  assumes "rearranges ord" "tc_sound st" "tc_sync ord run iface ps full st k = (e, st', k')"
    "length (tf_minors st) + length ps \<le> 2040" "full \<and> length ps \<le> 1020 \<or> length (tf_minors st) + length ps \<le> 1020"
  shows "tc_sound st'"
proof -
  have st: "tc_ok st" "band st" using assms(2) by (simp_all add: tc_sound_def band_def)
  note ok = tc_sync_ok [OF assms(1) st(1) assms(4,3)]
  have "length (tf_minors st') \<le> 1020"
  proof (cases "length (tf_minors st) + length ps \<le> 1020")
    case True
    with ok show ?thesis by simp
  next
    case False
    with assms(5) have full: "full = True" "length ps \<le> 1020" by auto
    have "length (tf_minors st') \<le> card (dp_PublicKey ` set ps)"
      by (rule classes_counted) (use ok full_sync_owners [OF assms(1) st(1) assms(3) [unfolded full(1)]] in auto)
    also have "\<dots> \<le> length ps" by (metis card_image_le card_length finite_set le_trans)
    finally show ?thesis using full(2) by simp
  qed
  with ok band_sync [OF assms(1) st assms(4,3)] show ?thesis by (simp add: tc_sound_def band_def)
qed

definition all_sound :: "host \<Rightarrow> bool" where
  "all_sound h \<longleftrightarrow> (\<forall>iface st. hb_tc h iface = Some st \<longrightarrow> tc_sound st)"

lemma ensure_accounts: "host_EnsureInterface en di s = Some (e, s') \<Longrightarrow> hb_tc (fst s') = hb_tc (fst s)"
  by (auto simp: host_EnsureInterface_def host_resolve_def split: sum.splits option.splits prod.splits)

lemma remove_accounts: "hb_tc (fst (snd (host_RemoveInterface en n s))) m \<in> {None, hb_tc (fst s) m}"
proof -
  let ?s1 = "clearInterfaceDNS en n s" let ?s3 = "clearInterfaceNFT en n (clearInterfaceTCOnly en n ?s1)"
  obtain h k where r: "clearInterfaceRoutes en n ?s3 = (h, k)" by fastforce
  have "hb_tc (fst ?s1) = hb_tc (fst s)" by (simp add: clearInterfaceDNS_def split: option.split)
  moreover have "hb_tc (fst (clearInterfaceRoutes en n ?s3)) = hb_tc (fst ?s3)" by (simp add: clearInterfaceRoutes_def split: option.split)
  ultimately show ?thesis
    by (simp add: host_RemoveInterface_def clearInterfaceTC_def r) (simp add: clearInterfaceTCOnly_def clearInterfaceNFT_def)
qed

lemma other_accounts:
  "fst (snd (host_Devices en s)) = fst s" "fst (snd (host_Device en n s)) = fst s" "fst (snd (host_SetUp en n up s)) = fst s"
  "fst (snd (host_ApplyPeers en n ps s)) = fst s" "fst (snd (host_ExportConf en n c s)) = fst s" "fst (snd (host_RunHook en hk s)) = fst s"
  "hb_tc (fst (snd (host_Caps en s))) = hb_tc (fst s)" "hb_tc (fst (snd (host_ApplySuspendRoutes en p held s))) = hb_tc (fst s)"
  "hb_tc (fst (snd (host_SyncRoutes en di s))) = hb_tc (fst s)" "hb_tc (fst (snd (host_SyncDNS en di s))) = hb_tc (fst s)"
  by (simp_all add: host_Devices_def host_Device_def host_SetUp_def host_ApplyPeers_def host_ExportConf_def host_RunHook_def host_Caps_def
      host_ApplySuspendRoutes_def host_SyncRoutes_def host_SyncDNS_def Let_def split: prod.split option.split cli_error.split sum.split)

lemma op_other_tc:
  assumes "host_do en op s = Some s'" "\<not> (\<exists>n ps. op = OpBandwidth n ps)" "\<not> (\<exists>n p. op = OpApply n p)"
  shows "hb_tc (fst s') m \<in> {None, hb_tc (fst s) m}"
proof (cases op)
  case (OpEnsure di)
  with assms(1) obtain e where "host_EnsureInterface en di s = Some (e, s')" by force
  then show ?thesis using ensure_accounts [of en di s e s'] by simp
next
  case (OpRemove n)
  with assms(1) remove_accounts [of en n s m] show ?thesis by auto
qed (use assms in \<open>auto simp: other_accounts\<close>)

lemma host_tc_sound:
  assumes "rearranges (en_tc en)" "all_sound (fst s)" "full \<and> length ps \<le> 1020 \<or> length (tf_minors (case hb_tc (fst s) n of None \<Rightarrow> new_tc | Some st \<Rightarrow> st)) + length ps \<le> 1020"
  shows "all_sound (fst (snd (host_tc en n ps full s)))"
proof -
  let ?st = "case hb_tc (fst s) n of None \<Rightarrow> new_tc | Some st \<Rightarrow> st"
  obtain e st k where t: "tc_sync (en_tc en) (en_run en) n ps full ?st (snd s) = (e, st, k)" by (metis prod_cases3)
  have sound: "tc_sound ?st" using assms(2) new_tc_sound by (simp add: all_sound_def split: option.split)
  then have "length (tf_minors ?st) + length ps \<le> 2040" using assms(3) by (auto simp: tc_sound_def)
  from sync_sound [OF assms(1) sound t this assms(3)] assms(2) show ?thesis by (simp add: host_tc_def t all_sound_def)
qed

lemma host_nft_sound: "all_sound (fst s) \<Longrightarrow> all_sound (fst (snd (host_nft en n ps full s)))"
  by (simp add: host_nft_def all_sound_def split: prod.split)

lemma bandwidth_sound:
  assumes "rearranges (en_tc en)" "all_sound (fst s)" "length ps \<le> 1020"
  shows "all_sound (fst (snd (host_SyncBandwidth en n ps s)))"
proof -
  have "all_sound (fst (clearInterfaceNFT en n s))" "all_sound (fst (clearInterfaceTCOnly en n s))"
    using assms(2) by (simp_all add: clearInterfaceNFT_def clearInterfaceTCOnly_def all_sound_def)
  with host_tc_sound [of en "clearInterfaceNFT en n s" True ps n] host_nft_sound [of "clearInterfaceTCOnly en n s" en n ps True] assms show ?thesis
    by (simp add: host_SyncBandwidth_def Let_def)
qed

lemma apply_sound:
  assumes "rearranges (en_tc en)" "all_sound (fst s)" "op_small (fst s) (OpApply n p)"
  shows "all_sound (fst (snd (host_ApplyBandwidth en n p s)))"
proof -
  have "length (tf_minors (case hb_tc (fst s) n of None \<Rightarrow> new_tc | Some st \<Rightarrow> st)) + length [p] \<le> 1020"
    using assms(3) by (simp add: new_tc_def split: option.splits)
  with host_tc_sound [of en s False "[p]" n] host_nft_sound [of s en n "[p]" False] assms show ?thesis
    by (simp add: host_ApplyBandwidth_def Let_def)
qed

lemma reach_sound: "host_reach en s \<Longrightarrow> rearranges (en_tc en) \<Longrightarrow> all_sound (fst s)"
proof (induction rule: host_reach.induct)
  case (start o' k)
  then show ?case by (simp add: all_sound_def new_host_def Let_def)
next
  case (step s op s')
  consider (sync) n ps where "op = OpBandwidth n ps" | (one) n p where "op = OpApply n p"
    | (other) "\<not> (\<exists>n ps. op = OpBandwidth n ps)" "\<not> (\<exists>n p. op = OpApply n p)" by blast
  then show ?case
  proof cases
    case sync
    with bandwidth_sound [of en s ps n] step show ?thesis by auto
  next
    case one
    with apply_sound [of en s n p] step show ?thesis by auto
  next
    case other
    with op_other_tc [OF step.hyps(3) other] step show ?thesis unfolding all_sound_def by (metis insertE option.distinct(1) singletonD)
  qed
qed simp

text \<open>
  C27. Over any sequence of calls of the methods of the interface \<open>Backend\<close> and of the capability probe, whichever commands fail, however
  the host changes between two calls and in whatever order maps are visited: on every interface the classes in use lie in the band
  reserved for peers and no two limited peers share one, as long as no call limits more than 1020 peers of one interface (a
  synchronisation of at most 1020 peers; a single peer while fewer than 1020 classes of the interface are in use).
\<close>

theorem host_limits_sound:
  assumes "host_reach en (h, k)" "rearranges (en_tc en)" "hb_tc h iface = Some st"
    "map_of (tf_peers st) a = Some q" "tc_active q"
  shows "in_band (tc_minor q) \<and> (\<forall>b r. map_of (tf_peers st) b = Some r \<and> tc_active r \<and> tc_minor r = tc_minor q \<longrightarrow> b = a)"
proof -
  have "tc_sound st" using reach_sound [OF assms(1,2)] assms(3) by (simp add: all_sound_def)
  then have ok: "tc_ok st" and band: "\<forall>m a. map_of (tf_minors st) m = Some a \<longrightarrow> in_band m" by (simp_all add: tc_sound_def)
  have "map_of (tf_minors st) (tc_minor q) = Some a" using ok assms(4,5) by (auto simp: tc_ok_def)
  with band tc_ok_inj [OF ok _ assms(4) _ assms(5)] show ?thesis by blast
qed

text \<open>A host on which every command succeeds without a trace.\<close>

definition calm_os :: "unit os" where
  "calm_os = \<lparr>os_Run = \<lambda>_ _ k. (([], None), k), os_exists = \<lambda>_ _. False, os_is_dir = \<lambda>_ _. False, os_now = \<lambda>_. 0, os_sleep = \<lambda>k. (False, k)\<rparr>"

definition calm_env :: "(string, string, unit) env" where
  "calm_env =
     \<lparr>en_os = calm_os,
      en_client = \<lparr>cl_ParseKey = Inr, cl_KeyString = id, cl_ResolveUDP = \<lambda>_. Inr, cl_UDPString = id, cl_Device = \<lambda>n k. Inl ''none'',
        cl_Devices = \<lambda>_. Inr [], cl_ConfigureDevice = \<lambda>_ _ k. (None, k)\<rparr>,
      en_tm = \<lparr>tm_create = \<lambda>k. (Inr ''/tmp/k'', k), tm_write = \<lambda>_ _ k. (None, k), tm_remove = \<lambda>_ k. k\<rparr>,
      en_so = \<lparr>so_dial = \<lambda>_ k. (None, k), so_write = \<lambda>_ k. (None, k), so_read = \<lambda>k. (Inr ''errno=0'', k)\<rparr>,
      en_inPath = \<lambda>_. False, en_routes = \<lparr>mo_routes = \<lambda>xs. xs, mo_rules = \<lambda>xs. xs\<rparr>, en_tc = \<lambda>xs. xs, en_keys = \<lambda>xs. xs,
      en_devices = \<lambda>xs. xs, en_show_resolve = \<lambda>_. [], en_show_amnezia = \<lambda>_. [], en_mkdirParent = \<lambda>_ k. (None, k),
      en_writeFile = \<lambda>_ _ k. (None, k), en_rename = \<lambda>_ _ k. (None, k)\<rparr>"

definition calm_options :: host_options where
  "calm_options = \<lparr>ho_AllowHooks = False, ho_BandwidthBackend = [], ho_DNSBackend = [], ho_WireGuardGo = [], ho_AmneziaWGGo = [],
     ho_SwiftWG = [], ho_AWGTool = [], ho_WGTool = []\<rparr>"

lemma calm_run: "en_run calm_env cmd args k = (Inr [], k)"
  by (simp add: en_run_def calm_env_def calm_os_def runner_of_def)

lemma calm_apply: "applyPeerTC (en_run calm_env) ''wg0'' \<lparr>tc_minor = m, tc_txBps = 1000000, tc_rxBps = 0, tc_ips = [''10.0.0.2''], tc_active = True\<rparr> () = (None, ())"
proof -
  have "match_ip ''dst'' ''10.0.0.2'' \<noteq> None" by code_simp
  then obtain proto args where "match_ip ''dst'' ''10.0.0.2'' = Some (proto, args)" by force
  then show ?thesis by (simp add: applyPeerTC_def apply_tx_def addEgressFilter_def Let_def attempt_def failed_def calm_run)
qed

definition calm_state :: "ifaceTCState" where
  "calm_state = (let m = allocateMinor (new_tc\<lparr>tf_rootReady := True, tf_ingressReady := True\<rparr>) ''A'' in
     \<lparr>tf_rootReady = True, tf_ingressReady = True, tf_minors = [(m, ''A'')],
      tf_peers = [(''A'', \<lparr>tc_minor = m, tc_txBps = 1000000, tc_rxBps = 0, tc_ips = [''10.0.0.2''], tc_active = True\<rparr>)]\<rparr>)"

lemma calm_sync: "tc_sync (\<lambda>xs. xs) (en_run calm_env) ''wg0'' [tc_peer_a] full new_tc () = (None, calm_state, ())"
proof -
  let ?st = "new_tc\<lparr>tf_rootReady := True, tf_ingressReady := True\<rparr>"
  have a: "dp_PublicKey tc_peer_a = ''A''" "dp_BandwidthTxBps tc_peer_a = 1000000" "dp_BandwidthRxBps tc_peer_a = 0"
    by (simp_all add: tc_peer_a_def)
  have root: "ensureRootHTB (en_run calm_env) ''wg0'' new_tc () = (None, new_tc\<lparr>tf_rootReady := True\<rparr>, ())"
    by (simp add: ensureRootHTB_def new_tc_def Let_def calm_run)
  have ing: "ensureIngress (en_run calm_env) ''wg0'' (new_tc\<lparr>tf_rootReady := True\<rparr>) () = (None, ?st, ())"
    by (simp add: ensureIngress_def new_tc_def Let_def calm_run)
  have "tc_peer (en_run calm_env) ''wg0'' tc_peer_a (?st, [], ()) = (calm_state, [], ())"
    by (simp add: tc_peer_def a peer_a_hosts Let_def tc_unchanged_def tc_retire_def calm_apply calm_state_def) (simp add: new_tc_def)
  moreover have "tf_peers new_tc = []" by (simp add: new_tc_def)
  ultimately show ?thesis by (simp add: tc_sync_def root ing peer_a_hosts)
qed

theorem host_limits_sound_witness:
  "\<exists>h k st q. host_reach calm_env (h, k) \<and> hb_tc h ''wg0'' = Some st \<and> map_of (tf_peers st) ''A'' = Some q \<and> in_band (tc_minor q)"
proof -
  let ?s = "(new_host calm_options, ())"
  let ?s' = "snd (host_ApplyBandwidth calm_env ''wg0'' tc_peer_a ?s)"
  have b: "hb_bandwidthBackend (new_host calm_options) = ''tc''" "hb_tc (new_host calm_options) = Map.empty"
    by (simp_all add: new_host_def calm_options_def or_else_def Let_def)
  have "host_reach calm_env ?s'"
    by (rule host_reach.step [OF host_reach.start, where op = "OpApply ''wg0'' tc_peer_a"]) (simp_all add: b)
  then have r: "host_reach calm_env (fst ?s', snd ?s')" by (simp only: prod.collapse)
  have "en_tc calm_env = (\<lambda>xs. xs)" by (simp add: calm_env_def)
  then have t: "hb_tc (fst ?s') ''wg0'' = Some calm_state"
    using calm_sync [of False] by (simp add: host_ApplyBandwidth_def b host_tc_def)
  have "rearranges (en_tc calm_env)" by (simp add: calm_env_def)
  moreover have "\<exists>q. map_of (tf_peers calm_state) ''A'' = Some q \<and> tc_active q" by (simp add: calm_state_def Let_def)
  ultimately show ?thesis using host_limits_sound [OF r _ t] r t by blast
qed

theorem host_remove_forgets_witness:
  "\<exists>h k. host_RemoveInterface calm_env ''wg0'' (new_host calm_options, ()) = (None, h, k) \<and> hb_tc h ''wg0'' = None"
proof -
  obtain e h k where r: "host_RemoveInterface calm_env ''wg0'' (new_host calm_options, ()) = (e, h, k)" by (metis prod_cases3)
  from host_remove_forgets [OF r] r show ?thesis by simp
qed

end
