(* ===== verification/DaemonConf.thy ===== *)
theory DaemonConf
  imports GoTime
begin

text \<open>
  The configuration of the daemon (\<open>config/daemon.go\<close>) and of the command-line client (\<open>config/ctl.go\<close>): what is set
  up before the library \<open>viper\<close> reads files and the environment, and what is checked and derived afterwards.
  \<open>viper\<close> is a parameter; durations are read the way \<open>time.ParseDuration\<close> does, with the
  digits after the point in exact arithmetic where that function uses floating point.
\<close>

section \<open>Durations\<close>

fun leadingInt :: "nat \<Rightarrow> string \<Rightarrow> (nat \<times> string) option" where
  "leadingInt x [] = Some (x, [])"
| "leadingInt x (c # cs) =
     (if \<not> is_digit c then Some (x, c # cs)
      else if x > 2 ^ 63 div 10 then None
      else let y = x * 10 + digit_val c in if y > 2 ^ 63 then None else leadingInt y cs)"

text \<open>The digits after the point: their value and scale, and what is left; further digits are skipped at an overflow.\<close>

fun leadingFraction :: "nat \<Rightarrow> nat \<Rightarrow> bool \<Rightarrow> string \<Rightarrow> nat \<times> nat \<times> string" where
  "leadingFraction x scale over [] = (x, scale, [])"
| "leadingFraction x scale over (c # cs) =
     (if \<not> is_digit c then (x, scale, c # cs)
      else if over \<or> x > (2 ^ 63 - 1) div 10 then leadingFraction x scale True cs
      else let y = x * 10 + digit_val c in
        if y > 2 ^ 63 then leadingFraction x scale True cs else leadingFraction y (scale * 10) False cs)"

definition unit_of :: "string \<Rightarrow> nat option" where
  "unit_of u = map_of [(''ns'', 1), (''us'', 1000), ([CHR 0xC2, CHR 0xB5, CHR ''s''], 1000), ([CHR 0xCE, CHR 0xBC, CHR ''s''], 1000),
     (''ms'', 1000000), (''s'', 1000000000), (''m'', 60000000000), (''h'', 3600000000000)] u"

definition unit_char :: "char \<Rightarrow> bool" where
  "unit_char c \<longleftrightarrow> c \<noteq> CHR ''.'' \<and> \<not> is_digit c"

text \<open>One number with its unit: its value in nanoseconds and what is left.\<close>

definition duration_term :: "string \<Rightarrow> (nat \<times> string) option" where
  "duration_term s =
     (if s = [] \<or> \<not> (hd s = CHR ''.'' \<or> is_digit (hd s)) then None
      else case leadingInt 0 s of None \<Rightarrow> None | Some (v, s1) \<Rightarrow>
        (let pre = (length s1 \<noteq> length s);
             point = (s1 \<noteq> [] \<and> hd s1 = CHR ''.'');
             (f, scale, s2) = (if point then leadingFraction 0 1 False (tl s1) else (0, 1, s1));
             post = (point \<and> length s2 \<noteq> length (tl s1));
             u = takeWhile unit_char s2
         in if \<not> pre \<and> \<not> post \<or> u = [] then None
            else case unit_of u of None \<Rightarrow> None | Some unit \<Rightarrow>
              if v > 2 ^ 63 div unit then None
              else let w = v * unit + (if f > 0 then f * unit div scale else 0) in
                if w > 2 ^ 63 then None else Some (w, drop (length u) s2)))"

lemma leadingInt_rest: "leadingInt x s = Some (v, r) \<Longrightarrow> length r \<le> length s"
  by (induction x s rule: leadingInt.induct) (auto simp: Let_def split: if_splits)

lemma leadingFraction_rest: "leadingFraction x scale over s = (f, k, r) \<Longrightarrow> length r \<le> length s"
  by (induction x scale over s rule: leadingFraction.induct) (auto simp: Let_def split: if_splits)

lemma duration_term_shorter:
  assumes "duration_term s = Some (w, r)"
  shows "length r < length s"
proof -
  obtain v s1 where i: "leadingInt 0 s = Some (v, s1)" and ne: "s \<noteq> []"
    using assms by (auto simp: duration_term_def split: if_splits option.splits)
  define s2 where "s2 = snd (snd (if s1 \<noteq> [] \<and> hd s1 = CHR ''.'' then leadingFraction 0 1 False (tl s1) else (0, 1, s1)))"
  have "r = drop (length (takeWhile unit_char s2)) s2" "takeWhile unit_char s2 \<noteq> []"
    using assms i by (auto simp: duration_term_def s2_def Let_def split: if_splits option.splits prod.splits)
  then have "length r < length s2" by (cases s2) (auto split: if_splits)
  also have "length s2 \<le> length s1"
    by (cases "leadingFraction 0 1 False (tl s1)"; cases s1) (auto simp: s2_def dest!: leadingFraction_rest)
  also have "\<dots> \<le> length s" by (rule leadingInt_rest [OF i])
  finally show ?thesis .
qed

function duration_terms :: "nat \<Rightarrow> string \<Rightarrow> nat option" where
  "duration_terms d s =
     (if s = [] then Some d
      else case duration_term s of None \<Rightarrow> None
        | Some (w, r) \<Rightarrow> if d + w > 2 ^ 63 then None else duration_terms (d + w) r)"
  by pat_completeness auto
termination
  by (relation "measure (\<lambda>(d, s). length s)") (auto dest: duration_term_shorter)

declare duration_terms.simps [simp del]

definition ParseDuration :: "string \<Rightarrow> duration option" where
  "ParseDuration s0 =
     (let neg = (s0 \<noteq> [] \<and> hd s0 = CHR ''-'');
          s = (if s0 \<noteq> [] \<and> (hd s0 = CHR ''-'' \<or> hd s0 = CHR ''+'') then tl s0 else s0)
      in if s = ''0'' then Some 0
         else if s = [] then None
         else case duration_terms 0 s of None \<Rightarrow> None
           | Some d \<Rightarrow> if neg then Some (- int d) else if d > 2 ^ 63 - 1 then None else Some (int d))"

lemma duration_terms_bound: "d \<le> 2 ^ 63 \<Longrightarrow> duration_terms d s = Some e \<Longrightarrow> e \<le> 2 ^ 63"
proof (induction d s rule: duration_terms.induct)
  case (1 d s)
  from "1.prems" show ?case
    by (subst (asm) duration_terms.simps) (auto split: if_splits option.splits dest: "1.IH" simp: not_less)
qed

lemma ParseDuration_in64: "ParseDuration s = Some d \<Longrightarrow> in64 d"
  using duration_terms_bound [of 0]
  by (fastforce simp: ParseDuration_def in64_def Let_def split: if_splits option.splits)

section \<open>The configuration of the daemon\<close>

record webhooks_config =
  wh_Enabled :: bool
  wh_URL :: string
  wh_Secret :: string
  wh_Events :: "string list"
  wh_Timeout :: string
  wh_QueueSize :: int

record daemon_config =
  dc_ListenHTTP :: string
  dc_ListenUnix :: string
  dc_ListenMetrics :: string
  dc_SNMPEnabled :: bool
  dc_SNMPListen :: string
  dc_SNMPCommunity :: string
  dc_SNMPEnterpriseOID :: string
  dc_DBPath :: string
  dc_TimeseriesPath :: string
  dc_MemoryProfile :: string
  dc_StateCacheMB :: int
  dc_StateMMapMB :: int
  dc_TimeseriesCacheMB :: int
  dc_TimeseriesMMapMB :: int
  dc_AuthToken :: string
  dc_ConfDir :: string
  dc_Persistence :: string
  dc_HandshakeConnectedSec :: int
  dc_SampleInterval :: string
  dc_SampleRetention :: string
  dc_ReconcileInterval :: string
  dc_AllowHooks :: bool
  dc_BandwidthBackend :: string
  dc_DNSBackend :: string
  dc_UseMockBackend :: bool
  dc_AdoptOnStart :: bool
  dc_WireGuardGo :: string
  dc_AmneziaWGGo :: string
  dc_SwiftWG :: string
  dc_AWGTool :: string
  dc_LogLevel :: string
  dc_LogFormat :: string
  dc_ReadOnly :: bool
  dc_Webhooks :: webhooks_config

datatype setting = SString string | SBool bool | SInt int

definition daemon_defaults :: "(string \<times> setting) list" where
  "daemon_defaults =
     [(''listen.http'', SString ''127.0.0.1:51880''), (''listen.unix'', SString []), (''listen.metrics'', SString ''127.0.0.1:9091''),
      (''snmp.enabled'', SBool False), (''snmp.listen'', SString ''127.0.0.1:1161''), (''snmp.community'', SString ''change-me-snmp''),
      (''snmp.enterprise_oid'', SString ''1.3.6.1.4.1.66666.1''), (''db.path'', SString ''wireguardd.db''),
      (''db.memory_profile'', SString ''compact''), (''auth.token'', SString ''change-me''),
      (''wireguard.conf_dir'', SString ''/etc/wireguard''), (''wireguard.persistence'', SString ''hybrid''),
      (''wireguard.handshake_connected_sec'', SInt 180), (''wireguard.sample_interval'', SString ''5s''),
      (''wireguard.sample_retention'', SString ''168h''), (''wireguard.reconcile_interval'', SString ''5s''),
      (''wireguard.allow_hooks'', SBool False), (''wireguard.bandwidth_backend'', SString ''tc''),
      (''wireguard.dns_backend'', SString ''auto''), (''wireguard.use_mock_backend'', SBool False),
      (''wireguard.adopt_on_start'', SBool False), (''log.level'', SString ''info''), (''log.format'', SString ''json''),
      (''read_only'', SBool False), (''webhooks.enabled'', SBool False), (''webhooks.url'', SString []),
      (''webhooks.secret'', SString []), (''webhooks.timeout'', SString ''5s''), (''webhooks.queue_size'', SInt 256)]"

text \<open>
  What the library is told, and what it does with it: reading the file, filling the structure from file, environment
  and defaults, and looking up one key.
\<close>

record viper_setup =
  vs_EnvPrefix :: string
  vs_KeyReplacer :: "char \<times> char"
  vs_Defaults :: "(string \<times> setting) list"
  vs_File :: "string option"
  vs_BindEnv :: "(string \<times> string list) list"

record 'c viper =
  vp_ReadInConfig :: "viper_setup \<Rightarrow> string option"
  vp_Unmarshal :: "viper_setup \<Rightarrow> string + 'c"
  vp_GetString :: "viper_setup \<Rightarrow> string \<Rightarrow> string"

datatype config_error = ReadConfig string | BadConfig string | BadBandwidth string | BadProfile string

definition daemon_setup :: "string \<Rightarrow> viper_setup" where
  "daemon_setup path = \<lparr>vs_EnvPrefix = ''WIREGUARDD'', vs_KeyReplacer = (CHR ''.'', CHR ''_''), vs_Defaults = daemon_defaults,
     vs_File = (if path = [] then None else Some path), vs_BindEnv = []\<rparr>"

definition daemon_env :: "(string \<times> string list) list" where
  "daemon_env =
     [(''auth.token'', [''WIREGUARDD_AUTH_TOKEN'', ''WIREGUARDD_API_TOKEN'']), (''db.path'', [''WIREGUARDD_DB_PATH'']),
      (''db.timeseries_path'', [''WIREGUARDD_DB_TIMESERIES_PATH'']), (''db.memory_profile'', [''WIREGUARDD_DB_MEMORY_PROFILE'']),
      (''listen.http'', [''WIREGUARDD_LISTEN_HTTP''])]"

definition normal :: "string \<Rightarrow> string" where
  "normal s = ToLower (TrimSpace s)"

definition check_daemon :: "daemon_config \<Rightarrow> config_error + daemon_config" where
  "check_daemon cfg =
     (let bw = normal (dc_BandwidthBackend cfg) in
      if bw \<notin> {[], ''tc'', ''nft'', ''none''} then Inl (BadBandwidth bw)
      else let mp = normal (dc_MemoryProfile cfg) in
        if mp \<notin> {[], ''compact'', ''balanced'', ''performance''} then Inl (BadProfile mp)
        else Inr (cfg\<lparr>dc_BandwidthBackend := (if bw = [] then ''tc'' else bw), dc_DNSBackend := normal (dc_DNSBackend cfg),
               dc_MemoryProfile := (if mp = [] then ''compact'' else mp)\<rparr>))"

definition LoadDaemon :: "daemon_config viper \<Rightarrow> string \<Rightarrow> config_error + daemon_config" where
  "LoadDaemon vp path =
     (let vs = daemon_setup path; vs1 = vs\<lparr>vs_BindEnv := daemon_env\<rparr> in
      case (if path = [] then None else vp_ReadInConfig vp vs) of Some e \<Rightarrow> Inl (ReadConfig e)
      | None \<Rightarrow> (case vp_Unmarshal vp vs1 of Inl e \<Rightarrow> Inl (BadConfig e)
        | Inr cfg \<Rightarrow> check_daemon (if dc_AuthToken cfg = [] then cfg\<lparr>dc_AuthToken := vp_GetString vp vs1 ''auth.token''\<rparr> else cfg)))"

definition duration_or :: "duration \<Rightarrow> string \<Rightarrow> duration" where
  "duration_or d s = (case ParseDuration s of None \<Rightarrow> d | Some x \<Rightarrow> x)"

definition cfg_ReconcileInterval :: "daemon_config \<Rightarrow> duration" where
  "cfg_ReconcileInterval c = duration_or (5 * Second) (dc_ReconcileInterval c)"

definition cfg_SampleInterval :: "daemon_config \<Rightarrow> duration" where
  "cfg_SampleInterval c = duration_or (5 * Second) (dc_SampleInterval c)"

definition cfg_SampleRetention :: "daemon_config \<Rightarrow> duration" where
  "cfg_SampleRetention c =
     (case ParseDuration (dc_SampleRetention c) of None \<Rightarrow> 7 * 24 * Hour
      | Some d \<Rightarrow> if d \<le> 0 then 7 * 24 * Hour else d)"

definition profileMem :: "string \<Rightarrow> bool \<Rightarrow> int \<times> int" where
  "profileMem profile timeseries =
     (let p = normal profile in
      if p = ''performance'' then (if timeseries then (128, 512) else (64, 256))
      else if p = ''balanced'' then (32, 128)
      else (16, 64))"

definition override :: "int \<Rightarrow> int \<Rightarrow> int" where
  "override x d = (if x > 0 then x else d)"

definition StateSQLiteMem :: "daemon_config \<Rightarrow> int \<times> int" where
  "StateSQLiteMem c =
     (let (cache, mmap) = profileMem (dc_MemoryProfile c) False in (override (dc_StateCacheMB c) cache, override (dc_StateMMapMB c) mmap))"

definition TimeseriesSQLiteMem :: "daemon_config \<Rightarrow> int \<times> int" where
  "TimeseriesSQLiteMem c =
     (let (cache, mmap) = profileMem (dc_MemoryProfile c) True
      in (override (dc_TimeseriesCacheMB c) cache, override (dc_TimeseriesMMapMB c) mmap))"

section \<open>The configuration of the client\<close>

record ctl_config =
  cc_URL :: string
  cc_Unix :: string
  cc_Token :: string
  cc_RefreshInterval :: string

definition ctl_defaults :: "(string \<times> setting) list" where
  "ctl_defaults = [(''server.url'', SString ''http://127.0.0.1:51880''), (''server.unix'', SString []),
     (''server.token'', SString ''change-me''), (''refresh_interval'', SString ''2s'')]"

text \<open>Without a path, the first of three places that exists; \<open>home\<close> is the directory of the user, if it is known.\<close>

definition ctl_path :: "string option \<Rightarrow> (string \<Rightarrow> bool) \<Rightarrow> string \<Rightarrow> string" where
  "ctl_path home there path =
     (if path \<noteq> [] then path
      else case find there ((case home of None \<Rightarrow> [] | Some h \<Rightarrow> [h @ ''/.config/wireguardctl/config.yaml''])
             @ [''/etc/wireguardctl/config.yaml'', ''/etc/wireguardd/wireguardctl.yaml'']) of
          None \<Rightarrow> [] | Some p \<Rightarrow> p)"

definition LoadCtl :: "ctl_config viper \<Rightarrow> string option \<Rightarrow> (string \<Rightarrow> bool) \<Rightarrow> string \<Rightarrow> config_error + ctl_config" where
  "LoadCtl vp home there path0 =
     (let path = ctl_path home there path0;
          vs = \<lparr>vs_EnvPrefix = ''WIREGUARDCTL'', vs_KeyReplacer = (CHR ''.'', CHR ''_''), vs_Defaults = ctl_defaults,
            vs_File = (if path = [] then None else Some path), vs_BindEnv = []\<rparr>;
          vs1 = vs\<lparr>vs_BindEnv := [(''server.token'', [''WIREGUARDCTL_TOKEN'', ''WIREGUARDD_AUTH_TOKEN'']),
            (''server.url'', [''WIREGUARDCTL_URL'']), (''server.unix'', [''WIREGUARDCTL_UNIX''])]\<rparr>
      in case (if path = [] then None else vp_ReadInConfig vp vs) of Some e \<Rightarrow> Inl (ReadConfig e)
         | None \<Rightarrow> (case vp_Unmarshal vp vs1 of Inl e \<Rightarrow> Inl (BadConfig e) | Inr cfg \<Rightarrow> Inr cfg))"

definition ctl_Refresh :: "ctl_config \<Rightarrow> duration" where
  "ctl_Refresh c = duration_or (2 * Second) (cc_RefreshInterval c)"

definition ctl_Endpoint :: "ctl_config \<Rightarrow> string" where
  "ctl_Endpoint c = (if cc_Unix c \<noteq> [] then ''unix://'' @ cc_Unix c else cc_URL c)"

section \<open>What a loaded configuration promises\<close>

lemma profile_positive: "0 < fst (profileMem p ts) \<and> 0 < snd (profileMem p ts)"
  by (simp add: profileMem_def Let_def)

lemma duration_or_in64: "in64 d \<Longrightarrow> in64 (duration_or d s)"
  by (auto simp: duration_or_def split: option.split dest: ParseDuration_in64)

lemma check_daemon_sound:
  assumes "check_daemon cfg0 = Inr cfg"
  shows "dc_BandwidthBackend cfg \<in> {''tc'', ''nft'', ''none''} \<and> dc_MemoryProfile cfg \<in> {''compact'', ''balanced'', ''performance''}"
  using assms by (auto simp: check_daemon_def Let_def split: if_splits)

lemma LoadDaemon_checked: "LoadDaemon vp path = Inr cfg \<Longrightarrow> \<exists>cfg0. check_daemon cfg0 = Inr cfg"
  by (auto simp: LoadDaemon_def Let_def split: option.splits sum.splits)

text \<open>
  C37. A configuration that loads names a way to limit bandwidth and a memory profile the daemon knows, keeps samples for a positive
  time, gives both databases a positive budget, and every duration in it fits a signed 64-bit integer, whatever its text.
\<close>

theorem loaded_config_sound:
  assumes "LoadDaemon vp path = Inr cfg"
  shows "dc_BandwidthBackend cfg \<in> {''tc'', ''nft'', ''none''} \<and> dc_MemoryProfile cfg \<in> {''compact'', ''balanced'', ''performance''}
    \<and> 0 < cfg_SampleRetention cfg \<and> in64 (cfg_SampleRetention cfg) \<and> in64 (cfg_ReconcileInterval cfg) \<and> in64 (cfg_SampleInterval cfg)
    \<and> 0 < fst (StateSQLiteMem cfg) \<and> 0 < snd (StateSQLiteMem cfg) \<and> 0 < fst (TimeseriesSQLiteMem cfg) \<and> 0 < snd (TimeseriesSQLiteMem cfg)"
proof (intro conjI)
  obtain cfg0 where "check_daemon cfg0 = Inr cfg" using LoadDaemon_checked [OF assms] by blast
  from check_daemon_sound [OF this] show "dc_BandwidthBackend cfg \<in> {''tc'', ''nft'', ''none''}"
    "dc_MemoryProfile cfg \<in> {''compact'', ''balanced'', ''performance''}" by simp_all
  show "0 < cfg_SampleRetention cfg" by (simp add: cfg_SampleRetention_def Hour_def split: option.split)
  show "in64 (cfg_SampleRetention cfg)"
    by (auto simp: cfg_SampleRetention_def Hour_def in64_def split: option.split dest: ParseDuration_in64 [unfolded in64_def])
  show "in64 (cfg_ReconcileInterval cfg)" "in64 (cfg_SampleInterval cfg)"
    unfolding cfg_ReconcileInterval_def cfg_SampleInterval_def by (rule duration_or_in64, simp add: in64_def Second_def)+
  show "0 < fst (StateSQLiteMem cfg)" "0 < snd (StateSQLiteMem cfg)" "0 < fst (TimeseriesSQLiteMem cfg)" "0 < snd (TimeseriesSQLiteMem cfg)"
    using profile_positive [of "dc_MemoryProfile cfg" False] profile_positive [of "dc_MemoryProfile cfg" True]
    by (cases "profileMem (dc_MemoryProfile cfg) False"; cases "profileMem (dc_MemoryProfile cfg) True";
        simp add: StateSQLiteMem_def TimeseriesSQLiteMem_def override_def)+
qed

definition plain_config :: daemon_config where
  "plain_config = \<lparr>dc_ListenHTTP = ''127.0.0.1:51880'', dc_ListenUnix = [], dc_ListenMetrics = ''127.0.0.1:9091'', dc_SNMPEnabled = False,
     dc_SNMPListen = [], dc_SNMPCommunity = [], dc_SNMPEnterpriseOID = [], dc_DBPath = ''wireguardd.db'', dc_TimeseriesPath = [],
     dc_MemoryProfile = '' Balanced'', dc_StateCacheMB = 0, dc_StateMMapMB = 0, dc_TimeseriesCacheMB = 0, dc_TimeseriesMMapMB = 0,
     dc_AuthToken = ''secret'', dc_ConfDir = ''/etc/wireguard'', dc_Persistence = ''hybrid'', dc_HandshakeConnectedSec = 180,
     dc_SampleInterval = ''1m30s'', dc_SampleRetention = ''-1s'', dc_ReconcileInterval = ''soon'', dc_AllowHooks = False,
     dc_BandwidthBackend = [], dc_DNSBackend = ''Auto'', dc_UseMockBackend = True, dc_AdoptOnStart = False, dc_WireGuardGo = [],
     dc_AmneziaWGGo = [], dc_SwiftWG = [], dc_AWGTool = [], dc_LogLevel = ''info'', dc_LogFormat = ''json'', dc_ReadOnly = False,
     dc_Webhooks = \<lparr>wh_Enabled = False, wh_URL = [], wh_Secret = [], wh_Events = [], wh_Timeout = ''5s'', wh_QueueSize = 256\<rparr>\<rparr>"

definition plain_viper :: "daemon_config viper" where
  "plain_viper = \<lparr>vp_ReadInConfig = \<lambda>_. None, vp_Unmarshal = \<lambda>_. Inr plain_config, vp_GetString = \<lambda>_ _. []\<rparr>"

theorem loaded_config_sound_witness:
  "\<exists>cfg. LoadDaemon plain_viper ''wireguardd.yaml'' = Inr cfg \<and> dc_BandwidthBackend cfg = ''tc'' \<and> dc_MemoryProfile cfg = ''balanced''
     \<and> 0 < cfg_SampleRetention cfg"
proof -
  define cfg where "cfg = plain_config\<lparr>dc_BandwidthBackend := ''tc'', dc_DNSBackend := ''auto'', dc_MemoryProfile := ''balanced''\<rparr>"
  have "check_daemon plain_config = Inr cfg" unfolding cfg_def by code_simp
  then have l: "LoadDaemon plain_viper ''wireguardd.yaml'' = Inr cfg"
    by (simp add: LoadDaemon_def plain_viper_def) (simp add: plain_config_def)
  from loaded_config_sound [OF this] l show ?thesis by (auto simp: cfg_def)
qed

end
