(* ===== verification/ApiStats.thy ===== *)
theory ApiStats
  imports ApiInterfaces Amnezia DaemonConf
begin

text \<open>
  The handlers that read: global statistics, traffic of a peer, health, version, configuration, events and backends
  (\<open>handlers_stats.go\<close>, \<open>handlers_health.go\<close>, \<open>handlers_keys.go\<close>, \<open>handlers_backends.go\<close>).  Key generation and the
  search for commands are parameters.
\<close>

section \<open>Statistics\<close>

record stats_summary =
  ss_Interfaces :: nat
  ss_Peers :: nat
  ss_Connected :: nat
  ss_Suspended :: nat
  ss_RxBytes :: int
  ss_TxBytes :: int
  ss_RxBps :: real
  ss_TxBps :: real
  ss_TotalRx :: int
  ss_TotalTx :: int
  ss_RateRx :: real
  ss_RateTx :: real
  ss_RateRxRaw :: real
  ss_RateTxRaw :: real

definition no_stats :: stats_summary where
  "no_stats = \<lparr>ss_Interfaces = 0, ss_Peers = 0, ss_Connected = 0, ss_Suspended = 0, ss_RxBytes = 0, ss_TxBytes = 0, ss_RxBps = 0,
     ss_TxBps = 0, ss_TotalRx = 0, ss_TotalTx = 0, ss_RateRx = 0, ss_RateTx = 0, ss_RateRxRaw = 0, ss_RateTxRaw = 0\<rparr>"

text \<open>The API shows the totals and rates of a peer twice, so both halves of the summary add the same values.\<close>

definition add_peer :: "api_peer \<Rightarrow> stats_summary \<Rightarrow> stats_summary" where
  "add_peer p s = s\<lparr>
     ss_RxBytes := i64 (ss_RxBytes s + ap_RxBytes p), ss_TxBytes := i64 (ss_TxBytes s + ap_TxBytes p),
     ss_RxBps := ss_RxBps s + ap_RxBps p, ss_TxBps := ss_TxBps s + ap_TxBps p,
     ss_TotalRx := i64 (ss_TotalRx s + ap_RxBytes p), ss_TotalTx := i64 (ss_TotalTx s + ap_TxBytes p),
     ss_RateRx := ss_RateRx s + ap_RxBps p, ss_RateTx := ss_RateTx s + ap_TxBps p,
     ss_RateRxRaw := ss_RateRxRaw s + ap_RxBpsRaw p, ss_RateTxRaw := ss_RateTxRaw s + ap_TxBpsRaw p,
     ss_Suspended := ss_Suspended s + (if ap_Suspended p then 1 else 0),
     ss_Connected := ss_Connected s + (if ap_Connected p then 1 else 0)\<rparr>"

definition handleStats :: "'w api_env \<Rightarrow> gotime \<Rightarrow> 'w rstate \<Rightarrow> stats_summary reply" where
  "handleStats en now r =
     (let ps = ListAllPeers (r_store r) in
      Answer 200 (fold (\<lambda>p. add_peer (toAPIPeer en now r p False)) ps
        (no_stats\<lparr>ss_Interfaces := length (ListInterfaces (r_store r)), ss_Peers := length ps\<rparr>)))"

definition handleAllPeers :: "'w api_env \<Rightarrow> gotime \<Rightarrow> 'w rstate \<Rightarrow> api_peer list reply" where
  "handleAllPeers en now r = Answer 200 (map (\<lambda>p. toAPIPeer en now r p False) (ListAllPeers (r_store r)))"

definition handleInterfaceStats :: "'w api_env \<Rightarrow> string \<Rightarrow> 'w rstate \<Rightarrow> api_interface reply" where
  "handleInterfaceStats en name r =
     (case GetInterfaceByName name (r_store r) of Inl _ \<Rightarrow> Refused 404 ''not_found''
      | Inr i \<Rightarrow> Answer 200 (toAPIInterface en r i False))"

record traffic_point =
  pt_Time :: gotime
  pt_RxBytes :: int
  pt_TxBytes :: int
  pt_RxBps :: real
  pt_TxBps :: real

record api_traffic =
  at_TotalRx :: int
  at_TotalTx :: int
  at_RateRx :: real
  at_RateTx :: real
  at_RateRxRaw :: real
  at_RateTxRaw :: real
  at_IntervalSec :: real
  at_Windows :: "(string \<times> window_counters) list"

text \<open>The part of a peer about its traffic.\<close>

definition traffic_of :: "api_peer \<Rightarrow> api_traffic" where
  "traffic_of p = \<lparr>at_TotalRx = ap_RxBytes p, at_TotalTx = ap_TxBytes p, at_RateRx = ap_RxBps p, at_RateTx = ap_TxBps p,
     at_RateRxRaw = ap_RxBpsRaw p, at_RateTxRaw = ap_TxBpsRaw p, at_IntervalSec = ap_IntervalSec p, at_Windows = ap_Windows p\<rparr>"

record traffic_history =
  th_Interface :: string
  th_PublicKey :: string
  th_From :: gotime
  th_To :: gotime
  th_Traffic :: api_traffic
  th_Samples :: "traffic_point list"

text \<open>
  The three optional values of the query, as texts (empty when absent).  Unlike the other handlers of one peer this one
  takes the key in the path as it is.
\<close>

definition time_or :: "gotime \<Rightarrow> string \<Rightarrow> gotime" where
  "time_or d v = (if v = [] then d else case ParseRFC3339 v of None \<Rightarrow> d | Some t \<Rightarrow> t)"

definition limit_or :: "int \<Rightarrow> string \<Rightarrow> int" where
  "limit_or d v = (case Atoi v of None \<Rightarrow> d | Some n \<Rightarrow> if n > 0 then n else d)"

definition handlePeerTraffic :: "'w api_env \<Rightarrow> gotime \<Rightarrow> string \<Rightarrow> string \<Rightarrow> string \<Rightarrow> string \<Rightarrow> string \<Rightarrow> 'w rstate
    \<Rightarrow> traffic_history reply" where
  "handlePeerTraffic en now name pubkey from to limit r =
     (case GetPeerRow name pubkey (r_store r) of Inl _ \<Rightarrow> Refused 404 ''not_found''
      | Inr p \<Rightarrow>
        (let t1 = time_or now to; t0 = time_or (now - Hour) from in
         Answer 200 \<lparr>th_Interface = name, th_PublicKey = p_PublicKey p, th_From = t0, th_To = t1,
           th_Traffic = traffic_of (toAPIPeer en now r p False),
           th_Samples = map (\<lambda>s. \<lparr>pt_Time = ts_SampledAt s, pt_RxBytes = ts_RxBytes s, pt_TxBytes = ts_TxBytes s,
               pt_RxBps = ts_RxBps s, pt_TxBps = ts_TxBps s\<rparr>)
             (ListPeerSamples (p_ID p) t0 t1 (limit_or 720 limit) (r_store r))\<rparr>))"

section \<open>Health, configuration, events\<close>

definition handleHealthz :: "(string \<times> string) list reply" where
  "handleHealthz = Answer 200 [(''status'', ''ok'')]"

text \<open>\<open>ping\<close> is the error of reaching the databases, \<open>found\<close> tells the commands in the search path.\<close>

definition handleReadyz :: "string option \<Rightarrow> (string \<Rightarrow> bool) \<Rightarrow> daemon_config option \<Rightarrow> (string \<times> (string \<times> string) list) reply" where
  "handleReadyz ping found cfg =
     (if ping \<noteq> None then Refused 503 ''not_ready''
      else let bw0 = (case cfg of None \<Rightarrow> ''none'' | Some c \<Rightarrow> normal (dc_BandwidthBackend c));
             bw = (if bw0 = [] then ''tc'' else bw0);
             tool = bw = ''tc'' \<or> bw = ''nft'';
             missing = (tool \<and> \<not> found bw);
             check = (if bw = ''nft'' then ''bandwidth_nft'' else ''bandwidth_tc'',
               if \<not> tool then ''n/a'' else if missing then ''missing'' else ''ok'');
             hooks = (case cfg of None \<Rightarrow> False | Some c \<Rightarrow> wh_Enabled (dc_Webhooks c) \<and> TrimSpace (wh_URL (dc_Webhooks c)) \<noteq> [])
        in Answer 200 (if missing then ''degraded'' else ''ready'',
             [(''db'', ''ok''), (''bandwidth_backend'', bw), check, (''webhooks'', if hooks then ''enabled'' else ''disabled'')]))"

record shown_config =
  sc_HTTPListen :: string
  sc_UnixListen :: string
  sc_MetricsListen :: string
  sc_SNMPEnabled :: bool
  sc_SNMPListen :: string
  sc_Persistence :: string
  sc_ConfDir :: string
  sc_HandshakeConnected :: int
  sc_SampleInterval :: string
  sc_ReconcileInterval :: string
  sc_AllowHooks :: bool
  sc_BandwidthBackend :: string
  sc_DBPath :: string
  sc_TimeseriesPath :: string
  sc_ReadOnly :: bool

definition handleConfig :: "string option \<Rightarrow> daemon_config \<Rightarrow> shown_config reply" where
  "handleConfig storePath c =
     Answer 200 \<lparr>sc_HTTPListen = dc_ListenHTTP c, sc_UnixListen = dc_ListenUnix c, sc_MetricsListen = dc_ListenMetrics c,
       sc_SNMPEnabled = dc_SNMPEnabled c, sc_SNMPListen = dc_SNMPListen c, sc_Persistence = dc_Persistence c,
       sc_ConfDir = dc_ConfDir c, sc_HandshakeConnected = dc_HandshakeConnectedSec c, sc_SampleInterval = dc_SampleInterval c,
       sc_ReconcileInterval = dc_ReconcileInterval c, sc_AllowHooks = dc_AllowHooks c, sc_BandwidthBackend = dc_BandwidthBackend c,
       sc_DBPath = dc_DBPath c,
       sc_TimeseriesPath = (case storePath of Some p \<Rightarrow> if dc_TimeseriesPath c = [] then p else dc_TimeseriesPath c
          | None \<Rightarrow> dc_TimeseriesPath c),
       sc_ReadOnly = dc_ReadOnly c\<rparr>"

record version_info =
  vi_Version :: string
  vi_Commit :: string
  vi_Date :: string

definition handleVersion :: "version_info \<Rightarrow> version_info reply" where
  "handleVersion v = Answer 200 v"

definition version_String :: "version_info \<Rightarrow> string" where
  "version_String v = vi_Version v @ '' (commit='' @ vi_Commit v @ '' date='' @ vi_Date v @ '')''"

text \<open>A pass with its database has no error to report here.\<close>

definition handleReconcile :: "'w api_env \<Rightarrow> gotime \<Rightarrow> 'w rstate \<Rightarrow> string reply \<times> 'w rstate" where
  "handleReconcile en now r = (Answer 200 ''ok'', ForceReconcile en now r)"

definition handleEvents :: "gotime \<Rightarrow> 'w rstate \<Rightarrow> db_event list reply" where
  "handleEvents now r = Answer 200 (ListEvents now 200 (r_store r))"

section \<open>Keys and backends\<close>

record key_response =
  kr_PrivateKey :: string
  kr_PublicKey :: string
  kr_PresharedKey :: string

text \<open>A body that is not JSON asks for a key pair.\<close>

definition handleKeysGenerate :: "key_pair option \<Rightarrow> string option \<Rightarrow> string option \<Rightarrow> key_response reply" where
  "handleKeysGenerate newPair newPSK body =
     (let t0 = (case body of None \<Rightarrow> ''keypair'' | Some t \<Rightarrow> t); t = (if t0 = [] then ''keypair'' else t0) in
      if t = ''keypair'' then (case newPair of None \<Rightarrow> Refused 500 ''keygen_failed''
        | Some kp \<Rightarrow> Answer 200 \<lparr>kr_PrivateKey = kp_PrivateKey kp, kr_PublicKey = kp_PublicKey kp, kr_PresharedKey = []\<rparr>)
      else if t = ''preshared'' \<or> t = ''psk'' then (case newPSK of None \<Rightarrow> Refused 500 ''keygen_failed''
        | Some k \<Rightarrow> Answer 200 \<lparr>kr_PrivateKey = [], kr_PublicKey = [], kr_PresharedKey = k\<rparr>)
      else Refused 400 ''invalid_type'')"

text \<open>The capabilities of the host, or all of them where the backend is not the host's (\<open>None\<close>); the swift one is not shown.\<close>

record shown_caps =
  sp_KernelWG :: bool
  sp_UserspaceWG :: bool
  sp_KernelAmnezia :: bool
  sp_UserspaceAmnezia :: bool
  sp_AWGTool :: bool

definition handleBackends :: "BackendCaps option \<Rightarrow> shown_caps reply" where
  "handleBackends caps =
     Answer 200 (case caps of
       Some c \<Rightarrow> \<lparr>sp_KernelWG = cap_KernelWG c, sp_UserspaceWG = cap_UserspaceWG c, sp_KernelAmnezia = cap_KernelAmnezia c,
          sp_UserspaceAmnezia = cap_UserspaceAmnezia c, sp_AWGTool = cap_AWGTool c\<rparr>
     | None \<Rightarrow> \<lparr>sp_KernelWG = True, sp_UserspaceWG = True, sp_KernelAmnezia = True, sp_UserspaceAmnezia = True, sp_AWGTool = True\<rparr>)"

section \<open>The summary counts what is there\<close>

lemma summary_counts:
  "ss_Interfaces (fold (\<lambda>p. add_peer (f p)) ps s) = ss_Interfaces s"
  "ss_Peers (fold (\<lambda>p. add_peer (f p)) ps s) = ss_Peers s"
  "ss_Suspended (fold (\<lambda>p. add_peer (f p)) ps s) = ss_Suspended s + length (filter (\<lambda>p. ap_Suspended (f p)) ps)"
  "ss_Connected (fold (\<lambda>p. add_peer (f p)) ps s) = ss_Connected s + length (filter (\<lambda>p. ap_Connected (f p)) ps)"
  "ss_RateRx s = ss_RxBps s \<Longrightarrow> ss_RateRx (fold (\<lambda>p. add_peer (f p)) ps s) = ss_RxBps (fold (\<lambda>p. add_peer (f p)) ps s)"
  "ss_TotalRx s = ss_RxBytes s \<Longrightarrow> ss_TotalRx (fold (\<lambda>p. add_peer (f p)) ps s) = ss_RxBytes (fold (\<lambda>p. add_peer (f p)) ps s)"
  by (induction ps arbitrary: s) (simp_all add: add_peer_def)

end
