(* ===== verification/ApiRouter.thy ===== *)
theory ApiRouter
  imports Adopt ApiStats
begin

text \<open>
  The server (\<open>server.go\<close>, \<open>middleware.go\<close>, \<open>encode.go\<close>): the table of routes, the two guards in front of it, and every
  request as a function on the state of the daemon.  The library that matches routes (\<open>chi\<close>) and the one that reads
  JSON are parameters; a request is given as the library hands it over.
\<close>

section \<open>Bodies\<close>

datatype payload =
    PCreateIface iface_create
  | PUpdateIface iface_update
  | PImport string string
  | PCreatePeer peer_create
  | PUpdatePeer peer_update
  | PIssue bool
  | PAdopt adopt_request
  | PKeys string

datatype kind = KCreateIface | KUpdateIface | KImport | KCreatePeer | KUpdatePeer | KIssue | KAdopt | KKeys

fun kind_of :: "payload \<Rightarrow> kind" where
  "kind_of (PCreateIface _) = KCreateIface"
| "kind_of (PUpdateIface _) = KUpdateIface"
| "kind_of (PImport _ _) = KImport"
| "kind_of (PCreatePeer _) = KCreatePeer"
| "kind_of (PUpdatePeer _) = KUpdatePeer"
| "kind_of (PIssue _) = KIssue"
| "kind_of (PAdopt _) = KAdopt"
| "kind_of (PKeys _) = KKeys"

text \<open>Writing JSON, and reading a structure of one kind strictly (\<open>decodeJSON\<close>).\<close>

record codec =
  js_Marshal :: "payload \<Rightarrow> string"
  js_Decode :: "kind \<Rightarrow> string \<Rightarrow> payload option"

section \<open>Requests and routes\<close>

record request =
  rq_Method :: string
  rq_Path :: string
  rq_Query :: "(string \<times> string) list"
  rq_Authorization :: string
  rq_RequestID :: string
  rq_Body :: string

definition query_Get :: "request \<Rightarrow> string \<Rightarrow> string" where
  "query_Get q k = (case map_of (rq_Query q) k of None \<Rightarrow> [] | Some v \<Rightarrow> v)"

datatype handler = HHealthz | HReadyz | HMetrics | HVersion | HConfig | HReconcile | HEvents | HStats | HAllPeers | HInterfaceStats
  | HKeysGenerate | HDiscover | HAdopt | HBackends | HListInterfaces | HCreateInterface | HGetInterface | HUpdateInterface
  | HDeleteInterface | HInterfaceUp | HInterfaceDown | HInterfaceExport | HInterfaceImport | HListPeers | HCreatePeer | HGetPeer
  | HUpdatePeer | HDeletePeer | HSuspendPeer | HResumePeer | HResetPeerTraffic | HPeerTraffic | HPeerClientConfig
  | HIssueClientKey | HPeerQR

text \<open>Method, pattern and handler; the empty method stands for any.\<close>

type_synonym route = "string \<times> string \<times> handler"

definition outer_routes :: "route list" where
  "outer_routes = [(''GET'', ''/healthz'', HHealthz), (''GET'', ''/readyz'', HReadyz), ([], ''/metrics'', HMetrics)]"

definition v1_routes :: "route list" where
  "v1_routes =
     [(''GET'', ''/version'', HVersion), (''GET'', ''/config'', HConfig), (''POST'', ''/reconcile'', HReconcile),
      (''GET'', ''/events'', HEvents), (''GET'', ''/stats'', HStats), (''GET'', ''/stats/peers'', HAllPeers),
      (''GET'', ''/stats/interfaces/{name}'', HInterfaceStats), (''POST'', ''/keys/generate'', HKeysGenerate),
      (''GET'', ''/discover'', HDiscover), (''POST'', ''/adopt'', HAdopt), (''GET'', ''/backends'', HBackends),
      (''GET'', ''/interfaces'', HListInterfaces), (''POST'', ''/interfaces'', HCreateInterface),
      (''GET'', ''/interfaces/{name}'', HGetInterface), (''PATCH'', ''/interfaces/{name}'', HUpdateInterface),
      (''DELETE'', ''/interfaces/{name}'', HDeleteInterface), (''POST'', ''/interfaces/{name}/up'', HInterfaceUp),
      (''POST'', ''/interfaces/{name}/down'', HInterfaceDown), (''POST'', ''/interfaces/{name}/export'', HInterfaceExport),
      (''POST'', ''/interfaces/{name}/import'', HInterfaceImport), (''GET'', ''/interfaces/{name}/peers'', HListPeers),
      (''POST'', ''/interfaces/{name}/peers'', HCreatePeer), (''GET'', ''/interfaces/{name}/peers/{pubkey}'', HGetPeer),
      (''PATCH'', ''/interfaces/{name}/peers/{pubkey}'', HUpdatePeer), (''DELETE'', ''/interfaces/{name}/peers/{pubkey}'', HDeletePeer),
      (''POST'', ''/interfaces/{name}/peers/{pubkey}/suspend'', HSuspendPeer),
      (''POST'', ''/interfaces/{name}/peers/{pubkey}/resume'', HResumePeer),
      (''POST'', ''/interfaces/{name}/peers/{pubkey}/reset-traffic'', HResetPeerTraffic),
      (''GET'', ''/interfaces/{name}/peers/{pubkey}/traffic'', HPeerTraffic),
      (''GET'', ''/interfaces/{name}/peers/{pubkey}/client-config'', HPeerClientConfig),
      (''POST'', ''/interfaces/{name}/peers/{pubkey}/issue-client-key'', HIssueClientKey),
      (''GET'', ''/interfaces/{name}/peers/{pubkey}/qr'', HPeerQR)]"

text \<open>The library: the handler and the values of the parameters, or the status it refuses with.\<close>

type_synonym router = "route list \<Rightarrow> string \<Rightarrow> string \<Rightarrow> nat + handler \<times> (string \<times> string) list"

section \<open>The guards\<close>

definition bearer_prefix :: string where
  "bearer_prefix = ''Bearer ''"

definition bearerAuth :: "string \<Rightarrow> string \<Rightarrow> (nat \<times> string) option" where
  "bearerAuth token h =
     (if token = [] then Some (500, ''misconfigured'')
      else if \<not> prefix bearer_prefix h then Some (401, ''unauthorized'')
      else if TrimPrefix h bearer_prefix \<noteq> token then Some (401, ''unauthorized'')
      else None)"

definition readOnlyGuard :: "bool \<Rightarrow> string \<Rightarrow> (nat \<times> string) option" where
  "readOnlyGuard readOnly method =
     (if readOnly \<and> method \<notin> {''GET'', ''HEAD'', ''OPTIONS''} then Some (403, ''read_only'') else None)"

definition requestID :: "string \<Rightarrow> string \<Rightarrow> string" where
  "requestID fresh given = (if given = [] then fresh else given)"

section \<open>The server\<close>

datatype answer =
    AnHealth "(string \<times> string) list" | AnReady "string \<times> (string \<times> string) list" | AnMetrics | AnVersion version_info
  | AnConfig shown_config | AnText string | AnEvents "db_event list" | AnStats stats_summary | AnPeers "api_peer list"
  | AnIface api_interface | AnKeys key_response | AnPreview "preview list" | AnAdopted "preview list \<times> adopt_result list"
  | AnBackends shown_caps | AnIfaces "api_interface list" | AnCreated created | AnDone | AnPeer api_peer | AnFlag bool
  | AnTraffic traffic_history | AnIssued issued_key | AnPicture string

text \<open>What one request finds: the clock, generated values, files, and the state of the host.\<close>

record inputs =
  in_Now :: gotime
  in_ID :: string
  in_Pair :: "key_pair option"
  in_PSK :: "string option"
  in_Noise :: AmneziaParams
  in_AWGNoise :: AmneziaParams
  in_File :: "string \<Rightarrow> string option"
  in_Ping :: "string option"
  in_Found :: "string \<Rightarrow> bool"
  in_Caps :: "BackendCaps option"

record 'w server =
  sv_env :: "'w api_env"
  sv_cfg :: daemon_config
  sv_json :: codec
  sv_chi :: router
  sv_version :: version_info
  sv_tsPath :: "string option"
  sv_qr :: "string \<Rightarrow> string option"

definition shown :: "('b \<Rightarrow> answer) \<Rightarrow> 'b reply \<Rightarrow> answer reply" where
  "shown f x = (case x of Refused s c \<Rightarrow> Refused s c | Answer s b \<Rightarrow> Answer s (f b))"

text \<open>The fields of the server, with the default of the handshake window.\<close>

definition NewServer :: "'w api_env \<Rightarrow> daemon_config \<Rightarrow> codec \<Rightarrow> router \<Rightarrow> version_info \<Rightarrow> string option \<Rightarrow> (string \<Rightarrow> string option) \<Rightarrow> 'w server" where
  "NewServer en cfg js chi v ts qr =
     \<lparr>sv_env = en\<lparr>en_handshake := (if dc_HandshakeConnectedSec cfg > 0 then dc_HandshakeConnectedSec cfg else 180)\<rparr>,
      sv_cfg = cfg, sv_json = js, sv_chi = chi, sv_version = v, sv_tsPath = ts, sv_qr = qr\<rparr>"

definition pure_answer :: "('b \<Rightarrow> answer) \<Rightarrow> 'b reply \<Rightarrow> 'w rstate \<Rightarrow> answer reply \<times> 'w rstate" where
  "pure_answer f x r = (shown f x, r)"

definition state_answer :: "('b \<Rightarrow> answer) \<Rightarrow> 'b reply \<times> 'w rstate \<Rightarrow> answer reply \<times> 'w rstate" where
  "state_answer f x = (shown f (fst x), snd x)"

definition body_of :: "codec \<Rightarrow> kind \<Rightarrow> string \<Rightarrow> (payload \<Rightarrow> 'b option) \<Rightarrow> 'b option" where
  "body_of js k s f = (case js_Decode js k s of None \<Rightarrow> None | Some p \<Rightarrow> f p)"

text \<open>An absent body is allowed where the handler has defaults.\<close>

definition body_or :: "codec \<Rightarrow> kind \<Rightarrow> string \<Rightarrow> 'b \<Rightarrow> (payload \<Rightarrow> 'b option) \<Rightarrow> 'b option" where
  "body_or js k s d f = (if s = [] then Some d else body_of js k s f)"

fun get_create :: "payload \<Rightarrow> iface_create option" where
  "get_create (PCreateIface x) = Some x" | "get_create _ = None"
fun get_update :: "payload \<Rightarrow> iface_update option" where
  "get_update (PUpdateIface x) = Some x" | "get_update _ = None"
fun get_import :: "payload \<Rightarrow> (string \<times> string) option" where
  "get_import (PImport c n) = Some (c, n)" | "get_import _ = None"
fun get_peer_create :: "payload \<Rightarrow> peer_create option" where
  "get_peer_create (PCreatePeer x) = Some x" | "get_peer_create _ = None"
fun get_peer_update :: "payload \<Rightarrow> peer_update option" where
  "get_peer_update (PUpdatePeer x) = Some x" | "get_peer_update _ = None"
fun get_issue :: "payload \<Rightarrow> bool option" where
  "get_issue (PIssue b) = Some b" | "get_issue _ = None"
fun get_adopt :: "payload \<Rightarrow> adopt_request option" where
  "get_adopt (PAdopt x) = Some x" | "get_adopt _ = None"
fun get_keys :: "payload \<Rightarrow> string option" where
  "get_keys (PKeys t) = Some t" | "get_keys _ = None"

definition handlePeerQR :: "'w api_env \<Rightarrow> (string \<Rightarrow> string option) \<Rightarrow> string \<Rightarrow> string \<Rightarrow> 'w rstate \<Rightarrow> string reply" where
  "handlePeerQR en qr name param r =
     (case buildClientConfig (en_um en) name (path_key param) (r_store r) of
        Inl e \<Rightarrow> client_config_error e
      | Inr cfg \<Rightarrow> (case qr cfg of None \<Rightarrow> Refused 500 ''qr_failed'' | Some png \<Rightarrow> Answer 200 png))"

text \<open>One handler, with the parameters of the path.\<close>

definition handle :: "'w server \<Rightarrow> inputs \<Rightarrow> handler \<Rightarrow> string \<Rightarrow> string \<Rightarrow> request \<Rightarrow> 'w rstate \<Rightarrow> answer reply \<times> 'w rstate" where
  "handle sv inp h name key q r =
     (let en = sv_env sv; now = in_Now inp; js = sv_json sv; b = rq_Body q; get = query_Get q in
      case h of
        HHealthz \<Rightarrow> pure_answer AnHealth handleHealthz r
      | HReadyz \<Rightarrow> pure_answer AnReady (handleReadyz (in_Ping inp) (in_Found inp) (Some (sv_cfg sv))) r
      | HMetrics \<Rightarrow> (Answer 200 AnMetrics, r)
      | HVersion \<Rightarrow> pure_answer AnVersion (handleVersion (sv_version sv)) r
      | HConfig \<Rightarrow> pure_answer AnConfig (handleConfig (sv_tsPath sv) (sv_cfg sv)) r
      | HReconcile \<Rightarrow> state_answer AnText (handleReconcile en now r)
      | HEvents \<Rightarrow> pure_answer AnEvents (handleEvents now r) r
      | HStats \<Rightarrow> pure_answer AnStats (handleStats en now r) r
      | HAllPeers \<Rightarrow> pure_answer AnPeers (handleAllPeers en now r) r
      | HInterfaceStats \<Rightarrow> pure_answer AnIface (handleInterfaceStats en name r) r
      | HKeysGenerate \<Rightarrow> pure_answer AnKeys (handleKeysGenerate (in_Pair inp) (in_PSK inp) (body_of js KKeys b get_keys)) r
      | HDiscover \<Rightarrow> pure_answer AnPreview
          (handleDiscover en (in_File inp) (map snd (filter (\<lambda>e. fst e = ''name'') (rq_Query q))) (get ''read_conf'') r) r
      | HAdopt \<Rightarrow> state_answer AnAdopted (handleAdopt en (in_File inp) now
          (body_or js KAdopt b \<lparr>aq_Names = [], aq_ReadConf = None, aq_Overwrite = False\<rparr> get_adopt) r)
      | HBackends \<Rightarrow> pure_answer AnBackends (handleBackends (in_Caps inp)) r
      | HListInterfaces \<Rightarrow> pure_answer AnIfaces (handleListInterfaces en r) r
      | HCreateInterface \<Rightarrow> state_answer AnCreated
          (handleCreateInterface en now (in_Pair inp) (in_Noise inp) (in_AWGNoise inp) (body_of js KCreateIface b get_create) r)
      | HGetInterface \<Rightarrow> pure_answer AnIface (handleGetInterface en name (get ''reveal'' = ''1'') r) r
      | HUpdateInterface \<Rightarrow> state_answer AnIface (handleUpdateInterface en now name (body_of js KUpdateIface b get_update) r)
      | HDeleteInterface \<Rightarrow> state_answer (\<lambda>_. AnDone) (handleDeleteInterface en now name r)
      | HInterfaceUp \<Rightarrow> state_answer AnText (handleInterfaceUp en now name r)
      | HInterfaceDown \<Rightarrow> state_answer AnText (handleInterfaceDown en now name r)
      | HInterfaceExport \<Rightarrow> state_answer AnText (handleInterfaceExport en name r)
      | HInterfaceImport \<Rightarrow> state_answer AnIface (handleInterfaceImport en now name (body_of js KImport b get_import) r)
      | HListPeers \<Rightarrow> pure_answer AnPeers (handleListPeers en now name r) r
      | HCreatePeer \<Rightarrow> state_answer AnPeer
          (handleCreatePeer en now (in_PSK inp) (in_Pair inp) name (body_of js KCreatePeer b get_peer_create) r)
      | HGetPeer \<Rightarrow> pure_answer AnPeer (handleGetPeer en now name key (get ''reveal'' = ''1'') r) r
      | HUpdatePeer \<Rightarrow> state_answer AnPeer (handleUpdatePeer en now name key (body_of js KUpdatePeer b get_peer_update) r)
      | HDeletePeer \<Rightarrow> state_answer (\<lambda>_. AnDone) (handleDeletePeer en now name key r)
      | HSuspendPeer \<Rightarrow> state_answer AnFlag (handleSuspendPeer en now name key r)
      | HResumePeer \<Rightarrow> state_answer AnFlag (handleResumePeer en now name key r)
      | HResetPeerTraffic \<Rightarrow> state_answer (\<lambda>_. AnDone) (handleResetPeerTraffic now name key r)
      | HPeerTraffic \<Rightarrow> pure_answer AnTraffic (handlePeerTraffic en now name key (get ''from'') (get ''to'') (get ''limit'') r) r
      | HPeerClientConfig \<Rightarrow> pure_answer AnText (handlePeerClientConfig en name key r) r
      | HIssueClientKey \<Rightarrow> state_answer AnIssued (handleIssueClientKey en now (in_Pair inp) name key
          (body_or js KIssue b False get_issue) (get ''rotate'' = ''1'' \<or> get ''rotate'' = ''true'') r)
      | HPeerQR \<Rightarrow> pure_answer AnPicture (handlePeerQR en (sv_qr sv) name key r) r)"

definition param :: "(string \<times> string) list \<Rightarrow> string \<Rightarrow> string" where
  "param ps k = (case map_of ps k of None \<Rightarrow> [] | Some v \<Rightarrow> v)"

definition dispatch :: "'w server \<Rightarrow> inputs \<Rightarrow> route list \<Rightarrow> string \<Rightarrow> request \<Rightarrow> 'w rstate \<Rightarrow> answer reply \<times> 'w rstate" where
  "dispatch sv inp routes path q r =
     (case sv_chi sv routes (rq_Method q) path of
        Inl status \<Rightarrow> (Refused status [], r)
      | Inr (h, ps) \<Rightarrow> handle sv inp h (param ps ''name'') (param ps ''pubkey'') q r)"

definition in_v1 :: "string \<Rightarrow> bool" where
  "in_v1 path \<longleftrightarrow> path = ''/v1'' \<or> prefix ''/v1/'' path"

text \<open>A request through the router: its identifier, the reply and the state after it.\<close>

definition serve :: "'w server \<Rightarrow> inputs \<Rightarrow> request \<Rightarrow> 'w rstate \<Rightarrow> string \<times> answer reply \<times> 'w rstate" where
  "serve sv inp q r =
     (requestID (in_ID inp) (rq_RequestID q),
      if in_v1 (rq_Path q) then
        (case bearerAuth (dc_AuthToken (sv_cfg sv)) (rq_Authorization q) of Some (s, c) \<Rightarrow> (Refused s c, r)
         | None \<Rightarrow> (case readOnlyGuard (dc_ReadOnly (sv_cfg sv)) (rq_Method q) of Some (s, c) \<Rightarrow> (Refused s c, r)
         | None \<Rightarrow> dispatch sv inp v1_routes (drop 3 (rq_Path q)) q r))
      else dispatch sv inp outer_routes (rq_Path q) q r)"

section \<open>What the guards guarantee\<close>

text \<open>What \<open>chi\<close> documents of patterns: the segments agree, and a segment in braces takes any text of at least one character.\<close>

fun match_segs :: "string list \<Rightarrow> string list \<Rightarrow> (string \<times> string) list option" where
  "match_segs [] [] = Some []"
| "match_segs (p # ps) (x # xs) =
     (if p \<noteq> [] \<and> hd p = CHR 0x7B then (if x = [] then None else map_option ((#) (butlast (tl p), x)) (match_segs ps xs))
      else if p = x then match_segs ps xs else None)"
| "match_segs _ _ = None"

definition match_route :: "string \<Rightarrow> string \<Rightarrow> (string \<times> string) list option" where
  "match_route pat path = match_segs (split_on CHR ''/'' pat) (split_on CHR ''/'' path)"

text \<open>
  A request is handed to a route of its method whose pattern matches, and to the only one when there is one only.
\<close>

definition hits :: "route list \<Rightarrow> string \<Rightarrow> string \<Rightarrow> (handler \<times> (string \<times> string) list) list" where
  "hits routes m path = List.map_filter (\<lambda>(m', pat, h). if m' = m \<or> m' = [] then map_option (\<lambda>ps. (h, ps)) (match_route pat path) else None) routes"

definition routes_as_documented :: "router \<Rightarrow> bool" where
  "routes_as_documented chi \<longleftrightarrow>
     (\<forall>routes m path. (\<forall>x. chi routes m path = Inr x \<longrightarrow> x \<in> set (hits routes m path))
        \<and> (\<forall>x. hits routes m path = [x] \<longrightarrow> chi routes m path = Inr x))"

text \<open>A library that takes the first route.\<close>

definition first_route :: router where
  "first_route routes m path = (case hits routes m path of [] \<Rightarrow> Inl 404 | x # _ \<Rightarrow> Inr x)"

lemma first_route_ok: "routes_as_documented first_route"
  by (auto simp: routes_as_documented_def first_route_def split: list.splits)

definition reads_only :: "handler \<Rightarrow> bool" where
  "reads_only h \<longleftrightarrow> h \<in> {HHealthz, HReadyz, HMetrics, HVersion, HConfig, HEvents, HStats, HAllPeers, HInterfaceStats, HDiscover,
     HBackends, HListInterfaces, HGetInterface, HListPeers, HGetPeer, HPeerTraffic, HPeerClientConfig, HPeerQR}"

lemma reads_only_state: "reads_only h \<Longrightarrow> snd (handle sv inp h name key q r) = r"
  by (auto simp: reads_only_def handle_def pure_answer_def Let_def)

lemma route_methods: "list_all (\<lambda>(m, _, h). m \<in> {''POST'', ''PATCH'', ''DELETE''} \<or> reads_only h) (outer_routes @ v1_routes)"
  by (simp add: outer_routes_def v1_routes_def reads_only_def)

lemma hits_route: "(h, ps) \<in> set (hits routes m path) \<Longrightarrow> \<exists>m' pat. (m', pat, h) \<in> set routes \<and> (m' = m \<or> m' = [])"
  by (force simp: hits_def List.map_filter_def split: if_splits)

lemma dispatch_reads:
  assumes "routes_as_documented (sv_chi sv)" "set routes \<subseteq> set (outer_routes @ v1_routes)"
    "rq_Method q \<notin> {''POST'', ''PATCH'', ''DELETE''}"
  shows "snd (dispatch sv inp routes path q r) = r"
proof (cases "sv_chi sv routes (rq_Method q) path")
  case (Inr x)
  obtain h ps where x: "x = (h, ps)" by fastforce
  then obtain m' pat where "(m', pat, h) \<in> set routes" "m' = rq_Method q \<or> m' = []"
    using assms(1) Inr hits_route unfolding routes_as_documented_def by metis
  then have "reads_only h" using route_methods assms(2,3) by (fastforce simp: list_all_iff)
  with reads_only_state show ?thesis by (simp add: dispatch_def Inr x)
qed (simp add: dispatch_def)

lemma outer_reads:
  assumes "routes_as_documented (sv_chi sv)"
  shows "snd (dispatch sv inp outer_routes path q r) = r"
proof (cases "sv_chi sv outer_routes (rq_Method q) path")
  case (Inr x)
  obtain h ps where x: "x = (h, ps)" by fastforce
  then obtain m' pat where "(m', pat, h) \<in> set outer_routes"
    using assms Inr hits_route unfolding routes_as_documented_def by metis
  then have "reads_only h" by (auto simp: outer_routes_def reads_only_def)
  with reads_only_state show ?thesis by (simp add: dispatch_def Inr x)
qed (simp add: dispatch_def)

lemma TrimPrefix_self: "prefix p s \<Longrightarrow> TrimPrefix s p = t \<Longrightarrow> s = p @ t"
  by (auto simp: TrimPrefix_def prefix_def)

lemma bearer_passes: "bearerAuth token h = None \<longleftrightarrow> token \<noteq> [] \<and> h = bearer_prefix @ token"
  by (auto simp: bearerAuth_def TrimPrefix_def prefix_def)

end
