(* ===== verification/ApiClient.thy ===== *)
theory ApiClient
  imports ApiRouter
begin

text \<open>
  The client library (\<open>pkg/api/client.go\<close>, \<open>errors.go\<close>): how a client is made, the request of every call and what is
  made of the response.  Sending a request is the library's.
\<close>

section \<open>Clients\<close>

record client =
  ac_baseURL :: string
  ac_token :: string
  ac_unix :: "string option"

text \<open>The options of the constructor; one may set another HTTP client, which forgets the socket.\<close>

datatype client_option = WithToken string | WithUnixSocket string | WithHTTPClient

fun apply_option :: "client_option \<Rightarrow> client \<Rightarrow> client" where
  "apply_option (WithToken t) c = c\<lparr>ac_token := t\<rparr>"
| "apply_option (WithUnixSocket p) c =
     c\<lparr>ac_unix := Some p, ac_baseURL := (if ac_baseURL c = [] then ''http://localhost'' else ac_baseURL c)\<rparr>"
| "apply_option WithHTTPClient c = c\<lparr>ac_unix := None\<rparr>"

definition TrimRight :: "string \<Rightarrow> char \<Rightarrow> string" where
  "TrimRight s d = rev (dropWhile (\<lambda>c. c = d) (rev s))"

definition unix_scheme :: string where
  "unix_scheme = ''unix://''"

definition NewClient :: "string \<Rightarrow> client_option list \<Rightarrow> client option" where
  "NewClient urlOrUnix opts =
     (let none = \<lparr>ac_baseURL = [], ac_token = [], ac_unix = None\<rparr>;
          c = (if prefix unix_scheme urlOrUnix
               then apply_option (WithUnixSocket (TrimPrefix urlOrUnix unix_scheme)) (none\<lparr>ac_baseURL := ''http://localhost''\<rparr>)
               else none\<lparr>ac_baseURL := TrimRight urlOrUnix CHR ''/''\<rparr>);
          d = fold apply_option opts c
      in if ac_baseURL d = [] then None else Some d)"

section \<open>The calls\<close>

datatype call =
    CHealth | CVersion | CBackendCapabilities | CListInterfaces | CGetInterface string | CCreateInterface iface_create
  | CCreateInterfacePair iface_create | CUpdateInterface string iface_update | CDeleteInterface string | CInterfaceUp string
  | CInterfaceDown string | CExportInterface string | CImportInterface string string | CListPeers string | CListAllPeers
  | CGetPeer string string | CCreatePeer string peer_create | CUpdatePeer string string peer_update | CDeletePeer string string
  | CSuspendPeer string string | CResumePeer string string | CResetPeerTraffic string string
  | CPeerTraffic string string gotime gotime int | CPeerClientConfig string string | CPeerQR string string
  | CIssueClientKey string string bool | CDiscover "string list" | CAdopt adopt_request | CGenerateKeys string | CListEvents
  | CStats | CConfig | CReconcile

definition upper_hex :: "nat \<Rightarrow> char" where
  "upper_hex n = (if n < 10 then char_of (48 + n) else char_of (55 + n))"

text \<open>The bytes \<open>url.PathEscape\<close> leaves as they are.\<close>

definition unreserved :: "char \<Rightarrow> bool" where
  "unreserved c \<longleftrightarrow> (let n = of_char c :: nat in 48 \<le> n \<and> n \<le> 57 \<or> 65 \<le> n \<and> n \<le> 90 \<or> 97 \<le> n \<and> n \<le> 122)
     \<or> c \<in> set ''-_.~$&+:=@''"

definition PathEscape :: "string \<Rightarrow> string" where
  "PathEscape s = concat (map (\<lambda>c. if unreserved c then [c]
     else [CHR ''%'', upper_hex (of_char c div 16), upper_hex (of_char c mod 16)]) s)"

definition iface_path :: "string \<Rightarrow> string" where
  "iface_path n = ''/v1/interfaces/'' @ PathEscape n"

definition peer_path :: "string \<Rightarrow> string \<Rightarrow> string" where
  "peer_path i k = iface_path i @ ''/peers/'' @ PathEscapeKey k"

text \<open>The method, path, query and body of a call.\<close>

type_synonym outline = "string \<times> string \<times> (string \<times> string) list \<times> payload option"

fun request_of :: "call \<Rightarrow> outline" where
  "request_of CHealth = (''GET'', ''/healthz'', [], None)"
| "request_of CVersion = (''GET'', ''/v1/version'', [], None)"
| "request_of CBackendCapabilities = (''GET'', ''/v1/backends'', [], None)"
| "request_of CListInterfaces = (''GET'', ''/v1/interfaces'', [], None)"
| "request_of (CGetInterface n) = (''GET'', iface_path n, [], None)"
| "request_of (CCreateInterface req) = (''POST'', ''/v1/interfaces'', [], Some (PCreateIface req))"
| "request_of (CCreateInterfacePair req) = (''POST'', ''/v1/interfaces'', [], Some (PCreateIface (req\<lparr>ic_CreateAWGPair := True\<rparr>)))"
| "request_of (CUpdateInterface n req) = (''PATCH'', iface_path n, [], Some (PUpdateIface req))"
| "request_of (CDeleteInterface n) = (''DELETE'', iface_path n, [], None)"
| "request_of (CInterfaceUp n) = (''POST'', iface_path n @ ''/up'', [], None)"
| "request_of (CInterfaceDown n) = (''POST'', iface_path n @ ''/down'', [], None)"
| "request_of (CExportInterface n) = (''POST'', iface_path n @ ''/export'', [], None)"
| "request_of (CImportInterface n content) = (''POST'', iface_path n @ ''/import'', [], Some (PImport content n))"
| "request_of (CListPeers n) = (''GET'', iface_path n @ ''/peers'', [], None)"
| "request_of CListAllPeers = (''GET'', ''/v1/stats/peers'', [], None)"
| "request_of (CGetPeer i k) = (''GET'', peer_path i k, [], None)"
| "request_of (CCreatePeer i req) = (''POST'', iface_path i @ ''/peers'', [], Some (PCreatePeer req))"
| "request_of (CUpdatePeer i k req) = (''PATCH'', peer_path i k, [], Some (PUpdatePeer req))"
| "request_of (CDeletePeer i k) = (''DELETE'', peer_path i k, [], None)"
| "request_of (CSuspendPeer i k) = (''POST'', peer_path i k @ ''/suspend'', [], None)"
| "request_of (CResumePeer i k) = (''POST'', peer_path i k @ ''/resume'', [], None)"
| "request_of (CResetPeerTraffic i k) = (''POST'', peer_path i k @ ''/reset-traffic'', [], None)"
| "request_of (CPeerTraffic i k from to limit) = (''GET'', peer_path i k @ ''/traffic'',
     (if IsZero from then [] else [(''from'', FormatNano from)]) @ (if IsZero to then [] else [(''to'', FormatNano to)])
     @ (if limit > 0 then [(''limit'', int_str limit)] else []), None)"
| "request_of (CPeerClientConfig i k) = (''GET'', peer_path i k @ ''/client-config'', [], None)"
| "request_of (CPeerQR i k) = (''GET'', peer_path i k @ ''/qr'', [], None)"
| "request_of (CIssueClientKey i k rot) = (''POST'', peer_path i k @ ''/issue-client-key'', [], Some (PIssue rot))"
| "request_of (CDiscover names) = (''GET'', ''/v1/discover'', map (Product_Type.Pair ''name'') names, None)"
| "request_of (CAdopt req) = (''POST'', ''/v1/adopt'', [], Some (PAdopt req))"
| "request_of (CGenerateKeys t) = (''POST'', ''/v1/keys/generate'', [], Some (PKeys t))"
| "request_of CListEvents = (''GET'', ''/v1/events'', [], None)"
| "request_of CStats = (''GET'', ''/v1/stats'', [], None)"
| "request_of CConfig = (''GET'', ''/v1/config'', [], None)"
| "request_of CReconcile = (''POST'', ''/v1/reconcile'', [], None)"

text \<open>The request sent to the server at the base URL, which has no path of its own.\<close>

definition make_request :: "codec \<Rightarrow> client \<Rightarrow> call \<Rightarrow> request" where
  "make_request js cl c =
     (case request_of c of (m, path, query, body) \<Rightarrow>
      \<lparr>rq_Method = m, rq_Path = path, rq_Query = query,
       rq_Authorization = (if ac_token cl = [] then [] else bearer_prefix @ ac_token cl), rq_RequestID = [],
       rq_Body = (case body of None \<Rightarrow> [] | Some p \<Rightarrow> js_Marshal js p)\<rparr>)"

section \<open>Responses\<close>

record api_error =
  ae_Status :: nat
  ae_Code :: string
  ae_Message :: string

definition APIError_Error :: "api_error \<Rightarrow> string" where
  "APIError_Error e =
     (if ae_Code e \<noteq> [] then ''api error '' @ nat_str (ae_Status e) @ '' ('' @ ae_Code e @ ''): '' @ ae_Message e
      else ''api error '' @ nat_str (ae_Status e) @ '': '' @ ae_Message e)"

text \<open>\<open>readError\<close> reads code and message of an error body; the result is the body to decode, if there is one and it is wanted.\<close>

definition error_of :: "(string \<Rightarrow> (string \<times> string) option) \<Rightarrow> nat \<Rightarrow> string \<Rightarrow> api_error" where
  "error_of readError status body =
     (case readError body of
        Some (code, msg) \<Rightarrow> if msg \<noteq> [] then \<lparr>ae_Status = status, ae_Code = code, ae_Message = msg\<rparr>
          else \<lparr>ae_Status = status, ae_Code = [], ae_Message = body\<rparr>
      | None \<Rightarrow> \<lparr>ae_Status = status, ae_Code = [], ae_Message = body\<rparr>)"

definition client_result :: "(string \<Rightarrow> (string \<times> string) option) \<Rightarrow> bool \<Rightarrow> nat \<Rightarrow> string \<Rightarrow> api_error + string option" where
  "client_result readError wanted status body =
     (if status \<ge> 400 then Inl (error_of readError status body)
      else if \<not> wanted \<or> status = 204 \<or> body = [] then Inr None else Inr (Some body))"

text \<open>The picture of a configuration comes as it is.\<close>

definition picture_result :: "(string \<Rightarrow> (string \<times> string) option) \<Rightarrow> nat \<Rightarrow> string \<Rightarrow> api_error + string" where
  "picture_result readError status body = (if status \<ge> 400 then Inl (error_of readError status body) else Inr body)"

section \<open>What a call means on the server\<close>

text \<open>
  The structure as it arrives: the fields marked \<open>omitempty\<close> in \<open>pkg/api/types.go\<close> are left out when they are empty,
  and a list that was left out reads as absent.
\<close>

definition omit_empty :: "'a list option \<Rightarrow> 'a list option" where
  "omit_empty x = (if x = Some [] then None else x)"

fun on_wire :: "payload \<Rightarrow> payload" where
  "on_wire (PUpdateIface u) = PUpdateIface (u\<lparr>iu_DNS := omit_empty (iu_DNS u), iu_Addresses := omit_empty (iu_Addresses u)\<rparr>)"
| "on_wire (PUpdatePeer u) = PUpdatePeer (u\<lparr>up_AllowedIPs := omit_empty (up_AllowedIPs u),
     up_AssignedIPs := omit_empty (up_AssignedIPs u), up_Tags := omit_empty (up_Tags u)\<rparr>)"
| "on_wire p = p"

definition wire_iface_update :: "iface_update \<Rightarrow> iface_update" where
  "wire_iface_update u = u\<lparr>iu_DNS := omit_empty (iu_DNS u), iu_Addresses := omit_empty (iu_Addresses u)\<rparr>"

definition wire_peer_update :: "peer_update \<Rightarrow> peer_update" where
  "wire_peer_update u = u\<lparr>up_AllowedIPs := omit_empty (up_AllowedIPs u), up_AssignedIPs := omit_empty (up_AssignedIPs u),
     up_Tags := omit_empty (up_Tags u)\<rparr>"

text \<open>The effect of a call on the state of the daemon, with its own arguments in place of path, query and body.\<close>

fun meant :: "'w server \<Rightarrow> inputs \<Rightarrow> call \<Rightarrow> 'w rstate \<Rightarrow> answer reply \<times> 'w rstate" where
  "meant sv inp CHealth r = pure_answer AnHealth handleHealthz r"
| "meant sv inp CVersion r = pure_answer AnVersion (handleVersion (sv_version sv)) r"
| "meant sv inp CBackendCapabilities r = pure_answer AnBackends (handleBackends (in_Caps inp)) r"
| "meant sv inp CListInterfaces r = pure_answer AnIfaces (handleListInterfaces (sv_env sv) r) r"
| "meant sv inp (CGetInterface n) r = pure_answer AnIface (handleGetInterface (sv_env sv) n False r) r"
| "meant sv inp (CCreateInterface req) r = state_answer AnCreated
     (handleCreateInterface (sv_env sv) (in_Now inp) (in_Pair inp) (in_Noise inp) (in_AWGNoise inp) (Some req) r)"
| "meant sv inp (CCreateInterfacePair req) r = state_answer AnCreated
     (handleCreateInterface (sv_env sv) (in_Now inp) (in_Pair inp) (in_Noise inp) (in_AWGNoise inp) (Some (req\<lparr>ic_CreateAWGPair := True\<rparr>)) r)"
| "meant sv inp (CUpdateInterface n u) r =
     state_answer AnIface (handleUpdateInterface (sv_env sv) (in_Now inp) n (Some (wire_iface_update u)) r)"
| "meant sv inp (CDeleteInterface n) r = state_answer (\<lambda>_. AnDone) (handleDeleteInterface (sv_env sv) (in_Now inp) n r)"
| "meant sv inp (CInterfaceUp n) r = state_answer AnText (handleInterfaceUp (sv_env sv) (in_Now inp) n r)"
| "meant sv inp (CInterfaceDown n) r = state_answer AnText (handleInterfaceDown (sv_env sv) (in_Now inp) n r)"
| "meant sv inp (CExportInterface n) r = state_answer AnText (handleInterfaceExport (sv_env sv) n r)"
| "meant sv inp (CImportInterface n content) r =
     state_answer AnIface (handleInterfaceImport (sv_env sv) (in_Now inp) n (Some (content, n)) r)"
| "meant sv inp (CListPeers n) r = pure_answer AnPeers (handleListPeers (sv_env sv) (in_Now inp) n r) r"
| "meant sv inp CListAllPeers r = pure_answer AnPeers (handleAllPeers (sv_env sv) (in_Now inp) r) r"
| "meant sv inp (CGetPeer i k) r = pure_answer AnPeer (case GetPeerRow i k (r_store r) of
       Inr p \<Rightarrow> Answer 200 (toAPIPeer (sv_env sv) (in_Now inp) r p False)
     | Inl _ \<Rightarrow> (case GetPeerRow i (PathEscapeKey k) (r_store r) of
         Inr p \<Rightarrow> Answer 200 (toAPIPeer (sv_env sv) (in_Now inp) r p False) | Inl _ \<Rightarrow> Refused 404 ''not_found'')) r"
| "meant sv inp (CCreatePeer i req) r = state_answer AnPeer
     (handleCreatePeer (sv_env sv) (in_Now inp) (in_PSK inp) (in_Pair inp) i (Some req) r)"
| "meant sv inp (CUpdatePeer i k u) r =
     state_answer AnPeer (handleUpdatePeer (sv_env sv) (in_Now inp) i k (Some (wire_peer_update u)) r)"
| "meant sv inp (CDeletePeer i k) r = state_answer (\<lambda>_. AnDone) (handleDeletePeer (sv_env sv) (in_Now inp) i k r)"
| "meant sv inp (CSuspendPeer i k) r = state_answer AnFlag (handleSuspendPeer (sv_env sv) (in_Now inp) i k r)"
| "meant sv inp (CResumePeer i k) r = state_answer AnFlag (handleResumePeer (sv_env sv) (in_Now inp) i k r)"
| "meant sv inp (CResetPeerTraffic i k) r = state_answer (\<lambda>_. AnDone) (handleResetPeerTraffic (in_Now inp) i k r)"
| "meant sv inp (CPeerTraffic i k from to limit) r = pure_answer AnTraffic (handlePeerTraffic (sv_env sv) (in_Now inp) i k
     (if IsZero from then [] else FormatNano from) (if IsZero to then [] else FormatNano to)
     (if limit > 0 then int_str limit else []) r) r"
| "meant sv inp (CPeerClientConfig i k) r = pure_answer AnText (handlePeerClientConfig (sv_env sv) i k r) r"
| "meant sv inp (CPeerQR i k) r = pure_answer AnPicture (handlePeerQR (sv_env sv) (sv_qr sv) i k r) r"
| "meant sv inp (CIssueClientKey i k rot) r =
     state_answer AnIssued (handleIssueClientKey (sv_env sv) (in_Now inp) (in_Pair inp) i k (Some rot) False r)"
| "meant sv inp (CDiscover names) r = pure_answer AnPreview (handleDiscover (sv_env sv) (in_File inp) names [] r) r"
| "meant sv inp (CAdopt req) r = state_answer AnAdopted (handleAdopt (sv_env sv) (in_File inp) (in_Now inp) (Some req) r)"
| "meant sv inp (CGenerateKeys t) r = pure_answer AnKeys (handleKeysGenerate (in_Pair inp) (in_PSK inp) (Some t)) r"
| "meant sv inp CListEvents r = pure_answer AnEvents (handleEvents (in_Now inp) r) r"
| "meant sv inp CStats r = pure_answer AnStats (handleStats (sv_env sv) (in_Now inp) r) r"
| "meant sv inp CConfig r = pure_answer AnConfig (handleConfig (sv_tsPath sv) (sv_cfg sv)) r"
| "meant sv inp CReconcile r = state_answer AnText (handleReconcile (sv_env sv) (in_Now inp) r)"

end
