(* ===== verification/ClientLaws.thy ===== *)
theory ClientLaws
  imports ApiLaws ApiClient
begin

text \<open>
  The client and the server together: which requests may change anything, and that a call of the client library reaches
  the handler it is meant for with the arguments it was given.
\<close>

section \<open>Only authorised requests change anything\<close>

text \<open>
  C7. A request that changes anything, the database, the devices or what the daemon remembers, carries the token of the
  configuration, which is not empty, uses a method that writes, and arrives at a daemon that is not in read-only mode;
  all others leave the state as it is.
\<close>

theorem changes_are_authorised:
  assumes "routes_as_documented (sv_chi sv)" "snd (snd (serve sv inp q r)) \<noteq> r"
  shows "dc_AuthToken (sv_cfg sv) \<noteq> [] \<and> rq_Authorization q = bearer_prefix @ dc_AuthToken (sv_cfg sv)
    \<and> \<not> dc_ReadOnly (sv_cfg sv) \<and> rq_Method q \<in> {''POST'', ''PATCH'', ''DELETE''} \<and> in_v1 (rq_Path q)"
proof -
  have v1: "in_v1 (rq_Path q)" using assms(2) outer_reads [OF assms(1)] by (cases "in_v1 (rq_Path q)") (simp_all add: serve_def)
  have auth: "bearerAuth (dc_AuthToken (sv_cfg sv)) (rq_Authorization q) = None"
    using assms(2) v1 by (auto simp: serve_def split: option.splits prod.splits)
  have open_door: "readOnlyGuard (dc_ReadOnly (sv_cfg sv)) (rq_Method q) = None"
    using assms(2) v1 auth by (auto simp: serve_def split: option.splits prod.splits)
  have "rq_Method q \<in> {''POST'', ''PATCH'', ''DELETE''}"
    using assms(2) v1 auth open_door dispatch_reads [OF assms(1), of v1_routes q] by (cases "rq_Method q \<in> {''POST'', ''PATCH'', ''DELETE''}") (simp_all add: serve_def)
  with v1 auth open_door show ?thesis by (auto simp: bearer_passes readOnlyGuard_def split: if_splits)
qed
section \<open>Routes and paths\<close>

definition v1_segs :: "(string \<times> string list \<times> handler) list" where
  "v1_segs = map (\<lambda>(m, pat, h). (m, split_on CHR ''/'' pat, h)) v1_routes"

lemmas v1_segs_eval = v1_segs_def [simplified v1_routes_def, simplified]

lemma v1_hits: "hits v1_routes m path = List.map_filter (\<lambda>(m', sp, h). if m' = m \<or> m' = []
    then map_option (\<lambda>ps. (h, ps)) (match_segs sp (split_on CHR ''/'' path)) else None) v1_segs"
  by (simp add: hits_def v1_segs_def match_route_def List.map_filter_def filter_map comp_def split_def)

lemmas routing = v1_hits v1_segs_eval List.map_filter_simps split_on_append split_on_no_sep

lemma fixed_routes:
  "hits v1_routes ''GET'' ''/version'' = [(HVersion, [])]" "hits v1_routes ''GET'' ''/backends'' = [(HBackends, [])]"
  "hits v1_routes ''GET'' ''/interfaces'' = [(HListInterfaces, [])]" "hits v1_routes ''POST'' ''/interfaces'' = [(HCreateInterface, [])]"
  "hits v1_routes ''GET'' ''/stats/peers'' = [(HAllPeers, [])]" "hits v1_routes ''GET'' ''/discover'' = [(HDiscover, [])]"
  "hits v1_routes ''POST'' ''/adopt'' = [(HAdopt, [])]" "hits v1_routes ''POST'' ''/keys/generate'' = [(HKeysGenerate, [])]"
  "hits v1_routes ''GET'' ''/events'' = [(HEvents, [])]" "hits v1_routes ''GET'' ''/stats'' = [(HStats, [])]"
  "hits v1_routes ''GET'' ''/config'' = [(HConfig, [])]" "hits v1_routes ''POST'' ''/reconcile'' = [(HReconcile, [])]"
  by (simp_all add: routing)

lemma iface_routes:
  assumes "n \<noteq> []" "CHR ''/'' \<notin> set n"
  shows "hits v1_routes ''GET'' (''/interfaces/'' @ n) = [(HGetInterface, [(''name'', n)])]"
    "hits v1_routes ''PATCH'' (''/interfaces/'' @ n) = [(HUpdateInterface, [(''name'', n)])]"
    "hits v1_routes ''DELETE'' (''/interfaces/'' @ n) = [(HDeleteInterface, [(''name'', n)])]"
    "hits v1_routes ''POST'' (''/interfaces/'' @ n @ ''/up'') = [(HInterfaceUp, [(''name'', n)])]"
    "hits v1_routes ''POST'' (''/interfaces/'' @ n @ ''/down'') = [(HInterfaceDown, [(''name'', n)])]"
    "hits v1_routes ''POST'' (''/interfaces/'' @ n @ ''/export'') = [(HInterfaceExport, [(''name'', n)])]"
    "hits v1_routes ''POST'' (''/interfaces/'' @ n @ ''/import'') = [(HInterfaceImport, [(''name'', n)])]"
    "hits v1_routes ''GET'' (''/interfaces/'' @ n @ ''/peers'') = [(HListPeers, [(''name'', n)])]"
    "hits v1_routes ''POST'' (''/interfaces/'' @ n @ ''/peers'') = [(HCreatePeer, [(''name'', n)])]"
  using assms by (simp_all add: routing)

lemma peer_routes:
  assumes "n \<noteq> []" "CHR ''/'' \<notin> set n" "k \<noteq> []" "CHR ''/'' \<notin> set k"
  shows "hits v1_routes ''GET'' (''/interfaces/'' @ n @ ''/peers/'' @ k) = [(HGetPeer, [(''name'', n), (''pubkey'', k)])]"
    "hits v1_routes ''PATCH'' (''/interfaces/'' @ n @ ''/peers/'' @ k) = [(HUpdatePeer, [(''name'', n), (''pubkey'', k)])]"
    "hits v1_routes ''DELETE'' (''/interfaces/'' @ n @ ''/peers/'' @ k) = [(HDeletePeer, [(''name'', n), (''pubkey'', k)])]"
    "hits v1_routes ''POST'' (''/interfaces/'' @ n @ ''/peers/'' @ k @ ''/suspend'') = [(HSuspendPeer, [(''name'', n), (''pubkey'', k)])]"
    "hits v1_routes ''POST'' (''/interfaces/'' @ n @ ''/peers/'' @ k @ ''/resume'') = [(HResumePeer, [(''name'', n), (''pubkey'', k)])]"
    "hits v1_routes ''POST'' (''/interfaces/'' @ n @ ''/peers/'' @ k @ ''/reset-traffic'') = [(HResetPeerTraffic, [(''name'', n), (''pubkey'', k)])]"
    "hits v1_routes ''GET'' (''/interfaces/'' @ n @ ''/peers/'' @ k @ ''/traffic'') = [(HPeerTraffic, [(''name'', n), (''pubkey'', k)])]"
    "hits v1_routes ''GET'' (''/interfaces/'' @ n @ ''/peers/'' @ k @ ''/client-config'') = [(HPeerClientConfig, [(''name'', n), (''pubkey'', k)])]"
    "hits v1_routes ''GET'' (''/interfaces/'' @ n @ ''/peers/'' @ k @ ''/qr'') = [(HPeerQR, [(''name'', n), (''pubkey'', k)])]"
    "hits v1_routes ''POST'' (''/interfaces/'' @ n @ ''/peers/'' @ k @ ''/issue-client-key'') = [(HIssueClientKey, [(''name'', n), (''pubkey'', k)])]"
  using assms by (simp_all add: routing)

section \<open>Names and keys in paths\<close>

definition plain_name :: "string \<Rightarrow> bool" where
  "plain_name n \<longleftrightarrow> n \<noteq> [] \<and> list_all unreserved n"

lemma plain_name_path:
  assumes "plain_name n"
  shows "PathEscape n = n" "n \<noteq> []" "CHR ''/'' \<notin> set n"
proof -
  have u: "\<forall>c\<in>set n. unreserved c" using assms by (simp add: plain_name_def list_all_iff)
  then have "concat (map (\<lambda>c. if unreserved c then [c] else [CHR ''%'', upper_hex (of_char c div 16), upper_hex (of_char c mod 16)]) n)
      = concat (map (\<lambda>c. [c]) n)" by (simp cong: map_cong)
  then show "PathEscape n = n" by (simp add: PathEscape_def)
  show "n \<noteq> []" using assms by (simp add: plain_name_def)
  have "\<not> unreserved CHR ''/''" by (simp add: unreserved_def)
  with u show "CHR ''/'' \<notin> set n" by blast
qed

definition whole_key :: "string \<Rightarrow> bool" where
  "whole_key k \<longleftrightarrow> NormalizeKey k = Inr k"

lemma key_path:
  assumes "whole_key k"
  shows "path_key (PathEscapeKey k) = k" "path_key k = k" "PathEscapeKey k \<noteq> []" "CHR ''/'' \<notin> set (PathEscapeKey k)"
proof -
  have k: "NormalizeKey k = Inr k" using assms by (simp add: whole_key_def)
  note r = key_path_roundtrip [OF k]
  show "path_key (PathEscapeKey k) = k" "path_key k = k" using r by (simp_all add: path_key_def PathUnescapeKey_def)
  show "PathEscapeKey k \<noteq> []" using r by (auto simp: PathUnescapeKey_def NormalizeKey_def)
  show "CHR ''/'' \<notin> set (PathEscapeKey k)" using r by blast
qed

lemma same_key:
  assumes "path_key a = k" "path_key k = k"
  shows "handleUpdatePeer en now i a u r = handleUpdatePeer en now i k u r"
    "handleDeletePeer en now i a r = handleDeletePeer en now i k r"
    "handleSuspendPeer en now i a r = handleSuspendPeer en now i k r"
    "handleResumePeer en now i a r = handleResumePeer en now i k r"
    "handleResetPeerTraffic now i a r = handleResetPeerTraffic now i k r"
    "handlePeerClientConfig en i a r = handlePeerClientConfig en i k r"
    "handlePeerQR en qr i a r = handlePeerQR en qr i k r"
    "handleIssueClientKey en now kp i a b c r = handleIssueClientKey en now kp i k b c r"
  by (simp_all add: handleUpdatePeer_def handleDeletePeer_def handleSuspendPeer_def handleResumePeer_def setSuspend_def
      handleResetPeerTraffic_def handlePeerClientConfig_def handlePeerQR_def handleIssueClientKey_def assms)

section \<open>Every call reaches its handler\<close>

text \<open>
  Calls whose names need no escapes and whose keys are in normal form.
\<close>

fun call_ok :: "call \<Rightarrow> bool" where
  "call_ok (CPeerTraffic i k from to limit) \<longleftrightarrow> plain_name i \<and> whole_key k"
| "call_ok (CGetInterface n) \<longleftrightarrow> plain_name n"
| "call_ok (CUpdateInterface n u) \<longleftrightarrow> plain_name n"
| "call_ok (CDeleteInterface n) \<longleftrightarrow> plain_name n"
| "call_ok (CInterfaceUp n) \<longleftrightarrow> plain_name n"
| "call_ok (CInterfaceDown n) \<longleftrightarrow> plain_name n"
| "call_ok (CExportInterface n) \<longleftrightarrow> plain_name n"
| "call_ok (CImportInterface n c) \<longleftrightarrow> plain_name n"
| "call_ok (CListPeers n) \<longleftrightarrow> plain_name n"
| "call_ok (CCreatePeer i req) \<longleftrightarrow> plain_name i"
| "call_ok (CGetPeer i k) \<longleftrightarrow> plain_name i \<and> whole_key k"
| "call_ok (CUpdatePeer i k u) \<longleftrightarrow> plain_name i \<and> whole_key k"
| "call_ok (CDeletePeer i k) \<longleftrightarrow> plain_name i \<and> whole_key k"
| "call_ok (CSuspendPeer i k) \<longleftrightarrow> plain_name i \<and> whole_key k"
| "call_ok (CResumePeer i k) \<longleftrightarrow> plain_name i \<and> whole_key k"
| "call_ok (CResetPeerTraffic i k) \<longleftrightarrow> plain_name i \<and> whole_key k"
| "call_ok (CPeerClientConfig i k) \<longleftrightarrow> plain_name i \<and> whole_key k"
| "call_ok (CPeerQR i k) \<longleftrightarrow> plain_name i \<and> whole_key k"
| "call_ok (CIssueClientKey i k b) \<longleftrightarrow> plain_name i \<and> whole_key k"
| "call_ok c \<longleftrightarrow> True"

text \<open>The body of the call survives the way to the server.\<close>

definition carried :: "codec \<Rightarrow> call \<Rightarrow> bool" where
  "carried js c \<longleftrightarrow> (case snd (snd (snd (request_of c))) of None \<Rightarrow> True
     | Some p \<Rightarrow> js_Decode js (kind_of p) (js_Marshal js p) = Some (on_wire p) \<and> js_Marshal js p \<noteq> [])"

text \<open>A token of visible characters arrives unchanged in its header.\<close>

definition header_safe :: "string \<Rightarrow> bool" where
  "header_safe t \<longleftrightarrow> list_all (\<lambda>c. let n = of_char c :: nat in 33 \<le> n \<and> n \<le> 126) t"

definition admitted :: "'w server \<Rightarrow> client \<Rightarrow> bool" where
  "admitted sv cl \<longleftrightarrow> ac_token cl = dc_AuthToken (sv_cfg sv) \<and> ac_token cl \<noteq> [] \<and> header_safe (ac_token cl) \<and> \<not> dc_ReadOnly (sv_cfg sv)
     \<and> routes_as_documented (sv_chi sv)"

lemma served:
  assumes "admitted sv cl" "request_of c = (m, ''/v1'' @ path, query, body)" "prefix ''/'' path"
    "hits v1_routes m path = [(h, ps)]"
  shows "snd (serve sv inp (make_request js cl c) r)
    = handle sv inp h (param ps ''name'') (param ps ''pubkey'') (make_request js cl c) r"
proof -
  let ?q = "make_request js cl c"
  have q: "rq_Method ?q = m" "rq_Path ?q = ''/v1'' @ path" "rq_Authorization ?q = bearer_prefix @ dc_AuthToken (sv_cfg sv)"
    using assms(1,2) by (auto simp: make_request_def admitted_def)
  have "in_v1 (rq_Path ?q)" using assms(3) by (auto simp: q in_v1_def prefix_def)
  moreover have "bearerAuth (dc_AuthToken (sv_cfg sv)) (rq_Authorization ?q) = None"
    using assms(1) unfolding bearer_passes q by (auto simp: admitted_def)
  moreover have "readOnlyGuard (dc_ReadOnly (sv_cfg sv)) (rq_Method ?q) = None"
    using assms(1) by (simp add: readOnlyGuard_def admitted_def)
  moreover have "sv_chi sv v1_routes (rq_Method ?q) (drop 3 (rq_Path ?q)) = Inr (h, ps)"
    using assms(1,4) by (simp add: q admitted_def routes_as_documented_def)
  ultimately show ?thesis by (simp add: serve_def dispatch_def)
qed

definition reaches :: "'w server \<Rightarrow> client \<Rightarrow> inputs \<Rightarrow> codec \<Rightarrow> call \<Rightarrow> handler \<Rightarrow> string \<Rightarrow> string \<Rightarrow> 'w rstate \<Rightarrow> bool" where
  "reaches sv cl inp js c h name key r \<longleftrightarrow>
     snd (serve sv inp (make_request js cl c) r) = handle sv inp h name key (make_request js cl c) r"

lemma reachesI:
  assumes "admitted sv cl" "request_of c = (m, path, query, body)" "prefix ''/v1/'' path"
    "\<exists>ps. hits v1_routes m (drop 3 path) = [(h, ps)] \<and> param ps ''name'' = name \<and> param ps ''pubkey'' = key"
  shows "reaches sv cl inp js c h name key r"
proof -
  obtain x where x: "path = ''/v1'' @ ''/'' @ x" using assms(3) by (auto simp: prefix_def)
  obtain ps where "hits v1_routes m (drop 3 path) = [(h, ps)]" "param ps ''name'' = name" "param ps ''pubkey'' = key" using assms(4) by blast
  with served [OF assms(1), of c m "''/'' @ x" query body h ps] assms(2) show ?thesis by (simp add: x reaches_def)
qed

lemma fixed_calls:
  assumes "admitted sv cl"
  shows
    "reaches sv cl inp js (CVersion) HVersion [] [] r"
    "reaches sv cl inp js (CBackendCapabilities) HBackends [] [] r"
    "reaches sv cl inp js (CListInterfaces) HListInterfaces [] [] r"
    "reaches sv cl inp js (CCreateInterface req) HCreateInterface [] [] r"
    "reaches sv cl inp js (CCreateInterfacePair req) HCreateInterface [] [] r"
    "reaches sv cl inp js (CListAllPeers) HAllPeers [] [] r"
    "reaches sv cl inp js (CDiscover names) HDiscover [] [] r"
    "reaches sv cl inp js (CAdopt areq) HAdopt [] [] r"
    "reaches sv cl inp js (CGenerateKeys t) HKeysGenerate [] [] r"
    "reaches sv cl inp js (CListEvents) HEvents [] [] r"
    "reaches sv cl inp js (CStats) HStats [] [] r"
    "reaches sv cl inp js (CConfig) HConfig [] [] r"
    "reaches sv cl inp js (CReconcile) HReconcile [] [] r"
  by ((rule reachesI, rule assms, rule request_of.simps); simp add: fixed_routes param_def)+

lemma iface_calls:
  assumes "admitted sv cl" "plain_name n"
  shows
    "reaches sv cl inp js (CGetInterface n) HGetInterface n [] r"
    "reaches sv cl inp js (CUpdateInterface n u) HUpdateInterface n [] r"
    "reaches sv cl inp js (CDeleteInterface n) HDeleteInterface n [] r"
    "reaches sv cl inp js (CInterfaceUp n) HInterfaceUp n [] r"
    "reaches sv cl inp js (CInterfaceDown n) HInterfaceDown n [] r"
    "reaches sv cl inp js (CExportInterface n) HInterfaceExport n [] r"
    "reaches sv cl inp js (CImportInterface n content) HInterfaceImport n [] r"
    "reaches sv cl inp js (CListPeers n) HListPeers n [] r"
    "reaches sv cl inp js (CCreatePeer n preq) HCreatePeer n [] r"
  by ((rule reachesI, rule assms(1), rule request_of.simps);
      simp add: iface_path_def plain_name_path [OF assms(2)] iface_routes [simplified] param_def)+

lemma peer_calls:
  assumes "admitted sv cl" "plain_name n" "whole_key k"
  shows
    "reaches sv cl inp js (CGetPeer n k) HGetPeer n (PathEscapeKey k) r"
    "reaches sv cl inp js (CUpdatePeer n k pu) HUpdatePeer n (PathEscapeKey k) r"
    "reaches sv cl inp js (CDeletePeer n k) HDeletePeer n (PathEscapeKey k) r"
    "reaches sv cl inp js (CSuspendPeer n k) HSuspendPeer n (PathEscapeKey k) r"
    "reaches sv cl inp js (CResumePeer n k) HResumePeer n (PathEscapeKey k) r"
    "reaches sv cl inp js (CResetPeerTraffic n k) HResetPeerTraffic n (PathEscapeKey k) r"
    "reaches sv cl inp js (CPeerTraffic n k t0 t1 cnt) HPeerTraffic n (PathEscapeKey k) r"
    "reaches sv cl inp js (CPeerClientConfig n k) HPeerClientConfig n (PathEscapeKey k) r"
    "reaches sv cl inp js (CPeerQR n k) HPeerQR n (PathEscapeKey k) r"
    "reaches sv cl inp js (CIssueClientKey n k b) HIssueClientKey n (PathEscapeKey k) r"
  by ((rule reachesI, rule assms(1), rule request_of.simps);
      simp add: iface_path_def peer_path_def plain_name_path [OF assms(2)] key_path [OF assms(3)] peer_routes [simplified] param_def)+

lemmas handle_at =
  handle_def [where h = HAdopt, unfolded handler.case Let_def]
  handle_def [where h = HAllPeers, unfolded handler.case Let_def]
  handle_def [where h = HBackends, unfolded handler.case Let_def]
  handle_def [where h = HConfig, unfolded handler.case Let_def]
  handle_def [where h = HCreateInterface, unfolded handler.case Let_def]
  handle_def [where h = HCreatePeer, unfolded handler.case Let_def]
  handle_def [where h = HDeleteInterface, unfolded handler.case Let_def]
  handle_def [where h = HDeletePeer, unfolded handler.case Let_def]
  handle_def [where h = HDiscover, unfolded handler.case Let_def]
  handle_def [where h = HEvents, unfolded handler.case Let_def]
  handle_def [where h = HGetInterface, unfolded handler.case Let_def]
  handle_def [where h = HGetPeer, unfolded handler.case Let_def]
  handle_def [where h = HInterfaceDown, unfolded handler.case Let_def]
  handle_def [where h = HInterfaceExport, unfolded handler.case Let_def]
  handle_def [where h = HInterfaceImport, unfolded handler.case Let_def]
  handle_def [where h = HInterfaceUp, unfolded handler.case Let_def]
  handle_def [where h = HIssueClientKey, unfolded handler.case Let_def]
  handle_def [where h = HKeysGenerate, unfolded handler.case Let_def]
  handle_def [where h = HListInterfaces, unfolded handler.case Let_def]
  handle_def [where h = HListPeers, unfolded handler.case Let_def]
  handle_def [where h = HPeerClientConfig, unfolded handler.case Let_def]
  handle_def [where h = HPeerQR, unfolded handler.case Let_def]
  handle_def [where h = HReconcile, unfolded handler.case Let_def]
  handle_def [where h = HResetPeerTraffic, unfolded handler.case Let_def]
  handle_def [where h = HResumePeer, unfolded handler.case Let_def]
  handle_def [where h = HStats, unfolded handler.case Let_def]
  handle_def [where h = HSuspendPeer, unfolded handler.case Let_def]
  handle_def [where h = HUpdateInterface, unfolded handler.case Let_def]
  handle_def [where h = HUpdatePeer, unfolded handler.case Let_def]
  handle_def [where h = HVersion, unfolded handler.case Let_def]
  handle_def [where h = HPeerTraffic, unfolded handler.case Let_def]
  handle_def [where h = HHealthz, unfolded handler.case Let_def]

definition arrives :: "'w server \<Rightarrow> client \<Rightarrow> inputs \<Rightarrow> call \<Rightarrow> 'w rstate \<Rightarrow> bool" where
  "arrives sv cl inp c r \<longleftrightarrow> (carried (sv_json sv) c \<longrightarrow> snd (serve sv inp (make_request (sv_json sv) cl c) r) = meant sv inp c r)"

lemma arrivesI:
  assumes "reaches sv cl inp (sv_json sv) c h name key r"
    "carried (sv_json sv) c \<Longrightarrow> handle sv inp h name key (make_request (sv_json sv) cl c) r = meant sv inp c r"
  shows "arrives sv cl inp c r"
  using assms by (simp add: arrives_def reaches_def)

lemmas meaning = make_request_def query_Get_def body_of_def body_or_def carried_def wire_iface_update_def wire_peer_update_def

lemma query_absent: "a \<noteq> b \<Longrightarrow> map_of (map (Product_Type.Pair a) names) b = None"
  by (induction names) simp_all

lemma fixed_arrive:
  assumes "admitted sv cl"
  shows
    "arrives sv cl inp (CVersion) r"
    "arrives sv cl inp (CBackendCapabilities) r"
    "arrives sv cl inp (CListInterfaces) r"
    "arrives sv cl inp (CCreateInterface req) r"
    "arrives sv cl inp (CCreateInterfacePair req) r"
    "arrives sv cl inp (CListAllPeers) r"
    "arrives sv cl inp (CDiscover names) r"
    "arrives sv cl inp (CAdopt areq) r"
    "arrives sv cl inp (CGenerateKeys t) r"
    "arrives sv cl inp (CListEvents) r"
    "arrives sv cl inp (CStats) r"
    "arrives sv cl inp (CConfig) r"
    "arrives sv cl inp (CReconcile) r"
  by ((rule arrivesI, rule fixed_calls [OF assms]); simp add: handle_at meaning query_absent comp_def)+

lemma iface_arrive:
  assumes "admitted sv cl" "plain_name n"
  shows
    "arrives sv cl inp (CGetInterface n) r"
    "arrives sv cl inp (CUpdateInterface n u) r"
    "arrives sv cl inp (CDeleteInterface n) r"
    "arrives sv cl inp (CInterfaceUp n) r"
    "arrives sv cl inp (CInterfaceDown n) r"
    "arrives sv cl inp (CExportInterface n) r"
    "arrives sv cl inp (CImportInterface n content) r"
    "arrives sv cl inp (CListPeers n) r"
    "arrives sv cl inp (CCreatePeer n preq) r"
  by ((rule arrivesI, rule iface_calls [OF assms]); simp add: handle_at meaning)+

lemma get_peer_meant:
  assumes "path_key a = k" "path_key k = k"
  shows "handleGetPeer en now i a b r = (case GetPeerRow i k (r_store r) of Inr p \<Rightarrow> Answer 200 (toAPIPeer en now r p b)
     | Inl _ \<Rightarrow> (case GetPeerRow i a (r_store r) of
         Inr p \<Rightarrow> Answer 200 (toAPIPeer en now r p b) | Inl _ \<Rightarrow> Refused 404 ''not_found''))"
  by (simp add: handleGetPeer_def assms)

lemma peer_arrive:
  assumes "admitted sv cl" "plain_name n" "whole_key k"
  shows
    "arrives sv cl inp (CGetPeer n k) r"
    "arrives sv cl inp (CUpdatePeer n k pu) r"
    "arrives sv cl inp (CDeletePeer n k) r"
    "arrives sv cl inp (CSuspendPeer n k) r"
    "arrives sv cl inp (CResumePeer n k) r"
    "arrives sv cl inp (CResetPeerTraffic n k) r"
    "arrives sv cl inp (CPeerClientConfig n k) r"
    "arrives sv cl inp (CPeerQR n k) r"
    "arrives sv cl inp (CIssueClientKey n k b) r"
  by ((rule arrivesI, rule peer_calls [OF assms]);
      simp add: handle_at meaning same_key [OF key_path(1,2) [OF assms(3)]] get_peer_meant [OF key_path(1,2) [OF assms(3)]])+

lemma health_arrives:
  assumes "admitted sv cl"
  shows "arrives sv cl inp CHealth r"
proof -
  have "hits outer_routes ''GET'' ''/healthz'' = [(HHealthz, [])]" by code_simp
  with assms have "sv_chi sv outer_routes ''GET'' ''/healthz'' = Inr (HHealthz, [])"
    by (simp only: admitted_def routes_as_documented_def)
  then show ?thesis by (simp add: arrives_def serve_def in_v1_def make_request_def dispatch_def handle_at)
qed

lemma traffic_arrives:
  assumes "admitted sv cl" "plain_name n" "whole_key k"
  shows "snd (serve sv inp (make_request js cl (CPeerTraffic n k t0 t1 cnt)) r) =
    pure_answer AnTraffic (handlePeerTraffic (sv_env sv) (in_Now inp) n (PathEscapeKey k)
      (if IsZero t0 then [] else FormatNano t0) (if IsZero t1 then [] else FormatNano t1) (if cnt > 0 then int_str cnt else []) r) r"
  using peer_calls(7) [OF assms, where js = js and inp = inp and r = r, unfolded reaches_def, of t0 t1 cnt]
  by (simp add: handle_at make_request_def query_Get_def)

text \<open>The call a request arrives as: only the history of a peer is not looked up under the key the caller gave.\<close>

definition as_received :: "call \<Rightarrow> call" where
  "as_received c = (case c of CPeerTraffic i k from to limit \<Rightarrow> CPeerTraffic i (PathEscapeKey k) from to limit | _ \<Rightarrow> c)"

text \<open>
  C13. Between the client library and the daemon nothing is lost: a call sent by a client that has the token of the daemon, of visible characters, to
  a daemon that is not in read-only mode has exactly
  the effect and the answer of its handler on the arguments of the call, for interface names that need no escapes
  and keys in normal form, up to the empty lists that the encoding leaves out.  The one exception is the history of a
  peer's traffic: it is answered for the key as it is escaped in the path, which is another one when the key has a plus sign or a
  slash.  The codec is any one that carries the body of the call, and the router any one that matches as documented.
\<close>


theorem calls_reach_handlers:
  assumes "admitted sv cl" "call_ok c" "carried (sv_json sv) c"
  shows "snd (serve sv inp (make_request (sv_json sv) cl c) r) = meant sv inp (as_received c) r"
proof (cases c)
  case CHealth
  with health_arrives [OF assms(1)] assms(3) show ?thesis by (simp add: arrives_def as_received_def)
next
  case (CPeerTraffic i k t0 t1 cnt)
  with traffic_arrives [OF assms(1)] assms(2) show ?thesis by (simp add: as_received_def)
qed (use assms(2,3) fixed_arrive [OF assms(1)] iface_arrive [OF assms(1)] peer_arrive [OF assms(1)] in \<open>simp_all add: arrives_def as_received_def\<close>)

section \<open>A daemon and its client\<close>

text \<open>A codec of one structure only, the request for keys.\<close>

definition demo_codec :: codec where
  "demo_codec = \<lparr>js_Marshal = (\<lambda>p. case p of PKeys t \<Rightarrow> CHR ''k'' # t | _ \<Rightarrow> ''x''),
     js_Decode = (\<lambda>k s. if k = KKeys \<and> s \<noteq> [] \<and> hd s = CHR ''k'' then Some (PKeys (drop 1 s)) else None)\<rparr>"

definition demo_server :: "mock server" where
  "demo_server = \<lparr>sv_env = demo_env, sv_cfg = plain_config, sv_json = demo_codec, sv_chi = first_route,
     sv_version = \<lparr>vi_Version = ''dev'', vi_Commit = ''none'', vi_Date = ''unknown''\<rparr>, sv_tsPath = None, sv_qr = \<lambda>_. None\<rparr>"

definition demo_inputs :: inputs where
  "demo_inputs = \<lparr>in_Now = 10, in_ID = ''id'', in_Pair = None, in_PSK = None, in_Noise = zero_amnezia, in_AWGNoise = zero_amnezia,
     in_File = \<lambda>_. None, in_Ping = None, in_Found = \<lambda>_. True, in_Caps = None\<rparr>"

definition demo_client :: client where
  "demo_client = \<lparr>ac_baseURL = ''http://localhost'', ac_token = ''secret'', ac_unix = None\<rparr>"

lemma demo_admitted: "admitted demo_server demo_client"
  using first_route_ok by (simp add: admitted_def demo_server_def demo_client_def) (simp add: plain_config_def header_safe_def)

lemma lands_without: "lands en now n r (m(x := None)) r' \<Longrightarrow> peer_map (r_store r') x = None"
  by (auto simp: lands_def plain_view_def enforced_view_def dest: fun_cong [where x = x])

theorem changes_are_authorised_witness:
  "\<exists>q. snd (snd (serve demo_server demo_inputs q demo_state)) \<noteq> demo_state \<and> rq_Authorization q = bearer_prefix @ ''secret''
     \<and> rq_Method q = ''DELETE''"
proof -
  define q where "q = \<lparr>rq_Method = ''DELETE'', rq_Path = ''/v1/interfaces/wg0/peers/A'', rq_Query = [],
    rq_Authorization = bearer_prefix @ ''secret'', rq_RequestID = [], rq_Body = []\<rparr>"
  have d: "dispatch demo_server demo_inputs v1_routes (drop 3 (rq_Path q)) q demo_state
      = handle demo_server demo_inputs HDeletePeer ''wg0'' ''A'' q demo_state"
    using peer_routes(3) [of "''wg0''" "''A''"] by (simp add: dispatch_def demo_server_def first_route_def q_def param_def)
  have s: "serve demo_server demo_inputs q demo_state = (''id'', handle demo_server demo_inputs HDeletePeer ''wg0'' ''A'' q demo_state)"
    using d by (simp add: serve_def in_v1_def requestID_def)
      (simp add: q_def demo_server_def demo_inputs_def plain_config_def readOnlyGuard_def bearerAuth_def bearer_prefix_def TrimPrefix_def in_v1_def)
  obtain p where p: "peer_map (r_store demo_state) (''wg0'', path_key ''A'') = Some p" using demo_free(2) by auto
  obtain r' where r': "handleDeletePeer demo_env 10 ''wg0'' ''A'' demo_state = (Answer 204 (), r')"
      "lands demo_env 10 ''wg0'' demo_state ((peer_map (r_store demo_state))((''wg0'', path_key ''A'') := None)) r'"
    using delete_outcome [OF _ p, where en = demo_env and now = 10] over_quota_ok by auto
  then have "r' \<noteq> demo_state" using p lands_without by fastforce
  then have changed: "snd (snd (serve demo_server demo_inputs q demo_state)) \<noteq> demo_state"
    using r'(1) unfolding s handle_at state_answer_def by (simp add: demo_server_def demo_inputs_def)
  from changes_are_authorised [OF _ this] first_route_ok changed show ?thesis
    by (intro exI [of _ q]) (simp add: demo_server_def plain_config_def q_def)
qed

theorem calls_reach_handlers_witness:
  "snd (serve demo_server demo_inputs (make_request demo_codec demo_client
      (CDeletePeer ''wg0'' ''AAAAAAAAAAAAAAAAAAAAAAAAAAAAAAAAAAAAAAAAAAA='')) demo_state) = (Refused 404 ''not_found'', demo_state)
   \<and> snd (serve demo_server demo_inputs (make_request demo_codec demo_client (CGenerateKeys ''curve'')) demo_state)
     = (Refused 400 ''invalid_type'', demo_state)"
proof -
  let ?k = "''AAAAAAAAAAAAAAAAAAAAAAAAAAAAAAAAAAAAAAAAAAA=''"
  have "NormalizeKey ?k = Inr ?k" by code_simp
  then have k: "whole_key ?k" by (simp add: whole_key_def)
  have n: "plain_name ''wg0''" by code_simp
  have c: "carried (sv_json demo_server) (CDeletePeer ''wg0'' ?k)" by (simp add: carried_def)
  have "peer_map over_quota_store (''wg0'', ?k) = None" by code_simp
  then have "handleDeletePeer demo_env 10 ''wg0'' ?k demo_state = (Refused 404 ''not_found'', demo_state)"
    using absent_row [of over_quota_store "''wg0''" ?k] key_path(2) [OF k] by (simp add: handleDeletePeer_def DeletePeer_def)
  with calls_reach_handlers [OF demo_admitted _ c, where inp = demo_inputs and r = demo_state] k n
  have first: "snd (serve demo_server demo_inputs (make_request demo_codec demo_client (CDeletePeer ''wg0'' ?k)) demo_state)
      = (Refused 404 ''not_found'', demo_state)"
    by (simp add: state_answer_def shown_def demo_server_def demo_inputs_def as_received_def)
  have b: "carried (sv_json demo_server) (CGenerateKeys ''curve'')" by (simp add: carried_def demo_server_def demo_codec_def)
  from calls_reach_handlers [OF demo_admitted _ b, where inp = demo_inputs and r = demo_state] first show ?thesis
    by (simp add: pure_answer_def shown_def demo_server_def demo_inputs_def as_received_def handleKeysGenerate_def)
qed

section \<open>What gets lost\<close>

text \<open>
  The history of a peer is asked for under the escaped key, which this handler alone does not normalise: for a key with a plus
  sign or a slash the answer is always that there is no such peer.
\<close>

lemma traffic_unreachable:
  assumes "admitted sv cl" "plain_name i" "whole_key k" "peer_map (r_store r) (i, PathEscapeKey k) = None"
  shows "snd (serve sv inp (make_request js cl (CPeerTraffic i k t0 t1 cnt)) r) = (Refused 404 ''not_found'', r)"
  using traffic_arrives [OF assms(1-3)] absent_row [OF assms(4)] by (simp add: handlePeerTraffic_def pure_answer_def shown_def)

text \<open>A request to clear the servers or addresses of an interface, or the networks of a peer, is the request to keep them.\<close>

lemma lists_not_cleared:
  "meant sv inp (CUpdateInterface n (u\<lparr>iu_DNS := Some [], iu_Addresses := Some []\<rparr>)) r
     = meant sv inp (CUpdateInterface n (u\<lparr>iu_DNS := None, iu_Addresses := None\<rparr>)) r"
  "meant sv inp (CUpdatePeer i k (v\<lparr>up_AllowedIPs := Some [], up_AssignedIPs := Some [], up_Tags := Some []\<rparr>)) r
     = meant sv inp (CUpdatePeer i k (v\<lparr>up_AllowedIPs := None, up_AssignedIPs := None, up_Tags := None\<rparr>)) r"
  by (simp_all add: wire_iface_update_def wire_peer_update_def omit_empty_def)

end
