(* ===== verification/TuiForm.thy ===== *)
theory TuiForm
  imports ApiClient
begin

text \<open>
  The forms of the terminal client (\<open>tui/form.go\<close>).  The text fields are a library's: a record of its operations is a
  parameter, a key is given by its name.  What is only drawn (titles, labels, hints, widths of fields) is left out.
\<close>

record 't textlib =
  tl_New :: 't
  tl_SetValue :: "string \<Rightarrow> 't \<Rightarrow> 't"
  tl_Value :: "'t \<Rightarrow> string"
  tl_Focus :: "'t \<Rightarrow> 't"
  tl_Blur :: "'t \<Rightarrow> 't"
  tl_Update :: "string \<Rightarrow> 't \<Rightarrow> 't"

section \<open>Forms\<close>

datatype field_kind = FText | FSelect | FBool

record fieldDef =
  fd_Key :: string
  fd_Kind :: field_kind
  fd_Options :: "string list"

text \<open>Errors and notes are values; their texts are not modelled.\<close>

datatype tui_error = TextErr string | NetErr string net_error | NoAddresses string

datatype form_note = NoNote | PickInterface | AutoIP string string | NextFree string | NoteErr tui_error

record 't formModel =
  fm_fields :: "fieldDef list"
  fm_inputs :: "'t list"
  fm_selIdx :: "int list"
  fm_focus :: nat
  fm_err :: "tui_error option"
  fm_width :: int
  fm_height :: int
  fm_note :: form_note

definition truthy :: "string \<Rightarrow> bool" where
  "truthy s0 = (let s = ToLower (TrimSpace s0) in s \<in> {''y'', ''yes'', ''true'', ''1'', ''on''})"

fun index_from :: "int \<Rightarrow> string \<Rightarrow> string list \<Rightarrow> int" where
  "index_from i v [] = -1"
| "index_from i v (o1 # os) = (if o1 = v then i else index_from (i + 1) v os)"

definition indexOf :: "string list \<Rightarrow> string \<Rightarrow> int" where
  "indexOf opts v = index_from 0 (TrimSpace v) opts"

text \<open>The focused text field gets the cursor, all others lose it.\<close>

definition focusInput :: "'t textlib \<Rightarrow> 't formModel \<Rightarrow> 't formModel" where
  "focusInput tx f = f\<lparr>fm_inputs := map (\<lambda>i.
     if i = fm_focus f \<and> fd_Kind (fm_fields f ! i) = FText then tl_Focus tx (fm_inputs f ! i) else tl_Blur tx (fm_inputs f ! i))
     [0..<length (fm_inputs f)]\<rparr>"

definition first_input :: "'t textlib \<Rightarrow> (string \<times> string) list \<Rightarrow> fieldDef \<Rightarrow> 't" where
  "first_input tx values f =
     (case map_of values (fd_Key f) of None \<Rightarrow> tl_New tx
      | Some v \<Rightarrow> if fd_Kind f = FText then tl_SetValue tx v (tl_New tx) else tl_New tx)"

definition first_index :: "(string \<times> string) list \<Rightarrow> fieldDef \<Rightarrow> int" where
  "first_index values f =
     (case map_of values (fd_Key f) of None \<Rightarrow> 0
      | Some v \<Rightarrow> (case fd_Kind f of
          FSelect \<Rightarrow> (let i = indexOf (fd_Options f) v in if i < 0 \<and> fd_Options f \<noteq> [] then 0 else i)
        | FBool \<Rightarrow> if truthy v then 1 else 0
        | FText \<Rightarrow> 0))"

definition newForm :: "'t textlib \<Rightarrow> fieldDef list \<Rightarrow> (string \<times> string) list \<Rightarrow> 't formModel" where
  "newForm tx fds values =
     focusInput tx \<lparr>fm_fields = fds, fm_inputs = map (first_input tx values) fds,
       fm_selIdx = map (first_index values) fds, fm_focus = 0, fm_err = None, fm_width = 0, fm_height = 0, fm_note = NoNote\<rparr>"

definition cycleSelect :: "nat \<Rightarrow> int \<Rightarrow> 't formModel \<Rightarrow> 't formModel" where
  "cycleSelect i delta f =
     (let opts = (if fd_Kind (fm_fields f ! i) = FBool then [''n'', ''y''] else fd_Options (fm_fields f ! i)) in
      if opts = [] then f
      else f\<lparr>fm_selIdx := (fm_selIdx f)[i := (fm_selIdx f ! i + delta + int (length opts)) mod int (length opts)]\<rparr>)"

text \<open>A key in a form; \<open>None\<close> is a panic (no fields, or a focus outside).\<close>

definition form_Update :: "'t textlib \<Rightarrow> string \<Rightarrow> 't formModel \<Rightarrow> 't formModel option" where
  "form_Update tx key f =
     (let n = length (fm_fields f); i = fm_focus f in
      if n = 0 then None
      else if key \<in> {''tab'', ''down''} then Some (focusInput tx (f\<lparr>fm_focus := (i + 1) mod n\<rparr>))
      else if key \<in> {''shift+tab'', ''up''} then Some (focusInput tx (f\<lparr>fm_focus := (i + n - 1) mod n\<rparr>))
      else if n \<le> i then None
      else let text = (fd_Kind (fm_fields f ! i) = FText) in
        if key \<in> {''left'', ''h''} \<and> \<not> text then Some (cycleSelect i (-1) f)
        else if key \<in> {''right'', ''l'', '' ''} \<and> \<not> text then Some (cycleSelect i 1 f)
        else if text then Some (f\<lparr>fm_inputs := (fm_inputs f)[i := tl_Update tx key (fm_inputs f ! i)]\<rparr>)
        else Some f)"

fun field_index :: "(fieldDef \<Rightarrow> bool) \<Rightarrow> fieldDef list \<Rightarrow> nat option" where
  "field_index P [] = None"
| "field_index P (f # fs) = (if P f then Some 0 else map_option Suc (field_index P fs))"

definition SetFieldValue :: "'t textlib \<Rightarrow> string \<Rightarrow> string \<Rightarrow> 't formModel \<Rightarrow> 't formModel" where
  "SetFieldValue tx key v f =
     (case field_index (\<lambda>d. fd_Key d = key \<and> fd_Kind d = FText) (fm_fields f) of None \<Rightarrow> f
      | Some i \<Rightarrow> f\<lparr>fm_inputs := (fm_inputs f)[i := tl_SetValue tx v (fm_inputs f ! i)]\<rparr>)"

definition SetSelectOptions :: "string \<Rightarrow> string list \<Rightarrow> 't formModel \<Rightarrow> 't formModel" where
  "SetSelectOptions key opts f =
     (case field_index (\<lambda>d. fd_Key d = key) (fm_fields f) of None \<Rightarrow> f
      | Some i \<Rightarrow>
        (let d = fm_fields f ! i; s = fm_selIdx f ! i;
             cur = (if 0 \<le> s \<and> s < int (length (fd_Options d)) then fd_Options d ! nat s else []);
             j = indexOf opts cur
         in f\<lparr>fm_fields := (fm_fields f)[i := d\<lparr>fd_Options := opts\<rparr>],
              fm_selIdx := (fm_selIdx f)[i := (if j < 0 then 0 else j)]\<rparr>))"

text \<open>The values of the fields by key.\<close>

definition field_value :: "'t textlib \<Rightarrow> fieldDef \<times> 't \<times> int \<Rightarrow> (string \<times> string) list" where
  "field_value tx x =
     (case x of (d, t, s) \<Rightarrow> (case fd_Kind d of
        FSelect \<Rightarrow> (if fd_Options d = [] then []
          else [(fd_Key d, fd_Options d ! (if s < 0 \<or> int (length (fd_Options d)) \<le> s then 0 else nat s))])
      | FBool \<Rightarrow> [(fd_Key d, if s = 1 then ''y'' else ''n'')]
      | FText \<Rightarrow> [(fd_Key d, TrimSpace (tl_Value tx t))]))"

definition Values :: "'t textlib \<Rightarrow> 't formModel \<Rightarrow> (string \<times> string) list" where
  "Values tx f = concat (map (field_value tx) (zip (fm_fields f) (zip (fm_inputs f) (fm_selIdx f))))"

definition value_at :: "(string \<times> string) list \<Rightarrow> string \<Rightarrow> string" where
  "value_at vs k = (case map_of vs k of None \<Rightarrow> [] | Some v \<Rightarrow> v)"

definition form_Get :: "'t textlib \<Rightarrow> string \<Rightarrow> 't formModel \<Rightarrow> string" where
  "form_Get tx k f = value_at (Values tx f) k"

definition FocusedKey :: "'t formModel \<Rightarrow> string" where
  "FocusedKey f = (if fm_focus f < length (fm_fields f) then fd_Key (fm_fields f ! fm_focus f) else [])"

definition form_SetSize :: "int \<Rightarrow> int \<Rightarrow> 't formModel \<Rightarrow> 't formModel" where
  "form_SetSize w h f = f\<lparr>fm_width := w, fm_height := h\<rparr>"

section \<open>The fields of the four forms\<close>

definition text_field :: "string \<Rightarrow> fieldDef" where
  "text_field k = \<lparr>fd_Key = k, fd_Kind = FText, fd_Options = []\<rparr>"

definition bool_field :: "string \<Rightarrow> fieldDef" where
  "bool_field k = \<lparr>fd_Key = k, fd_Kind = FBool, fd_Options = []\<rparr>"

definition ifaceCreateFields :: "fieldDef list" where
  "ifaceCreateFields = map text_field
     [''name'', ''port'', ''addresses'', ''dns'', ''mtu'', ''table'', ''table_id'', ''fwmark'', ''public_endpoint'']"

definition ifaceEditFields :: "fieldDef list" where
  "ifaceEditFields = map text_field
     [''port'', ''addresses'', ''dns'', ''mtu'', ''table'', ''table_id'', ''fwmark'', ''public_endpoint'']"

definition peerCreateFields :: "string list \<Rightarrow> fieldDef list" where
  "peerCreateFields ifaces =
     [\<lparr>fd_Key = ''iface'', fd_Kind = FSelect, fd_Options = (if ifaces = [] then [''(no interfaces)''] else ifaces)\<rparr>,
      text_field ''name'', text_field ''tunnel_ip'', bool_field ''gen_client'', bool_field ''gen_psk'', text_field ''keepalive'',
      text_field ''pubkey'', text_field ''endpoint'', text_field ''traffic_limit'', text_field ''bw_rx'', text_field ''bw_tx'']"

definition peerEditFields :: "fieldDef list" where
  "peerEditFields = map text_field
     [''name'', ''tunnel_ip'', ''endpoint'', ''keepalive'', ''notes'', ''traffic_limit'', ''bw_rx'', ''bw_tx'']"

section \<open>Well-formed forms\<close>

definition form_ok :: "'t formModel \<Rightarrow> bool" where
  "form_ok f \<longleftrightarrow> length (fm_inputs f) = length (fm_fields f) \<and> length (fm_selIdx f) = length (fm_fields f)
     \<and> fm_focus f < length (fm_fields f)"

lemma form_ok_simps [simp]:
  "form_ok (focusInput tx f) = form_ok f" "form_ok (cycleSelect i x f) = form_ok f" "form_ok (SetFieldValue tx k v f) = form_ok f"
  "form_ok (form_SetSize w h f) = form_ok f" "form_ok (f\<lparr>fm_err := e\<rparr>) = form_ok f" "form_ok (f\<lparr>fm_note := t\<rparr>) = form_ok f"
  "form_ok (SetSelectOptions k opts f) = form_ok f" "fds \<noteq> [] \<Longrightarrow> form_ok (newForm tx fds values)"
  by (auto simp: form_ok_def focusInput_def cycleSelect_def SetFieldValue_def form_SetSize_def SetSelectOptions_def newForm_def Let_def
      split: option.split)

definition stays_ok :: "'t formModel option \<Rightarrow> bool" where
  "stays_ok x \<longleftrightarrow> (\<exists>f. x = Some f \<and> form_ok f)"

lemma stays_okI:
  "form_ok f \<Longrightarrow> stays_ok (Some f)"
  "(c \<Longrightarrow> stays_ok x) \<Longrightarrow> (\<not> c \<Longrightarrow> stays_ok y) \<Longrightarrow> stays_ok (if c then x else y)"
  by (simp_all add: stays_ok_def)

lemma form_Update_ok:
  assumes "form_ok f"
  shows "stays_ok (form_Update tx key f)"
proof -
  have n: "(length (fm_fields f) = 0) = False" "(length (fm_fields f) \<le> fm_focus f) = False"
    using assms by (auto simp: form_ok_def)
  then have m: "k mod length (fm_fields f) < length (fm_fields f)" for k using assms by (intro mod_less_divisor) (simp add: form_ok_def)
  have "form_ok (f\<lparr>fm_focus := k mod length (fm_fields f)\<rparr>)" for k using assms m by (simp add: form_ok_def)
  moreover have "form_ok (f\<lparr>fm_inputs := (fm_inputs f)[fm_focus f := t]\<rparr>)" for t using assms by (simp add: form_ok_def)
  ultimately show ?thesis
    unfolding form_Update_def Let_def n if_False
    by (intro stays_okI) (simp_all only: form_ok_simps assms)
qed

end
