(* ===== verification/TuiModel.thy ===== *)
theory TuiModel
  imports TuiForm HostLink
begin

text \<open>
  The terminal client as the state machine it is written as (\<open>tui/model_root.go\<close>, \<open>commands.go\<close>): a model, the messages
  it receives, and the commands it hands to the library that runs them.  A result \<open>None\<close> is a panic.  Drawing is not modelled.
\<close>

section \<open>Commands and messages\<close>

record fetched =
  fe_ifaces :: "api_interface list"
  fe_peers :: "api_peer list"
  fe_stats :: stats_summary
  fe_events :: "db_event list"

text \<open>
  \<open>Action\<close> is a call that changes something, with the flash of its success; \<open>Widget\<close> stands for what the
  library of text fields may want to do after a key, whose result the model never uses.
\<close>

datatype tea_cmd = Fetch nat | Tick | FlashClear int | Action call string | MakeKeys string | ClientConf string string | Widget | Quit

datatype tea_msg = WindowSizeMsg int int | TickMsg | FlashClearMsg int | DataMsg nat "string + fetched" | KeysMsg "string + key_response"
  | ActionDoneMsg "string option" string bool | ClientConfMsg "string + string \<times> string" | KeyMsg string | OtherMsg

definition fetchData :: "nat \<Rightarrow> string + api_interface list \<Rightarrow> string + api_peer list \<Rightarrow> string + stats_summary
    \<Rightarrow> string + db_event list \<Rightarrow> tea_msg" where
  "fetchData gen ifaces peers stats events = DataMsg gen
     (case ifaces of Inl e \<Rightarrow> Inl e | Inr is \<Rightarrow> (case peers of Inl e \<Rightarrow> Inl e | Inr ps \<Rightarrow> (case stats of Inl e \<Rightarrow> Inl e
      | Inr s \<Rightarrow> (case events of Inl e \<Rightarrow> Inl e
      | Inr es \<Rightarrow> Inr \<lparr>fe_ifaces = is, fe_peers = ps, fe_stats = s, fe_events = es\<rparr>))))"

definition doAction :: "string \<Rightarrow> string option \<Rightarrow> tea_msg" where
  "doAction flash err = ActionDoneMsg err flash (err = None)"

definition doFetchClientConf :: "(string \<Rightarrow> string option) \<Rightarrow> string + string \<Rightarrow> tea_msg" where
  "doFetchClientConf renderQR conf =
     ClientConfMsg (case conf of Inl e \<Rightarrow> Inl e | Inr cfg \<Rightarrow> (case renderQR cfg of None \<Rightarrow> Inr (cfg, []) | Some qr \<Rightarrow> Inr (cfg, qr)))"

definition doSuspend :: "string \<Rightarrow> string \<Rightarrow> bool \<Rightarrow> tea_cmd" where
  "doSuspend i k suspend = Action (if suspend then CSuspendPeer i k else CResumePeer i k)
     (if suspend then ''peer suspended'' else ''peer resumed'')"

definition doIfaceUpDown :: "string \<Rightarrow> bool \<Rightarrow> tea_cmd" where
  "doIfaceUpDown n up = Action (if up then CInterfaceUp n else CInterfaceDown n) (n @ (if up then '' up'' else '' down''))"

definition doDeleteIface :: "string \<Rightarrow> tea_cmd" where
  "doDeleteIface n = Action (CDeleteInterface n) (''deleted interface '' @ n)"

definition doDeletePeer :: "string \<Rightarrow> string \<Rightarrow> tea_cmd" where
  "doDeletePeer i k = Action (CDeletePeer i k) ''deleted peer''"

definition doResetTraffic :: "string \<Rightarrow> string \<Rightarrow> tea_cmd" where
  "doResetTraffic i k = Action (CResetPeerTraffic i k) ''traffic counters reset''"

definition doCreateIface :: "iface_create \<Rightarrow> tea_cmd" where
  "doCreateIface req = Action (CCreateInterface req) (''interface '' @ ic_Name req @ '' created'')"

definition doUpdateIface :: "string \<Rightarrow> iface_update \<Rightarrow> tea_cmd" where
  "doUpdateIface n req = Action (CUpdateInterface n req) (''interface '' @ n @ '' updated'')"

definition doCreatePeer :: "string \<Rightarrow> peer_create \<Rightarrow> tea_cmd" where
  "doCreatePeer i req = Action (CCreatePeer i req) ''peer created''"

definition doUpdatePeer :: "string \<Rightarrow> string \<Rightarrow> peer_update \<Rightarrow> tea_cmd" where
  "doUpdatePeer i k req = Action (CUpdatePeer i k req) ''peer updated''"

definition doExportIface :: "string \<Rightarrow> tea_cmd" where
  "doExportIface n = Action (CExportInterface n) (''exported '' @ n @ '' conf'')"

definition doReconcile :: tea_cmd where
  "doReconcile = Action CReconcile ''reconcile complete''"

section \<open>Reading fields\<close>

definition parseIntField :: "string \<Rightarrow> int option" where
  "parseIntField s0 = (let s = TrimSpace s0 in if s = [] then Some 0 else Atoi s)"

text \<open>The same where the error is dropped: the value the library returns with it.\<close>

definition int_field :: "string \<Rightarrow> int" where
  "int_field s0 = (let s = TrimSpace s0 in if s = [] then 0 else AtoiValue s)"

fun joinCSV :: "string list \<Rightarrow> string" where
  "joinCSV [] = []"
| "joinCSV [s] = s"
| "joinCSV (s # ss) = s @ '', '' @ joinCSV ss"

text \<open>The byte form of the ellipsis is \<open>E2 80 A6\<close>.\<close>

definition shorten :: "string \<Rightarrow> nat \<Rightarrow> string" where
  "shorten s n = (if length s \<le> n then s else take (n - 1) s @ [CHR 0xE2, CHR 0x80, CHR 0xA6])"

definition parseTableFields :: "string \<Rightarrow> string \<Rightarrow> string \<times> int option" where
  "parseTableFields table tableID =
     (let m0 = ToLower (TrimSpace table); m = (if m0 = [] then ''auto'' else m0);
          positive = (\<lambda>s. case parseIntField s of Some n \<Rightarrow> if n > 0 then Some n else None | None \<Rightarrow> None)
      in if m \<in> {''number'', ''custom''} then (''number'', positive tableID)
         else case positive m of Some n \<Rightarrow> (''number'', Some n)
           | None \<Rightarrow> (if m \<noteq> ''off'' \<and> m \<noteq> ''auto'' then ''auto'' else m, None))"

section \<open>The model\<close>

datatype tab = tabInterfaces | tabPeers | tabStats | tabEvents | tabKeys

definition tabs :: "tab list" where
  "tabs = [tabInterfaces, tabPeers, tabStats, tabEvents, tabKeys]"

definition next_tab :: "tab \<Rightarrow> tab" where
  "next_tab t = (case t of tabInterfaces \<Rightarrow> tabPeers | tabPeers \<Rightarrow> tabStats | tabStats \<Rightarrow> tabEvents | tabEvents \<Rightarrow> tabKeys | tabKeys \<Rightarrow> tabInterfaces)"

definition prev_tab :: "tab \<Rightarrow> tab" where
  "prev_tab t = (case t of tabInterfaces \<Rightarrow> tabKeys | tabPeers \<Rightarrow> tabInterfaces | tabStats \<Rightarrow> tabPeers | tabEvents \<Rightarrow> tabStats | tabKeys \<Rightarrow> tabEvents)"

datatype mode = modeList | modeIfaceForm | modePeerForm | modeIfaceDetail | modePeerDetail | modeClientConf | modeConfirm

datatype confirmKind = confirmNone | confirmDelIface | confirmDelPeer

record 't rootModel =
  m_tab :: tab
  m_mode :: mode
  m_width :: int
  m_height :: int
  m_ifaces :: "api_interface list"
  m_peers :: "api_peer list"
  m_stats :: "stats_summary option"
  m_events :: "db_event list"
  m_cursor :: int
  m_err :: string
  m_status :: string
  m_flash :: string
  m_lastKeys :: "key_response option"
  m_form :: "'t formModel"
  m_editName :: string
  m_editPub :: string
  m_editIface :: string
  m_formCreate :: bool
  m_confirm :: confirmKind
  m_confirmText :: string
  m_confirmArg :: string
  m_confirmArg2 :: string
  m_clientConf :: string
  m_clientQR :: string
  m_detailPeer :: "api_peer option"
  m_detailIf :: "api_interface option"
  m_scroll :: int
  m_fetchGen :: nat
  m_busy :: bool
  m_flashID :: int

definition no_form :: "'t formModel" where
  "no_form = \<lparr>fm_fields = [], fm_inputs = [], fm_selIdx = [], fm_focus = 0, fm_err = None, fm_width = 0, fm_height = 0, fm_note = NoNote\<rparr>"

definition newRootModel :: "'t rootModel" where
  "newRootModel = \<lparr>m_tab = tabInterfaces, m_mode = modeList, m_width = 0, m_height = 0, m_ifaces = [], m_peers = [], m_stats = None,
     m_events = [], m_cursor = 0, m_err = [], m_status = ''connecting'' @ [CHR 0xE2, CHR 0x80, CHR 0xA6], m_flash = [], m_lastKeys = None,
     m_form = no_form, m_editName = [], m_editPub = [], m_editIface = [], m_formCreate = False, m_confirm = confirmNone,
     m_confirmText = [], m_confirmArg = [], m_confirmArg2 = [], m_clientConf = [], m_clientQR = [], m_detailPeer = None,
     m_detailIf = None, m_scroll = 0, m_fetchGen = 0, m_busy = False, m_flashID = 0\<rparr>"

text \<open>The parameters: the library of text fields, and the names of ports the system knows.\<close>

record 't tui_env =
  te_text :: "'t textlib"
  te_port :: "string \<Rightarrow> bool"

type_synonym 't update = "'t rootModel \<times> tea_cmd list"

definition root_Init :: "'t rootModel \<Rightarrow> tea_cmd list" where
  "root_Init m = [Fetch (m_fetchGen m), Tick]"

definition beginFetch :: "'t rootModel \<Rightarrow> 't update" where
  "beginFetch m = (m\<lparr>m_fetchGen := m_fetchGen m + 1\<rparr>, [Fetch (m_fetchGen m + 1)])"

definition startMutate :: "tea_cmd \<Rightarrow> 't rootModel \<Rightarrow> 't update" where
  "startMutate c m = (if m_busy m then (m, []) else (m\<lparr>m_busy := True\<rparr>, [c]))"

definition setFlash :: "string \<Rightarrow> 't rootModel \<Rightarrow> 't update" where
  "setFlash s m = (m\<lparr>m_flashID := m_flashID m + 1, m_flash := s\<rparr>, [FlashClear (m_flashID m + 1)])"

definition rowCount :: "'t rootModel \<Rightarrow> int" where
  "rowCount m = (case m_tab m of tabInterfaces \<Rightarrow> int (length (m_ifaces m)) | tabPeers \<Rightarrow> int (length (m_peers m))
     | tabEvents \<Rightarrow> int (length (m_events m)) | _ \<Rightarrow> 0)"

definition formAreaHeight :: "'t rootModel \<Rightarrow> int" where
  "formAreaHeight m = (let h = m_height m - 1 in if h < 10 then 10 else h)"

text \<open>The row under the cursor: \<open>None\<close> where the cursor is behind the last row; an index below zero panics.\<close>

definition under_cursor :: "'a list \<Rightarrow> 't rootModel \<Rightarrow> ('a \<Rightarrow> 't update option) \<Rightarrow> 't update option" where
  "under_cursor xs m f =
     (if \<not> m_cursor m < int (length xs) then Some (m, [])
      else if m_cursor m < 0 then None
      else f (xs ! nat (m_cursor m)))"

section \<open>Addresses for a peer\<close>

definition allocateIP :: "'t rootModel \<Rightarrow> string \<Rightarrow> tui_error + string \<times> string" where
  "allocateIP m n =
     (let addrs = (case find (\<lambda>i. ai_Name i = n) (m_ifaces m) of None \<Rightarrow> [] | Some i \<Rightarrow> ai_Addresses i);
          ps = filter (\<lambda>p. ap_InterfaceName p = n
            \<and> \<not> (m_mode m = modePeerForm \<and> \<not> m_formCreate m \<and> ap_PublicKey p = m_editPub m)) (m_peers m)
      in if addrs = [] then Inl (NoAddresses n)
         else case fst (AllocateNextHost addrs (CollectUsedHosts addrs (map ap_AssignedIPs ps) (map ap_AllowedIPs ps))) of
           Inl e \<Rightarrow> Inl (NetErr [] e) | Inr x \<Rightarrow> Inr x)"

definition form_error :: "tui_error \<Rightarrow> 't rootModel \<Rightarrow> 't rootModel" where
  "form_error e m = m\<lparr>m_form := (m_form m)\<lparr>fm_err := Some e\<rparr>\<rparr>"

definition form_remark :: "form_note \<Rightarrow> 't rootModel \<Rightarrow> 't rootModel" where
  "form_remark t m = m\<lparr>m_form := (m_form m)\<lparr>fm_note := t\<rparr>\<rparr>"

definition refreshTunnelIP :: "'t tui_env \<Rightarrow> bool \<Rightarrow> 't rootModel \<Rightarrow> 't rootModel" where
  "refreshTunnelIP en force m =
     (if m_mode m \<noteq> modePeerForm then m
      else let n = (if m_formCreate m then form_Get (te_text en) ''iface'' (m_form m) else m_editIface m) in
      if n = [] \<or> prefix ''('' n then form_remark PickInterface m
      else let cur = form_Get (te_text en) ''tunnel_ip'' (m_form m) in
      if \<not> force \<and> cur \<noteq> [] \<and> \<not> IsAutoToken cur then
        (case allocateIP m n of Inl _ \<Rightarrow> m | Inr (host, _) \<Rightarrow> form_remark (NextFree host) m)
      else case allocateIP m n of
        Inl e \<Rightarrow> m\<lparr>m_form := (m_form m)\<lparr>fm_note := NoteErr e, fm_err := None\<rparr>\<rparr>
      | Inr (host, cidr) \<Rightarrow>
          m\<lparr>m_form := (SetFieldValue (te_text en) ''tunnel_ip'' host (m_form m))\<lparr>fm_note := AutoIP host cidr, fm_err := None\<rparr>\<rparr>)"

text \<open>
  The addresses of a peer from the values of a form.  No form has the fields \<open>allowed_ips\<close>, \<open>assigned_ips\<close>, \<open>auto_ip\<close>: an
  absent value counts as a request for an automatic address.
\<close>

definition resolvePeerIPs :: "'t rootModel \<Rightarrow> string \<Rightarrow> (string \<times> string) list \<Rightarrow> tui_error + string list \<times> string list" where
  "resolvePeerIPs m n v =
     (let get = value_at v; tip = TrimSpace (get ''tunnel_ip'');
          auto_ip = (case allocateIP m n of Inl e \<Rightarrow> Inl e | Inr (host, cidr) \<Rightarrow> Inr ([cidr], [host]))
      in if tip \<noteq> [] \<or> IsAutoToken (get ''allowed_ips'') \<or> IsAutoToken (get ''assigned_ips'') \<or> truthy (get ''auto_ip'') then
           (if tip = [] \<or> IsAutoToken tip then auto_ip
            else case ValidateIPOrCIDR tip of Some e \<Rightarrow> Inl (NetErr ''tunnel IP: '' e)
            | None \<Rightarrow> (case NormalizeHostIP tip of Inl e \<Rightarrow> Inl (NetErr ''tunnel IP: '' e)
            | Inr host \<Rightarrow> (case HostCIDR host of Inl e \<Rightarrow> Inl (NetErr [] e) | Inr cidr \<Rightarrow> Inr ([cidr], [host]))))
         else let allowed = splitCSV (get ''allowed_ips''); assigned = splitCSV (get ''assigned_ips'') in
           if allowed = [] \<and> assigned = [] then auto_ip
           else case ValidateCIDRList allowed of Some e \<Rightarrow> Inl (NetErr ''allowed_ips: '' e)
             | None \<Rightarrow> (case ValidateIPOrCIDRList assigned of Some e \<Rightarrow> Inl (NetErr ''assigned_ips: '' e)
             | None \<Rightarrow> Inr (allowed, assigned)))"

section \<open>Submitting a form\<close>

definition iface_create_of :: "(string \<Rightarrow> string) \<Rightarrow> string list \<Rightarrow> int \<Rightarrow> iface_create" where
  "iface_create_of v addrs port =
     (let (tm, tid) = parseTableFields (v ''table'') (v ''table_id'') in
      \<lparr>ic_Name = v ''name'', ic_PrivateKey = [], ic_ListenPort = port, ic_FwMark = int_field (v ''fwmark''), ic_MTU = int_field (v ''mtu''),
       ic_TableMode = tm, ic_TableID = tid, ic_DNS = splitCSV (v ''dns''), ic_Addresses = addrs, ic_PreUp = [], ic_PostUp = [],
       ic_PreDown = [], ic_PostDown = [], ic_DefaultKeepalive = 0, ic_PublicEndpoint = v ''public_endpoint'', ic_Enabled = None,
       ic_Backend = [], ic_Protocol = [], ic_Amnezia = None, ic_CreateAWGPair = False, ic_AWGName = [], ic_AWGAddresses = [],
       ic_AWGBackend = [], ic_AWGAmnezia = None, ic_NeutralAWG = False, ic_MuxPort = 0, ic_SamePort = False\<rparr>)"

definition iface_update_of :: "(string \<Rightarrow> string) \<Rightarrow> string list \<Rightarrow> int \<Rightarrow> iface_update" where
  "iface_update_of v addrs port =
     (let (tm, tid) = parseTableFields (v ''table'') (v ''table_id''); mtu = int_field (v ''mtu'') in
      \<lparr>iu_PrivateKey = None, iu_ListenPort = Some port, iu_FwMark = Some (int_field (v ''fwmark'')),
       iu_MTU = (if mtu > 0 then Some mtu else None), iu_TableMode = Some tm, iu_TableID = tid, iu_DNS = Some (splitCSV (v ''dns'')),
       iu_Addresses = Some addrs, iu_PreUp = None, iu_PostUp = None, iu_PreDown = None, iu_PostDown = None,
       iu_DefaultKeepalive = None, iu_PublicEndpoint = Some (v ''public_endpoint''), iu_Enabled = None, iu_Backend = None,
       iu_Protocol = None, iu_Amnezia = None, iu_PairName = None, iu_MuxPort = None\<rparr>)"

definition submitIfaceForm :: "'t tui_env \<Rightarrow> 't rootModel \<Rightarrow> 't update" where
  "submitIfaceForm en m =
     (let v = value_at (Values (te_text en) (m_form m)); addrs = splitCSV (v ''addresses'');
          refuse = (\<lambda>e. (form_error e m, []));
          port = (case parseIntField (v ''port'') of Some p \<Rightarrow> if p < 0 \<or> p > 65535 then None else Some p | None \<Rightarrow> None)
      in case ValidateCIDRList addrs of Some e \<Rightarrow> refuse (NetErr ''addresses: '' e)
         | None \<Rightarrow> (case (if v ''public_endpoint'' = [] then None else ValidateEndpoint (te_port en) (v ''public_endpoint'')) of
             Some e \<Rightarrow> refuse (NetErr [] e)
         | None \<Rightarrow> if m_formCreate m then
             (if v ''name'' = [] then refuse (TextErr ''name is required'')
              else case port of None \<Rightarrow> refuse (TextErr ''invalid port (0-65535)'')
                | Some p \<Rightarrow> startMutate (doCreateIface (iface_create_of v addrs (if p = 0 then 51820 else p))) m)
           else (case port of None \<Rightarrow> refuse (TextErr ''invalid port (0-65535)'')
             | Some p \<Rightarrow> startMutate (doUpdateIface (m_editName m) (iface_update_of v addrs p)) m)))"

definition peer_create_of :: "(string \<Rightarrow> string) \<Rightarrow> string list \<Rightarrow> string list \<Rightarrow> peer_create" where
  "peer_create_of v allowed assigned =
     \<lparr>cr_PublicKey = v ''pubkey'', cr_PresharedKey = [], cr_GeneratePSK = truthy (v ''gen_psk''),
      cr_GenerateClientKey = truthy (v ''gen_client''), cr_ClientPrivateKey = [], cr_Name = v ''name'', cr_Notes = [],
      cr_AllowedIPs = allowed, cr_AssignedIPs = assigned, cr_Endpoint = v ''endpoint'',
      cr_PersistentKeepalive = int_field (v ''keepalive''), cr_TrafficLimitBytes = int_field (v ''traffic_limit''), cr_ExpiresAt = [],
      cr_BandwidthRxBps = int_field (v ''bw_rx''), cr_BandwidthTxBps = int_field (v ''bw_tx''), cr_BandwidthTotalBps = 0, cr_Tags = []\<rparr>"

definition peer_update_of :: "(string \<Rightarrow> string) \<Rightarrow> string list \<Rightarrow> string list \<Rightarrow> peer_update" where
  "peer_update_of v allowed assigned =
     \<lparr>up_PresharedKey = None, up_ClientPrivateKey = None, up_Name = Some (v ''name''), up_Notes = Some (v ''notes''),
      up_AllowedIPs = Some allowed, up_AssignedIPs = Some assigned, up_Endpoint = Some (v ''endpoint''),
      up_PersistentKeepalive = Some (int_field (v ''keepalive'')), up_TrafficLimitBytes = Some (int_field (v ''traffic_limit'')),
      up_ExpiresAt = None, up_BandwidthRxBps = Some (int_field (v ''bw_rx'')), up_BandwidthTxBps = Some (int_field (v ''bw_tx'')),
      up_BandwidthTotalBps = None, up_Tags = None, up_Suspended = None\<rparr>"

definition submitPeerForm :: "'t tui_env \<Rightarrow> 't rootModel \<Rightarrow> 't update" where
  "submitPeerForm en m =
     (let vs = Values (te_text en) (m_form m); v = value_at vs; refuse = (\<lambda>e. (form_error e m, []));
          n = (if m_formCreate m then v ''iface'' else m_editIface m)
      in if m_formCreate m \<and> n = [] then refuse (TextErr ''interface is required'')
         else case resolvePeerIPs m n vs of Inl e \<Rightarrow> refuse e
         | Inr (allowed, assigned) \<Rightarrow>
           (case (if v ''endpoint'' = [] then None else ValidateEndpoint (te_port en) (v ''endpoint'')) of
              Some e \<Rightarrow> refuse (NetErr [] e)
            | None \<Rightarrow> if m_formCreate m then
                (let req = peer_create_of v allowed assigned in
                 if cr_PublicKey req = [] \<and> \<not> cr_GenerateClientKey req then refuse (TextErr ''public key required'')
                 else startMutate (doCreatePeer n req) m)
              else startMutate (doUpdatePeer n (m_editPub m) (peer_update_of v allowed assigned)) m))"

section \<open>Opening a form\<close>

definition ifaceNames :: "'t rootModel \<Rightarrow> string list" where
  "ifaceNames m = sort (map ai_Name (m_ifaces m))"

definition openIfaceCreate :: "'t tui_env \<Rightarrow> 't rootModel \<Rightarrow> 't update" where
  "openIfaceCreate en m =
     (m\<lparr>m_form := form_SetSize (m_width m) (formAreaHeight m)
          (newForm (te_text en) ifaceCreateFields [(''port'', ''51820''), (''table'', ''auto'')]),
        m_formCreate := True, m_mode := modeIfaceForm\<rparr>, [Widget])"

definition openIfaceEdit :: "'t tui_env \<Rightarrow> api_interface \<Rightarrow> 't rootModel \<Rightarrow> 't update" where
  "openIfaceEdit en i m =
     (m\<lparr>m_form := form_SetSize (m_width m) (formAreaHeight m) (newForm (te_text en) ifaceEditFields
          [(''port'', int_str (ai_ListenPort i)), (''addresses'', joinCSV (ai_Addresses i)), (''dns'', joinCSV (ai_DNS i)),
           (''mtu'', int_str (ai_MTU i)), (''table'', if ai_TableMode i = [] then ''auto'' else ai_TableMode i),
           (''table_id'', case ai_TableID i of None \<Rightarrow> [] | Some t \<Rightarrow> int_str t), (''fwmark'', int_str (ai_FwMark i)),
           (''public_endpoint'', ai_PublicEndpoint i)]),
        m_formCreate := False, m_editName := ai_Name i, m_mode := modeIfaceForm\<rparr>, [Widget])"

definition openPeerCreate :: "'t tui_env \<Rightarrow> string \<Rightarrow> 't rootModel \<Rightarrow> 't update option" where
  "openPeerCreate en n0 m =
     (let names = ifaceNames m;
          go = (\<lambda>n1. let n = (if n1 = [] \<and> names \<noteq> [] then hd names else n1);
              all_names = (if n \<noteq> [] \<and> n \<notin> set names then n # names else names)
            in Some (refreshTunnelIP en True (m\<lparr>m_form := form_SetSize (m_width m) (formAreaHeight m)
                 (newForm (te_text en) (peerCreateFields all_names)
                   [(''iface'', n), (''gen_psk'', ''y''), (''gen_client'', ''y''), (''keepalive'', ''25'')]),
               m_formCreate := True, m_mode := modePeerForm\<rparr>), [Widget]))
      in if n0 = [] \<and> m_tab m = tabInterfaces \<and> m_cursor m < int (length (m_ifaces m)) then
           (if m_cursor m < 0 then None else go (ai_Name (m_ifaces m ! nat (m_cursor m))))
         else go n0)"

definition openPeerEdit :: "'t tui_env \<Rightarrow> api_peer \<Rightarrow> 't rootModel \<Rightarrow> 't update" where
  "openPeerEdit en p m =
     (let tip = (if ap_AssignedIPs p \<noteq> [] then hd (ap_AssignedIPs p)
            else if ap_AllowedIPs p \<noteq> [] then (case NormalizeHostIP (hd (ap_AllowedIPs p)) of Inl _ \<Rightarrow> [] | Inr h \<Rightarrow> h) else [])
      in (refreshTunnelIP en False (m\<lparr>m_form := form_SetSize (m_width m) (formAreaHeight m) (newForm (te_text en) peerEditFields
          [(''name'', ap_Name p), (''tunnel_ip'', tip), (''endpoint'', ap_Endpoint p),
           (''keepalive'', int_str (ap_PersistentKeepalive p)), (''notes'', ap_Notes p),
           (''traffic_limit'', int_str (ap_TrafficLimitBytes p)), (''bw_rx'', int_str (ap_BandwidthRxBps p)),
           (''bw_tx'', int_str (ap_BandwidthTxBps p))]),
        m_formCreate := False, m_editIface := ap_InterfaceName p, m_editPub := ap_PublicKey p, m_mode := modePeerForm\<rparr>), [Widget]))"

section \<open>Keys\<close>

definition ask :: "confirmKind \<Rightarrow> string \<Rightarrow> string \<Rightarrow> string \<Rightarrow> 't rootModel \<Rightarrow> 't rootModel" where
  "ask k text a b m = m\<lparr>m_confirm := k, m_confirmText := text, m_confirmArg := a, m_confirmArg2 := b, m_mode := modeConfirm\<rparr>"

definition handleConfirm :: "string \<Rightarrow> 't rootModel \<Rightarrow> 't update" where
  "handleConfirm key m =
     (let closed = m\<lparr>m_confirm := confirmNone, m_mode := modeList\<rparr> in
      if key = ''y'' \<or> key = ''Y'' then
        (if m_busy m then (m, [])
         else case m_confirm m of
           confirmDelIface \<Rightarrow> startMutate (doDeleteIface (m_confirmArg m)) closed
         | confirmDelPeer \<Rightarrow> startMutate (doDeletePeer (m_confirmArg m) (m_confirmArg2 m)) closed
         | confirmNone \<Rightarrow> (m, []))
      else if key \<in> {''n'', ''N'', ''esc''} then (closed, [])
      else (m, []))"

definition handleFormKeyAll :: "'t tui_env \<Rightarrow> string \<Rightarrow> 't rootModel \<Rightarrow> 't update option" where
  "handleFormKeyAll en key m =
     (if key = ''esc'' then Some (m\<lparr>m_mode := modeList\<rparr>, [])
      else if key = ''enter'' then Some (if m_mode m = modeIfaceForm then submitIfaceForm en m else submitPeerForm en m)
      else if (key = ''a'' \<or> key = ''A'') \<and> m_mode m = modePeerForm then Some (refreshTunnelIP en True m, [])
      else let prev_iface = form_Get (te_text en) ''iface'' (m_form m) in
        case form_Update (te_text en) key (m_form m) of None \<Rightarrow> None
        | Some f \<Rightarrow> (let m1 = m\<lparr>m_form := f\<rparr> in
            Some (if m_mode m = modePeerForm \<and> m_formCreate m \<and> form_Get (te_text en) ''iface'' f \<noteq> prev_iface
                  then refreshTunnelIP en True m1 else m1, [Widget])))"

definition handleIfaceDetailKey :: "'t tui_env \<Rightarrow> string \<Rightarrow> 't rootModel \<Rightarrow> 't update option" where
  "handleIfaceDetailKey en key m =
     (if key \<in> {''esc'', ''q'', ''backspace''} then Some (m\<lparr>m_mode := modeList, m_detailIf := None\<rparr>, [])
      else case m_detailIf m of None \<Rightarrow> Some (m, [])
      | Some i \<Rightarrow>
          if key = ''u'' then Some (startMutate (doIfaceUpDown (ai_Name i) True) m)
          else if key = ''d'' then Some (startMutate (doIfaceUpDown (ai_Name i) False) m)
          else if key = ''e'' then Some (openIfaceEdit en i m)
          else if key = ''x'' then Some (startMutate (doExportIface (ai_Name i)) m)
          else if key = ''D'' then Some (ask confirmDelIface (''Delete interface '' @ ai_Name i @ '' and all peers?'') (ai_Name i) (m_confirmArg2 m) m, [])
          else if key = ''n'' then openPeerCreate en (ai_Name i) m
          else Some (m, []))"

definition handlePeerDetailKey :: "'t tui_env \<Rightarrow> string \<Rightarrow> 't rootModel \<Rightarrow> 't update" where
  "handlePeerDetailKey en key m =
     (if key \<in> {''esc'', ''q'', ''backspace''} then (m\<lparr>m_mode := modeList, m_detailPeer := None\<rparr>, [])
      else case m_detailPeer m of None \<Rightarrow> (m, [])
      | Some p \<Rightarrow>
          if key = ''s'' then startMutate (doSuspend (ap_InterfaceName p) (ap_PublicKey p) (\<not> ap_Suspended p)) m
          else if key = ''e'' then openPeerEdit en p m
          else if key = ''t'' then startMutate (doResetTraffic (ap_InterfaceName p) (ap_PublicKey p)) m
          else if key = ''c'' \<or> key = ''Q'' then (m, [ClientConf (ap_InterfaceName p) (ap_PublicKey p)])
          else if key = ''D'' then (ask confirmDelPeer (''Delete peer '' @ shorten (ap_Name p) 20 @ '' on '' @ ap_InterfaceName p @ ''?'')
            (ap_InterfaceName p) (ap_PublicKey p) m, [])
          else (m, []))"

definition to_tab :: "tab \<Rightarrow> 't rootModel \<Rightarrow> 't rootModel" where
  "to_tab t m = m\<lparr>m_tab := t, m_cursor := 0, m_scroll := 0\<rparr>"

text \<open>What a key does with the interface, or the peer, under the cursor.\<close>

definition list_iface_key :: "'t tui_env \<Rightarrow> string \<Rightarrow> 't rootModel \<Rightarrow> api_interface \<Rightarrow> 't update" where
  "list_iface_key en key m i =
     (if key = ''enter'' \<or> key = '' '' then (m\<lparr>m_detailIf := Some i, m_mode := modeIfaceDetail\<rparr>, [])
      else if key = ''u'' then startMutate (doIfaceUpDown (ai_Name i) True) m
      else if key = ''d'' then startMutate (doIfaceUpDown (ai_Name i) False) m
      else if key = ''e'' then openIfaceEdit en i m
      else if key = ''D'' then (ask confirmDelIface (''Delete interface '' @ ai_Name i @ ''?'') (ai_Name i) (m_confirmArg2 m) m, [])
      else if key = ''x'' then startMutate (doExportIface (ai_Name i)) m
      else (m, []))"

definition list_peer_key :: "'t tui_env \<Rightarrow> string \<Rightarrow> 't rootModel \<Rightarrow> api_peer \<Rightarrow> 't update" where
  "list_peer_key en key m p =
     (if key = ''enter'' \<or> key = '' '' then (m\<lparr>m_detailPeer := Some p, m_mode := modePeerDetail\<rparr>, [])
      else if key = ''e'' then openPeerEdit en p m
      else if key = ''D'' then (ask confirmDelPeer (''Delete peer '' @ shorten (ap_Name p) 24 @ ''?'') (ap_InterfaceName p) (ap_PublicKey p) m, [])
      else if key = ''s'' then startMutate (doSuspend (ap_InterfaceName p) (ap_PublicKey p) (\<not> ap_Suspended p)) m
      else if key = ''t'' then startMutate (doResetTraffic (ap_InterfaceName p) (ap_PublicKey p)) m
      else if key = ''c'' then (m, [ClientConf (ap_InterfaceName p) (ap_PublicKey p)])
      else (m, []))"

definition handleListKey :: "'t tui_env \<Rightarrow> string \<Rightarrow> 't rootModel \<Rightarrow> 't update option" where
  "handleListKey en key m =
     (if key = ''q'' then Some (m, [Quit])
      else if key = ''1'' then Some (to_tab tabInterfaces m, [])
      else if key = ''2'' then Some (to_tab tabPeers m, [])
      else if key = ''3'' then Some (to_tab tabStats m, [])
      else if key = ''4'' then Some (to_tab tabEvents m, [])
      else if key = ''5'' then Some (to_tab tabKeys m, [])
      else if key \<in> {''tab'', ''right'', ''l''} then Some (to_tab (next_tab (m_tab m)) m, [])
      else if key \<in> {''shift+tab'', ''left'', ''h''} then Some (to_tab (prev_tab (m_tab m)) m, [])
      else if key = ''j'' \<or> key = ''down'' then Some (if m_cursor m < rowCount m - 1 then m\<lparr>m_cursor := m_cursor m + 1\<rparr> else m, [])
      else if key = ''k'' \<or> key = ''up'' then Some (if m_cursor m > 0 then m\<lparr>m_cursor := m_cursor m - 1\<rparr> else m, [])
      else if key = ''pgdown'' then Some (m\<lparr>m_cursor := min (rowCount m - 1) (m_cursor m + 10)\<rparr>, [])
      else if key = ''pgup'' then Some (m\<lparr>m_cursor := max 0 (m_cursor m - 10)\<rparr>, [])
      else if key = ''r'' then Some (beginFetch m)
      else if key = ''R'' then Some (startMutate doReconcile m)
      else if key = ''n'' then
        (if m_tab m = tabInterfaces then Some (openIfaceCreate en m)
         else if m_tab m = tabPeers then openPeerCreate en (if m_ifaces m \<noteq> [] then ai_Name (hd (m_ifaces m)) else []) m
         else Some (m, []))
      else if key \<in> {''enter'', '' '', ''u'', ''d'', ''e'', ''D'', ''s'', ''t'', ''c'', ''x''} then
        (if m_tab m = tabInterfaces \<and> key \<notin> {''s'', ''t'', ''c''} then under_cursor (m_ifaces m) m (\<lambda>i. Some (list_iface_key en key m i))
         else if m_tab m = tabPeers \<and> key \<notin> {''u'', ''d'', ''x''} then under_cursor (m_peers m) m (\<lambda>p. Some (list_peer_key en key m p))
         else Some (m, []))
      else if key = ''g'' \<and> m_tab m = tabKeys then Some (m, [MakeKeys ''keypair''])
      else if key = ''p'' \<and> m_tab m = tabKeys then Some (m, [MakeKeys ''preshared''])
      else Some (m, []))"

text \<open>Keys outside the forms; the two modes of forms never get here.\<close>

definition handleKey :: "'t tui_env \<Rightarrow> string \<Rightarrow> 't rootModel \<Rightarrow> 't update option" where
  "handleKey en key m =
     (if key = ''ctrl+c'' then Some (m, [Quit])
      else case m_mode m of
        modeConfirm \<Rightarrow> Some (handleConfirm key m)
      | modeIfaceDetail \<Rightarrow> handleIfaceDetailKey en key m
      | modePeerDetail \<Rightarrow> Some (handlePeerDetailKey en key m)
      | modeClientConf \<Rightarrow> Some (if key \<in> {''esc'', ''q'', ''enter''}
          then m\<lparr>m_mode := modePeerDetail, m_clientConf := [], m_clientQR := []\<rparr> else m, [])
      | _ \<Rightarrow> handleListKey en key m)"

section \<open>Messages\<close>

definition in_form :: "'t rootModel \<Rightarrow> bool" where
  "in_form m \<longleftrightarrow> m_mode m = modeIfaceForm \<or> m_mode m = modePeerForm"

text \<open>The lists of a fetch take the place of those shown, the cursor and the open details follow.\<close>

definition apply_data :: "fetched \<Rightarrow> 't rootModel \<Rightarrow> 't rootModel" where
  "apply_data d m =
     (let m1 = m\<lparr>m_err := [], m_ifaces := fe_ifaces d, m_peers := fe_peers d, m_stats := Some (fe_stats d), m_events := fe_events d,
            m_status := ''ok''\<rparr>;
          m2 = (if m_cursor m1 \<ge> rowCount m1 then m1\<lparr>m_cursor := max 0 (rowCount m1 - 1)\<rparr> else m1);
          m3 = (case m_detailPeer m2 of None \<Rightarrow> m2
            | Some p \<Rightarrow> if m_mode m2 \<noteq> modePeerDetail then m2
                else (case find (\<lambda>q. ap_PublicKey q = ap_PublicKey p \<and> ap_InterfaceName q = ap_InterfaceName p) (m_peers m2) of
                  None \<Rightarrow> m2 | Some q \<Rightarrow> m2\<lparr>m_detailPeer := Some q\<rparr>))
      in case m_detailIf m3 of None \<Rightarrow> m3
         | Some i \<Rightarrow> if m_mode m3 \<noteq> modeIfaceDetail then m3
             else (case find (\<lambda>j. ai_Name j = ai_Name i) (m_ifaces m3) of None \<Rightarrow> m3 | Some j \<Rightarrow> m3\<lparr>m_detailIf := Some j\<rparr>))"

definition root_Update :: "'t tui_env \<Rightarrow> tea_msg \<Rightarrow> 't rootModel \<Rightarrow> 't update option" where
  "root_Update en msg m =
     (case msg of
        WindowSizeMsg w h \<Rightarrow>
          (let m1 = m\<lparr>m_width := w, m_height := h\<rparr>
           in Some (if in_form m then m1\<lparr>m_form := form_SetSize w (formAreaHeight m1) (m_form m1)\<rparr> else m1, []))
      | TickMsg \<Rightarrow> Some (if m_mode m = modeList then (case beginFetch m of (m1, cs) \<Rightarrow> (m1, cs @ [Tick])) else (m, [Tick]))
      | FlashClearMsg i \<Rightarrow> Some (if i = m_flashID m then m\<lparr>m_flash := []\<rparr> else m, [])
      | DataMsg gen res \<Rightarrow> Some (if gen \<noteq> m_fetchGen m then m
          else (case res of Inl e \<Rightarrow> m\<lparr>m_err := e, m_status := ''error''\<rparr> | Inr d \<Rightarrow> apply_data d m), [])
      | KeysMsg res \<Rightarrow> Some (case res of Inl e \<Rightarrow> (m\<lparr>m_err := e\<rparr>, [])
          | Inr k \<Rightarrow> setFlash ''keys generated'' (m\<lparr>m_lastKeys := Some k, m_err := []\<rparr>))
      | ActionDoneMsg err flash refresh \<Rightarrow>
          (let m1 = m\<lparr>m_busy := False\<rparr> in
           Some (case err of Some e \<Rightarrow> (m1\<lparr>m_err := e, m_status := ''error''\<rparr>, [])
           | None \<Rightarrow> (case setFlash flash (m1\<lparr>m_err := [], m_mode := modeList, m_confirm := confirmNone\<rparr>) of (m2, cs) \<Rightarrow>
               if refresh then (case beginFetch m2 of (m3, fs) \<Rightarrow> (m3, cs @ fs)) else (m2, cs))))
      | ClientConfMsg res \<Rightarrow> Some (case res of Inl e \<Rightarrow> m\<lparr>m_err := e\<rparr>
          | Inr (cfg, qr) \<Rightarrow> m\<lparr>m_clientConf := cfg, m_clientQR := qr, m_mode := modeClientConf\<rparr>, [])
      | KeyMsg key \<Rightarrow> if in_form m then handleFormKeyAll en key m else handleKey en key m
      | OtherMsg \<Rightarrow> Some (m, []))"

end
