(* ===== verification/TuiLaws.thy ===== *)
theory TuiLaws
  imports TuiModel
begin

text \<open>
  Sessions of the terminal client: the user presses keys, the library runs the commands of the model and hands their
  results back in any order, with any outcome.
\<close>

section \<open>Sessions\<close>

inductive answers :: "tea_cmd \<Rightarrow> tea_msg \<Rightarrow> bool" where
  fetch: "answers (Fetch gen) (fetchData gen ifaces peers stats events)"
| tick: "answers Tick TickMsg"
| flash_clear: "answers (FlashClear i) (FlashClearMsg i)"
| action: "answers (Action c flash) (doAction flash err)"
| make_keys: "answers (MakeKeys t) (KeysMsg res)"
| client_conf: "answers (ClientConf i k) (doFetchClientConf renderQR conf)"
| widget: "answers Widget OtherMsg"

inductive_cases answersE: "answers c msg"

datatype user_input = Press string | Resize int int | Mouse

fun input_msg :: "user_input \<Rightarrow> tea_msg" where
  "input_msg (Press key) = KeyMsg key"
| "input_msg (Resize w h) = WindowSizeMsg w h"
| "input_msg Mouse = OtherMsg"

text \<open>The model and the commands under way.\<close>

inductive session :: "'t tui_env \<Rightarrow> 't rootModel \<Rightarrow> tea_cmd list \<Rightarrow> bool" for en where
  start: "m = newRootModel \<Longrightarrow> session en m (root_Init m)"
| user: "session en m cs \<Longrightarrow> root_Update en (input_msg u) m = Some (m', new) \<Longrightarrow> session en m' (cs @ new)"
| reply: "session en m (xs @ c # ys) \<Longrightarrow> answers c msg \<Longrightarrow> root_Update en msg m = Some (m', new) \<Longrightarrow> session en m' (xs @ ys @ new)"

section \<open>What one message does\<close>

fun is_action :: "tea_cmd \<Rightarrow> bool" where
  "is_action (Action c f) = True"
| "is_action _ = False"

fun deletes :: "tea_cmd \<Rightarrow> bool" where
  "deletes (Action (CDeleteInterface n) f) = True"
| "deletes (Action (CDeletePeer i k) f) = True"
| "deletes _ = False"

definition actions :: "tea_cmd list \<Rightarrow> nat" where
  "actions cs = length (filter is_action cs)"

lemma actions_simps [simp]:
  "actions [] = 0" "actions (c # cs) = (if is_action c then 1 else 0) + actions cs" "actions (cs @ ds) = actions cs + actions ds"
  by (simp_all add: actions_def)

text \<open>The question on the screen names what is going to be deleted.\<close>

fun question :: "confirmKind \<Rightarrow> string \<Rightarrow> string \<Rightarrow> bool" where
  "question confirmNone t a \<longleftrightarrow> False"
| "question confirmDelIface t a \<longleftrightarrow> t = ''Delete interface '' @ a @ ''?'' \<or> t = ''Delete interface '' @ a @ '' and all peers?''"
| "question confirmDelPeer t a \<longleftrightarrow>
     (\<exists>name. t = ''Delete peer '' @ shorten name 24 @ ''?'' \<or> t = ''Delete peer '' @ shorten name 20 @ '' on '' @ a @ ''?'')"

declare question.simps [simp del]

definition asked :: "'t rootModel \<Rightarrow> bool" where
  "asked m \<longleftrightarrow> question (m_confirm m) (m_confirmText m) (m_confirmArg m)"

definition settled :: "'t rootModel \<Rightarrow> bool" where
  "settled m \<longleftrightarrow> (in_form m \<longrightarrow> form_ok (m_form m)) \<and> (m_mode m = modeConfirm \<longrightarrow> asked m)"

text \<open>A step that deletes nothing and starts at most one change; \<open>e\<close> allows the cursor to get lost.\<close>

definition fine :: "bool \<Rightarrow> 't rootModel \<Rightarrow> 't update \<Rightarrow> bool" where
  "fine e m u \<longleftrightarrow> (case u of (m', new) \<Rightarrow> settled m' \<and> \<not> list_ex deletes new
     \<and> (m_busy m' = m_busy m \<and> actions new = 0 \<or> \<not> m_busy m \<and> m_busy m' \<and> actions new = 1)
     \<and> (0 \<le> m_cursor m \<longrightarrow> 0 \<le> m_cursor m' \<or> e))"

definition good :: "bool \<Rightarrow> 't rootModel \<Rightarrow> 't update option \<Rightarrow> bool" where
  "good e m x \<longleftrightarrow> (case x of None \<Rightarrow> m_cursor m < 0 | Some u \<Rightarrow> fine e m u)"

named_theorems steps

lemma good_intros [steps]:
  "fine e m u \<Longrightarrow> good e m (Some u)"
  "(c \<Longrightarrow> good e m x) \<Longrightarrow> (\<not> c \<Longrightarrow> good e m y) \<Longrightarrow> good e m (if c then x else y)"
  "(c \<Longrightarrow> fine e m u) \<Longrightarrow> (\<not> c \<Longrightarrow> fine e m v) \<Longrightarrow> fine e m (if c then u else v)"
  by (simp_all add: good_def)

lemma fine_stay [steps]: "settled m \<Longrightarrow> fine e m (m, [])"
  by (simp add: fine_def)

lemma fine_stay_if [steps]: "fine e m (m1, cs) \<Longrightarrow> fine e m (m2, cs) \<Longrightarrow> fine e m (if c then m1 else m2, cs)"
  by simp

lemma fine_mutate: "settled m \<Longrightarrow> is_action c \<Longrightarrow> \<not> deletes c \<Longrightarrow> fine e m (startMutate c m)"
  by (auto simp: fine_def startMutate_def settled_def in_form_def asked_def)

lemmas do_defs = doSuspend_def doIfaceUpDown_def doResetTraffic_def doCreateIface_def doUpdateIface_def doCreatePeer_def
  doUpdatePeer_def doExportIface_def doReconcile_def

lemma fine_do [steps]:
  assumes "settled m"
  shows "fine e m (startMutate (doSuspend i k b) m)" "fine e m (startMutate (doIfaceUpDown n b) m)"
    "fine e m (startMutate (doResetTraffic i k) m)" "fine e m (startMutate (doCreateIface ic) m)"
    "fine e m (startMutate (doUpdateIface n iu) m)" "fine e m (startMutate (doCreatePeer i cr) m)"
    "fine e m (startMutate (doUpdatePeer i k up) m)" "fine e m (startMutate (doExportIface n) m)"
    "fine e m (startMutate doReconcile m)"
  by (rule fine_mutate [OF assms]; simp add: do_defs)+

lemma fine_form [steps]: "form_ok f \<Longrightarrow> m_mode m \<noteq> modeConfirm \<Longrightarrow> fine e m (m\<lparr>m_form := f\<rparr>, [])"
  by (simp add: fine_def settled_def)

definition reformed :: "'t rootModel \<Rightarrow> 't rootModel \<Rightarrow> bool" where
  "reformed m x \<longleftrightarrow> (\<exists>f. x = m\<lparr>m_form := f\<rparr> \<and> (form_ok (m_form m) \<longrightarrow> form_ok f))"

lemma reformed_intros:
  "reformed m m" "form_ok (m_form m) \<longrightarrow> form_ok f \<Longrightarrow> reformed m (m\<lparr>m_form := f\<rparr>)" "reformed m (form_remark t m)"
  "reformed m x \<Longrightarrow> reformed m y \<Longrightarrow> reformed m (if c then x else y)"
  "(\<And>a. reformed m (g a)) \<Longrightarrow> (\<And>a b. reformed m (h a b)) \<Longrightarrow> reformed m (case s of Inl a \<Rightarrow> g a | Inr (a, b) \<Rightarrow> h a b)"
proof -
  show "reformed m m" unfolding reformed_def by (rule exI [of _ "m_form m"]) simp
  show "reformed m (form_remark t m)" unfolding reformed_def form_remark_def
    by (rule exI [of _ "(m_form m)\<lparr>fm_note := t\<rparr>"]) simp
qed (auto simp: reformed_def split: sum.split)

lemma refresh_shape: "reformed m (refreshTunnelIP en b m)"
  unfolding refreshTunnelIP_def Let_def by (intro reformed_intros) simp_all

lemma fine_refresh:
  assumes "m_busy m' = m_busy m" "in_form m'" "form_ok (m_form m')" "m_cursor m' = m_cursor m" "\<not> list_ex deletes cs" "actions cs = 0"
  shows "fine e m (refreshTunnelIP en b m', cs)"
proof -
  obtain f where f: "refreshTunnelIP en b m' = m'\<lparr>m_form := f\<rparr>" "form_ok f" 
    using refresh_shape [of m' en b] assms(3) unfolding reformed_def by auto
  then show ?thesis using assms by (auto simp: f(1) fine_def settled_def in_form_def)
qed

lemma fields_there: "ifaceCreateFields \<noteq> []" "ifaceEditFields \<noteq> []" "peerCreateFields ns \<noteq> []" "peerEditFields \<noteq> []"
  by (simp_all add: ifaceCreateFields_def ifaceEditFields_def peerCreateFields_def peerEditFields_def)

lemma fine_openI:
  "form_ok (m_form m') \<Longrightarrow> in_form m' \<Longrightarrow> m_busy m' = m_busy m \<Longrightarrow> m_cursor m' = m_cursor m \<Longrightarrow> fine e m (m', [Widget])"
  by (auto simp: fine_def settled_def in_form_def)

lemma fine_open [steps]:
  "fine e m (openIfaceCreate en m)" "fine e m (openIfaceEdit en i m)" "fine e m (openPeerEdit en p m)"
  unfolding openIfaceCreate_def openIfaceEdit_def openPeerEdit_def Let_def
  by (rule fine_openI fine_refresh; simp add: in_form_def fields_there)+

lemma good_open [steps]: "good e m (openPeerCreate en n m)"
proof -
  have "fine e m (refreshTunnelIP en b (m\<lparr>m_form := form_SetSize w h (newForm tx (peerCreateFields ns) vs), m_formCreate := c,
      m_mode := modePeerForm\<rparr>), [Widget])" for b w h tx ns vs c
    by (rule fine_refresh; simp add: in_form_def fields_there)
  moreover have "good e m (if m_cursor m < 0 then None else Some u)" if "fine e m u" for u using that by (simp add: good_def)
  ultimately show ?thesis unfolding openPeerCreate_def Let_def by (simp add: good_intros(1))
qed

lemma fine_error [steps]:
  "in_form m \<Longrightarrow> form_ok (m_form m) \<Longrightarrow> fine e m (form_error x m, [])"
  by (auto simp: fine_def settled_def form_error_def in_form_def)

section \<open>Every key is fine\<close>

lemma fine_case [steps]:
  "(\<And>a. x = Inl a \<Longrightarrow> fine e m (f a)) \<Longrightarrow> (\<And>b. x = Inr b \<Longrightarrow> fine e m (g b)) \<Longrightarrow> fine e m (case x of Inl a \<Rightarrow> f a | Inr b \<Rightarrow> g b)"
  "(y = None \<Longrightarrow> fine e m u) \<Longrightarrow> (\<And>a. y = Some a \<Longrightarrow> fine e m (h a)) \<Longrightarrow> fine e m (case y of None \<Rightarrow> u | Some a \<Rightarrow> h a)"
  "(\<And>a b. z = (a, b) \<Longrightarrow> fine e m (k a b)) \<Longrightarrow> fine e m (case z of (a, b) \<Rightarrow> k a b)"
  by (simp_all split: sum.split option.split prod.split)

lemma submit_fine [steps]:
  assumes "settled m" "in_form m"
  shows "fine e m (submitIfaceForm en m)" "fine e m (submitPeerForm en m)"
proof -
  have ok: "form_ok (m_form m)" using assms by (simp add: settled_def)
  show "fine e m (submitIfaceForm en m)"
    unfolding submitIfaceForm_def Let_def by (intro steps assms ok)
  show "fine e m (submitPeerForm en m)"
    unfolding submitPeerForm_def Let_def by (intro steps assms ok)
qed

lemma form_key_good:
  assumes "settled m" "in_form m"
  shows "good e m (handleFormKeyAll en key m)"
proof -
  have ok: "form_ok (m_form m)" using assms by (simp add: settled_def)
  obtain f where f: "form_Update (te_text en) key (m_form m) = Some f" "form_ok f"
    using form_Update_ok [OF ok] unfolding stays_ok_def by blast
  have closed: "fine e m (m\<lparr>m_mode := modeList\<rparr>, [])" by (simp add: fine_def settled_def in_form_def)
  have typed: "fine e m (m\<lparr>m_form := f\<rparr>, [Widget])"
    using assms(2) f(2) by (auto simp: fine_def settled_def in_form_def)
  have refreshed: "fine e m (refreshTunnelIP en b (m\<lparr>m_form := f\<rparr>), [Widget])" "fine e m (refreshTunnelIP en b m, [])" for b
    using assms(2) f(2) ok by (auto simp: in_form_def intro!: fine_refresh)
  show ?thesis
    unfolding handleFormKeyAll_def Let_def f(1) option.case by (intro steps closed typed refreshed assms)
qed

lemma asking_fine [steps]:
  "fine e m (ask confirmDelIface (''Delete interface '' @ n @ ''?'') n x m, [])"
  "fine e m (ask confirmDelIface (''Delete interface '' @ n @ '' and all peers?'') n x m, [])"
  "fine e m (ask confirmDelPeer (''Delete peer '' @ shorten name 24 @ ''?'') i k m, [])"
  "fine e m (ask confirmDelPeer (''Delete peer '' @ shorten name 20 @ '' on '' @ i @ ''?'') i k m, [])"
  by (auto simp: fine_def settled_def in_form_def ask_def asked_def question.simps)

lemma moves_fine [steps]:
  "settled m \<Longrightarrow> m_mode m \<noteq> modeConfirm \<Longrightarrow> \<not> in_form m \<Longrightarrow> fine e m (to_tab t m, [])"
  "settled m \<Longrightarrow> fine e m (m, [ClientConf i k])" "settled m \<Longrightarrow> fine e m (m, [MakeKeys kind])" "settled m \<Longrightarrow> fine e m (m, [Quit])"
  "fine e m (m\<lparr>m_detailIf := Some d, m_mode := modeIfaceDetail\<rparr>, [])" "fine e m (m\<lparr>m_mode := modeList, m_detailIf := None\<rparr>, [])"
  "fine e m (m\<lparr>m_detailPeer := Some p, m_mode := modePeerDetail\<rparr>, [])" "fine e m (m\<lparr>m_mode := modeList, m_detailPeer := None\<rparr>, [])"
  "fine e m (m\<lparr>m_mode := modePeerDetail, m_clientConf := c, m_clientQR := q\<rparr>, [])"
  "settled m \<Longrightarrow> fine e m (beginFetch m)"
  by (auto simp: fine_def settled_def in_form_def to_tab_def beginFetch_def asked_def)

lemma detail_good [steps]:
  assumes "settled m"
  shows "good e m (handleIfaceDetailKey en key m)" "fine e m (handlePeerDetailKey en key m)"
    "fine e m (list_iface_key en key m i)" "fine e m (list_peer_key en key m p)"
proof -
  show "good e m (handleIfaceDetailKey en key m)"
    by (cases "m_detailIf m"; simp only: handleIfaceDetailKey_def option.case; intro steps assms)
  show "fine e m (handlePeerDetailKey en key m)"
    by (cases "m_detailPeer m"; simp only: handlePeerDetailKey_def option.case; intro steps assms)
  show "fine e m (list_iface_key en key m i)" unfolding list_iface_key_def by (intro steps assms)
  show "fine e m (list_peer_key en key m p)" unfolding list_peer_key_def by (intro steps assms)
qed

lemma under_cursor_good [steps]:
  "settled m \<Longrightarrow> (\<And>x. good e m (f x)) \<Longrightarrow> good e m (under_cursor xs m f)"
  by (simp add: under_cursor_def fine_stay good_def)

lemma rowCount_nonneg: "0 \<le> rowCount m"
  by (simp add: rowCount_def split: tab.split)

text \<open>The one way to lose the cursor: a page down on an empty list.\<close>

definition loses_cursor :: "string \<Rightarrow> 't rootModel \<Rightarrow> bool" where
  "loses_cursor key m \<longleftrightarrow> key = ''pgdown'' \<and> m_mode m = modeList \<and> rowCount m = 0"

lemma list_good:
  assumes "settled m" "m_mode m = modeList"
  shows "good (loses_cursor key m) m (handleListKey en key m)"
proof -
  let ?e = "loses_cursor key m"
  have cursor: "settled (m\<lparr>m_cursor := c\<rparr>)" for c using assms by (simp add: settled_def in_form_def)
  have down: "fine ?e m (m\<lparr>m_cursor := m_cursor m + 1\<rparr>, [])" "fine ?e m (m\<lparr>m_cursor := max 0 (m_cursor m - 10)\<rparr>, [])"
    using cursor by (simp_all add: fine_def)
  have up: "m_cursor m > 0 \<Longrightarrow> fine ?e m (m\<lparr>m_cursor := m_cursor m - 1\<rparr>, [])" using cursor by (simp add: fine_def)
  have page: "key = ''pgdown'' \<Longrightarrow> fine ?e m (m\<lparr>m_cursor := min (rowCount m - 1) (m_cursor m + 10)\<rparr>, [])"
    using cursor assms(2) rowCount_nonneg [of m] by (auto simp: fine_def loses_cursor_def)
  have up': "fine ?e m (if m_cursor m > 0 then m\<lparr>m_cursor := m_cursor m - 1\<rparr> else m, [])" using up fine_stay [OF assms(1)] by simp
  have "\<not> in_form m" "m_mode m \<noteq> modeConfirm" using assms by (simp_all add: in_form_def)
  then show ?thesis
    unfolding handleListKey_def
    by (intro steps assms(1) down up' page)
qed

section \<open>Every message is fine\<close>

lemma key_good:
  assumes "settled m" "\<not> in_form m" "m_mode m \<noteq> modeConfirm"
  shows "good (loses_cursor key m) m (handleKey en key m)"
proof (cases "m_mode m")
  case modeList
  then show ?thesis unfolding handleKey_def mode.case by (simp only: mode.case) (intro steps assms list_good)
next
  case modeIfaceDetail
  then show ?thesis unfolding handleKey_def mode.case by (simp only: mode.case) (intro steps assms)
next
  case modePeerDetail
  then show ?thesis unfolding handleKey_def mode.case by (simp only: mode.case) (intro steps assms)
next
  case modeClientConf
  then show ?thesis unfolding handleKey_def mode.case by (simp only: mode.case) (intro steps assms)
qed (use assms in \<open>simp_all add: in_form_def\<close>)

text \<open>The messages but for the end of a change and the answer to a question.\<close>

fun lost_by :: "tea_msg \<Rightarrow> 't rootModel \<Rightarrow> bool" where
  "lost_by (KeyMsg key) m \<longleftrightarrow> loses_cursor key m"
| "lost_by _ m \<longleftrightarrow> False"

fun ends_change :: "tea_msg \<Rightarrow> bool" where
  "ends_change (ActionDoneMsg e f r) = True"
| "ends_change _ = False"

fun is_key :: "tea_msg \<Rightarrow> bool" where
  "is_key (KeyMsg k) = True"
| "is_key _ = False"

lemma apply_data_keeps:
  "m_mode (apply_data d m) = m_mode m" "m_form (apply_data d m) = m_form m" "m_busy (apply_data d m) = m_busy m"
  "m_confirm (apply_data d m) = m_confirm m" "m_confirmText (apply_data d m) = m_confirmText m"
  "m_confirmArg (apply_data d m) = m_confirmArg m" "m_confirmArg2 (apply_data d m) = m_confirmArg2 m"
  "0 \<le> m_cursor m \<Longrightarrow> 0 \<le> m_cursor (apply_data d m)"
  by (simp_all add: apply_data_def Let_def split: option.split)

lemma settled_cong:
  "m_mode m' = m_mode m \<Longrightarrow> form_ok (m_form m') = form_ok (m_form m) \<Longrightarrow> m_confirm m' = m_confirm m
    \<Longrightarrow> m_confirmText m' = m_confirmText m \<Longrightarrow> m_confirmArg m' = m_confirmArg m \<Longrightarrow> settled m' = settled m"
  by (simp add: settled_def in_form_def asked_def)

lemma fine_same:
  assumes "settled m" "m_mode m' = m_mode m" "form_ok (m_form m') = form_ok (m_form m)" "m_confirm m' = m_confirm m"
    "m_confirmText m' = m_confirmText m" "m_confirmArg m' = m_confirmArg m" "m_busy m' = m_busy m" "0 \<le> m_cursor m \<Longrightarrow> 0 \<le> m_cursor m'"
    "\<not> list_ex deletes cs" "actions cs = 0"
  shows "fine e m (m', cs)"
  using assms settled_cong [of m' m] by (simp add: fine_def)

lemma update_good:
  assumes "settled m" "\<not> ends_change msg" "is_key msg \<longrightarrow> m_mode m \<noteq> modeConfirm"
  shows "good (lost_by msg m) m (root_Update en msg m)"
proof (cases msg)
  case (KeyMsg key)
  then show ?thesis
    using assms form_key_good [OF assms(1)] key_good [OF assms(1)] by (cases "in_form m") (simp_all add: root_Update_def)
next
  case (DataMsg gen res)
  have "fine e m (apply_data d m, [])" for e d by (rule fine_same [OF assms(1)]) (simp_all add: apply_data_keeps)
  moreover have "fine e m (m\<lparr>m_err := x, m_status := y\<rparr>, [])" for e x y by (rule fine_same [OF assms(1)]) simp_all
  ultimately show ?thesis using fine_stay [OF assms(1)] by (simp add: root_Update_def DataMsg good_def split: sum.split)
next
  case (ClientConfMsg res)
  have "fine e m (m\<lparr>m_err := x\<rparr>, [])" for e x by (rule fine_same [OF assms(1)]) simp_all
  moreover have "fine e m (m\<lparr>m_clientConf := c, m_clientQR := q, m_mode := modeClientConf\<rparr>, [])" for e c q
    by (simp add: fine_def settled_def in_form_def)
  ultimately show ?thesis by (simp add: root_Update_def ClientConfMsg good_def split: sum.split)
qed (use assms in \<open>auto simp: root_Update_def good_def setFlash_def beginFetch_def Let_def intro!: fine_same split: sum.split\<close>)

section \<open>Sessions\<close>

lemma confirm_settled:
  assumes "settled m"
  shows "settled (fst (handleConfirm key m)) \<and> (m_busy (fst (handleConfirm key m)) = m_busy m \<and> actions (snd (handleConfirm key m)) = 0
    \<or> \<not> m_busy m \<and> m_busy (fst (handleConfirm key m)) \<and> actions (snd (handleConfirm key m)) = 1)
    \<and> m_cursor (fst (handleConfirm key m)) = m_cursor m"
  using assms by (simp add: handleConfirm_def Let_def startMutate_def doDeleteIface_def doDeletePeer_def settled_def in_form_def
      split: confirmKind.split)

definition step_keeps :: "'t rootModel \<Rightarrow> tea_msg \<Rightarrow> 't update \<Rightarrow> bool" where
  "step_keeps m msg u \<longleftrightarrow> (case u of (m', new) \<Rightarrow> settled m'
     \<and> (if ends_change msg then \<not> m_busy m' \<and> actions new = 0
        else m_busy m' = m_busy m \<and> actions new = 0 \<or> \<not> m_busy m \<and> m_busy m' \<and> actions new = 1))"

lemma done_keeps:
  assumes "settled m" "root_Update en (ActionDoneMsg err flash r) m = Some (m', new)"
  shows "settled m' \<and> \<not> m_busy m' \<and> actions new = 0 \<and> \<not> list_ex deletes new \<and> m_cursor m' = m_cursor m"
  using assms by (auto simp: root_Update_def Let_def setFlash_def beginFetch_def settled_def in_form_def asked_def
      split: option.splits if_splits)

lemma in_confirm: "root_Update en (KeyMsg key) m = Some (if key = ''ctrl+c'' then (m, [Quit]) else handleConfirm key m)"
  if "m_mode m = modeConfirm"
  using that by (simp add: root_Update_def in_form_def handleKey_def)

lemma update_keeps:
  assumes "settled m" "root_Update en msg m = Some (m', new)"
  shows "step_keeps m msg (m', new)"
proof (cases "ends_change msg")
  case True
  then obtain e f r where "msg = ActionDoneMsg e f r" by (cases msg) simp_all
  with done_keeps [OF assms(1)] assms(2) show ?thesis by (simp add: step_keeps_def)
next
  case False
  show ?thesis
  proof (cases "is_key msg \<and> m_mode m = modeConfirm")
    case True
    then obtain key where "msg = KeyMsg key" by (cases msg) simp_all
    with True assms in_confirm [of m en key] confirm_settled [of m key] show ?thesis
      by (cases "key = ''ctrl+c''"; cases "handleConfirm key m") (simp_all add: step_keeps_def)
  next
    case other: False
    have "good (lost_by msg m) m (root_Update en msg m)" using update_good [OF assms(1) False] other by blast
    with assms(2) have "good (lost_by msg m) m (Some (m', new))" by simp
    then show ?thesis using False by (simp add: step_keeps_def good_def fine_def)
  qed
qed

lemma answers_end: "answers c msg \<Longrightarrow> ends_change msg = is_action c"
  by (induction rule: answers.induct) (simp_all add: fetchData_def doAction_def doFetchClientConf_def)

lemma session_inv: "session en m cs \<Longrightarrow> settled m \<and> actions cs = (if m_busy m then 1 else 0)"
proof (induction rule: session.induct)
  case start
  then show ?case by (simp add: newRootModel_def root_Init_def settled_def in_form_def)
next
  case (user m cs u m' new)
  then show ?case using update_keeps [of m en "input_msg u" m' new] by (cases u) (auto simp: step_keeps_def split: if_splits)
next
  case (reply m xs c ys msg m' new)
  then show ?case using update_keeps [of m en msg m' new] answers_end [of c msg]
    by (auto simp: step_keeps_def split: if_splits)
qed



text \<open>
  C33. The client does not crash as long as its cursor is on the screen: in a session whose cursor is not lost every message,
  expected or not, is handled without a panic, and the only way to lose the cursor is a page down on an empty list.
\<close>

theorem no_crash:
  assumes "session en m cs" "0 \<le> m_cursor m"
  shows "\<exists>m' new. root_Update en msg m = Some (m', new) \<and> (0 \<le> m_cursor m' \<or> msg = KeyMsg ''pgdown'' \<and> rowCount m = 0)"
proof -
  have s: "settled m" using session_inv [OF assms(1)] by simp
  consider (ends) e f r where "msg = ActionDoneMsg e f r" | (key) key where "msg = KeyMsg key" "m_mode m = modeConfirm"
    | (other) "\<not> ends_change msg" "is_key msg \<longrightarrow> m_mode m \<noteq> modeConfirm" by (cases msg) auto
  then show ?thesis
  proof cases
    case ends
    obtain u where "root_Update en msg m = Some u" by (simp add: ends root_Update_def Let_def)
    then obtain m' new where "root_Update en msg m = Some (m', new)" by (cases u) simp
    with done_keeps [OF s] assms(2) show ?thesis by (auto simp: ends)
  next
    case key
    with confirm_settled [OF s, of key] assms(2) in_confirm [OF key(2)] show ?thesis
      by (cases "handleConfirm key m") (auto simp: split: if_splits)
  next
    case other
    have lost: "lost_by msg m \<Longrightarrow> msg = KeyMsg ''pgdown'' \<and> rowCount m = 0" by (cases msg) (simp_all add: loses_cursor_def)
    have "good (lost_by msg m) m (root_Update en msg m)" by (rule update_good [OF s other])
    with assms(2) lost show ?thesis by (cases "root_Update en msg m") (auto simp: good_def fine_def)
  qed
qed

section \<open>A session\<close>

text \<open>Text fields that append what is typed, and a daemon with one interface.\<close>

definition plain_text :: "string textlib" where
  "plain_text = \<lparr>tl_New = [], tl_SetValue = \<lambda>v _. v, tl_Value = \<lambda>t. t, tl_Focus = \<lambda>t. t, tl_Blur = \<lambda>t. t,
     tl_Update = \<lambda>k t. if length k = 1 then t @ k else t\<rparr>"

definition demo_tui :: "string tui_env" where
  "demo_tui = \<lparr>te_text = plain_text, te_port = \<lambda>_. False\<rparr>"


lemma started: "session en newRootModel [Fetch 0, Tick]"
  using session.start [of newRootModel en] by (simp add: root_Init_def newRootModel_def)





theorem no_crash_witness:
  "\<exists>m' new. root_Update demo_tui (KeyMsg ''enter'') (newRootModel :: string rootModel) = Some (m', new)"
proof -
  from no_crash [OF started [of demo_tui], of "KeyMsg ''enter''"] show ?thesis by (auto simp: newRootModel_def)
qed

section \<open>What goes wrong\<close>

text \<open>A page down on an empty list puts the cursor at -1; the next enter takes that row.\<close>

lemma empty_page_down_crashes:
  "root_Update en (KeyMsg ''pgdown'') newRootModel = Some (newRootModel\<lparr>m_cursor := -1\<rparr>, [])"
  "root_Update en (KeyMsg ''enter'') (newRootModel\<lparr>m_cursor := -1\<rparr>) = None"
  by (simp_all add: root_Update_def newRootModel_def in_form_def handleKey_def handleListKey_def rowCount_def under_cursor_def)

text \<open>When answers take longer than the refresh interval every one of them is stale: the client never shows anything.\<close>

lemma slow_answers_never_shown: "session en (newRootModel\<lparr>m_fetchGen := n\<rparr>) [Fetch n, Tick]"
proof (induction n)
  case 0
  then show ?case using started [of en] by (simp add: newRootModel_def)
next
  case (Suc n)
  have "session en (newRootModel\<lparr>m_fetchGen := Suc n\<rparr>) ([Fetch n] @ [] @ [Fetch (Suc n), Tick])"
    by (rule session.reply [where c = Tick, OF _ answers.tick]) (use Suc in simp, simp add: root_Update_def beginFetch_def newRootModel_def)
  then have "session en (newRootModel\<lparr>m_fetchGen := Suc n\<rparr>) ([] @ Fetch n # [Fetch (Suc n), Tick])" by simp
  from session.reply [OF this answers.fetch, where new = "[]"] show ?case by (simp add: fetchData_def root_Update_def newRootModel_def)
qed

text \<open>The letter a cannot be typed into any field of the form of a peer: it asks for another address.\<close>

lemma other_fields_kept:
  "fd_Key (fm_fields f ! i) \<noteq> k \<Longrightarrow> fm_inputs (SetFieldValue tx k v f) ! i = fm_inputs f ! i"
proof -
  have at: "P (fs ! j)" if "field_index P fs = Some j" for P fs j
    using that by (induction fs arbitrary: j) (auto split: if_splits)
  assume other: "fd_Key (fm_fields f ! i) \<noteq> k"
  show "fm_inputs (SetFieldValue tx k v f) ! i = fm_inputs f ! i"
  proof (cases "field_index (\<lambda>d. fd_Key d = k \<and> fd_Kind d = FText) (fm_fields f)")
    case (Some j)
    with at [OF Some] other have "i \<noteq> j" by auto
    then show ?thesis by (simp add: SetFieldValue_def Some)
  qed (simp add: SetFieldValue_def)
qed

lemma letter_a_not_typed:
  assumes "m_mode m = modePeerForm" "key = ''a'' \<or> key = ''A''" "root_Update en (KeyMsg key) m = Some (m', new)"
    "fd_Key (fm_fields (m_form m) ! i) \<noteq> ''tunnel_ip''"
  shows "fm_inputs (m_form m') ! i = fm_inputs (m_form m) ! i"
proof -
  have "m' = refreshTunnelIP en True m" using assms(1-3) by (auto simp: root_Update_def in_form_def handleFormKeyAll_def)
  then show ?thesis using other_fields_kept [OF assms(4)] by (simp add: refreshTunnelIP_def form_remark_def Let_def split: sum.split)
qed

text \<open>The key that quits everywhere else does not quit a form, and the key for the QR code is not bound in the list.\<close>

lemma forms_do_not_quit:
  assumes "in_form m" "root_Update en (KeyMsg ''ctrl+c'') m = Some (m', new)"
  shows "Quit \<notin> set new"
  using assms by (auto simp: root_Update_def handleFormKeyAll_def Let_def split: option.splits)

lemma list_ignores_QR: "handleListKey en ''Q'' m = Some (m, [])"
  by (simp add: handleListKey_def)

text \<open>Saving the form of a peer always sends a single network, whatever networks the peer had.\<close>

lemma values_of_fields: "map_of (Values tx f) k \<noteq> None \<Longrightarrow> k \<in> fd_Key ` set (fm_fields f)"
proof -
  assume "map_of (Values tx f) k \<noteq> None"
  then obtain v where "(k, v) \<in> set (Values tx f)" by (auto dest: map_of_SomeD)
  then obtain d t s where "(d, t, s) \<in> set (zip (fm_fields f) (zip (fm_inputs f) (fm_selIdx f)))" "(k, v) \<in> set (field_value tx (d, t, s))"
    by (auto simp: Values_def)
  then have "d \<in> set (fm_fields f)" "k = fd_Key d" by (auto simp: field_value_def dest: set_zip_leftD split: field_kind.splits if_splits)
  then show ?thesis by simp
qed

lemma resolve_single:
  assumes "value_at v ''allowed_ips'' = []" "resolvePeerIPs m n v = Inr (allowed, assigned)"
  shows "length allowed = 1 \<and> length assigned = 1"
proof -
  have "IsAutoToken []" by (simp add: IsAutoToken_def TrimSpace_def ToLower_def)
  with assms show ?thesis by (auto simp: resolvePeerIPs_def Let_def split: if_splits sum.splits option.splits)
qed

lemma edit_sends_one_network:
  assumes "\<not> m_formCreate m" "fm_fields (m_form m) = peerEditFields" "submitPeerForm en m = (m', [Action (CUpdatePeer i k req) f])"
  shows "\<exists>cidr host. up_AllowedIPs req = Some [cidr] \<and> up_AssignedIPs req = Some [host]"
proof -
  let ?vs = "Values (te_text en) (m_form m)"
  have "''allowed_ips'' \<notin> fd_Key ` set peerEditFields" by (simp add: peerEditFields_def text_field_def)
  then have "value_at ?vs ''allowed_ips'' = []" using values_of_fields [of "te_text en" "m_form m" "''allowed_ips''"] assms(2)
    by (auto simp: value_at_def split: option.split)
  then obtain allowed assigned where r: "resolvePeerIPs m (m_editIface m) ?vs = Inr (allowed, assigned)" "length allowed = 1" "length assigned = 1"
    and "req = peer_update_of (value_at ?vs) allowed assigned"
    using assms(1,3) resolve_single [of ?vs m "m_editIface m"]
    by (auto simp: submitPeerForm_def Let_def startMutate_def doUpdatePeer_def split: sum.splits option.splits if_splits)
  then show ?thesis by (auto simp: peer_update_of_def length_Suc_conv)
qed

end
