(* ===== verification/Webhook.thy ===== *)
theory Webhook
  imports DaemonConf
begin

text \<open>
  Webhooks (\<open>webhook/webhook.go\<close>): a bounded queue between the callers of \<open>Emit\<close> and one worker that posts the events.
  Encoding, signing and sending are parameters; the goroutines are a step relation, in which a call of \<open>Emit\<close> checks
  whether the dispatcher is closed in one step and sends in another, as the code does.
\<close>

section \<open>Events and filters\<close>

record wh_event =
  we_Agent :: string
  we_Version :: string
  we_ID :: int
  we_TS :: gotime
  we_Level :: string
  we_Kind :: string
  we_Resource :: string
  we_Subject :: string
  we_Message :: string
  we_Meta :: string

definition filter_matches :: "string \<Rightarrow> string \<Rightarrow> bool" where
  "filter_matches kind e0 =
     (let e = TrimSpace e0 in
      e = [] \<or> e = ''*'' \<or> EqualFold e kind
      \<or> suffix ''.*'' e \<and> (let p = TrimSuffix e ''.*'' in prefix (p @ ''.'') kind \<or> kind = p))"

definition wh_match :: "webhooks_config \<Rightarrow> string \<Rightarrow> bool" where
  "wh_match cfg kind \<longleftrightarrow> wh_Events cfg = [] \<or> list_ex (filter_matches kind) (wh_Events cfg)"

definition wh_Enabled_now :: "webhooks_config \<Rightarrow> bool" where
  "wh_Enabled_now cfg \<longleftrightarrow> wh_Enabled cfg \<and> TrimSpace (wh_URL cfg) \<noteq> []"

definition wh_timeout :: "webhooks_config \<Rightarrow> duration" where
  "wh_timeout cfg = (case ParseDuration (TrimSpace (wh_Timeout cfg)) of None \<Rightarrow> 5 * Second
     | Some d \<Rightarrow> if d > 0 then d else 5 * Second)"

definition wh_capacity :: "webhooks_config \<Rightarrow> nat" where
  "wh_capacity cfg = (if wh_QueueSize cfg \<le> 0 then 256 else nat (wh_QueueSize cfg))"

section \<open>The dispatcher\<close>

datatype worker = NotStarted | Waiting | Posting wh_event | Draining | DrainPosting wh_event | Stopped

text \<open>
  The fields of the dispatcher, the state of its worker and of its context; beside them what the properties speak of: the events
  accepted so far, those taken for a post, and those accepted after the worker had stopped.
\<close>

record dispatcher =
  wd_cfg :: webhooks_config
  wd_agent :: string
  wd_version :: string
  wd_queue :: "wh_event list"
  wd_closed :: bool
  wd_cancelled :: bool
  wd_worker :: worker
  wd_accepted :: "wh_event list"
  wd_taken :: "wh_event list"
  wd_late :: "wh_event list"

definition NewDispatcher :: "webhooks_config \<Rightarrow> string \<Rightarrow> string \<Rightarrow> dispatcher" where
  "NewDispatcher cfg agent version = \<lparr>wd_cfg = cfg, wd_agent = agent, wd_version = version, wd_queue = [], wd_closed = False,
     wd_cancelled = False, wd_worker = NotStarted, wd_accepted = [], wd_taken = [], wd_late = []\<rparr>"

definition wd_Start :: "dispatcher \<Rightarrow> dispatcher" where
  "wd_Start d = (if wh_Enabled_now (wd_cfg d) then d\<lparr>wd_worker := Waiting\<rparr> else d)"

text \<open>Closing cancels the worker if there is one; the call then waits until the worker has stopped.\<close>

definition wd_Close :: "dispatcher \<Rightarrow> dispatcher" where
  "wd_Close d = (if wd_closed d then d
     else d\<lparr>wd_closed := True, wd_cancelled := wd_cancelled d \<or> wd_worker d \<noteq> NotStarted\<rparr>)"

definition close_returns :: "dispatcher \<Rightarrow> bool" where
  "close_returns d \<longleftrightarrow> wd_worker d = NotStarted \<or> wd_worker d = Stopped"

definition filled :: "dispatcher \<Rightarrow> gotime \<Rightarrow> wh_event \<Rightarrow> wh_event" where
  "filled d now e = e\<lparr>we_Agent := (if we_Agent e = [] then wd_agent d else we_Agent e),
     we_Version := (if we_Version e = [] then wd_version d else we_Version e), we_TS := (if IsZero (we_TS e) then now else we_TS e),
     we_Level := (if we_Level e = [] then ''info'' else we_Level e), we_Meta := (if we_Meta e = [] then ''{}'' else we_Meta e)\<rparr>"

text \<open>The first half of a call: the event to send, or none.\<close>

definition Emit_check :: "dispatcher \<Rightarrow> gotime \<Rightarrow> wh_event \<Rightarrow> wh_event option" where
  "Emit_check d now e =
     (if \<not> wh_Enabled_now (wd_cfg d) \<or> \<not> wh_match (wd_cfg d) (we_Kind e) \<or> wd_closed d then None else Some (filled d now e))"

text \<open>The second half: the event goes into the queue, or is dropped where that is full.\<close>

definition Emit_send :: "dispatcher \<Rightarrow> wh_event \<Rightarrow> dispatcher" where
  "Emit_send d e =
     (if length (wd_queue d) < wh_capacity (wd_cfg d) then d\<lparr>wd_queue := wd_queue d @ [e], wd_accepted := wd_accepted d @ [e],
        wd_late := (if wd_worker d = Stopped then wd_late d @ [e] else wd_late d)\<rparr>
      else d)"

definition EmitFromStore :: "(string \<Rightarrow> bool) \<Rightarrow> string \<Rightarrow> string \<Rightarrow> string \<Rightarrow> string \<Rightarrow> string \<Rightarrow> string \<Rightarrow> wh_event" where
  "EmitFromStore valid_json level kind resource subject message meta_text =
     \<lparr>we_Agent = [], we_Version = [], we_ID = 0, we_TS = 0, we_Level = level, we_Kind = kind, we_Resource = resource,
      we_Subject = subject, we_Message = message,
      we_Meta = (if TrimSpace meta_text \<noteq> [] \<and> valid_json meta_text then meta_text else ''{}'')\<rparr>"

text \<open>The request of one post: its headers and body; \<open>sign\<close> is the HMAC-SHA256 of the library in hexadecimal.\<close>

definition post_request :: "(wh_event \<Rightarrow> string option) \<Rightarrow> (string \<Rightarrow> string \<Rightarrow> string) \<Rightarrow> dispatcher \<Rightarrow> wh_event
    \<Rightarrow> ((string \<times> string) list \<times> string) option" where
  "post_request marshal sign d e =
     (case marshal e of None \<Rightarrow> None | Some body \<Rightarrow>
      (let sec = TrimSpace (wh_Secret (wd_cfg d)) in
       Some ([(''Content-Type'', ''application/json''), (''User-Agent'', wd_agent d @ ''-webhook/1.0''), (''X-Agent'', wd_agent d),
          (''X-Event-Kind'', we_Kind e)]
          @ (if sec \<noteq> [] then [(''X-Webhook-Signature'', ''sha256='' @ sign sec body)] else []), body)))"

definition post_accepted :: "nat \<Rightarrow> bool" where
  "post_accepted status \<longleftrightarrow> 200 \<le> status \<and> status < 300"

text \<open>One step of the worker; a cancelled worker with events left may take one more before it notices.\<close>

definition take_event :: "(wh_event \<Rightarrow> worker) \<Rightarrow> dispatcher \<Rightarrow> dispatcher" where
  "take_event w d = d\<lparr>wd_queue := tl (wd_queue d), wd_taken := wd_taken d @ [hd (wd_queue d)], wd_worker := w (hd (wd_queue d))\<rparr>"

inductive worker_step :: "dispatcher \<Rightarrow> dispatcher \<Rightarrow> bool" where
  take: "wd_worker d = Waiting \<Longrightarrow> wd_queue d \<noteq> [] \<Longrightarrow> worker_step d (take_event Posting d)"
| posted: "wd_worker d = Posting e \<Longrightarrow> worker_step d (d\<lparr>wd_worker := Waiting\<rparr>)"
| notice: "wd_worker d = Waiting \<Longrightarrow> wd_cancelled d \<Longrightarrow> worker_step d (d\<lparr>wd_worker := Draining\<rparr>)"
| drain: "wd_worker d = Draining \<Longrightarrow> wd_queue d \<noteq> [] \<Longrightarrow> worker_step d (take_event DrainPosting d)"
| drained: "wd_worker d = DrainPosting e \<Longrightarrow> worker_step d (d\<lparr>wd_worker := Draining\<rparr>)"
| stop: "wd_worker d = Draining \<Longrightarrow> wd_queue d = [] \<Longrightarrow> worker_step d (d\<lparr>wd_worker := Stopped\<rparr>)"

text \<open>The dispatcher with the calls of \<open>Emit\<close> between their halves.\<close>

inductive delivery :: "webhooks_config \<Rightarrow> string \<Rightarrow> string \<Rightarrow> dispatcher \<Rightarrow> wh_event list \<Rightarrow> bool" for cfg agent version where
  start: "delivery cfg agent version (wd_Start (NewDispatcher cfg agent version)) []"
| emit: "delivery cfg agent version d es \<Longrightarrow> Emit_check d now e = Some e' \<Longrightarrow> delivery cfg agent version d (es @ [e'])"
| send: "delivery cfg agent version d (xs @ e # ys) \<Longrightarrow> delivery cfg agent version (Emit_send d e) (xs @ ys)"
| work: "delivery cfg agent version d es \<Longrightarrow> worker_step d d' \<Longrightarrow> delivery cfg agent version d' es"
| cancel: "delivery cfg agent version d es \<Longrightarrow> delivery cfg agent version (d\<lparr>wd_cancelled := True\<rparr>) es"
| close: "delivery cfg agent version d es \<Longrightarrow> delivery cfg agent version (wd_Close d) es"

section \<open>In order, at most once\<close>

definition wanted_event :: "webhooks_config \<Rightarrow> wh_event \<Rightarrow> bool" where
  "wanted_event cfg e \<longleftrightarrow> wh_match cfg (we_Kind e) \<and> we_Level e \<noteq> [] \<and> we_Meta e \<noteq> []"

definition in_order :: "webhooks_config \<Rightarrow> dispatcher \<Rightarrow> wh_event list \<Rightarrow> bool" where
  "in_order cfg d es \<longleftrightarrow> wd_cfg d = cfg \<and> wd_accepted d = wd_taken d @ wd_queue d \<and> length (wd_queue d) \<le> wh_capacity cfg
     \<and> (if wd_worker d = Stopped then wd_queue d = wd_late d else wd_late d = [])
     \<and> (\<forall>e\<in>set (wd_accepted d @ es). wanted_event cfg e)"

lemma wanted_filled: "Emit_check d now e = Some e' \<Longrightarrow> wanted_event (wd_cfg d) e'"
  by (auto simp: Emit_check_def wanted_event_def filled_def split: if_splits)

lemma worker_in_order: "worker_step d d' \<Longrightarrow> in_order cfg d es \<Longrightarrow> in_order cfg d' es"
  by (induction rule: worker_step.induct) (auto simp: in_order_def take_event_def)

lemma delivery_in_order: "delivery cfg agent version d es \<Longrightarrow> in_order cfg d es"
proof (induction rule: delivery.induct)
  case start
  then show ?case by (simp add: in_order_def wd_Start_def NewDispatcher_def)
next
  case (emit d es now e e')
  then show ?case using wanted_filled [OF emit(2)] by (simp add: in_order_def)
next
  case (send d xs e ys)
  then show ?case by (auto simp: in_order_def Emit_send_def)
next
  case (work d es d')
  then show ?case using worker_in_order by blast
qed (auto simp: in_order_def wd_Close_def split: if_splits)

text \<open>
  C34. Webhooks are delivered in order and at most once: at any time, whatever the callers, the worker and the shutdown do, the
  events taken for delivery are the first ones that were accepted, the others wait within the bound of the queue, and every one of
  them passes the filter; when the worker has stopped, nothing accepted before that is left.
\<close>

theorem webhooks_in_order:
  assumes "delivery cfg agent version d es"
  shows "wd_accepted d = wd_taken d @ wd_queue d \<and> length (wd_queue d) \<le> wh_capacity cfg
    \<and> (\<forall>e\<in>set (wd_accepted d). wh_match cfg (we_Kind e) \<and> we_Meta e \<noteq> [])
    \<and> (wd_worker d = Stopped \<longrightarrow> wd_accepted d = wd_taken d @ wd_late d)"
  using delivery_in_order [OF assms] by (auto simp: in_order_def wanted_event_def split: if_splits)

section \<open>A dispatcher that is shut down\<close>

definition demo_hooks :: webhooks_config where
  "demo_hooks = \<lparr>wh_Enabled = True, wh_URL = ''http://c'', wh_Secret = [], wh_Events = [''peer.*''], wh_Timeout = ''5s'', wh_QueueSize = 1\<rparr>"

definition demo_event :: wh_event where
  "demo_event = EmitFromStore (\<lambda>_. True) ''info'' ''peer.created'' ''wg0'' ''A'' ''made'' []"

text \<open>A call of \<open>Emit\<close> that passed the check before the dispatcher was closed sends to a worker that has stopped.\<close>

lemma late_event_left:
  "\<exists>d e. delivery demo_hooks ''wireguardd'' ''dev'' d [] \<and> wd_closed d \<and> close_returns d \<and> wd_queue d = [e]"
proof -
  let ?D = "delivery demo_hooks ''wireguardd'' ''dev''"
  let ?d = "wd_Start (NewDispatcher demo_hooks ''wireguardd'' ''dev'')"
  have on: "wh_Enabled_now demo_hooks" "wh_match demo_hooks ''peer.created''" by code_simp+
  then obtain e where "Emit_check ?d 7 demo_event = Some e"
    by (simp add: Emit_check_def wd_Start_def NewDispatcher_def demo_event_def EmitFromStore_def)
  from delivery.emit [OF delivery.start this] have "?D ?d ([] @ [e])" .
  from delivery.close [OF this] have "?D (wd_Close ?d) ([] @ [e])" .
  from delivery.work [OF this worker_step.notice]
  have "?D ((wd_Close ?d)\<lparr>wd_worker := Draining\<rparr>) ([] @ [e])" using on by (simp add: wd_Close_def wd_Start_def NewDispatcher_def)
  from delivery.work [OF this worker_step.stop]
  have "?D ((wd_Close ?d)\<lparr>wd_worker := Stopped\<rparr>) ([] @ e # [])"
    using on by (simp add: wd_Close_def wd_Start_def NewDispatcher_def)
  from delivery.send [OF this] show ?thesis
    using on by (intro exI [of _ e] exI [of _ "Emit_send ((wd_Close ?d)\<lparr>wd_worker := Stopped\<rparr>) e"])
      (simp add: Emit_send_def close_returns_def wd_Close_def wd_Start_def NewDispatcher_def wh_capacity_def demo_hooks_def)
qed

theorem webhooks_in_order_witness:
  "\<exists>d e. delivery demo_hooks ''wireguardd'' ''dev'' d [] \<and> wd_queue d = [e] \<and> wd_accepted d = wd_taken d @ [e] \<and> wh_match demo_hooks (we_Kind e)"
proof -
  obtain d e where d: "delivery demo_hooks ''wireguardd'' ''dev'' d []" "wd_queue d = [e]" using late_event_left by blast
  from webhooks_in_order [OF this(1)] d show ?thesis by auto
qed

text \<open>The comment on the filters names the form \<open>instance.\<close>, which matches only itself; prefixes are compared with their case.\<close>

lemma dotted_prefix_ignored:
  "\<not> wh_match (demo_hooks\<lparr>wh_Events := [''instance.'']\<rparr>) ''instance.up''" "wh_match (demo_hooks\<lparr>wh_Events := [''Peer.Created'']\<rparr>) ''peer.created''"
  "\<not> wh_match (demo_hooks\<lparr>wh_Events := [''Peer.*'']\<rparr>) ''peer.created''"
  by code_simp+

end
