(* ===== verification/Spec2Isabelle.thy ===== *)
theory Spec2Isabelle
  imports Policy Stats SnmpAgent Confparse Netutil StoreLaws AdoptLaws RoutesLaws Blackholes AccountLaws HostLaws ClientLaws
    TuiLaws Webhook
begin

text \<open>
  A verification development for \<open>wireguardd\<close>, a daemon that manages WireGuard and AmneziaWG
  interfaces: administrators write interfaces and peers into a SQLite database over an HTTP API, a
  reconciler brings the devices of the host to that state, enforces traffic quotas and expiry,
  samples the counters and exports \<open>wg-quick\<close> files, and an SNMP agent publishes the statistics.

  Data flow.  The handlers of the API change the rows of \<open>Store\<close>; every few seconds
  \<open>Reconciler.run\<close> reads all rows, decides with \<open>Policy\<close> which peers to cut off, drives a backend
  (\<open>Contract\<close>, for tests \<open>MockBackend\<close>), accounts the live counters with \<open>Stats\<close>, renders files with
  \<open>Confparse\<close> and purges history; \<open>SnmpAgent\<close> answers from the cache of \<open>Stats\<close>.

  The theories, with the Go files under \<open>src/internal\<close> they model:

  \<^item> \<open>Prelude\<close>: Go's \<open>int64\<close> (integers with the wrap-around \<open>i64\<close> written out), strings as lists of
    bytes, the functions of \<open>strings\<close> and \<open>strconv\<close> the code calls, shared facts about lists and words.
  \<^item> \<open>GoTime\<close>: instants as nanoseconds since year 1, durations, RFC 3339 formatting and parsing.
  \<^item> \<open>Models\<close> (\<open>db/models.go\<close>): the rows, one record field for each column.
  \<^item> \<open>Policy\<close> (\<open>policy/policy.go\<close>): quota, expiry and bandwidth decisions.
  \<^item> \<open>Stats\<close> (\<open>stats/*.go\<close>): lifetime counters across counter resets, rates, windows, the cache.
  \<^item> \<open>SnmpBer\<close>, \<open>SnmpPdu\<close>, \<open>SnmpMib\<close>, \<open>SnmpAgent\<close> (\<open>snmp/*.go\<close>): the BER codec over 8-bit words,
    messages, the sorted MIB with its binary search, and the handling of one packet.
  \<^item> \<open>Netutil\<close> (\<open>netutil/ip.go\<close>, \<open>reserved.go\<close>): addresses, prefixes, the allocation of the next free
    host and the names the host reserves.
  \<^item> \<open>Confparse\<close> (\<open>confparse/*.go\<close>): the parser and the renderer of configuration files.
  \<^item> \<open>Store\<close>, \<open>StoreLaws\<close> (\<open>db/interfaces.go\<close>, \<open>peers.go\<close>, \<open>samples.go\<close>, \<open>events.go\<close>): every statement on the
    four tables with the constraints of the schema as a function on a record of tables; reachable
    databases, their invariant \<open>db_ok\<close>, and the laws of the operations.
  \<^item> \<open>Amnezia\<close> (\<open>wgbackend/amnezia.go\<close>, \<open>resolve.go\<close>): names, obfuscation parameters, choice of backend.
  \<^item> \<open>Backend\<close> (\<open>wgbackend/backend.go\<close>, \<open>dns_apply.go\<close>, \<open>mux.go\<close>): the data a backend works on, DNS
    lists, and the nft rule set that lets AmneziaWG share a WireGuard port.
  \<^item> \<open>Contract\<close>: the interface \<open>wgbackend.Backend\<close> as a record of operations, and what its clients rely
    on as the locales \<open>backend\<close> (frame conditions) and \<open>healthy_backend\<close> (requests take effect).
  \<^item> \<open>MockBackend\<close> (\<open>wgbackend/mock_backend.go\<close>): the mock, which interprets both locales.
  \<^item> \<open>Reconciler\<close>, \<open>ReconcilerLaws\<close>, \<open>ReconcilerDevices\<close> (\<open>reconcile/*.go\<close>): one pass step by step,
    what it does to the database for every backend, and what it does to the devices for every backend that keeps the
    contract; then the whole daemon as a step relation of requests, passes and compaction.

  \<^item> \<open>StoreMap\<close>: the rows of peers as a map from interface and key, and every statement as the change of
    that map it makes.
  \<^item> \<open>Wgutil\<close> (\<open>pkg/wgutil/pubkey.go\<close>): keys as base64 text and in paths.
  \<^item> \<open>ApiPeers\<close>, \<open>ApiLaws\<close> (\<open>api/handlers_peers.go\<close>): the handlers of peers, and what a request followed by the
    pass it forces leaves in the database and on the devices.
  \<^item> \<open>ApiInterfaces\<close>, \<open>ApiIfaceLaws\<close> (\<open>api/handlers_interfaces.go\<close>, \<open>amnezia.go\<close>): the same for interfaces, with
    pairs, import and export.
  \<^item> \<open>Adopt\<close>, \<open>AdoptLaws\<close> (\<open>adopt/adopt.go\<close>, \<open>api/handlers_adopt.go\<close>): plans for the devices found on the host,
    and what adopting them changes.
  \<^item> \<open>DaemonConf\<close> (\<open>config/daemon.go\<close>, \<open>ctl.go\<close>): both configurations, their defaults, checks and derived values.
  \<^item> \<open>ApiStats\<close>, \<open>ApiRouter\<close> (\<open>api/handlers_stats.go\<close>, \<open>handlers_health.go\<close>, \<open>handlers_keys.go\<close>, \<open>handlers_backends.go\<close>,
    \<open>server.go\<close>, \<open>middleware.go\<close>, \<open>encode.go\<close>): the other handlers, and the whole server as a function from a request and the
    state of the daemon.
  \<^item> \<open>ApiClient\<close>, \<open>ClientLaws\<close> (\<open>pkg/api/client.go\<close>, \<open>errors.go\<close>): the request of every call of the client library, and that
    it has the effect of its handler.
  \<^item> \<open>TuiForm\<close>, \<open>TuiModel\<close>, \<open>TuiLaws\<close> (\<open>tui/form.go\<close>, \<open>commands.go\<close>, \<open>model_root.go\<close>): the terminal client, as the update
    function of its model, and its sessions with the user and the daemon as a step relation.
  \<^item> \<open>Webhook\<close> (\<open>webhook/webhook.go\<close>): the filters, the bounded queue and its worker, with the callers and the shutdown as a
    step relation.

  The host backend, all under \<open>wgbackend\<close>, over a record of the commands, files and the clock of the host:

  \<^item> \<open>HostCmd\<close>: a runner of commands as a function on the state of the host, and how callers read its results.
  \<^item> \<open>Routes\<close>, \<open>RoutesLaws\<close> (\<open>table_routes.go\<close>): wanted routes and rules, and the synchronisation of both.
  \<^item> \<open>Blackholes\<close> (\<open>routes.go\<close>): the blackholes of suspended peers with their cache.
  \<^item> \<open>TcLimits\<close>, \<open>TcLaws\<close> (\<open>tc_limits.go\<close>): classes and filters of limited peers, their numbers (32-bit words), and
    the account the backend keeps of them.
  \<^item> \<open>NftLimits\<close>, \<open>DnsApply\<close>, \<open>AccountLaws\<close> (\<open>nft_limits.go\<close>, \<open>dns_apply.go\<close>): the same for tables of nft and for the
    resolver of the host.
  \<^item> \<open>HostLink\<close> (\<open>exec.go\<close>, \<open>resolve.go\<close>, \<open>create_link.go\<close>, \<open>netlink_addrs.go\<close>, \<open>wg_cli.go\<close>): links, their kinds and
    addresses, the data planes in user space, and the command-line tools.
  \<^item> \<open>DeviceDump\<close> (\<open>device_dump.go\<close>): what the tools print of a device, read back.
  \<^item> \<open>HostPeers\<close> (\<open>wgctrl_backend.go\<close>, \<open>uapi_set.go\<close>): the configuration sent for an interface and its peers.
  \<^item> \<open>HostBackend\<close>, \<open>HostLaws\<close> (\<open>wgctrl_backend.go\<close>): the backend itself with everything it remembers, every method of
    it, and what holds however it is driven.

  What the properties show.  On the devices: convergence, safety of devices that are not the
  daemon's, removal of stale ones.  On enforcement: who is suspended after a pass, and that nothing
  else an administrator set is changed.  On accounting: the lifetime counter neither loses nor
  invents traffic, windows, purging and thinning.  On the database: integrity over every sequence of
  operations, atomic imports, cascades, commuting writers.  On the codecs: round trips and error
  behaviour of the configuration files and of SNMP, and that a walk of the MIB ends after visiting
  every leaf once.  On requests: for each handler the state it leaves after
  the forced pass, and that a refused one changes nothing; that an adoption leaves reserved and known
  interfaces alone and cuts nobody off; that only a request with the token changes anything, and none in read-only mode; and
  that each call of the client library arrives at its handler with its arguments.  On addresses: the allocator only gives free hosts and finds one when there is one.
  On the host: under the documented effect of the commands, what a synchronisation that reports no error leaves in the
  kernel (peers, routes, blackholes) and in the resolver, and which commands it issues for the tables of \<open>nft\<close>; that routing
  touches only the routes and rules of its own interface; and that no two peers of an interface share a class however the commands fail.
  Of the filters of \<open>tc\<close> and of the addresses of a link the development shows no effect on the host, only the lemmas of \<open>TcLaws\<close>
  about the account of classes, and where the code goes wrong.
  On the terminal client: it starts one change at a time, deletes nothing unconfirmed, and panics only where a page down has lost the
  cursor.  On webhooks: events are taken in order, once, and within the bound of the queue.

  Bounds and fuel.  No definition runs on fuel: the loops of the allocator, of thinning, of purging
  and of the walk are recursive functions with a measure.  Waiting for a link (\<open>wait_link\<close>) polls until a deadline
  and is a partial function, shown in \<open>HostLink\<close> to return as long as sleeping takes time.  The search for a free class takes as many
  steps as the band has numbers; of its 4079 numbers at least 2040 are always reached from the hash of a key, so the laws of
  classes are stated for at most 1020 peers on an interface (each may hold one old and one new class).  The parser of configuration files reads
  lines of at most 65535 bytes as \<open>bufio.Scanner\<close> does.

  Conventions.  A Go map is an association list or a function on keys; a failing call returns the
  sum type's left side, or \<open>Some\<close> error; readings of the clock are parameters, one for each
  operation; \<open>float64\<close> is read as a real number.  Code outside the repository is a parameter: the
  JSON codec, the router of requests, the reader of configuration files, the commands of the host, the kernel behind a backend.

  Not modelled.  The SQLite driver with its files and locks (and so failing statements), goroutines,
  tickers and mutexes, the transport of HTTP and of webhooks, the metrics exporter, what the terminal client draws, its library of text
  fields and the command line, the key generation of Curve25519, the kernel behind the
  commands and the configuration client, and the download of updates: input and output around libraries.
\<close>

end
